(* ===== verification/Prelude.thy ===== *)
theory Prelude
  imports Main "HOL-Library.Product_Lexorder"
begin

text \<open>
  What every component of the development shares: the effect type of the service code
  (a state transformer that may throw), its sequencing, exception handling and loops, the
  relational reasoning principle \<open>safe\<close> with the locale of the preorders it is used with,
  and the row operations of the SQL statements (WHERE, UPDATE, DELETE, ORDER BY, LIMIT).
\<close>

section \<open>Base types and errors\<close>

text \<open>
  UUIDs are opaque 128-bit numbers; their canonical text form (fixed length, lower-case
  hexadecimal) is ordered as the numbers are, so \<open>id::text < ...\<close> is \<open><\<close> on \<open>nat\<close>.
  A \<open>Date\<close> is its millisecond count since the epoch.
\<close>

type_synonym uuid = nat
type_synonym time = int

text \<open>
  What the code throws: an \<open>ApiError\<close> (status, code, message) of packages/shared, a database
  error with its SQLSTATE, a \<open>ServerSdkError\<close> (code, message, retryable) of packages/server-sdk,
  or a plain \<open>Error\<close> with its message.
\<close>

datatype err =
    ApiError nat string string
  | DbError string
  | ServerSdkError string string bool
  | PlainError string

section \<open>Effects\<close>

text \<open>
  An action reads and changes the world and either throws or returns. The world after a throw
  is kept: effects that happened before the throw stay, unless a transaction undoes them.
\<close>

type_synonym ('w, 'a) act = "'w \<Rightarrow> (err + 'a) \<times> 'w"

named_theorems run_simps "unfolding of the effect combinators on a world"
named_theorems safe_intros "introduction rules for safe"

definition ret :: "'a \<Rightarrow> ('w, 'a) act" where
  "ret x = (\<lambda>w. (Inr x, w))"

definition throw :: "err \<Rightarrow> ('w, 'a) act" where
  "throw e = (\<lambda>w. (Inl e, w))"

definition bind :: "('w, 'a) act \<Rightarrow> ('a \<Rightarrow> ('w, 'b) act) \<Rightarrow> ('w, 'b) act" where
  "bind m f = (\<lambda>w. case m w of (Inl e, w') \<Rightarrow> (Inl e, w') | (Inr x, w') \<Rightarrow> f x w')"

definition gets :: "('w \<Rightarrow> 'a) \<Rightarrow> ('w, 'a) act" where
  "gets f = (\<lambda>w. (Inr (f w), w))"

definition modify :: "('w \<Rightarrow> 'w) \<Rightarrow> ('w, unit) act" where
  "modify f = (\<lambda>w. (Inr (), f w))"

text \<open>\<open>try { m } catch (e) { h e }\<close>.\<close>

definition try_catch :: "('w, 'a) act \<Rightarrow> (err \<Rightarrow> ('w, 'a) act) \<Rightarrow> ('w, 'a) act" where
  "try_catch m h = (\<lambda>w. case m w of (Inl e, w') \<Rightarrow> h e w' | (Inr x, w') \<Rightarrow> (Inr x, w'))"

definition whenever :: "bool \<Rightarrow> ('w, unit) act \<Rightarrow> ('w, unit) act" where
  "whenever b m = (if b then m else ret ())"

primrec for_each :: "'x list \<Rightarrow> ('x \<Rightarrow> ('w, unit) act) \<Rightarrow> ('w, unit) act" where
  "for_each [] f = ret ()"
| "for_each (x # xs) f = bind (f x) (\<lambda>_. for_each xs f)"

primrec map_each :: "'x list \<Rightarrow> ('x \<Rightarrow> ('w, 'y) act) \<Rightarrow> ('w, 'y list) act" where
  "map_each [] f = ret []"
| "map_each (x # xs) f = bind (f x) (\<lambda>y. bind (map_each xs f) (\<lambda>ys. ret (y # ys)))"

lemma ret_run [run_simps]: "ret x w = (Inr x, w)"
  by (simp add: ret_def)

lemma throw_run [run_simps]: "throw e w = (Inl e, w)"
  by (simp add: throw_def)

lemma bind_run [run_simps]:
  "bind m f w = (case m w of (Inl e, w') \<Rightarrow> (Inl e, w') | (Inr x, w') \<Rightarrow> f x w')"
  by (simp add: bind_def)

lemma gets_run [run_simps]: "gets f w = (Inr (f w), w)"
  by (simp add: gets_def)

lemma modify_run [run_simps]: "modify f w = (Inr (), f w)"
  by (simp add: modify_def)

lemma try_catch_run [run_simps]:
  "try_catch m h w = (case m w of (Inl e, w') \<Rightarrow> h e w' | (Inr x, w') \<Rightarrow> (Inr x, w'))"
  by (simp add: try_catch_def)

lemma whenever_run [run_simps]: "whenever b m w = (if b then m w else (Inr (), w))"
  by (simp add: whenever_def ret_def)

lemma for_each_run [run_simps]:
  "for_each [] f w = (Inr (), w)"
  "for_each (x # xs) f w = (case f x w of (Inl e, w') \<Rightarrow> (Inl e, w') | (Inr _, w') \<Rightarrow> for_each xs f w')"
  by (simp_all add: ret_def bind_def)

text \<open>A run that returned went through both halves of a \<open>bind\<close>.\<close>

lemma bind_Inr_E:
  assumes "bind m f w = (Inr y, w')"
  obtains x v where "m w = (Inr x, v)" and "f x v = (Inr y, w')"
  using assms by (auto simp: bind_def split: prod.splits sum.splits)

lemma bind_InrD: "bind m f w = (Inr y, w') \<Longrightarrow> \<exists>x v. m w = (Inr x, v) \<and> f x v = (Inr y, w')"
  by (auto elim: bind_Inr_E)

lemma bind_eq_if_ret: "m w = (Inr x, v) \<Longrightarrow> bind m f w = f x v"
  by (simp add: bind_def)

lemma bind_eq_if_throw: "m w = (Inl e, v) \<Longrightarrow> bind m f w = (Inl e, v)"
  by (simp add: bind_def)

section \<open>Relations every run respects\<close>

text \<open>
  \<open>safe R m\<close>: whatever \<open>m\<close> does, throwing included, the worlds before and after are related
  by \<open>R\<close>. With \<open>R\<close> a preorder this goes through sequencing, and it covers invariants
  (\<open>P w \<longrightarrow> P w'\<close>), fields that do not change and facts that only grow.
\<close>

definition safe :: "('w \<Rightarrow> 'w \<Rightarrow> bool) \<Rightarrow> ('w, 'a) act \<Rightarrow> bool" where
  "safe R m \<longleftrightarrow> (\<forall>w. R w (snd (m w)))"

lemma safeI: "(\<And>w. R w (snd (m w))) \<Longrightarrow> safe R m"
  by (simp add: safe_def)

lemma safeD: "safe R m \<Longrightarrow> R w (snd (m w))"
  by (simp add: safe_def)

lemma safe_run: "safe R m \<Longrightarrow> m w = (r, w') \<Longrightarrow> R w w'"
  using safeD [of R m w] by simp

lemma safe_modify: "(\<And>w. R w (f w)) \<Longrightarrow> safe R (modify f)"
  by (simp add: safe_def modify_def)

lemma safe_if [safe_intros]:
  "(b \<Longrightarrow> safe R m) \<Longrightarrow> (\<not> b \<Longrightarrow> safe R n) \<Longrightarrow> safe R (if b then m else n)"
  by simp

lemma safe_case_option [safe_intros]:
  "safe R m \<Longrightarrow> (\<And>y. safe R (f y)) \<Longrightarrow> safe R (case x of None \<Rightarrow> m | Some y \<Rightarrow> f y)"
  by (cases x) auto

lemma safe_case_prod [safe_intros]:
  "(\<And>a b. safe R (f a b)) \<Longrightarrow> safe R (case x of (a, b) \<Rightarrow> f a b)"
  by (cases x) auto

lemma safe_case_list [safe_intros]:
  "safe R m \<Longrightarrow> (\<And>y ys. safe R (f y ys)) \<Longrightarrow> safe R (case x of [] \<Rightarrow> m | y # ys \<Rightarrow> f y ys)"
  by (cases x) auto

lemma safe_case_sum [safe_intros]:
  "(\<And>a. safe R (f a)) \<Longrightarrow> (\<And>b. safe R (g b)) \<Longrightarrow> safe R (case x of Inl a \<Rightarrow> f a | Inr b \<Rightarrow> g b)"
  by (cases x) auto

lemma safe_Let [safe_intros]: "safe R (f x) \<Longrightarrow> safe R (Let x f)"
  by simp

locale effect_order =
  fixes R :: "'w \<Rightarrow> 'w \<Rightarrow> bool"
  assumes order_refl: "R w w"
    and order_trans: "R a b \<Longrightarrow> R b c \<Longrightarrow> R a c"
begin

lemma safe_ret [safe_intros]: "safe R (ret x)"
  by (simp add: safe_def ret_def order_refl)

lemma safe_throw [safe_intros]: "safe R (throw e)"
  by (simp add: safe_def throw_def order_refl)

lemma safe_gets [safe_intros]: "safe R (gets f)"
  by (simp add: safe_def gets_def order_refl)

lemma safe_bind [safe_intros]:
  assumes "safe R m" and "\<And>x. safe R (f x)"
  shows "safe R (bind m f)"
proof (rule safeI)
  fix w
  obtain r v where v: "m w = (r, v)" by (cases "m w")
  with assms(1) have "R w v" by (rule safe_run)
  then show "R w (snd (bind m f w))"
    using order_trans [of w v] safeD [OF assms(2)] v
    by (cases r) (auto simp: bind_def)
qed

lemma safe_try_catch [safe_intros]:
  assumes "safe R m" and "\<And>e. safe R (h e)"
  shows "safe R (try_catch m h)"
proof (rule safeI)
  fix w
  obtain r v where v: "m w = (r, v)" by (cases "m w")
  with assms(1) have "R w v" by (rule safe_run)
  then show "R w (snd (try_catch m h w))"
    using order_trans [of w v] safeD [OF assms(2)] v
    by (cases r) (auto simp: try_catch_def)
qed

lemma safe_whenever [safe_intros]: "(b \<Longrightarrow> safe R m) \<Longrightarrow> safe R (whenever b m)"
  by (auto simp: whenever_def intro: safe_ret)

lemma safe_for_each [safe_intros]: "(\<And>x. safe R (f x)) \<Longrightarrow> safe R (for_each xs f)"
  by (induction xs) (auto intro: safe_ret safe_bind)

lemma safe_map_each [safe_intros]: "(\<And>x. safe R (f x)) \<Longrightarrow> safe R (map_each xs f)"
  by (induction xs) (auto intro!: safe_ret safe_bind)

end

section \<open>What a run may throw\<close>

definition throws_only :: "(err \<Rightarrow> bool) \<Rightarrow> ('w, 'a) act \<Rightarrow> bool" where
  "throws_only P m \<longleftrightarrow> (\<forall>w e w'. m w = (Inl e, w') \<longrightarrow> P e)"

named_theorems throws_intros "introduction rules for throws_only"

lemma throws_onlyD: "throws_only P m \<Longrightarrow> m w = (Inl e, w') \<Longrightarrow> P e"
  by (auto simp: throws_only_def)

lemma throws_ret [throws_intros]: "throws_only P (ret x)"
  by (simp add: throws_only_def ret_def)

lemma throws_throw: "P e \<Longrightarrow> throws_only P (throw e)"
  by (simp add: throws_only_def throw_def)

lemma throws_gets [throws_intros]: "throws_only P (gets f)"
  by (simp add: throws_only_def gets_def)

lemma throws_modify [throws_intros]: "throws_only P (modify f)"
  by (simp add: throws_only_def modify_def)

lemma throws_bind [throws_intros]:
  "throws_only P m \<Longrightarrow> (\<And>x. throws_only P (f x)) \<Longrightarrow> throws_only P (bind m f)"
  by (auto simp: throws_only_def bind_def split: prod.splits sum.splits)

lemma throws_whenever [throws_intros]: "(b \<Longrightarrow> throws_only P m) \<Longrightarrow> throws_only P (whenever b m)"
  by (auto simp: throws_only_def whenever_def ret_def)

lemma throws_if [throws_intros]:
  "(b \<Longrightarrow> throws_only P m) \<Longrightarrow> (\<not> b \<Longrightarrow> throws_only P n) \<Longrightarrow> throws_only P (if b then m else n)"
  by simp

lemma throws_case_option [throws_intros]:
  "throws_only P m \<Longrightarrow> (\<And>y. throws_only P (f y)) \<Longrightarrow> throws_only P (case x of None \<Rightarrow> m | Some y \<Rightarrow> f y)"
  by (cases x) auto

lemma throws_Let [throws_intros]: "throws_only P (f x) \<Longrightarrow> throws_only P (Let x f)"
  by simp

section \<open>Rows\<close>

text \<open>
  A table is the list of its rows, in the order they were inserted. \<open>UPDATE ... SET ... WHERE\<close>,
  \<open>DELETE ... WHERE\<close>, \<open>ORDER BY ... DESC\<close>; \<open>SELECT ... WHERE\<close> is \<open>filter\<close>, \<open>LIMIT n\<close> is
  \<open>take n\<close> and \<open>SELECT ... LIMIT 1\<close> is \<open>List.find\<close>. Where SQL leaves the order of rows open the
  model takes the order of insertion.
\<close>

definition update_where :: "('r \<Rightarrow> bool) \<Rightarrow> ('r \<Rightarrow> 'r) \<Rightarrow> 'r list \<Rightarrow> 'r list" where
  "update_where p f rs = map (\<lambda>r. if p r then f r else r) rs"

definition delete_where :: "('r \<Rightarrow> bool) \<Rightarrow> 'r list \<Rightarrow> 'r list" where
  "delete_where p rs = filter (\<lambda>r. \<not> p r) rs"

definition order_desc :: "('r \<Rightarrow> 'k::linorder) \<Rightarrow> 'r list \<Rightarrow> 'r list" where
  "order_desc k rs = rev (sort_key k rs)"

definition first_row :: "'r list \<Rightarrow> 'r option" where
  "first_row rs = (case rs of [] \<Rightarrow> None | r # _ \<Rightarrow> Some r)"

lemma set_update_where: "set (update_where p f rs) = {if p r then f r else r | r. r \<in> set rs}"
  by (auto simp: update_where_def)

lemma in_update_where: "r \<in> set rs \<Longrightarrow> (if p r then f r else r) \<in> set (update_where p f rs)"
  by (simp add: update_where_def)

lemma update_whereE:
  assumes "r \<in> set (update_where p f rs)"
  obtains q where "q \<in> set rs" "r = (if p q then f q else q)"
  using assms by (auto simp: update_where_def)

lemma length_update_where [simp]: "length (update_where p f rs) = length rs"
  by (simp add: update_where_def)

lemma map_update_where [simp]:
  "(\<And>r. g (f r) = g r) \<Longrightarrow> map g (update_where p f rs) = map g rs"
  by (simp add: update_where_def)

lemma update_where_append [simp]:
  "update_where p f (rs @ qs) = update_where p f rs @ update_where p f qs"
  by (simp add: update_where_def)

lemma update_where_Nil [simp]: "update_where p f [] = []"
  by (simp add: update_where_def)

lemma update_where_Cons [simp]:
  "update_where p f (r # rs) = (if p r then f r else r) # update_where p f rs"
  by (simp add: update_where_def)

lemma update_where_none: "(\<And>r. r \<in> set rs \<Longrightarrow> \<not> p r) \<Longrightarrow> update_where p f rs = rs"
  by (induction rs) auto

lemma filter_update_where_unaffected:
  "(\<And>r. r \<in> set rs \<Longrightarrow> p r \<Longrightarrow> \<not> q (f r) \<and> \<not> q r) \<Longrightarrow>
   filter q (update_where p f rs) = filter q rs"
  by (induction rs) auto

lemma set_delete_where [simp]: "set (delete_where p rs) = {r \<in> set rs. \<not> p r}"
  by (auto simp: delete_where_def)

lemma set_order_desc [simp]: "set (order_desc k rs) = set rs"
  by (simp add: order_desc_def)

lemma length_order_desc [simp]: "length (order_desc k rs) = length rs"
  by (simp add: order_desc_def)

lemma find_None: "List.find p rs = None \<longleftrightarrow> (\<forall>r \<in> set rs. \<not> p r)"
  by (auto simp: find_None_iff)

lemma find_SomeD: "List.find p rs = Some r \<Longrightarrow> r \<in> set rs \<and> p r"
  by (induction rs) (auto split: if_splits)

lemma find_unique:
  assumes "r \<in> set rs" and "p r" and "\<And>q. q \<in> set rs \<Longrightarrow> p q \<Longrightarrow> q = r"
  shows "List.find p rs = Some r"
proof (cases "List.find p rs")
  case None
  with assms(1,2) show ?thesis by (auto simp: find_None)
next
  case (Some q)
  with assms(3) show ?thesis by (auto dest: find_SomeD)
qed

lemma find_append: "List.find p (rs @ qs) =
    (case List.find p rs of None \<Rightarrow> List.find p qs | Some r \<Rightarrow> Some r)"
  by (induction rs) auto

lemma distinct_map_eqD:
  "distinct (map f xs) \<Longrightarrow> x \<in> set xs \<Longrightarrow> y \<in> set xs \<Longrightarrow> f x = f y \<Longrightarrow> x = y"
  by (meson distinct_map inj_onD)

lemma first_row_simps [simp]: "first_row [] = None" "first_row (r # rs) = Some r"
  by (simp_all add: first_row_def)

lemma first_row_in: "first_row rs = Some r \<Longrightarrow> r \<in> set rs"
  by (auto simp: first_row_def split: list.splits)

lemma first_row_None [simp]: "first_row rs = None \<longleftrightarrow> rs = []"
  by (auto simp: first_row_def split: list.splits)

end
