(* ===== verification/Schema.thy ===== *)
theory Schema
  imports Json
begin

text \<open>
  The database of packages/db/src/schema.ts: one record type per table with its columns, the
  database as the record of the tables, the unique and foreign-key constraints the statements can
  violate, and the world the services run in (database, clock, random draws, Redis, emitted
  notifications), with the statements on it (\<open>insert_row\<close>, \<open>update_rows\<close>, \<open>delete_rows\<close>,
  \<open>transaction\<close>).

  Unique columns carry the prefix of their table. A column that may be NULL is an \<open>option\<close>.
\<close>

section \<open>Tables\<close>

record user_row =
  u_id :: uuid
  u_status :: string
  u_deletedAt :: "time option"
  u_deletionRequestedAt :: "time option"
  u_deletionDueAt :: "time option"
  u_createdAt :: time

record email_row =
  em_id :: uuid
  em_userId :: uuid
  em_email :: string
  em_isPrimary :: bool
  em_isVerified :: bool
  em_createdAt :: time

record password_row =
  pw_userId :: uuid
  pw_passwordHash :: string
  pw_updatedAt :: time

record profile_row =
  pf_userId :: uuid
  pf_displayName :: "string option"
  pf_givenName :: "string option"
  pf_familyName :: "string option"
  pf_preferredUsername :: "string option"
  pf_locale :: "string option"
  pf_zoneinfo :: "string option"
  pf_updatedAt :: time

record webauthn_data =
  wd_credentialID :: string
  wd_publicKey :: string
  wd_counter :: nat
  wd_transports :: "string list option"

record factor_row =
  mf_id :: uuid
  mf_userId :: uuid
  mf_type :: string
  mf_name :: "string option"
  mf_secret :: "string option"
  mf_webauthnData :: "webauthn_data option"
  mf_enabled :: bool
  mf_createdAt :: time

record recovery_row =
  rc_id :: uuid
  rc_userId :: uuid
  rc_batchId :: uuid
  rc_lookupHash :: string
  rc_codeHash :: string
  rc_lastChars :: string
  rc_usedAt :: "time option"
  rc_revokedAt :: "time option"
  rc_createdAt :: time

record identity_row =
  xi_id :: uuid
  xi_userId :: uuid
  xi_provider :: string
  xi_providerSubject :: string
  xi_email :: "string option"
  xi_isEmailVerified :: bool
  xi_createdAt :: time

record session_row =
  us_id :: uuid
  us_userId :: uuid
  us_accessTokenHash :: string
  us_refreshTokenHash :: string
  us_ipAddress :: "string option"
  us_userAgent :: "string option"
  us_expiresAt :: time
  us_refreshExpiresAt :: time
  us_revokedAt :: "time option"
  us_lastSeenAt :: time
  us_createdAt :: time

record attempt_row =
  la_id :: uuid
  la_email :: string
  la_success :: bool
  la_reason :: "string option"
  la_ipAddress :: "string option"
  la_createdAt :: time

text \<open>\<open>password_reset_tokens\<close> and \<open>email_verification_tokens\<close> have the same columns.\<close>

record token_row =
  tk_id :: uuid
  tk_userId :: uuid
  tk_tokenHash :: string
  tk_expiresAt :: time
  tk_consumedAt :: "time option"
  tk_createdAt :: time

record role_row =
  ro_id :: uuid
  ro_key :: string
  ro_name :: string
  ro_createdAt :: time

record permission_row =
  pe_id :: uuid
  pe_key :: string
  pe_createdAt :: time

record role_permission_row =
  rp_roleId :: uuid
  rp_permissionId :: uuid

record user_role_row =
  ur_userId :: uuid
  ur_roleId :: uuid

record organization_row =
  og_id :: uuid
  og_key :: string
  og_name :: string
  og_createdAt :: time

record group_row =
  gr_id :: uuid
  gr_organizationId :: uuid
  gr_key :: string
  gr_name :: string
  gr_createdAt :: time

record membership_row =
  gm_userId :: uuid
  gm_groupId :: uuid
  gm_createdAt :: time

record group_role_row =
  gl_groupId :: uuid
  gl_roleId :: uuid
  gl_createdAt :: time

record entitlement_row =
  en_id :: uuid
  en_key :: string
  en_enabled :: bool
  en_value :: json
  en_userId :: "uuid option"
  en_groupId :: "uuid option"
  en_organizationId :: "uuid option"
  en_expiresAt :: "time option"
  en_createdAt :: time

record event_row =
  se_id :: uuid
  se_userId :: "uuid option"
  se_eventType :: string
  se_payload :: json
  se_createdAt :: time
  se_micros :: nat

record audit_row =
  au_id :: uuid
  au_actorUserId :: "uuid option"
  au_action :: string
  au_resourceType :: string
  au_resourceId :: "string option"
  au_payload :: json
  au_prevHash :: "string option"
  au_entryHash :: "string option"
  au_integrityVersion :: nat
  au_createdAt :: time
  au_micros :: nat

record key_row =
  sk_kid :: uuid
  sk_alg :: string
  sk_privateKeyPem :: string
  sk_publicKeyPem :: string
  sk_isActive :: bool
  sk_rotatedFromKid :: "uuid option"
  sk_rotationReason :: "string option"
  sk_rotatedBy :: "uuid option"
  sk_createdAt :: time
  sk_expiresAt :: "time option"
  sk_revokedAt :: "time option"

record hold_row =
  lh_id :: uuid
  lh_userId :: uuid
  lh_reason :: string
  lh_expiresAt :: "time option"
  lh_createdAt :: time

record config_row =
  sc_key :: string
  sc_value :: json
  sc_updatedAt :: time

record client_row =
  oc_id :: uuid
  oc_clientId :: string
  oc_name :: string
  oc_clientType :: string
  oc_tokenEndpointAuthMethod :: string
  oc_status :: string
  oc_accessTokenTtlSeconds :: "int option"
  oc_refreshTokenTtlSeconds :: "int option"
  oc_createdAt :: time
  oc_updatedAt :: time

record secret_row =
  os_id :: uuid
  os_clientPkId :: uuid
  os_secretHash :: string
  os_secretHint :: string
  os_isPrimary :: bool
  os_expiresAt :: "time option"
  os_graceUntil :: "time option"
  os_revokedAt :: "time option"
  os_createdAt :: time

record redirect_row =
  ou_id :: uuid
  ou_clientPkId :: uuid
  ou_redirectUri :: string
  ou_createdAt :: time

record scope_row =
  ox_id :: uuid
  ox_clientPkId :: uuid
  ox_scope :: string
  ox_createdAt :: time

record client_audit_row =
  oa_id :: uuid
  oa_clientPkId :: "uuid option"
  oa_actorUserId :: "uuid option"
  oa_eventType :: string
  oa_payload :: json
  oa_createdAt :: time

record oidc_row =
  oi_id :: string
  oi_model :: string
  oi_payload :: json
  oi_grantId :: "string option"
  oi_userCode :: "string option"
  oi_uid :: "string option"
  oi_expiresAt :: time
  oi_consumedAt :: "time option"
  oi_createdAt :: time
  oi_updatedAt :: time

record database =
  users :: "user_row list"
  userEmails :: "email_row list"
  userPasswords :: "password_row list"
  userProfiles :: "profile_row list"
  mfaFactors :: "factor_row list"
  mfaRecoveryCodes :: "recovery_row list"
  externalIdentities :: "identity_row list"
  userSessions :: "session_row list"
  loginAttempts :: "attempt_row list"
  passwordResetTokens :: "token_row list"
  emailVerificationTokens :: "token_row list"
  roles :: "role_row list"
  permissions :: "permission_row list"
  rolePermissions :: "role_permission_row list"
  userRoles :: "user_role_row list"
  organizations :: "organization_row list"
  groups :: "group_row list"
  groupMemberships :: "membership_row list"
  groupRoles :: "group_role_row list"
  entitlements :: "entitlement_row list"
  securityEvents :: "event_row list"
  auditLogs :: "audit_row list"
  signingKeys :: "key_row list"
  legalHolds :: "hold_row list"
  systemConfigs :: "config_row list"
  oauthClients :: "client_row list"
  oauthClientSecrets :: "secret_row list"
  oauthClientRedirectUris :: "redirect_row list"
  oauthClientScopes :: "scope_row list"
  oauthClientAuditLogs :: "client_audit_row list"
  oidcProviderStates :: "oidc_row list"

definition empty_database :: database where
  "empty_database = \<lparr>users = [], userEmails = [], userPasswords = [], userProfiles = [],
     mfaFactors = [], mfaRecoveryCodes = [], externalIdentities = [], userSessions = [],
     loginAttempts = [], passwordResetTokens = [], emailVerificationTokens = [], roles = [],
     permissions = [], rolePermissions = [], userRoles = [], organizations = [], groups = [],
     groupMemberships = [], groupRoles = [], entitlements = [], securityEvents = [],
     auditLogs = [], signingKeys = [], legalHolds = [], systemConfigs = [], oauthClients = [],
     oauthClientSecrets = [], oauthClientRedirectUris = [], oauthClientScopes = [],
     oauthClientAuditLogs = [], oidcProviderStates = []\<rparr>"

section \<open>The world\<close>

text \<open>
  What the process hands to the outside besides the database: the security-event callback of the
  options, the metrics counters and the log lines.
\<close>

datatype io_event =
    SecurityHook string "uuid option" json
  | Metric string "string list"
  | LogLine string json

text \<open>
  \<open>rnd_text k\<close> is the base64url text of the \<open>k\<close>-th \<open>randomBytes\<close> draw, \<open>rnd_uuid k\<close> the
  \<open>k\<close>-th UUID, \<open>rnd_byte k\<close> the \<open>k\<close>-th single byte; \<open>rnd\<close> counts the draws made. Redis
  holds strings with an optional expiry instant. An instant is in milliseconds, as a \<open>Date\<close> has it;
  the tables whose times the code compares with a \<open>Date\<close> it read keep the microseconds apart.
\<close>

record world =
  db :: database
  clock :: time
  rnd :: nat
  rnd_text :: "nat \<Rightarrow> string"
  rnd_uuid :: "nat \<Rightarrow> uuid"
  rnd_byte :: "nat \<Rightarrow> nat"
  rnd_micros :: "nat \<Rightarrow> nat"
  redis :: "string \<Rightarrow> (string \<times> time option) option"
  emitted :: "io_event list"

type_synonym 'a io = "(world, 'a) act"

definition now :: "time io" where "now = gets clock"

definition read_db :: "(database \<Rightarrow> 'a) \<Rightarrow> 'a io" where "read_db f = gets (\<lambda>w. f (db w))"

definition write_db :: "(database \<Rightarrow> database) \<Rightarrow> unit io" where
  "write_db f = modify (\<lambda>w. w\<lparr>db := f (db w)\<rparr>)"

definition emit :: "io_event \<Rightarrow> unit io" where
  "emit e = modify (\<lambda>w. w\<lparr>emitted := emitted w @ [e]\<rparr>)"

definition draw_text :: "string io" where
  "draw_text = (\<lambda>w. (Inr (rnd_text w (rnd w)), w\<lparr>rnd := Suc (rnd w)\<rparr>))"

definition draw_uuid :: "uuid io" where
  "draw_uuid = (\<lambda>w. (Inr (rnd_uuid w (rnd w)), w\<lparr>rnd := Suc (rnd w)\<rparr>))"

text \<open>The microseconds of the clock of the database, which \<open>clock\<close> leaves out.\<close>

definition now_micros :: "nat io" where
  "now_micros = gets (\<lambda>w. rnd_micros w (rnd w) mod 1000)"

definition draw_byte :: "nat io" where
  "draw_byte = (\<lambda>w. (Inr (rnd_byte w (rnd w)), w\<lparr>rnd := Suc (rnd w)\<rparr>))"

text \<open>\<open>db.transaction(handler)\<close>: a throw restores the database and is passed on.\<close>

definition transaction :: "'a io \<Rightarrow> 'a io" where
  "transaction m = (\<lambda>w. case m w of
       (Inl e, w') \<Rightarrow> (Inl e, w'\<lparr>db := db w\<rparr>)
     | (Inr x, w') \<Rightarrow> (Inr x, w'))"

text \<open>
  INSERT: the row is appended unless the table would break a unique constraint (SQLSTATE 23505)
  or the row references a missing parent (23503).
\<close>

definition insert_row ::
    "(database \<Rightarrow> 'r list) \<Rightarrow> (('r list \<Rightarrow> 'r list) \<Rightarrow> database \<Rightarrow> database) \<Rightarrow>
     ('r list \<Rightarrow> bool) \<Rightarrow> (database \<Rightarrow> 'r \<Rightarrow> bool) \<Rightarrow> 'r \<Rightarrow> unit io" where
  "insert_row tbl upd uniq parent r = (\<lambda>w.
     if \<not> uniq (tbl (db w) @ [r]) then (Inl (DbError ''23505''), w)
     else if \<not> parent (db w) r then (Inl (DbError ''23503''), w)
     else (Inr (), w\<lparr>db := upd (\<lambda>rs. rs @ [r]) (db w)\<rparr>))"

text \<open>UPDATE of columns no unique constraint mentions, and DELETE from a table nothing references.\<close>

definition update_rows ::
    "(('r list \<Rightarrow> 'r list) \<Rightarrow> database \<Rightarrow> database) \<Rightarrow> ('r \<Rightarrow> bool) \<Rightarrow> ('r \<Rightarrow> 'r) \<Rightarrow> unit io" where
  "update_rows upd p f = write_db (upd (update_where p f))"

definition delete_rows ::
    "(('r list \<Rightarrow> 'r list) \<Rightarrow> database \<Rightarrow> database) \<Rightarrow> ('r \<Rightarrow> bool) \<Rightarrow> unit io" where
  "delete_rows upd p = write_db (upd (delete_where p))"

text \<open>UPDATE of unique columns: refused as a whole when the result breaks the constraint.\<close>

definition update_unique ::
    "(database \<Rightarrow> 'r list) \<Rightarrow> (('r list \<Rightarrow> 'r list) \<Rightarrow> database \<Rightarrow> database) \<Rightarrow>
     ('r list \<Rightarrow> bool) \<Rightarrow> ('r \<Rightarrow> bool) \<Rightarrow> ('r \<Rightarrow> 'r) \<Rightarrow> unit io" where
  "update_unique tbl upd uniq p f = (\<lambda>w.
     if uniq (update_where p f (tbl (db w)))
     then (Inr (), w\<lparr>db := upd (update_where p f) (db w)\<rparr>)
     else (Inl (DbError ''23505''), w))"

section \<open>Constraints\<close>

definition user_exists :: "database \<Rightarrow> uuid \<Rightarrow> bool" where
  "user_exists d i \<longleftrightarrow> i \<in> set (map u_id (users d))"

definition uniq_users :: "user_row list \<Rightarrow> bool" where
  "uniq_users rs \<longleftrightarrow> distinct (map u_id rs)"

definition uniq_emails :: "email_row list \<Rightarrow> bool" where
  "uniq_emails rs \<longleftrightarrow> distinct (map em_id rs) \<and> distinct (map em_email rs)"

definition uniq_passwords :: "password_row list \<Rightarrow> bool" where
  "uniq_passwords rs \<longleftrightarrow> distinct (map pw_userId rs)"

definition uniq_factors :: "factor_row list \<Rightarrow> bool" where
  "uniq_factors rs \<longleftrightarrow> distinct (map mf_id rs)"

definition uniq_recovery :: "recovery_row list \<Rightarrow> bool" where
  "uniq_recovery rs \<longleftrightarrow> distinct (map rc_id rs) \<and> distinct (map rc_lookupHash rs)"

definition uniq_identities :: "identity_row list \<Rightarrow> bool" where
  "uniq_identities rs \<longleftrightarrow> distinct (map xi_id rs) \<and>
     distinct (map (\<lambda>r. (xi_provider r, xi_providerSubject r)) rs)"

definition uniq_sessions :: "session_row list \<Rightarrow> bool" where
  "uniq_sessions rs \<longleftrightarrow> distinct (map us_id rs) \<and> distinct (map us_accessTokenHash rs) \<and>
     distinct (map us_refreshTokenHash rs)"

definition uniq_attempts :: "attempt_row list \<Rightarrow> bool" where
  "uniq_attempts rs \<longleftrightarrow> distinct (map la_id rs)"

definition uniq_tokens :: "token_row list \<Rightarrow> bool" where
  "uniq_tokens rs \<longleftrightarrow> distinct (map tk_id rs) \<and> distinct (map tk_tokenHash rs)"

definition uniq_events :: "event_row list \<Rightarrow> bool" where
  "uniq_events rs \<longleftrightarrow> distinct (map se_id rs)"

definition uniq_audit :: "audit_row list \<Rightarrow> bool" where
  "uniq_audit rs \<longleftrightarrow> distinct (map au_id rs)"

definition uniq_keys :: "key_row list \<Rightarrow> bool" where
  "uniq_keys rs \<longleftrightarrow> distinct (map sk_kid rs)"

definition opt_user_exists :: "database \<Rightarrow> uuid option \<Rightarrow> bool" where
  "opt_user_exists d i = (case i of None \<Rightarrow> True | Some u \<Rightarrow> user_exists d u)"

section \<open>Running the statements\<close>

lemma now_run [run_simps]: "now w = (Inr (clock w), w)"
  by (simp add: now_def gets_def)

lemma read_db_run [run_simps]: "read_db f w = (Inr (f (db w)), w)"
  by (simp add: read_db_def gets_def)

lemma write_db_run [run_simps]: "write_db f w = (Inr (), w\<lparr>db := f (db w)\<rparr>)"
  by (simp add: write_db_def modify_def)

lemma emit_run [run_simps]: "emit e w = (Inr (), w\<lparr>emitted := emitted w @ [e]\<rparr>)"
  by (simp add: emit_def modify_def)

lemma draw_text_run [run_simps]:
  "draw_text w = (Inr (rnd_text w (rnd w)), w\<lparr>rnd := Suc (rnd w)\<rparr>)"
  by (simp add: draw_text_def)

lemma draw_uuid_run [run_simps]:
  "draw_uuid w = (Inr (rnd_uuid w (rnd w)), w\<lparr>rnd := Suc (rnd w)\<rparr>)"
  by (simp add: draw_uuid_def)

lemma now_micros_run [run_simps]: "now_micros w = (Inr (rnd_micros w (rnd w) mod 1000), w)"
  by (simp add: now_micros_def gets_def)

lemma draw_byte_run [run_simps]:
  "draw_byte w = (Inr (rnd_byte w (rnd w)), w\<lparr>rnd := Suc (rnd w)\<rparr>)"
  by (simp add: draw_byte_def)

lemma transaction_run [run_simps]:
  "transaction m w = (case m w of
       (Inl e, w') \<Rightarrow> (Inl e, w'\<lparr>db := db w\<rparr>) | (Inr x, w') \<Rightarrow> (Inr x, w'))"
  by (simp add: transaction_def)

lemma insert_row_run [run_simps]:
  "insert_row tbl upd uniq parent r w =
     (if \<not> uniq (tbl (db w) @ [r]) then (Inl (DbError ''23505''), w)
      else if \<not> parent (db w) r then (Inl (DbError ''23503''), w)
      else (Inr (), w\<lparr>db := upd (\<lambda>rs. rs @ [r]) (db w)\<rparr>))"
  by (simp add: insert_row_def)

lemma update_rows_run [run_simps]:
  "update_rows upd p f w = (Inr (), w\<lparr>db := upd (update_where p f) (db w)\<rparr>)"
  by (simp add: update_rows_def write_db_run)

lemma delete_rows_run [run_simps]:
  "delete_rows upd p w = (Inr (), w\<lparr>db := upd (delete_where p) (db w)\<rparr>)"
  by (simp add: delete_rows_def write_db_run)

lemma update_unique_run [run_simps]:
  "update_unique tbl upd uniq p f w =
     (if uniq (update_where p f (tbl (db w)))
      then (Inr (), w\<lparr>db := upd (update_where p f) (db w)\<rparr>)
      else (Inl (DbError ''23505''), w))"
  by (simp add: update_unique_def)

lemma transaction_Inl_db: "transaction m w = (Inl e, w') \<Longrightarrow> db w' = db w"
  by (auto simp: transaction_def split: prod.splits sum.splits)

lemma transaction_Inr: "transaction m w = (Inr x, w') \<longleftrightarrow> m w = (Inr x, w')"
  by (auto simp: transaction_def split: prod.splits sum.splits)

section \<open>Statements throw database errors only\<close>

definition db_error :: "err \<Rightarrow> bool" where
  "db_error e \<longleftrightarrow> (\<exists>c. e = DbError c)"

lemma db_error_simps [simp]:
  "db_error (DbError c)" "\<not> db_error (ApiError s c' m)" "\<not> db_error (PlainError m)"
  by (simp_all add: db_error_def)

lemma throws_statements [throws_intros]:
  "throws_only P now" "throws_only P (read_db f)" "throws_only P (write_db g)" "throws_only P (emit e)"
  "throws_only P draw_text" "throws_only P draw_uuid" "throws_only P draw_byte" "throws_only P now_micros"
  "throws_only P (update_rows upd p h)" "throws_only P (delete_rows upd p)"
  "throws_only db_error (insert_row tbl upd uniq parent r)"
  "throws_only db_error (update_unique tbl upd uniq p h)"
  by (auto simp: throws_only_def run_simps split: if_splits)

lemma throws_transaction [throws_intros]: "throws_only P m \<Longrightarrow> throws_only P (transaction m)"
  by (auto simp: throws_only_def transaction_def split: prod.splits sum.splits)

section \<open>Relations on the database\<close>

text \<open>
  A preorder on databases is one on worlds, and transactions respect it: after a throw the
  database is the one before.
\<close>

definition on_db :: "(database \<Rightarrow> database \<Rightarrow> bool) \<Rightarrow> world \<Rightarrow> world \<Rightarrow> bool" where
  "on_db r w w' \<longleftrightarrow> r (db w) (db w')"

locale db_order =
  fixes r :: "database \<Rightarrow> database \<Rightarrow> bool"
  assumes db_refl: "r d d"
    and db_trans: "r a b \<Longrightarrow> r b c \<Longrightarrow> r a c"

sublocale db_order \<subseteq> effect_order "on_db r"
  by unfold_locales (auto simp: on_db_def intro: db_refl db_trans)

context db_order
begin

lemma safe_now [safe_intros]: "safe (on_db r) now"
  by (simp add: now_def safe_gets)

lemma safe_now_micros [safe_intros]: "safe (on_db r) now_micros"
  by (simp add: now_micros_def safe_gets)

lemma safe_read_db [safe_intros]: "safe (on_db r) (read_db f)"
  by (simp add: read_db_def safe_gets)

lemma safe_emit [safe_intros]: "safe (on_db r) (emit e)"
  by (simp add: safe_def emit_run on_db_def db_refl)

lemma safe_draw_text [safe_intros]: "safe (on_db r) draw_text"
  by (simp add: safe_def draw_text_run on_db_def db_refl)

lemma safe_draw_uuid [safe_intros]: "safe (on_db r) draw_uuid"
  by (simp add: safe_def draw_uuid_run on_db_def db_refl)

lemma safe_draw_byte [safe_intros]: "safe (on_db r) draw_byte"
  by (simp add: safe_def draw_byte_run on_db_def db_refl)

lemma safe_write_db: "(\<And>d. r d (f d)) \<Longrightarrow> safe (on_db r) (write_db f)"
  by (simp add: safe_def write_db_run on_db_def)

lemma safe_update_rows: "(\<And>d. r d (upd (update_where p f) d)) \<Longrightarrow> safe (on_db r) (update_rows upd p f)"
  by (simp add: safe_def update_rows_run on_db_def)

lemma safe_delete_rows: "(\<And>d. r d (upd (delete_where p) d)) \<Longrightarrow> safe (on_db r) (delete_rows upd p)"
  by (simp add: safe_def delete_rows_run on_db_def)

lemma safe_update_unique:
  "(\<And>d. uniq (update_where p f (tbl d)) \<Longrightarrow> r d (upd (update_where p f) d)) \<Longrightarrow>
   safe (on_db r) (update_unique tbl upd uniq p f)"
  by (simp add: safe_def update_unique_run on_db_def db_refl)

lemma safe_insert_row:
  "(\<And>d. uniq (tbl d @ [x]) \<Longrightarrow> parent d x \<Longrightarrow> r d (upd (\<lambda>rs. rs @ [x]) d)) \<Longrightarrow>
   safe (on_db r) (insert_row tbl upd uniq parent x)"
  by (simp add: safe_def insert_row_run on_db_def db_refl)

lemma safe_transaction [safe_intros]:
  assumes "safe (on_db r) m"
  shows "safe (on_db r) (transaction m)"
proof (rule safeI)
  fix w
  obtain x v where "m w = (x, v)" by (cases "m w")
  moreover from this have "on_db r w v" using assms by (rule safe_run [rotated])
  ultimately show "on_db r w (snd (transaction m w))"
    by (cases x) (auto simp: transaction_run on_db_def db_refl)
qed

end

end
