(* ===== verification/Platform.thy ===== *)
theory Platform
  imports Schema
begin

text \<open>
  The cryptographic and third-party functions the services call, as a record of parameters, and
  the small modules built directly on them: core/tokens.ts (opaque tokens and their hashes),
  core/password.ts (Argon2 hashes) and the canonical JSON text that the audit hash chain signs.
\<close>

section \<open>Parameters\<close>

text \<open>
  Nothing is assumed of these functions here. What a theorem needs of them (SHA-256 does not
  collide on the strings at hand, Argon2 verifies what it hashed) is a hypothesis of that theorem.
  \<open>google_verify idToken audience now\<close> is \<open>None\<close> when \<open>verifyIdToken\<close> throws and otherwise the
  ticket's payload (itself possibly undefined). \<open>collate a b\<close> is \<open>a.localeCompare(b) <= 0\<close>.
  \<open>argon2_error hash\<close> is the message \<open>argon2.verify\<close> throws for a text it cannot read as a hash.
  \<open>driver_code s\<close> is the \<open>code\<close> property of what a statement throws that the database refused with SQLSTATE
  \<open>s\<close>: that of the driver is \<open>s\<close> itself, the wrapper of newer versions of drizzle-orm has none.
\<close>

record google_payload =
  gp_sub :: "string option"
  gp_email :: "string option"
  gp_emailVerified :: bool

record argon2_params =
  memoryCost :: nat
  timeCost :: nat
  parallelism :: nat

record libs =
  sha256 :: "string \<Rightarrow> string"
  hmac_sha256 :: "string \<Rightarrow> string \<Rightarrow> string"
  argon2_hash :: "argon2_params \<Rightarrow> string \<Rightarrow> string \<Rightarrow> string"
  argon2_verify :: "string \<Rightarrow> string \<Rightarrow> bool"
  argon2_error :: "string \<Rightarrow> string option"
  totp_check :: "string \<Rightarrow> string \<Rightarrow> time \<Rightarrow> bool"
  totp_keyuri :: "string \<Rightarrow> string \<Rightarrow> string \<Rightarrow> string"
  google_verify :: "string \<Rightarrow> string \<Rightarrow> time \<Rightarrow> google_payload option option"
  iso_string :: "time \<Rightarrow> string"
  collate :: "string \<Rightarrow> string \<Rightarrow> bool"
  driver_code :: "string \<Rightarrow> string option"

section \<open>Tokens\<close>

definition createOpaqueToken :: "string \<Rightarrow> string io" where
  "createOpaqueToken prefix = bind draw_text (\<lambda>value. ret (prefix @ ''_'' @ value))"

definition hashOpaqueToken :: "libs \<Rightarrow> string \<Rightarrow> string" where
  "hashOpaqueToken L token = sha256 L token"

lemma createOpaqueToken_run [run_simps]:
  "createOpaqueToken p w = (Inr (p @ ''_'' @ rnd_text w (rnd w)), w\<lparr>rnd := Suc (rnd w)\<rparr>)"
  by (simp add: createOpaqueToken_def run_simps)

section \<open>Passwords\<close>

text \<open>The defaults of the argon2 package, which \<open>hashPassword\<close> relies on.\<close>

definition argon2_defaults :: argon2_params where
  "argon2_defaults = \<lparr>memoryCost = 65536, timeCost = 3, parallelism = 4\<rparr>"

definition argon2Prefix :: string where "argon2Prefix = ''$argon2''"

definition hashPassword :: "libs \<Rightarrow> string \<Rightarrow> string io" where
  "hashPassword L password =
     bind draw_text (\<lambda>salt. ret (argon2_hash L argon2_defaults password salt))"

definition verifyPassword :: "libs \<Rightarrow> string \<Rightarrow> string \<Rightarrow> bool" where
  "verifyPassword L password storedHash =
     (if starts_with storedHash argon2Prefix then argon2_verify L storedHash password else False)"

text \<open>The calls: \<open>argon2.verify\<close>, and \<open>verifyPassword\<close> as an action.\<close>

definition verify_hash :: "libs \<Rightarrow> string \<Rightarrow> string \<Rightarrow> bool io" where
  "verify_hash L storedHash password = (case argon2_error L storedHash of
     Some message \<Rightarrow> throw (PlainError message)
   | None \<Rightarrow> ret (argon2_verify L storedHash password))"

definition verifyPassword_io :: "libs \<Rightarrow> string \<Rightarrow> string \<Rightarrow> bool io" where
  "verifyPassword_io L password storedHash =
     (if starts_with storedHash argon2Prefix then verify_hash L storedHash password else ret False)"

lemma verify_hash_run [run_simps]: "verify_hash L h p w = (case argon2_error L h of
     Some message \<Rightarrow> (Inl (PlainError message), w) | None \<Rightarrow> (Inr (argon2_verify L h p), w))"
  by (simp add: verify_hash_def run_simps split: option.split)

lemma verify_hash_InrD: "verify_hash L h p w = (Inr b, w') \<Longrightarrow> b = argon2_verify L h p \<and> w' = w"
  by (auto simp: verify_hash_run split: option.splits)

text \<open>A guard on the outcome: the guarded steps ran for the owner's hash that verified.\<close>

lemma verified_guard:
  "bind (if own then verify_hash L h p else ret False) (\<lambda>isValid. if \<not> isValid then throw e else k) w = (Inr x, w') \<longleftrightarrow>
     own \<and> argon2_error L h = None \<and> argon2_verify L h p \<and> k w = (Inr x, w')"
  "bind (verify_hash L h p) (\<lambda>isValid. if \<not> isValid then throw e else k) w = (Inr x, w') \<longleftrightarrow>
     argon2_error L h = None \<and> argon2_verify L h p \<and> k w = (Inr x, w')"
  by (simp_all add: bind_run run_simps split: option.split)

lemma verifyPassword_io_InrD: "verifyPassword_io L p h w = (Inr b, w') \<Longrightarrow> b = verifyPassword L p h \<and> w' = w"
  by (auto simp: verifyPassword_io_def verifyPassword_def ret_run dest: verify_hash_InrD split: if_splits)

lemma hashPassword_run [run_simps]:
  "hashPassword L p w =
     (Inr (argon2_hash L argon2_defaults p (rnd_text w (rnd w))), w\<lparr>rnd := Suc (rnd w)\<rparr>)"
  by (simp add: hashPassword_def run_simps)

section \<open>Canonical JSON\<close>

text \<open>
  \<open>Object.entries(value).sort(([l], [r]) => l.localeCompare(r))\<close> is a stable sort: an insertion
  sort that puts an entry before the later ones it compares equal to.
\<close>

fun insert_entry :: "(string \<Rightarrow> string \<Rightarrow> bool) \<Rightarrow> (string \<times> 'a) \<Rightarrow> (string \<times> 'a) list \<Rightarrow> (string \<times> 'a) list" where
  "insert_entry le e [] = [e]"
| "insert_entry le e (f # fs) = (if le (fst e) (fst f) then e # f # fs else f # insert_entry le e fs)"

definition sort_entries :: "(string \<Rightarrow> string \<Rightarrow> bool) \<Rightarrow> (string \<times> 'a) list \<Rightarrow> (string \<times> 'a) list" where
  "sort_entries le es = foldr (insert_entry le) es []"

fun canonicalize :: "(string \<Rightarrow> string \<Rightarrow> bool) \<Rightarrow> json \<Rightarrow> string" where
  "canonicalize le JNull = ''null''"
| "canonicalize le (JStr s) = json_quote s"
| "canonicalize le (JNum n) = show_int n"
| "canonicalize le (JBool b) = (if b then ''true'' else ''false'')"
| "canonicalize le (JArr xs) = ''['' @ js_join '','' (map (canonicalize le) xs) @ '']''"
| "canonicalize le (JObj fs) =
     ''{'' @ js_join '','' (map (\<lambda>(k, s). json_quote k @ '':'' @ s)
       (sort_entries le (map (\<lambda>(k, v). (k, canonicalize le v)) fs))) @ ''}''"

definition shouldUseHashChain :: "string \<Rightarrow> bool" where
  "shouldUseHashChain action = starts_with action ''admin.''"

definition INTEGRITY_VERSION_NONE :: nat where "INTEGRITY_VERSION_NONE = 0"
definition INTEGRITY_VERSION_CHAINED :: nat where "INTEGRITY_VERSION_CHAINED = 1"

lemma set_insert_entry: "set (insert_entry le e es) = insert e (set es)"
  by (induction es) auto

lemma set_sort_entries [simp]: "set (sort_entries le es) = set es"
  by (induction es) (auto simp: sort_entries_def set_insert_entry)

lemma length_insert_entry: "length (insert_entry le e es) = Suc (length es)"
  by (induction es) auto

lemma length_sort_entries [simp]: "length (sort_entries le es) = length es"
  by (induction es) (auto simp: sort_entries_def length_insert_entry)

lemma map_insert_entry:
  "map (\<lambda>(k, v). (k, f v)) (insert_entry le (a, b) es) =
   insert_entry le (a, f b) (map (\<lambda>(k, v). (k, f v)) es)"
  by (induction es) (auto split: prod.splits)

text \<open>Sorting looks at the keys only, so it commutes with mapping the values.\<close>

lemma sort_entries_map:
  "sort_entries le (map (\<lambda>(k, v). (k, f v)) es) = map (\<lambda>(k, v). (k, f v)) (sort_entries le es)"
proof (induction es)
  case Nil
  show ?case by (simp add: sort_entries_def)
next
  case (Cons e es)
  obtain a b where "e = (a, b)" by (cases e)
  with Cons show ?case by (simp add: sort_entries_def map_insert_entry)
qed

text \<open>
  A UUID in its canonical text form (32 lower-case hexadecimal digits in groups of 8, 4, 4, 4
  and 12), and the callback of the options, called only when the options have one.
\<close>

definition hook_event :: "bool \<Rightarrow> string \<Rightarrow> uuid option \<Rightarrow> json \<Rightarrow> unit io" where
  "hook_event installed eventType userId payload =
     whenever installed (emit (SecurityHook eventType userId payload))"

definition hex_digits :: "nat \<Rightarrow> nat \<Rightarrow> string" where
  "hex_digits n u = map (\<lambda>i. hex_char (u div 16 ^ (n - 1 - i) mod 16)) [0..<n]"

definition uuid_text :: "uuid \<Rightarrow> string" where
  "uuid_text u = js_join ''-''
     [hex_digits 8 (u div 16 ^ 24), hex_digits 4 (u div 16 ^ 20), hex_digits 4 (u div 16 ^ 16),
      hex_digits 4 (u div 16 ^ 12), hex_digits 12 u]"

definition juuid :: "uuid \<Rightarrow> json" where "juuid u = JStr (uuid_text u)"

definition jstr_opt :: "string option \<Rightarrow> json" where "jstr_opt = json_of_opt JStr"

context db_order
begin

lemma safe_createOpaqueToken [safe_intros]: "safe (on_db r) (createOpaqueToken p)"
  unfolding createOpaqueToken_def by (intro safe_intros)

lemma safe_hashPassword [safe_intros]: "safe (on_db r) (hashPassword L p)"
  unfolding hashPassword_def by (intro safe_intros)

lemma safe_verify_hash [safe_intros]: "safe (on_db r) (verify_hash L h p)"
  unfolding verify_hash_def by (intro safe_intros)

lemma safe_verifyPassword_io [safe_intros]: "safe (on_db r) (verifyPassword_io L p h)"
  unfolding verifyPassword_io_def by (intro safe_intros)

lemma safe_hook_event [safe_intros]: "safe (on_db r) (hook_event b t u p)"
  unfolding hook_event_def by (intro safe_intros)

end

end
