(* ===== verification/AuthCoreBase.thy ===== *)
theory AuthCoreBase
  imports Platform
begin

text \<open>
  packages/auth-core/src/auth-service.ts, first part: the options, the security-event and audit
  writers, and the authorisation queries (permissions, entitlements, snapshot). The class reads
  and writes the tables directly; the queries are pure functions of the database and the instant.
\<close>

section \<open>Options\<close>

record auth_options =
  ao_accessTokenTtlSeconds :: int
  ao_refreshTokenTtlSeconds :: int
  ao_argon2 :: argon2_params
  ao_mfaIssuer :: string
  ao_onSecurityEvent :: "(string \<Rightarrow> uuid option \<Rightarrow> json \<Rightarrow> time \<Rightarrow> err option) option"

definition DEFAULT_OPTIONS :: auth_options where
  "DEFAULT_OPTIONS = \<lparr>ao_accessTokenTtlSeconds = 15 * 60,
     ao_refreshTokenTtlSeconds = 30 * 24 * 60 * 60,
     ao_argon2 = \<lparr>memoryCost = 19456, timeCost = 2, parallelism = 1\<rparr>,
     ao_mfaIssuer = ''gxp-idProvider'', ao_onSecurityEvent = None\<rparr>"

section \<open>Writers\<close>

text \<open>The defaults PostgreSQL fills in (\<open>defaultRandom()\<close>, \<open>defaultNow()\<close>) are drawn here.\<close>

definition insert_event :: "string \<Rightarrow> uuid option \<Rightarrow> json \<Rightarrow> unit io" where
  "insert_event eventType userId payload =
     bind draw_uuid (\<lambda>i. bind now (\<lambda>t. bind now_micros (\<lambda>micros.
     insert_row securityEvents securityEvents_update uniq_events (\<lambda>d r. opt_user_exists d (se_userId r))
       \<lparr>se_id = i, se_userId = userId, se_eventType = eventType, se_payload = payload,
        se_createdAt = t, se_micros = micros\<rparr>)))"

text \<open>The awaited callback of the options: it may reject, then the caller fails with its error.\<close>

definition await_hook :: "auth_options \<Rightarrow> string \<Rightarrow> uuid option \<Rightarrow> json \<Rightarrow> unit io" where
  "await_hook opts eventType userId payload = (case ao_onSecurityEvent opts of
     None \<Rightarrow> ret ()
   | Some hook \<Rightarrow>
       bind (emit (SecurityHook eventType userId payload)) (\<lambda>_. bind now (\<lambda>t.
       case hook eventType userId payload t of None \<Rightarrow> ret () | Some e \<Rightarrow> throw e)))"

definition writeSecurityEvent :: "auth_options \<Rightarrow> string \<Rightarrow> uuid option \<Rightarrow> json \<Rightarrow> unit io" where
  "writeSecurityEvent opts eventType userId payload =
     bind (insert_event eventType userId payload) (\<lambda>_.
     await_hook opts eventType userId payload)"

context db_order
begin

lemma safe_await_hook [safe_intros]: "safe (on_db r) (await_hook opts t u p)"
  unfolding await_hook_def by (intro safe_intros)

end

definition insert_audit :: "audit_row \<Rightarrow> unit io" where
  "insert_audit r = insert_row auditLogs auditLogs_update uniq_audit
     (\<lambda>d r. opt_user_exists d (au_actorUserId r)) r"

definition audit_source :: "libs \<Rightarrow> uuid \<Rightarrow> time \<Rightarrow> uuid option \<Rightarrow> string \<Rightarrow> string \<Rightarrow>
    string option \<Rightarrow> json \<Rightarrow> string option \<Rightarrow> json" where
  "audit_source L i createdAt actor action resourceType resourceId payload prevHash = JObj [
     (''id'', juuid i), (''createdAt'', JStr (iso_string L createdAt)),
     (''actorUserId'', json_of_opt juuid actor), (''action'', JStr action),
     (''resourceType'', JStr resourceType), (''resourceId'', jstr_opt resourceId),
     (''payload'', payload), (''prevHash'', jstr_opt prevHash)]"

text \<open>The newest chained entry: \<open>orderBy(desc(createdAt), desc(id)).limit(1)\<close>.\<close>

definition latest_chained :: "database \<Rightarrow> audit_row option" where
  "latest_chained d = first_row (order_desc (\<lambda>r. ((au_createdAt r, au_micros r), au_id r))
     (filter (\<lambda>r. au_integrityVersion r = INTEGRITY_VERSION_CHAINED) (auditLogs d)))"

definition writeAuditLog :: "libs \<Rightarrow> uuid option \<Rightarrow> string \<Rightarrow> string \<Rightarrow> string option \<Rightarrow> json \<Rightarrow> unit io" where
  "writeAuditLog L actorUserId action resourceType resourceId payload =
     bind draw_uuid (\<lambda>i. bind now (\<lambda>createdAt.
     if \<not> shouldUseHashChain action then
       insert_audit \<lparr>au_id = i, au_actorUserId = actorUserId, au_action = action,
         au_resourceType = resourceType, au_resourceId = resourceId, au_payload = payload,
         au_prevHash = None, au_entryHash = None,
         au_integrityVersion = INTEGRITY_VERSION_NONE, au_createdAt = createdAt, au_micros = 0\<rparr>
     else
       bind (read_db latest_chained) (\<lambda>latest.
       let prevHash = (case latest of None \<Rightarrow> None | Some r \<Rightarrow> au_entryHash r);
           source = canonicalize (collate L)
             (audit_source L i createdAt actorUserId action resourceType resourceId payload prevHash)
       in insert_audit \<lparr>au_id = i, au_actorUserId = actorUserId, au_action = action,
            au_resourceType = resourceType, au_resourceId = resourceId, au_payload = payload,
            au_prevHash = prevHash, au_entryHash = Some (sha256 L source),
            au_integrityVersion = INTEGRITY_VERSION_CHAINED, au_createdAt = createdAt, au_micros = 0\<rparr>)))"

section \<open>Permissions\<close>

record auth_context =
  cx_organizationId :: "uuid option"
  cx_groupId :: "uuid option"

definition no_context :: auth_context where
  "no_context = \<lparr>cx_organizationId = None, cx_groupId = None\<rparr>"

text \<open>\<open>[...new Set(xs)]\<close>: the first occurrence of each element, in order.\<close>

definition js_uniq :: "'a list \<Rightarrow> 'a list" where
  "js_uniq xs = rev (remdups (rev xs))"

definition role_keys :: "database \<Rightarrow> uuid \<Rightarrow> string list" where
  "role_keys d roleId = [pe_key p. rp \<leftarrow> rolePermissions d, rp_roleId rp = roleId,
     p \<leftarrow> permissions d, pe_id p = rp_permissionId rp]"

definition direct_keys :: "database \<Rightarrow> uuid \<Rightarrow> string list" where
  "direct_keys d userId = concat (map (\<lambda>ur. role_keys d (ur_roleId ur))
     (filter (\<lambda>ur. ur_userId ur = userId) (userRoles d)))"

definition group_matches :: "auth_context \<Rightarrow> group_row \<Rightarrow> bool" where
  "group_matches cx g \<longleftrightarrow>
     (case cx_groupId cx of None \<Rightarrow> True | Some i \<Rightarrow> gr_id g = i) \<and>
     (case cx_organizationId cx of None \<Rightarrow> True | Some i \<Rightarrow> gr_organizationId g = i)"

text \<open>\<open>groupMemberships INNER JOIN groups\<close> for one user, under the context's filter.\<close>

definition member_groups :: "database \<Rightarrow> auth_context \<Rightarrow> uuid \<Rightarrow> group_row list" where
  "member_groups d cx userId = [g. gm \<leftarrow> groupMemberships d, gm_userId gm = userId,
     g \<leftarrow> groups d, gr_id g = gm_groupId gm, group_matches cx g]"

definition group_keys :: "database \<Rightarrow> auth_context \<Rightarrow> uuid \<Rightarrow> string list" where
  "group_keys d cx userId = concat (map (\<lambda>g.
     concat (map (\<lambda>gl. role_keys d (gl_roleId gl))
       (filter (\<lambda>gl. gl_groupId gl = gr_id g) (groupRoles d)))) (member_groups d cx userId))"

definition listPermissionKeys :: "database \<Rightarrow> uuid \<Rightarrow> auth_context \<Rightarrow> string list" where
  "listPermissionKeys d userId cx = js_uniq (direct_keys d userId @ group_keys d cx userId)"

section \<open>Entitlements\<close>

datatype entitlement_value = EVBool bool | EVObj "(string \<times> json) list"

datatype scope = ScopeUser | ScopeGroup | ScopeOrganization | ScopeNone

fun normalizeEntitlementValue :: "json \<Rightarrow> entitlement_value" where
  "normalizeEntitlementValue (JBool b) = EVBool b"
| "normalizeEntitlementValue (JObj fs) = EVObj fs"
| "normalizeEntitlementValue v = EVObj [(''value'', v)]"

definition isEntitlementActive :: "time \<Rightarrow> time option \<Rightarrow> bool" where
  "isEntitlementActive t expiresAt = (case expiresAt of None \<Rightarrow> True | Some e \<Rightarrow> t < e)"

definition active_for_key :: "time \<Rightarrow> string \<Rightarrow> entitlement_row \<Rightarrow> bool" where
  "active_for_key t key e \<longleftrightarrow> en_key e = key \<and> en_enabled e \<and> isEntitlementActive t (en_expiresAt e)"

text \<open>
  The three candidate lists, each newest first: the user's own entitlements, those of the groups
  the user is in (one row per membership of the join), those of an organisation.
\<close>

definition user_entitlements :: "database \<Rightarrow> time \<Rightarrow> uuid \<Rightarrow> string \<Rightarrow> entitlement_row list" where
  "user_entitlements d t userId key = order_desc en_createdAt
     (filter (\<lambda>e. active_for_key t key e \<and> en_userId e = Some userId) (entitlements d))"

definition group_entitlements ::
    "database \<Rightarrow> time \<Rightarrow> auth_context \<Rightarrow> uuid \<Rightarrow> string \<Rightarrow> entitlement_row list" where
  "group_entitlements d t cx userId key = order_desc en_createdAt
     [e. e \<leftarrow> entitlements d, active_for_key t key e,
         g \<leftarrow> member_groups d cx userId, en_groupId e = Some (gr_id g)]"

definition organization_entitlements ::
    "database \<Rightarrow> time \<Rightarrow> uuid \<Rightarrow> string \<Rightarrow> entitlement_row list" where
  "organization_entitlements d t orgId key = order_desc en_createdAt
     [e. e \<leftarrow> entitlements d, active_for_key t key e,
         o' \<leftarrow> organizations d, en_organizationId e = Some (og_id o'), og_id o' = orgId]"

text \<open>\<open>rows[0]\<close>, kept only when the entitlement is still active.\<close>

definition newest_active :: "time \<Rightarrow> entitlement_row list \<Rightarrow> entitlement_row option" where
  "newest_active t rs = (case first_row rs of
     None \<Rightarrow> None
   | Some r \<Rightarrow> if isEntitlementActive t (en_expiresAt r) then Some r else None)"

definition resolveEntitlementForKey ::
    "database \<Rightarrow> time \<Rightarrow> uuid \<Rightarrow> string \<Rightarrow> auth_context \<Rightarrow> (entitlement_value \<times> scope) option" where
  "resolveEntitlementForKey d t userId key cx =
     (case newest_active t (user_entitlements d t userId key) of
        Some r \<Rightarrow> Some (normalizeEntitlementValue (en_value r), ScopeUser)
      | None \<Rightarrow>
     (case newest_active t (group_entitlements d t cx userId key) of
        Some r \<Rightarrow> Some (normalizeEntitlementValue (en_value r), ScopeGroup)
      | None \<Rightarrow>
     (case cx_organizationId cx of
        None \<Rightarrow> None
      | Some orgId \<Rightarrow>
         if member_groups d \<lparr>cx_organizationId = Some orgId, cx_groupId = None\<rparr> userId = [] then None
         else
        (case newest_active t (organization_entitlements d t orgId key) of
           Some r \<Rightarrow> Some (normalizeEntitlementValue (en_value r), ScopeOrganization)
         | None \<Rightarrow> None))))"

record snapshot =
  sn_permissions :: "string list"
  sn_entitlements :: "(string \<times> entitlement_value) list"

definition getAuthorizationSnapshot :: "database \<Rightarrow> time \<Rightarrow> uuid \<Rightarrow> auth_context \<Rightarrow> snapshot" where
  "getAuthorizationSnapshot d t userId cx =
     (let uniqueKeys = js_uniq (map en_key (filter en_enabled (entitlements d)))
      in \<lparr>sn_permissions = listPermissionKeys d userId cx,
          sn_entitlements = [(key, v). key \<leftarrow> uniqueKeys,
            (v, s) \<leftarrow> (case resolveEntitlementForKey d t userId key cx of None \<Rightarrow> [] | Some vs \<Rightarrow> [vs])]\<rparr>)"

record check_result =
  ck_allowed :: bool
  ck_permissionKey :: string
  ck_source :: string

definition authorizationCheck :: "database \<Rightarrow> uuid \<Rightarrow> string \<Rightarrow> string \<Rightarrow> auth_context \<Rightarrow> check_result" where
  "authorizationCheck d userId action resource cx =
     (let permissionKey = resource @ '':'' @ action;
          allowed = permissionKey \<in> set (listPermissionKeys d userId cx)
      in \<lparr>ck_allowed = allowed, ck_permissionKey = permissionKey,
          ck_source = (if allowed then ''role'' else ''none'')\<rparr>)"

record entitlement_result =
  er_granted :: bool
  er_key :: string
  er_source :: scope
  er_value :: "entitlement_value option"
  er_reason :: string

definition entitlementCheck ::
    "database \<Rightarrow> time \<Rightarrow> uuid \<Rightarrow> string \<Rightarrow> auth_context \<Rightarrow> int option \<Rightarrow> entitlement_result" where
  "entitlementCheck d t userId key cx quantity =
     (case resolveEntitlementForKey d t userId key cx of
        None \<Rightarrow> \<lparr>er_granted = False, er_key = key, er_source = ScopeNone, er_value = None,
                 er_reason = ''not_found''\<rparr>
      | Some (EVBool b, s) \<Rightarrow>
          \<lparr>er_granted = b, er_key = key, er_source = s, er_value = Some (EVBool b),
           er_reason = (if b then ''enabled'' else ''disabled'')\<rparr>
      | Some (EVObj fs, s) \<Rightarrow>
         (case (map_of fs ''max'', quantity) of
            (Some (JNum m), Some q) \<Rightarrow>
              \<lparr>er_granted = q \<le> m, er_key = key, er_source = s, er_value = Some (EVObj fs),
               er_reason = (if q \<le> m then ''within_limit'' else ''limit_exceeded'')\<rparr>
          | _ \<Rightarrow>
             (let granted = (case map_of fs ''enabled'' of Some (JBool b) \<Rightarrow> b | _ \<Rightarrow> True)
              in \<lparr>er_granted = granted, er_key = key, er_source = s, er_value = Some (EVObj fs),
                  er_reason = (if granted then ''enabled'' else ''disabled'')\<rparr>)))"

end
