(* ===== verification/AuthCoreSessions.thy ===== *)
theory AuthCoreSessions
  imports AuthCoreBase
begin

text \<open>
  packages/auth-core/src/auth-service.ts, the operations that issue, rotate and end sessions:
  signup, login, access-token authentication, refresh, logout, revocation and introspection.
\<close>

section \<open>Rows\<close>

definition insert_session :: "session_row \<Rightarrow> unit io" where
  "insert_session r = insert_row userSessions userSessions_update uniq_sessions
     (\<lambda>d r. user_exists d (us_userId r)) r"

definition insert_attempt :: "string \<Rightarrow> bool \<Rightarrow> string \<Rightarrow> string option \<Rightarrow> unit io" where
  "insert_attempt email success reason ipAddress =
     bind draw_uuid (\<lambda>i. bind now (\<lambda>t.
     insert_row loginAttempts loginAttempts_update uniq_attempts (\<lambda>_ _. True)
       \<lparr>la_id = i, la_email = email, la_success = success, la_reason = Some reason,
        la_ipAddress = ipAddress, la_createdAt = t\<rparr>))"

definition insert_user :: "string \<Rightarrow> uuid io" where
  "insert_user status =
     bind draw_uuid (\<lambda>i. bind now (\<lambda>t.
     bind (insert_row users users_update uniq_users (\<lambda>_ _. True)
       \<lparr>u_id = i, u_status = status, u_deletedAt = None, u_deletionRequestedAt = None,
        u_deletionDueAt = None, u_createdAt = t\<rparr>) (\<lambda>_. ret i)))"

definition insert_email :: "uuid \<Rightarrow> string \<Rightarrow> bool \<Rightarrow> unit io" where
  "insert_email userId email isVerified =
     bind draw_uuid (\<lambda>i. bind now (\<lambda>t.
     insert_row userEmails userEmails_update uniq_emails (\<lambda>d r. user_exists d (em_userId r))
       \<lparr>em_id = i, em_userId = userId, em_email = email, em_isPrimary = True,
        em_isVerified = isVerified, em_createdAt = t\<rparr>))"

definition insert_password :: "uuid \<Rightarrow> string \<Rightarrow> unit io" where
  "insert_password userId passwordHash =
     bind now (\<lambda>t.
     insert_row userPasswords userPasswords_update uniq_passwords (\<lambda>d r. user_exists d (pw_userId r))
       \<lparr>pw_userId = userId, pw_passwordHash = passwordHash, pw_updatedAt = t\<rparr>)"

definition insert_email_token :: "uuid \<Rightarrow> string \<Rightarrow> time \<Rightarrow> unit io" where
  "insert_email_token userId tokenHash expiresAt =
     bind draw_uuid (\<lambda>i. bind now (\<lambda>t.
     insert_row emailVerificationTokens emailVerificationTokens_update uniq_tokens
       (\<lambda>d r. user_exists d (tk_userId r))
       \<lparr>tk_id = i, tk_userId = userId, tk_tokenHash = tokenHash, tk_expiresAt = expiresAt,
        tk_consumedAt = None, tk_createdAt = t\<rparr>))"

definition insert_reset_token :: "uuid \<Rightarrow> string \<Rightarrow> time \<Rightarrow> unit io" where
  "insert_reset_token userId tokenHash expiresAt =
     bind draw_uuid (\<lambda>i. bind now (\<lambda>t.
     insert_row passwordResetTokens passwordResetTokens_update uniq_tokens
       (\<lambda>d r. user_exists d (tk_userId r))
       \<lparr>tk_id = i, tk_userId = userId, tk_tokenHash = tokenHash, tk_expiresAt = expiresAt,
        tk_consumedAt = None, tk_createdAt = t\<rparr>))"

definition argon2_hash_io :: "libs \<Rightarrow> auth_options \<Rightarrow> string \<Rightarrow> string io" where
  "argon2_hash_io L opts password =
     bind draw_text (\<lambda>salt. ret (argon2_hash L (ao_argon2 opts) password salt))"

section \<open>Sessions\<close>

record token_bundle =
  tb_accessToken :: string
  tb_refreshToken :: string
  tb_accessExpiresAt :: time
  tb_refreshExpiresAt :: time
  tb_tokenClaims :: snapshot

definition getUserByEmail :: "database \<Rightarrow> string \<Rightarrow> uuid option" where
  "getUserByEmail d email = first_row
     [u_id u. e \<leftarrow> userEmails d, em_email e = email, u \<leftarrow> users d, u_id u = em_userId e]"

definition createSession ::
    "libs \<Rightarrow> auth_options \<Rightarrow> uuid \<Rightarrow> string option \<Rightarrow> string option \<Rightarrow> token_bundle io" where
  "createSession L opts userId ipAddress userAgent =
     bind (createOpaqueToken ''at'') (\<lambda>accessToken.
     bind (createOpaqueToken ''rt'') (\<lambda>refreshToken.
     bind now (\<lambda>t.
     let accessExpiresAt = t + ao_accessTokenTtlSeconds opts * 1000;
         refreshExpiresAt = t + ao_refreshTokenTtlSeconds opts * 1000
     in
     bind draw_uuid (\<lambda>i.
     bind (insert_session \<lparr>us_id = i, us_userId = userId,
         us_accessTokenHash = hashOpaqueToken L accessToken,
         us_refreshTokenHash = hashOpaqueToken L refreshToken,
         us_ipAddress = ipAddress, us_userAgent = userAgent,
         us_expiresAt = accessExpiresAt, us_refreshExpiresAt = refreshExpiresAt,
         us_revokedAt = None, us_lastSeenAt = t, us_createdAt = t\<rparr>) (\<lambda>_.
     bind (read_db (\<lambda>d. getAuthorizationSnapshot d t userId no_context)) (\<lambda>tokenClaims.
     ret \<lparr>tb_accessToken = accessToken, tb_refreshToken = refreshToken,
          tb_accessExpiresAt = accessExpiresAt, tb_refreshExpiresAt = refreshExpiresAt,
          tb_tokenClaims = tokenClaims\<rparr>))))))"

definition createSessionForUser ::
    "libs \<Rightarrow> auth_options \<Rightarrow> uuid \<Rightarrow> string option \<Rightarrow> string option \<Rightarrow> token_bundle io" where
  "createSessionForUser L opts userId ipAddress userAgent =
     createSession L opts userId ipAddress userAgent"

definition hasLocalPassword :: "database \<Rightarrow> uuid \<Rightarrow> bool" where
  "hasLocalPassword d userId = list_ex (\<lambda>r. pw_userId r = userId) (userPasswords d)"

text \<open>The enabled factors of a user, at most 20.\<close>

definition enabled_factors :: "database \<Rightarrow> uuid \<Rightarrow> factor_row list" where
  "enabled_factors d userId =
     take 20 (filter (\<lambda>f. mf_userId f = userId \<and> mf_enabled f) (mfaFactors d))"

definition assertValidTotpMfa ::
    "libs \<Rightarrow> factor_row list \<Rightarrow> string option \<Rightarrow> uuid option \<Rightarrow> uuid io" where
  "assertValidTotpMfa L factors code factorId =
     (let totpFactors = filter (\<lambda>f. mf_type f = ''totp'' \<and> mf_secret f \<noteq> None) factors
      in if \<not> truthy code then
           throw (ApiError 401 ''mfa_required'' ''MFA verification is required before login'')
         else
           (case (case factorId of
                    Some i \<Rightarrow> List.find (\<lambda>f. mf_id f = i) totpFactors
                  | None \<Rightarrow> first_row totpFactors) of
              None \<Rightarrow> throw (ApiError 401 ''webauthn_mfa_required''
                 ''WebAuthn MFA verification is required before login'')
            | Some f \<Rightarrow>
                if \<not> truthy (mf_secret f) then
                  throw (ApiError 401 ''webauthn_mfa_required''
                    ''WebAuthn MFA verification is required before login'')
                else bind now (\<lambda>t.
                  if totp_check L (the code) (the (mf_secret f)) t then ret (mf_id f)
                  else throw (ApiError 401 ''invalid_mfa_code'' ''Invalid MFA code''))))"

section \<open>Signup\<close>

record signup_result =
  sr_userId :: uuid
  sr_email :: string
  sr_verificationToken :: string

text \<open>\<open>error.code\<close> of an error a statement threw.\<close>

definition error_code :: "libs \<Rightarrow> err \<Rightarrow> string option" where
  "error_code L e = (case e of DbError sqlstate \<Rightarrow> driver_code L sqlstate | ApiError _ c _ \<Rightarrow> Some c
     | ServerSdkError c _ _ \<Rightarrow> Some c | PlainError _ \<Rightarrow> None)"

definition signup ::
    "libs \<Rightarrow> auth_options \<Rightarrow> string \<Rightarrow> string \<Rightarrow> string \<Rightarrow> string option \<Rightarrow> signup_result io" where
  "signup L opts email password displayName ipAddress =
     try_catch
       (transaction
         (bind (insert_user ''active'') (\<lambda>userId.
          bind (insert_email userId email False) (\<lambda>_.
          bind (argon2_hash_io L opts password) (\<lambda>passwordHash.
          bind (insert_password userId passwordHash) (\<lambda>_.
          bind (createOpaqueToken ''ev'') (\<lambda>verificationToken.
          bind now (\<lambda>t.
          bind (insert_email_token userId (hashOpaqueToken L verificationToken)
                  (t + 24 * 60 * 60000)) (\<lambda>_.
          bind (writeSecurityEvent opts ''signup.created'' (Some userId)
                 (JObj [(''email'', JStr email), (''ipAddress'', jstr_opt ipAddress),
                        (''displayName'', JStr displayName)])) (\<lambda>_.
          bind (writeAuditLog L (Some userId) ''user.signup'' ''user'' (Some (uuid_text userId))
                 (JObj [(''email'', JStr email), (''displayName'', JStr displayName)])) (\<lambda>_.
          ret \<lparr>sr_userId = userId, sr_email = email, sr_verificationToken = verificationToken\<rparr>)))))))))))
       (\<lambda>e. if error_code L e = Some ''23505''
            then throw (ApiError 409 ''email_already_exists'' ''Email already exists'')
            else throw e)"

section \<open>Login\<close>

record login_row =
  lr_userId :: uuid
  lr_passwordHash :: string
  lr_emailVerified :: bool

definition find_login_row :: "database \<Rightarrow> string \<Rightarrow> login_row option" where
  "find_login_row d email = first_row
     [\<lparr>lr_userId = u_id u, lr_passwordHash = pw_passwordHash p, lr_emailVerified = em_isVerified e\<rparr>.
      e \<leftarrow> userEmails d, em_email e = email, u \<leftarrow> users d, u_id u = em_userId e,
      p \<leftarrow> userPasswords d, pw_userId p = u_id u]"

record login_result =
  lg_userId :: uuid
  lg_mfaEnabled :: bool
  lg_mfaWarning :: "string option"
  lg_tokens :: token_bundle

definition mfa_warning_text :: string where
  "mfa_warning_text =
     ''MFA is required for all users. Enrollment is pending and strongly recommended now.''"

definition login ::
    "libs \<Rightarrow> auth_options \<Rightarrow> string \<Rightarrow> string \<Rightarrow> string option \<Rightarrow> uuid option \<Rightarrow>
     string option \<Rightarrow> string option \<Rightarrow> login_result io" where
  "login L opts email password mfaCode mfaFactorId ipAddress userAgent =
     bind (read_db (\<lambda>d. find_login_row d email)) (\<lambda>row.
     case row of
       None \<Rightarrow>
         bind (insert_attempt email False ''user_not_found'' ipAddress) (\<lambda>_.
         throw (ApiError 401 ''invalid_credentials'' ''Invalid email or password''))
     | Some row \<Rightarrow>
       bind (verify_hash L (lr_passwordHash row) password) (\<lambda>passwordValid.
       if \<not> passwordValid then
         bind (insert_attempt email False ''invalid_password'' ipAddress) (\<lambda>_.
         throw (ApiError 401 ''invalid_credentials'' ''Invalid email or password''))
       else if \<not> lr_emailVerified row then
         bind (insert_attempt email False ''email_not_verified'' ipAddress) (\<lambda>_.
         throw (ApiError 403 ''email_not_verified'' ''Email verification is required before login''))
       else
         bind (read_db (\<lambda>d. enabled_factors d (lr_userId row))) (\<lambda>factors.
         let mfaEnabled = (factors \<noteq> []) in
         bind (whenever mfaEnabled
                 (bind (assertValidTotpMfa L factors mfaCode mfaFactorId) (\<lambda>factorId.
                  writeSecurityEvent opts ''mfa.login_verified'' (Some (lr_userId row))
                    (JObj [(''factorId'', juuid factorId)])))) (\<lambda>_.
         bind (createSession L opts (lr_userId row) ipAddress userAgent) (\<lambda>tokens.
         bind (insert_attempt email True ''ok'' ipAddress) (\<lambda>_.
         bind (writeSecurityEvent opts ''login.success'' (Some (lr_userId row))
                (JObj [(''email'', JStr email), (''ipAddress'', jstr_opt ipAddress),
                       (''mfaEnabled'', JBool mfaEnabled)])) (\<lambda>_.
         bind (whenever (\<not> mfaEnabled)
                 (writeSecurityEvent opts ''mfa.warning_shown'' (Some (lr_userId row))
                   (JObj [(''email'', JStr email)]))) (\<lambda>_.
         ret \<lparr>lg_userId = lr_userId row, lg_mfaEnabled = mfaEnabled,
              lg_mfaWarning = (if mfaEnabled then None else Some mfa_warning_text),
              lg_tokens = tokens\<rparr>))))))))"

section \<open>Using, rotating and ending a session\<close>

record principal =
  pr_userId :: uuid
  pr_sessionId :: uuid

definition live_access :: "time \<Rightarrow> string \<Rightarrow> session_row \<Rightarrow> bool" where
  "live_access t tokenHash s \<longleftrightarrow>
     us_accessTokenHash s = tokenHash \<and> us_revokedAt s = None \<and> t < us_expiresAt s"

definition live_refresh :: "time \<Rightarrow> string \<Rightarrow> session_row \<Rightarrow> bool" where
  "live_refresh t tokenHash s \<longleftrightarrow>
     us_refreshTokenHash s = tokenHash \<and> us_revokedAt s = None \<and> t < us_refreshExpiresAt s"

definition authenticateAccessToken :: "libs \<Rightarrow> string \<Rightarrow> principal io" where
  "authenticateAccessToken L accessToken =
     (let tokenHash = hashOpaqueToken L accessToken in
     bind now (\<lambda>t.
     bind (read_db (\<lambda>d. List.find (live_access t tokenHash) (userSessions d))) (\<lambda>session.
     case session of
       None \<Rightarrow> throw (ApiError 401 ''unauthorized'' ''Invalid or expired access token'')
     | Some s \<Rightarrow>
         bind (update_rows userSessions_update (\<lambda>r. us_id r = us_id s) (\<lambda>r. r\<lparr>us_lastSeenAt := t\<rparr>)) (\<lambda>_.
         ret \<lparr>pr_userId = us_userId s, pr_sessionId = us_id s\<rparr>))))"

record refresh_result =
  rr_userId :: uuid
  rr_tokens :: token_bundle

definition revoke_session_row :: "time \<Rightarrow> session_row \<Rightarrow> session_row" where
  "revoke_session_row t r = r\<lparr>us_revokedAt := Some t\<rparr>"

definition refresh :: "libs \<Rightarrow> auth_options \<Rightarrow> string \<Rightarrow> refresh_result io" where
  "refresh L opts refreshToken =
     (let tokenHash = hashOpaqueToken L refreshToken in
     transaction (
     bind now (\<lambda>t.
     bind (read_db (\<lambda>d. List.find (live_refresh t tokenHash) (userSessions d))) (\<lambda>session.
     case session of
       None \<Rightarrow>
         bind (writeSecurityEvent opts ''refresh_token.reuse_detected'' None
                (JObj [(''refreshTokenHash'', JStr tokenHash)])) (\<lambda>_.
         throw (ApiError 401 ''invalid_refresh_token'' ''Invalid refresh token''))
     | Some s \<Rightarrow>
         bind (createOpaqueToken ''at'') (\<lambda>nextAccessToken.
         bind (createOpaqueToken ''rt'') (\<lambda>nextRefreshToken.
         let accessExpiresAt = t + ao_accessTokenTtlSeconds opts * 1000;
             refreshExpiresAt = t + ao_refreshTokenTtlSeconds opts * 1000;
             target = (\<lambda>r. us_id r = us_id s \<and> us_refreshTokenHash r = tokenHash)
         in
         bind (read_db (\<lambda>d. filter target (userSessions d))) (\<lambda>updated.
         bind (update_unique userSessions userSessions_update uniq_sessions target
                (\<lambda>r. r\<lparr>us_accessTokenHash := hashOpaqueToken L nextAccessToken,
                       us_refreshTokenHash := hashOpaqueToken L nextRefreshToken,
                       us_expiresAt := accessExpiresAt, us_refreshExpiresAt := refreshExpiresAt,
                       us_lastSeenAt := t\<rparr>)) (\<lambda>_.
         if updated = [] then
           bind (update_rows userSessions_update (\<lambda>r. us_id r = us_id s) (revoke_session_row t)) (\<lambda>_.
           bind (writeSecurityEvent opts ''refresh_token.reuse_detected'' (Some (us_userId s))
                  (JObj [(''sessionId'', juuid (us_id s))])) (\<lambda>_.
           throw (ApiError 401 ''invalid_refresh_token'' ''Refresh token reuse detected'')))
         else
           bind (read_db (\<lambda>d. getAuthorizationSnapshot d t (us_userId s) no_context)) (\<lambda>tokenClaims.
           ret \<lparr>rr_userId = us_userId s, rr_tokens =
             \<lparr>tb_accessToken = nextAccessToken, tb_refreshToken = nextRefreshToken,
              tb_accessExpiresAt = accessExpiresAt, tb_refreshExpiresAt = refreshExpiresAt,
              tb_tokenClaims = tokenClaims\<rparr>\<rparr>)))))))))"

definition logoutBySession :: "auth_options \<Rightarrow> uuid \<Rightarrow> uuid \<Rightarrow> unit io" where
  "logoutBySession opts sessionId userId =
     bind now (\<lambda>t.
     bind (update_rows userSessions_update
            (\<lambda>r. us_id r = sessionId \<and> us_userId r = userId) (revoke_session_row t)) (\<lambda>_.
     writeSecurityEvent opts ''logout.success'' (Some userId)
       (JObj [(''sessionId'', juuid sessionId)])))"

definition revokeByToken :: "libs \<Rightarrow> string \<Rightarrow> unit io" where
  "revokeByToken L token =
     (let tokenHash = hashOpaqueToken L token in
     bind now (\<lambda>t.
     update_rows userSessions_update
       (\<lambda>r. us_revokedAt r = None \<and>
            (us_accessTokenHash r = tokenHash \<or> us_refreshTokenHash r = tokenHash))
       (revoke_session_row t)))"

record introspection =
  is_sub :: uuid
  is_sid :: uuid
  is_exp :: int
  is_permissions :: "string list"
  is_entitlements :: "(string \<times> entitlement_value) list"

text \<open>\<open>None\<close> is the answer \<open>{ active: false }\<close>.\<close>

definition introspectToken :: "libs \<Rightarrow> string \<Rightarrow> introspection option io" where
  "introspectToken L token =
     (let tokenHash = hashOpaqueToken L token in
     bind now (\<lambda>t.
     bind (read_db (\<lambda>d. List.find (\<lambda>r. us_accessTokenHash r = tokenHash) (userSessions d))) (\<lambda>row.
     case row of
       None \<Rightarrow> ret None
     | Some s \<Rightarrow>
         if \<not> (us_revokedAt s = None \<and> t < us_expiresAt s) then ret None
         else bind (read_db (\<lambda>d. getAuthorizationSnapshot d t (us_userId s) no_context)) (\<lambda>c.
           ret (Some \<lparr>is_sub = us_userId s, is_sid = us_id s, is_exp = us_expiresAt s div 1000,
             is_permissions = sn_permissions c, is_entitlements = sn_entitlements c\<rparr>)))))"

definition listSessions :: "database \<Rightarrow> uuid \<Rightarrow> session_row list" where
  "listSessions d userId = order_desc us_createdAt (filter (\<lambda>r. us_userId r = userId) (userSessions d))"

definition revokeSession :: "libs \<Rightarrow> uuid \<Rightarrow> uuid \<Rightarrow> unit io" where
  "revokeSession L userId sessionId =
     bind now (\<lambda>t.
     bind (update_rows userSessions_update
            (\<lambda>r. us_userId r = userId \<and> us_id r = sessionId) (revoke_session_row t)) (\<lambda>_.
     writeAuditLog L (Some userId) ''session.revoke'' ''session'' (Some (uuid_text sessionId)) (JObj [])))"

definition live_of_user :: "uuid \<Rightarrow> session_row \<Rightarrow> bool" where
  "live_of_user userId r \<longleftrightarrow> us_userId r = userId \<and> us_revokedAt r = None"

definition revokeAllSessions :: "libs \<Rightarrow> uuid \<Rightarrow> unit io" where
  "revokeAllSessions L userId =
     bind now (\<lambda>t.
     bind (update_rows userSessions_update (live_of_user userId) (revoke_session_row t)) (\<lambda>_.
     writeAuditLog L (Some userId) ''session.revoke_all'' ''session'' None (JObj [])))"

end
