(* ===== verification/AuthCoreAccounts.thy ===== *)
theory AuthCoreAccounts
  imports AuthCoreSessions
begin

text \<open>
  packages/auth-core/src/auth-service.ts, the operations on accounts: profile, password change
  and reset, e-mail verification, MFA factors and the Google identity.
\<close>

section \<open>Profile and password\<close>

record me =
  me_userId :: uuid
  me_email :: string
  me_status :: string
  me_emailVerified :: bool

definition find_me :: "database \<Rightarrow> uuid \<Rightarrow> me option" where
  "find_me d userId = first_row
     [\<lparr>me_userId = u_id u, me_email = em_email e, me_status = u_status u,
       me_emailVerified = em_isVerified e\<rparr>.
      u \<leftarrow> users d, u_id u = userId, e \<leftarrow> userEmails d, em_userId e = u_id u, em_isPrimary e]"

definition getMe :: "uuid \<Rightarrow> me io" where
  "getMe userId = bind (read_db (\<lambda>d. find_me d userId)) (\<lambda>me.
     case me of
       None \<Rightarrow> throw (ApiError 404 ''user_not_found'' ''User not found'')
     | Some m \<Rightarrow> ret m)"

definition find_password :: "database \<Rightarrow> uuid \<Rightarrow> password_row option" where
  "find_password d userId = List.find (\<lambda>r. pw_userId r = userId) (userPasswords d)"

definition verifyCurrentPassword :: "libs \<Rightarrow> uuid \<Rightarrow> string \<Rightarrow> unit io" where
  "verifyCurrentPassword L userId password =
     bind (read_db (\<lambda>d. find_password d userId)) (\<lambda>row.
     case row of
       None \<Rightarrow> throw (ApiError 404 ''user_password_not_found'' ''User password not found'')
     | Some r \<Rightarrow>
         bind (verify_hash L (pw_passwordHash r) password) (\<lambda>valid.
         if valid then ret ()
         else throw (ApiError 401 ''invalid_credentials'' ''Invalid password'')))"

definition set_password :: "uuid \<Rightarrow> string \<Rightarrow> unit io" where
  "set_password userId passwordHash =
     bind now (\<lambda>t. update_rows userPasswords_update (\<lambda>r. pw_userId r = userId)
       (\<lambda>r. r\<lparr>pw_passwordHash := passwordHash, pw_updatedAt := t\<rparr>))"

definition revoke_live_sessions :: "uuid \<Rightarrow> unit io" where
  "revoke_live_sessions userId =
     bind now (\<lambda>t. update_rows userSessions_update (live_of_user userId) (revoke_session_row t))"

definition changePassword :: "libs \<Rightarrow> auth_options \<Rightarrow> uuid \<Rightarrow> string \<Rightarrow> string \<Rightarrow> unit io" where
  "changePassword L opts userId currentPassword newPassword =
     bind (verifyCurrentPassword L userId currentPassword) (\<lambda>_.
     bind (argon2_hash_io L opts newPassword) (\<lambda>passwordHash.
     bind (set_password userId passwordHash) (\<lambda>_.
     bind (revoke_live_sessions userId) (\<lambda>_.
     bind (writeSecurityEvent opts ''password.changed'' (Some userId) (JObj [])) (\<lambda>_.
     writeAuditLog L (Some userId) ''password.change'' ''user'' (Some (uuid_text userId)) (JObj []))))))"

section \<open>Single-use tokens\<close>

text \<open>The result is the token to deliver, \<open>None\<close> when the request is accepted without one.\<close>

definition requestPasswordReset :: "libs \<Rightarrow> auth_options \<Rightarrow> string \<Rightarrow> string option io" where
  "requestPasswordReset L opts email =
     bind (read_db (\<lambda>d. List.find (\<lambda>e. em_email e = email) (userEmails d))) (\<lambda>account.
     case account of
       None \<Rightarrow> ret None
     | Some e \<Rightarrow>
         bind (createOpaqueToken ''pr'') (\<lambda>resetToken.
         bind now (\<lambda>t.
         bind (insert_reset_token (em_userId e) (hashOpaqueToken L resetToken) (t + 30 * 60000)) (\<lambda>_.
         bind (writeSecurityEvent opts ''password.reset.requested'' (Some (em_userId e)) (JObj [])) (\<lambda>_.
         ret (Some resetToken))))))"

definition requestEmailVerification :: "libs \<Rightarrow> auth_options \<Rightarrow> string \<Rightarrow> string option io" where
  "requestEmailVerification L opts email =
     bind (read_db (\<lambda>d. List.find (\<lambda>e. em_email e = email \<and> em_isPrimary e) (userEmails d))) (\<lambda>account.
     case account of
       None \<Rightarrow> ret None
     | Some e \<Rightarrow>
         if em_isVerified e then ret None
         else
         bind (createOpaqueToken ''ev'') (\<lambda>token.
         bind now (\<lambda>t.
         bind (insert_email_token (em_userId e) (hashOpaqueToken L token) (t + 24 * 60 * 60000)) (\<lambda>_.
         bind (writeSecurityEvent opts ''email.verification.requested'' (Some (em_userId e)) (JObj [])) (\<lambda>_.
         ret (Some token))))))"

definition usable_token :: "time \<Rightarrow> string \<Rightarrow> token_row \<Rightarrow> bool" where
  "usable_token t tokenHash r \<longleftrightarrow>
     tk_tokenHash r = tokenHash \<and> tk_consumedAt r = None \<and> t < tk_expiresAt r"

definition consume_row :: "time \<Rightarrow> token_row \<Rightarrow> token_row" where
  "consume_row t r = r\<lparr>tk_consumedAt := Some t\<rparr>"

definition confirmEmailVerification :: "libs \<Rightarrow> auth_options \<Rightarrow> string \<Rightarrow> unit io" where
  "confirmEmailVerification L opts token =
     (let tokenHash = hashOpaqueToken L token in
     transaction (
     bind now (\<lambda>t.
     bind (read_db (\<lambda>d. List.find (usable_token t tokenHash) (emailVerificationTokens d))) (\<lambda>row.
     case row of
       None \<Rightarrow> throw (ApiError 400 ''invalid_verification_token'' ''Invalid or expired verification token'')
     | Some r \<Rightarrow>
         bind (update_rows userEmails_update (\<lambda>e. em_userId e = tk_userId r \<and> em_isPrimary e)
                 (\<lambda>e. e\<lparr>em_isVerified := True\<rparr>)) (\<lambda>_.
         bind (update_rows emailVerificationTokens_update (\<lambda>k. tk_id k = tk_id r) (consume_row t)) (\<lambda>_.
         writeSecurityEvent opts ''email.verified'' (Some (tk_userId r)) (JObj [])))))))"

definition confirmPasswordReset :: "libs \<Rightarrow> auth_options \<Rightarrow> string \<Rightarrow> string \<Rightarrow> unit io" where
  "confirmPasswordReset L opts resetToken newPassword =
     (let tokenHash = hashOpaqueToken L resetToken in
     transaction (
     bind now (\<lambda>t.
     bind (read_db (\<lambda>d. List.find (usable_token t tokenHash) (passwordResetTokens d))) (\<lambda>row.
     case row of
       None \<Rightarrow> throw (ApiError 400 ''invalid_reset_token'' ''Invalid or expired reset token'')
     | Some r \<Rightarrow>
         bind (argon2_hash_io L opts newPassword) (\<lambda>passwordHash.
         bind (set_password (tk_userId r) passwordHash) (\<lambda>_.
         bind (revoke_live_sessions (tk_userId r)) (\<lambda>_.
         bind (update_rows passwordResetTokens_update (\<lambda>k. tk_id k = tk_id r) (consume_row t)) (\<lambda>_.
         writeSecurityEvent opts ''password.changed'' (Some (tk_userId r))
           (JObj [(''reason'', JStr ''password_reset'')])))))))))"

section \<open>MFA factors\<close>

record enrollment =
  el_id :: uuid
  el_secret :: string
  el_provisioningUri :: string

definition insert_factor :: "factor_row \<Rightarrow> unit io" where
  "insert_factor r = insert_row mfaFactors mfaFactors_update uniq_factors
     (\<lambda>d r. user_exists d (mf_userId r)) r"

definition enrollMfa :: "libs \<Rightarrow> auth_options \<Rightarrow> uuid \<Rightarrow> enrollment io" where
  "enrollMfa L opts userId =
     bind draw_text (\<lambda>secret. bind draw_uuid (\<lambda>i. bind now (\<lambda>t.
     bind (insert_factor \<lparr>mf_id = i, mf_userId = userId, mf_type = ''totp'', mf_name = None,
             mf_secret = Some secret, mf_webauthnData = None, mf_enabled = False,
             mf_createdAt = t\<rparr>) (\<lambda>_.
     bind (getMe userId) (\<lambda>account.
     bind (writeSecurityEvent opts ''mfa.enroll_started'' (Some userId)
            (JObj [(''factorId'', juuid i)])) (\<lambda>_.
     ret \<lparr>el_id = i, el_secret = secret,
          el_provisioningUri = totp_keyuri L (me_email account) (ao_mfaIssuer opts) secret\<rparr>))))))"

definition digit :: "char \<Rightarrow> bool" where
  "digit c \<longleftrightarrow> c \<in> set ''0123456789''"

text \<open>The regular expression of six decimal digits.\<close>

definition six_digits :: "string \<Rightarrow> bool" where
  "six_digits code \<longleftrightarrow> length code = 6 \<and> list_all digit code"

definition own_factor :: "uuid \<Rightarrow> uuid \<Rightarrow> factor_row \<Rightarrow> bool" where
  "own_factor userId factorId f \<longleftrightarrow> mf_id f = factorId \<and> mf_userId f = userId"

definition verifyMfa :: "libs \<Rightarrow> auth_options \<Rightarrow> uuid \<Rightarrow> uuid \<Rightarrow> string \<Rightarrow> unit io" where
  "verifyMfa L opts userId factorId code =
     (if \<not> six_digits code then throw (ApiError 400 ''invalid_mfa_code'' ''MFA code must be 6 digits'')
      else
      bind (read_db (\<lambda>d. List.find (own_factor userId factorId) (mfaFactors d))) (\<lambda>factor.
      case factor of
        None \<Rightarrow> throw (ApiError 404 ''mfa_factor_not_found'' ''MFA factor not found'')
      | Some f \<Rightarrow>
          if \<not> truthy (mf_secret f) then
            throw (ApiError 400 ''invalid_mfa_factor'' ''MFA factor has no secret'')
          else bind now (\<lambda>t.
          if \<not> totp_check L code (the (mf_secret f)) t then
            throw (ApiError 400 ''invalid_mfa_code'' ''MFA code is invalid'')
          else
          bind (read_db (\<lambda>d. filter (own_factor userId factorId) (mfaFactors d))) (\<lambda>updated.
          bind (update_rows mfaFactors_update (own_factor userId factorId) (\<lambda>r. r\<lparr>mf_enabled := True\<rparr>)) (\<lambda>_.
          if updated = [] then throw (ApiError 404 ''mfa_factor_not_found'' ''MFA factor not found'')
          else writeSecurityEvent opts ''mfa.enabled'' (Some userId)
                 (JObj [(''factorId'', juuid factorId)]))))))"

section \<open>External identities\<close>

definition insert_identity :: "uuid \<Rightarrow> string \<Rightarrow> string \<Rightarrow> string \<Rightarrow> unit io" where
  "insert_identity userId provider providerSubject email =
     bind draw_uuid (\<lambda>i. bind now (\<lambda>t.
     insert_row externalIdentities externalIdentities_update uniq_identities
       (\<lambda>d r. user_exists d (xi_userId r))
       \<lparr>xi_id = i, xi_userId = userId, xi_provider = provider,
        xi_providerSubject = providerSubject, xi_email = Some email,
        xi_isEmailVerified = True, xi_createdAt = t\<rparr>))"

definition find_identity :: "database \<Rightarrow> string \<Rightarrow> string \<Rightarrow> identity_row option" where
  "find_identity d provider providerSubject =
     List.find (\<lambda>r. xi_provider r = provider \<and> xi_providerSubject r = providerSubject)
       (externalIdentities d)"

text \<open>Steps 1 to 3 of \<open>authenticateSocialIdentity\<close>: the linked account, the account that owns the
  e-mail address (which is linked), or a new one.\<close>

definition social_user :: "auth_options \<Rightarrow> string \<Rightarrow> string \<Rightarrow> string \<Rightarrow> string option \<Rightarrow> uuid io" where
  "social_user opts provider providerSubject email ipAddress =
     bind (read_db (\<lambda>d. find_identity d provider providerSubject)) (\<lambda>existingIdentity.
     case existingIdentity of
       Some r \<Rightarrow> ret (xi_userId r)
     | None \<Rightarrow>
         bind (read_db (\<lambda>d. List.find (\<lambda>e. em_email e = email \<and> em_isPrimary e) (userEmails d))) (\<lambda>existingUser.
         case existingUser of
           Some e \<Rightarrow>
             bind (insert_identity (em_userId e) provider providerSubject email) (\<lambda>_.
             ret (em_userId e))
         | None \<Rightarrow>
             bind (insert_user ''active'') (\<lambda>userId.
             bind (insert_email userId email True) (\<lambda>_.
             bind (insert_identity userId provider providerSubject email) (\<lambda>_.
             bind (writeSecurityEvent opts (''signup.'' @ provider @ ''.created'') (Some userId)
                    (JObj [(''email'', JStr email), (''ipAddress'', jstr_opt ipAddress)])) (\<lambda>_.
             ret userId))))))"

record social_result =
  so_userId :: uuid
  so_mfaEnabled :: bool
  so_tokens :: token_bundle

definition authenticateSocialIdentity ::
    "libs \<Rightarrow> auth_options \<Rightarrow> string \<Rightarrow> string \<Rightarrow> string \<Rightarrow> string option \<Rightarrow> uuid option \<Rightarrow>
     string option \<Rightarrow> string option \<Rightarrow> social_result io" where
  "authenticateSocialIdentity L opts provider providerSubject email mfaCode mfaFactorId ipAddress userAgent =
     bind (social_user opts provider providerSubject email ipAddress) (\<lambda>userId.
     bind (read_db (\<lambda>d. enabled_factors d userId)) (\<lambda>factors.
     let mfaEnabled = (factors \<noteq> []) in
     bind (read_db (\<lambda>d. hasLocalPassword d userId)) (\<lambda>localPasswordAccount.
     bind (whenever (localPasswordAccount \<and> mfaEnabled)
            (bind (assertValidTotpMfa L factors mfaCode mfaFactorId) (\<lambda>factorId.
             writeSecurityEvent opts (''mfa.'' @ provider @ ''.login_verified'') (Some userId)
               (JObj [(''factorId'', juuid factorId)])))) (\<lambda>_.
     bind (createSession L opts userId ipAddress userAgent) (\<lambda>tokens.
     bind (writeSecurityEvent opts (''login.'' @ provider @ ''.success'') (Some userId)
            (JObj [(''email'', JStr email), (''ipAddress'', jstr_opt ipAddress),
                   (''mfaEnabled'', JBool mfaEnabled)])) (\<lambda>_.
     ret \<lparr>so_userId = userId, so_mfaEnabled = mfaEnabled, so_tokens = tokens\<rparr>))))))"

text \<open>
  The checks on a Google ID token that \<open>loginWithGoogle\<close> and \<open>linkGoogleIdentity\<close> make in the
  same words: subject and lower-cased e-mail address.
\<close>

definition google_subject :: "libs \<Rightarrow> string \<Rightarrow> string \<Rightarrow> (string \<times> string) io" where
  "google_subject L idToken clientId =
     bind now (\<lambda>t.
     case google_verify L idToken clientId t of
       None \<Rightarrow> throw (PlainError ''verifyIdToken'')
     | Some None \<Rightarrow> throw (ApiError 400 ''invalid_google_token'' ''Invalid Google ID Token'')
     | Some (Some payload) \<Rightarrow>
         if \<not> truthy (gp_sub payload) \<or> \<not> truthy (gp_email payload) then
           throw (ApiError 400 ''invalid_google_token'' ''Invalid Google ID Token'')
         else if \<not> gp_emailVerified payload then
           throw (ApiError 400 ''google_email_not_verified'' ''Google account email must be verified'')
         else ret (the (gp_sub payload), to_lower (the (gp_email payload))))"

definition loginWithGoogle ::
    "libs \<Rightarrow> auth_options \<Rightarrow> string \<Rightarrow> string \<Rightarrow> string option \<Rightarrow> uuid option \<Rightarrow>
     string option \<Rightarrow> string option \<Rightarrow> social_result io" where
  "loginWithGoogle L opts idToken clientId mfaCode mfaFactorId ipAddress userAgent =
     bind (google_subject L idToken clientId) (\<lambda>(sub, email).
     transaction (authenticateSocialIdentity L opts ''google'' sub email mfaCode mfaFactorId
       ipAddress userAgent))"

definition linkGoogleIdentity :: "libs \<Rightarrow> auth_options \<Rightarrow> uuid \<Rightarrow> string \<Rightarrow> string \<Rightarrow> unit io" where
  "linkGoogleIdentity L opts userId idToken clientId =
     bind (google_subject L idToken clientId) (\<lambda>(providerSubject, email).
     bind (getMe userId) (\<lambda>user.
     if me_email user \<noteq> email then
       throw (ApiError 400 ''email_mismatch'' (''Google email ('' @ email @
         '') does not match your primary email ('' @ me_email user @ '')''))
     else
     bind (read_db (\<lambda>d. find_identity d ''google'' providerSubject)) (\<lambda>mapped.
     case mapped of
       Some r \<Rightarrow>
         if xi_userId r = userId then ret ()
         else throw (ApiError 409 ''google_identity_in_use''
                ''Google identity is already linked to another account'')
     | None \<Rightarrow>
         transaction (
         bind (insert_identity userId ''google'' providerSubject email) (\<lambda>_.
         bind (writeSecurityEvent opts ''identity.google.linked'' (Some userId)
                (JObj [(''providerSubject'', JStr providerSubject), (''email'', JStr email)])) (\<lambda>_.
         writeAuditLog L (Some userId) ''identity.google.link'' ''external_identity''
           (Some providerSubject) (JObj [(''email'', JStr email)])))))))"

definition unlinkSocialIdentity ::
    "libs \<Rightarrow> auth_options \<Rightarrow> uuid \<Rightarrow> string \<Rightarrow> string \<Rightarrow> unit io" where
  "unlinkSocialIdentity L opts userId provider providerSubject =
     transaction (
     bind (delete_rows externalIdentities_update (\<lambda>r. xi_userId r = userId \<and>
             xi_provider r = provider \<and> xi_providerSubject r = providerSubject)) (\<lambda>_.
     bind (writeSecurityEvent opts (''identity.'' @ provider @ ''.unlinked'') (Some userId)
            (JObj [(''providerSubject'', JStr providerSubject)])) (\<lambda>_.
     writeAuditLog L (Some userId) (''identity.'' @ provider @ ''.unlink'') ''external_identity''
       (Some providerSubject) (JObj []))))"

end
