(* ===== verification/AuthCoreWrites.thy ===== *)
theory AuthCoreWrites
  imports AuthCoreAccounts
begin

text \<open>
  The statements the auth-core service issues, as an interface: a relation between databases
  that each of them respects is respected by every operation of the service. The locale
  \<open>auth_writes\<close> states the laws statement by statement and proves the operations once; its
  interpretations are in AuthCoreInvariants.
\<close>

section \<open>Refresh, by its outcomes\<close>

definition rotated :: "libs \<Rightarrow> auth_options \<Rightarrow> time \<Rightarrow> string \<Rightarrow> string \<Rightarrow> session_row \<Rightarrow> session_row" where
  "rotated L opts t access refresh' r = r\<lparr>us_accessTokenHash := hashOpaqueToken L access,
     us_refreshTokenHash := hashOpaqueToken L refresh',
     us_expiresAt := t + ao_accessTokenTtlSeconds opts * 1000,
     us_refreshExpiresAt := t + ao_refreshTokenTtlSeconds opts * 1000, us_lastSeenAt := t\<rparr>"

definition rotation_hit :: "uuid \<Rightarrow> string \<Rightarrow> session_row \<Rightarrow> bool" where
  "rotation_hit i tokenHash r \<longleftrightarrow> us_id r = i \<and> us_refreshTokenHash r = tokenHash"

lemma rotated_simps [simp]:
  "us_id (rotated L opts t a b r) = us_id r"
  "us_userId (rotated L opts t a b r) = us_userId r"
  "us_revokedAt (rotated L opts t a b r) = us_revokedAt r"
  "us_accessTokenHash (rotated L opts t a b r) = hashOpaqueToken L a"
  "us_refreshTokenHash (rotated L opts t a b r) = hashOpaqueToken L b"
  "us_expiresAt (rotated L opts t a b r) = t + ao_accessTokenTtlSeconds opts * 1000"
  "us_refreshExpiresAt (rotated L opts t a b r) = t + ao_refreshTokenTtlSeconds opts * 1000"
  "us_createdAt (rotated L opts t a b r) = us_createdAt r"
  by (simp_all add: rotated_def)

definition next_access :: "world \<Rightarrow> string" where
  "next_access w = ''at_'' @ rnd_text w (rnd w)"

definition next_refresh :: "world \<Rightarrow> string" where
  "next_refresh w = ''rt_'' @ rnd_text w (Suc (rnd w))"

text \<open>With no usable row every effect of the handler is undone by the transaction.\<close>

lemma refresh_dead:
  assumes "List.find (live_refresh (clock w) (hashOpaqueToken L tok)) (userSessions (db w)) = None"
  shows "\<exists>e. fst (refresh L opts tok w) = Inl e \<and> db (snd (refresh L opts tok w)) = db w"
  using assms
  by (auto simp: refresh_def Let_def run_simps split: prod.splits sum.splits)

lemma rotation_hit_of_found:
  assumes "List.find (live_refresh t h) rs = Some s"
  shows "filter (rotation_hit (us_id s) h) rs \<noteq> []"
  using find_SomeD [OF assms]
  by (auto simp: rotation_hit_def live_refresh_def filter_empty_conv)

lemma refresh_live:
  assumes f: "List.find (live_refresh (clock w) (hashOpaqueToken L tok)) (userSessions (db w)) = Some s"
  shows "refresh L opts tok w =
    (let f = update_where (rotation_hit (us_id s) (hashOpaqueToken L tok))
           (rotated L opts (clock w) (next_access w) (next_refresh w));
         d' = userSessions_update f (db w)
     in if uniq_sessions (userSessions d')
        then (Inr \<lparr>rr_userId = us_userId s, rr_tokens =
                \<lparr>tb_accessToken = next_access w, tb_refreshToken = next_refresh w,
                 tb_accessExpiresAt = clock w + ao_accessTokenTtlSeconds opts * 1000,
                 tb_refreshExpiresAt = clock w + ao_refreshTokenTtlSeconds opts * 1000,
                 tb_tokenClaims = getAuthorizationSnapshot d' (clock w) (us_userId s) no_context\<rparr>\<rparr>,
              w\<lparr>db := d', rnd := Suc (Suc (rnd w))\<rparr>)
        else (Inl (DbError ''23505''), w\<lparr>rnd := Suc (Suc (rnd w))\<rparr>))"
proof -
  have "filter (rotation_hit (us_id s) (hashOpaqueToken L tok)) (userSessions (db w)) \<noteq> []"
    using f by (rule rotation_hit_of_found)
  with f show ?thesis
    unfolding refresh_def rotation_hit_def [abs_def] rotated_def [abs_def] next_access_def next_refresh_def
    by (simp add: Let_def run_simps)
qed

section \<open>The interface\<close>

locale auth_writes = db_order r for r :: "database \<Rightarrow> database \<Rightarrow> bool" +
  assumes w_session: "us_revokedAt xs = None \<Longrightarrow> uniq_sessions (userSessions d @ [xs]) \<Longrightarrow>
      user_exists d (us_userId xs) \<Longrightarrow> r d (userSessions_update (\<lambda>rs. rs @ [xs]) d)"
    and w_attempt: "uniq_attempts (loginAttempts d @ [xa]) \<Longrightarrow> 
      r d (loginAttempts_update (\<lambda>rs. rs @ [xa]) d)"
    and w_user: "uniq_users (users d @ [xu]) \<Longrightarrow> 
      r d (users_update (\<lambda>rs. rs @ [xu]) d)"
    and w_email: "uniq_emails (userEmails d @ [xe]) \<Longrightarrow> user_exists d (em_userId xe) \<Longrightarrow> 
      r d (userEmails_update (\<lambda>rs. rs @ [xe]) d)"
    and w_password: "uniq_passwords (userPasswords d @ [xp]) \<Longrightarrow> user_exists d (pw_userId xp) \<Longrightarrow> 
      r d (userPasswords_update (\<lambda>rs. rs @ [xp]) d)"
    and w_email_token: "tk_consumedAt xt = None \<Longrightarrow> uniq_tokens (emailVerificationTokens d @ [xt]) \<Longrightarrow> user_exists d (tk_userId xt) \<Longrightarrow> 
      r d (emailVerificationTokens_update (\<lambda>rs. rs @ [xt]) d)"
    and w_reset_token: "tk_consumedAt xt = None \<Longrightarrow> uniq_tokens (passwordResetTokens d @ [xt]) \<Longrightarrow> user_exists d (tk_userId xt) \<Longrightarrow> 
      r d (passwordResetTokens_update (\<lambda>rs. rs @ [xt]) d)"
    and w_event: "uniq_events (securityEvents d @ [xv]) \<Longrightarrow> opt_user_exists d (se_userId xv) \<Longrightarrow> 
      r d (securityEvents_update (\<lambda>rs. rs @ [xv]) d)"
    and w_audit: "uniq_audit (auditLogs d @ [xg]) \<Longrightarrow> opt_user_exists d (au_actorUserId xg) \<Longrightarrow> 
      r d (auditLogs_update (\<lambda>rs. rs @ [xg]) d)"
    and w_factor: "\<not> mf_enabled xf \<Longrightarrow> uniq_factors (mfaFactors d @ [xf]) \<Longrightarrow> user_exists d (mf_userId xf) \<Longrightarrow> 
      r d (mfaFactors_update (\<lambda>rs. rs @ [xf]) d)"
    and w_identity: "uniq_identities (externalIdentities d @ [xi]) \<Longrightarrow> user_exists d (xi_userId xi) \<Longrightarrow> 
      r d (externalIdentities_update (\<lambda>rs. rs @ [xi]) d)"
    and w_touch: "r d (userSessions_update (update_where ps (\<lambda>s. s\<lparr>us_lastSeenAt := t\<rparr>)) d)"
    and w_revoke: "r d (userSessions_update (update_where ps (revoke_session_row t)) d)"
    and w_set_password: "r d (userPasswords_update (update_where pp (\<lambda>r. r\<lparr>pw_passwordHash := h, pw_updatedAt := t\<rparr>)) d)"
    and w_verify: "r d (userEmails_update (update_where pe (\<lambda>e. e\<lparr>em_isVerified := True\<rparr>)) d)"
    and w_consume_email: "r d (emailVerificationTokens_update (update_where pt (consume_row t)) d)"
    and w_consume_reset: "r d (passwordResetTokens_update (update_where pt (consume_row t)) d)"
    and w_enable: "r d (mfaFactors_update (update_where pf (\<lambda>f. f\<lparr>mf_enabled := True\<rparr>)) d)"
    and w_unlink: "r d (externalIdentities_update (delete_where q) d)"
    and w_rotate: "s \<in> set (userSessions d) \<Longrightarrow> us_revokedAt s = None \<Longrightarrow>
      uniq_sessions (update_where (rotation_hit (us_id s) (us_refreshTokenHash s))
        (rotated L opts t a b) (userSessions d)) \<Longrightarrow>
      r d (userSessions_update (update_where (rotation_hit (us_id s) (us_refreshTokenHash s))
        (rotated L opts t a b)) d)"
begin

lemma safe_insert_event [safe_intros]: "safe (on_db r) (insert_event k u p)"
  unfolding insert_event_def by (intro safe_intros safe_insert_row w_event) auto

lemma safe_writeSecurityEvent [safe_intros]: "safe (on_db r) (writeSecurityEvent opts k u p)"
  unfolding writeSecurityEvent_def by (intro safe_intros)

lemma safe_insert_audit [safe_intros]: "safe (on_db r) (insert_audit x)"
  unfolding insert_audit_def by (intro safe_insert_row w_audit) auto

lemma safe_writeAuditLog [safe_intros]: "safe (on_db r) (writeAuditLog L u a rt ri p)"
  unfolding writeAuditLog_def by (intro safe_intros)

lemma safe_insert_session: "us_revokedAt x = None \<Longrightarrow> safe (on_db r) (insert_session x)"
  unfolding insert_session_def by (intro safe_insert_row w_session) auto

lemma safe_insert_attempt [safe_intros]: "safe (on_db r) (insert_attempt e s y i)"
  unfolding insert_attempt_def by (intro safe_intros safe_insert_row w_attempt) auto

lemma safe_insert_user [safe_intros]: "safe (on_db r) (insert_user st)"
  unfolding insert_user_def by (intro safe_intros safe_insert_row w_user) auto

lemma safe_insert_email [safe_intros]: "safe (on_db r) (insert_email u e v)"
  unfolding insert_email_def by (intro safe_intros safe_insert_row w_email) auto

lemma safe_insert_password [safe_intros]: "safe (on_db r) (insert_password u h)"
  unfolding insert_password_def by (intro safe_intros safe_insert_row w_password) auto

lemma safe_insert_email_token [safe_intros]: "safe (on_db r) (insert_email_token u h t)"
  unfolding insert_email_token_def by (intro safe_intros safe_insert_row w_email_token) auto

lemma safe_insert_reset_token [safe_intros]: "safe (on_db r) (insert_reset_token u h t)"
  unfolding insert_reset_token_def by (intro safe_intros safe_insert_row w_reset_token) auto

lemma safe_insert_identity [safe_intros]: "safe (on_db r) (insert_identity u a b e)"
  unfolding insert_identity_def by (intro safe_intros safe_insert_row w_identity) auto

lemma safe_insert_factor: "\<not> mf_enabled x \<Longrightarrow> safe (on_db r) (insert_factor x)"
  unfolding insert_factor_def by (intro safe_insert_row w_factor) auto

lemma safe_argon2_hash_io [safe_intros]: "safe (on_db r) (argon2_hash_io L opts p)"
  unfolding argon2_hash_io_def by (intro safe_intros)

lemma safe_createSession [safe_intros]: "safe (on_db r) (createSession L opts u i a)"
  unfolding createSession_def by (intro safe_intros safe_insert_session) auto

lemma safe_createSessionForUser: "safe (on_db r) (createSessionForUser L opts u i a)"
  unfolding createSessionForUser_def by (intro safe_intros)

lemma safe_assertValidTotpMfa [safe_intros]: "safe (on_db r) (assertValidTotpMfa L fs c i)"
  unfolding assertValidTotpMfa_def by (intro safe_intros)

lemma safe_signup: "safe (on_db r) (signup L opts email password displayName ip)"
  unfolding signup_def by (intro safe_intros)

lemma safe_login: "safe (on_db r) (login L opts email password code factor ip agent)"
  unfolding login_def by (intro safe_intros)

lemma safe_authenticateAccessToken: "safe (on_db r) (authenticateAccessToken L tok)"
  unfolding authenticateAccessToken_def by (intro safe_intros safe_update_rows w_touch)

lemma safe_refresh: "safe (on_db r) (refresh L opts tok)"
proof (rule safeI)
  fix w
  show "on_db r w (snd (refresh L opts tok w))"
  proof (cases "List.find (live_refresh (clock w) (hashOpaqueToken L tok)) (userSessions (db w))")
    case None
    from refresh_dead [OF None] show ?thesis by (auto simp: on_db_def db_refl)
  next
    case (Some s)
    from find_SomeD [OF this] have "s \<in> set (userSessions (db w))" "us_revokedAt s = None"
      "hashOpaqueToken L tok = us_refreshTokenHash s"
      by (auto simp: live_refresh_def)
    then show ?thesis
      by (auto simp: refresh_live [OF Some] Let_def on_db_def db_refl intro!: w_rotate)
  qed
qed

lemma safe_logoutBySession: "safe (on_db r) (logoutBySession opts s u)"
  unfolding logoutBySession_def by (intro safe_intros safe_update_rows w_revoke)

lemma safe_revokeByToken: "safe (on_db r) (revokeByToken L tok)"
  unfolding revokeByToken_def by (intro safe_intros safe_update_rows w_revoke)

lemma safe_introspectToken: "safe (on_db r) (introspectToken L tok)"
  unfolding introspectToken_def by (intro safe_intros)

lemma safe_revokeSession: "safe (on_db r) (revokeSession L u s)"
  unfolding revokeSession_def by (intro safe_intros safe_update_rows w_revoke)

lemma safe_revokeAllSessions: "safe (on_db r) (revokeAllSessions L u)"
  unfolding revokeAllSessions_def by (intro safe_intros safe_update_rows w_revoke)

lemma safe_getMe [safe_intros]: "safe (on_db r) (getMe u)"
  unfolding getMe_def by (intro safe_intros)

lemma safe_verifyCurrentPassword [safe_intros]: "safe (on_db r) (verifyCurrentPassword L u p)"
  unfolding verifyCurrentPassword_def by (intro safe_intros)

lemma safe_set_password [safe_intros]: "safe (on_db r) (set_password u h)"
  unfolding set_password_def by (intro safe_intros safe_update_rows w_set_password)

lemma safe_revoke_live_sessions [safe_intros]: "safe (on_db r) (revoke_live_sessions u)"
  unfolding revoke_live_sessions_def by (intro safe_intros safe_update_rows w_revoke)

lemma safe_changePassword: "safe (on_db r) (changePassword L opts u old new)"
  unfolding changePassword_def by (intro safe_intros)

lemma safe_requestPasswordReset: "safe (on_db r) (requestPasswordReset L opts e)"
  unfolding requestPasswordReset_def by (intro safe_intros)

lemma safe_requestEmailVerification: "safe (on_db r) (requestEmailVerification L opts e)"
  unfolding requestEmailVerification_def by (intro safe_intros)

lemma safe_confirmEmailVerification: "safe (on_db r) (confirmEmailVerification L opts tok)"
  unfolding confirmEmailVerification_def
  by (intro safe_intros safe_update_rows w_verify w_consume_email)

lemma safe_confirmPasswordReset: "safe (on_db r) (confirmPasswordReset L opts tok new)"
  unfolding confirmPasswordReset_def by (intro safe_intros safe_update_rows w_consume_reset)

lemma safe_enrollMfa: "safe (on_db r) (enrollMfa L opts u)"
  unfolding enrollMfa_def by (intro safe_intros safe_insert_factor) auto

lemma safe_verifyMfa: "safe (on_db r) (verifyMfa L opts u f c)"
  unfolding verifyMfa_def by (intro safe_intros safe_update_rows w_enable)

lemma safe_social_user [safe_intros]: "safe (on_db r) (social_user opts a b e i)"
  unfolding social_user_def by (intro safe_intros)

lemma safe_authenticateSocialIdentity [safe_intros]:
  "safe (on_db r) (authenticateSocialIdentity L opts a b e c f i g)"
  unfolding authenticateSocialIdentity_def by (intro safe_intros)

lemma safe_google_subject [safe_intros]: "safe (on_db r) (google_subject L tok aud)"
  unfolding google_subject_def by (intro safe_intros)

lemma safe_loginWithGoogle: "safe (on_db r) (loginWithGoogle L opts tok aud c f i g)"
  unfolding loginWithGoogle_def by (intro safe_intros)

lemma safe_linkGoogleIdentity: "safe (on_db r) (linkGoogleIdentity L opts u tok aud)"
  unfolding linkGoogleIdentity_def by (intro safe_intros)

lemma safe_unlinkSocialIdentity: "safe (on_db r) (unlinkSocialIdentity L opts u a b)"
  unfolding unlinkSocialIdentity_def by (intro safe_intros safe_delete_rows w_unlink)

end

end
