(* ===== verification/AuthCoreInvariants.thy ===== *)
theory AuthCoreInvariants
  imports AuthCoreWrites
begin

text \<open>
  What every run of the auth-core service respects: the operations as a datatype with their
  execution, and the interpretations of \<open>auth_writes\<close> on the well-formedness of the tables, on
  the history of sessions and single-use tokens, and on the append-only logs.
\<close>

section \<open>Operations and their execution\<close>

datatype auth_op =
    Signup string string string "string option"
  | Login string string "string option" "uuid option" "string option" "string option"
  | CreateSessionForUser uuid "string option" "string option"
  | Authenticate string
  | Refresh string
  | LogoutBySession uuid uuid
  | RevokeByToken string
  | Introspect string
  | RevokeSession uuid uuid
  | RevokeAllSessions uuid
  | ChangePassword uuid string string
  | RequestPasswordReset string
  | RequestEmailVerification string
  | ConfirmEmailVerification string
  | ConfirmPasswordReset string string
  | EnrollMfa uuid
  | VerifyMfa uuid uuid string
  | LoginWithGoogle string string "string option" "uuid option" "string option" "string option"
  | LinkGoogle uuid string string
  | UnlinkSocial uuid string string
  | Wait nat

text \<open>The world after a call; what it answered, an error or a value, is dropped.\<close>

fun run_op :: "libs \<Rightarrow> auth_options \<Rightarrow> auth_op \<Rightarrow> world \<Rightarrow> world" where
  "run_op L opts (Signup e p n i) w = snd (signup L opts e p n i w)"
| "run_op L opts (Login e p c f i a) w = snd (login L opts e p c f i a w)"
| "run_op L opts (CreateSessionForUser u i a) w = snd (createSessionForUser L opts u i a w)"
| "run_op L opts (Authenticate t) w = snd (authenticateAccessToken L t w)"
| "run_op L opts (Refresh t) w = snd (refresh L opts t w)"
| "run_op L opts (LogoutBySession s u) w = snd (logoutBySession opts s u w)"
| "run_op L opts (RevokeByToken t) w = snd (revokeByToken L t w)"
| "run_op L opts (Introspect t) w = snd (introspectToken L t w)"
| "run_op L opts (RevokeSession u s) w = snd (revokeSession L u s w)"
| "run_op L opts (RevokeAllSessions u) w = snd (revokeAllSessions L u w)"
| "run_op L opts (ChangePassword u p q) w = snd (changePassword L opts u p q w)"
| "run_op L opts (RequestPasswordReset e) w = snd (requestPasswordReset L opts e w)"
| "run_op L opts (RequestEmailVerification e) w = snd (requestEmailVerification L opts e w)"
| "run_op L opts (ConfirmEmailVerification t) w = snd (confirmEmailVerification L opts t w)"
| "run_op L opts (ConfirmPasswordReset t p) w = snd (confirmPasswordReset L opts t p w)"
| "run_op L opts (EnrollMfa u) w = snd (enrollMfa L opts u w)"
| "run_op L opts (VerifyMfa u f c) w = snd (verifyMfa L opts u f c w)"
| "run_op L opts (LoginWithGoogle t k c f i a) w = snd (loginWithGoogle L opts t k c f i a w)"
| "run_op L opts (LinkGoogle u t k) w = snd (linkGoogleIdentity L opts u t k w)"
| "run_op L opts (UnlinkSocial u p s) w = snd (unlinkSocialIdentity L opts u p s w)"
| "run_op L opts (Wait n) w = w\<lparr>clock := clock w + int n\<rparr>"

definition run_ops :: "libs \<Rightarrow> auth_options \<Rightarrow> auth_op list \<Rightarrow> world \<Rightarrow> world" where
  "run_ops L opts ops w = fold (run_op L opts) ops w"

context auth_writes
begin

lemmas operations_respect =
  safe_signup [THEN safeD, unfolded on_db_def]
  safe_login [THEN safeD, unfolded on_db_def]
  safe_createSessionForUser [THEN safeD, unfolded on_db_def]
  safe_authenticateAccessToken [THEN safeD, unfolded on_db_def]
  safe_refresh [THEN safeD, unfolded on_db_def]
  safe_logoutBySession [THEN safeD, unfolded on_db_def]
  safe_revokeByToken [THEN safeD, unfolded on_db_def]
  safe_introspectToken [THEN safeD, unfolded on_db_def]
  safe_revokeSession [THEN safeD, unfolded on_db_def]
  safe_revokeAllSessions [THEN safeD, unfolded on_db_def]
  safe_changePassword [THEN safeD, unfolded on_db_def]
  safe_requestPasswordReset [THEN safeD, unfolded on_db_def]
  safe_requestEmailVerification [THEN safeD, unfolded on_db_def]
  safe_confirmEmailVerification [THEN safeD, unfolded on_db_def]
  safe_confirmPasswordReset [THEN safeD, unfolded on_db_def]
  safe_enrollMfa [THEN safeD, unfolded on_db_def]
  safe_verifyMfa [THEN safeD, unfolded on_db_def]
  safe_loginWithGoogle [THEN safeD, unfolded on_db_def]
  safe_linkGoogleIdentity [THEN safeD, unfolded on_db_def]
  safe_unlinkSocialIdentity [THEN safeD, unfolded on_db_def]

lemma run_op_respects: "r (db w) (db (run_op L opts op w))"
  by (cases op) (simp_all add: operations_respect db_refl)

lemma run_ops_respects: "r (db w) (db (run_ops L opts ops w))"
proof (induction ops arbitrary: w)
  case Nil
  show ?case by (simp add: run_ops_def db_refl)
next
  case (Cons op ops)
  from db_trans [OF run_op_respects Cons.IH [of "run_op L opts op w"]]
  show ?case by (simp add: run_ops_def)
qed

end

section \<open>Well-formed tables\<close>

text \<open>
  The unique constraints and the references to \<open>users\<close> of the tables the service writes.
\<close>

definition references_users :: "database \<Rightarrow> bool" where
  "references_users d \<longleftrightarrow>
     (\<forall>r \<in> set (userSessions d). user_exists d (us_userId r)) \<and>
     (\<forall>r \<in> set (userEmails d). user_exists d (em_userId r)) \<and>
     (\<forall>r \<in> set (userPasswords d). user_exists d (pw_userId r)) \<and>
     (\<forall>r \<in> set (mfaFactors d). user_exists d (mf_userId r)) \<and>
     (\<forall>r \<in> set (externalIdentities d). user_exists d (xi_userId r)) \<and>
     (\<forall>r \<in> set (passwordResetTokens d). user_exists d (tk_userId r)) \<and>
     (\<forall>r \<in> set (emailVerificationTokens d). user_exists d (tk_userId r))"

definition unique_keys :: "database \<Rightarrow> bool" where
  "unique_keys d \<longleftrightarrow> uniq_users (users d) \<and> uniq_emails (userEmails d) \<and>
     uniq_passwords (userPasswords d) \<and> uniq_factors (mfaFactors d) \<and>
     uniq_identities (externalIdentities d) \<and> uniq_sessions (userSessions d) \<and>
     uniq_attempts (loginAttempts d) \<and> uniq_tokens (passwordResetTokens d) \<and>
     uniq_tokens (emailVerificationTokens d) \<and> uniq_events (securityEvents d) \<and>
     uniq_audit (auditLogs d)"

definition well_formed :: "database \<Rightarrow> bool" where
  "well_formed d \<longleftrightarrow> unique_keys d \<and> references_users d"

definition keeps :: "(database \<Rightarrow> bool) \<Rightarrow> database \<Rightarrow> database \<Rightarrow> bool" where
  "keeps P d d' \<longleftrightarrow> (P d \<longrightarrow> P d')"

lemma user_exists_simps [simp]:
  "user_exists (userSessions_update f d) = user_exists d"
  "user_exists (loginAttempts_update f1 d) = user_exists d"
  "user_exists (userEmails_update f2 d) = user_exists d"
  "user_exists (userPasswords_update f3 d) = user_exists d"
  "user_exists (emailVerificationTokens_update f4 d) = user_exists d"
  "user_exists (passwordResetTokens_update f4 d) = user_exists d"
  "user_exists (securityEvents_update f5 d) = user_exists d"
  "user_exists (auditLogs_update f6 d) = user_exists d"
  "user_exists (mfaFactors_update f7 d) = user_exists d"
  "user_exists (externalIdentities_update f8 d) = user_exists d"
  by (auto simp: user_exists_def fun_eq_iff)

lemma user_exists_grow: "user_exists d u \<Longrightarrow> user_exists (users_update (\<lambda>rs. rs @ [x]) d) u"
  by (auto simp: user_exists_def)

lemma row_updates_keep [simp]:
  "us_id (revoke_session_row t s) = us_id s"
  "us_userId (revoke_session_row t s) = us_userId s"
  "us_accessTokenHash (revoke_session_row t s) = us_accessTokenHash s"
  "us_refreshTokenHash (revoke_session_row t s) = us_refreshTokenHash s"
  "us_revokedAt (revoke_session_row t s) = Some t"
  "us_createdAt (revoke_session_row t s) = us_createdAt s"
  "tk_id (consume_row t k) = tk_id k"
  "tk_userId (consume_row t k) = tk_userId k"
  "tk_tokenHash (consume_row t k) = tk_tokenHash k"
  "tk_consumedAt (consume_row t k) = Some t"
  by (simp_all add: revoke_session_row_def consume_row_def)

lemma uniq_sessions_update [simp]:
  "uniq_sessions (update_where p (revoke_session_row t) rs) = uniq_sessions rs"
  "uniq_sessions (update_where p (\<lambda>s. s\<lparr>us_lastSeenAt := t\<rparr>) rs) = uniq_sessions rs"
  by (simp_all add: uniq_sessions_def)

lemma uniq_tokens_update [simp]:
  "uniq_tokens (update_where p (consume_row t) rs) = uniq_tokens rs"
  by (simp add: uniq_tokens_def)

lemma uniq_other_updates [simp]:
  "uniq_passwords (update_where pp (\<lambda>r. r\<lparr>pw_passwordHash := h, pw_updatedAt := t\<rparr>) ps) = uniq_passwords ps"
  "uniq_emails (update_where pe (\<lambda>e. e\<lparr>em_isVerified := True\<rparr>) es) = uniq_emails es"
  "uniq_factors (update_where pf (\<lambda>f. f\<lparr>mf_enabled := True\<rparr>) fs) = uniq_factors fs"
  by (simp_all add: uniq_passwords_def uniq_emails_def uniq_factors_def)

lemma uniq_delete_identities: "uniq_identities rs \<Longrightarrow> uniq_identities (delete_where q rs)"
  by (auto simp: uniq_identities_def delete_where_def intro: distinct_map_filter)

text \<open>An UPDATE that keeps the owner of every row keeps what is said of the owners.\<close>

lemma ball_update_where:
  "(\<And>r. g (f r) = g r) \<Longrightarrow> (\<forall>r \<in> set (update_where p f rs). Q (g r)) = (\<forall>r \<in> set rs. Q (g r))"
  by (induction rs) auto

lemmas owners_kept =
  ball_update_where [where g = us_userId] ball_update_where [where g = em_userId]
  ball_update_where [where g = pw_userId] ball_update_where [where g = mf_userId]
  ball_update_where [where g = tk_userId]

interpretation wf: auth_writes "keeps well_formed"
proof unfold_locales
qed (simp_all add: keeps_def well_formed_def unique_keys_def references_users_def
       owners_kept uniq_delete_identities user_exists_grow)

end
