(* ===== verification/AuthCoreHistory.thy ===== *)
theory AuthCoreHistory
  imports AuthCoreInvariants
begin

text \<open>
  How the tables of the auth-core service evolve: a session that was revoked stays revoked under
  its token hashes, a token that was consumed stays consumed, the audit log, the security events
  and the login attempts only grow. Each is an interpretation of \<open>auth_writes\<close>, so it holds of
  every operation and of every sequence of operations.
\<close>

section \<open>Sessions\<close>

definition session_evolves :: "session_row \<Rightarrow> session_row \<Rightarrow> bool" where
  "session_evolves s s' \<longleftrightarrow> us_id s' = us_id s \<and> us_userId s' = us_userId s \<and>
     us_createdAt s' = us_createdAt s \<and>
     (us_revokedAt s \<noteq> None \<longrightarrow> us_revokedAt s' \<noteq> None \<and>
        us_accessTokenHash s' = us_accessTokenHash s \<and> us_refreshTokenHash s' = us_refreshTokenHash s)"

definition session_history :: "database \<Rightarrow> database \<Rightarrow> bool" where
  "session_history d d' \<longleftrightarrow> (uniq_sessions (userSessions d) \<longrightarrow> uniq_sessions (userSessions d') \<and>
     (\<forall>s \<in> set (userSessions d). \<exists>s' \<in> set (userSessions d'). session_evolves s s'))"

lemma session_evolves_refl [simp]: "session_evolves s s"
  by (simp add: session_evolves_def)

lemma session_evolves_trans: "session_evolves a b \<Longrightarrow> session_evolves b c \<Longrightarrow> session_evolves a c"
  by (simp add: session_evolves_def)

lemma session_history_trans: "session_history a b \<Longrightarrow> session_history b c \<Longrightarrow> session_history a c"
  unfolding session_history_def by (meson session_evolves_trans)

lemma session_history_same: "userSessions d' = userSessions d \<Longrightarrow> session_history d d'"
  by (auto simp: session_history_def intro: session_evolves_refl)

lemma session_history_grow:
  "uniq_sessions (userSessions d @ [s]) \<Longrightarrow> userSessions d' = userSessions d @ [s] \<Longrightarrow> session_history d d'"
  by (auto simp: session_history_def intro: session_evolves_refl)

lemma session_history_update:
  assumes "userSessions d' = update_where p f (userSessions d)"
    and "uniq_sessions (userSessions d) \<Longrightarrow> uniq_sessions (userSessions d')"
    and "\<And>s. uniq_sessions (userSessions d) \<Longrightarrow> s \<in> set (userSessions d) \<Longrightarrow> p s \<Longrightarrow> session_evolves s (f s)"
  shows "session_history d d'"
  unfolding session_history_def
proof (intro impI conjI ballI)
  fix s assume u: "uniq_sessions (userSessions d)" and s: "s \<in> set (userSessions d)"
  show "\<exists>s' \<in> set (userSessions d'). session_evolves s s'"
    using s assms(3) [OF u s] by (intro bexI [where x = "if p s then f s else s"])
      (auto simp: assms(1) set_update_where)
qed (simp add: assms(2))

lemma uniq_session_id:
  "uniq_sessions rs \<Longrightarrow> s \<in> set rs \<Longrightarrow> s' \<in> set rs \<Longrightarrow> us_id s = us_id s' \<Longrightarrow> s = s'"
  using distinct_map_eqD [of us_id rs s s'] by (simp add: uniq_sessions_def)

lemma uniq_session_access:
  "uniq_sessions rs \<Longrightarrow> s \<in> set rs \<Longrightarrow> s' \<in> set rs \<Longrightarrow>
   us_accessTokenHash s = us_accessTokenHash s' \<Longrightarrow> s = s'"
  using distinct_map_eqD [of us_accessTokenHash rs s s'] by (simp add: uniq_sessions_def)

lemma uniq_session_refresh:
  "uniq_sessions rs \<Longrightarrow> s \<in> set rs \<Longrightarrow> s' \<in> set rs \<Longrightarrow>
   us_refreshTokenHash s = us_refreshTokenHash s' \<Longrightarrow> s = s'"
  using distinct_map_eqD [of us_refreshTokenHash rs s s'] by (simp add: uniq_sessions_def)

lemma session_history_rotate:
  assumes "s \<in> set (userSessions d)" and "us_revokedAt s = None"
    and "uniq_sessions (userSessions d')"
    and "userSessions d' = update_where (rotation_hit (us_id s) h) (rotated L opts t a b) (userSessions d)"
  shows "session_history d d'"
proof (rule session_history_update [OF assms(4)])
  fix s' assume "uniq_sessions (userSessions d)" "s' \<in> set (userSessions d)" "rotation_hit (us_id s) h s'"
  with assms(1,2) have "us_revokedAt s' = None"
    using uniq_session_id unfolding rotation_hit_def by blast
  then show "session_evolves s' (rotated L opts t a b s')"
    by (simp add: session_evolves_def)
qed (rule assms(3))

lemma session_history_touch:
  "session_history d (userSessions_update (update_where p (\<lambda>s. s\<lparr>us_lastSeenAt := t\<rparr>)) d)"
  by (rule session_history_update [where p = p and f = "\<lambda>s. s\<lparr>us_lastSeenAt := t\<rparr>"])
    (auto simp: session_evolves_def)

lemma session_history_revoke:
  "session_history d (userSessions_update (update_where p (revoke_session_row t)) d)"
  by (rule session_history_update [where p = p and f = "revoke_session_row t"])
    (auto simp: session_evolves_def)

interpretation sessions: auth_writes session_history
proof unfold_locales
qed (auto intro: session_history_same session_history_grow session_history_touch
       session_history_revoke session_history_rotate elim: session_history_trans)

section \<open>Single-use tokens\<close>

definition token_evolves :: "token_row \<Rightarrow> token_row \<Rightarrow> bool" where
  "token_evolves k k' \<longleftrightarrow> tk_id k' = tk_id k \<and> tk_userId k' = tk_userId k \<and>
     tk_tokenHash k' = tk_tokenHash k \<and> (tk_consumedAt k \<noteq> None \<longrightarrow> tk_consumedAt k' \<noteq> None)"

definition tokens_kept :: "(database \<Rightarrow> token_row list) \<Rightarrow> database \<Rightarrow> database \<Rightarrow> bool" where
  "tokens_kept tbl d d' \<longleftrightarrow> (uniq_tokens (tbl d) \<longrightarrow> uniq_tokens (tbl d') \<and>
     (\<forall>k \<in> set (tbl d). \<exists>k' \<in> set (tbl d'). token_evolves k k'))"

lemma token_evolves_refl [simp]: "token_evolves k k"
  by (simp add: token_evolves_def)

lemma tokens_kept_trans: "tokens_kept tbl a b \<Longrightarrow> tokens_kept tbl b c \<Longrightarrow> tokens_kept tbl a c"
  unfolding tokens_kept_def token_evolves_def by (smt (verit, best))

lemma tokens_kept_same: "tbl d' = tbl d \<Longrightarrow> tokens_kept tbl d d'"
  by (auto simp: tokens_kept_def intro: token_evolves_refl)

lemma tokens_kept_grow:
  "uniq_tokens (tbl d @ [k]) \<Longrightarrow> tbl d' = tbl d @ [k] \<Longrightarrow> tokens_kept tbl d d'"
  by (auto simp: tokens_kept_def intro: token_evolves_refl)

lemma tokens_kept_consume:
  assumes "tbl d' = update_where p (consume_row t) (tbl d)"
  shows "tokens_kept tbl d d'"
  unfolding tokens_kept_def
proof (intro impI conjI ballI)
  fix k assume "k \<in> set (tbl d)"
  then show "\<exists>k' \<in> set (tbl d'). token_evolves k k'"
    by (intro bexI [where x = "if p k then consume_row t k else k"])
      (auto simp: assms set_update_where token_evolves_def)
qed (simp add: assms)

interpretation reset_tokens: auth_writes "tokens_kept passwordResetTokens"
proof unfold_locales
qed (auto intro: tokens_kept_same tokens_kept_grow tokens_kept_consume elim: tokens_kept_trans)

interpretation email_tokens: auth_writes "tokens_kept emailVerificationTokens"
proof unfold_locales
qed (auto intro: tokens_kept_same tokens_kept_grow tokens_kept_consume elim: tokens_kept_trans)

section \<open>Logs\<close>

definition logs_grow :: "database \<Rightarrow> database \<Rightarrow> bool" where
  "logs_grow d d' \<longleftrightarrow> (\<exists>xs ys zs. auditLogs d' = auditLogs d @ xs \<and>
     securityEvents d' = securityEvents d @ ys \<and> loginAttempts d' = loginAttempts d @ zs)"

interpretation logs: auth_writes logs_grow
proof unfold_locales
qed (auto simp: logs_grow_def)

end
