(* ===== verification/Samples.thy ===== *)
theory Samples
  imports Platform
begin

text \<open>
  Concrete inputs for the theorems with hypotheses: simple instances of the third-party functions
  and a small database. They show that the hypotheses can hold and take no part in the proofs.
\<close>

definition sample_libs :: libs where
  "sample_libs = \<lparr>sha256 = (\<lambda>s. ''#'' @ s), hmac_sha256 = (\<lambda>k s. k @ ''/'' @ s),
     argon2_hash = (\<lambda>p pw salt. ''$argon2'' @ pw), argon2_verify = (\<lambda>h pw. h = ''$argon2'' @ pw), argon2_error = (\<lambda>_. None),
     totp_check = (\<lambda>code secret t. code = ''123456''), totp_keyuri = (\<lambda>e i s. e @ i @ s),
     google_verify = (\<lambda>tok aud t. if tok = [] then None else
       Some (Some \<lparr>gp_sub = Some tok, gp_email = Some ''ann@x.org'', gp_emailVerified = True\<rparr>)),
     iso_string = show_int, collate = (\<lambda>a b. True), driver_code = Some\<rparr>"

lemma sample_libs_simps [simp]:
  "sha256 sample_libs s = ''#'' @ s"
  "hmac_sha256 sample_libs k s = k @ ''/'' @ s"
  "argon2_hash sample_libs p pw salt = ''$argon2'' @ pw"
  "argon2_verify sample_libs h pw \<longleftrightarrow> h = ''$argon2'' @ pw"
  "totp_check sample_libs code secret t \<longleftrightarrow> code = ''123456''"
  "argon2_error sample_libs h = None"
  "driver_code sample_libs c = Some c"
  "iso_string sample_libs t = show_int t"
  "collate sample_libs a b"
  by (simp_all add: sample_libs_def)

definition sample_world :: "database \<Rightarrow> world" where
  "sample_world d = \<lparr>db = d, clock = 1000, rnd = 0, rnd_text = (\<lambda>k. replicate k (CHR ''x'')),
     rnd_uuid = (\<lambda>k. 100 + k), rnd_byte = (\<lambda>k. k mod 256), rnd_micros = (\<lambda>_. 0), redis = (\<lambda>_. None), emitted = []\<rparr>"

lemma sample_world_simps [simp]:
  "db (sample_world d) = d" "clock (sample_world d) = 1000" "rnd (sample_world d) = 0"
  "rnd_text (sample_world d) k = replicate k (CHR ''x'')" "rnd_uuid (sample_world d) k = 100 + k"
  "rnd_byte (sample_world d) k = k mod 256" "rnd_micros (sample_world d) k = 0" "redis (sample_world d) s = None"
  "emitted (sample_world d) = []"
  by (simp_all add: sample_world_def)

definition sample_user :: user_row where
  "sample_user = \<lparr>u_id = 1, u_status = ''active'', u_deletedAt = None, u_deletionRequestedAt = None,
     u_deletionDueAt = None, u_createdAt = 0\<rparr>"

definition sample_email :: email_row where
  "sample_email = \<lparr>em_id = 2, em_userId = 1, em_email = ''ann@x.org'', em_isPrimary = True,
     em_isVerified = True, em_createdAt = 0\<rparr>"

definition sample_password :: password_row where
  "sample_password = \<lparr>pw_userId = 1, pw_passwordHash = ''$argon2secret'', pw_updatedAt = 0\<rparr>"

definition sample_session :: session_row where
  "sample_session = \<lparr>us_id = 3, us_userId = 1, us_accessTokenHash = ''#a'', us_refreshTokenHash = ''#b'',
     us_ipAddress = None, us_userAgent = None, us_expiresAt = 2000, us_refreshExpiresAt = 3000,
     us_revokedAt = None, us_lastSeenAt = 0, us_createdAt = 0\<rparr>"

definition sample_token :: token_row where
  "sample_token = \<lparr>tk_id = 4, tk_userId = 1, tk_tokenHash = ''#t'', tk_expiresAt = 5000,
     tk_consumedAt = None, tk_createdAt = 0\<rparr>"

definition sample_db :: database where
  "sample_db = empty_database\<lparr>users := [sample_user], userEmails := [sample_email],
     userPasswords := [sample_password], userSessions := [sample_session],
     passwordResetTokens := [sample_token], emailVerificationTokens := [sample_token]\<rparr>"

lemmas sample_defs = sample_user_def sample_email_def sample_password_def sample_session_def
  sample_token_def sample_db_def empty_database_def

lemmas uniq_defs = uniq_users_def uniq_emails_def uniq_passwords_def uniq_factors_def
  uniq_identities_def uniq_sessions_def uniq_attempts_def uniq_tokens_def uniq_events_def uniq_audit_def

end
