(* ===== verification/AuthCoreTokens.thy ===== *)
theory AuthCoreTokens
  imports AuthCoreHistory Samples
begin

text \<open>
  Correctness of the session tokens of the auth-core service: authentication and introspection
  agree, refresh rotates both tokens, what is revoked or consumed never works again.
\<close>

section \<open>Runs\<close>

lemma find_live_access:
  assumes "uniq_sessions (userSessions d)" and "s \<in> set (userSessions d)" and "live_access t h s"
  shows "List.find (live_access t h) (userSessions d) = Some s"
  using assms by (intro find_unique) (auto simp: live_access_def intro: uniq_session_access)

lemma find_live_refresh:
  assumes "uniq_sessions (userSessions d)" and "s \<in> set (userSessions d)" and "live_refresh t h s"
  shows "List.find (live_refresh t h) (userSessions d) = Some s"
  using assms by (intro find_unique) (auto simp: live_refresh_def intro: uniq_session_refresh)

lemma authenticate_run:
  "authenticateAccessToken L tok w =
    (case List.find (live_access (clock w) (hashOpaqueToken L tok)) (userSessions (db w)) of
       None \<Rightarrow> (Inl (ApiError 401 ''unauthorized'' ''Invalid or expired access token''), w)
     | Some s \<Rightarrow> (Inr \<lparr>pr_userId = us_userId s, pr_sessionId = us_id s\<rparr>,
         w\<lparr>db := userSessions_update (update_where (\<lambda>r. us_id r = us_id s)
            (\<lambda>r. r\<lparr>us_lastSeenAt := clock w\<rparr>)) (db w)\<rparr>))"
  by (simp add: authenticateAccessToken_def Let_def run_simps split: option.split)

lemma authenticate_refused:
  "(\<And>s. s \<in> set (userSessions (db w)) \<Longrightarrow> \<not> live_access (clock w) (hashOpaqueToken L tok) s) \<Longrightarrow>
   authenticateAccessToken L tok w =
     (Inl (ApiError 401 ''unauthorized'' ''Invalid or expired access token''), w)"
  using find_None [of "live_access (clock w) (hashOpaqueToken L tok)" "userSessions (db w)"]
  by (simp add: authenticate_run)

lemma refresh_refused:
  "(\<And>s. s \<in> set (userSessions (db w)) \<Longrightarrow> \<not> live_refresh (clock w) (hashOpaqueToken L tok) s) \<Longrightarrow>
   isl (fst (refresh L opts tok w))"
  using refresh_dead [of w L tok opts]
    find_None [of "live_refresh (clock w) (hashOpaqueToken L tok)" "userSessions (db w)"]
  by (auto simp: isl_def)

section \<open>Revocation is permanent\<close>

lemma revoked_row_later:
  assumes "uniq_sessions (userSessions (db w))" and "s \<in> set (userSessions (db w))"
    and "us_revokedAt s \<noteq> None"
  shows "uniq_sessions (userSessions (db (run_ops L opts ops w))) \<and>
    (\<exists>s' \<in> set (userSessions (db (run_ops L opts ops w))).
       us_revokedAt s' \<noteq> None \<and> us_accessTokenHash s' = us_accessTokenHash s \<and>
       us_refreshTokenHash s' = us_refreshTokenHash s)"
  using sessions.run_ops_respects [of w L opts ops] assms
  unfolding session_history_def session_evolves_def by meson

lemma revoked_tokens_dead:
  assumes "uniq_sessions (userSessions (db w))" and "s \<in> set (userSessions (db w))"
    and "us_revokedAt s \<noteq> None" and "w' = run_ops L opts ops w"
  shows "hashOpaqueToken L tok = us_accessTokenHash s \<Longrightarrow>
      fst (authenticateAccessToken L tok w') =
        Inl (ApiError 401 ''unauthorized'' ''Invalid or expired access token'')"
    and "hashOpaqueToken L tok = us_refreshTokenHash s \<Longrightarrow> isl (fst (refresh L opts tok w'))"
proof -
  from revoked_row_later [OF assms(1-3)] assms(4) obtain s' where
    u: "uniq_sessions (userSessions (db w'))" and s': "s' \<in> set (userSessions (db w'))"
      "us_revokedAt s' \<noteq> None" "us_accessTokenHash s' = us_accessTokenHash s"
      "us_refreshTokenHash s' = us_refreshTokenHash s" by blast
  show "fst (authenticateAccessToken L tok w') =
        Inl (ApiError 401 ''unauthorized'' ''Invalid or expired access token'')"
    if h: "hashOpaqueToken L tok = us_accessTokenHash s"
  proof -
    have "\<not> live_access (clock w') (hashOpaqueToken L tok) r" if "r \<in> set (userSessions (db w'))" for r
      using uniq_session_access [OF u s'(1) that] s'(2,3) h by (auto simp: live_access_def)
    then show ?thesis by (subst authenticate_refused) auto
  qed
  show "isl (fst (refresh L opts tok w'))" if h: "hashOpaqueToken L tok = us_refreshTokenHash s"
  proof (rule refresh_refused)
    fix r assume "r \<in> set (userSessions (db w'))"
    from uniq_session_refresh [OF u s'(1) this] s'(2,4) h
    show "\<not> live_refresh (clock w') (hashOpaqueToken L tok) r" by (auto simp: live_refresh_def)
  qed
qed

text \<open>
  C5: A revoked session never comes back: whatever sequence of operations (any user's, failing
  ones included, with any amount of time in between) runs after the revocation, its access token
  is answered 401 and its refresh token is refused.
\<close>

theorem revoked_session_stays_dead:
  assumes "uniq_sessions (userSessions (db w))" and "s \<in> set (userSessions (db w))"
    and "us_revokedAt s \<noteq> None"
    and "hashOpaqueToken L at = us_accessTokenHash s" and "hashOpaqueToken L rt = us_refreshTokenHash s"
  shows "fst (authenticateAccessToken L at (run_ops L opts ops w)) =
      Inl (ApiError 401 ''unauthorized'' ''Invalid or expired access token'')
    \<and> isl (fst (refresh L opts rt (run_ops L opts ops w)))"
  using assms revoked_tokens_dead [OF assms(1-3) refl] by blast

theorem revoked_session_stays_dead_witness:
  "isl (fst (refresh sample_libs DEFAULT_OPTIONS ''b''
     (run_ops sample_libs DEFAULT_OPTIONS [Wait 5, Refresh ''b'', Authenticate ''a'']
        (sample_world (sample_db\<lparr>userSessions := [sample_session\<lparr>us_revokedAt := Some 1\<rparr>]\<rparr>)))))"
  using revoked_session_stays_dead [of "sample_world (sample_db\<lparr>userSessions := [sample_session\<lparr>us_revokedAt := Some 1\<rparr>]\<rparr>)"
      "sample_session\<lparr>us_revokedAt := Some 1\<rparr>" sample_libs "''a''" "''b''" DEFAULT_OPTIONS
      "[Wait 5, Refresh ''b'', Authenticate ''a'']"]
  by (simp add: sample_defs uniq_defs hashOpaqueToken_def)

section \<open>Authentication and introspection\<close>

lemma introspect_run:
  assumes "uniq_sessions (userSessions (db w))"
  shows "introspectToken L tok w =
    (case List.find (live_access (clock w) (hashOpaqueToken L tok)) (userSessions (db w)) of
       None \<Rightarrow> (Inr None, w)
     | Some s \<Rightarrow>
        (let c = getAuthorizationSnapshot (db w) (clock w) (us_userId s) no_context
         in (Inr (Some \<lparr>is_sub = us_userId s, is_sid = us_id s, is_exp = us_expiresAt s div 1000,
               is_permissions = sn_permissions c, is_entitlements = sn_entitlements c\<rparr>), w)))"
proof (cases "List.find (live_access (clock w) (hashOpaqueToken L tok)) (userSessions (db w))")
  case None
  then have dead: "\<forall>r \<in> set (userSessions (db w)). \<not> live_access (clock w) (hashOpaqueToken L tok) r"
    by (simp only: find_None)
  show ?thesis
  proof (cases "List.find (\<lambda>r. us_accessTokenHash r = hashOpaqueToken L tok) (userSessions (db w))")
    case (Some r)
    from find_SomeD [OF this] dead have "us_revokedAt r \<noteq> None \<or> \<not> clock w < us_expiresAt r"
      by (auto simp: live_access_def)
    with Some None show ?thesis by (auto simp: introspectToken_def Let_def run_simps)
  qed (simp add: None introspectToken_def Let_def run_simps)
next
  case (Some s)
  from find_SomeD [OF this] have s: "s \<in> set (userSessions (db w))"
    "us_accessTokenHash s = hashOpaqueToken L tok" "us_revokedAt s = None" "clock w < us_expiresAt s"
    by (auto simp: live_access_def)
  then have "List.find (\<lambda>r. us_accessTokenHash r = hashOpaqueToken L tok) (userSessions (db w)) = Some s"
    using assms by (intro find_unique) (auto intro: uniq_session_access)
  with Some s show ?thesis
    by (simp add: introspectToken_def Let_def run_simps)
qed

text \<open>
  C32: Introspection and authentication agree: a token is reported active with a subject and a
  session exactly when presenting it authenticates as that user in that session.
\<close>

theorem introspection_agrees_with_authentication:
  assumes "uniq_sessions (userSessions (db w))"
  shows "fst (authenticateAccessToken L tok w) = Inr p \<longleftrightarrow>
    (\<exists>i. fst (introspectToken L tok w) = Inr (Some i) \<and> is_sub i = pr_userId p \<and> is_sid i = pr_sessionId p)"
  by (cases p) (auto simp: introspect_run [OF assms] authenticate_run Let_def split: option.split)

theorem introspection_agrees_witness:
  "\<exists>i. fst (introspectToken sample_libs ''a'' (sample_world sample_db)) = Inr (Some i) \<and> is_sub i = 1 \<and> is_sid i = 3"
  using introspection_agrees_with_authentication
    [of "sample_world sample_db" sample_libs "''a''" "\<lparr>pr_userId = 1, pr_sessionId = 3\<rparr>"]
  by (simp add: sample_defs uniq_defs authenticate_run live_access_def hashOpaqueToken_def)

section \<open>Rotation\<close>

text \<open>
  The next tokens hash to values no session row holds: with SHA-256 collision-free on the strings
  at hand this is what 32 random bytes give.
\<close>

definition fresh_tokens :: "libs \<Rightarrow> world \<Rightarrow> bool" where
  "fresh_tokens L w \<longleftrightarrow>
     hashOpaqueToken L (next_access w) \<notin> us_accessTokenHash ` set (userSessions (db w)) \<and>
     hashOpaqueToken L (next_refresh w) \<notin> us_refreshTokenHash ` set (userSessions (db w))"

lemma update_one:
  assumes "distinct (map f rs)" and "s \<in> set rs" and "\<And>r. r \<in> set rs \<Longrightarrow> p r \<longleftrightarrow> r = s"
    and "f (g s) \<notin> f ` set rs"
  shows "distinct (map f (update_where p g rs))"
  using assms
proof (induction rs)
  case (Cons r rs)
  have same: "update_where p g rs = rs" if "r = s"
    using Cons.prems that by (intro update_where_none) (auto)
  show ?case
  proof (cases "r = s")
    case True
    with same Cons.prems show ?thesis by auto
  next
    case False
    with Cons.prems have "s \<in> set rs" "\<not> p r" by auto
    moreover from this Cons have "distinct (map f (update_where p g rs))" by auto
    moreover have "f r \<noteq> f x" if "x \<in> set (update_where p g rs)" for x
      using that Cons.prems False by (auto simp: set_update_where split: if_splits)
    ultimately show ?thesis by auto
  qed
qed simp

lemma uniq_sessions_rotated:
  assumes u: "uniq_sessions rs" and s: "s \<in> set rs"
    and "hashOpaqueToken L a \<notin> us_accessTokenHash ` set rs"
    and "hashOpaqueToken L b \<notin> us_refreshTokenHash ` set rs"
  shows "uniq_sessions (update_where (rotation_hit (us_id s) (us_refreshTokenHash s))
           (rotated L opts t a b) rs)"
proof -
  have target: "rotation_hit (us_id s) (us_refreshTokenHash s) r \<longleftrightarrow> r = s" if "r \<in> set rs" for r
    using uniq_session_id [OF u that s] by (auto simp: rotation_hit_def)
  show ?thesis
    using u assms(3,4) update_one [where f = us_accessTokenHash, OF _ s target]
      update_one [where f = us_refreshTokenHash, OF _ s target]
    unfolding uniq_sessions_def by simp
qed

lemma rotation_replaces:
  assumes "uniq_sessions rs" and "s \<in> set rs"
  shows "update_where (rotation_hit (us_id s) (us_refreshTokenHash s)) g rs =
         map (\<lambda>r. if r = s then g s else r) rs"
  using uniq_session_id [OF assms(1) _ assms(2)]
  by (auto simp: update_where_def rotation_hit_def)

lemma refresh_ok_run:
  assumes u: "uniq_sessions (userSessions (db w))" and s: "s \<in> set (userSessions (db w))"
    and l: "live_refresh (clock w) (hashOpaqueToken L tok) s" and f: "fresh_tokens L w"
    and g: "g = map (\<lambda>r. if r = s then rotated L opts (clock w) (next_access w) (next_refresh w) s else r)"
    and d: "d' = userSessions_update g (db w)"
  shows "refresh L opts tok w =
      (Inr \<lparr>rr_userId = us_userId s, rr_tokens =
         \<lparr>tb_accessToken = next_access w, tb_refreshToken = next_refresh w,
          tb_accessExpiresAt = clock w + ao_accessTokenTtlSeconds opts * 1000,
          tb_refreshExpiresAt = clock w + ao_refreshTokenTtlSeconds opts * 1000,
          tb_tokenClaims = getAuthorizationSnapshot d' (clock w) (us_userId s) no_context\<rparr>\<rparr>,
       w\<lparr>db := d', rnd := Suc (Suc (rnd w))\<rparr>)"
    and "uniq_sessions (userSessions d')"
proof -
  let ?f = "update_where (rotation_hit (us_id s) (us_refreshTokenHash s))
    (rotated L opts (clock w) (next_access w) (next_refresh w))"
  have h: "hashOpaqueToken L tok = us_refreshTokenHash s" using l by (simp add: live_refresh_def)
  have e: "userSessions_update ?f (db w) = d'"
    unfolding d g by (rule database.unfold_congs) (auto simp: rotation_replaces [OF u s])
  have uniq: "uniq_sessions (?f (userSessions (db w)))"
    using uniq_sessions_rotated [OF u s] f unfolding fresh_tokens_def by blast
  then show "uniq_sessions (userSessions d')" unfolding e [symmetric] by simp
  show "refresh L opts tok w =
      (Inr \<lparr>rr_userId = us_userId s, rr_tokens =
         \<lparr>tb_accessToken = next_access w, tb_refreshToken = next_refresh w,
          tb_accessExpiresAt = clock w + ao_accessTokenTtlSeconds opts * 1000,
          tb_refreshExpiresAt = clock w + ao_refreshTokenTtlSeconds opts * 1000,
          tb_tokenClaims = getAuthorizationSnapshot d' (clock w) (us_userId s) no_context\<rparr>\<rparr>,
       w\<lparr>db := d', rnd := Suc (Suc (rnd w))\<rparr>)"
    using uniq by (simp add: refresh_live [OF find_live_refresh [OF u s l]] h Let_def e)
qed

text \<open>
  C6: A successful refresh rotates: the session keeps its identity and owner, every other
  session is untouched, the token pair returned is the one stored, the new access token
  authenticates as the same user in the same session, and the old refresh token and the old
  access token are refused from then on.
\<close>

theorem refresh_rotates:
  assumes u: "uniq_sessions (userSessions (db w))" and s: "s \<in> set (userSessions (db w))"
    and l: "live_refresh (clock w) (hashOpaqueToken L tok) s" and f: "fresh_tokens L w"
    and ttl: "0 < ao_accessTokenTtlSeconds opts" and at: "hashOpaqueToken L at = us_accessTokenHash s"
  shows "\<exists>res w'. refresh L opts tok w = (Inr res, w') \<and> rr_userId res = us_userId s \<and>
    userSessions (db w') = map (\<lambda>r. if r = s then rotated L opts (clock w)
      (tb_accessToken (rr_tokens res)) (tb_refreshToken (rr_tokens res)) s else r) (userSessions (db w)) \<and>
    fst (authenticateAccessToken L (tb_accessToken (rr_tokens res)) w') =
      Inr \<lparr>pr_userId = us_userId s, pr_sessionId = us_id s\<rparr> \<and>
    isl (fst (authenticateAccessToken L at w')) \<and> isl (fst (refresh L opts tok w'))"
proof -
  let ?n = "rotated L opts (clock w) (next_access w) (next_refresh w) s"
  define g where "g = map (\<lambda>r. if r = s then ?n else r)"
  define d' where "d' = userSessions_update g (db w)"
  define w' where "w' = w\<lparr>db := d', rnd := Suc (Suc (rnd w))\<rparr>"
  note run = refresh_ok_run [OF u s l f g_def d'_def, folded w'_def]
  have rows: "userSessions (db w') = map (\<lambda>r. if r = s then ?n else r) (userSessions (db w))"
    by (simp add: w'_def d'_def g_def)
  have new: "hashOpaqueToken L (next_access w) \<noteq> us_accessTokenHash s"
    "hashOpaqueToken L (next_refresh w) \<noteq> us_refreshTokenHash s"
    using f s by (metis fresh_tokens_def imageI)+
  have n: "?n \<in> set (userSessions (db w'))" using s by (force simp: rows)
  have live: "live_access (clock w') (hashOpaqueToken L (next_access w)) ?n"
    using l ttl by (simp add: live_access_def live_refresh_def w'_def)
  have "uniq_sessions (userSessions (db w'))" using run(2) by (simp add: w'_def)
  from find_live_access [OF this n live]
  have "fst (authenticateAccessToken L (next_access w) w') =
      Inr \<lparr>pr_userId = us_userId s, pr_sessionId = us_id s\<rparr>"
    by (simp add: authenticate_run)
  moreover have "\<not> live_refresh (clock w') (hashOpaqueToken L tok) r"
    if "r \<in> set (userSessions (db w'))" for r
  proof -
    from that obtain q where q: "q \<in> set (userSessions (db w))" "r = (if q = s then ?n else q)"
      by (auto simp: rows)
    show ?thesis
    proof (cases "q = s")
      case True
      with q new l show ?thesis by (auto simp: live_refresh_def)
    next
      case False
      with q uniq_session_refresh [OF u q(1) s] l show ?thesis by (auto simp: live_refresh_def)
    qed
  qed
  then have "isl (fst (refresh L opts tok w'))" by (rule refresh_refused)
  moreover have "\<not> live_access (clock w') (hashOpaqueToken L at) r"
    if "r \<in> set (userSessions (db w'))" for r
  proof -
    from that obtain q where q: "q \<in> set (userSessions (db w))" "r = (if q = s then ?n else q)"
      by (auto simp: rows)
    show ?thesis
    proof (cases "q = s")
      case True
      with q new at show ?thesis by (auto simp: live_access_def)
    next
      case False
      with q uniq_session_access [OF u q(1) s] at show ?thesis by (auto simp: live_access_def)
    qed
  qed
  then have "isl (fst (authenticateAccessToken L at w'))" by (subst authenticate_refused) auto
  ultimately show ?thesis using run(1) rows by simp
qed

theorem refresh_rotates_witness:
  "\<exists>res w'. refresh sample_libs DEFAULT_OPTIONS ''b'' (sample_world sample_db) = (Inr res, w') \<and>
     isl (fst (refresh sample_libs DEFAULT_OPTIONS ''b'' w'))"
proof -
  have "uniq_sessions (userSessions (db (sample_world sample_db)))"
    "sample_session \<in> set (userSessions (db (sample_world sample_db)))"
    "live_refresh (clock (sample_world sample_db)) (hashOpaqueToken sample_libs ''b'') sample_session"
    "fresh_tokens sample_libs (sample_world sample_db)"
    "0 < ao_accessTokenTtlSeconds DEFAULT_OPTIONS"
    "hashOpaqueToken sample_libs ''a'' = us_accessTokenHash sample_session"
    by (simp_all add: sample_defs uniq_defs live_refresh_def hashOpaqueToken_def fresh_tokens_def
        next_access_def next_refresh_def DEFAULT_OPTIONS_def)
  from refresh_rotates [OF this] show ?thesis by blast
qed

text \<open>
  A refresh token that matches no live session is refused with 401 and nothing of the
  attempt stays in the database: the \<open>refresh_token.reuse_detected\<close> event is written inside the
  transaction that the error rolls back, so only the callback of the options hears of it; a callback that rejects changes the error only.
\<close>

theorem refresh_reuse_leaves_no_trace:
  assumes "\<And>s. s \<in> set (userSessions (db w)) \<Longrightarrow> \<not> live_refresh (clock w) (hashOpaqueToken L tok) s"
    and "uniq_events (securityEvents (db w))"
    and "rnd_uuid w (rnd w) \<notin> se_id ` set (securityEvents (db w))"
  shows "refresh L opts tok w =
    (let payload = JObj [(''refreshTokenHash'', JStr (hashOpaqueToken L tok))] in
     (Inl (case ao_onSecurityEvent opts of
         None \<Rightarrow> ApiError 401 ''invalid_refresh_token'' ''Invalid refresh token''
       | Some hook \<Rightarrow> (case hook ''refresh_token.reuse_detected'' None payload (clock w) of
           None \<Rightarrow> ApiError 401 ''invalid_refresh_token'' ''Invalid refresh token''
         | Some e \<Rightarrow> e)),
      w\<lparr>rnd := Suc (rnd w), emitted := emitted w @
       (if ao_onSecurityEvent opts = None then [] else [SecurityHook ''refresh_token.reuse_detected'' None payload])\<rparr>))"
proof -
  have "List.find (live_refresh (clock w) (hashOpaqueToken L tok)) (userSessions (db w)) = None"
    using assms(1) by (simp add: find_None)
  with assms(2,3) show ?thesis
    by (simp add: refresh_def Let_def run_simps writeSecurityEvent_def insert_event_def
        await_hook_def uniq_events_def opt_user_exists_def split: option.split)
qed

theorem refresh_reuse_leaves_no_trace_witness:
  "db (snd (refresh sample_libs DEFAULT_OPTIONS ''a'' (sample_world sample_db))) = sample_db"
  using refresh_reuse_leaves_no_trace [of "sample_world sample_db" sample_libs "''a''" DEFAULT_OPTIONS]
  by (simp add: Let_def sample_defs uniq_defs live_refresh_def hashOpaqueToken_def)

end
