(* ===== verification/AuthCoreAccountFacts.thy ===== *)
theory AuthCoreAccountFacts
  imports AuthCoreTokens
begin

text \<open>
  Correctness of the account operations of the auth-core service: password change and reset end
  every session of the user, reset and verification tokens work once, signup keeps addresses
  unique, login and Google login issue a session only to a caller who passed every check.
\<close>

section \<open>Frames\<close>

text \<open>
  \<open>same f\<close>: the part \<open>f\<close> of the database is what it was. \<open>but_logs\<close> is the database without the
  two logs every operation writes.
\<close>

definition same :: "(database \<Rightarrow> 'a) \<Rightarrow> database \<Rightarrow> database \<Rightarrow> bool" where
  "same f d d' \<longleftrightarrow> f d' = f d"

interpretation same: db_order "same f" for f
  by unfold_locales (simp_all add: same_def)

definition but_logs :: "database \<Rightarrow> database" where
  "but_logs d = d\<lparr>securityEvents := [], auditLogs := []\<rparr>"

lemma but_logs_update [simp]:
  "but_logs (userSessions_update f d) = userSessions_update f (but_logs d)"
  "but_logs (userPasswords_update g d) = userPasswords_update g (but_logs d)"
  "but_logs (passwordResetTokens_update h d) = passwordResetTokens_update h (but_logs d)"
  "but_logs (emailVerificationTokens_update h d) = emailVerificationTokens_update h (but_logs d)"
  "but_logs (userEmails_update e d) = userEmails_update e (but_logs d)"
  "but_logs (users_update u d) = users_update u (but_logs d)"
  "but_logs (loginAttempts_update a d) = loginAttempts_update a (but_logs d)"
  by (simp_all add: but_logs_def)

lemma but_logs_select [simp]:
  "userSessions (but_logs d) = userSessions d" "userPasswords (but_logs d) = userPasswords d"
  "passwordResetTokens (but_logs d) = passwordResetTokens d"
  "emailVerificationTokens (but_logs d) = emailVerificationTokens d"
  "userEmails (but_logs d) = userEmails d" "users (but_logs d) = users d"
  "mfaFactors (but_logs d) = mfaFactors d" "externalIdentities (but_logs d) = externalIdentities d"
  "loginAttempts (but_logs d) = loginAttempts d"
  by (simp_all add: but_logs_def)

lemma event_frame [safe_intros]: "safe (on_db (same but_logs)) (writeSecurityEvent opts k u p)"
  unfolding writeSecurityEvent_def insert_event_def
  by (intro safe_intros same.safe_insert_row) (simp add: same_def but_logs_def)

lemma audit_frame [safe_intros]: "safe (on_db (same but_logs)) (writeAuditLog L u a rt ri p)"
  unfolding writeAuditLog_def insert_audit_def
  by (intro safe_intros same.safe_insert_row) (simp_all add: same_def but_logs_def)

lemma frameD: "safe (on_db (same f)) m \<Longrightarrow> m w = (x, w') \<Longrightarrow> f (db w') = f (db w)"
  by (drule (1) safe_run) (simp add: on_db_def same_def)

text \<open>An operation that ends in log writes leaves what it had before them.\<close>

lemma bind_frame:
  assumes "bind m k w = (Inr y, w')" and "\<And>x. safe (on_db (same f)) (k x)"
  shows "\<exists>x v. m w = (Inr x, v) \<and> f (db w') = f (db v)"
  using assms by (blast elim: bind_Inr_E dest: frameD)

section \<open>Ending a user's sessions\<close>

definition sessions_ended :: "uuid \<Rightarrow> time \<Rightarrow> session_row list \<Rightarrow> session_row list" where
  "sessions_ended userId t = update_where (live_of_user userId) (revoke_session_row t)"

lemma sessions_ended_revoked:
  "\<forall>s \<in> set (sessions_ended u t rs). us_userId s = u \<longrightarrow> us_revokedAt s \<noteq> None"
  by (induction rs) (auto simp: sessions_ended_def live_of_user_def)

lemma sessions_ended_others:
  "filter (\<lambda>s. us_userId s \<noteq> u) (sessions_ended u t rs) = filter (\<lambda>s. us_userId s \<noteq> u) rs"
  by (induction rs) (auto simp: sessions_ended_def live_of_user_def)

lemma sessions_ended_row:
  assumes "s \<in> set rs" and "us_userId s = u"
  shows "\<exists>s' \<in> set (sessions_ended u t rs). us_revokedAt s' \<noteq> None \<and>
    us_accessTokenHash s' = us_accessTokenHash s \<and> us_refreshTokenHash s' = us_refreshTokenHash s"
  using assms in_update_where [of s rs "live_of_user u" "revoke_session_row t"]
  unfolding sessions_ended_def
  by (intro bexI [of _ "if live_of_user u s then revoke_session_row t s else s"])
    (auto simp: live_of_user_def)

lemma uniq_sessions_ended [simp]: "uniq_sessions (sessions_ended u t rs) = uniq_sessions rs"
  by (simp add: sessions_ended_def)

text \<open>Whatever runs after a user's sessions were ended, the user's old tokens stay dead.\<close>

lemma ended_tokens_dead:
  assumes "uniq_sessions rs" and "s \<in> set rs" and "userSessions (db w) = sessions_ended (us_userId s) t rs"
    and "hashOpaqueToken L at = us_accessTokenHash s" and "hashOpaqueToken L rt = us_refreshTokenHash s"
  shows "isl (fst (authenticateAccessToken L at (run_ops L opts ops w))) \<and>
         isl (fst (refresh L opts rt (run_ops L opts ops w)))"
proof -
  from sessions_ended_row [OF assms(2) refl, of t] obtain s' where s': "s' \<in> set (userSessions (db w))"
    "us_revokedAt s' \<noteq> None" "us_accessTokenHash s' = us_accessTokenHash s"
    "us_refreshTokenHash s' = us_refreshTokenHash s" unfolding assms(3) by blast
  moreover have "uniq_sessions (userSessions (db w))" using assms(1,3) by simp
  ultimately show ?thesis
    using revoked_tokens_dead [of w s' "run_ops L opts ops w" L opts ops] assms(4,5) by (simp add: isl_def)
qed

section \<open>Password change\<close>

definition password_stored :: "uuid \<Rightarrow> string \<Rightarrow> time \<Rightarrow> password_row list \<Rightarrow> password_row list" where
  "password_stored userId h t =
     update_where (\<lambda>r. pw_userId r = userId) (\<lambda>r. r\<lparr>pw_passwordHash := h, pw_updatedAt := t\<rparr>)"

definition new_hash :: "libs \<Rightarrow> auth_options \<Rightarrow> string \<Rightarrow> world \<Rightarrow> string" where
  "new_hash L opts password w = argon2_hash L (ao_argon2 opts) password (rnd_text w (rnd w))"

lemma verifyCurrentPassword_run:
  "verifyCurrentPassword L u p w =
    (case find_password (db w) u of
       None \<Rightarrow> (Inl (ApiError 404 ''user_password_not_found'' ''User password not found''), w)
     | Some r \<Rightarrow> (case argon2_error L (pw_passwordHash r) of
           Some message \<Rightarrow> (Inl (PlainError message), w)
         | None \<Rightarrow> if argon2_verify L (pw_passwordHash r) p then (Inr (), w)
             else (Inl (ApiError 401 ''invalid_credentials'' ''Invalid password''), w)))"
  by (simp add: verifyCurrentPassword_def run_simps split: option.split)

lemma changePassword_ok:
  assumes "changePassword L opts u old new w = (Inr (), w')"
  shows "\<exists>r. find_password (db w) u = Some r \<and> argon2_verify L (pw_passwordHash r) old \<and>
    but_logs (db w') =
      userSessions_update (sessions_ended u (clock w))
        (userPasswords_update (password_stored u (new_hash L opts new w) (clock w)) (but_logs (db w)))"
proof -
  let ?k = "bind (writeSecurityEvent opts ''password.changed'' (Some u) (JObj [])) (\<lambda>_.
     writeAuditLog L (Some u) ''password.change'' ''user'' (Some (uuid_text u)) (JObj []))"
  have k: "safe (on_db (same but_logs)) ?k" by (intro safe_intros)
  from assms obtain r where r: "find_password (db w) u = Some r" "argon2_verify L (pw_passwordHash r) old"
    "argon2_error L (pw_passwordHash r) = None"
    by (auto simp: changePassword_def run_simps verifyCurrentPassword_run split: option.splits if_splits)
  define v where "v = w\<lparr>rnd := Suc (rnd w), db := userSessions_update (sessions_ended u (clock w))
        (userPasswords_update (password_stored u (new_hash L opts new w) (clock w)) (db w))\<rparr>"
  have "?k v = (Inr (), w')"
    using assms r
    by (simp add: changePassword_def verifyCurrentPassword_run argon2_hash_io_def set_password_def
        revoke_live_sessions_def run_simps v_def password_stored_def
        sessions_ended_def new_hash_def)
  from frameD [OF k this] r show ?thesis by (simp add: v_def)
qed

text \<open>
  A password change that succeeds was made with the current password, stores the hash of the
  new one for that user only, and logs every device out: no token the user held before works
  again, whatever runs afterwards, while the other users' sessions are as they were.
\<close>

theorem changePassword_logs_out_everywhere:
  assumes "changePassword L opts u old new w = (Inr (), w')"
  shows "(\<exists>r. find_password (db w) u = Some r \<and> argon2_verify L (pw_passwordHash r) old)
    \<and> userPasswords (db w') = password_stored u (new_hash L opts new w) (clock w) (userPasswords (db w))
    \<and> filter (\<lambda>s. us_userId s \<noteq> u) (userSessions (db w')) = filter (\<lambda>s. us_userId s \<noteq> u) (userSessions (db w))
    \<and> (uniq_sessions (userSessions (db w)) \<longrightarrow> (\<forall>s \<in> set (userSessions (db w)). us_userId s = u \<longrightarrow>
        (\<forall>at rt ops. hashOpaqueToken L at = us_accessTokenHash s \<longrightarrow> hashOpaqueToken L rt = us_refreshTokenHash s \<longrightarrow>
          isl (fst (authenticateAccessToken L at (run_ops L opts ops w'))) \<and>
          isl (fst (refresh L opts rt (run_ops L opts ops w'))))))"
proof -
  from changePassword_ok [OF assms] obtain r where r: "find_password (db w) u = Some r"
    "argon2_verify L (pw_passwordHash r) old"
    and d: "but_logs (db w') = userSessions_update (sessions_ended u (clock w))
        (userPasswords_update (password_stored u (new_hash L opts new w) (clock w)) (but_logs (db w)))"
    by blast
  have p: "userPasswords (db w') = password_stored u (new_hash L opts new w) (clock w) (userPasswords (db w))"
    and s: "userSessions (db w') = sessions_ended u (clock w) (userSessions (db w))"
    using arg_cong [OF d, where f = userPasswords] arg_cong [OF d, where f = userSessions] by simp_all
  show ?thesis
    using r ended_tokens_dead [of "userSessions (db w)" _ w' "clock w" L _ _ opts]
    by (auto simp: p s sessions_ended_others)
qed

section \<open>Single-use tokens\<close>

lemma usable_iff_find:
  assumes "uniq_tokens ks" and "k \<in> set ks" and "usable_token t h k"
  shows "List.find (usable_token t h) ks = Some k"
  using assms distinct_map_eqD [of tk_tokenHash ks]
  by (intro find_unique) (auto simp: usable_token_def uniq_tokens_def)

lemma uniq_token_hash:
  "uniq_tokens ks \<Longrightarrow> k \<in> set ks \<Longrightarrow> k' \<in> set ks \<Longrightarrow> tk_tokenHash k = tk_tokenHash k' \<Longrightarrow> k = k'"
  using distinct_map_eqD [of tk_tokenHash ks k k'] by (simp add: uniq_tokens_def)

lemma consumed_token_later:
  assumes "tokens_kept tbl d d'" and "uniq_tokens (tbl d)" and "k \<in> set (tbl d)" and "tk_consumedAt k \<noteq> None"
  shows "\<forall>k' \<in> set (tbl d'). \<not> usable_token t (tk_tokenHash k) k'"
proof
  fix k' assume k': "k' \<in> set (tbl d')"
  from assms obtain q where u: "uniq_tokens (tbl d')" and q: "q \<in> set (tbl d')"
    "tk_tokenHash q = tk_tokenHash k" "tk_consumedAt q \<noteq> None"
    unfolding tokens_kept_def token_evolves_def by meson
  from uniq_token_hash [OF u k' q(1)] q(2,3) show "\<not> usable_token t (tk_tokenHash k) k'"
    by (auto simp: usable_token_def)
qed

lemma confirmPasswordReset_ok:
  assumes "confirmPasswordReset L opts tok new w = (Inr (), w')"
  shows "\<exists>k. List.find (usable_token (clock w) (hashOpaqueToken L tok)) (passwordResetTokens (db w)) = Some k \<and>
    but_logs (db w') =
      passwordResetTokens_update (update_where (\<lambda>r. tk_id r = tk_id k) (consume_row (clock w)))
      (userSessions_update (sessions_ended (tk_userId k) (clock w))
        (userPasswords_update (password_stored (tk_userId k) (new_hash L opts new w) (clock w))
          (but_logs (db w))))"
proof -
  from assms obtain k where k: "List.find (usable_token (clock w) (hashOpaqueToken L tok))
      (passwordResetTokens (db w)) = Some k"
    by (auto simp: confirmPasswordReset_def Let_def run_simps split: option.splits sum.splits prod.splits)
  let ?e = "writeSecurityEvent opts ''password.changed'' (Some (tk_userId k))
           (JObj [(''reason'', JStr ''password_reset'')])"
  define v where "v = w\<lparr>rnd := Suc (rnd w), db :=
      passwordResetTokens_update (update_where (\<lambda>r. tk_id r = tk_id k) (consume_row (clock w)))
      (userSessions_update (sessions_ended (tk_userId k) (clock w))
        (userPasswords_update (password_stored (tk_userId k) (new_hash L opts new w) (clock w)) (db w)))\<rparr>"
  have "?e v = (Inr (), w')"
    using assms k
    by (simp add: confirmPasswordReset_def Let_def transaction_Inr bind_run now_run read_db_run
        argon2_hash_io_def set_password_def revoke_live_sessions_def update_rows_run draw_text_run ret_run
        v_def password_stored_def sessions_ended_def new_hash_def)
  from frameD [OF event_frame this] k show ?thesis by (simp add: v_def)
qed

lemma confirmPasswordReset_refused:
  "\<forall>k \<in> set (passwordResetTokens (db w)). \<not> usable_token (clock w) (hashOpaqueToken L tok) k \<Longrightarrow>
   confirmPasswordReset L opts tok new w =
     (Inl (ApiError 400 ''invalid_reset_token'' ''Invalid or expired reset token''), w)"
  using find_None [of "usable_token (clock w) (hashOpaqueToken L tok)" "passwordResetTokens (db w)"]
  by (simp add: confirmPasswordReset_def Let_def run_simps)

lemma consumed_row:
  assumes "List.find (usable_token t h) ks = Some k"
  shows "\<exists>k' \<in> set (update_where (\<lambda>r. tk_id r = tk_id k) (consume_row t) ks).
           tk_tokenHash k' = h \<and> tk_consumedAt k' \<noteq> None"
  using find_SomeD [OF assms] in_update_where [of k ks "\<lambda>r. tk_id r = tk_id k" "consume_row t"]
  by (intro bexI [of _ "consume_row t k"]) (auto simp: usable_token_def)

text \<open>
  C10: A password reset works once and logs the user out: after a successful confirmation the same
  reset token is answered 400 whatever happens next, and every token of a session the account had
  is dead for good.
\<close>

theorem password_reset_single_use:
  assumes "confirmPasswordReset L opts tok new w = (Inr (), w')"
    and "uniq_tokens (passwordResetTokens (db w))" and "uniq_sessions (userSessions (db w))"
  shows "fst (confirmPasswordReset L opts tok new' (run_ops L opts ops w')) =
      Inl (ApiError 400 ''invalid_reset_token'' ''Invalid or expired reset token'')
    \<and> (\<exists>k \<in> set (passwordResetTokens (db w)). tk_tokenHash k = hashOpaqueToken L tok \<and>
        (\<forall>s \<in> set (userSessions (db w)). us_userId s = tk_userId k \<longrightarrow>
          (\<forall>at rt. hashOpaqueToken L at = us_accessTokenHash s \<longrightarrow> hashOpaqueToken L rt = us_refreshTokenHash s \<longrightarrow>
            isl (fst (authenticateAccessToken L at (run_ops L opts ops w'))) \<and>
            isl (fst (refresh L opts rt (run_ops L opts ops w'))))))"
proof -
  from confirmPasswordReset_ok [OF assms(1)] obtain k where
    k: "List.find (usable_token (clock w) (hashOpaqueToken L tok)) (passwordResetTokens (db w)) = Some k"
    and d: "but_logs (db w') =
      passwordResetTokens_update (update_where (\<lambda>r. tk_id r = tk_id k) (consume_row (clock w)))
      (userSessions_update (sessions_ended (tk_userId k) (clock w))
        (userPasswords_update (password_stored (tk_userId k) (new_hash L opts new w) (clock w))
          (but_logs (db w))))" by blast
  have t: "passwordResetTokens (db w') =
      update_where (\<lambda>r. tk_id r = tk_id k) (consume_row (clock w)) (passwordResetTokens (db w))"
    and s: "userSessions (db w') = sessions_ended (tk_userId k) (clock w) (userSessions (db w))"
    using arg_cong [OF d, where f = passwordResetTokens] arg_cong [OF d, where f = userSessions] by simp_all
  from consumed_row [OF k] obtain k' where k': "k' \<in> set (passwordResetTokens (db w'))"
    "tk_tokenHash k' = hashOpaqueToken L tok" "tk_consumedAt k' \<noteq> None" unfolding t by blast
  have "uniq_tokens (passwordResetTokens (db w'))" using assms(2) by (simp add: t)
  from consumed_token_later [OF reset_tokens.run_ops_respects this k'(1,3)] k'(2)
  have "confirmPasswordReset L opts tok new' (run_ops L opts ops w') =
      (Inl (ApiError 400 ''invalid_reset_token'' ''Invalid or expired reset token''), run_ops L opts ops w')"
    by (intro confirmPasswordReset_refused) simp
  moreover have "k \<in> set (passwordResetTokens (db w))" "tk_tokenHash k = hashOpaqueToken L tok"
    using find_SomeD [OF k] by (auto simp: usable_token_def)
  ultimately show ?thesis
    using ended_tokens_dead [OF assms(3), of _ w' "clock w" L _ _ opts ops] s
    by (intro conjI bexI [of _ k]) auto
qed

lemma confirmEmailVerification_ok:
  assumes "confirmEmailVerification L opts tok w = (Inr (), w')"
  shows "\<exists>k. List.find (usable_token (clock w) (hashOpaqueToken L tok)) (emailVerificationTokens (db w)) = Some k \<and>
    but_logs (db w') =
      emailVerificationTokens_update (update_where (\<lambda>r. tk_id r = tk_id k) (consume_row (clock w)))
      (userEmails_update (update_where (\<lambda>e. em_userId e = tk_userId k \<and> em_isPrimary e)
         (\<lambda>e. e\<lparr>em_isVerified := True\<rparr>)) (but_logs (db w)))"
proof -
  from assms obtain k where k: "List.find (usable_token (clock w) (hashOpaqueToken L tok))
      (emailVerificationTokens (db w)) = Some k"
    by (auto simp: confirmEmailVerification_def Let_def run_simps split: option.splits sum.splits prod.splits)
  let ?e = "writeSecurityEvent opts ''email.verified'' (Some (tk_userId k)) (JObj [])"
  define v where "v = w\<lparr>db :=
      emailVerificationTokens_update (update_where (\<lambda>r. tk_id r = tk_id k) (consume_row (clock w)))
      (userEmails_update (update_where (\<lambda>e. em_userId e = tk_userId k \<and> em_isPrimary e)
         (\<lambda>e. e\<lparr>em_isVerified := True\<rparr>)) (db w))\<rparr>"
  have "?e v = (Inr (), w')"
    using assms k
    by (simp add: confirmEmailVerification_def Let_def transaction_Inr bind_run now_run read_db_run
        update_rows_run v_def)
  from frameD [OF event_frame this] k show ?thesis by (simp add: v_def)
qed

lemma confirmEmailVerification_refused:
  "\<forall>k \<in> set (emailVerificationTokens (db w)). \<not> usable_token (clock w) (hashOpaqueToken L tok) k \<Longrightarrow>
   confirmEmailVerification L opts tok w =
     (Inl (ApiError 400 ''invalid_verification_token'' ''Invalid or expired verification token''), w)"
  using find_None [of "usable_token (clock w) (hashOpaqueToken L tok)" "emailVerificationTokens (db w)"]
  by (simp add: confirmEmailVerification_def Let_def run_simps)

text \<open>
  An e-mail verification marks exactly the primary address of the token's owner as verified,
  and its token works once: confirming again is answered 400 whatever happened in between.
\<close>

theorem email_verification_single_use:
  assumes "confirmEmailVerification L opts tok w = (Inr (), w')"
    and "uniq_tokens (emailVerificationTokens (db w))"
  shows "fst (confirmEmailVerification L opts tok (run_ops L opts ops w')) =
      Inl (ApiError 400 ''invalid_verification_token'' ''Invalid or expired verification token'')
    \<and> (\<exists>k \<in> set (emailVerificationTokens (db w)). tk_tokenHash k = hashOpaqueToken L tok \<and>
        clock w < tk_expiresAt k \<and> tk_consumedAt k = None \<and>
        userEmails (db w') = map (\<lambda>e. if em_userId e = tk_userId k \<and> em_isPrimary e
          then e\<lparr>em_isVerified := True\<rparr> else e) (userEmails (db w)))"
proof -
  from confirmEmailVerification_ok [OF assms(1)] obtain k where
    k: "List.find (usable_token (clock w) (hashOpaqueToken L tok)) (emailVerificationTokens (db w)) = Some k"
    and d: "but_logs (db w') =
      emailVerificationTokens_update (update_where (\<lambda>r. tk_id r = tk_id k) (consume_row (clock w)))
      (userEmails_update (update_where (\<lambda>e. em_userId e = tk_userId k \<and> em_isPrimary e)
         (\<lambda>e. e\<lparr>em_isVerified := True\<rparr>)) (but_logs (db w)))" by blast
  have t: "emailVerificationTokens (db w') =
      update_where (\<lambda>r. tk_id r = tk_id k) (consume_row (clock w)) (emailVerificationTokens (db w))"
    and e: "userEmails (db w') = update_where (\<lambda>e. em_userId e = tk_userId k \<and> em_isPrimary e)
         (\<lambda>e. e\<lparr>em_isVerified := True\<rparr>) (userEmails (db w))"
    using arg_cong [OF d, where f = emailVerificationTokens] arg_cong [OF d, where f = userEmails] by simp_all
  from consumed_row [OF k] obtain k' where k': "k' \<in> set (emailVerificationTokens (db w'))"
    "tk_tokenHash k' = hashOpaqueToken L tok" "tk_consumedAt k' \<noteq> None" unfolding t by blast
  have "uniq_tokens (emailVerificationTokens (db w'))" using assms(2) by (simp add: t)
  from consumed_token_later [OF email_tokens.run_ops_respects this k'(1,3)] k'(2)
  have "confirmEmailVerification L opts tok (run_ops L opts ops w') =
      (Inl (ApiError 400 ''invalid_verification_token'' ''Invalid or expired verification token''),
       run_ops L opts ops w')"
    by (intro confirmEmailVerification_refused) simp
  moreover have "k \<in> set (emailVerificationTokens (db w))" "usable_token (clock w) (hashOpaqueToken L tok) k"
    using find_SomeD [OF k] by auto
  ultimately show ?thesis
    by (intro conjI bexI [of _ k]) (auto simp: usable_token_def e update_where_def)
qed

section \<open>Signup\<close>

lemma insert_row_Inr:
  "insert_row tbl upd uniq parent x w = (Inr (), w') \<longleftrightarrow>
   uniq (tbl (db w) @ [x]) \<and> parent (db w) x \<and> w' = w\<lparr>db := upd (\<lambda>rs. rs @ [x]) (db w)\<rparr>"
  by (auto simp: insert_row_run)

lemma signup_error_db: "signup L opts email password name ip w = (Inl e, w') \<Longrightarrow> db w' = db w"
  by (auto simp: signup_def try_catch_run transaction_run throw_run split: prod.splits sum.splits if_splits)

definition signed_up :: "libs \<Rightarrow> auth_options \<Rightarrow> string \<Rightarrow> string \<Rightarrow> world \<Rightarrow> database" where
  "signed_up L opts email password w =
     (let n = rnd w; t = clock w; u = rnd_uuid w n in
      emailVerificationTokens_update (\<lambda>rs. rs @ [\<lparr>tk_id = rnd_uuid w (n + 4), tk_userId = u,
          tk_tokenHash = hashOpaqueToken L (''ev_'' @ rnd_text w (n + 3)),
          tk_expiresAt = t + 24 * 60 * 60000, tk_consumedAt = None, tk_createdAt = t\<rparr>])
      (userPasswords_update (\<lambda>rs. rs @ [\<lparr>pw_userId = u,
          pw_passwordHash = argon2_hash L (ao_argon2 opts) password (rnd_text w (n + 2)), pw_updatedAt = t\<rparr>])
      (userEmails_update (\<lambda>rs. rs @ [\<lparr>em_id = rnd_uuid w (n + 1), em_userId = u, em_email = email,
          em_isPrimary = True, em_isVerified = False, em_createdAt = t\<rparr>])
      (users_update (\<lambda>rs. rs @ [\<lparr>u_id = u, u_status = ''active'', u_deletedAt = None,
          u_deletionRequestedAt = None, u_deletionDueAt = None, u_createdAt = t\<rparr>]) (db w)))))"

lemma signup_ok:
  assumes "signup L opts email password name ip w = (Inr r, w')"
  shows "but_logs (db w') = but_logs (signed_up L opts email password w) \<and>
    uniq_emails (userEmails (signed_up L opts email password w)) \<and>
    uniq_users (users (signed_up L opts email password w)) \<and>
    r = \<lparr>sr_userId = rnd_uuid w (rnd w), sr_email = email,
         sr_verificationToken = ''ev_'' @ rnd_text w (rnd w + 3)\<rparr>"
proof -
  define r' where "r' = \<lparr>sr_userId = rnd_uuid w (rnd w), sr_email = email,
         sr_verificationToken = ''ev_'' @ rnd_text w (rnd w + 3)\<rparr>"
  let ?k = "bind (writeSecurityEvent opts ''signup.created'' (Some (rnd_uuid w (rnd w)))
                 (JObj [(''email'', JStr email), (''ipAddress'', jstr_opt ip),
                        (''displayName'', JStr name)])) (\<lambda>_.
          bind (writeAuditLog L (Some (rnd_uuid w (rnd w))) ''user.signup'' ''user''
                 (Some (uuid_text (rnd_uuid w (rnd w))))
                 (JObj [(''email'', JStr email), (''displayName'', JStr name)])) (\<lambda>_. ret r'))"
  have k: "safe (on_db (same but_logs)) ?k" by (intro safe_intros)
  have u: "uniq_emails (userEmails (signed_up L opts email password w))"
    "uniq_users (users (signed_up L opts email password w))"
    and run: "?k (w\<lparr>rnd := rnd w + 5, db := signed_up L opts email password w\<rparr>) = (Inr r, w')"
    using assms
    by (auto simp: signup_def try_catch_run transaction_run throw_run bind_run insert_user_def insert_email_def
        insert_password_def insert_email_token_def argon2_hash_io_def createOpaqueToken_run
        now_run draw_uuid_run draw_text_run ret_run insert_row_run signed_up_def r'_def Let_def eval_nat_numeral
        split: if_splits sum.splits prod.splits)
  from frameD [OF k run] have "but_logs (db w') = but_logs (signed_up L opts email password w)" by simp
  moreover from run have "r = r'" by (auto simp: bind_run ret_run split: sum.splits prod.splits)
  ultimately show ?thesis using u by (simp add: r'_def)
qed

text \<open>
  C29: Signup keeps addresses unique and is all or nothing: a taken address is refused (with a fresh
  user id: 409 where the database layer shows the SQLSTATE as the code of the error, the error of the
  database as it is where it does not), every failure leaves the database as it was, and a success adds one user with
  one unverified primary address, the hash of the password and a verification token for it,
  touching no session.
\<close>

theorem signup_all_or_nothing:
  assumes "signup L opts email password name ip w = (x, w')"
  shows "(isl x \<longrightarrow> db w' = db w)
    \<and> (email \<in> em_email ` set (userEmails (db w)) \<longrightarrow> isl x \<and>
        (uniq_users (users (db w)) \<and> rnd_uuid w (rnd w) \<notin> u_id ` set (users (db w)) \<longrightarrow>
         x = Inl (if driver_code L ''23505'' = Some ''23505''
                  then ApiError 409 ''email_already_exists'' ''Email already exists'' else DbError ''23505'')))
    \<and> (\<forall>r. x = Inr r \<longrightarrow> but_logs (db w') = but_logs (signed_up L opts email password w) \<and>
        sr_email r = email \<and> sr_userId r = rnd_uuid w (rnd w) \<and>
        sr_userId r \<notin> u_id ` set (users (db w)) \<and> email \<notin> em_email ` set (userEmails (db w)) \<and>
        userSessions (db w') = userSessions (db w))"
proof -
  have ok: "email \<notin> em_email ` set (userEmails (db w)) \<and> rnd_uuid w (rnd w) \<notin> u_id ` set (users (db w)) \<and>
      but_logs (db w') = but_logs (signed_up L opts email password w) \<and>
      sr_email r = email \<and> sr_userId r = rnd_uuid w (rnd w) \<and> userSessions (db w') = userSessions (db w)"
    if "x = Inr r" for r
  proof -
    note r = signup_ok [OF assms [unfolded that]]
    have b: "but_logs (db w') = but_logs (signed_up L opts email password w)" using r by simp
    have "userSessions (db w') = userSessions (db w)"
      using arg_cong [OF b, where f = userSessions] by (simp add: signed_up_def Let_def)
    moreover have "email \<notin> em_email ` set (userEmails (db w)) \<and> rnd_uuid w (rnd w) \<notin> u_id ` set (users (db w))"
      using r by (simp add: signed_up_def Let_def uniq_emails_def uniq_users_def)
    ultimately show ?thesis using r b by simp
  qed
  have "x = Inl (if driver_code L ''23505'' = Some ''23505''
      then ApiError 409 ''email_already_exists'' ''Email already exists'' else DbError ''23505'')"
    if "email \<in> em_email ` set (userEmails (db w))" "uniq_users (users (db w))"
      "rnd_uuid w (rnd w) \<notin> u_id ` set (users (db w))"
    using assms that
    by (simp add: signup_def try_catch_run transaction_run bind_run insert_user_def insert_email_def
        now_run draw_uuid_run insert_row_run ret_run throw_run uniq_users_def uniq_emails_def error_code_def
        split: if_splits)
  then show ?thesis
    using ok signup_error_db [of L opts email password name ip w _ w'] assms
    by (cases x) auto
qed

section \<open>Login\<close>

text \<open>What the second factor must have shown: a code that one of the user's enabled TOTP factors
  (the chosen one, when one was chosen) accepts at this instant.\<close>

definition totp_passed :: "libs \<Rightarrow> time \<Rightarrow> factor_row list \<Rightarrow> string option \<Rightarrow> uuid option \<Rightarrow> bool" where
  "totp_passed L t factors code factorId \<longleftrightarrow> (\<exists>f \<in> set factors. \<exists>c secret.
     mf_type f = ''totp'' \<and> mf_secret f = Some secret \<and> secret \<noteq> [] \<and> code = Some c \<and> c \<noteq> [] \<and>
     (factorId = None \<or> factorId = Some (mf_id f)) \<and> totp_check L c secret t)"

lemma assertValidTotpMfa_world: "snd (assertValidTotpMfa L fs c i w) = w"
  by (auto simp: assertValidTotpMfa_def Let_def run_simps split: option.split)

lemma assertValidTotpMfa_ok:
  assumes "assertValidTotpMfa L fs c i w = (Inr x, w')"
  shows "w' = w \<and> totp_passed L (clock w) fs c i"
proof -
  let ?totp = "filter (\<lambda>f. mf_type f = ''totp'' \<and> mf_secret f \<noteq> None) fs"
  from assms obtain f where c: "truthy c" "truthy (mf_secret f)"
    "totp_check L (the c) (the (mf_secret f)) (clock w)"
    and f: "(case i of Some j \<Rightarrow> List.find (\<lambda>f. mf_id f = j) ?totp | None \<Rightarrow> first_row ?totp) = Some f"
    by (auto simp: assertValidTotpMfa_def Let_def run_simps split: option.splits if_splits)
  from f have "f \<in> set ?totp" "i = None \<or> i = Some (mf_id f)"
    by (auto split: option.splits dest: find_SomeD first_row_in)
  with c have "totp_passed L (clock w) fs c i"
    by (auto simp: totp_passed_def truthy_iff intro!: bexI [of _ f])
  with assms assertValidTotpMfa_world [of L fs c i w] show ?thesis by simp
qed

definition issued_session :: "libs \<Rightarrow> auth_options \<Rightarrow> uuid \<Rightarrow> string option \<Rightarrow> string option \<Rightarrow> world \<Rightarrow> session_row" where
  "issued_session L opts u ip agent w = \<lparr>us_id = rnd_uuid w (Suc (Suc (rnd w))), us_userId = u,
     us_accessTokenHash = hashOpaqueToken L (next_access w),
     us_refreshTokenHash = hashOpaqueToken L (next_refresh w),
     us_ipAddress = ip, us_userAgent = agent,
     us_expiresAt = clock w + ao_accessTokenTtlSeconds opts * 1000,
     us_refreshExpiresAt = clock w + ao_refreshTokenTtlSeconds opts * 1000,
     us_revokedAt = None, us_lastSeenAt = clock w, us_createdAt = clock w\<rparr>"

lemma createSession_ok:
  assumes "createSession L opts u ip agent w = (Inr b, w')"
  shows "tb_accessToken b = next_access w \<and> tb_refreshToken b = next_refresh w \<and>
    db w' = userSessions_update (\<lambda>rs. rs @ [issued_session L opts u ip agent w]) (db w) \<and>
    user_exists (db w) u \<and> clock w' = clock w"
  using assms
  by (auto simp: createSession_def run_simps Let_def insert_session_def issued_session_def
      next_access_def next_refresh_def split: if_splits)

definition new_session :: "libs \<Rightarrow> token_bundle \<Rightarrow> uuid \<Rightarrow> session_row \<Rightarrow> bool" where
  "new_session L b u s \<longleftrightarrow> us_userId s = u \<and> us_revokedAt s = None \<and>
     us_accessTokenHash s = hashOpaqueToken L (tb_accessToken b) \<and>
     us_refreshTokenHash s = hashOpaqueToken L (tb_refreshToken b)"

text \<open>Operations around \<open>createSession\<close> that leave the sessions alone.\<close>

lemma same_attempt [safe_intros]: "safe (on_db (same userSessions)) (insert_attempt e s y i)"
  unfolding insert_attempt_def by (intro safe_intros same.safe_insert_row) (simp add: same_def)

lemma same_sessions_event [safe_intros]: "safe (on_db (same userSessions)) (writeSecurityEvent opts k u p)"
  unfolding writeSecurityEvent_def insert_event_def
  by (intro safe_intros same.safe_insert_row) (simp add: same_def)

lemma same_sessions_mfa [safe_intros]: "safe (on_db (same userSessions)) (assertValidTotpMfa L fs c i)"
  unfolding assertValidTotpMfa_def by (intro safe_intros)

text \<open>An error that is no answer of the service: of the database, or of the callback for security events.\<close>

definition from_outside :: "auth_options \<Rightarrow> err \<Rightarrow> bool" where
  "from_outside opts e \<longleftrightarrow> db_error e \<or>
     (\<exists>hook k u p t. ao_onSecurityEvent opts = Some hook \<and> hook k u p t = Some e)"

lemma throws_outside: "throws_only db_error m \<Longrightarrow> throws_only (from_outside opts) m"
  by (auto simp: throws_only_def from_outside_def)

lemma throws_event [throws_intros]: "throws_only (from_outside opts) (writeSecurityEvent opts k u p)"
proof -
  have "throws_only (from_outside opts) (await_hook opts k u p)"
    by (auto simp: throws_only_def await_hook_def run_simps from_outside_def split: option.splits)
  moreover have "throws_only db_error (insert_event k u p)" unfolding insert_event_def by (intro throws_intros)
  ultimately show ?thesis unfolding writeSecurityEvent_def by (blast intro: throws_bind throws_outside)
qed

lemma throws_attempt [throws_intros]: "throws_only (from_outside opts) (insert_attempt e s y i)"
  unfolding insert_attempt_def by (intro throws_outside throws_intros)

lemma throws_createSession [throws_intros]: "throws_only (from_outside opts) (createSession L opts u ip agent)"
  unfolding createSession_def createOpaqueToken_def insert_session_def by (intro throws_outside throws_intros)

lemma login_cases:
  assumes "login L opts email password code factor ip agent w = (Inr r, w')"
  shows "\<exists>row. find_login_row (db w) email = Some row \<and>
    argon2_verify L (lr_passwordHash row) password \<and> lr_emailVerified row \<and>
    (enabled_factors (db w) (lr_userId row) \<noteq> [] \<longrightarrow>
      totp_passed L (clock w) (enabled_factors (db w) (lr_userId row)) code factor) \<and>
    lg_userId r = lr_userId row \<and>
    (\<exists>s. userSessions (db w') = userSessions (db w) @ [s] \<and> new_session L (lg_tokens r) (lr_userId row) s)"
proof -
  from assms obtain row where row: "find_login_row (db w) email = Some row"
    "argon2_verify L (lr_passwordHash row) password" "lr_emailVerified row"
    "argon2_error L (lr_passwordHash row) = None"
    by (auto simp: login_def run_simps insert_attempt_def split: option.splits if_splits sum.splits prod.splits)
  let ?fs = "enabled_factors (db w) (lr_userId row)"
  let ?mfa = "whenever (?fs \<noteq> []) (bind (assertValidTotpMfa L ?fs code factor) (\<lambda>factorId.
                  writeSecurityEvent opts ''mfa.login_verified'' (Some (lr_userId row))
                    (JObj [(''factorId'', juuid factorId)])))"
  have mfa: "safe (on_db (same userSessions)) ?mfa" by (intro safe_intros)
  from assms row obtain v1 tokens v2 where 1: "?mfa w = (Inr (), v1)"
    and 2: "createSession L opts (lr_userId row) ip agent v1 = (Inr tokens, v2)"
    and 3: "userSessions (db w') = userSessions (db v2)" "lg_userId r = lr_userId row" "lg_tokens r = tokens"
    by (auto simp: login_def bind_run read_db_run Let_def ret_run whenever_run verify_hash_run
        dest!: frameD [OF same_attempt] frameD [OF same_sessions_event]
        split: if_splits sum.splits prod.splits)
  have "totp_passed L (clock w) ?fs code factor" if "?fs \<noteq> []"
    using 1 that by (auto simp: whenever_run bind_run dest!: assertValidTotpMfa_ok split: sum.splits prod.splits)
  with row 3 createSession_ok [OF 2] frameD [OF mfa 1] show ?thesis
    by (auto simp: new_session_def issued_session_def)
qed

text \<open>An operation refuses cleanly when a refusal (not a failure from outside) changes nothing
  of the part \<open>f\<close>: the steps before the check keep it, the steps after it do not refuse.\<close>

definition refuses_cleanly :: "auth_options \<Rightarrow> (database \<Rightarrow> 'b) \<Rightarrow> 'a io \<Rightarrow> bool" where
  "refuses_cleanly opts f m \<longleftrightarrow> (\<forall>w e w'. m w = (Inl e, w') \<longrightarrow> \<not> from_outside opts e \<longrightarrow> f (db w') = f (db w))"

lemma refuses_safe: "safe (on_db (same f)) m \<Longrightarrow> refuses_cleanly opts f m"
  by (auto simp: refuses_cleanly_def dest: frameD)

lemma refuses_bind:
  assumes "safe (on_db (same f)) m" and "\<And>x. refuses_cleanly opts f (k x)"
  shows "refuses_cleanly opts f (bind m k)"
  unfolding refuses_cleanly_def
proof (intro allI impI)
  fix w e w' assume run: "bind m k w = (Inl e, w')" and e: "\<not> from_outside opts e"
  obtain x v where v: "m w = (x, v)" by (cases "m w")
  from frameD [OF assms(1) v] have fv: "f (db v) = f (db w)" .
  show "f (db w') = f (db w)"
  proof (cases x)
    case (Inl a)
    with run v fv show ?thesis by (simp add: bind_eq_if_throw)
  next
    case (Inr y)
    with run v have "k y v = (Inl e, w')" by (simp add: bind_eq_if_ret)
    with assms(2) [of y] e fv show ?thesis unfolding refuses_cleanly_def by metis
  qed
qed

lemma refuses_throws: "throws_only (from_outside opts) m \<Longrightarrow> refuses_cleanly opts f m"
  by (auto simp: refuses_cleanly_def dest: throws_onlyD)

lemma refuses_refusal: "safe (on_db (same f)) m \<Longrightarrow> refuses_cleanly opts f (bind m (\<lambda>_. throw e))"
  by (rule refuses_safe) (intro same.safe_bind same.safe_throw)

lemma refuses_if:
  "(b \<Longrightarrow> refuses_cleanly opts f m) \<Longrightarrow> (\<not> b \<Longrightarrow> refuses_cleanly opts f n) \<Longrightarrow> refuses_cleanly opts f (if b then m else n)"
  by simp

lemma refuses_case_option:
  "refuses_cleanly opts f m \<Longrightarrow> (\<And>y. refuses_cleanly opts f (g y)) \<Longrightarrow>
   refuses_cleanly opts f (case x of None \<Rightarrow> m | Some y \<Rightarrow> g y)"
  by (cases x) auto

lemma login_refuses: "refuses_cleanly opts userSessions (login L opts email password code factor ip agent)"
  unfolding login_def Let_def
  apply (intro refuses_bind [OF same.safe_read_db] refuses_case_option refuses_if
      refuses_refusal same_attempt)
  apply (rule refuses_bind)
   apply (intro safe_intros)
  apply (intro refuses_if refuses_refusal same_attempt refuses_bind [OF same.safe_read_db])
  apply (rule refuses_bind)
   apply (intro safe_intros)
  apply (intro refuses_throws throws_intros)
  done

text \<open>
  C7: A login that succeeds belongs to a caller who knew the password of an account with that
  verified address and, when the account has enabled factors, passed one of its TOTP factors; it
  adds exactly one session, of that account, holding the hashes of the tokens returned. A refused
  login (any answer but a failure of the database or of the callback for security events) leaves every
  session as it was.
\<close>

theorem login_sound:
  assumes "login L opts email password code factor ip agent w = (x, w')"
  shows "case x of
      Inr r \<Rightarrow> \<exists>row s. find_login_row (db w) email = Some row \<and>
        argon2_verify L (lr_passwordHash row) password \<and> lr_emailVerified row \<and>
        (enabled_factors (db w) (lr_userId row) = [] \<or>
         totp_passed L (clock w) (enabled_factors (db w) (lr_userId row)) code factor) \<and>
        lg_userId r = lr_userId row \<and> userSessions (db w') = userSessions (db w) @ [s] \<and>
        new_session L (lg_tokens r) (lr_userId row) s
    | Inl e \<Rightarrow> from_outside opts e \<or> userSessions (db w') = userSessions (db w)"
proof (cases x)
  case (Inl e)
  with login_refuses assms show ?thesis unfolding refuses_cleanly_def by fastforce
next
  case (Inr r)
  with login_cases assms show ?thesis by fastforce
qed

section \<open>Google login\<close>

definition same_clock :: "world \<Rightarrow> world \<Rightarrow> bool" where
  "same_clock w w' \<longleftrightarrow> clock w' = clock w"

interpretation clk: effect_order same_clock
  by unfold_locales (simp_all add: same_clock_def)

lemma clock_statements [safe_intros]:
  "safe same_clock now" "safe same_clock (read_db f)" "safe same_clock (emit e)"
  "safe same_clock draw_text" "safe same_clock draw_uuid" "safe same_clock now_micros"
  "safe same_clock (insert_row tbl upd uniq parent r)"
  by (auto simp: safe_def same_clock_def run_simps)

lemma same_tables_event [safe_intros]:
  assumes "\<And>d g. f (securityEvents_update g d) = f d"
  shows "safe (on_db (same f)) (writeSecurityEvent opts k u p)"
  unfolding writeSecurityEvent_def insert_event_def
  by (intro safe_intros same.safe_insert_row) (simp add: same_def assms)

lemma social_user_frame:
  assumes "\<And>d g. f (securityEvents_update g d) = f d" and "\<And>d g. f (users_update g d) = f d"
    and "\<And>d g. f (userEmails_update g d) = f d" and "\<And>d g. f (externalIdentities_update g d) = f d"
  shows "safe (on_db (same f)) (social_user opts a b e i)"
  unfolding social_user_def insert_identity_def insert_user_def insert_email_def
  by (intro safe_intros same.safe_insert_row same_tables_event) (simp_all add: same_def assms)

lemma social_user_clock: "safe same_clock (social_user opts a b e i)"
  unfolding social_user_def insert_identity_def insert_user_def insert_email_def
    writeSecurityEvent_def insert_event_def await_hook_def
  by (intro safe_intros)

definition social_account :: "database \<Rightarrow> string \<Rightarrow> string \<Rightarrow> string \<Rightarrow> uuid \<Rightarrow> bool" where
  "social_account d provider sub email u \<longleftrightarrow>
     (case find_identity d provider sub of
        Some i \<Rightarrow> u = xi_userId i
      | None \<Rightarrow> (case List.find (\<lambda>e. em_email e = email \<and> em_isPrimary e) (userEmails d) of
            Some e \<Rightarrow> u = em_userId e
          | None \<Rightarrow> \<not> user_exists d u))"

lemma social_user_account:
  "social_user opts a b e i w = (Inr u, w') \<Longrightarrow> social_account (db w) a b e u"
  by (auto simp: social_user_def run_simps insert_identity_def insert_user_def insert_email_def
      social_account_def user_exists_def uniq_users_def split: option.splits if_splits sum.splits prod.splits)

lemma authenticateSocialIdentity_ok:
  assumes "authenticateSocialIdentity L opts a b e code factor ip agent w = (Inr r, w')"
  shows "social_account (db w) a b e (so_userId r) \<and>
    (hasLocalPassword (db w) (so_userId r) \<and> enabled_factors (db w) (so_userId r) \<noteq> [] \<longrightarrow>
      totp_passed L (clock w) (enabled_factors (db w) (so_userId r)) code factor) \<and>
    (\<exists>s. userSessions (db w') = userSessions (db w) @ [s] \<and> new_session L (so_tokens r) (so_userId r) s)"
proof -
  from assms obtain u v where u: "social_user opts a b e ip w = (Inr u, v)"
    by (auto simp: authenticateSocialIdentity_def elim!: bind_Inr_E)
  have frames: "userPasswords (db v) = userPasswords (db w)" "mfaFactors (db v) = mfaFactors (db w)"
    "userSessions (db v) = userSessions (db w)"
    using u by (auto intro!: frameD [OF social_user_frame])
  have clk: "clock v = clock w" using safe_run [OF social_user_clock u] by (simp add: same_clock_def)
  let ?fs = "enabled_factors (db v) u"
  let ?mfa = "whenever (hasLocalPassword (db v) u \<and> ?fs \<noteq> []) (bind (assertValidTotpMfa L ?fs code factor)
     (\<lambda>factorId. writeSecurityEvent opts (''mfa.'' @ a @ ''.login_verified'') (Some u)
               (JObj [(''factorId'', juuid factorId)])))"
  have mfa: "safe (on_db (same userSessions)) ?mfa" by (intro safe_intros)
  from assms u obtain v1 tokens v2 where 1: "?mfa v = (Inr (), v1)"
    and 2: "createSession L opts u ip agent v1 = (Inr tokens, v2)"
    and 3: "userSessions (db w') = userSessions (db v2)" "so_userId r = u" "so_tokens r = tokens"
    by (auto simp: authenticateSocialIdentity_def bind_run read_db_run Let_def ret_run whenever_run
        dest!: frameD [OF same_sessions_event] split: if_splits sum.splits prod.splits)
  have "totp_passed L (clock v) ?fs code factor" if "hasLocalPassword (db v) u" "?fs \<noteq> []"
    using 1 that by (auto simp: whenever_run bind_run dest!: assertValidTotpMfa_ok split: sum.splits prod.splits)
  moreover have "?fs = enabled_factors (db w) u" "hasLocalPassword (db v) u = hasLocalPassword (db w) u"
    by (simp_all add: enabled_factors_def hasLocalPassword_def frames)
  ultimately show ?thesis
    using 3 createSession_ok [OF 2] frameD [OF mfa 1] frames(3) clk social_user_account [OF u]
    by (auto simp: new_session_def issued_session_def)
qed

lemma google_subject_ok:
  "google_subject L tok aud w = (Inr (sub, email), w') \<Longrightarrow> w' = w \<and>
   (\<exists>p e. google_verify L tok aud (clock w) = Some (Some p) \<and> gp_emailVerified p \<and>
      gp_sub p = Some sub \<and> sub \<noteq> [] \<and> gp_email p = Some e \<and> e \<noteq> [] \<and> email = to_lower e)"
  by (auto simp: google_subject_def run_simps truthy_iff split: option.splits if_splits)

lemma google_subject_world: "snd (google_subject L tok aud w) = w"
  by (auto simp: google_subject_def run_simps split: option.split)

text \<open>
  C8: A Google login either changes nothing in the database or is backed by an ID token that
  Google's verifier accepted for this client with a verified address; it signs in the account
  linked to the subject, else the one owning the address, else a new one, an account with a local
  password and enabled factors also passed its TOTP, and exactly one session is added.
\<close>

theorem loginWithGoogle_sound:
  assumes "loginWithGoogle L opts tok aud code factor ip agent w = (x, w')"
  shows "case x of
      Inl e \<Rightarrow> db w' = db w
    | Inr r \<Rightarrow> \<exists>p sub e s. google_verify L tok aud (clock w) = Some (Some p) \<and> gp_emailVerified p \<and>
        gp_sub p = Some sub \<and> sub \<noteq> [] \<and> gp_email p = Some e \<and>
        social_account (db w) ''google'' sub (to_lower e) (so_userId r) \<and>
        (hasLocalPassword (db w) (so_userId r) \<and> enabled_factors (db w) (so_userId r) \<noteq> [] \<longrightarrow>
          totp_passed L (clock w) (enabled_factors (db w) (so_userId r)) code factor) \<and>
        userSessions (db w') = userSessions (db w) @ [s] \<and> new_session L (so_tokens r) (so_userId r) s"
proof (cases x)
  case (Inl e)
  with assms google_subject_world [of L tok aud w] show ?thesis
    by (auto simp: loginWithGoogle_def bind_run transaction_run split: prod.splits sum.splits)
next
  case (Inr r)
  with assms obtain sub email v where g: "google_subject L tok aud w = (Inr (sub, email), v)"
    and a: "transaction (authenticateSocialIdentity L opts ''google'' sub email code factor ip agent) v = (Inr r, w')"
    by (auto simp: loginWithGoogle_def elim!: bind_Inr_E)
  from google_subject_ok [OF g] a have "authenticateSocialIdentity L opts ''google'' sub email code factor ip agent w = (Inr r, w')"
    by (simp add: transaction_Inr)
  from authenticateSocialIdentity_ok [OF this] google_subject_ok [OF g] Inr show ?thesis by auto
qed

section \<open>The tables\<close>

text \<open>
  The audit log, the security events and the login attempts are append-only: no sequence of
  operations removes, reorders or rewrites an entry.
\<close>

theorem logs_append_only:
  "\<exists>xs ys zs. auditLogs (db (run_ops L opts ops w)) = auditLogs (db w) @ xs \<and>
     securityEvents (db (run_ops L opts ops w)) = securityEvents (db w) @ ys \<and>
     loginAttempts (db (run_ops L opts ops w)) = loginAttempts (db w) @ zs"
  using logs.run_ops_respects [of w L opts ops] by (simp add: logs_grow_def)

section \<open>Witnesses\<close>

lemmas eval_defs = run_simps Let_def sample_defs uniq_defs hashOpaqueToken_def user_exists_def
  opt_user_exists_def writeSecurityEvent_def insert_event_def await_hook_def writeAuditLog_def
  insert_audit_def shouldUseHashChain_def starts_with_def DEFAULT_OPTIONS_def argon2_hash_io_def

definition after_change :: "(err + unit) \<times> world" where
  "after_change = changePassword sample_libs DEFAULT_OPTIONS 1 ''secret'' ''new'' (sample_world sample_db)"

lemma after_change_ok: "fst after_change = Inr ()"
  by (simp add: after_change_def changePassword_def verifyCurrentPassword_def find_password_def
      set_password_def revoke_live_sessions_def eval_defs)

lemma after_change_run: "changePassword sample_libs DEFAULT_OPTIONS 1 ''secret'' ''new'' (sample_world sample_db) = (Inr (), snd after_change)"
  using after_change_ok by (metis after_change_def prod.collapse)

theorem changePassword_logs_out_everywhere_witness:
  "isl (fst (authenticateAccessToken sample_libs ''a''
     (run_ops sample_libs DEFAULT_OPTIONS [Refresh ''b''] (snd after_change))))"
  using changePassword_logs_out_everywhere [OF after_change_run]
  by (simp add: sample_defs uniq_defs hashOpaqueToken_def)

definition after_reset :: "(err + unit) \<times> world" where
  "after_reset = confirmPasswordReset sample_libs DEFAULT_OPTIONS ''t'' ''new'' (sample_world sample_db)"

lemma after_reset_ok: "fst after_reset = Inr ()"
  by (simp add: after_reset_def confirmPasswordReset_def usable_token_def set_password_def
      revoke_live_sessions_def eval_defs)

lemma after_reset_run: "confirmPasswordReset sample_libs DEFAULT_OPTIONS ''t'' ''new'' (sample_world sample_db) = (Inr (), snd after_reset)"
  using after_reset_ok by (metis after_reset_def prod.collapse)

theorem password_reset_single_use_witness:
  "isl (fst (confirmPasswordReset sample_libs DEFAULT_OPTIONS ''t'' ''x''
     (run_ops sample_libs DEFAULT_OPTIONS [Wait 9] (snd after_reset))))"
  using password_reset_single_use [OF after_reset_run, of "''x''" "[Wait 9]"]
  by (simp add: sample_db_def uniq_defs)

definition after_verification :: "(err + unit) \<times> world" where
  "after_verification = confirmEmailVerification sample_libs DEFAULT_OPTIONS ''t'' (sample_world sample_db)"

lemma after_verification_ok: "fst after_verification = Inr ()"
  by (simp add: after_verification_def confirmEmailVerification_def usable_token_def eval_defs)

lemma after_verification_run: "confirmEmailVerification sample_libs DEFAULT_OPTIONS ''t'' (sample_world sample_db) = (Inr (), snd after_verification)"
  using after_verification_ok by (metis after_verification_def prod.collapse)

theorem email_verification_single_use_witness:
  "isl (fst (confirmEmailVerification sample_libs DEFAULT_OPTIONS ''t''
     (run_ops sample_libs DEFAULT_OPTIONS [Wait 9] (snd after_verification))))"
  using email_verification_single_use [OF after_verification_run, of "[Wait 9]"]
  by (simp add: sample_db_def uniq_defs)

theorem signup_all_or_nothing_witness:
  "fst (signup sample_libs DEFAULT_OPTIONS ''ann@x.org'' ''pw'' ''Ann'' None (sample_world sample_db)) =
     Inl (ApiError 409 ''email_already_exists'' ''Email already exists'')"
  using signup_all_or_nothing [OF prod.collapse [symmetric], of sample_libs DEFAULT_OPTIONS "''ann@x.org''" "''pw''"
      "''Ann''" None "sample_world sample_db"]
  by (simp add: sample_defs uniq_defs)

theorem login_sound_witness:
  "userSessions (db (snd (login sample_libs DEFAULT_OPTIONS ''ann@x.org'' ''bad'' None None None None
     (sample_world sample_db)))) = [sample_session]"
  using login_sound [where L = sample_libs and opts = DEFAULT_OPTIONS and email = "''ann@x.org''" and
      password = "''bad''" and code = None and factor = None and ip = None and agent = None and
      w = "sample_world sample_db", OF prod.collapse [symmetric]]
  by (simp add: login_def insert_attempt_def find_login_row_def verify_hash_def from_outside_def eval_defs)

theorem loginWithGoogle_sound_witness:
  "db (snd (loginWithGoogle sample_libs DEFAULT_OPTIONS [] ''c'' None None None None (sample_world sample_db))) = sample_db"
  using loginWithGoogle_sound [OF prod.collapse [symmetric], of sample_libs DEFAULT_OPTIONS "[]" "''c''"
      None None None None "sample_world sample_db"]
  by (simp add: loginWithGoogle_def google_subject_def bind_run now_run throw_run sample_libs_def)

end
