(* ===== verification/AuthCoreAuthorization.thy ===== *)
theory AuthCoreAuthorization
  imports AuthCoreBase Samples
begin

text \<open>
  Correctness of the authorisation queries of the auth-core service: the permission set is the
  union over the role paths, an entitlement is resolved at the most specific level that has an
  active one, and the check answers follow from both.
\<close>

section \<open>Permissions\<close>

text \<open>Role grants permission: a row of \<open>role_permissions\<close> and the permission it names.\<close>

definition role_grants :: "database \<Rightarrow> uuid \<Rightarrow> string \<Rightarrow> bool" where
  "role_grants d roleId key \<longleftrightarrow> (\<exists>rp \<in> set (rolePermissions d). \<exists>p \<in> set (permissions d).
     rp_roleId rp = roleId \<and> pe_id p = rp_permissionId rp \<and> pe_key p = key)"

lemma role_keys_iff: "key \<in> set (role_keys d roleId) \<longleftrightarrow> role_grants d roleId key"
  by (force simp: role_keys_def role_grants_def)

lemma set_js_uniq [simp]: "set (js_uniq xs) = set xs"
  by (simp add: js_uniq_def)

lemma distinct_js_uniq [simp]: "distinct (js_uniq xs)"
  by (simp add: js_uniq_def)

lemma in_member_groups: "g \<in> set (member_groups d cx u) \<longleftrightarrow>
    g \<in> set (groups d) \<and> group_matches cx g \<and>
    (\<exists>gm \<in> set (groupMemberships d). gm_userId gm = u \<and> gm_groupId gm = gr_id g)"
  by (force simp: member_groups_def)

text \<open>
  A permission key is reported exactly when a role path grants it: a role of the user, or a
  role of a group the user is a member of and the context admits; every key is reported once.
\<close>

theorem permissions_are_role_paths:
  "(key \<in> set (listPermissionKeys d u cx) \<longleftrightarrow>
     (\<exists>ur \<in> set (userRoles d). ur_userId ur = u \<and> role_grants d (ur_roleId ur) key) \<or>
     (\<exists>gm \<in> set (groupMemberships d). \<exists>g \<in> set (groups d). \<exists>gl \<in> set (groupRoles d).
        gm_userId gm = u \<and> gm_groupId gm = gr_id g \<and> group_matches cx g \<and>
        gl_groupId gl = gr_id g \<and> role_grants d (gl_roleId gl) key)) \<and>
   distinct (listPermissionKeys d u cx)"
proof -
  have "key \<in> set (direct_keys d u) \<longleftrightarrow>
      (\<exists>ur \<in> set (userRoles d). ur_userId ur = u \<and> role_grants d (ur_roleId ur) key)"
    by (auto simp: direct_keys_def role_keys_iff)
  moreover have "key \<in> set (group_keys d cx u) \<longleftrightarrow>
     (\<exists>gm \<in> set (groupMemberships d). \<exists>g \<in> set (groups d). \<exists>gl \<in> set (groupRoles d).
        gm_userId gm = u \<and> gm_groupId gm = gr_id g \<and> group_matches cx g \<and>
        gl_groupId gl = gr_id g \<and> role_grants d (gl_roleId gl) key)"
    by (simp add: group_keys_def role_keys_iff Bex_def in_member_groups) blast
  ultimately show ?thesis by (simp add: listPermissionKeys_def)
qed

section \<open>Entitlements\<close>

text \<open>The first row of a newest-first list is a newest row.\<close>

lemma first_order_desc:
  assumes "first_row (order_desc k rs) = Some r"
  shows "r \<in> set rs \<and> (\<forall>q \<in> set rs. k q \<le> k r)"
proof -
  from assms obtain qs where q: "rev (sort_key k rs) = r # qs"
    by (auto simp: order_desc_def first_row_def split: list.splits)
  then have s: "sort_key k rs = rev qs @ [r]" by (metis rev.simps(2) rev_rev_ident)
  have "sorted (map k (rev qs @ [r]))" using sorted_sort_key [of k rs] by (simp add: s)
  then have "\<forall>q \<in> set (rev qs). k q \<le> k r" by (auto simp: sorted_append)
  moreover have "set rs = set (rev qs @ [r])" using set_sort [of k rs] by (simp add: s)
  ultimately show ?thesis by auto
qed

lemma order_desc_Nil [simp]: "order_desc k rs = [] \<longleftrightarrow> rs = []"
  by (metis length_0_conv length_order_desc)

lemma newest_active_Some:
  assumes "newest_active t (order_desc en_createdAt rs) = Some r"
  shows "r \<in> set rs \<and> (\<forall>q \<in> set rs. en_createdAt q \<le> en_createdAt r)"
  using assms first_order_desc [of en_createdAt rs]
  by (auto simp: newest_active_def split: option.splits if_splits)

lemma newest_active_None:
  assumes "\<And>r. r \<in> set rs \<Longrightarrow> isEntitlementActive t (en_expiresAt r)"
  shows "newest_active t (order_desc en_createdAt rs) = None \<longleftrightarrow> rs = []"
  using assms first_order_desc [of en_createdAt rs]
  by (auto simp: newest_active_def split: option.splits)

definition own_entitlement :: "time \<Rightarrow> uuid \<Rightarrow> string \<Rightarrow> entitlement_row \<Rightarrow> bool" where
  "own_entitlement t u key e \<longleftrightarrow> active_for_key t key e \<and> en_userId e = Some u"

definition group_entitlement :: "database \<Rightarrow> time \<Rightarrow> auth_context \<Rightarrow> uuid \<Rightarrow> string \<Rightarrow> entitlement_row \<Rightarrow> bool" where
  "group_entitlement d t cx u key e \<longleftrightarrow> active_for_key t key e \<and>
     (\<exists>g \<in> set (member_groups d cx u). en_groupId e = Some (gr_id g))"

definition organization_entitlement ::
    "database \<Rightarrow> time \<Rightarrow> auth_context \<Rightarrow> uuid \<Rightarrow> string \<Rightarrow> entitlement_row \<Rightarrow> bool" where
  "organization_entitlement d t cx u key e \<longleftrightarrow> active_for_key t key e \<and>
     (\<exists>orgId. cx_organizationId cx = Some orgId \<and> en_organizationId e = Some orgId \<and>
       orgId \<in> og_id ` set (organizations d) \<and>
       (\<exists>g \<in> set (groups d). gr_organizationId g = orgId \<and>
         (\<exists>gm \<in> set (groupMemberships d). gm_userId gm = u \<and> gm_groupId gm = gr_id g)))"

text \<open>\<open>e\<close> is a newest row satisfying \<open>p\<close>.\<close>

definition newest_with :: "database \<Rightarrow> (entitlement_row \<Rightarrow> bool) \<Rightarrow> entitlement_row \<Rightarrow> bool" where
  "newest_with d p e \<longleftrightarrow> e \<in> set (entitlements d) \<and> p e \<and>
     (\<forall>q \<in> set (entitlements d). p q \<longrightarrow> en_createdAt q \<le> en_createdAt e)"

lemma level_cases:
  assumes "\<And>e. e \<in> set rs \<longleftrightarrow> e \<in> set (entitlements d) \<and> p e" and "\<And>e. p e \<Longrightarrow> active_for_key t key e"
  shows "case newest_active t (order_desc en_createdAt rs) of
      Some e \<Rightarrow> newest_with d p e | None \<Rightarrow> \<forall>e \<in> set (entitlements d). \<not> p e"
proof (cases "newest_active t (order_desc en_createdAt rs)")
  case None
  have "isEntitlementActive t (en_expiresAt r)" if "r \<in> set rs" for r
    using that assms by (auto simp: active_for_key_def)
  from newest_active_None [OF this] None have "rs = []" by simp
  with assms(1) None show ?thesis by auto
next
  case (Some e)
  with newest_active_Some [OF Some] assms(1) show ?thesis by (auto simp: newest_with_def)
qed

lemma user_level: "case newest_active t (user_entitlements d t u key) of
    Some e \<Rightarrow> newest_with d (own_entitlement t u key) e
  | None \<Rightarrow> \<forall>e \<in> set (entitlements d). \<not> own_entitlement t u key e"
  unfolding user_entitlements_def by (rule level_cases) (auto simp: own_entitlement_def)

lemma group_level: "case newest_active t (group_entitlements d t cx u key) of
    Some e \<Rightarrow> newest_with d (group_entitlement d t cx u key) e
  | None \<Rightarrow> \<forall>e \<in> set (entitlements d). \<not> group_entitlement d t cx u key e"
  unfolding group_entitlements_def by (rule level_cases) (auto simp: group_entitlement_def)

lemma organization_level:
  assumes o: "cx_organizationId cx = Some orgId"
    and m: "member_groups d \<lparr>cx_organizationId = Some orgId, cx_groupId = None\<rparr> u \<noteq> []"
  shows "case newest_active t (organization_entitlements d t orgId key) of
    Some e \<Rightarrow> newest_with d (organization_entitlement d t cx u key) e
  | None \<Rightarrow> \<forall>e \<in> set (entitlements d). \<not> organization_entitlement d t cx u key e"
proof -
  from m obtain g where g: "g \<in> set (member_groups d \<lparr>cx_organizationId = Some orgId, cx_groupId = None\<rparr> u)"
    by (cases "member_groups d \<lparr>cx_organizationId = Some orgId, cx_groupId = None\<rparr> u") auto
  then have "\<exists>g \<in> set (groups d). gr_organizationId g = orgId \<and>
      (\<exists>gm \<in> set (groupMemberships d). gm_userId gm = u \<and> gm_groupId gm = gr_id g)"
    by (auto simp: in_member_groups group_matches_def)
  then show ?thesis
    unfolding organization_entitlements_def
    by (intro level_cases) (force simp: organization_entitlement_def o)+
qed

lemma not_member_no_organization:
  assumes "cx_organizationId cx = Some orgId"
    and "member_groups d \<lparr>cx_organizationId = Some orgId, cx_groupId = None\<rparr> u = []"
  shows "\<not> organization_entitlement d t cx u key e"
proof
  assume "organization_entitlement d t cx u key e"
  then obtain g where "g \<in> set (member_groups d \<lparr>cx_organizationId = Some orgId, cx_groupId = None\<rparr> u)"
    using assms(1) by (auto simp: organization_entitlement_def in_member_groups group_matches_def)
  with assms(2) show False by simp
qed

text \<open>
  C30: An entitlement is resolved at the most specific level that has an active one for the key:
  the user's own before the groups' before the organisation's (and that only for a member of one
  of its groups); the value is that of a newest active entitlement of the level, and the key is
  unresolved only when no level has one.
\<close>

theorem entitlement_precedence:
  "case resolveEntitlementForKey d t u key cx of
     Some (v, ScopeUser) \<Rightarrow> \<exists>e. newest_with d (own_entitlement t u key) e \<and> v = normalizeEntitlementValue (en_value e)
   | Some (v, ScopeGroup) \<Rightarrow> (\<forall>e \<in> set (entitlements d). \<not> own_entitlement t u key e) \<and>
       (\<exists>e. newest_with d (group_entitlement d t cx u key) e \<and> v = normalizeEntitlementValue (en_value e))
   | Some (v, ScopeOrganization) \<Rightarrow>
       (\<forall>e \<in> set (entitlements d). \<not> own_entitlement t u key e \<and> \<not> group_entitlement d t cx u key e) \<and>
       (\<exists>e. newest_with d (organization_entitlement d t cx u key) e \<and> v = normalizeEntitlementValue (en_value e))
   | Some (v, ScopeNone) \<Rightarrow> False
   | None \<Rightarrow> \<forall>e \<in> set (entitlements d). \<not> own_entitlement t u key e \<and>
       \<not> group_entitlement d t cx u key e \<and> \<not> organization_entitlement d t cx u key e"
proof (cases "newest_active t (user_entitlements d t u key)")
  case (Some e)
  with user_level [of d t u key] show ?thesis by (auto simp: resolveEntitlementForKey_def)
next
  case user: None
  with user_level [of d t u key] have no_own: "\<forall>e \<in> set (entitlements d). \<not> own_entitlement t u key e" by simp
  show ?thesis
  proof (cases "newest_active t (group_entitlements d t cx u key)")
    case (Some e)
    with user no_own group_level [of d t cx u key] show ?thesis by (auto simp: resolveEntitlementForKey_def)
  next
    case group: None
    with group_level [of d t cx u key]
    have no_group: "\<forall>e \<in> set (entitlements d). \<not> group_entitlement d t cx u key e" by simp
    show ?thesis
    proof (cases "cx_organizationId cx")
      case None
      with user group no_own no_group show ?thesis
        by (auto simp: resolveEntitlementForKey_def organization_entitlement_def)
    next
      case (Some orgId)
      show ?thesis
      proof (cases "member_groups d \<lparr>cx_organizationId = Some orgId, cx_groupId = None\<rparr> u = []")
        case True
        with Some user group no_own no_group not_member_no_organization [OF Some True] show ?thesis
          by (auto simp: resolveEntitlementForKey_def)
      next
        case False
        from organization_level [OF Some False, of t key] Some False user group no_own no_group show ?thesis
          by (auto simp: resolveEntitlementForKey_def split: option.splits)
      qed
    qed
  qed
qed

text \<open>
  An authorisation check allows exactly the keys of the permission set, and an entitlement
  check grants only a resolved entitlement: a boolean one when it is true, one with a numeric
  \<open>max\<close> and a quantity exactly up to that limit.
\<close>

theorem checks_follow_the_sets:
  "(ck_allowed (authorizationCheck d u action resource cx) \<longleftrightarrow>
      resource @ '':'' @ action \<in> set (listPermissionKeys d u cx)) \<and>
   (er_granted (entitlementCheck d t u key cx q) \<longrightarrow> resolveEntitlementForKey d t u key cx \<noteq> None) \<and>
   (\<forall>b s. resolveEntitlementForKey d t u key cx = Some (EVBool b, s) \<longrightarrow>
      er_granted (entitlementCheck d t u key cx q) = b) \<and>
   (\<forall>fs s m n. resolveEntitlementForKey d t u key cx = Some (EVObj fs, s) \<and>
      map_of fs ''max'' = Some (JNum m) \<and> q = Some n \<longrightarrow>
      (er_granted (entitlementCheck d t u key cx q) \<longleftrightarrow> n \<le> m))"
  by (cases "resolveEntitlementForKey d t u key cx")
    (auto simp: authorizationCheck_def entitlementCheck_def Let_def)

section \<open>Witnesses\<close>

definition sample_entitlement :: entitlement_row where
  "sample_entitlement = \<lparr>en_id = 7, en_key = ''seats'', en_enabled = True, en_value = JObj [(''max'', JNum 3)],
     en_userId = Some 1, en_groupId = None, en_organizationId = None, en_expiresAt = None, en_createdAt = 0\<rparr>"

theorem entitlement_precedence_witness:
  "resolveEntitlementForKey (sample_db\<lparr>entitlements := [sample_entitlement]\<rparr>) 0 1 ''seats'' no_context =
     Some (EVObj [(''max'', JNum 3)], ScopeUser) \<and>
   newest_with (sample_db\<lparr>entitlements := [sample_entitlement]\<rparr>) (own_entitlement 0 1 ''seats'') sample_entitlement"
  using entitlement_precedence [of "sample_db\<lparr>entitlements := [sample_entitlement]\<rparr>" 0 1 "''seats''" no_context]
  by (simp add: resolveEntitlementForKey_def user_entitlements_def active_for_key_def isEntitlementActive_def
      newest_active_def order_desc_def sample_entitlement_def newest_with_def own_entitlement_def)

theorem checks_follow_the_sets_witness:
  "er_granted (entitlementCheck (sample_db\<lparr>entitlements := [sample_entitlement]\<rparr>) 0 1 ''seats'' no_context (Some 3)) \<and>
   \<not> er_granted (entitlementCheck (sample_db\<lparr>entitlements := [sample_entitlement]\<rparr>) 0 1 ''seats'' no_context (Some 4))"
proof -
  have "resolveEntitlementForKey (sample_db\<lparr>entitlements := [sample_entitlement]\<rparr>) 0 1 ''seats'' no_context =
     Some (EVObj [(''max'', JNum 3)], ScopeUser)"
    by (simp add: resolveEntitlementForKey_def user_entitlements_def active_for_key_def isEntitlementActive_def
        newest_active_def order_desc_def sample_entitlement_def)
  then show ?thesis
    using checks_follow_the_sets [of "sample_db\<lparr>entitlements := [sample_entitlement]\<rparr>" 1 "[]" "[]" no_context 0 "''seats''" "Some 3"]
      checks_follow_the_sets [of "sample_db\<lparr>entitlements := [sample_entitlement]\<rparr>" 1 "[]" "[]" no_context 0 "''seats''" "Some 4"]
    by simp
qed

end
