(* ===== verification/AuditTrail.thy ===== *)
theory AuditTrail
  imports AuthCoreBase Samples
begin

text \<open>
  apps/idp-server/src/modules/audit/audit.repository.ts: security events, audit entries with the
  hash chain over the \<open>admin.\<close> actions, paginated listings and the integrity check. The
  advisory lock that serialises writers of the chain is the sequential execution of the model.
\<close>

section \<open>Writing\<close>

text \<open>\<open>recordSecurityEventMetric\<close> of core/metrics.ts: the counters it increments.\<close>

definition recordSecurityEventMetric :: "string \<Rightarrow> unit io" where
  "recordSecurityEventMetric eventType =
     bind (emit (Metric ''security_event_total'' [eventType])) (\<lambda>_.
     whenever (eventType = ''refresh_token.reuse_detected'') (emit (Metric ''refresh_reuse_detected_total'' [])))"

definition createSecurityEvent :: "string \<Rightarrow> uuid option \<Rightarrow> json \<Rightarrow> unit io" where
  "createSecurityEvent eventType userId payload =
     bind (insert_event eventType userId payload) (\<lambda>_. recordSecurityEventMetric eventType)"

text \<open>\<open>buildEntryHash\<close>, here of a row with its stored \<open>prevHash\<close>.\<close>

definition buildEntryHash :: "libs \<Rightarrow> audit_row \<Rightarrow> string" where
  "buildEntryHash L r = sha256 L (canonicalize (collate L)
     (audit_source L (au_id r) (au_createdAt r) (au_actorUserId r) (au_action r)
        (au_resourceType r) (au_resourceId r) (au_payload r) (au_prevHash r)))"

text \<open>The body of \<open>createAuditLog\<close>; a caller's transaction passes its \<open>tx\<close> and runs just this.\<close>

definition createAuditLog_tx :: "libs \<Rightarrow> uuid option \<Rightarrow> string \<Rightarrow> string \<Rightarrow> string option \<Rightarrow> json \<Rightarrow> unit io" where
  "createAuditLog_tx L actorUserId action resourceType resourceId payload =
     (if \<not> shouldUseHashChain action then
        bind now (\<lambda>createdAt. bind draw_uuid (\<lambda>i.
        insert_audit \<lparr>au_id = i, au_actorUserId = actorUserId, au_action = action,
          au_resourceType = resourceType, au_resourceId = resourceId, au_payload = payload,
          au_prevHash = None, au_entryHash = None,
          au_integrityVersion = INTEGRITY_VERSION_NONE, au_createdAt = createdAt, au_micros = 0\<rparr>))
      else
        bind (read_db latest_chained) (\<lambda>latest. bind now (\<lambda>createdAt. bind draw_uuid (\<lambda>i.
        let r = \<lparr>au_id = i, au_actorUserId = actorUserId, au_action = action,
            au_resourceType = resourceType, au_resourceId = resourceId, au_payload = payload,
            au_prevHash = (case latest of None \<Rightarrow> None | Some l \<Rightarrow> au_entryHash l), au_entryHash = None,
            au_integrityVersion = INTEGRITY_VERSION_CHAINED, au_createdAt = createdAt, au_micros = 0\<rparr>
        in insert_audit (r\<lparr>au_entryHash := Some (buildEntryHash L r)\<rparr>)))))"

definition createAuditLog :: "libs \<Rightarrow> uuid option \<Rightarrow> string \<Rightarrow> string \<Rightarrow> string option \<Rightarrow> json \<Rightarrow> unit io" where
  "createAuditLog L actorUserId action resourceType resourceId payload =
     (if shouldUseHashChain action
      then transaction (createAuditLog_tx L actorUserId action resourceType resourceId payload)
      else createAuditLog_tx L actorUserId action resourceType resourceId payload)"

section \<open>Listing\<close>

definition MAX_PAGE_SIZE :: int where "MAX_PAGE_SIZE = 200"

definition toPageLimit :: "int \<Rightarrow> int" where
  "toPageLimit value = min (max value 1) MAX_PAGE_SIZE"

type_synonym cursor = "time \<times> uuid"
type_synonym position = "(time \<times> nat) \<times> uuid"

text \<open>
  A row stands at its \<open>created_at\<close>, which has microseconds, and its identifier. A cursor is what the client of the
  database makes of a position, a \<open>Date\<close>: \<open>toCursor\<close> loses the microseconds.
\<close>

definition toCursor :: "position \<Rightarrow> cursor" where
  "toCursor k = (fst (fst k), snd k)"

text \<open>\<open>buildCursorFilter\<close>: strictly before the cursor in \<open>(created_at, id)\<close>, with the microseconds of the row.\<close>

definition before_cursor :: "cursor option \<Rightarrow> position \<Rightarrow> bool" where
  "before_cursor cur k \<longleftrightarrow> (case cur of
     None \<Rightarrow> True
   | Some c \<Rightarrow> fst k < (fst c, 0) \<or> (fst k = (fst c, 0) \<and> snd k < snd c))"

text \<open>
  The query both listings end in: newest first, one row more than the limit to learn whether
  there is a next page, whose cursor is the last row of this one.
\<close>

definition page :: "('r \<Rightarrow> position) \<Rightarrow> ('r \<Rightarrow> bool) \<Rightarrow> nat \<Rightarrow> cursor option \<Rightarrow> 'r list \<Rightarrow> 'r list \<times> cursor option" where
  "page key p limit cur table =
     (let rows = take (limit + 1) (order_desc key (filter (\<lambda>r. p r \<and> before_cursor cur (key r)) table));
          hasNext = limit < length rows;
          items = (if hasNext then take limit rows else rows)
      in (items, if hasNext \<and> items \<noteq> [] then Some (toCursor (key (last items))) else None))"

record audit_filter =
  af_from :: "time option"
  af_to :: "time option"
  af_actorUserId :: "uuid option"
  af_action :: "string option"
  af_resourceType :: "string option"
  af_resourceId :: "string option"

text \<open>A condition is added only for a filter that was given (an empty string counts as not given).\<close>

definition audit_matches :: "audit_filter \<Rightarrow> audit_row \<Rightarrow> bool" where
  "audit_matches f r \<longleftrightarrow>
     (case af_from f of None \<Rightarrow> True | Some t \<Rightarrow> (t, 0) \<le> (au_createdAt r, au_micros r)) \<and>
     (case af_to f of None \<Rightarrow> True | Some t \<Rightarrow> (au_createdAt r, au_micros r) \<le> (t, 0)) \<and>
     (case af_actorUserId f of None \<Rightarrow> True | Some u \<Rightarrow> au_actorUserId r = Some u) \<and>
     (truthy (af_action f) \<longrightarrow> af_action f = Some (au_action r)) \<and>
     (truthy (af_resourceType f) \<longrightarrow> af_resourceType f = Some (au_resourceType r)) \<and>
     (truthy (af_resourceId f) \<longrightarrow> af_resourceId f = au_resourceId r)"

definition audit_key :: "audit_row \<Rightarrow> position" where "audit_key r = ((au_createdAt r, au_micros r), au_id r)"
definition event_key :: "event_row \<Rightarrow> position" where "event_key r = ((se_createdAt r, se_micros r), se_id r)"

definition listAuditLogs :: "database \<Rightarrow> audit_filter \<Rightarrow> int \<Rightarrow> cursor option \<Rightarrow> audit_row list \<times> cursor option" where
  "listAuditLogs d f limit cur =
     page audit_key (audit_matches f) (nat (toPageLimit limit)) cur (auditLogs d)"

record event_filter =
  ef_from :: "time option"
  ef_to :: "time option"
  ef_userId :: "uuid option"
  ef_eventType :: "string option"

definition event_matches :: "event_filter \<Rightarrow> event_row \<Rightarrow> bool" where
  "event_matches f r \<longleftrightarrow>
     (case ef_from f of None \<Rightarrow> True | Some t \<Rightarrow> (t, 0) \<le> (se_createdAt r, se_micros r)) \<and>
     (case ef_to f of None \<Rightarrow> True | Some t \<Rightarrow> (se_createdAt r, se_micros r) \<le> (t, 0)) \<and>
     (case ef_userId f of None \<Rightarrow> True | Some u \<Rightarrow> se_userId r = Some u) \<and>
     (truthy (ef_eventType f) \<longrightarrow> ef_eventType f = Some (se_eventType r))"

definition listSecurityEvents :: "database \<Rightarrow> event_filter \<Rightarrow> int \<Rightarrow> cursor option \<Rightarrow> event_row list \<times> cursor option" where
  "listSecurityEvents d f limit cur =
     page event_key (event_matches f) (nat (toPageLimit limit)) cur (securityEvents d)"

section \<open>Integrity\<close>

record integrity_report =
  ir_ok :: bool
  ir_checked :: nat
  ir_firstId :: "uuid option"
  ir_lastId :: "uuid option"
  ir_brokenAt :: "uuid option"
  ir_reason :: "string option"

text \<open>The loop: the first row that does not link to its predecessor or does not hash to its
  entry hash.\<close>

fun find_break :: "libs \<Rightarrow> string option \<Rightarrow> audit_row list \<Rightarrow> (uuid \<times> string) option" where
  "find_break L expectedPrevHash [] = None"
| "find_break L expectedPrevHash (row # rows) =
     (if au_prevHash row \<noteq> expectedPrevHash then Some (au_id row, ''prev_hash_mismatch'')
      else if au_entryHash row \<noteq> Some (buildEntryHash L row) then Some (au_id row, ''entry_hash_mismatch'')
      else find_break L (au_entryHash row) rows)"

definition is_chained :: "audit_row \<Rightarrow> bool" where
  "is_chained r \<longleftrightarrow> au_integrityVersion r = INTEGRITY_VERSION_CHAINED"

definition in_range :: "time option \<Rightarrow> time option \<Rightarrow> audit_row \<Rightarrow> bool" where
  "in_range from until r \<longleftrightarrow>
     (case from of None \<Rightarrow> True | Some t \<Rightarrow> (t, 0) \<le> (au_createdAt r, au_micros r)) \<and>
     (case until of None \<Rightarrow> True | Some t \<Rightarrow> (au_createdAt r, au_micros r) \<le> (t, 0))"

definition verifyIntegrityRange :: "libs \<Rightarrow> database \<Rightarrow> time option \<Rightarrow> time option \<Rightarrow> integrity_report" where
  "verifyIntegrityRange L d from until =
     (let rows = sort_key audit_key (filter (\<lambda>r. is_chained r \<and> in_range from until r) (auditLogs d)) in
      case rows of
        [] \<Rightarrow> \<lparr>ir_ok = True, ir_checked = 0, ir_firstId = None, ir_lastId = None, ir_brokenAt = None,
              ir_reason = None\<rparr>
      | first # _ \<Rightarrow>
          (let previous = first_row (order_desc audit_key
                 (filter (\<lambda>r. is_chained r \<and> before_cursor (Some (toCursor (audit_key first))) (audit_key r)) (auditLogs d)));
               expected = (case previous of None \<Rightarrow> None | Some p \<Rightarrow> au_entryHash p);
               broken = find_break L expected rows
           in \<lparr>ir_ok = (broken = None), ir_checked = length rows, ir_firstId = Some (au_id first),
               ir_lastId = Some (au_id (last rows)), ir_brokenAt = map_option fst broken,
               ir_reason = map_option snd broken\<rparr>))"

end
