(* ===== verification/AuditTrailFacts.thy ===== *)
theory AuditTrailFacts
  imports AuditTrail
begin

text \<open>
  Correctness of the audit repository: following the cursors visits every matching row once, the
  integrity check accepts exactly the linked chains, accepts every range of an accepted chain,
  keeps accepting after entries are appended in time order and reports altered entries.
\<close>

section \<open>Pagination\<close>

text \<open>A client that follows \<open>nextCursor\<close> until there is none, at most \<open>n\<close> requests.\<close>

fun walk :: "(cursor option \<Rightarrow> 'r list \<times> cursor option) \<Rightarrow> nat \<Rightarrow> cursor option \<Rightarrow> 'r list" where
  "walk fetch 0 cur = []"
| "walk fetch (Suc n) cur = (case fetch cur of
     (items, None) \<Rightarrow> items
   | (items, Some c) \<Rightarrow> items @ walk fetch n (Some c))"

lemma before_cursor_simps [simp]:
  "before_cursor None k" "before_cursor (Some c) k \<longleftrightarrow> k < ((fst c, 0), snd c)"
  by (auto simp: before_cursor_def less_prod_def')

text \<open>A position at a whole millisecond, which a cursor keeps.\<close>

definition whole :: "position \<Rightarrow> bool" where
  "whole k \<longleftrightarrow> snd (fst k) = 0"

lemma before_own_cursor: "whole c \<Longrightarrow> before_cursor (Some (toCursor c)) k \<longleftrightarrow> k < c"
  by (cases c; cases "fst c") (simp add: whole_def toCursor_def)

lemma cursor_not_after: "before_cursor (Some (toCursor c)) k \<Longrightarrow> k < c"
  by (cases c; cases "fst c") (auto simp: toCursor_def less_prod_def')

lemma order_desc_filter: "order_desc k (filter q xs) = filter q (order_desc k xs)"
  by (simp add: order_desc_def rev_filter flip: filter_sort)

definition descending :: "('r \<Rightarrow> position) \<Rightarrow> 'r list \<Rightarrow> bool" where
  "descending key xs \<longleftrightarrow> sorted_wrt (\<lambda>a b. key b < key a) xs"

lemma descending_order_desc:
  assumes "distinct (map key xs)"
  shows "descending key (order_desc key xs)"
proof -
  have "sorted (map key (sort_key key xs))" by simp
  moreover have "distinct (map key (sort_key key xs))"
    using assms by (metis distinct_map distinct_sort set_sort)
  ultimately have "sorted_wrt (<) (map key (sort_key key xs))"
    by (simp add: strict_sorted_iff)
  then show ?thesis
    by (simp add: descending_def order_desc_def sorted_wrt_rev sorted_wrt_map)
qed

lemma descending_filter: "descending key xs \<Longrightarrow> descending key (filter q xs)"
  by (simp add: descending_def sorted_wrt_filter)

lemma descending_after:
  assumes "descending key xs" and "0 < n" and "n \<le> length xs"
  shows "filter (\<lambda>r. key r < key (xs ! (n - 1))) xs = drop n xs"
proof -
  let ?c = "key (xs ! (n - 1))"
  from assms have "xs = take (n - 1) xs @ xs ! (n - 1) # drop n xs"
    using id_take_nth_drop [of "n - 1" xs] by simp
  moreover from assms(1) this have "\<forall>r \<in> set (take (n - 1) xs). ?c < key r"
    and "\<forall>r \<in> set (drop n xs). key r < ?c"
    unfolding descending_def by (metis sorted_wrt_append list.set_intros(1), metis sorted_wrt_append sorted_wrt.simps(2))
  ultimately show ?thesis
    by (metis (no_types, lifting) filter.simps(2) filter_False filter_True filter_append less_asym less_irrefl append_Nil)
qed

lemma page_walk:
  assumes "descending key S" and "0 < limit" and "length (filter (\<lambda>r. before_cursor cur (key r)) S) < n"
    and "\<And>cur. fetch cur = page key p limit cur table" and "S = order_desc key (filter p table)"
    and "\<forall>r \<in> set S. whole (key r)"
  shows "walk fetch n cur = filter (\<lambda>r. before_cursor cur (key r)) S"
  using assms(3)
proof (induction n arbitrary: cur)
  case (Suc n)
  define T where "T = filter (\<lambda>r. before_cursor cur (key r)) S"
  have T: "order_desc key (filter (\<lambda>r. p r \<and> before_cursor cur (key r)) table) = T"
    by (simp add: T_def assms(5) order_desc_filter conj_commute)
  have d: "descending key T" using assms(1) by (simp add: T_def descending_filter)
  have fetch: "fetch cur = (if limit < length T then (take limit T,
      if take limit T \<noteq> [] then Some (toCursor (key (last (take limit T)))) else None) else (T, None))"
    unfolding assms(4) page_def T Let_def by (auto simp: min_def)
  show ?case
  proof (cases "limit < length T")
    case False
    then show ?thesis by (simp add: fetch T_def)
  next
    case True
    define c where "c = key (T ! (limit - 1))"
    have last: "last (take limit T) = T ! (limit - 1)"
      using True assms(2) by (subst last_conv_nth) (auto simp: min_def)
    then have lastc: "key (last (take limit T)) = c" by (simp add: c_def)
    have "T ! (limit - 1) \<in> set T" using True assms(2) by simp
    then have "before_cursor cur c" and c: "whole c" using assms(6) by (simp_all add: T_def c_def)
    then have "before_cursor cur (key r)" if "key r < c" for r
      using that by (cases cur) auto
    then have "filter (\<lambda>r. before_cursor (Some (toCursor c)) (key r)) S = filter (\<lambda>r. key r < c) T"
      unfolding before_own_cursor [OF c] by (auto simp: T_def intro: filter_cong)
    also have "\<dots> = drop limit T"
      unfolding c_def using True assms(2) by (intro descending_after d) auto
    finally have rest: "filter (\<lambda>r. before_cursor (Some (toCursor c)) (key r)) S = drop limit T" .
    have "walk fetch n (Some (toCursor c)) = drop limit T"
      using Suc.IH [of "Some (toCursor c)"] Suc.prems assms(2) True unfolding rest T_def [symmetric] by simp
    moreover have "T \<noteq> []" using True by auto
    ultimately show ?thesis
      using True assms(2) by (simp add: fetch lastc T_def [symmetric])
  qed
qed simp

lemma page_walk_all:
  assumes "distinct (map key table)" and "0 < limit" and "\<forall>r \<in> set (filter p table). whole (key r)"
  shows "walk (\<lambda>cur. page key p limit cur table) (Suc (length table)) None = order_desc key (filter p table)"
proof -
  have "distinct (map key (filter p table))" using assms(1) by (rule distinct_map_filter)
  then have "descending key (order_desc key (filter p table))" by (rule descending_order_desc)
  moreover have "length (filter p table) < Suc (length table)"
    using length_filter_le [of p table] by linarith
  ultimately show ?thesis using assms(2,3)
    by (subst page_walk [where key = key and p = p and limit = limit and table = table])
      (simp_all add: order_desc_def)
qed

lemma toPageLimit_bounds: "1 \<le> toPageLimit n \<and> toPageLimit n \<le> 200"
  by (simp add: toPageLimit_def MAX_PAGE_SIZE_def)

lemma distinct_keys:
  "distinct (map g xs) \<Longrightarrow> distinct (map (\<lambda>r. (f r, g r)) xs)"
  by (induction xs) force+

text \<open>
  Following the cursors of either listing returns every matching row exactly once, newest
  first, whatever page size is asked for, when the rows are of whole milliseconds; each page has at
  most 200 rows.
\<close>

theorem listing_complete:
  assumes "uniq_audit (auditLogs d)" and "uniq_events (securityEvents d)"
    and "\<forall>r \<in> set (auditLogs d). au_micros r = 0" and "\<forall>r \<in> set (securityEvents d). se_micros r = 0"
  shows "walk (listAuditLogs d f limit) (Suc (length (auditLogs d))) None =
           order_desc audit_key (filter (audit_matches f) (auditLogs d))
    \<and> walk (listSecurityEvents d g limit) (Suc (length (securityEvents d))) None =
           order_desc event_key (filter (event_matches g) (securityEvents d))
    \<and> length (fst (listAuditLogs d f limit cur)) \<le> 200
    \<and> length (fst (listSecurityEvents d g limit cur)) \<le> 200"
proof -
  have n: "0 < nat (toPageLimit limit)" "nat (toPageLimit limit) \<le> 200"
    using toPageLimit_bounds [of limit] by auto
  have "distinct (map audit_key (auditLogs d))" "distinct (map event_key (securityEvents d))"
    using assms distinct_keys [of au_id "auditLogs d" "\<lambda>r. (au_createdAt r, au_micros r)"]
      distinct_keys [of se_id "securityEvents d" "\<lambda>r. (se_createdAt r, se_micros r)"]
    by (simp_all add: uniq_audit_def uniq_events_def audit_key_def [abs_def] event_key_def [abs_def])
  moreover have "\<forall>r \<in> set (filter (audit_matches f) (auditLogs d)). whole (audit_key r)"
    "\<forall>r \<in> set (filter (event_matches g) (securityEvents d)). whole (event_key r)"
    using assms(3,4) by (simp_all add: whole_def audit_key_def event_key_def)
  ultimately show ?thesis
    using page_walk_all [OF _ n(1), of audit_key "auditLogs d"] page_walk_all [OF _ n(1), of event_key "securityEvents d"] n(2)
    by (auto simp: listAuditLogs_def [abs_def] listSecurityEvents_def [abs_def] page_def Let_def)
qed

theorem listing_complete_witness:
  "walk (listAuditLogs (sample_db\<lparr>auditLogs := []\<rparr>)
     \<lparr>af_from = None, af_to = None, af_actorUserId = None, af_action = None, af_resourceType = None,
      af_resourceId = None\<rparr> 50) 1 None = []"
  using listing_complete [of "sample_db\<lparr>auditLogs := []\<rparr>"] by (simp add: sample_defs uniq_defs order_desc_def)

text \<open>
  The condition is needed: an event \<open>e\<close> in the same millisecond as the last one of a page and older by
  microseconds is on no page after it.
\<close>

theorem page_skips_microseconds:
  assumes "event_key e < event_key l" and "se_createdAt e = se_createdAt l" and "0 < se_micros e"
  shows "e \<notin> set (fst (page event_key p n (Some (toCursor (event_key l))) table))"
proof -
  have "\<not> before_cursor (Some (toCursor (event_key l))) (event_key e)"
    using assms(2,3) by (simp add: toCursor_def event_key_def less_prod_def')
  moreover have "before_cursor (Some (toCursor (event_key l))) (event_key r)"
    if "r \<in> set (fst (page event_key p n (Some (toCursor (event_key l))) table))" for r
    using that by (auto simp: page_def Let_def order_desc_def dest!: in_set_takeD split: if_splits)
  ultimately show ?thesis by blast
qed

section \<open>The chain\<close>

definition chain :: "database \<Rightarrow> audit_row list" where
  "chain d = sort_key audit_key (filter is_chained (auditLogs d))"

definition chain_intact :: "libs \<Rightarrow> database \<Rightarrow> bool" where
  "chain_intact L d \<longleftrightarrow> find_break L None (chain d) = None"

lemma set_chain [simp]: "set (chain d) = {r \<in> set (auditLogs d). is_chained r}"
  by (auto simp: chain_def)

lemma sorted_chain: "sorted (map audit_key (chain d))"
  by (simp add: chain_def)

lemma strict_chain:
  assumes "uniq_audit (auditLogs d)"
  shows "sorted_wrt (\<lambda>a b. audit_key a < audit_key b) (chain d)"
proof -
  have "distinct (map audit_key (auditLogs d))"
    using assms distinct_keys [of au_id "auditLogs d" "\<lambda>r. (au_createdAt r, au_micros r)"]
    by (simp add: uniq_audit_def audit_key_def [abs_def])
  then have "distinct (map audit_key (chain d))"
    unfolding chain_def by (metis distinct_map distinct_map_filter distinct_sort set_sort)
  with sorted_chain have "sorted_wrt (<) (map audit_key (chain d))"
    by (simp add: strict_sorted_iff)
  then show ?thesis by (simp add: sorted_wrt_map)
qed

definition link_after :: "string option \<Rightarrow> audit_row list \<Rightarrow> string option" where
  "link_after prev rows = (if rows = [] then prev else au_entryHash (last rows))"

lemma link_after_simps [simp]:
  "link_after prev [] = prev"
  "link_after prev (r # rows) = link_after (au_entryHash r) rows"
  "link_after prev (rows @ [r]) = au_entryHash r"
  by (simp_all add: link_after_def)

lemma find_break_append:
  "find_break L prev (xs @ ys) = (case find_break L prev xs of
     Some b \<Rightarrow> Some b | None \<Rightarrow> find_break L (link_after prev xs) ys)"
  by (induction xs arbitrary: prev) (auto split: option.split)

lemma last_of_sorted:
  assumes "sorted_wrt (\<lambda>a b. audit_key a < audit_key b) xs" and "xs \<noteq> []"
  shows "first_row (order_desc audit_key xs) = Some (last xs)"
proof -
  have "sorted (map audit_key xs)"
    using assms(1) by (auto simp: sorted_wrt_map intro: sorted_wrt_mono_rel [rotated])
  then have "sort_key audit_key xs = xs" by (rule sort_key_id_if_sorted)
  then show ?thesis using assms(2)
    by (cases xs rule: rev_cases) (simp_all add: order_desc_def)
qed

lemma sorted_filter_prefix:
  assumes "sorted (map f xs)"
  shows "filter (\<lambda>r. f r < k) xs @ filter (\<lambda>r. k \<le> f r) xs = xs"
  using assms
proof (induction xs)
  case (Cons a xs)
  show ?case
  proof (cases "f a < k")
    case False
    with Cons.prems have "filter (\<lambda>r. f r < k) xs = []" "filter (\<lambda>r. k \<le> f r) xs = xs"
      by (fastforce simp: filter_empty_conv filter_id_conv)+
    with False show ?thesis by simp
  qed (use Cons in simp)
qed simp

lemma intact_iff_linked:
  "find_break L prev rows = None \<longleftrightarrow>
     (\<forall>i < length rows. au_entryHash (rows ! i) = Some (buildEntryHash L (rows ! i)) \<and>
        au_prevHash (rows ! i) = (if i = 0 then prev else au_entryHash (rows ! (i - 1))))"
proof (induction rows arbitrary: prev)
  case (Cons r rows)
  show ?case
    by (auto simp: Cons.IH less_Suc_eq_0_disj nth_Cons' split: if_splits)
qed simp

lemma verify_all: "verifyIntegrityRange L d None None = (case chain d of
     [] \<Rightarrow> \<lparr>ir_ok = True, ir_checked = 0, ir_firstId = None, ir_lastId = None, ir_brokenAt = None, ir_reason = None\<rparr>
   | first # _ \<Rightarrow> (let broken = find_break L None (chain d) in
       \<lparr>ir_ok = (broken = None), ir_checked = length (chain d), ir_firstId = Some (au_id first),
        ir_lastId = Some (au_id (last (chain d))), ir_brokenAt = map_option fst broken,
        ir_reason = map_option snd broken\<rparr>))"
proof (cases "chain d")
  case Nil
  then show ?thesis by (simp add: verifyIntegrityRange_def in_range_def chain_def)
next
  case (Cons first rest)
  have "audit_key first \<le> audit_key r" if "r \<in> set (chain d)" for r
    using sorted_chain [of d] that by (auto simp: Cons)
  then have "\<not> before_cursor (Some (toCursor (audit_key first))) (audit_key r)" if "r \<in> set (chain d)" for r
    using cursor_not_after [of "audit_key first" "audit_key r"] leD that by blast
  then have "filter (\<lambda>r. is_chained r \<and> before_cursor (Some (toCursor (audit_key first))) (audit_key r)) (auditLogs d) = []"
    by (simp add: filter_empty_conv del: before_cursor_simps)
  with Cons show ?thesis
    by (simp add: verifyIntegrityRange_def in_range_def chain_def order_desc_def del: before_cursor_simps)
qed

lemma verify_all_ok: "ir_ok (verifyIntegrityRange L d None None) \<longleftrightarrow> chain_intact L d"
  by (cases "chain d") (simp_all add: verify_all chain_intact_def Let_def)

lemma sorted_filter_suffix:
  assumes "sorted (map f xs)"
  shows "filter (\<lambda>r. f r \<le> k) xs @ filter (\<lambda>r. \<not> f r \<le> k) xs = xs"
  using assms
proof (induction xs)
  case (Cons a xs)
  show ?case
  proof (cases "f a \<le> k")
    case False
    with Cons.prems have "filter (\<lambda>r. f r \<le> k) xs = []" "filter (\<lambda>r. \<not> f r \<le> k) xs = xs"
      by (fastforce simp: filter_empty_conv filter_id_conv)+
    with False show ?thesis by simp
  qed (use Cons in simp)
qed simp

lemma fst_mono: "a \<le> b \<Longrightarrow> fst a \<le> fst b" for a b :: "'a::linorder \<times> 'b::linorder"
  by (auto simp: less_eq_prod_def)

lemma range_rows_split:
  assumes "sorted (map audit_key rows)" and "filter (in_range from until) rows = first # rest"
  shows "\<exists>after. rows = filter (\<lambda>r. audit_key r < audit_key first) rows @ (first # rest) @ after"
proof -
  let ?R = "filter (in_range from until) rows"
  let ?A = "filter (\<lambda>r. audit_key r < audit_key first) rows"
  let ?B = "filter (\<lambda>r. audit_key first \<le> audit_key r) rows"
  have split: "?A @ ?B = rows" using assms(1) by (rule sorted_filter_prefix)
  have "sorted (map audit_key ?R)" using assms(1) by (rule sorted_filter)
  then have least: "audit_key first \<le> audit_key r" if "r \<in> set ?R" for r using that by (auto simp: assms(2))
  have "first \<in> set ?R" by (simp add: assms(2))
  then have first: "in_range from until first" by simp
  have "\<not> in_range from until r" if "r \<in> set ?A" for r
    using that least [of r] by auto
  then have "filter (in_range from until) ?A = []" by (auto simp: filter_empty_conv)
  then have R: "?R = filter (in_range from until) ?B"
    using arg_cong [OF split, where f = "filter (in_range from until)"] by simp
  have later: "in_range from until r \<longleftrightarrow> (case until of None \<Rightarrow> True | Some t \<Rightarrow> fst (audit_key r) \<le> (t, 0))"
    if "r \<in> set ?B" for r
    using that first by (auto simp: in_range_def audit_key_def less_eq_prod_def split: option.splits)
  have sorted_B: "sorted (map (\<lambda>r. fst (audit_key r)) ?B)"
    using sorted_filter [OF assms(1), of "\<lambda>r. audit_key first \<le> audit_key r"]
    by (auto simp: sorted_wrt_map intro: fst_mono elim!: sorted_wrt_mono_rel [rotated])
  show ?thesis
  proof (cases until)
    case None
    then have "?R = ?B" unfolding R using later by (intro filter_True) auto
    with split assms(2) show ?thesis by (metis append_Nil2)
  next
    case (Some t)
    have "?R = filter (\<lambda>r. fst (audit_key r) \<le> (t, 0)) ?B"
      unfolding R using later Some by (intro filter_cong) auto
    with sorted_filter_suffix [OF sorted_B, of "(t, 0)"] split assms(2) show ?thesis by metis
  qed
qed

text \<open>
  The check of a range that has entries: they are a part of the chain, and the check goes through them
  from the entry before. The entries of the chain are written with a \<open>Date\<close>, so of a whole millisecond.
\<close>

lemma verify_range:
  assumes u: "uniq_audit (auditLogs d)" and w: "\<forall>r \<in> set (chain d). au_micros r = 0"
    and "filter (in_range from until) (chain d) = first # rest"
  obtains A after where "chain d = A @ (first # rest) @ after" and "\<forall>r \<in> set A \<union> set after. \<not> in_range from until r"
    and "ir_ok (verifyIntegrityRange L d from until) \<longleftrightarrow> find_break L (link_after None A) (first # rest) = None"
proof -
  define A where "A = filter (\<lambda>r. audit_key r < audit_key first) (chain d)"
  from range_rows_split [OF sorted_chain assms(3)] obtain after where
    c: "chain d = A @ (first # rest) @ after" unfolding A_def by blast
  have "\<forall>r \<in> set (first # rest). in_range from until r" unfolding assms(3) [symmetric] by simp
  then have "filter (in_range from until) A @ (first # rest) @ filter (in_range from until) after = first # rest"
    using assms(3) unfolding c by simp
  from arg_cong [OF this, where f = length]
  have "filter (in_range from until) A = []" "filter (in_range from until) after = []" by simp_all
  then have out: "\<forall>r \<in> set A \<union> set after. \<not> in_range from until r" by (auto simp: filter_empty_conv)
  have rows: "sort_key audit_key (filter (\<lambda>r. is_chained r \<and> in_range from until r) (auditLogs d)) = first # rest"
    using assms(3) by (simp add: chain_def filter_sort conj_commute)
  have "first \<in> set (chain d)" by (simp add: c)
  with w have "whole (audit_key first)" by (simp add: whole_def audit_key_def)
  note before = before_own_cursor [OF this]
  have order: "order_desc audit_key (filter (\<lambda>r. is_chained r \<and> audit_key r < audit_key first) (auditLogs d)) =
      order_desc audit_key A"
    by (simp add: A_def chain_def order_desc_def filter_sort conj_commute sort_key_id_if_sorted)
  have "sorted_wrt (\<lambda>a b. audit_key a < audit_key b) A"
    using strict_chain [OF u] by (simp add: A_def sorted_wrt_filter)
  then have "(case first_row (order_desc audit_key A) of None \<Rightarrow> None | Some p \<Rightarrow> au_entryHash p) = link_after None A"
    using last_of_sorted [of A] by (cases "A = []") (simp_all add: link_after_def order_desc_def)
  then have "ir_ok (verifyIntegrityRange L d from until) \<longleftrightarrow> find_break L (link_after None A) (first # rest) = None"
    by (simp add: verifyIntegrityRange_def rows before order Let_def del: before_cursor_simps find_break.simps)
  then show thesis by (rule that [OF c out])
qed

lemma all_block:
  assumes "\<And>i. i < m \<Longrightarrow> Q i \<longleftrightarrow> a \<le> i \<and> i < a + n" and "a + n \<le> (m::nat)"
  shows "(\<forall>i < m. Q i \<longrightarrow> P i) \<longleftrightarrow> (\<forall>j < n. P (a + j))"
proof (intro iffI allI impI)
  show "P (a + j)" if "\<forall>i < m. Q i \<longrightarrow> P i" "j < n" for j
    using assms(1) [of "a + j"] assms(2) that by simp
  show "P i" if "\<forall>j < n. P (a + j)" "i < m" "Q i" for i
    using assms(1) [OF that(2)] that(1,3) by (metis le_Suc_ex nat_add_left_cancel_less)
qed

lemma verify_empty_range:
  assumes "filter (in_range from until) (chain d) = []"
  shows "ir_ok (verifyIntegrityRange L d from until)"
proof -
  have "sort_key audit_key (filter (\<lambda>r. is_chained r \<and> in_range from until r) (auditLogs d)) = []"
    using assms by (simp add: chain_def filter_sort conj_commute)
  then show ?thesis by (simp add: verifyIntegrityRange_def)
qed


text \<open>
  Every time range of an intact log verifies: the check of a range starts from the entry
  before it, so a part of a good chain is never reported as broken.
\<close>

theorem integrity_range_of_intact:
  assumes "ir_ok (verifyIntegrityRange L d None None)" and "uniq_audit (auditLogs d)"
    and "\<forall>r \<in> set (chain d). au_micros r = 0"
  shows "ir_ok (verifyIntegrityRange L d from until)"
proof (cases "filter (in_range from until) (chain d)")
  case Nil
  then show ?thesis by (rule verify_empty_range)
next
  case (Cons first rest)
  obtain A after where c: "chain d = A @ (first # rest) @ after"
    and ok: "ir_ok (verifyIntegrityRange L d from until) \<longleftrightarrow> find_break L (link_after None A) (first # rest) = None"
    using verify_range [OF assms(2,3) Cons] by metis
  from assms(1) have "find_break L None (chain d) = None" by (simp add: verify_all_ok chain_intact_def)
  then have "find_break L (link_after None A) (first # rest) = None"
    unfolding c find_break_append by (simp del: find_break.simps split: option.splits)
  with ok show ?thesis by blast
qed

section \<open>Appending and altering\<close>

lemma insort_snoc: "f x \<le> f r \<Longrightarrow> insort_key f x (ys @ [r]) = insort_key f x ys @ [r]"
  by (induction ys) auto

lemma sort_key_snoc: "(\<And>x. x \<in> set xs \<Longrightarrow> f x \<le> f r) \<Longrightarrow> sort_key f (xs @ [r]) = sort_key f xs @ [r]"
proof (induction xs)
  case (Cons x xs)
  then have "sort_key f (xs @ [r]) = sort_key f xs @ [r]" by simp
  with Cons.prems show ?case by (simp add: insort_snoc)
qed simp

lemma chain_append:
  assumes "is_chained r" and "\<forall>q \<in> set (chain d). audit_key q \<le> audit_key r"
  shows "chain (auditLogs_update (\<lambda>rs. rs @ [r]) d) = chain d @ [r]"
  using assms sort_key_snoc [of "filter is_chained (auditLogs d)" audit_key r]
  by (simp add: chain_def)

lemma latest_is_last:
  assumes "uniq_audit (auditLogs d)"
  shows "(case latest_chained d of None \<Rightarrow> None | Some l \<Rightarrow> au_entryHash l) = link_after None (chain d)"
proof -
  have "order_desc (\<lambda>r. ((au_createdAt r, au_micros r), au_id r)) (filter is_chained (auditLogs d)) = order_desc audit_key (chain d)"
    by (simp add: order_desc_def chain_def audit_key_def [abs_def] sort_key_id_if_sorted)
  then have "latest_chained d = first_row (order_desc audit_key (chain d))"
    by (simp add: latest_chained_def is_chained_def [abs_def])
  then show ?thesis
    using last_of_sorted [OF strict_chain [OF assms]]
    by (cases "chain d = []") (simp_all add: link_after_def order_desc_def)
qed

text \<open>The row \<open>createAuditLog\<close> writes for a chained action.\<close>

definition chained_entry ::
    "libs \<Rightarrow> uuid option \<Rightarrow> string \<Rightarrow> string \<Rightarrow> string option \<Rightarrow> json \<Rightarrow> world \<Rightarrow> audit_row" where
  "chained_entry L actor action resourceType resourceId payload w =
     (let r = \<lparr>au_id = rnd_uuid w (rnd w), au_actorUserId = actor, au_action = action,
            au_resourceType = resourceType, au_resourceId = resourceId, au_payload = payload,
            au_prevHash = (case latest_chained (db w) of None \<Rightarrow> None | Some l \<Rightarrow> au_entryHash l),
            au_entryHash = None, au_integrityVersion = INTEGRITY_VERSION_CHAINED, au_createdAt = clock w,
            au_micros = 0\<rparr>
      in r\<lparr>au_entryHash := Some (buildEntryHash L r)\<rparr>)"

lemma createAuditLog_chained:
  assumes "shouldUseHashChain action"
    and "createAuditLog L actor action rt ri payload w = (Inr (), w')"
  shows "db w' = auditLogs_update (\<lambda>rs. rs @ [chained_entry L actor action rt ri payload w]) (db w)"
  using assms
  by (auto simp: createAuditLog_def createAuditLog_tx_def run_simps insert_audit_def chained_entry_def
      Let_def split: if_splits)

lemma chained_entry_simps [simp]:
  "is_chained (chained_entry L actor action rt ri payload w)"
  "au_createdAt (chained_entry L actor action rt ri payload w) = clock w"
  "au_micros (chained_entry L actor action rt ri payload w) = 0"
  "au_prevHash (chained_entry L actor action rt ri payload w) =
     (case latest_chained (db w) of None \<Rightarrow> None | Some l \<Rightarrow> au_entryHash l)"
  "au_entryHash (chained_entry L actor action rt ri payload w) =
     Some (buildEntryHash L (chained_entry L actor action rt ri payload w))"
  by (simp_all add: chained_entry_def is_chained_def Let_def buildEntryHash_def)

text \<open>
  Appending keeps the chain: when every chained entry is older than the clock, an
  administrative action that is logged leaves the integrity check answering ok.
\<close>

theorem audit_append_keeps_chain:
  assumes "ir_ok (verifyIntegrityRange L (db w) None None)" and "uniq_audit (auditLogs (db w))"
    and "\<forall>r \<in> set (auditLogs (db w)). is_chained r \<longrightarrow> au_createdAt r < clock w"
    and "shouldUseHashChain action" and "createAuditLog L actor action rt ri payload w = (Inr (), w')"
  shows "ir_ok (verifyIntegrityRange L (db w') None None) \<and> length (chain (db w')) = Suc (length (chain (db w)))"
proof -
  let ?r = "chained_entry L actor action rt ri payload w"
  have "\<forall>q \<in> set (chain (db w)). audit_key q \<le> audit_key ?r"
    using assms(3) by (auto simp: audit_key_def less_eq_prod_def)
  then have "chain (db w') = chain (db w) @ [?r]"
    unfolding createAuditLog_chained [OF assms(4,5)] by (intro chain_append) auto
  with assms(1) show ?thesis
    by (simp add: verify_all_ok chain_intact_def find_break_append latest_is_last [OF assms(2)])
qed

text \<open>Replacing the entries with one id.\<close>

definition altered :: "uuid \<Rightarrow> (audit_row \<Rightarrow> audit_row) \<Rightarrow> database \<Rightarrow> database" where
  "altered i f d = auditLogs_update (update_where (\<lambda>r. au_id r = i) f) d"

lemma filter_update_where:
  "(\<And>r. q (f r) = q r) \<Longrightarrow> filter q (update_where p f rs) = update_where p f (filter q rs)"
  by (induction rs) auto

lemma insort_update: "(\<And>r. k (f r) = k r) \<Longrightarrow>
    insort_key k (if p x then f x else x) (update_where p f rs) = update_where p f (insort_key k x rs)"
  by (induction rs) auto

lemma sort_update: "(\<And>r. k (f r) = k r) \<Longrightarrow> sort_key k (update_where p f rs) = update_where p f (sort_key k rs)"
  by (induction rs) (simp_all add: insort_update [symmetric])

text \<open>
  Altering a logged administrative action is noticed: when the content of one entry of an
  intact log is changed (identity, time and stored hashes kept) so that it hashes differently,
  the check fails at exactly that entry with \<open>entry_hash_mismatch\<close>.
\<close>

theorem altered_entry_detected:
  assumes ok: "ir_ok (verifyIntegrityRange L d None None)" and u: "uniq_audit (auditLogs d)"
    and r: "r \<in> set (auditLogs d)" "is_chained r"
    and keeps: "\<And>q. au_id (f q) = au_id q \<and> au_createdAt (f q) = au_createdAt q \<and> au_micros (f q) = au_micros q \<and>
      au_integrityVersion (f q) = au_integrityVersion q \<and> au_prevHash (f q) = au_prevHash q \<and>
      au_entryHash (f q) = au_entryHash q"
    and changed: "buildEntryHash L (f r) \<noteq> buildEntryHash L r"
  shows "ir_ok (verifyIntegrityRange L (altered (au_id r) f d) None None) = False \<and>
    ir_brokenAt (verifyIntegrityRange L (altered (au_id r) f d) None None) = Some (au_id r) \<and>
    ir_reason (verifyIntegrityRange L (altered (au_id r) f d) None None) = Some ''entry_hash_mismatch''"
proof -
  let ?p = "\<lambda>q. au_id q = au_id r"
  have c: "chain (altered (au_id r) f d) = update_where ?p f (chain d)"
    using keeps by (simp add: chain_def altered_def filter_update_where sort_update is_chained_def audit_key_def)
  from r have "r \<in> set (chain d)" by simp
  then obtain A B where d: "chain d = A @ r # B" by (meson split_list)
  have "distinct (map au_id (auditLogs d))" using u by (simp add: uniq_audit_def)
  then have "distinct (map au_id (chain d))"
    unfolding chain_def by (metis distinct_map distinct_map_filter distinct_sort set_sort)
  then have "au_id r \<notin> au_id ` set A" by (auto simp: d)
  then have "\<not> ?p q" if "q \<in> set A" for q using that by (metis imageI)
  then have A: "update_where ?p f A = A" by (rule update_where_none)
  from ok have "find_break L None (chain d) = None" by (simp add: verify_all_ok chain_intact_def)
  then have "find_break L None A = None" "au_prevHash r = link_after None A"
      "au_entryHash r = Some (buildEntryHash L r)"
    unfolding d find_break_append by (auto split: option.splits if_splits)
  then have b: "find_break L None (chain (altered (au_id r) f d)) = Some (au_id r, ''entry_hash_mismatch'')"
    using keeps changed by (simp add: c d A find_break_append)
  then obtain first rest where "chain (altered (au_id r) f d) = first # rest"
    by (cases "chain (altered (au_id r) f d)") auto
  with b show ?thesis by (simp add: verify_all Let_def)
qed

section \<open>Witnesses\<close>

definition sample_entry :: audit_row where
  "sample_entry = chained_entry sample_libs None ''admin.role'' ''role'' None JNull (sample_world sample_db)"

definition sample_log :: database where
  "sample_log = sample_db\<lparr>auditLogs := [sample_entry]\<rparr>"

lemma latest_sample: "latest_chained sample_db = None"
  by (simp add: latest_chained_def sample_db_def empty_database_def order_desc_def)

lemma sample_log_chain: "chain sample_log = [sample_entry]"
  by (simp add: chain_def sample_log_def sample_entry_def)

lemma sample_log_ok: "ir_ok (verifyIntegrityRange sample_libs sample_log None None)" "uniq_audit (auditLogs sample_log)"
  by (simp_all add: verify_all_ok chain_intact_def sample_log_chain)
    (simp_all add: sample_entry_def latest_sample sample_log_def uniq_audit_def)


theorem integrity_range_of_intact_witness:
  "ir_ok (verifyIntegrityRange sample_libs sample_log (Some 5) None)"
  by (rule integrity_range_of_intact [OF sample_log_ok]) (simp add: sample_log_chain sample_entry_def del: set_chain)

definition sample_append :: "(err + unit) \<times> world" where
  "sample_append = createAuditLog sample_libs None ''admin.role'' ''role'' None JNull
     ((sample_world sample_log)\<lparr>clock := 2000, rnd := 7\<rparr>)"

lemma sample_append_run:
  "createAuditLog sample_libs None ''admin.role'' ''role'' None JNull
     ((sample_world sample_log)\<lparr>clock := 2000, rnd := 7\<rparr>) = (Inr (), snd sample_append)"
proof -
  have "fst sample_append = Inr ()"
    by (simp add: sample_append_def createAuditLog_def createAuditLog_tx_def shouldUseHashChain_def
        starts_with_def run_simps insert_audit_def Let_def uniq_audit_def opt_user_exists_def)
      (simp add: sample_log_def sample_entry_def chained_entry_def Let_def)
  then show ?thesis by (metis sample_append_def prod.collapse)
qed

theorem audit_append_keeps_chain_witness:
  "ir_ok (verifyIntegrityRange sample_libs (db (snd sample_append)) None None)"
  using audit_append_keeps_chain [OF _ _ _ _ sample_append_run] sample_log_ok
  by (simp add: shouldUseHashChain_def starts_with_def) (simp add: sample_log_def sample_entry_def)

theorem altered_entry_detected_witness:
  "ir_brokenAt (verifyIntegrityRange sample_libs
     (altered (au_id sample_entry) (\<lambda>q. q\<lparr>au_resourceType := ''group''\<rparr>) sample_log) None None) = Some 100"
proof -
  have "buildEntryHash sample_libs (sample_entry\<lparr>au_resourceType := ''group''\<rparr>) \<noteq> buildEntryHash sample_libs sample_entry"
    by (simp add: buildEntryHash_def audit_source_def sample_entry_def chained_entry_def Let_def
        sort_entries_def json_quote_def json_escape_def)
  moreover have "sample_entry \<in> set (auditLogs sample_log)" "is_chained sample_entry"
    by (simp_all add: sample_log_def) (simp add: sample_entry_def)
  ultimately have "ir_brokenAt (verifyIntegrityRange sample_libs
     (altered (au_id sample_entry) (\<lambda>q. q\<lparr>au_resourceType := ''group''\<rparr>) sample_log) None None) = Some (au_id sample_entry)"
    using altered_entry_detected [OF sample_log_ok, of sample_entry "\<lambda>q. q\<lparr>au_resourceType := ''group''\<rparr>"] by simp
  then show ?thesis by (simp add: sample_entry_def chained_entry_def Let_def)
qed

end
