(* ===== verification/RateLimiter.thy ===== *)
theory RateLimiter
  imports Samples
begin

text \<open>
  The Redis commands the services use, and apps/idp-server/src/core/rate-limiter.ts: a fixed-window
  counter per key. The Lua script (INCR, then EXPIRE when the counter is new) runs atomically.
\<close>

section \<open>Redis\<close>

text \<open>A key past its expiry instant is absent.\<close>

definition redis_live :: "world \<Rightarrow> string \<Rightarrow> (string \<times> time option) option" where
  "redis_live w key = (case redis w key of
     None \<Rightarrow> None
   | Some (v, None) \<Rightarrow> Some (v, None)
   | Some (v, Some e) \<Rightarrow> if clock w < e then Some (v, Some e) else None)"

definition redis_put :: "string \<Rightarrow> (string \<times> time option) option \<Rightarrow> unit io" where
  "redis_put key entry = modify (\<lambda>w. w\<lparr>redis := (redis w)(key := entry)\<rparr>)"

text \<open>Decimal digits to a number; INCR refuses a value that is not one.\<close>

definition digit_value :: "char \<Rightarrow> nat option" where
  "digit_value c = (if 48 \<le> (of_char c :: nat) \<and> (of_char c :: nat) \<le> 57 then Some (of_char c - 48) else None)"

fun digits_value :: "nat \<Rightarrow> string \<Rightarrow> nat option" where
  "digits_value acc [] = Some acc"
| "digits_value acc (c # cs) = (case digit_value c of None \<Rightarrow> None | Some d \<Rightarrow> digits_value (10 * acc + d) cs)"

definition parse_nat :: "string \<Rightarrow> nat option" where
  "parse_nat s = (if s = [] then None else digits_value 0 s)"

lemma digits_value_append:
  "digits_value acc (xs @ ys) = (case digits_value acc xs of None \<Rightarrow> None | Some n \<Rightarrow> digits_value n ys)"
  by (induction acc xs rule: digits_value.induct) (auto split: option.split)

lemma digit_value_char: "d < 10 \<Longrightarrow> digit_value (digit_char d) = Some d"
proof -
  assume "d < 10"
  then have "d \<in> {0, 1, 2, 3, 4, 5, 6, 7, 8, 9}" by auto
  then show ?thesis by (auto simp: digit_value_def digit_char_def nth_Cons')
qed

lemma show_nat_not_Nil [simp]: "show_nat n \<noteq> []"
  by (subst show_nat.simps) simp

lemma parse_show_nat [simp]: "parse_nat (show_nat n) = Some n"
proof -
  have "digits_value 0 (show_nat n) = Some n"
  proof (induction n rule: show_nat.induct)
    case (1 n)
    show ?case
    proof (cases "n < 10")
      case True
      then show ?thesis by (subst show_nat.simps) (simp add: digit_value_char)
    next
      case False
      with 1 show ?thesis
        by (subst show_nat.simps) (simp add: digits_value_append digit_value_char)
    qed
  qed
  then show ?thesis by (simp add: parse_nat_def)
qed

section \<open>The limiter\<close>

record rate_result =
  rl_allowed :: bool
  rl_remaining :: int

text \<open>INCR followed by EXPIRE for a counter that became 1.\<close>

definition incr_expire :: "string \<Rightarrow> int \<Rightarrow> int io" where
  "incr_expire key windowSeconds = (\<lambda>w.
     (case redis_live w key of
        None \<Rightarrow> (Inr 1, w\<lparr>redis := (redis w)(key := Some (show_nat 1, Some (clock w + windowSeconds * 1000)))\<rparr>)
      | Some (v, e) \<Rightarrow>
         (case parse_nat v of
            None \<Rightarrow> (Inl (PlainError ''ERR value is not an integer or out of range''), w)
          | Some n \<Rightarrow> (Inr (int n + 1), w\<lparr>redis := (redis w)(key :=
               Some (show_nat (n + 1), if n = 0 then Some (clock w + windowSeconds * 1000) else e))\<rparr>))))"

definition limiter_key :: "string \<Rightarrow> string" where
  "limiter_key key = ''rl:'' @ key"

definition rate_consume :: "string \<Rightarrow> int \<Rightarrow> int \<Rightarrow> rate_result io" where
  "rate_consume key limit windowSeconds =
     bind (incr_expire (limiter_key key) windowSeconds) (\<lambda>count.
     if limit < count then ret \<lparr>rl_allowed = False, rl_remaining = 0\<rparr>
     else ret \<lparr>rl_allowed = True, rl_remaining = max (limit - count) 0\<rparr>)"

section \<open>The window\<close>

text \<open>The count of the window a key is in, and when that window ends.\<close>

definition window_count :: "world \<Rightarrow> string \<Rightarrow> nat" where
  "window_count w key = (case redis_live w (limiter_key key) of
     None \<Rightarrow> 0 | Some (v, _) \<Rightarrow> (case parse_nat v of None \<Rightarrow> 0 | Some n \<Rightarrow> n))"

definition window_end :: "world \<Rightarrow> string \<Rightarrow> time option" where
  "window_end w key = (case redis_live w (limiter_key key) of None \<Rightarrow> None | Some (_, e) \<Rightarrow> e)"

text \<open>The keys of the limiter hold positive counters with an expiry.\<close>

definition counters_ok :: "world \<Rightarrow> bool" where
  "counters_ok w \<longleftrightarrow> (\<forall>key v e. redis w (limiter_key key) = Some (v, e) \<longrightarrow>
     (\<exists>n. parse_nat v = Some (Suc n)) \<and> e \<noteq> None)"

lemma limiter_key_inj [simp]: "limiter_key a = limiter_key b \<longleftrightarrow> a = b"
  by (simp add: limiter_key_def)

lemma rate_consume_run:
  assumes "counters_ok w"
  shows "rate_consume key limit window w =
    (let n = window_count w key + 1;
         e = (case window_end w key of None \<Rightarrow> clock w + window * 1000 | Some e \<Rightarrow> e)
     in (Inr \<lparr>rl_allowed = (int n \<le> limit), rl_remaining = (if int n \<le> limit then limit - int n else 0)\<rparr>,
         w\<lparr>redis := (redis w)(limiter_key key := Some (show_nat n, Some e))\<rparr>))"
proof (cases "redis_live w (limiter_key key)")
  case None
  then show ?thesis
    by (simp add: rate_consume_def run_simps incr_expire_def window_count_def window_end_def)
next
  case (Some ve)
  obtain v e where ve: "ve = (v, e)" by (cases ve)
  with Some have "redis w (limiter_key key) = Some (v, e)"
    by (auto simp: redis_live_def split: option.splits if_splits)
  with assms obtain n t where "parse_nat v = Some (Suc n)" "e = Some t"
    unfolding counters_ok_def by blast
  with Some ve show ?thesis
    by (simp add: rate_consume_def run_simps incr_expire_def window_count_def window_end_def Let_def)
qed

lemma counters_ok_consume:
  assumes "counters_ok w"
  shows "counters_ok (snd (rate_consume key limit window w))"
  using assms by (auto simp: rate_consume_run Let_def counters_ok_def)

text \<open>Events at the limiter: a request under a key, or time passing (milliseconds).\<close>

datatype limiter_event = Hit string | Pass nat

text \<open>Whether each request was allowed, in order, with its key.\<close>

fun limiter_run :: "int \<Rightarrow> int \<Rightarrow> limiter_event list \<Rightarrow> world \<Rightarrow> (string \<times> bool) list" where
  "limiter_run limit window [] w = []"
| "limiter_run limit window (Hit key # es) w = (case rate_consume key limit window w of
     (Inl _, w') \<Rightarrow> (key, False) # limiter_run limit window es w'
   | (Inr r, w') \<Rightarrow> (key, rl_allowed r) # limiter_run limit window es w')"
| "limiter_run limit window (Pass ms # es) w = limiter_run limit window es (w\<lparr>clock := clock w + int ms\<rparr>)"

definition elapsed :: "limiter_event list \<Rightarrow> nat" where
  "elapsed es = sum_list (map (\<lambda>e. case e of Pass ms \<Rightarrow> ms | Hit _ \<Rightarrow> 0) es)"

definition hits :: "string \<Rightarrow> limiter_event list \<Rightarrow> nat" where
  "hits key es = length (filter (\<lambda>e. e = Hit key) es)"

definition allowed :: "string \<Rightarrow> (string \<times> bool) list \<Rightarrow> nat" where
  "allowed key rs = length (filter (\<lambda>r. r = (key, True)) rs)"

lemma elapsed_simps [simp]: "elapsed [] = 0" "elapsed (Hit k # es) = elapsed es" "elapsed (Pass n # es) = n + elapsed es"
  by (simp_all add: elapsed_def)

lemma hits_simps [simp]: "hits key [] = 0" "hits key (Hit k # es) = (if k = key then Suc (hits key es) else hits key es)"
  "hits key (Pass n # es) = hits key es"
  by (simp_all add: hits_def)

lemma allowed_simps [simp]: "allowed key [] = 0"
  "allowed key ((k, b) # rs) = (if k = key \<and> b then Suc (allowed key rs) else allowed key rs)"
  by (auto simp: allowed_def)

text \<open>Inside one window of a key exactly the requests up to the limit are allowed.\<close>

lemma window_run:
  assumes "counters_ok w" and "window_end w key = Some e" and "clock w + int (elapsed es) < e"
  shows "int (allowed key (limiter_run limit window es w)) =
    min (int (hits key es)) (max 0 (limit - int (window_count w key)))"
  using assms
proof (induction es arbitrary: w)
  case Nil
  then show ?case by simp
next
  case (Cons ev es)
  show ?case
  proof (cases ev)
    case (Pass n)
    let ?w = "w\<lparr>clock := clock w + int n\<rparr>"
    have live: "redis_live ?w (limiter_key key) = redis_live w (limiter_key key)"
      using Cons.prems Pass by (auto simp: redis_live_def window_end_def split: option.splits if_splits)
    have "counters_ok ?w" using Cons.prems(1) by (simp add: counters_ok_def)
    moreover have "window_end ?w key = Some e" "window_count ?w key = window_count w key"
      using Cons.prems(2) by (simp_all add: window_end_def window_count_def live)
    ultimately show ?thesis
      using Cons.IH [of ?w] Cons.prems Pass by simp
  next
    case (Hit k)
    define w' where "w' = snd (rate_consume k limit window w)"
    have ok: "counters_ok w'" unfolding w'_def using Cons.prems(1) by (rule counters_ok_consume)
    have run: "rate_consume k limit window w =
        (Inr \<lparr>rl_allowed = (int (window_count w k + 1) \<le> limit),
           rl_remaining = (if int (window_count w k + 1) \<le> limit then limit - int (window_count w k + 1) else 0)\<rparr>, w')"
      by (simp add: w'_def rate_consume_run [OF Cons.prems(1)] Let_def)
    have clk: "clock w' = clock w" by (simp add: w'_def rate_consume_run [OF Cons.prems(1)] Let_def)
    show ?thesis
    proof (cases "k = key")
      case True
      have "window_end w' key = Some e" "window_count w' key = Suc (window_count w key)"
        using Cons.prems True
        by (simp_all add: w'_def rate_consume_run [OF Cons.prems(1)] Let_def window_end_def
            window_count_def redis_live_def)
      with Cons.IH [OF ok] Cons.prems clk Hit True run show ?thesis by auto
    next
      case False
      have "redis_live w' (limiter_key key) = redis_live w (limiter_key key)"
        using False clk by (auto simp: w'_def rate_consume_run [OF Cons.prems(1)] Let_def redis_live_def split: option.split)
      then have "window_end w' key = Some e" "window_count w' key = window_count w key"
        using Cons.prems(2) by (simp_all add: window_end_def window_count_def)
      with Cons.IH [OF ok] Cons.prems clk Hit False run show ?thesis by simp
    qed
  qed
qed

text \<open>
  C13: The limiter admits exactly the first \<open>limit\<close> requests of a key in a window: when no window
  of the key is open, whatever mixture of requests under any keys and of waiting follows within
  the window's length, the number of admitted requests of that key is the smaller of the limit
  and the number made.
\<close>

theorem limiter_admits_up_to_limit:
  assumes "counters_ok w" and "redis_live w (limiter_key key) = None" and "0 \<le> limit"
    and "int (elapsed es) < window * 1000"
  shows "int (allowed key (limiter_run limit window (Hit key # es) w)) =
    min (int (hits key (Hit key # es))) limit"
proof -
  define w' where "w' = snd (rate_consume key limit window w)"
  have c: "window_count w key = 0" "window_end w key = None"
    using assms(2) by (simp_all add: window_count_def window_end_def)
  have w'_eq: "w' = w\<lparr>redis := (redis w)(limiter_key key := Some (show_nat 1, Some (clock w + window * 1000)))\<rparr>"
    and run: "rate_consume key limit window w =
      (Inr \<lparr>rl_allowed = (1 \<le> limit), rl_remaining = (if 1 \<le> limit then limit - 1 else 0)\<rparr>, w')"
    by (simp_all add: w'_def rate_consume_run [OF assms(1)] Let_def c)
  have "redis_live w' (limiter_key key) = Some (show_nat 1, Some (clock w + window * 1000))"
    using assms(4) by (simp add: w'_eq redis_live_def)
  then have w': "window_end w' key = Some (clock w + window * 1000)" "window_count w' key = 1" "clock w' = clock w"
    by (simp_all add: window_end_def window_count_def w'_eq)
  have ok: "counters_ok w'" unfolding w'_def using assms(1) by (rule counters_ok_consume)
  from window_run [OF ok w'(1), of es limit window] w' assms(3,4) run show ?thesis by auto
qed

theorem limiter_admits_up_to_limit_witness:
  "int (allowed ''a'' (limiter_run 2 60 [Hit ''a'', Hit ''b'', Hit ''a'', Pass 10, Hit ''a''] (sample_world sample_db))) = 2"
  using limiter_admits_up_to_limit [of "sample_world sample_db" "''a''" 2 "[Hit ''b'', Hit ''a'', Pass 10, Hit ''a'']" 60]
  by (simp add: counters_ok_def redis_live_def)

end
