(* ===== verification/IdpEnv.thy ===== *)
theory IdpEnv
  imports Platform
begin

text \<open>
  The settings of apps/idp-server/src/config/env.ts the modelled services read, with their defaults
  (those of config/constants.ts and of the schema; required settings are empty here).
\<close>

record app_env =
  ACCESS_TOKEN_TTL_SECONDS :: int
  REFRESH_TOKEN_TTL_SECONDS :: int
  JWKS_ROTATION_INTERVAL_HOURS :: int
  JWKS_GRACE_PERIOD_HOURS :: int
  RETENTION_AUDIT_LOG_ANONYMIZE_DAYS :: int
  RETENTION_AUDIT_LOG_DELETE_DAYS :: int
  RETENTION_SECURITY_EVENT_ANONYMIZE_DAYS :: int
  RETENTION_SECURITY_EVENT_DELETE_DAYS :: int
  RETENTION_SESSION_ANONYMIZE_DAYS :: int
  RETENTION_SESSION_DELETE_DAYS :: int
  RETENTION_BATCH_CHUNK_SIZE :: nat
  ACCOUNT_DELETION_GRACE_DAYS :: int
  MFA_RECOVERY_CODE_PEPPER :: string
  MFA_RECOVERY_CODE_COUNT :: nat
  MFA_RECOVERY_CODE_LENGTH :: nat
  RATE_LIMIT_MFA_RECOVERY_PER_MIN :: int
  BOT_RISK_WINDOW_SECONDS :: int
  BOT_RISK_LOGIN_THRESHOLD_PER_WINDOW :: int
  BOT_RISK_MEDIUM_WATERMARK_PERCENT :: int
  ADAPTIVE_MFA_ENABLED :: bool
  ADAPTIVE_MFA_REQUIRE_FOR_MEDIUM :: bool
  ADAPTIVE_MFA_HIGH_RISK_IPS :: "string list"
  ADAPTIVE_MFA_IP_FAILURE_WINDOW_SECONDS :: int
  ADAPTIVE_MFA_IP_FAILURE_HIGH_THRESHOLD :: nat
  ADAPTIVE_MFA_IMPOSSIBLE_TRAVEL_WINDOW_MINUTES :: int
  GOOGLE_CLIENT_ID :: string
  OAUTH_CLIENT_ID :: string
  OAUTH_CLIENT_SECRET :: string
  NODE_ENV :: string
  JWT_PRIVATE_KEY :: string
  METRICS_ENABLED :: bool
  METRICS_BEARER_TOKEN :: string
  ADMIN_SOD_ENFORCED :: bool
  TURNSTILE_ENABLED :: bool
  TURNSTILE_SECRET_KEY :: string
  TURNSTILE_SITE_KEY :: string

definition APP_CONSTANTS :: app_env where
  "APP_CONSTANTS = \<lparr>
     ACCESS_TOKEN_TTL_SECONDS = 900,
     REFRESH_TOKEN_TTL_SECONDS = 2592000,
     JWKS_ROTATION_INTERVAL_HOURS = 720,
     JWKS_GRACE_PERIOD_HOURS = 72,
     RETENTION_AUDIT_LOG_ANONYMIZE_DAYS = 365,
     RETENTION_AUDIT_LOG_DELETE_DAYS = 2555,
     RETENTION_SECURITY_EVENT_ANONYMIZE_DAYS = 90,
     RETENTION_SECURITY_EVENT_DELETE_DAYS = 365,
     RETENTION_SESSION_ANONYMIZE_DAYS = 30,
     RETENTION_SESSION_DELETE_DAYS = 90,
     RETENTION_BATCH_CHUNK_SIZE = 500,
     ACCOUNT_DELETION_GRACE_DAYS = 30,
     MFA_RECOVERY_CODE_PEPPER = ''dev-mfa-recovery-pepper'',
     MFA_RECOVERY_CODE_COUNT = 10,
     MFA_RECOVERY_CODE_LENGTH = 20,
     RATE_LIMIT_MFA_RECOVERY_PER_MIN = 5,
     BOT_RISK_WINDOW_SECONDS = 600,
     BOT_RISK_LOGIN_THRESHOLD_PER_WINDOW = 20,
     BOT_RISK_MEDIUM_WATERMARK_PERCENT = 20,
     ADAPTIVE_MFA_ENABLED = False,
     ADAPTIVE_MFA_REQUIRE_FOR_MEDIUM = True,
     ADAPTIVE_MFA_HIGH_RISK_IPS = [],
     ADAPTIVE_MFA_IP_FAILURE_WINDOW_SECONDS = 900,
     ADAPTIVE_MFA_IP_FAILURE_HIGH_THRESHOLD = 20,
     ADAPTIVE_MFA_IMPOSSIBLE_TRAVEL_WINDOW_MINUTES = 30,
     GOOGLE_CLIENT_ID = [],
     OAUTH_CLIENT_ID = ''local-client'',
     OAUTH_CLIENT_SECRET = ''local-client-secret'',
     NODE_ENV = ''development'',
     JWT_PRIVATE_KEY = [],
     METRICS_ENABLED = True,
     METRICS_BEARER_TOKEN = [],
     ADMIN_SOD_ENFORCED = False,
     TURNSTILE_ENABLED = False,
     TURNSTILE_SECRET_KEY = [],
     TURNSTILE_SITE_KEY = []\<rparr>"

end
