(* ===== verification/Mfa.thy ===== *)
theory Mfa
  imports IdpEnv AuditTrail AuthCoreAccounts
begin

text \<open>
  apps/idp-server/src/modules/mfa: TOTP factors (mfa.repository.ts, mfa.service.ts) and recovery
  codes (mfa-recovery.repository.ts, mfa-recovery.service.ts).

  A recovery code is drawn byte by byte with rejection; \<open>fuel\<close> bounds the bytes drawn for one
  code, and \<open>generatePlainCode_ok\<close> shows which fuel is enough.
\<close>

section \<open>Factors\<close>

definition MfaRepository_findActiveFactorsByUserId :: "database \<Rightarrow> uuid \<Rightarrow> factor_row list" where
  "MfaRepository_findActiveFactorsByUserId d userId =
     take 20 (filter (\<lambda>f. mf_userId f = userId \<and> mf_enabled f) (mfaFactors d))"

definition MfaRepository_findByFactorId :: "database \<Rightarrow> uuid \<Rightarrow> factor_row option" where
  "MfaRepository_findByFactorId d factorId = List.find (\<lambda>f. mf_id f = factorId) (mfaFactors d)"

definition MfaRepository_create :: "uuid \<Rightarrow> uuid \<Rightarrow> string \<Rightarrow> string \<Rightarrow> unit io" where
  "MfaRepository_create userId factorId secret type = bind now (\<lambda>t.
     insert_factor \<lparr>mf_id = factorId, mf_userId = userId, mf_type = type, mf_name = None,
       mf_secret = Some secret, mf_webauthnData = None, mf_enabled = True, mf_createdAt = t\<rparr>)"

definition hasEnabledMfa :: "database \<Rightarrow> uuid \<Rightarrow> bool" where
  "hasEnabledMfa d userId \<longleftrightarrow> MfaRepository_findActiveFactorsByUserId d userId \<noteq> []"

definition MfaService_enrollMfa :: "uuid \<Rightarrow> (uuid \<times> string) io" where
  "MfaService_enrollMfa userId =
     bind draw_text (\<lambda>secret. bind draw_uuid (\<lambda>factorId.
     bind (MfaRepository_create userId factorId secret ''totp'') (\<lambda>_. ret (factorId, secret))))"

section \<open>Recovery-code rows\<close>

definition active_code :: "recovery_row \<Rightarrow> bool" where
  "active_code r \<longleftrightarrow> rc_usedAt r = None \<and> rc_revokedAt r = None"

definition insert_recovery :: "recovery_row \<Rightarrow> unit io" where
  "insert_recovery r = insert_row mfaRecoveryCodes mfaRecoveryCodes_update uniq_recovery
     (\<lambda>d r. user_exists d (rc_userId r)) r"

definition revokeActiveByUserId :: "uuid \<Rightarrow> unit io" where
  "revokeActiveByUserId userId = bind now (\<lambda>t. update_rows mfaRecoveryCodes_update
     (\<lambda>r. rc_userId r = userId \<and> active_code r) (\<lambda>r. r\<lparr>rc_revokedAt := Some t\<rparr>))"

record code_record =
  cr_lookupHash :: string
  cr_codeHash :: string
  cr_lastChars :: string

definition createBatch :: "uuid \<Rightarrow> uuid \<Rightarrow> code_record list \<Rightarrow> unit io" where
  "createBatch userId batchId codes = transaction (
     bind (revokeActiveByUserId userId) (\<lambda>_.
     for_each codes (\<lambda>code. bind draw_uuid (\<lambda>i. bind now (\<lambda>t.
       insert_recovery \<lparr>rc_id = i, rc_userId = userId, rc_batchId = batchId,
         rc_lookupHash = cr_lookupHash code, rc_codeHash = cr_codeHash code,
         rc_lastChars = cr_lastChars code, rc_usedAt = None, rc_revokedAt = None,
         rc_createdAt = t\<rparr>)))))"

definition findActiveByLookupHash :: "database \<Rightarrow> string \<Rightarrow> recovery_row option" where
  "findActiveByLookupHash d lookupHash =
     List.find (\<lambda>r. rc_lookupHash r = lookupHash \<and> active_code r) (mfaRecoveryCodes d)"

text \<open>The answer is whether a row was updated.\<close>

definition markUsed :: "uuid \<Rightarrow> bool io" where
  "markUsed codeId = bind now (\<lambda>t.
     bind (read_db (\<lambda>d. filter (\<lambda>r. rc_id r = codeId \<and> active_code r) (mfaRecoveryCodes d))) (\<lambda>updated.
     bind (update_rows mfaRecoveryCodes_update (\<lambda>r. rc_id r = codeId \<and> active_code r)
            (\<lambda>r. r\<lparr>rc_usedAt := Some t\<rparr>)) (\<lambda>_. ret (updated \<noteq> []))))"

definition countActiveByUserId :: "database \<Rightarrow> uuid \<Rightarrow> nat" where
  "countActiveByUserId d userId =
     length (filter (\<lambda>r. rc_userId r = userId \<and> active_code r) (mfaRecoveryCodes d))"

section \<open>Codes\<close>

definition recoveryAlphabet :: string where
  "recoveryAlphabet = ''ABCDEFGHJKLMNPQRSTUVWXYZ23456789''"

definition normalizeCode :: "string \<Rightarrow> string" where
  "normalizeCode code = to_upper (filter (\<lambda>c. \<not> js_space c \<and> c \<noteq> CHR ''-'') code)"

definition lookupHash :: "libs \<Rightarrow> app_env \<Rightarrow> string \<Rightarrow> string" where
  "lookupHash L env code = hmac_sha256 L (MFA_RECOVERY_CODE_PEPPER env) (normalizeCode code)"

text \<open>\<open>raw.match(/.{1,5}/g)\<close>.\<close>

fun groups_of_five :: "string \<Rightarrow> string list" where
  "groups_of_five (a # b # c # d # e # f # cs) = [a, b, c, d, e] # groups_of_five (f # cs)"
| "groups_of_five [] = []"
| "groups_of_five cs = [cs]"

definition format_code :: "string \<Rightarrow> string" where
  "format_code raw = (case groups_of_five raw of [] \<Rightarrow> raw | gs \<Rightarrow> js_join ''-'' gs)"

definition accepted_byte :: "nat \<Rightarrow> bool" where
  "accepted_byte byte \<longleftrightarrow> byte < length recoveryAlphabet * 7"

definition byte_letter :: "nat \<Rightarrow> char" where
  "byte_letter byte = recoveryAlphabet ! (byte mod length recoveryAlphabet)"

text \<open>The loop \<open>while (raw.length < length)\<close>, one byte per unit of fuel.\<close>

fun draw_letters :: "nat \<Rightarrow> nat \<Rightarrow> string \<Rightarrow> string io" where
  "draw_letters fuel len raw =
     (if len \<le> length raw then ret raw
      else case fuel of
        0 \<Rightarrow> throw (PlainError ''out of fuel'')
      | Suc fuel \<Rightarrow> bind draw_byte (\<lambda>byte.
          if \<not> accepted_byte byte then draw_letters fuel len raw
          else draw_letters fuel len (raw @ [byte_letter byte])))"

declare draw_letters.simps [simp del]

definition generatePlainCode :: "nat \<Rightarrow> app_env \<Rightarrow> string io" where
  "generatePlainCode fuel env =
     bind (draw_letters fuel (MFA_RECOVERY_CODE_LENGTH env) []) (\<lambda>raw. ret (format_code raw))"

definition last_chars :: "string \<Rightarrow> string" where
  "last_chars s = drop (length s - 8) s"

definition code_record_of :: "libs \<Rightarrow> app_env \<Rightarrow> string \<Rightarrow> code_record io" where
  "code_record_of L env code =
     bind draw_text (\<lambda>salt. ret \<lparr>cr_lookupHash = lookupHash L env code,
       cr_codeHash = argon2_hash L argon2_defaults (normalizeCode code) salt,
       cr_lastChars = last_chars (normalizeCode code)\<rparr>)"

definition jnat :: "nat \<Rightarrow> json" where "jnat n = JNum (int n)"

section \<open>The recovery service\<close>

definition generateCodes :: "nat \<Rightarrow> libs \<Rightarrow> app_env \<Rightarrow> uuid \<Rightarrow> string \<Rightarrow> (uuid \<times> string list) io" where
  "generateCodes fuel L env userId reason =
     bind draw_uuid (\<lambda>batchId.
     bind (map_each [0..<MFA_RECOVERY_CODE_COUNT env] (\<lambda>_. generatePlainCode fuel env)) (\<lambda>plainCodes.
     bind (map_each plainCodes (code_record_of L env)) (\<lambda>records.
     bind (createBatch userId batchId records) (\<lambda>_.
     let payload = JObj [(''batchId'', juuid batchId), (''count'', jnat (length records)),
                         (''reason'', JStr reason)] in
     bind (createAuditLog L (Some userId) ''mfa.recovery_codes.generated'' ''user''
             (Some (uuid_text userId)) payload) (\<lambda>_.
     bind (createSecurityEvent ''mfa.recovery_codes.generated'' (Some userId) payload) (\<lambda>_.
     ret (batchId, plainCodes)))))))"

text \<open>No codes are returned when the user still has active ones.\<close>

definition generateCodesIfMissing :: "nat \<Rightarrow> libs \<Rightarrow> app_env \<Rightarrow> uuid \<Rightarrow> string list io" where
  "generateCodesIfMissing fuel L env userId =
     bind (read_db (\<lambda>d. countActiveByUserId d userId)) (\<lambda>count.
     if 0 < count then ret []
     else bind (generateCodes fuel L env userId ''initial_mfa_setup'') (\<lambda>(batchId, codes). ret codes))"

definition regenerateCodes :: "nat \<Rightarrow> libs \<Rightarrow> app_env \<Rightarrow> uuid \<Rightarrow> (uuid \<times> string list) io" where
  "regenerateCodes fuel L env userId =
     bind (createSecurityEvent ''mfa.recovery_codes.revoked'' (Some userId)
             (JObj [(''reason'', JStr ''regenerated'')])) (\<lambda>_.
     generateCodes fuel L env userId ''regenerated'')"

definition invalid_recovery_code :: err where
  "invalid_recovery_code = ApiError 401 ''invalid_mfa_recovery_code'' ''Invalid MFA recovery code''"

definition consumeCode :: "libs \<Rightarrow> app_env \<Rightarrow> uuid \<Rightarrow> string \<Rightarrow> nat io" where
  "consumeCode L env userId code =
     (let normalizedCode = normalizeCode code in
     bind (read_db (\<lambda>d. findActiveByLookupHash d (lookupHash L env normalizedCode))) (\<lambda>record.
     case record of
       None \<Rightarrow> throw invalid_recovery_code
     | Some r \<Rightarrow>
         bind (if rc_userId r = userId then verify_hash L (rc_codeHash r) normalizedCode else ret False) (\<lambda>isValid.
         if \<not> isValid then throw invalid_recovery_code
         else
         bind (markUsed (rc_id r)) (\<lambda>used.
         if \<not> used then throw invalid_recovery_code
         else
         bind (read_db (\<lambda>d. countActiveByUserId d userId)) (\<lambda>remainingCount.
         let payload = JObj [(''remainingCount'', jnat remainingCount)] in
         bind (createAuditLog L (Some userId) ''mfa.recovery_code.used'' ''user''
                 (Some (uuid_text userId)) payload) (\<lambda>_.
         bind (createSecurityEvent ''mfa.recovery_code.used'' (Some userId) payload) (\<lambda>_.
         bind (whenever (remainingCount \<le> 2)
                 (createSecurityEvent ''mfa.recovery_codes.low'' (Some userId) payload)) (\<lambda>_.
         ret remainingCount))))))))"

section \<open>Verification\<close>

definition invalid_mfa :: "string \<Rightarrow> err" where
  "invalid_mfa message = ApiError 401 ''invalid_mfa'' message"

text \<open>The answer is the list of recovery codes to show, empty when none were issued.\<close>

definition MfaService_verifyMfa :: "nat \<Rightarrow> libs \<Rightarrow> app_env \<Rightarrow> uuid \<Rightarrow> uuid \<Rightarrow> string \<Rightarrow> bool \<Rightarrow> string list io" where
  "MfaService_verifyMfa fuel L env userId factorId code issueRecoveryCodes =
     bind (read_db (\<lambda>d. MfaRepository_findByFactorId d factorId)) (\<lambda>factor.
     case factor of
       None \<Rightarrow> throw (invalid_mfa ''Invalid MFA factor'')
     | Some f \<Rightarrow>
         if mf_userId f \<noteq> userId then throw (invalid_mfa ''Invalid MFA factor'')
         else if mf_type f \<noteq> ''totp'' \<or> \<not> truthy (mf_secret f) then
           throw (invalid_mfa ''Invalid MFA factor for TOTP verification'')
         else bind now (\<lambda>t.
         if \<not> totp_check L code (the (mf_secret f)) t then throw (invalid_mfa ''Invalid MFA code'')
         else if issueRecoveryCodes then generateCodesIfMissing fuel L env userId
         else ret []))"

end
