(* ===== verification/ConfigService.thy ===== *)
theory ConfigService
  imports Samples
begin

text \<open>
  packages/auth-core/src/config-service.ts: the settings stored as JSON in \<open>system_configs\<close>, read
  with a default and written by upsert. The stored value is used unchecked, so the readers decode
  it the way JavaScript reads the properties of whatever is there.
\<close>

record social_config =
  sg_providerEnabled :: bool
  sg_clientId :: string
  sg_clientSecret :: string

record notification_config =
  no_recipients :: "string list"
  no_alertLevels :: "string list"

record email_template_config =
  et_subject :: string
  et_body :: string

definition DEFAULT_SOCIAL_LOGIN_CONFIG :: social_config where
  "DEFAULT_SOCIAL_LOGIN_CONFIG = \<lparr>sg_providerEnabled = True, sg_clientId = [], sg_clientSecret = []\<rparr>"

definition DEFAULT_NOTIFICATION_CONFIG :: notification_config where
  "DEFAULT_NOTIFICATION_CONFIG = \<lparr>no_recipients = [], no_alertLevels = [''Critical'']\<rparr>"

definition DEFAULT_EMAIL_TEMPLATE_CONFIG :: email_template_config where
  "DEFAULT_EMAIL_TEMPLATE_CONFIG = \<lparr>et_subject = [], et_body = []\<rparr>"

definition EMAIL_TEMPLATE_CONFIG_PREFIX :: string where
  "EMAIL_TEMPLATE_CONFIG_PREFIX = ''email_templates.''"

text \<open>INSERT ... ON CONFLICT (key) DO UPDATE.\<close>

definition upsertConfig :: "string \<Rightarrow> json \<Rightarrow> unit io" where
  "upsertConfig key value = bind now (\<lambda>t. write_db (systemConfigs_update (\<lambda>rs.
     if list_ex (\<lambda>r. sc_key r = key) rs
     then update_where (\<lambda>r. sc_key r = key) (\<lambda>r. r\<lparr>sc_value := value, sc_updatedAt := t\<rparr>) rs
     else rs @ [\<lparr>sc_key = key, sc_value = value, sc_updatedAt = t\<rparr>])))"

definition getConfig :: "(json \<Rightarrow> 'a) \<Rightarrow> database \<Rightarrow> string \<Rightarrow> 'a \<Rightarrow> 'a" where
  "getConfig decode d key fallback =
     (case List.find (\<lambda>r. sc_key r = key) (systemConfigs d) of
        None \<Rightarrow> fallback | Some r \<Rightarrow> decode (sc_value r))"

fun js_truthy :: "json option \<Rightarrow> bool" where
  "js_truthy None = False"
| "js_truthy (Some JNull) = False"
| "js_truthy (Some (JBool b)) = b"
| "js_truthy (Some (JNum n)) = (n \<noteq> 0)"
| "js_truthy (Some (JStr s)) = (s \<noteq> [])"
| "js_truthy (Some (JArr xs)) = True"
| "js_truthy (Some (JObj fs)) = True"

fun json_text :: "json option \<Rightarrow> string" where
  "json_text (Some (JStr s)) = s"
| "json_text _ = []"

fun json_texts :: "json option \<Rightarrow> string list" where
  "json_texts (Some (JArr xs)) = map (\<lambda>x. json_text (Some x)) xs"
| "json_texts _ = []"

definition social_of_json :: "json \<Rightarrow> social_config" where
  "social_of_json v = \<lparr>sg_providerEnabled = js_truthy (json_prop v ''providerEnabled''),
     sg_clientId = json_text (json_prop v ''clientId''),
     sg_clientSecret = json_text (json_prop v ''clientSecret'')\<rparr>"

definition social_to_json :: "social_config \<Rightarrow> json" where
  "social_to_json c = JObj [(''providerEnabled'', JBool (sg_providerEnabled c)),
     (''clientId'', JStr (sg_clientId c)), (''clientSecret'', JStr (sg_clientSecret c))]"

definition notification_of_json :: "json \<Rightarrow> notification_config" where
  "notification_of_json v = \<lparr>no_recipients = json_texts (json_prop v ''notificationRecipients''),
     no_alertLevels = json_texts (json_prop v ''alertLevels'')\<rparr>"

definition notification_to_json :: "notification_config \<Rightarrow> json" where
  "notification_to_json c = JObj [(''notificationRecipients'', JArr (map JStr (no_recipients c))),
     (''alertLevels'', JArr (map JStr (no_alertLevels c)))]"

definition template_of_json :: "json \<Rightarrow> email_template_config" where
  "template_of_json v = \<lparr>et_subject = json_text (json_prop v ''subject''),
     et_body = json_text (json_prop v ''body'')\<rparr>"

definition template_to_json :: "email_template_config \<Rightarrow> json" where
  "template_to_json c = JObj [(''subject'', JStr (et_subject c)), (''body'', JStr (et_body c))]"

definition getSocialLoginConfig :: "database \<Rightarrow> string \<Rightarrow> social_config" where
  "getSocialLoginConfig d provider =
     getConfig social_of_json d (''social_login.'' @ provider) DEFAULT_SOCIAL_LOGIN_CONFIG"

definition updateSocialLoginConfig :: "string \<Rightarrow> social_config \<Rightarrow> unit io" where
  "updateSocialLoginConfig provider value = upsertConfig (''social_login.'' @ provider) (social_to_json value)"

definition getNotificationConfig :: "database \<Rightarrow> notification_config" where
  "getNotificationConfig d = getConfig notification_of_json d ''notifications'' DEFAULT_NOTIFICATION_CONFIG"

definition updateNotificationConfig :: "notification_config \<Rightarrow> unit io" where
  "updateNotificationConfig value = upsertConfig ''notifications'' (notification_to_json value)"

definition getEmailTemplateConfig :: "database \<Rightarrow> string \<Rightarrow> email_template_config" where
  "getEmailTemplateConfig d templateKey =
     getConfig template_of_json d (EMAIL_TEMPLATE_CONFIG_PREFIX @ templateKey) DEFAULT_EMAIL_TEMPLATE_CONFIG"

definition updateEmailTemplateConfig :: "string \<Rightarrow> email_template_config \<Rightarrow> unit io" where
  "updateEmailTemplateConfig templateKey value =
     upsertConfig (EMAIL_TEMPLATE_CONFIG_PREFIX @ templateKey) (template_to_json value)"

section \<open>A key-value store\<close>

text \<open>
  The interface the readers and writers have in common: a typed slot that reads back what was
  last written to it and ignores writes to other keys.
\<close>

locale config_slot =
  fixes fetch :: "database \<Rightarrow> string \<Rightarrow> 'v" and store :: "string \<Rightarrow> 'v \<Rightarrow> unit io"
  assumes fetch_store: "fst (store k v w) = Inr () \<and> fetch (db (snd (store k v w))) k = v"
    and fetch_other: "k \<noteq> k' \<Longrightarrow> fetch (db (snd (store k v w))) k' = fetch (db w) k'"
begin

text \<open>The last write to a key wins, whatever other keys are written after it.\<close>

lemma last_write_wins:
  assumes "\<forall>(k', v') \<in> set ws. k' \<noteq> k"
  shows "fetch (db (snd (for_each ws (\<lambda>(k', v'). store k' v') (snd (store k v w))))) k = v"
proof -
  have "fetch (db (snd (for_each ws (\<lambda>(k', v'). store k' v') u))) k = fetch (db u) k" for u
    using assms
  proof (induction ws arbitrary: u)
    case (Cons kv ws)
    obtain k' v' where kv: "kv = (k', v')" by (cases kv)
    obtain u' where u': "store k' v' u = (Inr (), u')"
      using fetch_store [of k' v' u] by (metis prod.collapse)
    have "fetch (db u') k = fetch (db u) k" using fetch_other [of k' k v' u] Cons.prems kv u' by auto
    with Cons u' kv show ?case by (simp add: bind_run)
  qed (simp add: ret_run)
  then show ?thesis using fetch_store by metis
qed

end

lemma find_upsert:
  "List.find (\<lambda>r. sc_key r = k') (systemConfigs (db (snd (upsertConfig k v w)))) =
    (if k' = k then Some (case List.find (\<lambda>r. sc_key r = k) (systemConfigs (db w)) of
        None \<Rightarrow> \<lparr>sc_key = k, sc_value = v, sc_updatedAt = clock w\<rparr>
      | Some r \<Rightarrow> r\<lparr>sc_value := v, sc_updatedAt := clock w\<rparr>)
     else List.find (\<lambda>r. sc_key r = k') (systemConfigs (db w)))"
proof -
  have upd: "List.find (\<lambda>r. sc_key r = k') (update_where (\<lambda>r. sc_key r = k) (\<lambda>r. r\<lparr>sc_value := v, sc_updatedAt := t\<rparr>) rs) =
    (if k' = k then map_option (\<lambda>r. r\<lparr>sc_value := v, sc_updatedAt := t\<rparr>) (List.find (\<lambda>r. sc_key r = k) rs)
     else List.find (\<lambda>r. sc_key r = k') rs)" for rs t k'
    by (induction rs) auto
  have ex: "list_ex p rs \<longleftrightarrow> List.find p rs \<noteq> None" for p :: "config_row \<Rightarrow> bool" and rs
    by (induction rs) auto
  show ?thesis
    by (auto simp: upsertConfig_def run_simps upd ex find_append split: option.split)
qed

lemma upsert_returns: "fst (upsertConfig k v w) = Inr ()"
  by (simp add: upsertConfig_def run_simps)

lemma getConfig_upsert:
  assumes "\<And>v. decode (encode v) = v"
  shows "getConfig decode (db (snd (upsertConfig k (encode v) w))) k' fallback =
    (if k' = k then v else getConfig decode (db w) k' fallback)"
  by (auto simp: getConfig_def find_upsert assms split: option.split)

lemma social_roundtrip [simp]: "social_of_json (social_to_json c) = c"
  by (simp add: social_of_json_def social_to_json_def)

lemma notification_roundtrip [simp]: "notification_of_json (notification_to_json c) = c"
  by (simp add: notification_of_json_def notification_to_json_def comp_def)

lemma template_roundtrip [simp]: "template_of_json (template_to_json c) = c"
  by (simp add: template_of_json_def template_to_json_def)

interpretation social_slot: config_slot getSocialLoginConfig updateSocialLoginConfig
  by unfold_locales
    (simp_all add: getSocialLoginConfig_def updateSocialLoginConfig_def getConfig_upsert upsert_returns)

interpretation template_slot: config_slot getEmailTemplateConfig updateEmailTemplateConfig
  by unfold_locales
    (simp_all add: getEmailTemplateConfig_def updateEmailTemplateConfig_def getConfig_upsert upsert_returns)

text \<open>
  Settings read back as written: after an update of the social login, notification or template
  settings the reader returns exactly what was stored, and a later update of another template
  does not disturb it.
\<close>

theorem config_reads_back:
  "getSocialLoginConfig (db (snd (updateSocialLoginConfig p c w))) p = c \<and>
   getNotificationConfig (db (snd (updateNotificationConfig n w))) = n \<and>
   (\<forall>ws. (\<forall>(k', v') \<in> set ws. k' \<noteq> k) \<longrightarrow>
     getEmailTemplateConfig (db (snd (for_each ws (\<lambda>(k', v'). updateEmailTemplateConfig k' v')
       (snd (updateEmailTemplateConfig k v w))))) k = v)"
  using social_slot.fetch_store template_slot.last_write_wins
  by (simp add: getNotificationConfig_def updateNotificationConfig_def getConfig_upsert)

theorem config_reads_back_witness:
  "getEmailTemplateConfig (db (snd (for_each [(''b'', DEFAULT_EMAIL_TEMPLATE_CONFIG)]
     (\<lambda>(k', v'). updateEmailTemplateConfig k' v')
     (snd (updateEmailTemplateConfig ''a'' \<lparr>et_subject = ''s'', et_body = ''t''\<rparr> (sample_world sample_db)))))) ''a'' =
   \<lparr>et_subject = ''s'', et_body = ''t''\<rparr>"
proof -
  let ?ws = "[(''b'', DEFAULT_EMAIL_TEMPLATE_CONFIG)]"
  have "(\<forall>(k', v') \<in> set ?ws. k' \<noteq> ''a'')" by simp
  with config_reads_back [of "[]" DEFAULT_SOCIAL_LOGIN_CONFIG "sample_world sample_db"
      DEFAULT_NOTIFICATION_CONFIG "''a''" "\<lparr>et_subject = ''s'', et_body = ''t''\<rparr>"]
  show ?thesis by blast
qed

end
