(* ===== verification/Rbac.thy ===== *)
theory Rbac
  imports AuthCoreAuthorization
begin

text \<open>
  apps/idp-server/src/modules/rbac: the queries of rbac.repository.ts and the part of
  rbac.service.ts that works on them without the cache (snapshot, effective permissions, admin
  overview). The rows a group entitlement is joined to and the filters are those of the auth-core
  service, whose helper queries are shared.
\<close>

section \<open>Repository\<close>

definition RBACRepository_listPermissionKeys :: "database \<Rightarrow> uuid \<Rightarrow> auth_context \<Rightarrow> string list" where
  "RBACRepository_listPermissionKeys d userId cx = js_uniq (direct_keys d userId @ group_keys d cx userId)"

definition rows_of_organization :: "database \<Rightarrow> time \<Rightarrow> uuid \<Rightarrow> string \<Rightarrow> entitlement_row list" where
  "rows_of_organization d t orgId key = order_desc en_createdAt
     (filter (\<lambda>e. active_for_key t key e \<and> en_organizationId e = Some orgId) (entitlements d))"

definition findEntitlement :: "database \<Rightarrow> time \<Rightarrow> uuid \<Rightarrow> string \<Rightarrow> auth_context \<Rightarrow> (entitlement_row \<times> scope) option" where
  "findEntitlement d t userId key cx =
     (case first_row (user_entitlements d t userId key) of
        Some r \<Rightarrow> Some (r, ScopeUser)
      | None \<Rightarrow>
     (case first_row (group_entitlements d t cx userId key) of
        Some r \<Rightarrow> Some (r, ScopeGroup)
      | None \<Rightarrow>
     (case cx_organizationId cx of
        None \<Rightarrow> None
      | Some orgId \<Rightarrow>
         if member_groups d \<lparr>cx_organizationId = Some orgId, cx_groupId = None\<rparr> userId = [] then None
         else (case first_row (rows_of_organization d t orgId key) of
             Some r \<Rightarrow> Some (r, ScopeOrganization)
           | None \<Rightarrow> None))))"

definition listAllActiveEntitlementKeys :: "database \<Rightarrow> time \<Rightarrow> string list" where
  "listAllActiveEntitlementKeys d t =
     js_uniq (map en_key (filter (\<lambda>e. en_enabled e \<and> isEntitlementActive t (en_expiresAt e)) (entitlements d)))"

text \<open>JavaScript's default order of strings, by code units, and its stable sort.\<close>

fun str_le :: "string \<Rightarrow> string \<Rightarrow> bool" where
  "str_le [] t = True"
| "str_le (c # s) [] = False"
| "str_le (c # s) (e # t) = ((of_char c :: nat) < of_char e \<or> (c = e \<and> str_le s t))"

fun insert_string :: "string \<Rightarrow> string list \<Rightarrow> string list" where
  "insert_string s [] = [s]"
| "insert_string s (t # ts) = (if str_le s t then s # t # ts else t # insert_string s ts)"

definition sort_strings :: "string list \<Rightarrow> string list" where
  "sort_strings xs = foldr insert_string xs []"

record admin_row =
  ad_userId :: uuid
  ad_email :: "string option"
  ad_roles :: "string list"
  ad_permissions :: "string list"

text \<open>The joined rows: a role assignment, the role, a permission of it and the primary address.\<close>

definition permission_rows :: "database \<Rightarrow> string \<Rightarrow> nat \<Rightarrow> (uuid \<times> string \<times> string \<times> string option) list" where
  "permission_rows d permissionPrefix limit = take (limit * 10)
     [(ur_userId ur, ro_key ro, pe_key p, map_option em_email e).
      ur \<leftarrow> userRoles d, ro \<leftarrow> roles d, ro_id ro = ur_roleId ur,
      rp \<leftarrow> rolePermissions d, rp_roleId rp = ro_id ro,
      p \<leftarrow> permissions d, pe_id p = rp_permissionId rp,
      starts_with (pe_key p) permissionPrefix \<or> pe_key p = ''admin:all'',
      e \<leftarrow> (let es = filter (\<lambda>e. em_userId e = ur_userId ur \<and> em_isPrimary e) (userEmails d)
           in if es = [] then [None] else map Some es)]"

definition add_once :: "'a \<Rightarrow> 'a list \<Rightarrow> 'a list" where
  "add_once x xs = (if x \<in> set xs then xs else xs @ [x])"

text \<open>One step of the loop that gathers the rows per user, in order of first appearance.\<close>

fun gather_row :: "uuid \<times> string \<times> string \<times> string option \<Rightarrow> admin_row list \<Rightarrow> admin_row list" where
  "gather_row (u, ro, p, e) [] = [\<lparr>ad_userId = u, ad_email = e, ad_roles = [ro], ad_permissions = [p]\<rparr>]"
| "gather_row (u, ro, p, e) (a # as) =
     (if ad_userId a = u
      then a\<lparr>ad_email := (if truthy (ad_email a) then ad_email a else if truthy e then e else ad_email a),
             ad_roles := add_once ro (ad_roles a), ad_permissions := add_once p (ad_permissions a)\<rparr> # as
      else a # gather_row (u, ro, p, e) as)"

definition listUsersWithPermissionPrefix :: "database \<Rightarrow> string \<Rightarrow> nat \<Rightarrow> admin_row list" where
  "listUsersWithPermissionPrefix d permissionPrefix limit =
     map (\<lambda>a. a\<lparr>ad_roles := sort_strings (ad_roles a), ad_permissions := sort_strings (ad_permissions a)\<rparr>)
       (take limit (fold gather_row (permission_rows d permissionPrefix limit) []))"

section \<open>Service\<close>

definition RBACService_getAuthorizationSnapshot :: "database \<Rightarrow> time \<Rightarrow> uuid \<Rightarrow> auth_context \<Rightarrow> snapshot" where
  "RBACService_getAuthorizationSnapshot d t userId cx =
     \<lparr>sn_permissions = RBACRepository_listPermissionKeys d userId cx,
      sn_entitlements = [(key, normalizeEntitlementValue (en_value r)).
        key \<leftarrow> listAllActiveEntitlementKeys d t,
        (r, s) \<leftarrow> (case findEntitlement d t userId key cx of None \<Rightarrow> [] | Some rs \<Rightarrow> [rs])]\<rparr>"

definition getEffectivePermissions :: "database \<Rightarrow> uuid \<Rightarrow> auth_context \<Rightarrow> string list" where
  "getEffectivePermissions d userId cx = sort_strings (js_uniq (RBACRepository_listPermissionKeys d userId cx))"

definition getAdminAccessSnapshot :: "database \<Rightarrow> nat \<Rightarrow> admin_row list" where
  "getAdminAccessSnapshot d limit = listUsersWithPermissionPrefix d ''admin.'' limit"

section \<open>Agreement with the auth-core service\<close>

lemma first_active:
  assumes "\<And>r. r \<in> set rs \<Longrightarrow> isEntitlementActive t (en_expiresAt r)"
  shows "newest_active t (order_desc k rs) = first_row (order_desc k rs)"
proof (cases "first_row (order_desc k rs)")
  case (Some r)
  with first_order_desc [OF Some] assms show ?thesis by (simp add: newest_active_def)
qed (simp add: newest_active_def order_desc_def)

text \<open>Every organisation an entitlement names exists, once.\<close>

definition organizations_ok :: "database \<Rightarrow> bool" where
  "organizations_ok d \<longleftrightarrow> distinct (map og_id (organizations d)) \<and>
     (\<forall>e \<in> set (entitlements d). \<forall>i. en_organizationId e = Some i \<longrightarrow> i \<in> og_id ` set (organizations d))"

lemma organization_join:
  "distinct (map og_id os) \<Longrightarrow>
   concat (map (\<lambda>o'. if en_organizationId e = Some (og_id o') then if og_id o' = i then [e] else [] else []) os) =
   (if en_organizationId e = Some i \<and> i \<in> og_id ` set os then [e] else [])"
  by (induction os) auto

lemma organization_rows:
  assumes "distinct (map og_id os)"
    and "\<And>e. e \<in> set es \<Longrightarrow> en_organizationId e = Some i \<Longrightarrow> i \<in> og_id ` set os"
  shows "[e. e \<leftarrow> es, q e, o' \<leftarrow> os, en_organizationId e = Some (og_id o'), og_id o' = i] =
      filter (\<lambda>e. q e \<and> en_organizationId e = Some i) es"
proof -
  have "concat (map (\<lambda>e. if q e then if en_organizationId e = Some i \<and> i \<in> og_id ` set os then [e] else [] else []) es) =
      filter (\<lambda>e. q e \<and> en_organizationId e = Some i) es"
    using assms(2) by (induction es) auto
  then show ?thesis unfolding organization_join [OF assms(1)] .
qed

lemma organization_rows_agree:
  assumes "organizations_ok d"
  shows "organization_entitlements d t i key = rows_of_organization d t i key"
proof -
  have "[e. e \<leftarrow> entitlements d, active_for_key t key e, o' \<leftarrow> organizations d,
          en_organizationId e = Some (og_id o'), og_id o' = i] =
      filter (\<lambda>e. active_for_key t key e \<and> en_organizationId e = Some i) (entitlements d)"
    using assms by (intro organization_rows) (auto simp: organizations_ok_def)
  then show ?thesis by (simp add: organization_entitlements_def rows_of_organization_def)
qed

text \<open>
  C36: The two implementations of entitlement resolution agree: where the organisations of the
  entitlements exist, the repository of the server finds an entitlement exactly when the
  auth-core service resolves one, at the same level and with the same value, and both report the
  same permission keys.
\<close>

theorem rbac_agrees_with_auth_core:
  assumes "organizations_ok d"
  shows "resolveEntitlementForKey d t u key cx =
      map_option (\<lambda>(r, s). (normalizeEntitlementValue (en_value r), s)) (findEntitlement d t u key cx)
    \<and> RBACRepository_listPermissionKeys d u cx = listPermissionKeys d u cx"
proof -
  have "newest_active t (user_entitlements d t u key) = first_row (user_entitlements d t u key)"
    unfolding user_entitlements_def by (rule first_active) (auto simp: active_for_key_def)
  moreover have "newest_active t (group_entitlements d t cx u key) = first_row (group_entitlements d t cx u key)"
    unfolding group_entitlements_def by (rule first_active) (auto simp: active_for_key_def)
  moreover have "newest_active t (organization_entitlements d t i key) = first_row (rows_of_organization d t i key)" for i
    unfolding organization_rows_agree [OF assms] rows_of_organization_def
    by (rule first_active) (auto simp: active_for_key_def)
  ultimately show ?thesis
    by (auto simp: resolveEntitlementForKey_def findEntitlement_def RBACRepository_listPermissionKeys_def
        listPermissionKeys_def split: option.split)
qed

theorem rbac_agrees_with_auth_core_witness:
  "map_option snd (findEntitlement (sample_db\<lparr>entitlements := [sample_entitlement]\<rparr>) 0 1 ''seats'' no_context) = Some ScopeUser"
proof -
  have "organizations_ok (sample_db\<lparr>entitlements := [sample_entitlement]\<rparr>)"
    by (simp add: organizations_ok_def sample_entitlement_def sample_db_def empty_database_def)
  from rbac_agrees_with_auth_core [OF this, of 0 1 "''seats''" no_context] show ?thesis
    by (cases "findEntitlement (sample_db\<lparr>entitlements := [sample_entitlement]\<rparr>) 0 1 ''seats'' no_context")
      (auto simp: resolveEntitlementForKey_def user_entitlements_def active_for_key_def isEntitlementActive_def
        newest_active_def order_desc_def sample_entitlement_def)
qed

end
