(* ===== verification/JsonText.thy ===== *)
theory JsonText
  imports RateLimiter
begin

text \<open>
  \<open>JSON.stringify\<close> and \<open>JSON.parse\<close> on the values of the model. The parser is the recursive
  descent of the JSON grammar; a number with a fraction or an exponent is outside the model's
  integers and, like malformed text, has no value. Round trip: what \<open>stringify\<close> prints,
  \<open>json_parse\<close> reads back.
\<close>

section \<open>Printing\<close>

fun stringify :: "json \<Rightarrow> string" where
  "stringify JNull = ''null''"
| "stringify (JStr s) = json_quote s"
| "stringify (JNum n) = show_int n"
| "stringify (JBool b) = (if b then ''true'' else ''false'')"
| "stringify (JArr xs) = ''['' @ js_join '','' (map stringify xs) @ '']''"
| "stringify (JObj fs) = ''{'' @ js_join '','' (map (\<lambda>(k, v). json_quote k @ '':'' @ stringify v) fs) @ ''}''"

section \<open>Parsing\<close>

definition json_space :: "char \<Rightarrow> bool" where
  "json_space c \<longleftrightarrow> c = CHR 0x20 \<or> c = CHR 0x09 \<or> c = CHR 0x0A \<or> c = CHR 0x0D"

definition skip :: "string \<Rightarrow> string" where "skip s = dropWhile json_space s"

definition hex_value :: "char \<Rightarrow> nat option" where
  "hex_value c = (let n = (of_char c :: nat) in
     if 48 \<le> n \<and> n \<le> 57 then Some (n - 48)
     else if 97 \<le> n \<and> n \<le> 102 then Some (n - 87)
     else if 65 \<le> n \<and> n \<le> 70 then Some (n - 55) else None)"

definition upper_hex :: "nat \<Rightarrow> char" where "upper_hex n = upper_char (hex_char n)"

lemma hex_digit_cases:
  "n < 16 \<Longrightarrow> n \<in> {0, 1, 2, 3, 4, 5, 6, 7, 8, 9, 10, 11, 12, 13, 14, 15}" for n :: nat
  by (simp only: insert_iff empty_iff simp_thms) presburger

lemma upper_hex_digit: "n < 16 \<Longrightarrow> upper_hex n = ''0123456789ABCDEF'' ! n"
  by (drule hex_digit_cases, elim insertE emptyE)
    (simp_all add: upper_hex_def hex_char_def upper_char_def char_of_eq_iff take_bit_eq_mod)

lemma hex_value_upper: "n < 16 \<Longrightarrow> hex_value (upper_hex n) = Some n"
  by (frule upper_hex_digit, drule hex_digit_cases, elim insertE emptyE) (simp_all add: hex_value_def)

text \<open>The character an escape stands for; one above \<open>00FF\<close> is outside the model's strings.\<close>

definition hex_escape :: "char \<Rightarrow> char \<Rightarrow> char \<Rightarrow> char \<Rightarrow> char option" where
  "hex_escape a b c d = (case (hex_value a, hex_value b, hex_value c, hex_value d) of
     (Some a', Some b', Some c', Some d') \<Rightarrow>
       if a' = 0 \<and> b' = 0 then Some (char_of (16 * c' + d')) else None
   | _ \<Rightarrow> None)"

definition short_escape :: "char \<Rightarrow> char option" where
  "short_escape c = (if c = CHR 0x22 then Some (CHR 0x22) else if c = CHR 0x5C then Some (CHR 0x5C)
     else if c = CHR ''/'' then Some (CHR ''/'') else if c = CHR ''b'' then Some (CHR 0x08)
     else if c = CHR ''f'' then Some (CHR 0x0C) else if c = CHR ''n'' then Some (CHR 0x0A)
     else if c = CHR ''r'' then Some (CHR 0x0D) else if c = CHR ''t'' then Some (CHR 0x09) else None)"

text \<open>The rest of a string literal after its opening quote: its characters and what follows it.\<close>

fun p_string :: "string \<Rightarrow> (string \<times> string) option" where
  "p_string [] = None"
| "p_string (c # s) =
     (if c = CHR 0x22 then Some ([], s)
      else if (of_char c :: nat) < 32 then None
      else if c \<noteq> CHR 0x5C then map_option (\<lambda>(t, r). (c # t, r)) (p_string s)
      else (case s of
          [] \<Rightarrow> None
        | e # s' \<Rightarrow>
            if e = CHR ''u'' then
              (case s' of
                 h1 # h2 # h3 # h4 # s'' \<Rightarrow>
                   (case hex_escape h1 h2 h3 h4 of None \<Rightarrow> None
                    | Some x \<Rightarrow> map_option (\<lambda>(t, r). (x # t, r)) (p_string s''))
               | _ \<Rightarrow> None)
            else (case short_escape e of None \<Rightarrow> None
                  | Some x \<Rightarrow> map_option (\<lambda>(t, r). (x # t, r)) (p_string s'))))"

definition is_digit :: "char \<Rightarrow> bool" where "is_digit c \<longleftrightarrow> digit_value c \<noteq> None"

text \<open>A number: an optional minus, digits without a leading zero, nothing fractional.\<close>

definition p_digits :: "string \<Rightarrow> (nat \<times> string) option" where
  "p_digits s = (let ds = takeWhile is_digit s; r = dropWhile is_digit s in
     if ds = [] \<or> (hd ds = CHR ''0'' \<and> ds \<noteq> ''0'') then None
     else if r \<noteq> [] \<and> hd r \<in> set ''.eE'' then None
     else map_option (\<lambda>n. (n, r)) (parse_nat ds))"

definition p_number :: "string \<Rightarrow> (json \<times> string) option" where
  "p_number s = (case s of
     c # r \<Rightarrow> if c = CHR ''-'' then map_option (\<lambda>(n, r). (JNum (- int n), r)) (p_digits r)
             else map_option (\<lambda>(n, r). (JNum (int n), r)) (p_digits s)
   | [] \<Rightarrow> None)"

definition p_word :: "string \<Rightarrow> json \<Rightarrow> string \<Rightarrow> (json \<times> string) option" where
  "p_word word v s = (if starts_with s word then Some (v, drop (length word) s) else None)"

text \<open>An object holds one value per name: a repeated name keeps its place and takes the last value.\<close>

fun put_member :: "string \<Rightarrow> json \<Rightarrow> (string \<times> json) list \<Rightarrow> (string \<times> json) list" where
  "put_member k v [] = [(k, v)]"
| "put_member k v ((k', v') # fs) = (if k' = k then (k, v) # fs else (k', v') # put_member k v fs)"

text \<open>\<open>fuel\<close> bounds the nesting and the length of what is read; the length of the text is enough.\<close>

fun p_value :: "nat \<Rightarrow> string \<Rightarrow> (json \<times> string) option"
  and p_items :: "nat \<Rightarrow> json list \<Rightarrow> string \<Rightarrow> (json list \<times> string) option"
  and p_members :: "nat \<Rightarrow> (string \<times> json) list \<Rightarrow> string \<Rightarrow> ((string \<times> json) list \<times> string) option" where
  "p_value 0 s = None"
| "p_value (Suc n) s = (case skip s of
     [] \<Rightarrow> None
   | c # r \<Rightarrow>
       if c = CHR 0x22 then map_option (\<lambda>(t, r). (JStr t, r)) (p_string r)
       else if c = CHR ''['' then
         (case skip r of
            [] \<Rightarrow> None
          | e # r' \<Rightarrow> if e = CHR '']'' then Some (JArr [], r')
                     else map_option (\<lambda>(xs, r). (JArr xs, r)) (p_items n [] r))
       else if c = CHR ''{'' then
         (case skip r of
            [] \<Rightarrow> None
          | e # r' \<Rightarrow> if e = CHR ''}'' then Some (JObj [], r')
                     else map_option (\<lambda>(fs, r). (JObj fs, r)) (p_members n [] r))
       else if c = CHR ''t'' then p_word ''true'' (JBool True) (c # r)
       else if c = CHR ''f'' then p_word ''false'' (JBool False) (c # r)
       else if c = CHR ''n'' then p_word ''null'' JNull (c # r)
       else p_number (c # r))"
| "p_items 0 acc s = None"
| "p_items (Suc n) acc s = (case p_value n s of
     None \<Rightarrow> None
   | Some (v, r) \<Rightarrow>
       (case skip r of
          [] \<Rightarrow> None
        | c # r' \<Rightarrow> if c = CHR '']'' then Some (acc @ [v], r')
                   else if c = CHR '','' then p_items n (acc @ [v]) r' else None))"
| "p_members 0 acc s = None"
| "p_members (Suc n) acc s = (case skip s of
     [] \<Rightarrow> None
   | q # r0 \<Rightarrow> if q \<noteq> CHR 0x22 then None else
       (case p_string r0 of
          None \<Rightarrow> None
        | Some (k, r) \<Rightarrow>
            (case skip r of
               [] \<Rightarrow> None
             | c # r' \<Rightarrow> if c \<noteq> CHR '':'' then None else
                 (case p_value n r' of
                    None \<Rightarrow> None
                  | Some (v, r'') \<Rightarrow>
                      (case skip r'' of
                         [] \<Rightarrow> None
                       | d # r3 \<Rightarrow> if d = CHR ''}'' then Some (put_member k v acc, r3)
                                  else if d = CHR '','' then p_members n (put_member k v acc) r3 else None)))))"

definition json_parse :: "string \<Rightarrow> json option" where
  "json_parse s = (case p_value (Suc (length s)) s of
     Some (v, r) \<Rightarrow> if skip r = [] then Some v else None
   | None \<Rightarrow> None)"
section \<open>Strings\<close>

lemma hex_value_char: "d < 16 \<Longrightarrow> hex_value (hex_char d) = Some d"
proof -
  assume "d < 16"
  then have "d \<in> {0, 1, 2, 3, 4, 5, 6, 7, 8, 9, 10, 11, 12, 13, 14, 15}" unfolding insert_iff empty_iff by presburger
  then show ?thesis by (auto simp: hex_value_def hex_char_def nth_Cons' Let_def)
qed

lemma hex_escape_control: "n < 32 \<Longrightarrow>
  hex_escape (CHR ''0'') (CHR ''0'') (hex_char (n div 16)) (hex_char (n mod 16)) = Some (char_of n)"
proof -
  assume "n < 32"
  then have "hex_value (hex_char (n div 16)) = Some (n div 16)" by (intro hex_value_char) simp
  moreover have "hex_value (hex_char (n mod 16)) = Some (n mod 16)" by (intro hex_value_char) simp
  moreover have "hex_value (CHR ''0'') = Some 0" by (simp add: hex_value_def Let_def)
  ultimately show ?thesis by (simp add: hex_escape_def)
qed

lemma p_string_plain: "c \<noteq> CHR 0x22 \<Longrightarrow> c \<noteq> CHR 0x5C \<Longrightarrow> \<not> (of_char c :: nat) < 32 \<Longrightarrow>
  p_string (c # s) = map_option (\<lambda>(t, r). (c # t, r)) (p_string s)"
  by simp

lemma p_string_short: "e \<noteq> CHR ''u'' \<Longrightarrow> short_escape e = Some x \<Longrightarrow>
  p_string (CHR 0x5C # e # s) = map_option (\<lambda>(t, r). (x # t, r)) (p_string s)"
  by simp

lemma p_string_hex: "hex_escape h1 h2 h3 h4 = Some x \<Longrightarrow>
  p_string (CHR 0x5C # CHR ''u'' # h1 # h2 # h3 # h4 # s) = map_option (\<lambda>(t, r). (x # t, r)) (p_string s)"
  by simp

lemma short_escapes: "short_escape (CHR 0x22) = Some (CHR 0x22)" "short_escape (CHR 0x5C) = Some (CHR 0x5C)"
  "short_escape (CHR ''b'') = Some (CHR 0x08)" "short_escape (CHR ''f'') = Some (CHR 0x0C)"
  "short_escape (CHR ''n'') = Some (CHR 0x0A)" "short_escape (CHR ''r'') = Some (CHR 0x0D)"
  "short_escape (CHR ''t'') = Some (CHR 0x09)"
  by (simp_all add: short_escape_def)

lemma p_string_escape: "p_string (json_escape c @ s) = map_option (\<lambda>(t, r). (c # t, r)) (p_string s)"
proof -
  consider (short) e where "json_escape c = [CHR 0x5C, e]" "e \<noteq> CHR ''u''" "short_escape e = Some c"
    | (control) "json_escape c = [CHR 0x5C, CHR ''u'', CHR ''0'', CHR ''0'', hex_char (of_char c div 16), hex_char (of_char c mod 16)]"
        "(of_char c :: nat) < 32"
    | (plain) "json_escape c = [c]" "c \<noteq> CHR 0x22" "c \<noteq> CHR 0x5C" "\<not> (of_char c :: nat) < 32"
    unfolding json_escape_def by (fastforce simp: short_escapes split: if_splits)
  then show ?thesis
  proof cases
    case short
    then show ?thesis by (simp only: append_Cons append_Nil p_string_short [OF short(2,3)])
  next
    case control
    with hex_escape_control [OF control(2)] show ?thesis by (simp only: append_Cons append_Nil p_string_hex char_of_char)
  next
    case plain
    then show ?thesis using p_string_plain [OF plain(2-4), of s] by (simp only: plain(1) append_Cons append_Nil)
  qed
qed

lemma p_string_quote [simp]: "p_string (concat (map json_escape s) @ CHR 0x22 # r) = Some (s, r)"
  by (induction s) (simp_all add: p_string_escape del: p_string.simps(2), simp)

section \<open>Numbers\<close>

definition ends_number :: "string \<Rightarrow> bool" where
  "ends_number r \<longleftrightarrow> r = [] \<or> (\<not> is_digit (hd r) \<and> hd r \<notin> set ''.eE'')"

lemma digit_char_is_digit: "d < 10 \<Longrightarrow> is_digit (digit_char d)"
  by (simp add: is_digit_def digit_value_char)

lemma show_nat_digits: "\<forall>c \<in> set (show_nat n). is_digit c"
proof (induction n rule: show_nat.induct)
  case (1 n)
  show ?case
    by (cases "n < 10") (use 1 in \<open>auto simp: show_nat.simps [of n] digit_char_is_digit\<close>)
qed

lemma show_nat_no_leading_zero: "0 < n \<Longrightarrow> hd (show_nat n) \<noteq> CHR ''0''"
proof (induction n rule: show_nat.induct)
  case (1 n)
  show ?case
  proof (cases "n < 10")
    case True
    with 1 have "n \<in> {1, 2, 3, 4, 5, 6, 7, 8, 9}" by auto
    then show ?thesis by (auto simp: show_nat.simps [of n] digit_char_def nth_Cons')
  next
    case False
    then have "hd (show_nat n) = hd (show_nat (n div 10))" by (simp add: show_nat.simps [of n])
    with 1 False show ?thesis by simp
  qed
qed

lemma p_digits_show [simp]:
  assumes "ends_number r"
  shows "p_digits (show_nat n @ r) = Some (n, r)"
proof -
  have "takeWhile is_digit (show_nat n @ r) = show_nat n \<and> dropWhile is_digit (show_nat n @ r) = r"
    using assms show_nat_digits [of n] by (cases r) (auto simp: ends_number_def takeWhile_append dropWhile_append)
  moreover have "\<not> (hd (show_nat n) = CHR ''0'' \<and> show_nat n \<noteq> ''0'')"
    using show_nat_no_leading_zero [of n] by (cases "n = 0") (auto simp: show_nat.simps [of 0] digit_char_def)
  ultimately show ?thesis using assms by (auto simp: p_digits_def Let_def ends_number_def)
qed

lemma digit_not_minus: "is_digit c \<Longrightarrow> c \<noteq> CHR ''-''"
  by (auto simp: is_digit_def digit_value_def)

lemma p_number_show [simp]: "ends_number r \<Longrightarrow> p_number (show_int i @ r) = Some (JNum i, r)"
proof -
  assume r: "ends_number r"
  show ?thesis
  proof (cases "i < 0")
    case True
    with r show ?thesis by (simp add: p_number_def show_int_def)
  next
    case False
    obtain c s where c: "show_nat (nat i) = c # s" by (cases "show_nat (nat i)") auto
    then have "c \<noteq> CHR ''-''" using show_nat_digits [of "nat i"] by (auto dest: digit_not_minus)
    moreover have "p_digits (c # s @ r) = Some (nat i, r)" using p_digits_show [OF r, of "nat i"] by (simp add: c)
    ultimately show ?thesis using False by (simp add: p_number_def show_int_def c)
  qed
qed

section \<open>Values\<close>

text \<open>Values as the language has them: the members of an object have different names.\<close>

fun json_ok :: "json \<Rightarrow> bool" where
  "json_ok (JArr xs) = list_all json_ok xs"
| "json_ok (JObj fs) = (distinct (map fst fs) \<and> list_all (\<lambda>(k, v). json_ok v) fs)"
| "json_ok _ = True"

text \<open>How a printed value starts: no space, no closing bracket, and the kind of the value.\<close>

lemma digit_kind: "is_digit c \<Longrightarrow> \<not> json_space c \<and> c \<notin> set [CHR 0x22, CHR ''['', CHR ''{'', CHR ''t'', CHR ''f'', CHR ''n'', CHR '']'', CHR ''}'']"
  by (auto simp: is_digit_def digit_value_def json_space_def)

lemma show_int_start:
  "\<exists>c s. show_int i = c # s \<and> \<not> json_space c \<and> c \<notin> set [CHR 0x22, CHR ''['', CHR ''{'', CHR ''t'', CHR ''f'', CHR ''n'', CHR '']'']"
proof (cases "i < 0")
  case True
  then show ?thesis by (simp add: show_int_def json_space_def)
next
  case False
  obtain c s where c: "show_nat (nat i) = c # s" by (cases "show_nat (nat i)") auto
  with show_nat_digits [of "nat i"] False show ?thesis by (auto simp: show_int_def dest: digit_kind)
qed

lemma stringify_start: "\<exists>c s. stringify j = c # s \<and> \<not> json_space c \<and> c \<noteq> CHR '']''"
  using show_int_start by (cases j) (fastforce simp: json_quote_def json_space_def)+

lemma skip_stringify [simp]: "skip (stringify j @ r) = stringify j @ r"
  using stringify_start [of j] by (auto simp: skip_def)

lemma skip_Cons [simp]: "\<not> json_space c \<Longrightarrow> skip (c # s) = c # s"
  by (simp add: skip_def)

lemma not_space [simp]: "\<not> json_space (CHR 0x22)" "\<not> json_space (CHR '']'')" "\<not> json_space (CHR ''}'')"
  "\<not> json_space (CHR '':'')" "\<not> json_space (CHR '','')" "\<not> json_space (CHR ''['')" "\<not> json_space (CHR ''{'')"
  by (simp_all add: json_space_def)

lemma ends_number_simps [simp]: "ends_number []" "ends_number (CHR '','' # r)" "ends_number (CHR '']'' # r)"
  "ends_number (CHR ''}'' # r)"
  by (simp_all add: ends_number_def is_digit_def digit_value_def)

lemma put_member_new: "k \<notin> fst ` set acc \<Longrightarrow> put_member k v acc = acc @ [(k, v)]"
  by (induction acc) auto

definition reads_back :: "json \<Rightarrow> bool" where
  "reads_back j \<longleftrightarrow> (\<forall>n r. length (stringify j) \<le> n \<longrightarrow> ends_number r \<longrightarrow> p_value n (stringify j @ r) = Some (j, r))"

lemma stringify_length: "0 < length (stringify j)"
  using stringify_start [of j] by auto

lemma items_read_back:
  assumes "\<forall>x \<in> set xs. reads_back x" and "xs \<noteq> []" and "length (js_join '','' (map stringify xs)) < n"
  shows "p_items n acc (js_join '','' (map stringify xs) @ CHR '']'' # r) = Some (acc @ xs, r)"
  using assms
proof (induction xs arbitrary: n acc)
  case (Cons x xs)
  then obtain m where n: "n = Suc m" by (cases n) auto
  have x: "reads_back x" using Cons.prems by simp
  show ?case
  proof (cases xs)
    case Nil
    with Cons.prems n x show ?thesis by (auto simp: reads_back_def)
  next
    case (Cons y ys)
    have "p_value m (stringify x @ CHR '','' # js_join '','' (map stringify xs) @ CHR '']'' # r) =
        Some (x, CHR '','' # js_join '','' (map stringify xs) @ CHR '']'' # r)"
      using Cons Cons.prems(3) x n by (auto simp: reads_back_def)
    moreover have "p_items m (acc @ [x]) (js_join '','' (map stringify xs) @ CHR '']'' # r) = Some ((acc @ [x]) @ xs, r)"
      using Cons Cons.prems n stringify_length [of x] by (intro Cons.IH) auto
    ultimately show ?thesis by (simp add: n Cons)
  qed
qed simp

abbreviation member_text :: "string \<times> json \<Rightarrow> string" where
  "member_text \<equiv> \<lambda>(k, v). json_quote k @ '':'' @ stringify v"

lemma members_read_back:
  assumes "\<forall>(k, v) \<in> set fs. reads_back v" and "fs \<noteq> []" and "length (js_join '','' (map member_text fs)) < n"
    and "distinct (map fst (acc @ fs))"
  shows "p_members n acc (js_join '','' (map member_text fs) @ CHR ''}'' # r) = Some (acc @ fs, r)"
  using assms
proof (induction fs arbitrary: n acc)
  case (Cons f fs)
  then obtain m where n: "n = Suc m" by (cases n) auto
  obtain k v where f: "f = (k, v)" by (cases f)
  have v: "reads_back v" and new: "k \<notin> fst ` set acc" using Cons.prems by (auto simp: f)
  show ?case
  proof (cases fs)
    case Nil
    with Cons.prems n v new show ?thesis
      by (auto simp: reads_back_def f json_quote_def put_member_new)
  next
    case (Cons g gs)
    let ?rest = "js_join '','' (map member_text fs) @ CHR ''}'' # r"
    have "p_value m (stringify v @ CHR '','' # ?rest) = Some (v, CHR '','' # ?rest)"
      using Cons Cons.prems(3) v n by (auto simp: reads_back_def f)
    moreover have "p_members m (acc @ [(k, v)]) ?rest = Some ((acc @ [(k, v)]) @ fs, r)"
      using Cons Cons.prems n by (intro Cons.IH) (auto simp: f json_quote_def)
    ultimately show ?thesis by (simp add: n Cons f json_quote_def put_member_new [OF new])
  qed
qed simp
lemma word_read [simp]: "p_word word v (word @ r) = Some (v, r)"
  by (simp add: p_word_def)

lemma number_reads_back: "reads_back (JNum i)"
  unfolding reads_back_def
proof (intro allI impI)
  fix n r assume "length (stringify (JNum i)) \<le> n" and r: "ends_number r"
  then obtain m where n: "n = Suc m" using stringify_length [of "JNum i"] by (cases n) auto
  obtain c s where c: "show_int i = c # s" "\<not> json_space c"
    "c \<notin> set [CHR 0x22, CHR ''['', CHR ''{'', CHR ''t'', CHR ''f'', CHR ''n'', CHR '']'']"
    using show_int_start [of i] by blast
  then have "p_value (Suc m) (show_int i @ r) = p_number (show_int i @ r)" by simp
  then show "p_value n (stringify (JNum i) @ r) = Some (JNum i, r)" using r by (simp add: n)
qed

lemma array_reads_back:
  assumes "\<forall>x \<in> set xs. reads_back x"
  shows "reads_back (JArr xs)"
  unfolding reads_back_def
proof (intro allI impI)
  fix n r assume len: "length (stringify (JArr xs)) \<le> n"
  then obtain m where n: "n = Suc m" by (cases n) auto
  show "p_value n (stringify (JArr xs) @ r) = Some (JArr xs, r)"
  proof (cases xs)
    case (Cons x ys)
    obtain c s where c: "stringify x = c # s" "\<not> json_space c" "c \<noteq> CHR '']''" using stringify_start [of x] by blast
    then obtain t where t: "js_join '','' (map stringify xs) @ CHR '']'' # r = c # t"
      by (cases ys) (auto simp: Cons)
    have "p_items m [] (c # t) = Some (xs, r)"
      using items_read_back [OF assms, of m "[]" r] len n by (simp add: Cons t [unfolded Cons, symmetric])
    with c show ?thesis by (simp add: n t)
  qed (simp add: n)
qed

lemma object_reads_back:
  assumes "\<forall>(k, v) \<in> set fs. reads_back v" and "distinct (map fst fs)"
  shows "reads_back (JObj fs)"
  unfolding reads_back_def
proof (intro allI impI)
  fix n r assume len: "length (stringify (JObj fs)) \<le> n"
  then obtain m where n: "n = Suc m" by (cases n) auto
  show "p_value n (stringify (JObj fs) @ r) = Some (JObj fs, r)"
  proof (cases fs)
    case (Cons f gs)
    obtain t where t: "js_join '','' (map member_text fs) @ CHR ''}'' # r = CHR 0x22 # t"
      by (cases f; cases gs) (auto simp: Cons json_quote_def)
    have "p_members m [] (CHR 0x22 # t) = Some (fs, r)"
      using members_read_back [OF assms(1), of m "[]" r] assms(2) len n by (simp add: Cons t [unfolded Cons, symmetric])
    then show ?thesis by (simp add: n t [simplified])
  qed (simp add: n)
qed

lemma json_reads_back: "json_ok j \<Longrightarrow> reads_back j"
proof (induction j)
  case (JStr s)
  show ?case unfolding reads_back_def
  proof (intro allI impI)
    fix n r assume "length (stringify (JStr s)) \<le> n"
    then obtain m where "n = Suc m" by (cases n) (auto simp: json_quote_def)
    then show "p_value n (stringify (JStr s) @ r) = Some (JStr s, r)" by (simp add: json_quote_def)
  qed
next
  case (JArr xs)
  then show ?case by (intro array_reads_back) (auto simp: list_all_iff)
next
  case (JObj fs)
  then show ?case by (intro object_reads_back) (fastforce simp: list_all_iff)+
next
  case JNull
  have "p_value (Suc m) (''null'' @ r) = Some (JNull, r)" for m r by (simp add: p_word_def starts_with_def json_space_def)
  then show ?case by (auto simp: reads_back_def Suc_le_eq dest!: less_imp_Suc_add)
next
  case (JBool b)
  have "p_value (Suc m) (''true'' @ r) = Some (JBool True, r)" "p_value (Suc m) (''false'' @ r) = Some (JBool False, r)" for m r
    by (simp_all add: p_word_def starts_with_def json_space_def)
  then show ?case by (cases b) (auto simp: reads_back_def Suc_le_eq dest!: less_imp_Suc_add)
qed (rule number_reads_back)

text \<open>What was printed is read back.\<close>

lemma json_parse_stringify:
  assumes "json_ok j"
  shows "json_parse (stringify j) = Some j"
proof -
  from json_reads_back [OF assms] have "p_value (Suc (length (stringify j))) (stringify j @ []) = Some (j, [])"
    unfolding reads_back_def by (meson le_SucI order_refl ends_number_simps(1))
  then show ?thesis by (simp add: json_parse_def skip_def)
qed

end
