(* ===== verification/RbacService.thy ===== *)
theory RbacService
  imports Rbac JsonText "HOL-Library.Word"
begin

unbundle bit_operations_syntax

text \<open>
  The cached decisions of apps/idp-server/src/modules/rbac: rbac-cache.ts and the authorization and
  entitlement checks of rbac.service.ts with their cache keys, percentage rollout and
  invalidation.
\<close>

section \<open>The cache\<close>

text \<open>
  The two implementations of \<open>RBACCache\<close>. The flag of the Redis one tells whether Redis answers;
  when it does not, every command throws.
\<close>

datatype rbac_cache = NoopRBACCache | RedisRBACCache bool

definition redis_down :: err where "redis_down = PlainError ''connect ECONNREFUSED''"

definition syntax_error :: err where "syntax_error = PlainError ''SyntaxError''"

fun cache_get :: "rbac_cache \<Rightarrow> string \<Rightarrow> json option io" where
  "cache_get NoopRBACCache key = ret None"
| "cache_get (RedisRBACCache up) key =
     (if \<not> up then throw redis_down
      else bind (gets (\<lambda>w. redis_live w key)) (\<lambda>value.
        case value of
          None \<Rightarrow> ret None
        | Some (text, _) \<Rightarrow> if text = [] then ret None
            else (case json_parse text of None \<Rightarrow> throw syntax_error | Some j \<Rightarrow> ret (Some j))))"

fun cache_set :: "rbac_cache \<Rightarrow> string \<Rightarrow> json \<Rightarrow> int \<Rightarrow> unit io" where
  "cache_set NoopRBACCache key value ttlSeconds = ret ()"
| "cache_set (RedisRBACCache up) key value ttlSeconds =
     (if \<not> up then throw redis_down
      else bind now (\<lambda>t. redis_put key (Some (stringify value, Some (t + ttlSeconds * 1000)))))"

text \<open>
  The SCAN loop visits every key that is present throughout, so it deletes all keys the pattern
  matches; the prefixes the service uses hold no pattern characters.
\<close>

fun cache_deleteByPrefix :: "rbac_cache \<Rightarrow> string \<Rightarrow> unit io" where
  "cache_deleteByPrefix NoopRBACCache prefix = ret ()"
| "cache_deleteByPrefix (RedisRBACCache up) prefix =
     (if \<not> up then throw redis_down
      else modify (\<lambda>w. w\<lparr>redis := (\<lambda>key. if starts_with key prefix then None else redis w key)\<rparr>))"

section \<open>Keys and rollout\<close>

record rbac_service =
  rb_cache :: rbac_cache
  rb_cacheEnabled :: bool
  rb_cachePercent :: int
  rb_authTtlSeconds :: int
  rb_entitlementTtlSeconds :: int
  rb_negativeTtlSeconds :: int

text \<open>\<open>(hash * 33) ^ code\<close>: the product is exact, \<open>^\<close> takes both sides modulo 2^32, as signed.\<close>

definition hash_step :: "32 word \<Rightarrow> char \<Rightarrow> 32 word" where
  "hash_step hash c = (hash * 33) XOR of_nat (of_char c)"

definition bucket :: "string \<Rightarrow> int" where
  "bucket value = \<bar>sint (foldl hash_step 5381 value)\<bar> mod 100"

definition shouldUseCache :: "rbac_service \<Rightarrow> uuid \<Rightarrow> bool" where
  "shouldUseCache S userId =
     (if \<not> rb_cacheEnabled S then False
      else if rb_cachePercent S \<le> 0 then False
      else if 100 \<le> rb_cachePercent S then True
      else bucket (uuid_text userId) < rb_cachePercent S)"

definition normalizeKeyPart :: "string option \<Rightarrow> string" where
  "normalizeKeyPart value = (case value of
     None \<Rightarrow> ''_''
   | Some s \<Rightarrow> map (\<lambda>c. if c = CHR '':'' \<or> js_space c then CHR ''_'' else c) (js_trim s))"

record authz_request =
  aq_userId :: uuid
  aq_action :: string
  aq_resource :: string
  aq_context :: auth_context

record ent_request =
  eq_userId :: uuid
  eq_key :: string
  eq_context :: auth_context
  eq_quantity :: "int option"

definition uuid_part :: "uuid option \<Rightarrow> string" where
  "uuid_part i = normalizeKeyPart (map_option uuid_text i)"

definition buildAuthorizationCacheKey :: "authz_request \<Rightarrow> string" where
  "buildAuthorizationCacheKey q = js_join '':''
     [''rbac'', ''v1'', ''auth'', uuid_part (Some (aq_userId q)), normalizeKeyPart (Some (aq_resource q)),
      normalizeKeyPart (Some (aq_action q)), uuid_part (cx_organizationId (aq_context q)),
      uuid_part (cx_groupId (aq_context q))]"

definition buildEntitlementCacheKey :: "ent_request \<Rightarrow> string" where
  "buildEntitlementCacheKey q = js_join '':''
     [''rbac'', ''v1'', ''ent'', uuid_part (Some (eq_userId q)), normalizeKeyPart (Some (eq_key q)),
      uuid_part (cx_organizationId (eq_context q)), uuid_part (cx_groupId (eq_context q)),
      normalizeKeyPart (map_option show_int (eq_quantity q))]"

section \<open>Checks through the cache\<close>

text \<open>The metrics of core/metrics.ts the service counts.\<close>

definition observeRbacCacheLookupDuration :: "string \<Rightarrow> unit io" where
  "observeRbacCacheLookupDuration kind = emit (Metric ''rbac_cache_lookup_duration_seconds'' [kind])"
definition recordRbacCacheHit :: "string \<Rightarrow> unit io" where
  "recordRbacCacheHit kind = emit (Metric ''rbac_cache_hit_total'' [kind])"
definition recordRbacCacheMiss :: "string \<Rightarrow> unit io" where
  "recordRbacCacheMiss kind = emit (Metric ''rbac_cache_miss_total'' [kind])"
definition recordRbacCacheError :: "string \<Rightarrow> unit io" where
  "recordRbacCacheError operation = emit (Metric ''rbac_cache_error_total'' [operation])"
definition recordRbacAuthorizationDecision :: "string \<Rightarrow> unit io" where
  "recordRbacAuthorizationDecision result = emit (Metric ''rbac_authorization_decision_total'' [result])"
definition recordRbacEntitlementDecision :: "string \<Rightarrow> unit io" where
  "recordRbacEntitlementDecision result = emit (Metric ''rbac_entitlement_decision_total'' [result])"
definition recordRbacCacheInvalidation :: "string \<Rightarrow> string \<Rightarrow> unit io" where
  "recordRbacCacheInvalidation target result = emit (Metric ''rbac_cache_invalidation_total'' [target, result])"

definition truthy_json :: "json \<Rightarrow> bool" where
  "truthy_json j \<longleftrightarrow> j \<noteq> JNull \<and> j \<noteq> JBool False \<and> j \<noteq> JNum 0 \<and> j \<noteq> JStr []"

definition cached_answer :: "rbac_cache \<Rightarrow> string \<Rightarrow> string \<Rightarrow> json option io" where
  "cached_answer cache kind key = try_catch
     (bind (cache_get cache key) (\<lambda>cached.
      bind (observeRbacCacheLookupDuration kind) (\<lambda>_.
      case cached of
        Some j \<Rightarrow> if truthy_json j then bind (recordRbacCacheHit kind) (\<lambda>_. ret (Some j))
                 else bind (recordRbacCacheMiss kind) (\<lambda>_. ret None)
      | None \<Rightarrow> bind (recordRbacCacheMiss kind) (\<lambda>_. ret None))))
     (\<lambda>_. bind (observeRbacCacheLookupDuration kind) (\<lambda>_. bind (recordRbacCacheError ''get'') (\<lambda>_. ret None)))"

definition store_answer :: "rbac_cache \<Rightarrow> string \<Rightarrow> json \<Rightarrow> int \<Rightarrow> unit io" where
  "store_answer cache key value ttl = try_catch (cache_set cache key value ttl) (\<lambda>_. recordRbacCacheError ''set'')"

definition authorization_result :: "database \<Rightarrow> authz_request \<Rightarrow> bool \<times> json" where
  "authorization_result d q =
     (let permissions = RBACRepository_listPermissionKeys d (aq_userId q) (aq_context q);
          required = aq_resource q @ '':'' @ aq_action q;
          allowed = (required \<in> set permissions \<or> aq_resource q @ '':all'' \<in> set permissions \<or>
                     ''*'' \<in> set permissions)
      in (allowed, JObj [(''allowed'', JBool allowed), (''permissionKey'', JStr required),
            (''source'', if allowed then JStr ''rbac'' else JNull)]))"

definition RBACService_authorizationCheck :: "rbac_service \<Rightarrow> authz_request \<Rightarrow> json io" where
  "RBACService_authorizationCheck S q =
     (let use = shouldUseCache S (aq_userId q); key = buildAuthorizationCacheKey q in
      bind (if use then cached_answer (rb_cache S) ''auth'' key else ret None) (\<lambda>cached.
      case cached of
        Some j \<Rightarrow> ret j
      | None \<Rightarrow>
          bind (read_db (\<lambda>d. authorization_result d q)) (\<lambda>(allowed, result).
          bind (recordRbacAuthorizationDecision (if allowed then ''allowed'' else ''denied'')) (\<lambda>_.
          bind (whenever use (store_answer (rb_cache S) key result
                  (if allowed then rb_authTtlSeconds S else rb_negativeTtlSeconds S))) (\<lambda>_.
          ret result)))))"

text \<open>\<open>Number(limit)\<close> of a JSON value; a text that is not an integer numeral counts as not a number.\<close>

datatype js_number = Finite int | NaN | Infinity

definition number_of_text :: "string \<Rightarrow> js_number" where
  "number_of_text s = (let t = js_trim s in
     if t = [] then Finite 0
     else if hd t = CHR ''-'' then (case parse_nat (tl t) of None \<Rightarrow> NaN | Some n \<Rightarrow> Finite (- int n))
     else if hd t = CHR ''+'' then (case parse_nat (tl t) of None \<Rightarrow> NaN | Some n \<Rightarrow> Finite (int n))
     else (case parse_nat t of None \<Rightarrow> NaN | Some n \<Rightarrow> Finite (int n)))"

fun js_Number :: "json \<Rightarrow> js_number" where
  "js_Number JNull = Finite 0"
| "js_Number (JBool b) = Finite (if b then 1 else 0)"
| "js_Number (JNum n) = Finite n"
| "js_Number j = number_of_text (js_text j)"

definition limit_of :: "json \<Rightarrow> js_number" where
  "limit_of value = (case json_prop value ''limit'' of None \<Rightarrow> Infinity | Some v \<Rightarrow> js_Number v)"

text \<open>\<open>quantity > current\<close>: false against infinity and against NaN.\<close>

definition exceeds :: "int \<Rightarrow> js_number \<Rightarrow> bool" where
  "exceeds quantity current = (case current of Finite n \<Rightarrow> n < quantity | _ \<Rightarrow> False)"

fun scope_text :: "scope \<Rightarrow> string" where
  "scope_text ScopeUser = ''user''"
| "scope_text ScopeGroup = ''group''"
| "scope_text ScopeOrganization = ''organization''"
| "scope_text ScopeNone = ''none''"

datatype decision = Allowed | NotEntitled | LimitExceeded

fun decision_text :: "decision \<Rightarrow> string" where
  "decision_text Allowed = ''allowed''"
| "decision_text NotEntitled = ''not_entitled''"
| "decision_text LimitExceeded = ''limit_exceeded''"

definition json_number :: "js_number \<Rightarrow> json" where
  "json_number n = (case n of Finite i \<Rightarrow> JNum i | _ \<Rightarrow> JNull)"

definition entitlement_decision :: "database \<Rightarrow> time \<Rightarrow> ent_request \<Rightarrow> decision \<times> json" where
  "entitlement_decision d t q = (case findEntitlement d t (eq_userId q) (eq_key q) (eq_context q) of
     None \<Rightarrow> (NotEntitled, JObj [(''allowed'', JBool False), (''reason'', JStr ''not_entitled'')])
   | Some (r, s) \<Rightarrow>
       (case eq_quantity q of
          Some n \<Rightarrow>
            if exceeds n (limit_of (en_value r))
            then (LimitExceeded, JObj [(''allowed'', JBool False), (''reason'', JStr ''limit_exceeded''),
                    (''limit'', json_number (limit_of (en_value r)))])
            else (Allowed, JObj [(''allowed'', JBool True), (''value'', en_value r), (''scope'', JStr (scope_text s))])
        | None \<Rightarrow> (Allowed, JObj [(''allowed'', JBool True), (''value'', en_value r), (''scope'', JStr (scope_text s))])))"

definition RBACService_entitlementCheck :: "rbac_service \<Rightarrow> ent_request \<Rightarrow> json io" where
  "RBACService_entitlementCheck S q =
     (let use = shouldUseCache S (eq_userId q); key = buildEntitlementCacheKey q in
      bind (if use then cached_answer (rb_cache S) ''ent'' key else ret None) (\<lambda>cached.
      case cached of
        Some j \<Rightarrow> ret j
      | None \<Rightarrow>
          bind now (\<lambda>t. bind (read_db (\<lambda>d. entitlement_decision d t q)) (\<lambda>(decision, result).
          bind (recordRbacEntitlementDecision (decision_text decision)) (\<lambda>_.
          bind (whenever use (store_answer (rb_cache S) key result
                  (if decision = Allowed then rb_entitlementTtlSeconds S else rb_negativeTtlSeconds S))) (\<lambda>_.
          ret result))))))"

section \<open>Invalidation\<close>

definition invalidate :: "rbac_cache \<Rightarrow> string \<Rightarrow> string list \<Rightarrow> unit io" where
  "invalidate cache target prefixes = try_catch
     (bind (for_each prefixes (cache_deleteByPrefix cache)) (\<lambda>_. recordRbacCacheInvalidation target ''success''))
     (\<lambda>_. bind (recordRbacCacheError ''del'') (\<lambda>_. recordRbacCacheInvalidation target ''error''))"

definition invalidateUserCache :: "rbac_service \<Rightarrow> uuid \<Rightarrow> unit io" where
  "invalidateUserCache S userId = invalidate (rb_cache S) ''user''
     [js_join '':'' [''rbac'', ''v1'', ''auth'', uuid_part (Some userId)],
      js_join '':'' [''rbac'', ''v1'', ''ent'', uuid_part (Some userId)]]"

definition invalidateAllCache :: "rbac_service \<Rightarrow> unit io" where
  "invalidateAllCache S = invalidate (rb_cache S) ''all'' [''rbac:v1:'']"

end
