(* ===== verification/RbacServiceFacts.thy ===== *)
theory RbacServiceFacts
  imports RbacService
begin

text \<open>
  What the cache of the RBAC service may change: an answer is one the database gave not longer ago
  than a time to live, whatever happened in between. The requests are those whose resource, action
  and key contain no colon and no white space; two that do can share a cache key, which is shown.
\<close>

section \<open>Cache keys\<close>

lemma hex_digits_Suc: "hex_digits (Suc n) u = hex_digits n (u div 16) @ [hex_char (u mod 16)]"
proof -
  have "u div 16 ^ (n - i) mod 16 = u div 16 div 16 ^ (n - 1 - i) mod 16" if "i < n" for i
  proof -
    from that obtain k where "n - i = Suc k" "n - 1 - i = k" by (metis Suc_diff_Suc diff_Suc_1 diff_commute)
    then show ?thesis by (simp add: div_mult2_eq)
  qed
  then show ?thesis by (simp add: hex_digits_def)
qed

lemma hex_char_inj: "a < 16 \<Longrightarrow> b < 16 \<Longrightarrow> hex_char a = hex_char b \<Longrightarrow> a = b"
  by (metis hex_value_char option.inject)

lemma hex_digits_inj: "hex_digits n u = hex_digits n v \<Longrightarrow> u mod 16 ^ n = v mod 16 ^ n"
proof (induction n arbitrary: u v)
  case (Suc n)
  then have "hex_digits n (u div 16) = hex_digits n (v div 16)" and c: "hex_char (u mod 16) = hex_char (v mod 16)"
    by (simp_all add: hex_digits_Suc)
  then have "u div 16 mod 16 ^ n = v div 16 mod 16 ^ n" by (intro Suc.IH)
  moreover have "u mod 16 = v mod 16" by (rule hex_char_inj [OF _ _ c]) simp_all
  ultimately show ?case by (simp add: mod_mult2_eq)
qed simp

lemma hex_digits_length [simp]: "length (hex_digits n u) = n"
  by (simp add: hex_digits_def)

lemma uuid_text_eq: "uuid_text u = hex_digits 8 (u div 16 ^ 24) @ CHR ''-'' # hex_digits 4 (u div 16 ^ 20) @ CHR ''-'' #
    hex_digits 4 (u div 16 ^ 16) @ CHR ''-'' # hex_digits 4 (u div 16 ^ 12) @ CHR ''-'' # hex_digits 12 u"
  by (simp add: uuid_text_def)

text \<open>A UUID has 128 bits; its text determines it.\<close>

definition uuid_ok :: "uuid \<Rightarrow> bool" where "uuid_ok u \<longleftrightarrow> u < 16 ^ 32"

lemma pieces: "(u :: nat) mod 16 ^ a = v mod 16 ^ a \<Longrightarrow> u div 16 ^ a mod 16 ^ b = v div 16 ^ a mod 16 ^ b \<Longrightarrow>
    u mod 16 ^ (a + b) = v mod 16 ^ (a + b)"
  by (simp add: power_add mod_mult2_eq)

lemma uuid_text_inj:
  assumes "uuid_ok u" and "uuid_ok v" and "uuid_text u = uuid_text v"
  shows "u = v"
proof -
  from assms(3) have h: "hex_digits 8 (u div 16 ^ 24) = hex_digits 8 (v div 16 ^ 24)"
    "hex_digits 4 (u div 16 ^ 20) = hex_digits 4 (v div 16 ^ 20)" "hex_digits 4 (u div 16 ^ 16) = hex_digits 4 (v div 16 ^ 16)"
    "hex_digits 4 (u div 16 ^ 12) = hex_digits 4 (v div 16 ^ 12)" "hex_digits 12 u = hex_digits 12 v"
    by (simp_all add: uuid_text_eq)
  from pieces [OF hex_digits_inj [OF h(5)] hex_digits_inj [OF h(4)]] have "u mod 16 ^ 16 = v mod 16 ^ 16" by simp
  from pieces [OF this hex_digits_inj [OF h(3)]] have "u mod 16 ^ 20 = v mod 16 ^ 20" by simp
  from pieces [OF this hex_digits_inj [OF h(2)]] have "u mod 16 ^ 24 = v mod 16 ^ 24" by simp
  from pieces [OF this hex_digits_inj [OF h(1)]] have "u mod 16 ^ 32 = v mod 16 ^ 32" by simp
  with assms(1,2) show ?thesis by (simp add: uuid_ok_def)
qed

lemma hex_char_plain: "d < 16 \<Longrightarrow> hex_char d \<noteq> CHR '':'' \<and> \<not> js_space (hex_char d)"
proof -
  assume "d < 16"
  then have "d \<in> {0, 1, 2, 3, 4, 5, 6, 7, 8, 9, 10, 11, 12, 13, 14, 15}" unfolding insert_iff empty_iff by presburger
  then show ?thesis by (auto simp: hex_char_def nth_Cons' js_space_def)
qed

definition plain_text :: "string \<Rightarrow> bool" where
  "plain_text s \<longleftrightarrow> (\<forall>c \<in> set s. c \<noteq> CHR '':'' \<and> \<not> js_space c)"

lemma plain_normal: "plain_text s \<Longrightarrow> normalizeKeyPart (Some s) = s"
proof -
  assume p: "plain_text s"
  have drop: "dropWhile js_space t = t" if "\<forall>c \<in> set t. \<not> js_space c" for t
    using that by (cases t) auto
  have "dropWhile js_space s = s" "dropWhile js_space (rev s) = rev s"
    using p by (intro drop; simp add: plain_text_def)+
  then have "js_trim s = s" by (simp add: js_trim_def)
  with p show ?thesis by (simp add: normalizeKeyPart_def plain_text_def map_idI)
qed

lemma hex_digits_plain: "plain_text (hex_digits n u)"
  by (auto simp: plain_text_def hex_digits_def hex_char_plain)

lemma plain_text_simps: "plain_text []" "plain_text (a @ b) \<longleftrightarrow> plain_text a \<and> plain_text b"
  "plain_text (CHR ''-'' # b) \<longleftrightarrow> plain_text b"
  by (auto simp: plain_text_def js_space_def)

lemma uuid_text_plain: "plain_text (uuid_text u)"
  unfolding uuid_text_eq plain_text_simps by (intro conjI hex_digits_plain)

lemma uuid_part_eq: "uuid_part (Some u) = uuid_text u" "uuid_part None = ''_''"
  by (simp_all add: uuid_part_def plain_normal [OF uuid_text_plain]) (simp add: normalizeKeyPart_def)

lemma uuid_text_length: "length (uuid_text u) = 36"
  by (simp add: uuid_text_eq)

definition opt_uuid_ok :: "uuid option \<Rightarrow> bool" where
  "opt_uuid_ok i = (case i of None \<Rightarrow> True | Some u \<Rightarrow> uuid_ok u)"

lemma uuid_part_inj: "opt_uuid_ok i \<Longrightarrow> opt_uuid_ok j \<Longrightarrow> uuid_part i = uuid_part j \<Longrightarrow> i = j"
proof -
  assume ok: "opt_uuid_ok i" "opt_uuid_ok j" and eq: "uuid_part i = uuid_part j"
  have "uuid_text u \<noteq> ''_''" for u using uuid_text_length [of u] by auto
  with ok eq show "i = j"
    by (cases i; cases j) (auto simp: uuid_part_eq opt_uuid_ok_def intro: uuid_text_inj)
qed

lemma part_no_colon: "CHR '':'' \<notin> set (normalizeKeyPart v)"
  by (auto simp: normalizeKeyPart_def split: option.splits)

lemma uuid_part_no_colon: "CHR '':'' \<notin> set (uuid_part v)"
  by (simp add: uuid_part_def part_no_colon)

lemma joined_parts:
  assumes "js_join '':'' xs = js_join '':'' ys" and "xs \<noteq> []" and "ys \<noteq> []"
    and "\<forall>x \<in> set xs. CHR '':'' \<notin> set x" and "\<forall>y \<in> set ys. CHR '':'' \<notin> set y"
  shows "xs = ys"
  using js_split_join [OF assms(2,4)] js_split_join [OF assms(3,5)] unfolding assms(1) by (rule trans [OF sym])

lemma digit_plain: "is_digit c \<Longrightarrow> c \<noteq> CHR '':'' \<and> \<not> js_space c"
  by (auto simp: is_digit_def digit_value_def js_space_def split: if_splits)

lemma show_int_plain: "plain_text (show_int i)"
proof -
  have "plain_text (show_nat n)" for n
    unfolding plain_text_def
  proof
    fix c assume "c \<in> set (show_nat n)"
    with show_nat_digits [of n] have "is_digit c" by (rule bspec)
    then show "c \<noteq> CHR '':'' \<and> \<not> js_space c" by (rule digit_plain)
  qed
  then show ?thesis unfolding show_int_def by (cases "i < 0") (simp_all add: plain_text_simps)
qed

lemma show_int_inj: "show_int a = show_int b \<Longrightarrow> a = b"
  using p_number_show [of "[]" a] p_number_show [of "[]" b] by simp

lemma quantity_part_inj:
  assumes "normalizeKeyPart (map_option show_int a) = normalizeKeyPart (map_option show_int b)"
  shows "a = b"
proof -
  have "show_int i \<noteq> ''_''" for i using p_number_show [of "[]" i]
    by (auto simp: p_number_def p_digits_def is_digit_def digit_value_def)
  then show ?thesis using assms plain_normal [OF show_int_plain]
    by (cases a; cases b) (auto simp: normalizeKeyPart_def [of None] dest: show_int_inj)
qed

text \<open>The requests whose keys are unambiguous.\<close>

datatype rbac_request = Authorize authz_request | Entitle ent_request

definition context_ok :: "auth_context \<Rightarrow> bool" where
  "context_ok cx \<longleftrightarrow> opt_uuid_ok (cx_organizationId cx) \<and> opt_uuid_ok (cx_groupId cx)"

fun plain_request :: "rbac_request \<Rightarrow> bool" where
  "plain_request (Authorize q) \<longleftrightarrow> uuid_ok (aq_userId q) \<and> plain_text (aq_resource q) \<and>
     plain_text (aq_action q) \<and> context_ok (aq_context q)"
| "plain_request (Entitle q) \<longleftrightarrow> uuid_ok (eq_userId q) \<and> plain_text (eq_key q) \<and> context_ok (eq_context q)"

fun key_of :: "rbac_request \<Rightarrow> string" where
  "key_of (Authorize q) = buildAuthorizationCacheKey q"
| "key_of (Entitle q) = buildEntitlementCacheKey q"

lemma uuid_part_Some_inj: "uuid_ok u \<Longrightarrow> uuid_ok v \<Longrightarrow> uuid_part (Some u) = uuid_part (Some v) \<Longrightarrow> u = v"
  using uuid_part_inj [of "Some u" "Some v"] by (simp add: opt_uuid_ok_def)

lemma context_inj:
  assumes "context_ok a" and "context_ok b" and "uuid_part (cx_organizationId a) = uuid_part (cx_organizationId b)"
    and "uuid_part (cx_groupId a) = uuid_part (cx_groupId b)"
  shows "a = (b :: auth_context)"
  using assms uuid_part_inj unfolding context_ok_def by (auto intro: auth_context.equality)

lemma key_of_inj:
  assumes "plain_request p" and "plain_request q" and "key_of p = key_of q"
  shows "p = q"
proof (cases p; cases q)
  fix a b assume c: "p = Authorize a" "q = Authorize b"
  from assms(3) have "[''rbac'', ''v1'', ''auth'', uuid_part (Some (aq_userId a)), normalizeKeyPart (Some (aq_resource a)),
      normalizeKeyPart (Some (aq_action a)), uuid_part (cx_organizationId (aq_context a)), uuid_part (cx_groupId (aq_context a))] =
    [''rbac'', ''v1'', ''auth'', uuid_part (Some (aq_userId b)), normalizeKeyPart (Some (aq_resource b)),
      normalizeKeyPart (Some (aq_action b)), uuid_part (cx_organizationId (aq_context b)), uuid_part (cx_groupId (aq_context b))]"
    unfolding c key_of.simps buildAuthorizationCacheKey_def
    by (rule joined_parts) (simp_all add: part_no_colon uuid_part_no_colon)
  with assms(1,2) show ?thesis
    by (auto simp: c plain_normal intro!: authz_request.equality context_inj dest: uuid_part_Some_inj)
next
  fix a b assume c: "p = Entitle a" "q = Entitle b"
  from assms(3) have "[''rbac'', ''v1'', ''ent'', uuid_part (Some (eq_userId a)), normalizeKeyPart (Some (eq_key a)),
      uuid_part (cx_organizationId (eq_context a)), uuid_part (cx_groupId (eq_context a)),
      normalizeKeyPart (map_option show_int (eq_quantity a))] =
    [''rbac'', ''v1'', ''ent'', uuid_part (Some (eq_userId b)), normalizeKeyPart (Some (eq_key b)),
      uuid_part (cx_organizationId (eq_context b)), uuid_part (cx_groupId (eq_context b)),
      normalizeKeyPart (map_option show_int (eq_quantity b))]"
    unfolding c key_of.simps buildEntitlementCacheKey_def
    by (rule joined_parts) (simp_all add: part_no_colon uuid_part_no_colon)
  with assms(1,2) show ?thesis
    by (auto simp: c plain_normal intro!: ent_request.equality context_inj dest: uuid_part_Some_inj quantity_part_inj)
next
  fix a b assume c: "p = Authorize a" "q = Entitle b"
  from assms(3) have "[''rbac'', ''v1'', ''auth'', uuid_part (Some (aq_userId a)), normalizeKeyPart (Some (aq_resource a)),
      normalizeKeyPart (Some (aq_action a)), uuid_part (cx_organizationId (aq_context a)), uuid_part (cx_groupId (aq_context a))] =
    [''rbac'', ''v1'', ''ent'', uuid_part (Some (eq_userId b)), normalizeKeyPart (Some (eq_key b)),
      uuid_part (cx_organizationId (eq_context b)), uuid_part (cx_groupId (eq_context b)),
      normalizeKeyPart (map_option show_int (eq_quantity b))]"
    unfolding c key_of.simps buildAuthorizationCacheKey_def buildEntitlementCacheKey_def
    by (rule joined_parts) (simp_all add: part_no_colon uuid_part_no_colon)
  then show ?thesis by simp
next
  fix a b assume c: "p = Entitle a" "q = Authorize b"
  from assms(3) have "[''rbac'', ''v1'', ''ent'', uuid_part (Some (eq_userId a)), normalizeKeyPart (Some (eq_key a)),
      uuid_part (cx_organizationId (eq_context a)), uuid_part (cx_groupId (eq_context a)),
      normalizeKeyPart (map_option show_int (eq_quantity a))] =
    [''rbac'', ''v1'', ''auth'', uuid_part (Some (aq_userId b)), normalizeKeyPart (Some (aq_resource b)),
      normalizeKeyPart (Some (aq_action b)), uuid_part (cx_organizationId (aq_context b)), uuid_part (cx_groupId (aq_context b))]"
    unfolding c key_of.simps buildAuthorizationCacheKey_def buildEntitlementCacheKey_def
    by (rule joined_parts) (simp_all add: part_no_colon uuid_part_no_colon)
  then show ?thesis by simp
qed
section \<open>Asking\<close>

fun ask :: "rbac_service \<Rightarrow> rbac_request \<Rightarrow> json io" where
  "ask S (Authorize q) = RBACService_authorizationCheck S q"
| "ask S (Entitle q) = RBACService_entitlementCheck S q"

text \<open>What the database answers at an instant.\<close>

fun answer :: "time \<Rightarrow> database \<Rightarrow> rbac_request \<Rightarrow> json" where
  "answer t d (Authorize q) = snd (authorization_result d q)"
| "answer t d (Entitle q) = snd (entitlement_decision d t q)"

definition longest_ttl :: "rbac_service \<Rightarrow> int" where
  "longest_ttl S = max (rb_authTtlSeconds S) (max (rb_entitlementTtlSeconds S) (rb_negativeTtlSeconds S))"

definition values_ok :: "database \<Rightarrow> bool" where
  "values_ok d \<longleftrightarrow> (\<forall>e \<in> set (entitlements d). json_ok (en_value e))"

text \<open>A world that differs in what was counted only.\<close>

definition but_metrics :: "world \<Rightarrow> world \<Rightarrow> bool" where
  "but_metrics w w' \<longleftrightarrow> (\<exists>es. w' = w\<lparr>emitted := es\<rparr>)"

lemma but_metrics_fields: "but_metrics w w' \<Longrightarrow> db w' = db w \<and> clock w' = clock w \<and> redis w' = redis w"
  by (auto simp: but_metrics_def)

lemma but_metrics_self [simp]: "but_metrics w w" "but_metrics w (w\<lparr>emitted := es\<rparr>)"
  by (auto simp: but_metrics_def intro: exI [of _ "emitted w"])

lemmas metric_defs = observeRbacCacheLookupDuration_def recordRbacCacheHit_def recordRbacCacheMiss_def
  recordRbacCacheError_def recordRbacAuthorizationDecision_def recordRbacEntitlementDecision_def
  recordRbacCacheInvalidation_def

lemma cached_answer_run:
  "\<exists>c w'. cached_answer cache kind key w = (Inr c, w') \<and> but_metrics w w' \<and>
    (\<forall>j. c = Some j \<longrightarrow> (\<exists>text e. redis_live w key = Some (text, e) \<and> json_parse text = Some j))"
  by (cases cache) (auto simp: cached_answer_def metric_defs run_simps split: option.split)

lemma store_answer_run:
  "\<exists>w'. store_answer cache key v ttl w = (Inr (), w') \<and> db w' = db w \<and> clock w' = clock w \<and>
    (redis w' = redis w \<or> redis w' = (redis w)(key := Some (stringify v, Some (clock w + ttl * 1000))))"
  by (cases cache) (auto simp: store_answer_def metric_defs run_simps redis_put_def)

text \<open>A check either hands out a live entry of its key, or what the database says now, and then it
  may leave that under its key.\<close>

definition cached_now :: "world \<Rightarrow> rbac_request \<Rightarrow> json \<Rightarrow> bool" where
  "cached_now w q j \<longleftrightarrow> (\<exists>text e. redis_live w (key_of q) = Some (text, e) \<and> json_parse text = Some j)"

definition stored :: "rbac_service \<Rightarrow> rbac_request \<Rightarrow> json \<Rightarrow> world \<Rightarrow> world \<Rightarrow> bool" where
  "stored S q j w w' \<longleftrightarrow> redis w' = redis w \<or>
     (\<exists>ttl. ttl \<le> longest_ttl S \<and> redis w' = (redis w)(key_of q := Some (stringify j, Some (clock w + ttl * 1000))))"

lemma check_run:
  assumes "\<And>v. but_metrics w v \<Longrightarrow> \<exists>v'. m v = (Inr j, v') \<and> db v' = db v \<and> clock v' = clock v \<and> stored S q j v v'"
  shows "\<exists>j' w'. bind (if use then cached_answer cache kind (key_of q) else ret None)
      (\<lambda>cached. case cached of Some j \<Rightarrow> ret j | None \<Rightarrow> m) w = (Inr j', w') \<and> db w' = db w \<and> clock w' = clock w \<and>
    (cached_now w q j' \<and> redis w' = redis w \<or> j' = j \<and> stored S q j w w')"
proof -
  let ?look = "if use then cached_answer cache kind (key_of q) else ret None"
  obtain c v where v: "?look w = (Inr c, v)" "but_metrics w v"
    "\<And>j. c = Some j \<Longrightarrow> cached_now w q j"
    using cached_answer_run [of cache kind "key_of q" w] by (cases use) (auto simp: ret_run cached_now_def)
  note f = but_metrics_fields [OF v(2)]
  show ?thesis
  proof (cases c)
    case None
    from assms [OF v(2)] obtain v' where "m v = (Inr j, v')" "db v' = db v" "clock v' = clock v" "stored S q j v v'" by blast
    with None v(1) f show ?thesis by (auto simp: bind_run stored_def)
  next
    case (Some j')
    with v f show ?thesis by (auto simp: bind_run ret_run)
  qed
qed

lemma stored_metrics: "but_metrics w v \<Longrightarrow> stored S q j w w' \<longleftrightarrow> stored S q j v w'"
  by (auto simp: stored_def but_metrics_def)

lemma ask_run:
  "\<exists>j w'. ask S q w = (Inr j, w') \<and> db w' = db w \<and> clock w' = clock w \<and>
    (cached_now w q j \<and> redis w' = redis w \<or> j = answer (clock w) (db w) q \<and> stored S q j w w')"
proof (cases q)
  case (Authorize a)
  let ?use = "shouldUseCache S (aq_userId a)"
  obtain allowed result where r: "authorization_result (db w) a = (allowed, result)" by (cases "authorization_result (db w) a")
  have "\<exists>v'. bind (read_db (\<lambda>d. authorization_result d a)) (\<lambda>(allowed, result).
      bind (recordRbacAuthorizationDecision (if allowed then ''allowed'' else ''denied'')) (\<lambda>_.
      bind (whenever ?use (store_answer (rb_cache S) (key_of q) result
        (if allowed then rb_authTtlSeconds S else rb_negativeTtlSeconds S))) (\<lambda>_. ret result))) v = (Inr result, v')
      \<and> db v' = db v \<and> clock v' = clock v \<and> stored S q result v v'" if "but_metrics w v" for v
  proof -
    let ?v = "v\<lparr>emitted := emitted v @ [Metric ''rbac_authorization_decision_total'' [if allowed then ''allowed'' else ''denied'']]\<rparr>"
    let ?ttl = "if allowed then rb_authTtlSeconds S else rb_negativeTtlSeconds S"
    have "?ttl \<le> longest_ttl S" by (simp add: longest_ttl_def le_max_iff_disj)
    with store_answer_run [of "rb_cache S" "key_of q" result ?ttl ?v] but_metrics_fields [OF that] r show ?thesis
      by (cases ?use) (auto simp: run_simps metric_defs stored_def)
  qed
  from check_run [where w = w and use = ?use and cache = "rb_cache S" and kind = "''auth''", OF this]
  obtain j w' where c: "ask S q w = (Inr j, w')" "db w' = db w" "clock w' = clock w"
    "cached_now w q j \<and> redis w' = redis w \<or> j = result \<and> stored S q result w w'"
    unfolding Authorize ask.simps key_of.simps RBACService_authorizationCheck_def Let_def by blast
  then show ?thesis using r by (auto simp: Authorize)
next
  case (Entitle a)
  let ?use = "shouldUseCache S (eq_userId a)"
  obtain dec result where r: "entitlement_decision (db w) (clock w) a = (dec, result)" by (cases "entitlement_decision (db w) (clock w) a")
  have "\<exists>v'. bind now (\<lambda>t. bind (read_db (\<lambda>d. entitlement_decision d t a)) (\<lambda>(decision, result).
      bind (recordRbacEntitlementDecision (decision_text decision)) (\<lambda>_.
      bind (whenever ?use (store_answer (rb_cache S) (key_of q) result
        (if decision = Allowed then rb_entitlementTtlSeconds S else rb_negativeTtlSeconds S))) (\<lambda>_. ret result)))) v = (Inr result, v')
      \<and> db v' = db v \<and> clock v' = clock v \<and> stored S q result v v'" if "but_metrics w v" for v
  proof -
    let ?v = "v\<lparr>emitted := emitted v @ [Metric ''rbac_entitlement_decision_total'' [decision_text dec]]\<rparr>"
    let ?ttl = "if dec = Allowed then rb_entitlementTtlSeconds S else rb_negativeTtlSeconds S"
    have "?ttl \<le> longest_ttl S" by (simp add: longest_ttl_def le_max_iff_disj)
    with store_answer_run [of "rb_cache S" "key_of q" result ?ttl ?v] but_metrics_fields [OF that] r show ?thesis
      by (cases ?use) (auto simp: run_simps metric_defs stored_def)
  qed
  from check_run [where w = w and use = ?use and cache = "rb_cache S" and kind = "''ent''", OF this]
  obtain j w' where c: "ask S q w = (Inr j, w')" "db w' = db w" "clock w' = clock w"
    "cached_now w q j \<and> redis w' = redis w \<or> j = result \<and> stored S q result w w'"
    unfolding Entitle ask.simps key_of.simps RBACService_entitlementCheck_def Let_def by blast
  then show ?thesis using r by (auto simp: Entitle)
qed
section \<open>The service over time\<close>

text \<open>
  How a world with the service can have come about: from one without entries of the cache, by
  checks, changes of the database, time passing and invalidations. \<open>H\<close> collects the instants it
  went through with the database of each.
\<close>

inductive rbac_trace :: "rbac_service \<Rightarrow> world \<Rightarrow> (time \<times> database) set \<Rightarrow> bool" for S where
  fresh_start: "\<forall>key. starts_with key ''rbac:v1:'' \<longrightarrow> redis w key = None \<Longrightarrow> values_ok (db w) \<Longrightarrow>
    rbac_trace S w {(clock w, db w)}"
| check: "rbac_trace S w H \<Longrightarrow> plain_request q \<Longrightarrow> rbac_trace S (snd (ask S q w)) H"
| change: "rbac_trace S w H \<Longrightarrow> values_ok d \<Longrightarrow> rbac_trace S (w\<lparr>db := d\<rparr>) (insert (clock w, d) H)"
| pass_time: "rbac_trace S w H \<Longrightarrow>
    rbac_trace S (w\<lparr>clock := clock w + int n\<rparr>) (insert (clock w + int n, db w) H)"
| drop_user: "rbac_trace S w H \<Longrightarrow> rbac_trace S (snd (invalidateUserCache S u w)) H"
| drop_all: "rbac_trace S w H \<Longrightarrow> rbac_trace S (snd (invalidateAllCache S w)) H"

text \<open>Every entry of the cache is what the database said when it was stored.\<close>

definition entry_of :: "rbac_service \<Rightarrow> (time \<times> database) set \<Rightarrow> string \<Rightarrow> string \<Rightarrow> time option \<Rightarrow> bool" where
  "entry_of S H key text e \<longleftrightarrow> (\<exists>q t d ttl. plain_request q \<and> key = key_of q \<and> (t, d) \<in> H \<and> values_ok d \<and>
     text = stringify (answer t d q) \<and> e = Some (t + ttl * 1000) \<and> ttl \<le> longest_ttl S)"

definition cache_ok :: "rbac_service \<Rightarrow> world \<Rightarrow> (time \<times> database) set \<Rightarrow> bool" where
  "cache_ok S w H \<longleftrightarrow> values_ok (db w) \<and> (clock w, db w) \<in> H \<and> (\<forall>(t, d) \<in> H. t \<le> clock w) \<and>
     (\<forall>key text e. starts_with key ''rbac:v1:'' \<longrightarrow> redis w key = Some (text, e) \<longrightarrow> entry_of S H key text e)"

lemma key_prefix: "starts_with (key_of q) ''rbac:v1:''"
  by (cases q) (simp_all add: buildAuthorizationCacheKey_def buildEntitlementCacheKey_def starts_with_def)

lemma answer_ok: "values_ok d \<Longrightarrow> json_ok (answer t d q)"
proof (cases q)
  case (Entitle a)
  assume v: "values_ok d"
  have "json_ok (en_value r)" if "findEntitlement d t u k cx = Some (r, s)" for r s u k cx
  proof -
    have "r \<in> set (entitlements d)"
      using that by (auto simp: findEntitlement_def user_entitlements_def group_entitlements_def rows_of_organization_def
          split: option.splits if_splits dest!: first_row_in)
    with v show ?thesis by (simp add: values_ok_def)
  qed
  then show ?thesis
    by (auto simp: Entitle entitlement_decision_def json_number_def split: option.splits js_number.splits)
qed (simp add: authorization_result_def Let_def)

lemma entry_more: "entry_of S H key text e \<Longrightarrow> entry_of S (insert x H) key text e"
  unfolding entry_of_def by blast

lemma fewer_entries:
  assumes "cache_ok S w H" and "db w' = db w" and "clock w' = clock w"
    and "\<And>key. redis w' key = redis w key \<or> redis w' key = None"
  shows "cache_ok S w' H"
  using assms(1) unfolding cache_ok_def assms(2,3) by (metis assms(4) option.distinct(1))

lemma drop_prefix:
  assumes "cache_deleteByPrefix cache p w = (r, w')"
  shows "db w' = db w \<and> clock w' = clock w \<and> (\<forall>key. redis w' key = redis w key \<or> redis w' key = None)"
  using assms by (cases cache) (auto simp: throw_run modify_run ret_run split: if_splits)

lemma drop_keys:
  "for_each ps (cache_deleteByPrefix cache) w = (r, w') \<Longrightarrow>
    db w' = db w \<and> clock w' = clock w \<and> (\<forall>key. redis w' key = redis w key \<or> redis w' key = None)"
proof (induction ps arbitrary: w)
  case (Cons p ps)
  obtain a v where v: "cache_deleteByPrefix cache p w = (a, v)" by (cases "cache_deleteByPrefix cache p w")
  note d = drop_prefix [OF v]
  show ?case
  proof (cases a)
    case (Inl e)
    with Cons.prems v d show ?thesis by (simp add: bind_run)
  next
    case (Inr u)
    with Cons.prems v have "for_each ps (cache_deleteByPrefix cache) v = (r, w')" by (simp add: bind_run)
    from Cons.IH [OF this] d show ?thesis by metis
  qed
qed (simp add: ret_run)

lemma invalidate_ok:
  assumes "cache_ok S w H"
  shows "cache_ok S (snd (invalidate cache target ps w)) H"
proof -
  obtain r v where v: "for_each ps (cache_deleteByPrefix cache) w = (r, v)" by (cases "for_each ps (cache_deleteByPrefix cache) w")
  obtain w' where w': "snd (invalidate cache target ps w) = w'" "but_metrics v w'"
    by (cases r) (auto simp: invalidate_def try_catch_run bind_run v metric_defs emit_run ret_run but_metrics_def)
  show ?thesis unfolding w'(1)
    by (rule fewer_entries [OF assms]) (use drop_keys [OF v] but_metrics_fields [OF w'(2)] in auto)
qed

lemma ask_ok:
  assumes "cache_ok S w H" and "plain_request q"
  shows "cache_ok S (snd (ask S q w)) H"
proof -
  from ask_run [of S q w] obtain j w' where w': "ask S q w = (Inr j, w')" "db w' = db w" "clock w' = clock w"
    and r: "redis w' = redis w \<or> j = answer (clock w) (db w) q \<and> stored S q j w w'" by blast
  have new: "entry_of S H (key_of q) (stringify (answer (clock w) (db w) q)) (Some (clock w + ttl * 1000))"
    if "ttl \<le> longest_ttl S" for ttl
    unfolding entry_of_def using assms that unfolding cache_ok_def by blast
  have "entry_of S H key s e"
    if pre: "starts_with key ''rbac:v1:''" and at: "redis w' key = Some (s, e)" for key s e
  proof (cases "redis w' key = redis w key")
    case True
    with pre at assms(1) show ?thesis unfolding cache_ok_def by metis
  next
    case False
    with r obtain ttl where "ttl \<le> longest_ttl S" "key = key_of q" "s = stringify (answer (clock w) (db w) q)"
      "e = Some (clock w + ttl * 1000)"
      using at unfolding stored_def by (auto split: if_splits)
    with new show ?thesis by simp
  qed
  then show ?thesis using assms(1) w' unfolding cache_ok_def by simp
qed

lemma trace_ok: "rbac_trace S w H \<Longrightarrow> cache_ok S w H"
proof (induction rule: rbac_trace.induct)
  case (fresh_start w)
  then show ?case by (auto simp: cache_ok_def)
next
  case (check w H q)
  then show ?case by (intro ask_ok)
next
  case (change w H d)
  then show ?case by (auto simp: cache_ok_def intro: entry_more)
next
  case (pass_time w H n)
  then show ?case by (fastforce simp: cache_ok_def intro: entry_more)
next
  case (drop_user w H u)
  then show ?case by (simp add: invalidateUserCache_def invalidate_ok)
next
  case (drop_all w H)
  then show ?case by (simp add: invalidateAllCache_def invalidate_ok)
qed

text \<open>
  C18: A cached decision is at most one time to live old, when no request ever had a colon or white
  space in its parts: after any sequence of checks of such requests, changes of the database and
  waiting, a check of such a request returns an answer the database gave to that very request at an
  instant within the longest time to live before now. In particular, when nothing changed in that time,
  the cache makes no difference. Requests with colons can share a key (\<open>colliding_requests\<close>).
\<close>

theorem rbac_answers_recent:
  assumes "rbac_trace S w H" and "plain_request q" and "0 < longest_ttl S"
  shows "\<exists>t d. (t, d) \<in> H \<and> fst (ask S q w) = Inr (answer t d q) \<and>
    clock w - longest_ttl S * 1000 < t \<and> t \<le> clock w"
proof -
  have ok: "cache_ok S w H" using assms(1) by (rule trace_ok)
  from ask_run [of S q w] obtain j w' where j: "ask S q w = (Inr j, w')"
    and c: "cached_now w q j \<or> j = answer (clock w) (db w) q" by blast
  from c show ?thesis
  proof
    assume "j = answer (clock w) (db w) q"
    with ok j assms(3) show ?thesis unfolding cache_ok_def by (intro exI [of _ "clock w"] exI [of _ "db w"]) simp
  next
    assume "cached_now w q j"
    then obtain s e where l: "redis_live w (key_of q) = Some (s, e)" "json_parse s = Some j"
      unfolding cached_now_def by blast
    then have "redis w (key_of q) = Some (s, e)" by (auto simp: redis_live_def split: option.splits if_splits)
    with ok key_prefix [of q] have "entry_of S H (key_of q) s e" unfolding cache_ok_def by blast
    then obtain p t d ttl where p: "plain_request p" "key_of q = key_of p" "(t, d) \<in> H" "values_ok d"
      "s = stringify (answer t d p)" "e = Some (t + ttl * 1000)" "ttl \<le> longest_ttl S"
      unfolding entry_of_def by blast
    have "p = q" by (rule key_of_inj [OF p(1) assms(2) p(2) [symmetric]])
    with l(2) p(4,5) have "j = answer t d q" using json_parse_stringify [OF answer_ok] by simp
    moreover have "clock w < t + ttl * 1000" using l(1) p(6) by (auto simp: redis_live_def split: option.splits if_splits)
    then have "clock w - longest_ttl S * 1000 < t" using p(7) by linarith
    moreover have "t \<le> clock w" using ok p(3) unfolding cache_ok_def by blast
    ultimately show ?thesis using p(3) j by auto
  qed
qed
section \<open>Requests that share a key\<close>

text \<open>
  The condition on the requests is needed: a colon in a resource is written as an underscore, so a
  request for \<open>a:b\<close> is answered from the entry of one for \<open>a_b\<close>, another permission.
\<close>

lemma colliding_requests:
  "buildAuthorizationCacheKey \<lparr>aq_userId = u, aq_action = k, aq_resource = ''a:b'', aq_context = cx\<rparr> =
     buildAuthorizationCacheKey \<lparr>aq_userId = u, aq_action = k, aq_resource = ''a_b'', aq_context = cx\<rparr> \<and>
   snd (authorization_result d \<lparr>aq_userId = u, aq_action = k, aq_resource = ''a:b'', aq_context = cx\<rparr>) \<noteq>
     snd (authorization_result d \<lparr>aq_userId = u, aq_action = k, aq_resource = ''a_b'', aq_context = cx\<rparr>)"
  by (simp add: buildAuthorizationCacheKey_def normalizeKeyPart_def js_trim_def js_space_def authorization_result_def Let_def)

definition sample_service :: rbac_service where
  "sample_service = \<lparr>rb_cache = RedisRBACCache True, rb_cacheEnabled = True, rb_cachePercent = 100,
     rb_authTtlSeconds = 60, rb_entitlementTtlSeconds = 60, rb_negativeTtlSeconds = 30\<rparr>"

definition sample_request :: rbac_request where
  "sample_request = Authorize \<lparr>aq_userId = 1, aq_action = ''read'', aq_resource = ''doc'',
     aq_context = \<lparr>cx_organizationId = None, cx_groupId = None\<rparr>\<rparr>"

theorem rbac_answers_recent_witness:
  "\<exists>t d. (t, d) \<in> {(31000, sample_db), (1000, sample_db)} \<and>
    fst (ask sample_service sample_request ((snd (ask sample_service sample_request (sample_world sample_db)))\<lparr>clock := 31000\<rparr>)) =
      Inr (answer t d sample_request) \<and> 31000 - 60000 < t \<and> t \<le> 31000"
proof -
  let ?w = "snd (ask sample_service sample_request (sample_world sample_db))"
  have p: "plain_request sample_request"
    by (simp add: sample_request_def uuid_ok_def plain_text_def js_space_def context_ok_def opt_uuid_ok_def)
  have "rbac_trace sample_service (sample_world sample_db) {(1000, sample_db)}"
    using fresh_start [of "sample_world sample_db" sample_service] by (simp add: values_ok_def sample_db_def empty_database_def)
  then have t: "rbac_trace sample_service ?w {(1000, sample_db)}" by (rule check) (rule p)
  have w: "clock ?w = 1000" "db ?w = sample_db" using ask_run [of sample_service sample_request "sample_world sample_db"] by auto
  have "rbac_trace sample_service (?w\<lparr>clock := 31000\<rparr>) {(31000, sample_db), (1000, sample_db)}"
    using pass_time [OF t, of 30000] w by simp
  from rbac_answers_recent [OF this p] show ?thesis by (simp add: longest_ttl_def sample_service_def)
qed

end
