(* ===== verification/IdpRepositories.thy ===== *)
theory IdpRepositories
  imports AuthCoreAccounts
begin

text \<open>
  The repositories of apps/idp-server/src/modules the authentication service works on:
  sessions/session.repository.ts, auth/auth.repository.ts, auth/verification.repository.ts,
  users/user.repository.ts and users/identity.repository.ts. A method is named by its class and
  its own name. Reads are functions of the database, writes are actions; an action on a
  caller's transaction is the same action inside that caller's \<open>transaction\<close>.
\<close>

section \<open>SessionRepository\<close>

text \<open>A session row joined with the status of its user.\<close>

type_synonym session_status = "session_row \<times> string"

definition with_status :: "database \<Rightarrow> (session_row \<Rightarrow> bool) \<Rightarrow> session_status option" where
  "with_status d p = first_row
     [(s, u_status u). s \<leftarrow> userSessions d, p s, u \<leftarrow> users d, u_id u = us_userId s]"

definition SessionRepository_findById :: "database \<Rightarrow> uuid \<Rightarrow> session_row option" where
  "SessionRepository_findById d i = List.find (\<lambda>s. us_id s = i) (userSessions d)"

definition findByAccessTokenHash :: "database \<Rightarrow> time \<Rightarrow> string \<Rightarrow> session_status option" where
  "findByAccessTokenHash d t hash = with_status d (live_access t hash)"

definition findByAccessTokenHashAny :: "database \<Rightarrow> string \<Rightarrow> session_status option" where
  "findByAccessTokenHashAny d hash = with_status d (\<lambda>s. us_accessTokenHash s = hash)"

definition findByRefreshTokenHash :: "database \<Rightarrow> time \<Rightarrow> string \<Rightarrow> session_status option" where
  "findByRefreshTokenHash d t hash = with_status d (live_refresh t hash)"

record session_input =
  si_userId :: uuid
  si_accessTokenHash :: string
  si_refreshTokenHash :: string
  si_expiresAt :: time
  si_refreshExpiresAt :: time
  si_ipAddress :: "string option"
  si_userAgent :: "string option"

definition SessionRepository_create :: "session_input \<Rightarrow> session_row io" where
  "SessionRepository_create i = bind draw_uuid (\<lambda>n. bind now (\<lambda>t.
     let s = \<lparr>us_id = n, us_userId = si_userId i, us_accessTokenHash = si_accessTokenHash i,
        us_refreshTokenHash = si_refreshTokenHash i, us_ipAddress = si_ipAddress i,
        us_userAgent = si_userAgent i, us_expiresAt = si_expiresAt i,
        us_refreshExpiresAt = si_refreshExpiresAt i, us_revokedAt = None, us_lastSeenAt = t,
        us_createdAt = t\<rparr>
     in bind (insert_session s) (\<lambda>_. ret s)))"

definition rotate_target :: "uuid \<Rightarrow> string \<Rightarrow> session_row \<Rightarrow> bool" where
  "rotate_target sessionId hash s \<longleftrightarrow>
     us_id s = sessionId \<and> us_refreshTokenHash s = hash \<and> us_revokedAt s = None"

text \<open>The answer is whether a row was updated.\<close>

definition rotateTokens :: "uuid \<Rightarrow> string \<Rightarrow> string \<Rightarrow> string \<Rightarrow> time \<Rightarrow> time \<Rightarrow> bool io" where
  "rotateTokens sessionId currentRefreshTokenHash accessHash refreshHash expiresAt refreshExpiresAt =
     bind now (\<lambda>t.
     bind (read_db (\<lambda>d. filter (rotate_target sessionId currentRefreshTokenHash) (userSessions d))) (\<lambda>updated.
     bind (update_unique userSessions userSessions_update uniq_sessions
            (rotate_target sessionId currentRefreshTokenHash)
            (\<lambda>s. s\<lparr>us_accessTokenHash := accessHash, us_refreshTokenHash := refreshHash,
                   us_expiresAt := expiresAt, us_refreshExpiresAt := refreshExpiresAt,
                   us_lastSeenAt := t\<rparr>)) (\<lambda>_.
     ret (updated \<noteq> []))))"

definition updateLastSeen :: "uuid \<Rightarrow> unit io" where
  "updateLastSeen sessionId = bind now (\<lambda>t. update_rows userSessions_update
     (\<lambda>s. us_id s = sessionId) (\<lambda>s. s\<lparr>us_lastSeenAt := t\<rparr>))"

definition SessionRepository_revoke :: "uuid \<Rightarrow> unit io" where
  "SessionRepository_revoke sessionId = bind now (\<lambda>t. update_rows userSessions_update
     (\<lambda>s. us_id s = sessionId) (revoke_session_row t))"

definition findAllByUserId :: "database \<Rightarrow> uuid \<Rightarrow> session_row list" where
  "findAllByUserId d userId = order_desc us_createdAt (filter (live_of_user userId) (userSessions d))"

definition findLatestByUserId :: "database \<Rightarrow> uuid \<Rightarrow> session_row option" where
  "findLatestByUserId d userId = first_row (order_desc (\<lambda>s. (us_lastSeenAt s, us_createdAt s))
     (filter (\<lambda>s. us_userId s = userId) (userSessions d)))"

definition hasSeenUserAgent :: "database \<Rightarrow> uuid \<Rightarrow> string \<Rightarrow> bool" where
  "hasSeenUserAgent d userId userAgent =
     list_ex (\<lambda>s. us_userId s = userId \<and> us_userAgent s = Some userAgent) (userSessions d)"

definition revokeAllByUserId :: "uuid \<Rightarrow> unit io" where
  "revokeAllByUserId userId = bind now (\<lambda>t. update_rows userSessions_update
     (live_of_user userId) (revoke_session_row t))"

section \<open>AuthRepository\<close>

definition recordAttempt :: "string \<Rightarrow> bool \<Rightarrow> string option \<Rightarrow> unit io" where
  "recordAttempt email success ipAddress =
     insert_attempt email success (if success then ''ok'' else ''invalid_credentials'') ipAddress"

definition countFailedAttemptsByIpSince :: "database \<Rightarrow> string \<Rightarrow> time \<Rightarrow> nat" where
  "countFailedAttemptsByIpSince d ipAddress since = length (filter
     (\<lambda>r. \<not> la_success r \<and> la_ipAddress r = Some ipAddress \<and> since < la_createdAt r) (loginAttempts d))"

section \<open>VerificationRepository\<close>

definition findEmailToken :: "database \<Rightarrow> time \<Rightarrow> string \<Rightarrow> token_row option" where
  "findEmailToken d t hash = List.find (usable_token t hash) (emailVerificationTokens d)"

definition findPasswordResetToken :: "database \<Rightarrow> time \<Rightarrow> string \<Rightarrow> token_row option" where
  "findPasswordResetToken d t hash = List.find (usable_token t hash) (passwordResetTokens d)"

definition unconsumed :: "uuid \<Rightarrow> token_row \<Rightarrow> bool" where
  "unconsumed i r \<longleftrightarrow> tk_id r = i \<and> tk_consumedAt r = None"

definition consumeEmailToken :: "uuid \<Rightarrow> bool io" where
  "consumeEmailToken i = bind now (\<lambda>t.
     bind (read_db (\<lambda>d. filter (unconsumed i) (emailVerificationTokens d))) (\<lambda>updated.
     bind (update_rows emailVerificationTokens_update (unconsumed i) (consume_row t)) (\<lambda>_.
     ret (updated \<noteq> []))))"

definition consumePasswordToken :: "uuid \<Rightarrow> bool io" where
  "consumePasswordToken i = bind now (\<lambda>t.
     bind (read_db (\<lambda>d. filter (unconsumed i) (passwordResetTokens d))) (\<lambda>updated.
     bind (update_rows passwordResetTokens_update (unconsumed i) (consume_row t)) (\<lambda>_.
     ret (updated \<noteq> []))))"

text \<open>One statement finds and consumes the token; the answer is the user it belongs to.\<close>

definition consumeValidEmailTokenByHash :: "string \<Rightarrow> uuid option io" where
  "consumeValidEmailTokenByHash tokenHash = bind now (\<lambda>t.
     bind (read_db (\<lambda>d. filter (usable_token t tokenHash) (emailVerificationTokens d))) (\<lambda>updated.
     bind (update_rows emailVerificationTokens_update (usable_token t tokenHash) (consume_row t)) (\<lambda>_.
     ret (map_option tk_userId (first_row updated)))))"

definition consumeValidPasswordTokenByHash :: "string \<Rightarrow> uuid option io" where
  "consumeValidPasswordTokenByHash tokenHash = bind now (\<lambda>t.
     bind (read_db (\<lambda>d. filter (usable_token t tokenHash) (passwordResetTokens d))) (\<lambda>updated.
     bind (update_rows passwordResetTokens_update (usable_token t tokenHash) (consume_row t)) (\<lambda>_.
     ret (map_option tk_userId (first_row updated)))))"

definition createEmailToken :: "uuid \<Rightarrow> string \<Rightarrow> time \<Rightarrow> unit io" where
  "createEmailToken userId tokenHash expiresAt = insert_email_token userId tokenHash expiresAt"

definition createPasswordToken :: "uuid \<Rightarrow> string \<Rightarrow> time \<Rightarrow> unit io" where
  "createPasswordToken userId tokenHash expiresAt = insert_reset_token userId tokenHash expiresAt"

section \<open>UserRepository\<close>

record user_view =
  uv_id :: uuid
  uv_status :: string
  uv_email :: "string option"
  uv_emailVerified :: "bool option"
  uv_profile :: "profile_row option"
  uv_createdAt :: time

text \<open>LEFT JOIN: a user without a matching row appears once, with NULLs.\<close>

definition left_join :: "'a list \<Rightarrow> 'a option list" where
  "left_join rs = (if rs = [] then [None] else map Some rs)"

definition UserRepository_findById :: "database \<Rightarrow> uuid \<Rightarrow> user_view option" where
  "UserRepository_findById d i = first_row
     [\<lparr>uv_id = u_id u, uv_status = u_status u, uv_email = map_option em_email e,
       uv_emailVerified = map_option em_isVerified e, uv_profile = p, uv_createdAt = u_createdAt u\<rparr>.
      u \<leftarrow> users d, u_id u = i,
      e \<leftarrow> left_join (filter (\<lambda>e. em_userId e = u_id u) (userEmails d)),
      p \<leftarrow> left_join (filter (\<lambda>p. pf_userId p = u_id u) (userProfiles d))]"

record credentials =
  uc_id :: uuid
  uc_status :: string
  uc_passwordHash :: string
  uc_isVerified :: bool

definition findWithPasswordById :: "database \<Rightarrow> uuid \<Rightarrow> (uuid \<times> string \<times> string) option" where
  "findWithPasswordById d i = first_row
     [(u_id u, u_status u, pw_passwordHash p). u \<leftarrow> users d, u_id u = i,
      p \<leftarrow> userPasswords d, pw_userId p = u_id u]"

definition findByEmail :: "database \<Rightarrow> string \<Rightarrow> (user_row \<times> email_row) option" where
  "findByEmail d email = first_row
     [(u, e). e \<leftarrow> userEmails d, em_email e = email, u \<leftarrow> users d, u_id u = em_userId e]"

definition findWithPasswordByEmail :: "database \<Rightarrow> string \<Rightarrow> credentials option" where
  "findWithPasswordByEmail d email = first_row
     [\<lparr>uc_id = u_id u, uc_status = u_status u, uc_passwordHash = pw_passwordHash p,
       uc_isVerified = em_isVerified e\<rparr>.
      e \<leftarrow> userEmails d, em_email e = email, u \<leftarrow> users d, u_id u = em_userId e,
      p \<leftarrow> userPasswords d, pw_userId p = u_id u]"

text \<open>The unique index on the lower-case preferred user names leaves out the NULLs.\<close>

definition username_key :: "profile_row \<Rightarrow> string option" where
  "username_key p = map_option to_lower (pf_preferredUsername p)"

definition uniq_profiles :: "profile_row list \<Rightarrow> bool" where
  "uniq_profiles rs \<longleftrightarrow> distinct (map pf_userId rs) \<and> distinct (List.map_filter username_key rs)"

definition insert_profile :: "uuid \<Rightarrow> string \<Rightarrow> unit io" where
  "insert_profile userId displayName = bind now (\<lambda>t.
     insert_row userProfiles userProfiles_update uniq_profiles (\<lambda>d r. user_exists d (pf_userId r))
       \<lparr>pf_userId = userId, pf_displayName = Some displayName, pf_givenName = None,
        pf_familyName = None, pf_preferredUsername = None, pf_locale = None, pf_zoneinfo = None,
        pf_updatedAt = t\<rparr>)"

definition UserRepository_create :: "string \<Rightarrow> string \<Rightarrow> string option \<Rightarrow> string \<Rightarrow> uuid io" where
  "UserRepository_create email passwordHash displayName status = transaction (
     bind (insert_user status) (\<lambda>userId.
     bind (insert_email userId email False) (\<lambda>_.
     bind (insert_password userId passwordHash) (\<lambda>_.
     bind (whenever (truthy displayName) (insert_profile userId (the displayName))) (\<lambda>_.
     ret userId)))))"

definition createWithoutPassword :: "string \<Rightarrow> bool \<Rightarrow> string \<Rightarrow> uuid io" where
  "createWithoutPassword email emailVerified status = transaction (
     bind (insert_user status) (\<lambda>userId.
     bind (insert_email userId email emailVerified) (\<lambda>_. ret userId)))"

definition UserRepository_update :: "uuid \<Rightarrow> bool option \<Rightarrow> string option \<Rightarrow> unit io" where
  "UserRepository_update userId emailVerified passwordHash = transaction (
     bind (case emailVerified of None \<Rightarrow> ret () | Some v \<Rightarrow>
             update_rows userEmails_update (\<lambda>e. em_userId e = userId) (\<lambda>e. e\<lparr>em_isVerified := v\<rparr>)) (\<lambda>_.
     case passwordHash of None \<Rightarrow> ret () | Some h \<Rightarrow> set_password userId h))"

section \<open>IdentityRepository\<close>

definition findByProvider :: "database \<Rightarrow> string \<Rightarrow> string \<Rightarrow> identity_row option" where
  "findByProvider d provider providerSubject =
     List.find (\<lambda>r. xi_provider r = provider \<and> xi_providerSubject r = providerSubject) (externalIdentities d)"

text \<open>The column default of \<open>is_email_verified\<close> is false.\<close>

definition IdentityRepository_create :: "uuid \<Rightarrow> string \<Rightarrow> string \<Rightarrow> string \<Rightarrow> unit io" where
  "IdentityRepository_create userId provider providerSubject email =
     bind draw_uuid (\<lambda>i. bind now (\<lambda>t.
     insert_row externalIdentities externalIdentities_update uniq_identities
       (\<lambda>d r. user_exists d (xi_userId r))
       \<lparr>xi_id = i, xi_userId = userId, xi_provider = provider, xi_providerSubject = providerSubject,
        xi_email = Some email, xi_isEmailVerified = False, xi_createdAt = t\<rparr>))"

definition IdentityRepository_delete :: "uuid \<Rightarrow> string \<Rightarrow> string \<Rightarrow> unit io" where
  "IdentityRepository_delete userId provider subject =
     delete_rows externalIdentities_update (\<lambda>r. xi_userId r = userId \<and> xi_provider r = provider \<and>
       xi_providerSubject r = subject)"

end
