(* ===== verification/IdpAuth.thy ===== *)
theory IdpAuth
  imports Mfa ConfigService IdpRepositories Rbac RateLimiter
begin

text \<open>
  apps/idp-server/src/modules/auth/auth.service.ts: the class \<open>AuthService\<close>, in the order of the
  source, with the helpers of core/metrics.ts it records to. A method is named
  \<open>AuthService_<method>\<close>; its dependencies are the repositories and services of the imported
  theories.
\<close>

section \<open>Sign-in risk\<close>

datatype risk_level = RiskLow | RiskMedium | RiskHigh

record risk_factor =
  rf_factor :: string
  rf_severity :: string
  rf_details :: "json option"

record adaptive_risk =
  ar_level :: risk_level
  ar_score :: nat
  ar_factors :: "risk_factor list"

definition low_risk :: adaptive_risk where
  "low_risk = \<lparr>ar_level = RiskLow, ar_score = 0, ar_factors = []\<rparr>"

fun level_text :: "risk_level \<Rightarrow> string" where
  "level_text RiskLow = ''low''"
| "level_text RiskMedium = ''medium''"
| "level_text RiskHigh = ''high''"

definition json_of_factor :: "risk_factor \<Rightarrow> json" where
  "json_of_factor f = JObj ([(''factor'', JStr (rf_factor f)), (''severity'', JStr (rf_severity f))] @
     (case rf_details f of None \<Rightarrow> [] | Some v \<Rightarrow> [(''details'', v)]))"

text \<open>\<open>value?.trim() || null\<close>.\<close>

definition trimmed :: "string option \<Rightarrow> string option" where
  "trimmed v = (case v of None \<Rightarrow> None | Some s \<Rightarrow> if js_trim s = [] then None else Some (js_trim s))"

definition buildSessionUserAgent :: "string option \<Rightarrow> string option \<Rightarrow> string option" where
  "buildSessionUserAgent userAgent deviceId =
     (case trimmed deviceId of
        None \<Rightarrow> trimmed userAgent
      | Some d \<Rightarrow> Some ((case trimmed userAgent of None \<Rightarrow> ''unknown-agent'' | Some u \<Rightarrow> u) @ '' | did:'' @ d))"

definition isIpReputationHigh :: "app_env \<Rightarrow> string option \<Rightarrow> bool" where
  "isIpReputationHigh env ipAddress =
     (truthy ipAddress \<and> the ipAddress \<in> set (ADAPTIVE_MFA_HIGH_RISK_IPS env))"

text \<open>The factors found, in the order of the checks, each with the score it adds.\<close>

definition reputation_factor :: "app_env \<Rightarrow> string option \<Rightarrow> (risk_factor \<times> nat) list" where
  "reputation_factor env ipAddress =
     (if isIpReputationHigh env ipAddress
      then [(\<lparr>rf_factor = ''ip_reputation'', rf_severity = ''high'',
              rf_details = Some (JObj [(''ipAddress'', jstr_opt ipAddress)])\<rparr>, 70)]
      else [])"

definition failures_factor :: "app_env \<Rightarrow> database \<Rightarrow> time \<Rightarrow> string option \<Rightarrow> (risk_factor \<times> nat) list" where
  "failures_factor env d t ipAddress =
     (if truthy ipAddress then
        let failedCount = countFailedAttemptsByIpSince d (the ipAddress)
              (t - ADAPTIVE_MFA_IP_FAILURE_WINDOW_SECONDS env * 1000)
        in if ADAPTIVE_MFA_IP_FAILURE_HIGH_THRESHOLD env \<le> failedCount
           then [(\<lparr>rf_factor = ''ip_reputation'', rf_severity = ''medium'',
                   rf_details = Some (JObj [(''failedCount'', jnat failedCount)])\<rparr>, 35)]
           else []
      else [])"

definition device_factor :: "database \<Rightarrow> uuid \<Rightarrow> string option \<Rightarrow> (risk_factor \<times> nat) list" where
  "device_factor d userId sessionUserAgent =
     (if truthy sessionUserAgent \<and> \<not> hasSeenUserAgent d userId (the sessionUserAgent)
      then [(\<lparr>rf_factor = ''new_device'', rf_severity = ''medium'', rf_details = None\<rparr>, 30)]
      else [])"

definition travel_factor :: "app_env \<Rightarrow> time \<Rightarrow> session_row \<Rightarrow> string option \<Rightarrow> (risk_factor \<times> nat) list" where
  "travel_factor env t latest ipAddress =
     (if truthy (us_ipAddress latest) \<and> truthy ipAddress \<and> us_ipAddress latest \<noteq> ipAddress then
        let elapsedMs = t - us_lastSeenAt latest;
            windowMs = ADAPTIVE_MFA_IMPOSSIBLE_TRAVEL_WINDOW_MINUTES env * 60 * 1000
        in if elapsedMs \<le> windowMs
           then [(\<lparr>rf_factor = ''impossible_travel'', rf_severity = ''high'',
                   rf_details = Some (JObj [(''previousIpAddress'', jstr_opt (us_ipAddress latest)),
                     (''currentIpAddress'', jstr_opt ipAddress), (''elapsedMs'', JNum elapsedMs)])\<rparr>, 45)]
           else []
      else [])"

definition level_of_score :: "nat \<Rightarrow> risk_level" where
  "level_of_score score = (if 70 \<le> score then RiskHigh else if 35 \<le> score then RiskMedium else RiskLow)"

definition risk_of :: "(risk_factor \<times> nat) list \<Rightarrow> adaptive_risk" where
  "risk_of fs = (let score = sum_list (map snd fs)
     in \<lparr>ar_level = level_of_score score, ar_score = score, ar_factors = map fst fs\<rparr>)"

definition assessAdaptiveRisk ::
    "app_env \<Rightarrow> database \<Rightarrow> time \<Rightarrow> uuid \<Rightarrow> string option \<Rightarrow> string option \<Rightarrow> adaptive_risk" where
  "assessAdaptiveRisk env d t userId ipAddress sessionUserAgent = risk_of
     (reputation_factor env ipAddress @ failures_factor env d t ipAddress @
      (case findLatestByUserId d userId of
         None \<Rightarrow> []
       | Some latest \<Rightarrow> device_factor d userId sessionUserAgent @ travel_factor env t latest ipAddress))"

definition login_risk :: "app_env \<Rightarrow> database \<Rightarrow> time \<Rightarrow> uuid \<Rightarrow> string option \<Rightarrow> string option \<Rightarrow> adaptive_risk" where
  "login_risk env d t userId ipAddress sessionUserAgent =
     (if ADAPTIVE_MFA_ENABLED env then assessAdaptiveRisk env d t userId ipAddress sessionUserAgent
      else low_risk)"

section \<open>Events and metrics\<close>

definition AuthService_createSecurityEvent :: "string \<Rightarrow> uuid option \<Rightarrow> json \<Rightarrow> unit io" where
  "AuthService_createSecurityEvent eventType userId payload =
     try_catch (createSecurityEvent eventType userId payload)
       (\<lambda>error. emit (LogLine ''failed to persist security event''
          (JObj [(''eventType'', JStr eventType), (''userId'', json_of_opt juuid userId)])))"

definition AuthService_recordSecurityEvent :: "string \<Rightarrow> uuid option \<Rightarrow> json \<Rightarrow> unit io" where
  "AuthService_recordSecurityEvent eventType userId payload =
     AuthService_createSecurityEvent eventType userId payload"

definition recordLoginResult :: "string \<Rightarrow> bool \<Rightarrow> unit io" where
  "recordLoginResult result mfaEnabled =
     emit (Metric ''auth_login_total'' [result, if mfaEnabled then ''enabled'' else ''disabled''])"

section \<open>Bot risk\<close>

text \<open>
  The watermark \<open>floor(threshold * (percent / 100))\<close> is computed in IEEE doubles. \<open>double_of n d\<close>
  is the double nearest to \<open>n / d\<close> (ties to even) as \<open>m / 2 ^ k\<close>, for \<open>n / d\<close> between
  \<open>2 ^ -11\<close> and \<open>2 ^ 53\<close>: the loop scales \<open>n\<close> up to a 53-bit quotient, which takes at most 63
  doublings there.
\<close>

definition round_half_even :: "nat \<Rightarrow> nat \<Rightarrow> nat" where
  "round_half_even n d = (let q = n div d; r = n mod d in
     if 2 * r < d then q else if d < 2 * r then q + 1 else if even q then q else q + 1)"

fun doublings :: "nat \<Rightarrow> nat \<Rightarrow> nat \<Rightarrow> nat" where
  "doublings 0 n d = 0"
| "doublings (Suc fuel) n d = (if 2 ^ 52 * d \<le> n then 0 else Suc (doublings fuel (2 * n) d))"

definition double_of :: "nat \<Rightarrow> nat \<Rightarrow> nat \<times> nat" where
  "double_of n d = (let k = doublings 64 n d in (round_half_even (n * 2 ^ k) d, k))"

definition mediumWatermark :: "app_env \<Rightarrow> int" where
  "mediumWatermark env =
     (let (ratio, k) = double_of (nat (BOT_RISK_MEDIUM_WATERMARK_PERCENT env)) 100;
          (product, k') = double_of (nat (BOT_RISK_LOGIN_THRESHOLD_PER_WINDOW env) * ratio) (2 ^ k)
      in int (product div 2 ^ k'))"

definition assessBotRiskForLogin ::
    "app_env \<Rightarrow> string \<Rightarrow> string option \<Rightarrow> string option \<Rightarrow> string option \<Rightarrow> risk_level io" where
  "assessBotRiskForLogin env endpoint email ipAddress userAgent =
     (let threshold = BOT_RISK_LOGIN_THRESHOLD_PER_WINDOW env;
          windowSeconds = BOT_RISK_WINDOW_SECONDS env
      in
      bind (rate_consume (''bot-risk:'' @ endpoint @ '':ip:'' @ (case ipAddress of None \<Rightarrow> ''unknown'' | Some i \<Rightarrow> i))
              threshold windowSeconds) (\<lambda>ipRate.
      if \<not> rl_allowed ipRate then ret RiskHigh
      else if \<not> truthy userAgent \<or> js_trim (the userAgent) = [] then ret RiskMedium
      else if truthy email then
        bind (rate_consume (''bot-risk:'' @ endpoint @ '':email:'' @ the email) threshold windowSeconds) (\<lambda>emailRate.
        if \<not> rl_allowed emailRate then ret RiskHigh
        else if rl_remaining emailRate \<le> mediumWatermark env \<or> rl_remaining ipRate \<le> mediumWatermark env
        then ret RiskMedium
        else ret RiskLow)
      else if rl_remaining ipRate \<le> mediumWatermark env then ret RiskMedium
      else ret RiskLow))"

section \<open>Multi-factor check\<close>

text \<open>The optional argument \<open>mfa\<close>; a missing object is one with no fields.\<close>

record mfa_input =
  mi_mfaCode :: "string option"
  mi_mfaFactorId :: "uuid option"
  mi_mfaRecoveryCode :: "string option"

definition mfa_required :: err where
  "mfa_required = ApiError 401 ''mfa_required'' ''MFA verification is required''"

definition enforceMfaForLogin :: "libs \<Rightarrow> app_env \<Rightarrow> uuid \<Rightarrow> string option \<Rightarrow> mfa_input \<Rightarrow> bool io" where
  "enforceMfaForLogin L env userId ipAddress mfa =
     bind (read_db (\<lambda>d. hasEnabledMfa d userId)) (\<lambda>mfaEnabled.
     if \<not> mfaEnabled then ret False
     else if truthy (mi_mfaRecoveryCode mfa) then
       bind (rate_consume (''mfa-recovery:'' @ uuid_text userId) (RATE_LIMIT_MFA_RECOVERY_PER_MIN env) 60) (\<lambda>rate.
       bind (rate_consume (''mfa-recovery-ip:'' @ (case ipAddress of None \<Rightarrow> ''unknown'' | Some i \<Rightarrow> i))
               (RATE_LIMIT_MFA_RECOVERY_PER_MIN env) 60) (\<lambda>ipRate.
       if \<not> rl_allowed rate \<or> \<not> rl_allowed ipRate then
         throw (ApiError 429 ''rate_limited'' ''Too many MFA recovery attempts'')
       else bind (consumeCode L env userId (the (mi_mfaRecoveryCode mfa))) (\<lambda>_. ret True)))
     else if truthy (mi_mfaCode mfa) \<and> mi_mfaFactorId mfa \<noteq> None then
       bind (MfaService_verifyMfa 0 L env userId (the (mi_mfaFactorId mfa)) (the (mi_mfaCode mfa)) False)
         (\<lambda>_. ret True)
     else throw mfa_required)"

section \<open>Sessions\<close>

record session_tokens =
  ss_sessionId :: uuid
  ss_accessToken :: string
  ss_refreshToken :: string
  ss_accessExpiresAt :: string
  ss_refreshExpiresAt :: string

definition AuthService_createSession ::
    "libs \<Rightarrow> app_env \<Rightarrow> uuid \<Rightarrow> string option \<Rightarrow> string option \<Rightarrow> session_tokens io" where
  "AuthService_createSession L env userId ipAddress userAgent =
     bind (createOpaqueToken ''at'') (\<lambda>accessToken.
     bind (createOpaqueToken ''rt'') (\<lambda>refreshToken.
     bind now (\<lambda>t.
     let expiresAt = t + ACCESS_TOKEN_TTL_SECONDS env * 1000;
         refreshExpiresAt = t + REFRESH_TOKEN_TTL_SECONDS env * 1000
     in
     bind (SessionRepository_create \<lparr>si_userId = userId,
            si_accessTokenHash = hashOpaqueToken L accessToken,
            si_refreshTokenHash = hashOpaqueToken L refreshToken,
            si_expiresAt = expiresAt, si_refreshExpiresAt = refreshExpiresAt,
            si_ipAddress = ipAddress, si_userAgent = userAgent\<rparr>) (\<lambda>session.
     ret \<lparr>ss_sessionId = us_id session, ss_accessToken = accessToken, ss_refreshToken = refreshToken,
          ss_accessExpiresAt = iso_string L expiresAt,
          ss_refreshExpiresAt = iso_string L refreshExpiresAt\<rparr>))))"

section \<open>Signup\<close>

text \<open>The answer is the user's id and the verification token.\<close>

definition AuthService_signup :: "libs \<Rightarrow> string \<Rightarrow> string \<Rightarrow> string \<Rightarrow> (uuid \<times> string) io" where
  "AuthService_signup L email password displayName =
     bind (read_db (\<lambda>d. findByEmail d email)) (\<lambda>existing.
     if existing \<noteq> None then throw (ApiError 409 ''email_exists'' ''Email already registered'')
     else
     bind (hashPassword L password) (\<lambda>passwordHash.
     bind (UserRepository_create email passwordHash (Some displayName) ''active'') (\<lambda>userId.
     bind (createOpaqueToken ''ev'') (\<lambda>verificationToken.
     bind now (\<lambda>t.
     bind (createEmailToken userId (hashOpaqueToken L verificationToken) (t + 24 * 60 * 60 * 1000)) (\<lambda>_.
     ret (userId, verificationToken)))))))"

section \<open>Login\<close>

record login_success =
  ls_userId :: uuid
  ls_session :: session_tokens
  ls_mfaEnabled :: bool
  ls_adaptiveRisk :: adaptive_risk

text \<open>The two successful answers of a login: the second factor is asked for, or a session exists.\<close>

datatype login_outcome = MfaRequired uuid "adaptive_risk option" | LoggedIn login_success

definition invalid_credentials :: err where
  "invalid_credentials = ApiError 401 ''invalid_credentials'' ''Invalid email or password''"

definition method_conflict :: "mfa_input \<Rightarrow> bool" where
  "method_conflict mfa \<longleftrightarrow> truthy (mi_mfaCode mfa) \<and> truthy (mi_mfaRecoveryCode mfa)"

definition no_method :: "mfa_input \<Rightarrow> bool" where
  "no_method mfa \<longleftrightarrow> \<not> truthy (mi_mfaCode mfa) \<and> \<not> truthy (mi_mfaRecoveryCode mfa)"

definition risk_payload :: "(string \<times> json) list \<Rightarrow> string option \<Rightarrow> adaptive_risk \<Rightarrow> json" where
  "risk_payload fs ipAddress risk = JObj (fs @ [(''ipAddress'', jstr_opt ipAddress),
     (''score'', jnat (ar_score risk)), (''factors'', JArr (map json_of_factor (ar_factors risk)))])"

definition success_payload :: "(string \<times> json) list \<Rightarrow> string option \<Rightarrow> bool \<Rightarrow> adaptive_risk \<Rightarrow> json" where
  "success_payload fs ipAddress mfaEnabled risk = JObj (fs @ [(''ipAddress'', jstr_opt ipAddress),
     (''mfaEnabled'', JBool mfaEnabled), (''adaptiveRiskLevel'', JStr (level_text (ar_level risk))),
     (''adaptiveRiskScore'', jnat (ar_score risk)),
     (''adaptiveRiskFactors'', JArr (map json_of_factor (ar_factors risk)))])"

definition mfa_pending :: "uuid \<Rightarrow> adaptive_risk \<Rightarrow> login_outcome" where
  "mfa_pending userId risk = MfaRequired userId (if ar_level risk \<noteq> RiskLow then Some risk else None)"

text \<open>The end of a login: MFA, then the session and its event.\<close>

definition finish_login ::
    "libs \<Rightarrow> app_env \<Rightarrow> string \<Rightarrow> uuid \<Rightarrow> string option \<Rightarrow> string option \<Rightarrow> mfa_input \<Rightarrow> bool \<Rightarrow>
     adaptive_risk \<Rightarrow> login_outcome io" where
  "finish_login L env email userId ipAddress sessionUserAgent mfa mfaEnabled risk =
     (if mfaEnabled \<and> no_method mfa then ret (mfa_pending userId risk)
      else
      bind (whenever mfaEnabled (bind (enforceMfaForLogin L env userId ipAddress mfa) (\<lambda>_. ret ()))) (\<lambda>_.
      bind (AuthService_createSession L env userId ipAddress sessionUserAgent) (\<lambda>session.
      bind (recordLoginResult ''success'' mfaEnabled) (\<lambda>_.
      bind (AuthService_createSecurityEvent ''login.success'' (Some userId)
              (success_payload [(''email'', JStr email)] ipAddress mfaEnabled risk)) (\<lambda>_.
      ret (LoggedIn \<lparr>ls_userId = userId, ls_session = session, ls_mfaEnabled = mfaEnabled,
             ls_adaptiveRisk = risk\<rparr>))))))"

text \<open>The decisions of the adaptive policy, after the password was accepted.\<close>

definition login_active ::
    "libs \<Rightarrow> app_env \<Rightarrow> string \<Rightarrow> uuid \<Rightarrow> string option \<Rightarrow> string option \<Rightarrow> mfa_input \<Rightarrow> string option \<Rightarrow>
     login_outcome io" where
  "login_active L env email userId ipAddress userAgent mfa deviceId =
     bind (read_db (\<lambda>d. hasEnabledMfa d userId)) (\<lambda>mfaEnabled.
     let sessionUserAgent = buildSessionUserAgent userAgent deviceId in
     bind now (\<lambda>t.
     bind (read_db (\<lambda>d. login_risk env d t userId ipAddress sessionUserAgent)) (\<lambda>risk.
     if ar_level risk = RiskHigh then
       bind (AuthService_createSecurityEvent ''adaptive_mfa.blocked'' (Some userId)
               (risk_payload [(''email'', JStr email)] ipAddress risk)) (\<lambda>_.
       throw (ApiError 403 ''adaptive_mfa_blocked'' ''Request blocked by adaptive risk policy''))
     else if ar_level risk = RiskMedium \<and> \<not> mfaEnabled \<and> ADAPTIVE_MFA_REQUIRE_FOR_MEDIUM env then
       bind (AuthService_createSecurityEvent ''adaptive_mfa.enrollment_required'' (Some userId)
               (risk_payload [(''email'', JStr email)] ipAddress risk)) (\<lambda>_.
       throw (ApiError 401 ''adaptive_mfa_enrollment_required'' ''MFA enrollment is required for this login''))
     else finish_login L env email userId ipAddress sessionUserAgent mfa mfaEnabled risk)))"

text \<open>The password is checked for the user found; \<open>verifyPassword\<close> rejects when argon2 does.\<close>

definition check_login :: "libs \<Rightarrow> string \<Rightarrow> string \<Rightarrow> credentials option io" where
  "check_login L email password =
     bind (read_db (\<lambda>d. findWithPasswordByEmail d email)) (\<lambda>found.
     case found of
       None \<Rightarrow> ret None
     | Some user \<Rightarrow> bind (verifyPassword_io L password (uc_passwordHash user)) (\<lambda>isValidPassword.
         ret (if isValidPassword then Some user else None)))"

text \<open>Its answer, where it answers.\<close>

definition valid_login :: "libs \<Rightarrow> database \<Rightarrow> string \<Rightarrow> string \<Rightarrow> credentials option" where
  "valid_login L d email password = (case findWithPasswordByEmail d email of
     None \<Rightarrow> None
   | Some user \<Rightarrow> if verifyPassword L password (uc_passwordHash user) then Some user else None)"

lemma check_login_cases:
  obtains "check_login L email password w = (Inr (valid_login L (db w) email password), w)"
  | m where "check_login L email password w = (Inl (PlainError m), w)"
proof -
  have "check_login L email password w = (Inr (valid_login L (db w) email password), w) \<or>
      (\<exists>m. check_login L email password w = (Inl (PlainError m), w))"
    by (auto simp: check_login_def valid_login_def verifyPassword_io_def verifyPassword_def read_db_def bind_run run_simps
        split: option.split)
  then show thesis using that by blast
qed

definition AuthService_login ::
    "libs \<Rightarrow> app_env \<Rightarrow> string \<Rightarrow> string \<Rightarrow> string option \<Rightarrow> string option \<Rightarrow> mfa_input \<Rightarrow> string option \<Rightarrow>
     login_outcome io" where
  "AuthService_login L env email password ipAddress userAgent mfa deviceId =
     (if method_conflict mfa then
        throw (ApiError 400 ''mfa_method_conflict'' ''Use either MFA code or recovery code'')
      else
      bind (check_login L email password) (\<lambda>user.
      case user of
        None \<Rightarrow>
          bind (recordLoginResult ''failed'' False) (\<lambda>_.
          bind (recordAttempt email False ipAddress) (\<lambda>_.
          bind (AuthService_createSecurityEvent ''login.failed'' None
                  (JObj [(''email'', JStr email), (''ipAddress'', jstr_opt ipAddress),
                         (''reason'', JStr ''invalid_credentials'')])) (\<lambda>_.
          throw invalid_credentials)))
      | Some u \<Rightarrow>
          bind (recordAttempt email True ipAddress) (\<lambda>_.
          if uc_status u \<noteq> ''active'' then
            bind (recordLoginResult ''failed'' False) (\<lambda>_.
            bind (AuthService_createSecurityEvent ''login.failed'' (Some (uc_id u))
                    (JObj [(''email'', JStr email), (''ipAddress'', jstr_opt ipAddress),
                           (''reason'', JStr ''inactive_user''), (''status'', JStr (uc_status u))])) (\<lambda>_.
            throw invalid_credentials))
          else login_active L env email (uc_id u) ipAddress userAgent mfa deviceId)))"

section \<open>Refresh and revocation\<close>

record refresh_answer =
  ra_userId :: uuid
  ra_accessToken :: string
  ra_refreshToken :: string
  ra_accessExpiresAt :: string
  ra_refreshExpiresAt :: string

definition not_active :: err where
  "not_active = ApiError 401 ''unauthorized'' ''Account is not active''"

definition AuthService_refresh :: "libs \<Rightarrow> app_env \<Rightarrow> string \<Rightarrow> refresh_answer io" where
  "AuthService_refresh L env refreshToken =
     (let tokenHash = hashOpaqueToken L refreshToken in
     bind now (\<lambda>t0.
     bind (read_db (\<lambda>d. findByRefreshTokenHash d t0 tokenHash)) (\<lambda>session.
     case session of
       None \<Rightarrow>
         bind (AuthService_createSecurityEvent ''refresh_token.reuse_detected'' None
                 (JObj [(''reason'', JStr ''token_not_found'')])) (\<lambda>_.
         throw (ApiError 401 ''invalid_token'' ''Invalid or expired refresh token''))
     | Some (s, userStatus) \<Rightarrow>
         if userStatus \<noteq> ''active'' then throw not_active
         else
         bind (createOpaqueToken ''at'') (\<lambda>nextAccessToken.
         bind (createOpaqueToken ''rt'') (\<lambda>nextRefreshToken.
         bind now (\<lambda>t.
         let accessExpiresAt = t + ACCESS_TOKEN_TTL_SECONDS env * 1000;
             refreshExpiresAt = t + REFRESH_TOKEN_TTL_SECONDS env * 1000
         in
         bind (rotateTokens (us_id s) tokenHash (hashOpaqueToken L nextAccessToken)
                 (hashOpaqueToken L nextRefreshToken) accessExpiresAt refreshExpiresAt) (\<lambda>rotated.
         if \<not> rotated then
           bind (SessionRepository_revoke (us_id s)) (\<lambda>_.
           bind (AuthService_createSecurityEvent ''refresh_token.reuse_detected'' (Some (us_userId s))
                   (JObj [(''sessionId'', juuid (us_id s))])) (\<lambda>_.
           throw (ApiError 401 ''invalid_token'' ''Refresh token reuse detected'')))
         else
           ret \<lparr>ra_userId = us_userId s, ra_accessToken = nextAccessToken,
             ra_refreshToken = nextRefreshToken, ra_accessExpiresAt = iso_string L accessExpiresAt,
             ra_refreshExpiresAt = iso_string L refreshExpiresAt\<rparr>)))))))"

definition AuthService_logout :: "uuid \<Rightarrow> unit io" where
  "AuthService_logout sessionId = SessionRepository_revoke sessionId"

definition AuthService_revokeByToken :: "libs \<Rightarrow> string \<Rightarrow> unit io" where
  "AuthService_revokeByToken L token =
     (let tokenHash = hashOpaqueToken L token in
     bind now (\<lambda>t.
     bind (read_db (\<lambda>d. findByAccessTokenHash d t tokenHash)) (\<lambda>accessSession.
     case accessSession of
       Some (s, _) \<Rightarrow> SessionRepository_revoke (us_id s)
     | None \<Rightarrow>
         bind (read_db (\<lambda>d. findByRefreshTokenHash d t tokenHash)) (\<lambda>refreshSession.
         case refreshSession of
           Some (s, _) \<Rightarrow> SessionRepository_revoke (us_id s)
         | None \<Rightarrow> ret ()))))"

text \<open>\<open>None\<close> is the answer \<open>{ active: false }\<close>.\<close>

definition AuthService_introspectToken :: "libs \<Rightarrow> string \<Rightarrow> introspection option io" where
  "AuthService_introspectToken L token =
     (let tokenHash = hashOpaqueToken L token in
     bind (read_db (\<lambda>d. findByAccessTokenHashAny d tokenHash)) (\<lambda>session.
     case session of
       None \<Rightarrow> ret None
     | Some (s, userStatus) \<Rightarrow>
         bind now (\<lambda>t.
         if \<not> (us_revokedAt s = None \<and> t < us_expiresAt s \<and> userStatus = ''active'') then ret None
         else
         bind (read_db (\<lambda>d. RBACService_getAuthorizationSnapshot d t (us_userId s) no_context)) (\<lambda>snapshot.
         ret (Some \<lparr>is_sub = us_userId s, is_sid = us_id s, is_exp = us_expiresAt s div 1000,
           is_permissions = sn_permissions snapshot, is_entitlements = sn_entitlements snapshot\<rparr>)))))"

definition AuthService_authenticateAccessToken :: "libs \<Rightarrow> string \<Rightarrow> (uuid \<times> uuid) io" where
  "AuthService_authenticateAccessToken L accessToken =
     (let tokenHash = hashOpaqueToken L accessToken in
     bind now (\<lambda>t.
     bind (read_db (\<lambda>d. findByAccessTokenHash d t tokenHash)) (\<lambda>session.
     case session of
       None \<Rightarrow> throw (ApiError 401 ''unauthorized'' ''Invalid or expired access token'')
     | Some (s, userStatus) \<Rightarrow>
         if us_expiresAt s < t then throw (ApiError 401 ''unauthorized'' ''Invalid or expired access token'')
         else if userStatus \<noteq> ''active'' then throw not_active
         else bind (updateLastSeen (us_id s)) (\<lambda>_. ret (us_userId s, us_id s)))))"

section \<open>Email verification and password reset\<close>

text \<open>The answers of the request methods: \<open>None\<close> is \<open>accepted\<close> without a token.\<close>

definition AuthService_requestEmailVerification :: "libs \<Rightarrow> string \<Rightarrow> string option io" where
  "AuthService_requestEmailVerification L email =
     bind (read_db (\<lambda>d. findByEmail d email)) (\<lambda>user.
     case user of
       None \<Rightarrow> ret None
     | Some (u, _) \<Rightarrow>
         if u_status u \<noteq> ''active'' then ret None
         else
         bind (createOpaqueToken ''ev'') (\<lambda>token. bind now (\<lambda>t.
         bind (createEmailToken (u_id u) (hashOpaqueToken L token) (t + 60 * 60 * 1000)) (\<lambda>_.
         ret (Some token)))))"

definition is_active_user :: "database \<Rightarrow> uuid \<Rightarrow> bool" where
  "is_active_user d userId = (case UserRepository_findById d userId of
     None \<Rightarrow> False | Some u \<Rightarrow> uv_status u = ''active'')"

definition AuthService_confirmEmailVerification :: "libs \<Rightarrow> string \<Rightarrow> unit io" where
  "AuthService_confirmEmailVerification L token =
     bind (consumeValidEmailTokenByHash (hashOpaqueToken L token)) (\<lambda>consumed.
     case consumed of
       None \<Rightarrow> throw (ApiError 400 ''invalid_token'' ''Invalid or expired token'')
     | Some userId \<Rightarrow>
         bind (read_db (\<lambda>d. is_active_user d userId)) (\<lambda>active.
         if \<not> active then throw not_active
         else UserRepository_update userId (Some True) None))"

definition AuthService_requestPasswordReset :: "libs \<Rightarrow> string \<Rightarrow> string option io" where
  "AuthService_requestPasswordReset L email =
     bind (read_db (\<lambda>d. findByEmail d email)) (\<lambda>user.
     case user of
       None \<Rightarrow> ret None
     | Some (u, _) \<Rightarrow>
         if u_status u \<noteq> ''active'' then ret None
         else
         bind (createOpaqueToken ''pr'') (\<lambda>token. bind now (\<lambda>t.
         bind (createPasswordToken (u_id u) (hashOpaqueToken L token) (t + 60 * 60 * 1000)) (\<lambda>_.
         ret (Some token)))))"

definition AuthService_confirmPasswordReset :: "libs \<Rightarrow> string \<Rightarrow> string \<Rightarrow> unit io" where
  "AuthService_confirmPasswordReset L token newPassword =
     bind (consumeValidPasswordTokenByHash (hashOpaqueToken L token)) (\<lambda>consumed.
     case consumed of
       None \<Rightarrow> throw (ApiError 400 ''invalid_token'' ''Invalid or expired token'')
     | Some userId \<Rightarrow>
         bind (read_db (\<lambda>d. is_active_user d userId)) (\<lambda>active.
         if \<not> active then throw not_active
         else bind (hashPassword L newPassword) (\<lambda>h. UserRepository_update userId None (Some h))))"

definition AuthService_createSessionForUser ::
    "libs \<Rightarrow> app_env \<Rightarrow> uuid \<Rightarrow> string option \<Rightarrow> string option \<Rightarrow> session_tokens io" where
  "AuthService_createSessionForUser L env userId ipAddress userAgent =
     bind (read_db (\<lambda>d. is_active_user d userId)) (\<lambda>active.
     if \<not> active then throw not_active
     else AuthService_createSession L env userId ipAddress userAgent)"

section \<open>Google\<close>

definition invalid_google :: err where
  "invalid_google = ApiError 400 ''invalid_google_token'' ''Invalid Google ID token''"

definition invalid_request :: err where
  "invalid_request = ApiError 401 ''invalid_credentials'' ''Invalid authentication request''"

definition or_text :: "string \<Rightarrow> string \<Rightarrow> string" where
  "or_text a b = (if a = [] then b else a)"

text \<open>The verified subject and address of the token.\<close>

definition google_claims :: "libs \<Rightarrow> string \<Rightarrow> string \<Rightarrow> (string \<times> string) io" where
  "google_claims L idToken clientId =
     bind now (\<lambda>t.
     case google_verify L idToken clientId t of
       None \<Rightarrow> throw invalid_google
     | Some None \<Rightarrow> throw invalid_google
     | Some (Some p) \<Rightarrow>
         if \<not> truthy (gp_sub p) \<or> \<not> truthy (gp_email p) \<or> \<not> gp_emailVerified p then throw invalid_google
         else ret (the (gp_sub p), to_lower (the (gp_email p))))"

text \<open>The account of the identity: linked, found by address, or created.\<close>

definition google_user :: "string \<Rightarrow> string \<Rightarrow> uuid io" where
  "google_user providerSubject email =
     bind (read_db (\<lambda>d. findByProvider d ''google'' providerSubject)) (\<lambda>existingIdentity.
     case existingIdentity of
       Some i \<Rightarrow> ret (xi_userId i)
     | None \<Rightarrow>
         bind (bind (read_db (\<lambda>d. findByEmail d email)) (\<lambda>existingUser.
               case existingUser of
                 Some (u, _) \<Rightarrow> if u_status u \<noteq> ''active'' then throw invalid_request else ret (u_id u)
               | None \<Rightarrow> createWithoutPassword email True ''active'')) (\<lambda>userId.
         bind (IdentityRepository_create userId ''google'' providerSubject email) (\<lambda>_. ret userId)))"

text \<open>What remains for a resolved account. Without a local password no second factor is asked for.\<close>

definition google_session ::
    "libs \<Rightarrow> app_env \<Rightarrow> string \<Rightarrow> uuid \<Rightarrow> string option \<Rightarrow> string option \<Rightarrow> bool \<Rightarrow> adaptive_risk \<Rightarrow>
     login_outcome io" where
  "google_session L env email userId ipAddress sessionUserAgent mfaEnabled risk =
     bind (AuthService_createSession L env userId ipAddress sessionUserAgent) (\<lambda>session.
     bind (AuthService_createSecurityEvent ''login.success'' (Some userId)
             (success_payload [(''provider'', JStr ''google''), (''email'', JStr email)] ipAddress mfaEnabled risk)) (\<lambda>_.
     ret (LoggedIn \<lparr>ls_userId = userId, ls_session = session, ls_mfaEnabled = mfaEnabled,
            ls_adaptiveRisk = risk\<rparr>)))"

definition google_login_user ::
    "libs \<Rightarrow> app_env \<Rightarrow> string \<Rightarrow> uuid \<Rightarrow> string option \<Rightarrow> string option \<Rightarrow> mfa_input \<Rightarrow> login_outcome io" where
  "google_login_user L env email userId ipAddress sessionUserAgent mfa =
     bind (read_db (\<lambda>d. findWithPasswordById d userId \<noteq> None)) (\<lambda>hasLocalPassword.
     bind now (\<lambda>t.
     bind (read_db (\<lambda>d. login_risk env d t userId ipAddress sessionUserAgent)) (\<lambda>risk.
     if ar_level risk = RiskHigh then
       bind (AuthService_createSecurityEvent ''adaptive_mfa.blocked'' (Some userId)
               (risk_payload [(''provider'', JStr ''google'')] ipAddress risk)) (\<lambda>_.
       throw (ApiError 403 ''adaptive_mfa_blocked'' ''Request blocked by adaptive risk policy''))
     else if \<not> hasLocalPassword then
       google_session L env email userId ipAddress sessionUserAgent False risk
     else
       bind (read_db (\<lambda>d. hasEnabledMfa d userId)) (\<lambda>mfaEnabled.
       if ar_level risk = RiskMedium \<and> \<not> mfaEnabled \<and> ADAPTIVE_MFA_REQUIRE_FOR_MEDIUM env then
         throw (ApiError 401 ''adaptive_mfa_enrollment_required'' ''MFA enrollment is required for this login'')
       else if mfaEnabled \<and> no_method mfa then ret (mfa_pending userId risk)
       else
         bind (whenever mfaEnabled (bind (enforceMfaForLogin L env userId ipAddress mfa) (\<lambda>_. ret ()))) (\<lambda>_.
         google_session L env email userId ipAddress sessionUserAgent mfaEnabled risk)))))"

definition AuthService_loginWithGoogle ::
    "libs \<Rightarrow> app_env \<Rightarrow> string \<Rightarrow> string option \<Rightarrow> string option \<Rightarrow> string option \<Rightarrow> mfa_input \<Rightarrow>
     login_outcome io" where
  "AuthService_loginWithGoogle L env idToken ipAddress userAgent deviceId mfa =
     (if method_conflict mfa then
        throw (ApiError 400 ''mfa_method_conflict'' ''Use either MFA code or recovery code'')
      else
      bind (read_db (\<lambda>d. getSocialLoginConfig d ''google'')) (\<lambda>socialConfig.
      if \<not> sg_providerEnabled socialConfig then
        throw (ApiError 403 ''provider_disabled'' ''Google login is disabled'')
      else
      bind (google_claims L idToken (or_text (sg_clientId socialConfig) (GOOGLE_CLIENT_ID env))) (\<lambda>(sub, email).
      bind (google_user sub email) (\<lambda>userId.
      bind (read_db (\<lambda>d. is_active_user d userId)) (\<lambda>active.
      if \<not> active then throw invalid_request
      else google_login_user L env email userId ipAddress (buildSessionUserAgent userAgent deviceId) mfa)))))"

end
