(* ===== verification/IdpWrites.thy ===== *)
theory IdpWrites
  imports IdpAuth AuthCoreHistory
begin

text \<open>
  The statements the authentication and MFA services of the server issue, as an interface: a
  relation between databases that each of them respects is respected by every operation. The
  interpretations are at the end: well-formed tables, the history of sessions, of single-use
  tokens and of recovery codes, and the logs that only grow.
\<close>

section \<open>Rotation\<close>

definition next_pair :: "string \<Rightarrow> string \<Rightarrow> time \<Rightarrow> time \<Rightarrow> time \<Rightarrow> session_row \<Rightarrow> session_row" where
  "next_pair accessHash refreshHash expiresAt refreshExpiresAt t s =
     s\<lparr>us_accessTokenHash := accessHash, us_refreshTokenHash := refreshHash,
       us_expiresAt := expiresAt, us_refreshExpiresAt := refreshExpiresAt, us_lastSeenAt := t\<rparr>"

lemma next_pair_simps [simp]:
  "us_id (next_pair a b e f t s) = us_id s" "us_userId (next_pair a b e f t s) = us_userId s"
  "us_revokedAt (next_pair a b e f t s) = us_revokedAt s" "us_createdAt (next_pair a b e f t s) = us_createdAt s"
  "us_accessTokenHash (next_pair a b e f t s) = a" "us_refreshTokenHash (next_pair a b e f t s) = b"
  "us_expiresAt (next_pair a b e f t s) = e" "us_refreshExpiresAt (next_pair a b e f t s) = f"
  by (simp_all add: next_pair_def)

lemma rotateTokens_eq:
  "rotateTokens i h a b e f =
     bind now (\<lambda>t.
     bind (read_db (\<lambda>d. filter (rotate_target i h) (userSessions d))) (\<lambda>updated.
     bind (update_unique userSessions userSessions_update uniq_sessions (rotate_target i h) (next_pair a b e f t)) (\<lambda>_.
     ret (updated \<noteq> []))))"
  unfolding rotateTokens_def next_pair_def [abs_def] ..

section \<open>The interface\<close>

locale idp_writes = db_order r for r :: "database \<Rightarrow> database \<Rightarrow> bool" +
  assumes i_session: "us_revokedAt xs = None \<Longrightarrow> uniq_sessions (userSessions d @ [xs]) \<Longrightarrow>
      user_exists d (us_userId xs) \<Longrightarrow> r d (userSessions_update (\<lambda>rs. rs @ [xs]) d)"
    and i_attempt: "uniq_attempts (loginAttempts d @ [xa]) \<Longrightarrow>
      r d (loginAttempts_update (\<lambda>rs. rs @ [xa]) d)"
    and i_user: "uniq_users (users d @ [xu]) \<Longrightarrow> r d (users_update (\<lambda>rs. rs @ [xu]) d)"
    and i_email: "uniq_emails (userEmails d @ [xe]) \<Longrightarrow> user_exists d (em_userId xe) \<Longrightarrow>
      r d (userEmails_update (\<lambda>rs. rs @ [xe]) d)"
    and i_password: "uniq_passwords (userPasswords d @ [xp]) \<Longrightarrow> user_exists d (pw_userId xp) \<Longrightarrow>
      r d (userPasswords_update (\<lambda>rs. rs @ [xp]) d)"
    and i_profile: "uniq_profiles (userProfiles d @ [xq]) \<Longrightarrow> user_exists d (pf_userId xq) \<Longrightarrow>
      r d (userProfiles_update (\<lambda>rs. rs @ [xq]) d)"
    and i_email_token: "tk_consumedAt xt = None \<Longrightarrow> uniq_tokens (emailVerificationTokens d @ [xt]) \<Longrightarrow>
      user_exists d (tk_userId xt) \<Longrightarrow> r d (emailVerificationTokens_update (\<lambda>rs. rs @ [xt]) d)"
    and i_reset_token: "tk_consumedAt xt = None \<Longrightarrow> uniq_tokens (passwordResetTokens d @ [xt]) \<Longrightarrow>
      user_exists d (tk_userId xt) \<Longrightarrow> r d (passwordResetTokens_update (\<lambda>rs. rs @ [xt]) d)"
    and i_event: "uniq_events (securityEvents d @ [xv]) \<Longrightarrow> opt_user_exists d (se_userId xv) \<Longrightarrow>
      r d (securityEvents_update (\<lambda>rs. rs @ [xv]) d)"
    and i_audit: "uniq_audit (auditLogs d @ [xg]) \<Longrightarrow> opt_user_exists d (au_actorUserId xg) \<Longrightarrow>
      r d (auditLogs_update (\<lambda>rs. rs @ [xg]) d)"
    and i_factor: "uniq_factors (mfaFactors d @ [xf]) \<Longrightarrow> user_exists d (mf_userId xf) \<Longrightarrow>
      r d (mfaFactors_update (\<lambda>rs. rs @ [xf]) d)"
    and i_recovery: "uniq_recovery (mfaRecoveryCodes d @ [xc]) \<Longrightarrow> user_exists d (rc_userId xc) \<Longrightarrow>
      r d (mfaRecoveryCodes_update (\<lambda>rs. rs @ [xc]) d)"
    and i_identity: "uniq_identities (externalIdentities d @ [xi]) \<Longrightarrow> user_exists d (xi_userId xi) \<Longrightarrow>
      r d (externalIdentities_update (\<lambda>rs. rs @ [xi]) d)"
    and i_touch: "r d (userSessions_update (update_where ps (\<lambda>s. s\<lparr>us_lastSeenAt := t\<rparr>)) d)"
    and i_revoke: "r d (userSessions_update (update_where ps (revoke_session_row t)) d)"
    and i_rotate: "uniq_sessions (update_where (rotate_target i h) (next_pair a b e f t) (userSessions d)) \<Longrightarrow>
      r d (userSessions_update (update_where (rotate_target i h) (next_pair a b e f t)) d)"
    and i_set_password: "r d (userPasswords_update (update_where pp (\<lambda>r. r\<lparr>pw_passwordHash := h, pw_updatedAt := t\<rparr>)) d)"
    and i_verify: "r d (userEmails_update (update_where pe (\<lambda>e. e\<lparr>em_isVerified := v\<rparr>)) d)"
    and i_consume_email: "r d (emailVerificationTokens_update (update_where pt (consume_row t)) d)"
    and i_consume_reset: "r d (passwordResetTokens_update (update_where pt (consume_row t)) d)"
    and i_code_revoked: "r d (mfaRecoveryCodes_update (update_where pc (\<lambda>c. c\<lparr>rc_revokedAt := Some t\<rparr>)) d)"
    and i_code_used: "r d (mfaRecoveryCodes_update (update_where pc (\<lambda>c. c\<lparr>rc_usedAt := Some t\<rparr>)) d)"
begin

lemma i_safe_insert_event [safe_intros]: "safe (on_db r) (insert_event k u p)"
  unfolding insert_event_def by (intro safe_intros safe_insert_row i_event) auto

lemma i_safe_createSecurityEvent [safe_intros]: "safe (on_db r) (createSecurityEvent k u p)"
  unfolding createSecurityEvent_def recordSecurityEventMetric_def by (intro safe_intros)

lemma i_safe_event [safe_intros]: "safe (on_db r) (AuthService_createSecurityEvent k u p)"
  unfolding AuthService_createSecurityEvent_def by (intro safe_intros)

lemma i_safe_insert_audit [safe_intros]: "safe (on_db r) (insert_audit x)"
  unfolding insert_audit_def by (intro safe_insert_row i_audit) auto

lemma i_safe_createAuditLog [safe_intros]: "safe (on_db r) (createAuditLog L u a rt ri p)"
  unfolding createAuditLog_def createAuditLog_tx_def by (intro safe_intros)

lemma i_safe_rate_consume [safe_intros]: "safe (on_db r) (rate_consume key limit window)"
  unfolding rate_consume_def
  by (intro safe_intros)
    (auto simp: safe_def incr_expire_def on_db_def db_refl split: option.split)

lemma i_safe_recordLoginResult [safe_intros]: "safe (on_db r) (recordLoginResult a b)"
  unfolding recordLoginResult_def by (intro safe_intros)

lemma i_safe_recordAttempt [safe_intros]: "safe (on_db r) (recordAttempt e s i)"
  unfolding recordAttempt_def insert_attempt_def by (intro safe_intros safe_insert_row i_attempt) auto

lemma i_safe_session_create [safe_intros]: "safe (on_db r) (SessionRepository_create i)"
  unfolding SessionRepository_create_def insert_session_def
  by (intro safe_intros safe_insert_row i_session) auto

lemma i_safe_createSession [safe_intros]: "safe (on_db r) (AuthService_createSession L env u i a)"
  unfolding AuthService_createSession_def by (intro safe_intros)

lemma i_safe_rotateTokens [safe_intros]: "safe (on_db r) (rotateTokens i h a b e f)"
  unfolding rotateTokens_eq by (intro safe_intros safe_update_unique i_rotate)

lemma i_safe_revoke [safe_intros]: "safe (on_db r) (SessionRepository_revoke i)"
  unfolding SessionRepository_revoke_def by (intro safe_intros safe_update_rows i_revoke)

lemma i_safe_updateLastSeen [safe_intros]: "safe (on_db r) (updateLastSeen i)"
  unfolding updateLastSeen_def by (intro safe_intros safe_update_rows i_touch)

lemma i_safe_revokeAll [safe_intros]: "safe (on_db r) (revokeAllByUserId u)"
  unfolding revokeAllByUserId_def by (intro safe_intros safe_update_rows i_revoke)

lemma i_safe_insert_user [safe_intros]: "safe (on_db r) (insert_user st)"
  unfolding insert_user_def by (intro safe_intros safe_insert_row i_user) auto

lemma i_safe_insert_email [safe_intros]: "safe (on_db r) (insert_email u e v)"
  unfolding insert_email_def by (intro safe_intros safe_insert_row i_email) auto

lemma i_safe_insert_password [safe_intros]: "safe (on_db r) (insert_password u h)"
  unfolding insert_password_def by (intro safe_intros safe_insert_row i_password) auto

lemma i_safe_insert_profile [safe_intros]: "safe (on_db r) (insert_profile u n)"
  unfolding insert_profile_def by (intro safe_intros safe_insert_row i_profile) auto

lemma i_safe_user_create [safe_intros]: "safe (on_db r) (UserRepository_create e h n st)"
  unfolding UserRepository_create_def by (intro safe_intros)

lemma i_safe_createWithoutPassword [safe_intros]: "safe (on_db r) (createWithoutPassword e v st)"
  unfolding createWithoutPassword_def by (intro safe_intros)

lemma i_safe_set_password [safe_intros]: "safe (on_db r) (set_password u h)"
  unfolding set_password_def by (intro safe_intros safe_update_rows i_set_password)

lemma i_safe_user_update [safe_intros]: "safe (on_db r) (UserRepository_update u v h)"
  unfolding UserRepository_update_def by (intro safe_intros safe_update_rows i_verify)

lemma i_safe_email_token [safe_intros]: "safe (on_db r) (createEmailToken u h t)"
  unfolding createEmailToken_def insert_email_token_def
  by (intro safe_intros safe_insert_row i_email_token) auto

lemma i_safe_password_token [safe_intros]: "safe (on_db r) (createPasswordToken u h t)"
  unfolding createPasswordToken_def insert_reset_token_def
  by (intro safe_intros safe_insert_row i_reset_token) auto

lemma i_safe_consume_email [safe_intros]: "safe (on_db r) (consumeValidEmailTokenByHash h)"
  unfolding consumeValidEmailTokenByHash_def by (intro safe_intros safe_update_rows i_consume_email)

lemma i_safe_consume_reset [safe_intros]: "safe (on_db r) (consumeValidPasswordTokenByHash h)"
  unfolding consumeValidPasswordTokenByHash_def by (intro safe_intros safe_update_rows i_consume_reset)

lemma i_safe_identity [safe_intros]: "safe (on_db r) (IdentityRepository_create u a b e)"
  unfolding IdentityRepository_create_def by (intro safe_intros safe_insert_row i_identity) auto

lemma i_safe_insert_recovery [safe_intros]: "safe (on_db r) (insert_recovery x)"
  unfolding insert_recovery_def by (intro safe_insert_row i_recovery) auto

lemma i_safe_revoke_codes [safe_intros]: "safe (on_db r) (revokeActiveByUserId u)"
  unfolding revokeActiveByUserId_def by (intro safe_intros safe_update_rows i_code_revoked)

lemma i_safe_createBatch [safe_intros]: "safe (on_db r) (createBatch u b cs)"
  unfolding createBatch_def by (intro safe_intros)

lemma i_safe_markUsed [safe_intros]: "safe (on_db r) (markUsed c)"
  unfolding markUsed_def by (intro safe_intros safe_update_rows i_code_used)

lemma i_safe_draw_letters [safe_intros]: "safe (on_db r) (draw_letters fuel n raw)"
proof (induction fuel arbitrary: raw)
  case 0
  show ?case by (subst draw_letters.simps) (auto intro: safe_intros)
next
  case (Suc fuel)
  show ?case by (subst draw_letters.simps) (auto intro!: safe_intros Suc)
qed

lemma i_safe_generateCodes [safe_intros]: "safe (on_db r) (generateCodes fuel L env u reason)"
  unfolding generateCodes_def generatePlainCode_def code_record_of_def by (intro safe_intros)

lemma i_safe_regenerateCodes: "safe (on_db r) (regenerateCodes fuel L env u)"
  unfolding regenerateCodes_def by (intro safe_intros)

lemma i_safe_consumeCode [safe_intros]: "safe (on_db r) (consumeCode L env u c)"
  unfolding consumeCode_def by (intro safe_intros)

lemma i_safe_enrollMfa: "safe (on_db r) (MfaService_enrollMfa u)"
  unfolding MfaService_enrollMfa_def MfaRepository_create_def insert_factor_def
  by (intro safe_intros safe_insert_row i_factor) auto

lemma i_safe_verifyMfa [safe_intros]: "safe (on_db r) (MfaService_verifyMfa fuel L env u f c b)"
  unfolding MfaService_verifyMfa_def generateCodesIfMissing_def by (intro safe_intros)

lemma i_safe_enforce [safe_intros]: "safe (on_db r) (enforceMfaForLogin L env u i m)"
  unfolding enforceMfaForLogin_def by (intro safe_intros)

lemma i_safe_signup: "safe (on_db r) (AuthService_signup L e p n)"
  unfolding AuthService_signup_def by (intro safe_intros)

lemma i_safe_finish_login [safe_intros]: "safe (on_db r) (finish_login L env e u i a m b k)"
  unfolding finish_login_def by (intro safe_intros)

lemma i_safe_check_login [safe_intros]: "safe (on_db r) (check_login L e p)"
  unfolding check_login_def by (intro safe_intros)

lemma i_safe_login: "safe (on_db r) (AuthService_login L env e p i a m dv)"
  unfolding AuthService_login_def login_active_def by (intro safe_intros)

lemma i_safe_refresh: "safe (on_db r) (AuthService_refresh L env tok)"
  unfolding AuthService_refresh_def by (intro safe_intros)

lemma i_safe_logout: "safe (on_db r) (AuthService_logout s)"
  unfolding AuthService_logout_def by (intro safe_intros)

lemma i_safe_revokeByToken: "safe (on_db r) (AuthService_revokeByToken L tok)"
  unfolding AuthService_revokeByToken_def by (intro safe_intros)

lemma i_safe_introspect: "safe (on_db r) (AuthService_introspectToken L tok)"
  unfolding AuthService_introspectToken_def by (intro safe_intros)

lemma i_safe_authenticate: "safe (on_db r) (AuthService_authenticateAccessToken L tok)"
  unfolding AuthService_authenticateAccessToken_def by (intro safe_intros)

lemma i_safe_request_verification: "safe (on_db r) (AuthService_requestEmailVerification L e)"
  unfolding AuthService_requestEmailVerification_def by (intro safe_intros)

lemma i_safe_confirm_verification: "safe (on_db r) (AuthService_confirmEmailVerification L tok)"
  unfolding AuthService_confirmEmailVerification_def by (intro safe_intros)

lemma i_safe_request_reset: "safe (on_db r) (AuthService_requestPasswordReset L e)"
  unfolding AuthService_requestPasswordReset_def by (intro safe_intros)

lemma i_safe_confirm_reset: "safe (on_db r) (AuthService_confirmPasswordReset L tok p)"
  unfolding AuthService_confirmPasswordReset_def by (intro safe_intros)

lemma i_safe_createSessionForUser: "safe (on_db r) (AuthService_createSessionForUser L env u i a)"
  unfolding AuthService_createSessionForUser_def by (intro safe_intros)

lemma i_safe_google_claims [safe_intros]: "safe (on_db r) (google_claims L tok c)"
  unfolding google_claims_def by (intro safe_intros)

lemma i_safe_google_user [safe_intros]: "safe (on_db r) (google_user s e)"
  unfolding google_user_def by (intro safe_intros)

lemma i_safe_google_session [safe_intros]: "safe (on_db r) (google_session L env e u i a b k)"
  unfolding google_session_def by (intro safe_intros)

lemma i_safe_google_login_user [safe_intros]: "safe (on_db r) (google_login_user L env e u i a m)"
  unfolding google_login_user_def by (intro safe_intros)

lemma i_safe_loginWithGoogle: "safe (on_db r) (AuthService_loginWithGoogle L env tok i a dv m)"
  unfolding AuthService_loginWithGoogle_def by (intro safe_intros)

end

section \<open>Operations and their execution\<close>

datatype idp_op =
    IdpSignup string string string
  | IdpLogin string string "string option" "string option" mfa_input "string option"
  | IdpRefresh string
  | IdpLogout uuid
  | IdpRevokeByToken string
  | IdpIntrospect string
  | IdpAuthenticate string
  | IdpRequestVerification string
  | IdpConfirmVerification string
  | IdpRequestReset string
  | IdpConfirmReset string string
  | IdpCreateSession uuid "string option" "string option"
  | IdpLoginWithGoogle string "string option" "string option" "string option" mfa_input
  | IdpEnrollMfa uuid
  | IdpVerifyMfa uuid uuid string bool
  | IdpRegenerateCodes uuid
  | IdpConsumeCode uuid string
  | IdpRevokeAll uuid
  | IdpWait nat

fun run_idp :: "nat \<Rightarrow> libs \<Rightarrow> app_env \<Rightarrow> idp_op \<Rightarrow> world \<Rightarrow> world" where
  "run_idp fuel L env (IdpSignup e p n) w = snd (AuthService_signup L e p n w)"
| "run_idp fuel L env (IdpLogin e p i a m dv) w = snd (AuthService_login L env e p i a m dv w)"
| "run_idp fuel L env (IdpRefresh t) w = snd (AuthService_refresh L env t w)"
| "run_idp fuel L env (IdpLogout s) w = snd (AuthService_logout s w)"
| "run_idp fuel L env (IdpRevokeByToken t) w = snd (AuthService_revokeByToken L t w)"
| "run_idp fuel L env (IdpIntrospect t) w = snd (AuthService_introspectToken L t w)"
| "run_idp fuel L env (IdpAuthenticate t) w = snd (AuthService_authenticateAccessToken L t w)"
| "run_idp fuel L env (IdpRequestVerification e) w = snd (AuthService_requestEmailVerification L e w)"
| "run_idp fuel L env (IdpConfirmVerification t) w = snd (AuthService_confirmEmailVerification L t w)"
| "run_idp fuel L env (IdpRequestReset e) w = snd (AuthService_requestPasswordReset L e w)"
| "run_idp fuel L env (IdpConfirmReset t p) w = snd (AuthService_confirmPasswordReset L t p w)"
| "run_idp fuel L env (IdpCreateSession u i a) w = snd (AuthService_createSessionForUser L env u i a w)"
| "run_idp fuel L env (IdpLoginWithGoogle t i a dv m) w = snd (AuthService_loginWithGoogle L env t i a dv m w)"
| "run_idp fuel L env (IdpEnrollMfa u) w = snd (MfaService_enrollMfa u w)"
| "run_idp fuel L env (IdpVerifyMfa u f c b) w = snd (MfaService_verifyMfa fuel L env u f c b w)"
| "run_idp fuel L env (IdpRegenerateCodes u) w = snd (regenerateCodes fuel L env u w)"
| "run_idp fuel L env (IdpConsumeCode u c) w = snd (consumeCode L env u c w)"
| "run_idp fuel L env (IdpRevokeAll u) w = snd (revokeAllByUserId u w)"
| "run_idp fuel L env (IdpWait n) w = w\<lparr>clock := clock w + int n\<rparr>"

definition run_idp_ops :: "nat \<Rightarrow> libs \<Rightarrow> app_env \<Rightarrow> idp_op list \<Rightarrow> world \<Rightarrow> world" where
  "run_idp_ops fuel L env ops w = fold (run_idp fuel L env) ops w"

context idp_writes
begin

lemmas idp_operations_respect =
  i_safe_signup [THEN safeD, unfolded on_db_def]
  i_safe_login [THEN safeD, unfolded on_db_def]
  i_safe_refresh [THEN safeD, unfolded on_db_def]
  i_safe_logout [THEN safeD, unfolded on_db_def]
  i_safe_revokeByToken [THEN safeD, unfolded on_db_def]
  i_safe_introspect [THEN safeD, unfolded on_db_def]
  i_safe_authenticate [THEN safeD, unfolded on_db_def]
  i_safe_request_verification [THEN safeD, unfolded on_db_def]
  i_safe_confirm_verification [THEN safeD, unfolded on_db_def]
  i_safe_request_reset [THEN safeD, unfolded on_db_def]
  i_safe_confirm_reset [THEN safeD, unfolded on_db_def]
  i_safe_createSessionForUser [THEN safeD, unfolded on_db_def]
  i_safe_loginWithGoogle [THEN safeD, unfolded on_db_def]
  i_safe_enrollMfa [THEN safeD, unfolded on_db_def]
  i_safe_verifyMfa [THEN safeD, unfolded on_db_def]
  i_safe_regenerateCodes [THEN safeD, unfolded on_db_def]
  i_safe_consumeCode [THEN safeD, unfolded on_db_def]
  i_safe_revokeAll [THEN safeD, unfolded on_db_def]

lemma run_idp_respects: "r (db w) (db (run_idp fuel L env op w))"
  by (cases op) (simp_all add: idp_operations_respect db_refl)

lemma run_idp_ops_respects: "r (db w) (db (run_idp_ops fuel L env ops w))"
proof (induction ops arbitrary: w)
  case (Cons op ops)
  from db_trans [OF run_idp_respects Cons.IH [of "run_idp fuel L env op w"]]
  show ?case by (simp add: run_idp_ops_def)
qed (simp add: run_idp_ops_def db_refl)

end

section \<open>Interpretations\<close>

text \<open>Sessions and single-use tokens: the histories of the auth-core service hold here too.\<close>

lemma session_history_next_pair:
  assumes "uniq_sessions (userSessions d')"
    and "userSessions d' = update_where (rotate_target i h) (next_pair a b e f t) (userSessions d)"
  shows "session_history d d'"
  using assms by (intro session_history_update [OF assms(2)])
    (auto simp: session_evolves_def rotate_target_def)

interpretation idp_sessions: idp_writes session_history
proof unfold_locales
qed (auto intro: session_history_same session_history_grow session_history_touch
       session_history_revoke session_history_next_pair elim: session_history_trans)

interpretation idp_reset_tokens: idp_writes "tokens_kept passwordResetTokens"
proof unfold_locales
qed (auto intro: tokens_kept_same tokens_kept_grow tokens_kept_consume elim: tokens_kept_trans)

interpretation idp_email_tokens: idp_writes "tokens_kept emailVerificationTokens"
proof unfold_locales
qed (auto intro: tokens_kept_same tokens_kept_grow tokens_kept_consume elim: tokens_kept_trans)

interpretation idp_logs: idp_writes logs_grow
proof unfold_locales
qed (auto simp: logs_grow_def)

text \<open>Recovery codes: what was used or revoked stays so, under the same lookup hash.\<close>

definition code_evolves :: "recovery_row \<Rightarrow> recovery_row \<Rightarrow> bool" where
  "code_evolves c c' \<longleftrightarrow> rc_id c' = rc_id c \<and> rc_userId c' = rc_userId c \<and>
     rc_lookupHash c' = rc_lookupHash c \<and> rc_codeHash c' = rc_codeHash c \<and>
     (\<not> active_code c \<longrightarrow> \<not> active_code c')"

definition codes_kept :: "database \<Rightarrow> database \<Rightarrow> bool" where
  "codes_kept d d' \<longleftrightarrow> (uniq_recovery (mfaRecoveryCodes d) \<longrightarrow> uniq_recovery (mfaRecoveryCodes d') \<and>
     (\<forall>c \<in> set (mfaRecoveryCodes d). \<exists>c' \<in> set (mfaRecoveryCodes d'). code_evolves c c'))"

lemma code_evolves_refl [simp]: "code_evolves c c"
  by (simp add: code_evolves_def)

lemma codes_kept_trans: "codes_kept a b \<Longrightarrow> codes_kept b c \<Longrightarrow> codes_kept a c"
  unfolding codes_kept_def code_evolves_def by (smt (verit, best))

lemma codes_kept_same: "mfaRecoveryCodes d' = mfaRecoveryCodes d \<Longrightarrow> codes_kept d d'"
  by (auto simp: codes_kept_def intro: code_evolves_refl)

lemma codes_kept_grow:
  "uniq_recovery (mfaRecoveryCodes d @ [c]) \<Longrightarrow> mfaRecoveryCodes d' = mfaRecoveryCodes d @ [c] \<Longrightarrow> codes_kept d d'"
  by (auto simp: codes_kept_def intro: code_evolves_refl)

lemma codes_kept_update:
  assumes "mfaRecoveryCodes d' = update_where p f (mfaRecoveryCodes d)"
    and "\<And>c. code_evolves c (f c)"
  shows "codes_kept d d'"
  unfolding codes_kept_def
proof (intro impI conjI ballI)
  have "rc_id (f c) = rc_id c" "rc_lookupHash (f c) = rc_lookupHash c" for c
    using assms(2) [of c] by (simp_all add: code_evolves_def)
  then show "uniq_recovery (mfaRecoveryCodes d')" if "uniq_recovery (mfaRecoveryCodes d)"
    using that by (simp add: uniq_recovery_def assms(1))
  fix c assume "c \<in> set (mfaRecoveryCodes d)"
  then show "\<exists>c' \<in> set (mfaRecoveryCodes d'). code_evolves c c'"
    using in_update_where [of c "mfaRecoveryCodes d" p f] assms(2)
    by (intro bexI [where x = "if p c then f c else c"]) (auto simp: assms(1))
qed

lemma codes_kept_revoked:
  "codes_kept d (mfaRecoveryCodes_update (update_where p (\<lambda>c. c\<lparr>rc_revokedAt := Some t\<rparr>)) d)"
  by (rule codes_kept_update [where p = p and f = "\<lambda>c. c\<lparr>rc_revokedAt := Some t\<rparr>"])
    (auto simp: code_evolves_def active_code_def)

lemma codes_kept_used:
  "codes_kept d (mfaRecoveryCodes_update (update_where p (\<lambda>c. c\<lparr>rc_usedAt := Some t\<rparr>)) d)"
  by (rule codes_kept_update [where p = p and f = "\<lambda>c. c\<lparr>rc_usedAt := Some t\<rparr>"])
    (auto simp: code_evolves_def active_code_def)

interpretation recovery: idp_writes codes_kept
proof unfold_locales
qed (auto intro: codes_kept_same codes_kept_grow codes_kept_revoked codes_kept_used elim: codes_kept_trans)

text \<open>Well-formed tables, with those the server writes besides.\<close>

definition idp_well_formed :: "database \<Rightarrow> bool" where
  "idp_well_formed d \<longleftrightarrow> well_formed d \<and> uniq_recovery (mfaRecoveryCodes d) \<and>
     uniq_profiles (userProfiles d) \<and>
     (\<forall>c \<in> set (mfaRecoveryCodes d). user_exists d (rc_userId c)) \<and>
     (\<forall>p \<in> set (userProfiles d). user_exists d (pf_userId p))"

lemma user_exists_more [simp]:
  "user_exists (mfaRecoveryCodes_update f d) = user_exists d"
  "user_exists (userProfiles_update g d) = user_exists d"
  by (auto simp: user_exists_def fun_eq_iff)

lemma uniq_more_updates [simp]:
  "uniq_recovery (update_where p (\<lambda>c. c\<lparr>rc_revokedAt := Some t\<rparr>) cs) = uniq_recovery cs"
  "uniq_recovery (update_where p (\<lambda>c. c\<lparr>rc_usedAt := Some t\<rparr>) cs) = uniq_recovery cs"
  "uniq_emails (update_where pe (\<lambda>e. e\<lparr>em_isVerified := v\<rparr>) es) = uniq_emails es"
  by (simp_all add: uniq_recovery_def uniq_emails_def)

interpretation idp_wf: idp_writes "keeps idp_well_formed"
proof unfold_locales
qed (simp_all add: keeps_def idp_well_formed_def well_formed_def unique_keys_def references_users_def
       owners_kept ball_update_where [where g = rc_userId] user_exists_grow)

end
