(* ===== verification/IdpTokens.thy ===== *)
theory IdpTokens
  imports IdpWrites AuthCoreAccountFacts
begin

text \<open>
  Correctness of the tokens of the server's authentication service: introspection and
  authentication agree, refresh rotates the pair, a revoked session stays dead, and what a
  replayed refresh token does.
\<close>

section \<open>Sessions joined with their users\<close>

lemma in_status_rows:
  "x \<in> set [(s, u_status u). s \<leftarrow> ss, p s, u \<leftarrow> us, u_id u = us_userId s] \<longleftrightarrow>
   (\<exists>s \<in> set ss. \<exists>u \<in> set us. p s \<and> u_id u = us_userId s \<and> x = (s, u_status u))"
  by auto

lemma with_status_Some:
  assumes "with_status d p = Some (s, st)"
  shows "s \<in> set (userSessions d) \<and> p s \<and> (\<exists>u \<in> set (users d). u_id u = us_userId s \<and> u_status u = st)"
  using first_row_in [OF assms [unfolded with_status_def]] unfolding in_status_rows by blast

lemma with_status_None: "(\<And>s. s \<in> set (userSessions d) \<Longrightarrow> \<not> p s) \<Longrightarrow> with_status d p = None"
  by (auto simp: with_status_def)

lemma with_status_eq:
  assumes "s \<in> set (userSessions d)" and "p s" and "\<And>q. q \<in> set (userSessions d) \<Longrightarrow> p q \<Longrightarrow> q = s"
    and "uniq_users (users d)" and "u \<in> set (users d)" and "u_id u = us_userId s"
  shows "with_status d p = Some (s, u_status u)"
proof (cases "with_status d p")
  case None
  then have "[(s, u_status u). s \<leftarrow> userSessions d, p s, u \<leftarrow> users d, u_id u = us_userId s] = []"
    unfolding with_status_def first_row_None .
  then show ?thesis
    using in_status_rows [where x = "(s, u_status u)" and ss = "userSessions d" and p = p and us = "users d"] assms(1,2,5,6) by (metis empty_iff empty_set)
next
  case (Some x)
  obtain q st where x: "x = (q, st)" by (cases x)
  from with_status_Some [OF Some [unfolded x]] obtain v where v: "q \<in> set (userSessions d)" "p q"
    "v \<in> set (users d)" "u_id v = us_userId q" "u_status v = st" by blast
  from assms(3) [OF v(1,2)] have q: "q = s" .
  with v(4) assms(6) have "u_id v = u_id u" by simp
  from distinct_map_eqD [OF assms(4) [unfolded uniq_users_def] v(3) assms(5) this] q v(5) Some x
  show ?thesis by simp
qed

lemma uniq_access_token:
  assumes "uniq_sessions (userSessions d)" and "uniq_users (users d)"
  shows "with_status d (live_access t h) = Some (s, st) \<longleftrightarrow>
    with_status d (\<lambda>s. us_accessTokenHash s = h) = Some (s, st) \<and> us_revokedAt s = None \<and> t < us_expiresAt s"
    (is "?A \<longleftrightarrow> ?B \<and> ?L")
proof
  assume ?A
  from with_status_Some [OF this] obtain v where v: "s \<in> set (userSessions d)" "live_access t h s"
    "v \<in> set (users d)" "u_id v = us_userId s" "u_status v = st" by blast
  have h: "us_accessTokenHash s = h" using v(2) by (simp add: live_access_def)
  have "with_status d (\<lambda>s. us_accessTokenHash s = h) = Some (s, u_status v)"
    by (rule with_status_eq [where p = "\<lambda>s. us_accessTokenHash s = h", OF v(1) h _ assms(2) v(3,4)])
      (metis h uniq_session_access assms(1) v(1))
  with v show "?B \<and> ?L" by (simp add: live_access_def)
next
  assume B: "?B \<and> ?L"
  from with_status_Some [OF B [THEN conjunct1]] obtain v where v: "s \<in> set (userSessions d)"
    "us_accessTokenHash s = h" "v \<in> set (users d)" "u_id v = us_userId s" "u_status v = st" by blast
  have live: "live_access t h s" using B v(2) by (simp add: live_access_def)
  have "with_status d (live_access t h) = Some (s, u_status v)"
    by (intro with_status_eq v live assms) (metis live_access_def uniq_session_access assms(1) v(1,2))
  with v(5) show ?A by simp
qed

section \<open>Runs\<close>

lemma event_world:
  obtains w' where "AuthService_createSecurityEvent k u p w = (Inr (), w')"
    and "but_logs (db w') = but_logs (db w)" and "clock w' = clock w" and "redis w' = redis w"
proof -
  define x where "x = AuthService_createSecurityEvent k u p w"
  have "fst x = Inr () \<and> but_logs (db (snd x)) = but_logs (db w) \<and> clock (snd x) = clock w \<and> redis (snd x) = redis w"
    unfolding x_def AuthService_createSecurityEvent_def createSecurityEvent_def insert_event_def
      recordSecurityEventMetric_def
    by (simp add: run_simps but_logs_def)
  then show thesis using that [of "snd x"] by (simp add: x_def prod_eq_iff)
qed

definition bad_access :: err where
  "bad_access = ApiError 401 ''unauthorized'' ''Invalid or expired access token''"

lemma idp_authenticate_run:
  "AuthService_authenticateAccessToken L tok w =
    (case with_status (db w) (live_access (clock w) (hashOpaqueToken L tok)) of
       None \<Rightarrow> (Inl bad_access, w)
     | Some (s, st) \<Rightarrow> if st \<noteq> ''active'' then (Inl not_active, w)
         else (Inr (us_userId s, us_id s), w\<lparr>db := userSessions_update
            (update_where (\<lambda>r. us_id r = us_id s) (\<lambda>r. r\<lparr>us_lastSeenAt := clock w\<rparr>)) (db w)\<rparr>))"
proof (cases "with_status (db w) (live_access (clock w) (hashOpaqueToken L tok))")
  case None
  then show ?thesis
    by (simp add: AuthService_authenticateAccessToken_def findByAccessTokenHash_def run_simps bad_access_def)
next
  case (Some x)
  obtain s st where x: "x = (s, st)" by (cases x)
  with with_status_Some [OF Some [unfolded x]] have "\<not> us_expiresAt s < clock w"
    by (auto simp: live_access_def)
  with Some x show ?thesis
    by (simp add: AuthService_authenticateAccessToken_def findByAccessTokenHash_def updateLastSeen_def run_simps)
qed

lemma idp_authenticate_ok:
  assumes "uniq_sessions (userSessions (db w))" and "uniq_users (users (db w))"
    and "s \<in> set (userSessions (db w))" and "live_access (clock w) (hashOpaqueToken L tok) s"
    and "u \<in> set (users (db w))" and "u_id u = us_userId s" and "u_status u = ''active''"
  shows "fst (AuthService_authenticateAccessToken L tok w) = Inr (us_userId s, us_id s)"
proof -
  have "with_status (db w) (live_access (clock w) (hashOpaqueToken L tok)) = Some (s, u_status u)"
  proof (rule with_status_eq [where p = "live_access (clock w) (hashOpaqueToken L tok)", OF assms(3,4) _ assms(2,5,6)])
    fix q assume "q \<in> set (userSessions (db w))" "live_access (clock w) (hashOpaqueToken L tok) q"
    with assms(4) show "q = s"
      by (intro uniq_session_access [OF assms(1) _ assms(3)]) (simp_all add: live_access_def)
  qed
  with assms(7) show ?thesis by (simp add: idp_authenticate_run)
qed

lemma idp_authenticate_refused:
  assumes "\<And>s. s \<in> set (userSessions (db w)) \<Longrightarrow> \<not> live_access (clock w) (hashOpaqueToken L tok) s"
  shows "fst (AuthService_authenticateAccessToken L tok w) = Inl bad_access"
  using with_status_None [OF assms] by (simp add: idp_authenticate_run)

definition bad_refresh :: err where
  "bad_refresh = ApiError 401 ''invalid_token'' ''Invalid or expired refresh token''"

lemma idp_refresh_refused:
  assumes "\<And>s. s \<in> set (userSessions (db w)) \<Longrightarrow> \<not> live_refresh (clock w) (hashOpaqueToken L tok) s"
  obtains w' where "AuthService_refresh L env tok w = (Inl bad_refresh, w')"
    and "but_logs (db w') = but_logs (db w)" and "clock w' = clock w"
proof -
  obtain w' where e: "AuthService_createSecurityEvent ''refresh_token.reuse_detected'' None
      (JObj [(''reason'', JStr ''token_not_found'')]) w = (Inr (), w')"
    "but_logs (db w') = but_logs (db w)" "clock w' = clock w" "redis w' = redis w"
    by (rule event_world)
  show thesis
    using with_status_None [OF assms] e
    by (intro that [of w']) (simp_all add: AuthService_refresh_def Let_def findByRefreshTokenHash_def
        bad_refresh_def bind_run now_run read_db_run throw_run)
qed

section \<open>Introspection\<close>

lemma idp_introspect_run:
  "fst (AuthService_introspectToken L tok w) = Inr
    (case with_status (db w) (\<lambda>s. us_accessTokenHash s = hashOpaqueToken L tok) of
       None \<Rightarrow> None
     | Some (s, st) \<Rightarrow>
         if us_revokedAt s = None \<and> clock w < us_expiresAt s \<and> st = ''active''
         then (let c = RBACService_getAuthorizationSnapshot (db w) (clock w) (us_userId s) no_context
           in Some \<lparr>is_sub = us_userId s, is_sid = us_id s, is_exp = us_expiresAt s div 1000,
             is_permissions = sn_permissions c, is_entitlements = sn_entitlements c\<rparr>)
         else None)"
  by (simp add: AuthService_introspectToken_def findByAccessTokenHashAny_def Let_def run_simps
      split: option.split)

text \<open>
  Introspection and authentication agree on the server: a token is reported active for a
  user and a session exactly when presenting it authenticates as that user in that session;
  revoked and expired sessions and the sessions of users that are not active are inactive for both.
\<close>

theorem idp_introspection_agrees:
  assumes "uniq_sessions (userSessions (db w))" and "uniq_users (users (db w))"
  shows "fst (AuthService_authenticateAccessToken L tok w) = Inr (u, i) \<longleftrightarrow>
    (\<exists>x. fst (AuthService_introspectToken L tok w) = Inr (Some x) \<and> is_sub x = u \<and> is_sid x = i)"
proof -
  let ?h = "hashOpaqueToken L tok"
  note * = uniq_access_token [OF assms, of "clock w" ?h]
  show ?thesis
  proof
    assume "fst (AuthService_authenticateAccessToken L tok w) = Inr (u, i)"
    then obtain s where "with_status (db w) (live_access (clock w) ?h) = Some (s, ''active'')"
      "u = us_userId s" "i = us_id s"
      by (auto simp: idp_authenticate_run split: option.splits if_splits)
    then show "\<exists>x. fst (AuthService_introspectToken L tok w) = Inr (Some x) \<and> is_sub x = u \<and> is_sid x = i"
      unfolding * by (simp add: idp_introspect_run Let_def)
  next
    assume "\<exists>x. fst (AuthService_introspectToken L tok w) = Inr (Some x) \<and> is_sub x = u \<and> is_sid x = i"
    then obtain s where "with_status (db w) (\<lambda>s. us_accessTokenHash s = ?h) = Some (s, ''active'')"
      "us_revokedAt s = None" "clock w < us_expiresAt s" "u = us_userId s" "i = us_id s"
      by (auto simp: idp_introspect_run Let_def split: option.splits if_splits)
    with * [of s "''active''"] show "fst (AuthService_authenticateAccessToken L tok w) = Inr (u, i)"
      by (simp add: idp_authenticate_run)
  qed
qed

theorem idp_introspection_agrees_witness:
  "fst (AuthService_authenticateAccessToken sample_libs ''a'' (sample_world sample_db)) = Inr (1, 3)"
  by (subst idp_introspection_agrees)
    (simp_all add: sample_defs uniq_defs idp_introspect_run with_status_def hashOpaqueToken_def Let_def)

section \<open>Rotation\<close>

lemma next_pair_uniq:
  assumes u: "uniq_sessions rs" and s: "s \<in> set rs" "us_revokedAt s = None"
    and "a \<notin> us_accessTokenHash ` set rs" and "b \<notin> us_refreshTokenHash ` set rs"
  shows "uniq_sessions (update_where (rotate_target (us_id s) (us_refreshTokenHash s)) (next_pair a b e f t) rs)"
proof -
  have target: "rotate_target (us_id s) (us_refreshTokenHash s) r \<longleftrightarrow> r = s" if "r \<in> set rs" for r
    using uniq_session_id [OF u that s(1)] s(2) by (auto simp: rotate_target_def)
  show ?thesis
    using u assms(4,5) update_one [where f = us_accessTokenHash, OF _ s(1) target]
      update_one [where f = us_refreshTokenHash, OF _ s(1) target]
    unfolding uniq_sessions_def by simp
qed

lemma next_pair_replaces:
  assumes "uniq_sessions rs" and "s \<in> set rs" and "us_revokedAt s = None"
  shows "update_where (rotate_target (us_id s) (us_refreshTokenHash s)) g rs =
         map (\<lambda>r. if r = s then g s else r) rs"
  using uniq_session_id [OF assms(1) _ assms(2)] assms(3)
  by (auto simp: update_where_def rotate_target_def)

text \<open>A session that can be refreshed: live, its owner active, the next tokens fresh.\<close>

definition refreshable :: "libs \<Rightarrow> app_env \<Rightarrow> world \<Rightarrow> string \<Rightarrow> session_row \<Rightarrow> bool" where
  "refreshable L env w tok s \<longleftrightarrow>
     uniq_sessions (userSessions (db w)) \<and> uniq_users (users (db w)) \<and>
     s \<in> set (userSessions (db w)) \<and> live_refresh (clock w) (hashOpaqueToken L tok) s \<and>
     (\<exists>u \<in> set (users (db w)). u_id u = us_userId s \<and> u_status u = ''active'') \<and>
     fresh_tokens L w \<and> 0 < ACCESS_TOKEN_TTL_SECONDS env"

text \<open>The row of the session after the rotation, and the world.\<close>

definition refreshed_row :: "libs \<Rightarrow> app_env \<Rightarrow> world \<Rightarrow> session_row \<Rightarrow> session_row" where
  "refreshed_row L env w s =
     next_pair (hashOpaqueToken L (next_access w)) (hashOpaqueToken L (next_refresh w))
       (clock w + ACCESS_TOKEN_TTL_SECONDS env * 1000) (clock w + REFRESH_TOKEN_TTL_SECONDS env * 1000)
       (clock w) s"

definition refreshed_world :: "libs \<Rightarrow> app_env \<Rightarrow> world \<Rightarrow> session_row \<Rightarrow> world" where
  "refreshed_world L env w s = w\<lparr>rnd := Suc (Suc (rnd w)),
     db := userSessions_update (map (\<lambda>r. if r = s then refreshed_row L env w s else r)) (db w)\<rparr>"

lemma drawn_pair:
  "createOpaqueToken ''at'' w = (Inr (next_access w), w\<lparr>rnd := Suc (rnd w)\<rparr>)"
  "createOpaqueToken ''rt'' (w\<lparr>rnd := Suc (rnd w)\<rparr>) = (Inr (next_refresh w), w\<lparr>rnd := Suc (Suc (rnd w))\<rparr>)"
  by (simp_all add: createOpaqueToken_run next_access_def next_refresh_def)

lemma idp_refresh_run:
  assumes "refreshable L env w tok s"
  shows "AuthService_refresh L env tok w =
      (Inr \<lparr>ra_userId = us_userId s, ra_accessToken = next_access w, ra_refreshToken = next_refresh w,
         ra_accessExpiresAt = iso_string L (clock w + ACCESS_TOKEN_TTL_SECONDS env * 1000),
         ra_refreshExpiresAt = iso_string L (clock w + REFRESH_TOKEN_TTL_SECONDS env * 1000)\<rparr>,
       refreshed_world L env w s)"
proof -
  let ?h = "hashOpaqueToken L tok" and ?rs = "userSessions (db w)"
  from assms obtain u where u: "uniq_sessions ?rs" "uniq_users (users (db w))" "s \<in> set ?rs"
    "live_refresh (clock w) ?h s" "u \<in> set (users (db w))" "u_id u = us_userId s" "u_status u = ''active''"
    "fresh_tokens L w" unfolding refreshable_def by blast
  have h: "us_refreshTokenHash s = ?h" "us_revokedAt s = None" using u(4) by (auto simp: live_refresh_def)
  have "with_status (db w) (live_refresh (clock w) ?h) = Some (s, u_status u)"
  proof (rule with_status_eq [where p = "live_refresh (clock w) ?h", OF u(3,4) _ u(2,5,6)])
    fix q assume "q \<in> set ?rs" "live_refresh (clock w) ?h q"
    with h show "q = s"
      by (intro uniq_session_refresh [OF u(1) _ u(3)]) (simp_all add: live_refresh_def)
  qed
  with u(7) have f: "findByRefreshTokenHash (db w) (clock w) ?h = Some (s, ''active'')"
    by (simp add: findByRefreshTokenHash_def)
  have t: "filter (rotate_target (us_id s) ?h) ?rs \<noteq> []"
    using u(3) h by (auto simp: filter_empty_conv rotate_target_def)
  note rep = next_pair_replaces [OF u(1,3) h(2), unfolded h(1)]
  have upd: "userSessions_update (update_where (rotate_target (us_id s) ?h) g) (db w) =
      userSessions_update (map (\<lambda>r. if r = s then g s else r)) (db w)" for g
    by (rule database.unfold_congs) (auto simp: rep)
  have uq: "uniq_sessions (map (\<lambda>r. if r = s then next_pair (hashOpaqueToken L (next_access w))
      (hashOpaqueToken L (next_refresh w)) e f t s else r) ?rs)" for e f t
    using next_pair_uniq [OF u(1,3) h(2)] u(8) rep unfolding fresh_tokens_def h(1) by metis
  show ?thesis
    using f t uq
    by (simp add: AuthService_refresh_def rotateTokens_eq Let_def run_simps rep upd refreshed_world_def
        refreshed_row_def drawn_pair del: createOpaqueToken_run)
qed

lemma refreshed_world_facts:
  assumes "refreshable L env w tok s"
  defines "v \<equiv> refreshed_world L env w s"
  shows "fst (AuthService_authenticateAccessToken L (next_access w) v) = Inr (us_userId s, us_id s)"
    and "hashOpaqueToken L at = us_accessTokenHash s \<Longrightarrow> r \<in> set (userSessions (db v)) \<Longrightarrow>
      \<not> live_access t (hashOpaqueToken L at) r"
    and "r \<in> set (userSessions (db v)) \<Longrightarrow> \<not> live_refresh t (hashOpaqueToken L tok) r"
proof -
  let ?n = "refreshed_row L env w s"
  from assms(1) obtain u where u: "uniq_sessions (userSessions (db w))" "uniq_users (users (db w))"
    "s \<in> set (userSessions (db w))" "live_refresh (clock w) (hashOpaqueToken L tok) s"
    "u \<in> set (users (db w))" "u_id u = us_userId s" "u_status u = ''active''"
    "fresh_tokens L w" "0 < ACCESS_TOKEN_TTL_SECONDS env" unfolding refreshable_def by blast
  have rows: "userSessions (db v) = map (\<lambda>r. if r = s then ?n else r) (userSessions (db w))"
    by (simp add: v_def refreshed_world_def)
  have h: "us_refreshTokenHash s = hashOpaqueToken L tok" "us_revokedAt s = None"
    using u(4) by (auto simp: live_refresh_def)
  have n: "?n \<in> set (userSessions (db v))" using u(3) by (force simp: rows)
  have new: "hashOpaqueToken L (next_access w) \<noteq> us_accessTokenHash s"
    "hashOpaqueToken L (next_refresh w) \<noteq> us_refreshTokenHash s"
    using u(3,8) by (metis fresh_tokens_def imageI)+
  have "uniq_sessions (userSessions (db v))"
    using next_pair_uniq [OF u(1,3) h(2)] next_pair_replaces [OF u(1,3) h(2)] u(8)
    unfolding rows refreshed_row_def fresh_tokens_def by metis
  moreover have "live_access (clock v) (hashOpaqueToken L (next_access w)) ?n"
    using h(2) u(9) by (simp add: live_access_def refreshed_row_def v_def refreshed_world_def)
  ultimately show "fst (AuthService_authenticateAccessToken L (next_access w) v) = Inr (us_userId s, us_id s)"
    using idp_authenticate_ok [of v ?n L "next_access w" u] n u
    by (simp add: refreshed_row_def v_def refreshed_world_def)
  {
    fix r assume "r \<in> set (userSessions (db v))"
    then obtain q where "q \<in> set (userSessions (db w))" "r = (if q = s then ?n else q)"
      by (auto simp: rows)
    then have "r = ?n \<or> (us_accessTokenHash r \<noteq> us_accessTokenHash s \<and> us_refreshTokenHash r \<noteq> us_refreshTokenHash s)"
      using uniq_session_access [OF u(1) _ u(3)] uniq_session_refresh [OF u(1) _ u(3)] by metis
    then have "us_accessTokenHash r \<noteq> us_accessTokenHash s \<and> us_refreshTokenHash r \<noteq> us_refreshTokenHash s"
      using new by (auto simp: refreshed_row_def)
  } note other = this
  show "hashOpaqueToken L at = us_accessTokenHash s \<Longrightarrow> r \<in> set (userSessions (db v)) \<Longrightarrow>
      \<not> live_access t (hashOpaqueToken L at) r" using other by (auto simp: live_access_def)
  show "r \<in> set (userSessions (db v)) \<Longrightarrow> \<not> live_refresh t (hashOpaqueToken L tok) r"
    using other h by (auto simp: live_refresh_def)
qed

text \<open>
  A successful refresh on the server rotates the pair: the session keeps its identity and
  owner and every other session is untouched, the new access token authenticates as the same user
  in the same session, and the old access and refresh tokens are refused.
\<close>

theorem idp_refresh_rotates:
  assumes "refreshable L env w tok s" and "hashOpaqueToken L at = us_accessTokenHash s"
  shows "\<exists>a w'. AuthService_refresh L env tok w = (Inr a, w') \<and> ra_userId a = us_userId s \<and>
    userSessions (db w') = map (\<lambda>r. if r = s then refreshed_row L env w s else r) (userSessions (db w)) \<and>
    us_refreshTokenHash (refreshed_row L env w s) = hashOpaqueToken L (ra_refreshToken a) \<and>
    fst (AuthService_authenticateAccessToken L (ra_accessToken a) w') = Inr (us_userId s, us_id s) \<and>
    fst (AuthService_authenticateAccessToken L at w') = Inl bad_access \<and>
    fst (AuthService_refresh L env tok w') = Inl bad_refresh"
proof -
  let ?v = "refreshed_world L env w s"
  note run = idp_refresh_run [OF assms(1)] and facts = refreshed_world_facts [OF assms(1)]
  obtain v' where "AuthService_refresh L env tok ?v = (Inl bad_refresh, v')"
    using idp_refresh_refused [of ?v L tok env] facts(3) by blast
  moreover have "userSessions (db ?v) = map (\<lambda>r. if r = s then refreshed_row L env w s else r) (userSessions (db w))"
    by (simp add: refreshed_world_def)
  moreover have "us_refreshTokenHash (refreshed_row L env w s) = hashOpaqueToken L (next_refresh w)"
    by (simp add: refreshed_row_def)
  moreover have "fst (AuthService_authenticateAccessToken L at ?v) = Inl bad_access"
    by (intro idp_authenticate_refused facts(2) assms(2))
  ultimately show ?thesis using run facts(1) by simp
qed

lemma sample_refreshable: "refreshable sample_libs APP_CONSTANTS (sample_world sample_db) ''b'' sample_session"
  by (simp add: refreshable_def sample_defs uniq_defs live_refresh_def hashOpaqueToken_def fresh_tokens_def
      next_access_def next_refresh_def APP_CONSTANTS_def)

theorem idp_refresh_rotates_witness:
  "\<exists>a w'. AuthService_refresh sample_libs APP_CONSTANTS ''b'' (sample_world sample_db) = (Inr a, w') \<and>
     fst (AuthService_refresh sample_libs APP_CONSTANTS ''b'' w') = Inl bad_refresh"
  using idp_refresh_rotates [OF sample_refreshable, of "''a''"] by (auto simp: sample_session_def hashOpaqueToken_def)

text \<open>
  Replaying a refresh token that was already rotated is refused, and only that: the session it
  belonged to is not revoked, so whoever holds the rotated pair (the thief, if the thief refreshed
  first) stays signed in.
\<close>

theorem idp_replay_leaves_session_alive:
  assumes "refreshable L env w tok s" and "AuthService_refresh L env tok w = (Inr a, w')"
    and "AuthService_refresh L env tok w' = (x, w'')"
  shows "x = Inl bad_refresh \<and> userSessions (db w'') = userSessions (db w') \<and>
    fst (AuthService_authenticateAccessToken L (ra_accessToken a) w'') = Inr (us_userId s, us_id s)"
proof -
  note run = idp_refresh_run [OF assms(1)] and facts = refreshed_world_facts [OF assms(1)]
  from run assms(2) have w': "w' = refreshed_world L env w s" and a: "ra_accessToken a = next_access w" by auto
  obtain v where v: "AuthService_refresh L env tok w' = (Inl bad_refresh, v)"
    "but_logs (db v) = but_logs (db w')" "clock v = clock w'"
    unfolding w' using idp_refresh_refused facts(3) by blast
  then have "userSessions (db v) = userSessions (db w')" "users (db v) = users (db w')"
    by (metis but_logs_select(1), metis but_logs_select(6))
  moreover from this have "with_status (db v) p = with_status (db w') p" for p
    unfolding with_status_def by (simp only:)
  with v(3) have "fst (AuthService_authenticateAccessToken L (next_access w) v) =
      fst (AuthService_authenticateAccessToken L (next_access w) w')"
    by (simp add: idp_authenticate_run split: option.split)
  ultimately show ?thesis using facts(1) v(1) assms(3) a w' by simp
qed

theorem idp_replay_leaves_session_alive_witness:
  "\<exists>a w' x w''. AuthService_refresh sample_libs APP_CONSTANTS ''b'' (sample_world sample_db) = (Inr a, w') \<and>
     AuthService_refresh sample_libs APP_CONSTANTS ''b'' w' = (x, w'') \<and> x = Inl bad_refresh \<and>
     fst (AuthService_authenticateAccessToken sample_libs (ra_accessToken a) w'') = Inr (1, 3)"
proof -
  obtain a w' where r: "AuthService_refresh sample_libs APP_CONSTANTS ''b'' (sample_world sample_db) = (Inr a, w')"
    using idp_refresh_run [OF sample_refreshable] by blast
  obtain x w'' where x: "AuthService_refresh sample_libs APP_CONSTANTS ''b'' w' = (x, w'')" by fastforce
  from idp_replay_leaves_session_alive [OF sample_refreshable r x] r x show ?thesis
    by (auto simp: sample_session_def)
qed

section \<open>Revocation\<close>

lemma idp_dead_session:
  assumes "uniq_sessions (userSessions (db w))" and "s \<in> set (userSessions (db w))"
    and "us_revokedAt s \<noteq> None"
    and "hashOpaqueToken L at = us_accessTokenHash s" and "hashOpaqueToken L rt = us_refreshTokenHash s"
  shows "fst (AuthService_authenticateAccessToken L at (run_idp_ops fuel L env ops w)) = Inl bad_access
    \<and> fst (AuthService_refresh L env rt (run_idp_ops fuel L env ops w)) = Inl bad_refresh"
proof -
  let ?w = "run_idp_ops fuel L env ops w"
  from idp_sessions.run_idp_ops_respects [of w fuel L env ops] assms(1-3) obtain s' where
    u: "uniq_sessions (userSessions (db ?w))" and s': "s' \<in> set (userSessions (db ?w))"
      "us_revokedAt s' \<noteq> None" "us_accessTokenHash s' = us_accessTokenHash s"
      "us_refreshTokenHash s' = us_refreshTokenHash s"
    unfolding session_history_def session_evolves_def by blast
  have "\<not> live_access (clock ?w) (hashOpaqueToken L at) r" if "r \<in> set (userSessions (db ?w))" for r
    using uniq_session_access [OF u s'(1) that] s'(2,3) assms(4) by (auto simp: live_access_def)
  then have "fst (AuthService_authenticateAccessToken L at ?w) = Inl bad_access"
    by (rule idp_authenticate_refused)
  moreover have "\<not> live_refresh (clock ?w) (hashOpaqueToken L rt) r" if "r \<in> set (userSessions (db ?w))" for r
    using uniq_session_refresh [OF u s'(1) that] s'(2,4) assms(5) by (auto simp: live_refresh_def)
  then have "fst (AuthService_refresh L env rt ?w) = Inl bad_refresh"
    using idp_refresh_refused [of ?w L rt env] by (metis fst_conv)
  ultimately show ?thesis ..
qed

text \<open>
  On the server too a revoked session never comes back: whatever operations of the
  authentication and MFA services run afterwards, in whatever order and with whatever time in
  between, its access token and its refresh token are refused.
\<close>

theorem idp_revoked_session_stays_dead:
  assumes "uniq_sessions (userSessions (db w))" and "s \<in> set (userSessions (db w))"
    and "us_revokedAt s \<noteq> None"
    and "hashOpaqueToken L at = us_accessTokenHash s" and "hashOpaqueToken L rt = us_refreshTokenHash s"
  shows "fst (AuthService_authenticateAccessToken L at (run_idp_ops fuel L env ops w)) = Inl bad_access
    \<and> fst (AuthService_refresh L env rt (run_idp_ops fuel L env ops w)) = Inl bad_refresh"
  using assms by (rule idp_dead_session)

theorem idp_revoked_session_stays_dead_witness:
  "fst (AuthService_refresh sample_libs APP_CONSTANTS ''b'' (run_idp_ops 1 sample_libs APP_CONSTANTS
     [IdpRefresh ''b'', IdpWait 5, IdpLogout 3]
     (sample_world (sample_db\<lparr>userSessions := [sample_session\<lparr>us_revokedAt := Some 5\<rparr>]\<rparr>)))) = Inl bad_refresh"
  using idp_revoked_session_stays_dead [of "sample_world (sample_db\<lparr>userSessions := [sample_session\<lparr>us_revokedAt := Some 5\<rparr>]\<rparr>)"
      "sample_session\<lparr>us_revokedAt := Some 5\<rparr>" sample_libs "''a''" "''b''"]
  by (simp add: sample_defs uniq_defs hashOpaqueToken_def)

end
