(* ===== verification/AccountDeletion.thy ===== *)
theory AccountDeletion
  imports IdpTokens AuditTrailFacts
begin

text \<open>
  Account deletion: modules/users/account-deletion.repository.ts, account-deletion.service.ts and
  jobs/account-deletion.ts. A deletion is first scheduled (the user is marked, every session
  revoked) and carried out after the grace period, unless a legal hold is active.
\<close>

section \<open>DELETE FROM users\<close>

text \<open>
  Removing a user removes the rows that reference it ON DELETE CASCADE and clears the references
  that are ON DELETE SET NULL (events, audit entries, keys, client audit entries).
\<close>

definition cleared :: "uuid \<Rightarrow> uuid option \<Rightarrow> uuid option" where
  "cleared i ref = (if ref = Some i then None else ref)"

definition cascade_user :: "uuid \<Rightarrow> database \<Rightarrow> database" where
  "cascade_user i d = d\<lparr>
     users := delete_where (\<lambda>r. u_id r = i) (users d),
     userEmails := delete_where (\<lambda>r. em_userId r = i) (userEmails d),
     userPasswords := delete_where (\<lambda>r. pw_userId r = i) (userPasswords d),
     userProfiles := delete_where (\<lambda>r. pf_userId r = i) (userProfiles d),
     mfaFactors := delete_where (\<lambda>r. mf_userId r = i) (mfaFactors d),
     mfaRecoveryCodes := delete_where (\<lambda>r. rc_userId r = i) (mfaRecoveryCodes d),
     externalIdentities := delete_where (\<lambda>r. xi_userId r = i) (externalIdentities d),
     userSessions := delete_where (\<lambda>r. us_userId r = i) (userSessions d),
     passwordResetTokens := delete_where (\<lambda>r. tk_userId r = i) (passwordResetTokens d),
     emailVerificationTokens := delete_where (\<lambda>r. tk_userId r = i) (emailVerificationTokens d),
     userRoles := delete_where (\<lambda>r. ur_userId r = i) (userRoles d),
     groupMemberships := delete_where (\<lambda>r. gm_userId r = i) (groupMemberships d),
     entitlements := delete_where (\<lambda>r. en_userId r = Some i) (entitlements d),
     securityEvents := map (\<lambda>r. r\<lparr>se_userId := cleared i (se_userId r)\<rparr>) (securityEvents d),
     auditLogs := map (\<lambda>r. r\<lparr>au_actorUserId := cleared i (au_actorUserId r)\<rparr>) (auditLogs d),
     signingKeys := map (\<lambda>r. r\<lparr>sk_rotatedBy := cleared i (sk_rotatedBy r)\<rparr>) (signingKeys d),
     legalHolds := delete_where (\<lambda>r. lh_userId r = i) (legalHolds d),
     oauthClientAuditLogs := map (\<lambda>r. r\<lparr>oa_actorUserId := cleared i (oa_actorUserId r)\<rparr>) (oauthClientAuditLogs d)\<rparr>"

section \<open>AccountDeletionRepository\<close>

definition mark_deleted_row :: "time \<Rightarrow> time \<Rightarrow> time \<Rightarrow> user_row \<Rightarrow> user_row" where
  "mark_deleted_row deletedAt requestedAt dueAt u = u\<lparr>u_status := ''deleted'', u_deletedAt := Some deletedAt,
     u_deletionRequestedAt := Some requestedAt, u_deletionDueAt := Some dueAt\<rparr>"

text \<open>The answer is the due date of the row, when one was updated.\<close>

definition markAsDeleted :: "uuid \<Rightarrow> time \<Rightarrow> time \<Rightarrow> time \<Rightarrow> time option io" where
  "markAsDeleted userId deletedAt requestedAt dueAt = transaction (
     bind (read_db (\<lambda>d. filter (\<lambda>u. u_id u = userId \<and> u_status u = ''active'') (users d))) (\<lambda>updated.
     bind (update_rows users_update (\<lambda>u. u_id u = userId \<and> u_status u = ''active'')
             (mark_deleted_row deletedAt requestedAt dueAt)) (\<lambda>_.
     if updated = [] then ret None
     else bind (update_rows userSessions_update (\<lambda>s. us_userId s = userId) (revoke_session_row deletedAt)) (\<lambda>_.
       ret (u_deletionDueAt (mark_deleted_row deletedAt requestedAt dueAt (hd updated)))))))"

definition findDeletionScheduleByUserId :: "database \<Rightarrow> uuid \<Rightarrow> time option option" where
  "findDeletionScheduleByUserId d userId =
     map_option u_deletionDueAt (List.find (\<lambda>u. u_id u = userId) (users d))"

definition deletion_due :: "time \<Rightarrow> user_row \<Rightarrow> bool" where
  "deletion_due t u \<longleftrightarrow> u_status u = ''deleted'' \<and>
     (case u_deletionDueAt u of None \<Rightarrow> False | Some due \<Rightarrow> due < t \<or> due = t)"

definition findDueDeletions :: "database \<Rightarrow> time \<Rightarrow> nat \<Rightarrow> uuid list" where
  "findDueDeletions d t limit = take limit (map u_id (filter (deletion_due t) (users d)))"

definition hold_active :: "time \<Rightarrow> hold_row \<Rightarrow> bool" where
  "hold_active t h \<longleftrightarrow> (case lh_expiresAt h of None \<Rightarrow> True | Some e \<Rightarrow> t < e)"

definition hasActiveLegalHold :: "database \<Rightarrow> time \<Rightarrow> uuid \<Rightarrow> bool" where
  "hasActiveLegalHold d t userId =
     (filter (\<lambda>h. lh_userId h = userId \<and> hold_active t h) (legalHolds d) \<noteq> [])"

definition physicallyDeleteUser :: "uuid \<Rightarrow> unit io" where
  "physicallyDeleteUser userId = write_db (cascade_user userId)"

section \<open>AccountDeletionService\<close>

record deletion_answer =
  dl_deletionDueAt :: time
  dl_alreadyDeleted :: bool

definition no_such_account :: err where
  "no_such_account = ApiError 401 ''unauthorized'' ''User not found or not active''"

definition invalid_reauth :: "string \<Rightarrow> err" where
  "invalid_reauth message = ApiError 401 ''invalid_reauth'' message"

text \<open>\<open>schedule?.deletionDueAt\<close>, or the error when there is none.\<close>

definition already_scheduled :: "uuid \<Rightarrow> deletion_answer io" where
  "already_scheduled userId = bind (read_db (\<lambda>d. findDeletionScheduleByUserId d userId)) (\<lambda>schedule.
     case schedule of
       Some (Some due) \<Rightarrow> ret \<lparr>dl_deletionDueAt = due, dl_alreadyDeleted = True\<rparr>
     | _ \<Rightarrow> throw no_such_account)"

record reauth =
  re_currentPassword :: "string option"
  re_mfaCode :: "string option"
  re_mfaFactorId :: "uuid option"

definition check_password :: "libs \<Rightarrow> uuid \<Rightarrow> reauth \<Rightarrow> unit io" where
  "check_password L userId re = whenever (truthy (re_currentPassword re))
     (bind (read_db (\<lambda>d. findWithPasswordById d userId)) (\<lambda>found.
      bind (case found of None \<Rightarrow> ret False
            | Some (_, _, hash) \<Rightarrow> verifyPassword_io L (the (re_currentPassword re)) hash) (\<lambda>isValid.
      if isValid then ret () else throw (invalid_reauth ''Invalid password''))))"

text \<open>
  The verification runs without options, so it issues recovery codes to a user who has none left; they
  are shown to nobody. A refusal of the MFA service (an \<open>ApiError\<close> below 500) becomes \<open>invalid_reauth\<close>;
  anything else is passed on. \<open>fuel\<close> bounds the bytes drawn for a code, as in Mfa.
\<close>

definition check_mfa :: "nat \<Rightarrow> libs \<Rightarrow> app_env \<Rightarrow> uuid \<Rightarrow> reauth \<Rightarrow> unit io" where
  "check_mfa fuel L env userId re = whenever (truthy (re_mfaCode re) \<and> re_mfaFactorId re \<noteq> None)
     (try_catch
       (bind (MfaService_verifyMfa fuel L env userId (the (re_mfaFactorId re)) (the (re_mfaCode re)) True) (\<lambda>_. ret ()))
       (\<lambda>e. case e of
          ApiError status _ _ \<Rightarrow> if 500 \<le> status then throw e else throw (invalid_reauth ''Invalid MFA code'')
        | _ \<Rightarrow> throw e))"

definition reauth_method :: "reauth \<Rightarrow> string" where
  "reauth_method re = (if truthy (re_currentPassword re) \<and> truthy (re_mfaCode re) then ''password+mfa''
     else if truthy (re_currentPassword re) then ''password'' else ''mfa'')"

definition requestDeletion :: "nat \<Rightarrow> libs \<Rightarrow> app_env \<Rightarrow> uuid \<Rightarrow> reauth \<Rightarrow> deletion_answer io" where
  "requestDeletion fuel L env userId re =
     bind (read_db (\<lambda>d. UserRepository_findById d userId)) (\<lambda>user.
     case user of
       None \<Rightarrow> throw no_such_account
     | Some u \<Rightarrow>
       if uv_status u \<noteq> ''active'' \<and> uv_status u \<noteq> ''deleted'' then throw no_such_account
       else if uv_status u = ''deleted'' then already_scheduled userId
       else if \<not> truthy (re_currentPassword re) \<and> \<not> truthy (re_mfaCode re) \<and> re_mfaFactorId re = None then
         throw (ApiError 400 ''reauth_required'' ''Password or MFA reauthentication is required'')
       else if truthy (re_mfaCode re) \<noteq> (re_mfaFactorId re \<noteq> None) then
         throw (ApiError 400 ''reauth_required'' ''mfaCode and mfaFactorId must be provided together'')
       else
         bind (check_password L userId re) (\<lambda>_.
         bind (check_mfa fuel L env userId re) (\<lambda>_.
         bind now (\<lambda>t.
         let due = t + ACCOUNT_DELETION_GRACE_DAYS env * 24 * 60 * 60 * 1000 in
         bind (read_db (\<lambda>d. hasActiveLegalHold d t userId)) (\<lambda>hold.
         bind (markAsDeleted userId t t due) (\<lambda>updated.
         case updated of
           None \<Rightarrow> already_scheduled userId
         | Some _ \<Rightarrow>
             bind (createAuditLog L (Some userId) ''account.deletion.requested'' ''user'' (Some (uuid_text userId))
               (JObj [(''deletionDueAt'', JStr (iso_string L due)), (''legalHoldActive'', JBool hold),
                      (''reauthMethod'', JStr (reauth_method re))])) (\<lambda>_.
             bind (createSecurityEvent ''account.deletion.requested'' (Some userId)
               (JObj [(''status'', JStr ''scheduled'')])) (\<lambda>_.
             ret \<lparr>dl_deletionDueAt = due, dl_alreadyDeleted = False\<rparr>))))))))"

record deletion_summary =
  ds_processed :: nat
  ds_deleted :: nat
  ds_deferredLegalHold :: nat
  ds_failed :: nat

text \<open>
  The \<open>catch\<close> of the loop body: the failure is logged and counted, on top of what the body had
  counted before it threw. Of the statements in the body only the audit entry can throw.
\<close>

definition or_failed :: "uuid \<Rightarrow> deletion_summary \<Rightarrow> unit io \<Rightarrow> deletion_summary io" where
  "or_failed userId s m = try_catch (bind m (\<lambda>_. ret s))
     (\<lambda>e. bind (emit (LogLine ''Failed to finalize account deletion'' (JObj [(''userId'', juuid userId)]))) (\<lambda>_.
      ret (s\<lparr>ds_failed := ds_failed s + 1\<rparr>)))"

definition finalize_user :: "libs \<Rightarrow> uuid \<Rightarrow> deletion_summary \<Rightarrow> deletion_summary io" where
  "finalize_user L userId s0 =
     (let s = s0\<lparr>ds_processed := ds_processed s0 + 1\<rparr> in
      bind now (\<lambda>t.
      bind (read_db (\<lambda>d. hasActiveLegalHold d t userId)) (\<lambda>hold.
      if hold then
        or_failed userId (s\<lparr>ds_deferredLegalHold := ds_deferredLegalHold s + 1\<rparr>)
          (createAuditLog L None ''account.deletion.deferred_legal_hold'' ''user'' (Some (uuid_text userId))
             (JObj [(''reason'', JStr ''Active legal hold'')]))
      else
        bind (physicallyDeleteUser userId) (\<lambda>_.
        or_failed userId (s\<lparr>ds_deleted := ds_deleted s + 1\<rparr>)
          (createAuditLog L None ''account.deletion.finalized'' ''user'' (Some (uuid_text userId)) (JObj []))))))"

fun finalize_users :: "libs \<Rightarrow> uuid list \<Rightarrow> deletion_summary \<Rightarrow> deletion_summary io" where
  "finalize_users L [] s = ret s"
| "finalize_users L (u # us) s = bind (finalize_user L u s) (finalize_users L us)"

definition finalizeDueDeletions :: "libs \<Rightarrow> app_env \<Rightarrow> time \<Rightarrow> deletion_summary io" where
  "finalizeDueDeletions L env t =
     bind (read_db (\<lambda>d. findDueDeletions d t (RETENTION_BATCH_CHUNK_SIZE env))) (\<lambda>usersToDelete.
     finalize_users L usersToDelete
       \<lparr>ds_processed = 0, ds_deleted = 0, ds_deferredLegalHold = 0, ds_failed = 0\<rparr>)"

section \<open>The job\<close>

record dry_summary =
  dry_processed :: nat
  dry_wouldDelete :: nat
  dry_deferredLegalHold :: nat

definition runAccountDeletionJob :: "libs \<Rightarrow> app_env \<Rightarrow> bool \<Rightarrow> (dry_summary + deletion_summary) io" where
  "runAccountDeletionJob L env dryRun =
     (if dryRun then
        bind (emit (LogLine ''Running account deletion job in DRY RUN mode'' JNull)) (\<lambda>_.
        bind now (\<lambda>t.
        bind (read_db (\<lambda>d. findDueDeletions d t (RETENTION_BATCH_CHUNK_SIZE env))) (\<lambda>ids.
        bind (read_db (\<lambda>d. filter (hasActiveLegalHold d t) ids)) (\<lambda>held.
        ret (Inl \<lparr>dry_processed = length ids, dry_wouldDelete = length ids - length held,
                  dry_deferredLegalHold = length held\<rparr>)))))
      else bind now (\<lambda>t. bind (finalizeDueDeletions L env t) (\<lambda>s. ret (Inr s))))"

end
