(* ===== verification/IdpLogin.thy ===== *)
theory IdpLogin
  imports IdpTokens
begin

text \<open>
  Correctness of signing in on the server: who gets a session, what the second factor must have
  shown, which sign-ins the adaptive policy blocks, and the bot-risk watermark.
\<close>

section \<open>Reasoning over runs\<close>

text \<open>A postcondition of a \<open>bind\<close>, from the outcomes of its first half.\<close>

lemma run_bindI:
  assumes "\<And>e v. m w = (Inl e, v) \<Longrightarrow> P (Inl e, v)" and "\<And>x v. m w = (Inr x, v) \<Longrightarrow> P (f x v)"
  shows "P (bind m f w)"
  using assms by (cases "m w"; cases "fst (m w)") (auto simp: bind_def)

lemma read_bind: "bind (read_db f) k w = k (f (db w)) w"
  by (simp add: run_simps)

lemma now_bind: "bind now k w = k (clock w) w"
  by (simp add: run_simps)

lemma rate_consume_db: "rate_consume key limit window w = (x, w') \<Longrightarrow> db w' = db w \<and> clock w' = clock w"
  by (auto simp: rate_consume_def run_simps incr_expire_def split: option.splits if_splits)

text \<open>Statements beside the sessions.\<close>

lemma sessions_event [safe_intros]: "safe (on_db (same userSessions)) (createSecurityEvent k u p)"
  unfolding createSecurityEvent_def insert_event_def recordSecurityEventMetric_def
  by (intro safe_intros same.safe_insert_row) (simp add: same_def)

lemma sessions_auth_event [safe_intros]:
  "safe (on_db (same userSessions)) (AuthService_createSecurityEvent k u p)"
  unfolding AuthService_createSecurityEvent_def by (intro safe_intros)

lemma sessions_audit [safe_intros]: "safe (on_db (same userSessions)) (createAuditLog L u a rt ri p)"
  unfolding createAuditLog_def createAuditLog_tx_def insert_audit_def
  by (intro safe_intros same.safe_insert_row) (simp_all add: same_def)

lemma same_rate [safe_intros]: "safe (on_db (same f)) (rate_consume key limit window)"
  by (rule safeI) (metis rate_consume_db on_db_def same_def prod.collapse)

lemma sessions_consumeCode [safe_intros]: "safe (on_db (same userSessions)) (consumeCode L env u c)"
  unfolding consumeCode_def markUsed_def
  by (intro safe_intros same.safe_update_rows) (simp add: same_def)

lemma sessions_verifyMfa [safe_intros]: "safe (on_db (same userSessions)) (MfaService_verifyMfa 0 L env u f c False)"
  unfolding MfaService_verifyMfa_def if_False by (intro safe_intros)

lemma sessions_enforce [safe_intros]: "safe (on_db (same userSessions)) (enforceMfaForLogin L env u i m)"
  unfolding enforceMfaForLogin_def by (intro safe_intros)

lemma sessions_attempt [safe_intros]: "safe (on_db (same userSessions)) (recordAttempt e s i)"
  unfolding recordAttempt_def by (intro safe_intros)

lemma sessions_metric [safe_intros]: "safe (on_db (same userSessions)) (recordLoginResult a b)"
  unfolding recordLoginResult_def by (intro safe_intros)

section \<open>The second factor\<close>

text \<open>
  What the caller must hold for the second step: an unused recovery code of the user, or a code
  that a TOTP factor of the user, the one named, accepts at this instant.
\<close>

definition recovery_passed :: "libs \<Rightarrow> app_env \<Rightarrow> database \<Rightarrow> uuid \<Rightarrow> string \<Rightarrow> bool" where
  "recovery_passed L env d u code \<longleftrightarrow> (\<exists>c \<in> set (mfaRecoveryCodes d).
     active_code c \<and> rc_userId c = u \<and> rc_lookupHash c = lookupHash L env (normalizeCode code) \<and>
     argon2_verify L (rc_codeHash c) (normalizeCode code))"

definition factor_passed :: "libs \<Rightarrow> database \<Rightarrow> time \<Rightarrow> uuid \<Rightarrow> uuid \<Rightarrow> string \<Rightarrow> bool" where
  "factor_passed L d t u factorId code \<longleftrightarrow> (\<exists>f \<in> set (mfaFactors d).
     mf_id f = factorId \<and> mf_userId f = u \<and> mf_type f = ''totp'' \<and> truthy (mf_secret f) \<and>
     totp_check L code (the (mf_secret f)) t)"

definition second_factor :: "libs \<Rightarrow> app_env \<Rightarrow> database \<Rightarrow> time \<Rightarrow> uuid \<Rightarrow> mfa_input \<Rightarrow> bool" where
  "second_factor L env d t u mfa \<longleftrightarrow>
     (if truthy (mi_mfaRecoveryCode mfa) then recovery_passed L env d u (the (mi_mfaRecoveryCode mfa))
      else truthy (mi_mfaCode mfa) \<and> mi_mfaFactorId mfa \<noteq> None \<and>
        factor_passed L d t u (the (mi_mfaFactorId mfa)) (the (mi_mfaCode mfa)))"

lemma consumeCode_passed:
  assumes "consumeCode L env u code w = (Inr n, w')"
  shows "recovery_passed L env (db w) u code"
proof -
  let ?find = "findActiveByLookupHash (db w) (lookupHash L env (normalizeCode code))"
  from assms obtain c where c: "?find = Some c" "rc_userId c = u" "argon2_verify L (rc_codeHash c) (normalizeCode code)"
    by (auto simp: consumeCode_def Let_def read_bind throw_run verified_guard split: option.splits)
  from find_SomeD [OF c(1) [unfolded findActiveByLookupHash_def]] c(2,3) show ?thesis
    unfolding recovery_passed_def by blast
qed

lemma verifyMfa_passed:
  assumes "MfaService_verifyMfa fuel L env u i code issue w = (Inr x, w')"
  shows "factor_passed L (db w) (clock w) u i code"
proof -
  from assms obtain f where f: "MfaRepository_findByFactorId (db w) i = Some f" "mf_userId f = u"
    "mf_type f = ''totp''" "truthy (mf_secret f)" "totp_check L code (the (mf_secret f)) (clock w)"
    by (auto simp: MfaService_verifyMfa_def read_bind now_bind throw_run split: option.splits if_splits)
  from find_SomeD [OF f(1) [unfolded MfaRepository_findByFactorId_def]] f(2-5) show ?thesis
    unfolding factor_passed_def by blast
qed

lemma enforce_passed:
  assumes "enforceMfaForLogin L env u ip mfa w = (Inr b, w')" and "hasEnabledMfa (db w) u"
  shows "second_factor L env (db w) (clock w) u mfa"
proof (cases "truthy (mi_mfaRecoveryCode mfa)")
  case True
  from assms True obtain r1 v1 r2 v2 n where
    "rate_consume (''mfa-recovery:'' @ uuid_text u) (RATE_LIMIT_MFA_RECOVERY_PER_MIN env) 60 w = (Inr r1, v1)"
    "rate_consume (''mfa-recovery-ip:'' @ (case ip of None \<Rightarrow> ''unknown'' | Some i \<Rightarrow> i))
       (RATE_LIMIT_MFA_RECOVERY_PER_MIN env) 60 v1 = (Inr r2, v2)"
    "consumeCode L env u (the (mi_mfaRecoveryCode mfa)) v2 = (Inr n, w')"
    by (auto simp: enforceMfaForLogin_def read_bind throw_run ret_run elim!: bind_Inr_E split: if_splits)
  with True show ?thesis
    using rate_consume_db consumeCode_passed unfolding second_factor_def by metis
next
  case False
  with assms obtain x where "truthy (mi_mfaCode mfa)" "mi_mfaFactorId mfa \<noteq> None"
    "MfaService_verifyMfa 0 L env u (the (mi_mfaFactorId mfa)) (the (mi_mfaCode mfa)) False w = (Inr x, w')"
    by (auto simp: enforceMfaForLogin_def read_bind throw_run ret_run elim!: bind_Inr_E split: if_splits)
  with False show ?thesis using verifyMfa_passed unfolding second_factor_def by auto
qed

section \<open>Login\<close>

text \<open>The row of a session created for \<open>u\<close> with the tokens of the answer.\<close>

definition session_of :: "libs \<Rightarrow> uuid \<Rightarrow> session_tokens \<Rightarrow> session_row \<Rightarrow> bool" where
  "session_of L u i s \<longleftrightarrow> us_id s = ss_sessionId i \<and> us_userId s = u \<and> us_revokedAt s = None \<and>
     us_accessTokenHash s = hashOpaqueToken L (ss_accessToken i) \<and>
     us_refreshTokenHash s = hashOpaqueToken L (ss_refreshToken i)"

lemma idp_createSession_cases:
  "case AuthService_createSession L env u ip agent w of
     (Inl e, w') \<Rightarrow> db w' = db w
   | (Inr i, w') \<Rightarrow> \<exists>s. db w' = userSessions_update (\<lambda>rs. rs @ [s]) (db w) \<and> session_of L u i s"
  by (auto simp: AuthService_createSession_def SessionRepository_create_def insert_session_def run_simps
      Let_def session_of_def split: if_splits)

text \<open>
  The postcondition of a sign-in: its answer satisfies \<open>ok\<close> and the session of the answer was added,
  or the sessions are what they were.
\<close>

definition signed_in ::
    "libs \<Rightarrow> session_row list \<Rightarrow> (login_success \<Rightarrow> bool) \<Rightarrow> (err + login_outcome) \<times> world \<Rightarrow> bool" where
  "signed_in L rs ok r \<longleftrightarrow> (case r of
     (Inr (LoggedIn a), w') \<Rightarrow> ok a \<and> (\<exists>s. userSessions (db w') = rs @ [s] \<and>
        session_of L (ls_userId a) (ls_session a) s)
   | (_, w') \<Rightarrow> userSessions (db w') = rs)"

lemma signed_in_throw: "userSessions (db w') = rs \<Longrightarrow> signed_in L rs ok (Inl e, w')"
  by (simp add: signed_in_def)

lemma signed_in_pending: "userSessions (db w') = rs \<Longrightarrow> signed_in L rs ok (Inr (mfa_pending u k), w')"
  by (simp add: signed_in_def mfa_pending_def)

text \<open>Steps before the session is created.\<close>

lemma signed_in_bind:
  assumes "safe (on_db (same userSessions)) m" and "userSessions (db w) = rs"
    and "\<And>x v. m w = (Inr x, v) \<Longrightarrow> userSessions (db v) = rs \<Longrightarrow> signed_in L rs ok (f x v)"
  shows "signed_in L rs ok (bind m f w)"
proof (rule run_bindI)
  fix e v assume "m w = (Inl e, v)"
  with frameD [OF assms(1)] assms(2) show "signed_in L rs ok (Inl e, v)" by (simp add: signed_in_throw)
next
  fix x v assume "m w = (Inr x, v)"
  with frameD [OF assms(1)] assms(2,3) show "signed_in L rs ok (f x v)" by simp
qed

lemma signed_in_refuse:
  assumes "safe (on_db (same userSessions)) m" and "userSessions (db w) = rs"
  shows "signed_in L rs ok (bind m (\<lambda>_. throw e) w)"
  by (rule signed_in_bind [OF assms]) (simp add: throw_run signed_in_throw)

text \<open>The end of a sign-in.\<close>

lemma signed_in_session:
  assumes "userSessions (db w) = rs" and "\<And>i. ok (a i)"
    and "\<And>i. safe (on_db (same userSessions)) (m i)" and "\<And>i v. \<not> isl (fst (m i v))"
    and "\<And>i. ls_userId (a i) = u \<and> ls_session (a i) = i"
  shows "signed_in L rs ok (bind (AuthService_createSession L env u ip agent)
    (\<lambda>i. bind (m i) (\<lambda>_. ret (LoggedIn (a i)))) w)"
proof (rule run_bindI)
  fix e v assume "AuthService_createSession L env u ip agent w = (Inl e, v)"
  with idp_createSession_cases [where L = L and env = env and u = u and ip = ip and agent = agent and w = w] assms(1) show "signed_in L rs ok (Inl e, v)"
    by (simp add: signed_in_throw)
next
  fix i v assume c: "AuthService_createSession L env u ip agent w = (Inr i, v)"
  obtain x v' where m: "m i v = (Inr x, v')"
    using assms(4) [of i v] by (cases "m i v"; cases "fst (m i v)") auto
  from frameD [OF assms(3) m] idp_createSession_cases [where L = L and env = env and u = u and ip = ip and agent = agent and w = w] c assms(1,2,5) m
  show "signed_in L rs ok (bind (m i) (\<lambda>_. ret (LoggedIn (a i))) v)"
    by (auto simp: signed_in_def bind_eq_if_ret ret_run)
qed

lemma event_never_throws: "\<not> isl (fst (AuthService_createSecurityEvent k u p w))"
  using event_world [of k u p w] by (metis fst_conv isl_def sum.distinct(1))

lemma bind_assoc: "bind (bind m f) g = bind m (\<lambda>x. bind (f x) g)"
  by (auto simp: bind_def fun_eq_iff split: prod.split sum.split)

lemma recordAttempt_world:
  assumes "recordAttempt e s i w = (x, w')"
  shows "clock w' = clock w \<and> userSessions (db w') = userSessions (db w) \<and> mfaFactors (db w') = mfaFactors (db w) \<and>
    mfaRecoveryCodes (db w') = mfaRecoveryCodes (db w)"
  using assms by (auto simp: recordAttempt_def insert_attempt_def run_simps split: if_splits)

lemma signed_in_finish:
  assumes "userSessions (db w) = rs"
    and "\<And>a. ls_userId a = u \<Longrightarrow> ls_adaptiveRisk a = k \<Longrightarrow>
      (hasEnabledMfa (db w) u \<longrightarrow> second_factor L env (db w) (clock w) u mfa) \<Longrightarrow> ok a"
  shows "signed_in L rs ok (finish_login L env email u ip agent mfa (hasEnabledMfa (db w) u) k w)"
proof (cases "hasEnabledMfa (db w) u \<and> no_method mfa")
  case True
  then show ?thesis by (simp add: finish_login_def ret_run signed_in_pending assms(1))
next
  case False
  let ?tail = "\<lambda>session. bind (recordLoginResult ''success'' (hasEnabledMfa (db w) u)) (\<lambda>_.
      AuthService_createSecurityEvent ''login.success'' (Some u)
        (success_payload [(''email'', JStr email)] ip (hasEnabledMfa (db w) u) k))"
  show ?thesis
    unfolding finish_login_def if_not_P [OF False]
  proof (rule signed_in_bind [OF _ assms(1)])
    show "safe (on_db (same userSessions)) (whenever (hasEnabledMfa (db w) u)
        (bind (enforceMfaForLogin L env u ip mfa) (\<lambda>_. ret ())))" by (intro safe_intros)
    fix x v assume m: "whenever (hasEnabledMfa (db w) u)
        (bind (enforceMfaForLogin L env u ip mfa) (\<lambda>_. ret ())) w = (Inr x, v)"
      and rs: "userSessions (db v) = rs"
    have "second_factor L env (db w) (clock w) u mfa" if "hasEnabledMfa (db w) u"
      using m that enforce_passed by (auto simp: whenever_run elim!: bind_Inr_E)
    then show "signed_in L rs ok (bind (AuthService_createSession L env u ip agent) (\<lambda>session.
      bind (recordLoginResult ''success'' (hasEnabledMfa (db w) u)) (\<lambda>_.
      bind (AuthService_createSecurityEvent ''login.success'' (Some u)
              (success_payload [(''email'', JStr email)] ip (hasEnabledMfa (db w) u) k)) (\<lambda>_.
      ret (LoggedIn \<lparr>ls_userId = u, ls_session = session, ls_mfaEnabled = hasEnabledMfa (db w) u,
             ls_adaptiveRisk = k\<rparr>)))) v)"
      unfolding bind_assoc [symmetric, of "recordLoginResult _ _"]
      by (intro signed_in_session rs assms(2) safe_intros)
        (auto simp: bind_def recordLoginResult_def emit_run event_never_throws)
  qed
qed

text \<open>
  A sign-in with a password that ends in a session belongs to a caller who knew the password
  of an active account with that address, was not at high adaptive risk and, when the account has
  enabled factors, held a valid second factor; it adds exactly one session, the account's, with
  the hashes of the tokens returned. In every other case (the second factor is asked for, any
  refusal, any failure) the sessions are what they were.
\<close>

theorem idp_login_sound:
  assumes "AuthService_login L env email password ip agent mfa device w = (x, w')"
  shows "case x of
      Inr (LoggedIn a) \<Rightarrow> \<exists>u s. valid_login L (db w) email password = Some u \<and> uc_status u = ''active'' \<and>
        ls_userId a = uc_id u \<and> ar_level (ls_adaptiveRisk a) \<noteq> RiskHigh \<and>
        (hasEnabledMfa (db w) (uc_id u) \<longrightarrow> second_factor L env (db w) (clock w) (uc_id u) mfa) \<and>
        userSessions (db w') = userSessions (db w) @ [s] \<and> session_of L (uc_id u) (ls_session a) s
    | _ \<Rightarrow> userSessions (db w') = userSessions (db w)"
proof -
  define ok where "ok a \<longleftrightarrow> (\<exists>u. valid_login L (db w) email password = Some u \<and> uc_status u = ''active'' \<and>
    ls_userId a = uc_id u \<and> ar_level (ls_adaptiveRisk a) \<noteq> RiskHigh \<and>
    (hasEnabledMfa (db w) (uc_id u) \<longrightarrow> second_factor L env (db w) (clock w) (uc_id u) mfa))" for a :: login_success
  have active: "signed_in L (userSessions (db w)) ok (login_active L env email (uc_id u) ip agent mfa device v)"
    if u: "valid_login L (db w) email password = Some u" "uc_status u = ''active''"
      and v: "recordAttempt email True ip w = (Inr y, v)" for u y v
  proof -
    note f = recordAttempt_world [OF v]
    have mfa: "hasEnabledMfa (db v) = hasEnabledMfa (db w)"
      "second_factor L env (db v) = second_factor L env (db w)"
      using f by (auto simp: fun_eq_iff hasEnabledMfa_def MfaRepository_findActiveFactorsByUserId_def
          second_factor_def recovery_passed_def factor_passed_def)
    have finish: "signed_in L (userSessions (db w)) ok (finish_login L env email (uc_id u) ip ag mfa
        (hasEnabledMfa (db v) (uc_id u)) k v)" if "ar_level k \<noteq> RiskHigh" for k ag
      by (rule signed_in_finish) (use f u that in \<open>auto simp: ok_def mfa\<close>)
    have refuse: "signed_in L (userSessions (db w)) ok (bind (AuthService_createSecurityEvent t i p) (\<lambda>_. throw e) v)"
      for t i p e using f by (intro signed_in_refuse safe_intros) simp
    show ?thesis
      unfolding login_active_def Let_def read_bind now_bind using finish refuse by simp
  qed
  have "signed_in L (userSessions (db w)) ok (AuthService_login L env email password ip agent mfa device w)"
  proof (cases "method_conflict mfa")
    case True
    then show ?thesis by (simp add: AuthService_login_def throw_run signed_in_throw)
  next
    case False
    show ?thesis
    proof (cases rule: check_login_cases [of L email password w])
      case (2 m)
      with False show ?thesis by (simp add: AuthService_login_def bind_run signed_in_throw)
    next
      case 1
      note checked = 1
      show ?thesis
    proof (cases "valid_login L (db w) email password")
      case None
      have "safe (on_db (same userSessions)) (bind (recordLoginResult ''failed'' False) (\<lambda>_.
          bind (recordAttempt email False ip) (\<lambda>_. AuthService_createSecurityEvent ''login.failed'' None
            (JObj [(''email'', JStr email), (''ipAddress'', jstr_opt ip), (''reason'', JStr ''invalid_credentials'')]))))"
        by (intro safe_intros)
      from signed_in_refuse [OF this refl] False None show ?thesis
        by (simp add: AuthService_login_def bind_eq_if_ret [of "check_login L email password" w, OF checked] bind_assoc)
    next
      case (Some u)
      with False active [OF Some] show ?thesis
        unfolding AuthService_login_def
        by (auto simp: bind_eq_if_ret [of "check_login L email password" w, OF checked] intro!: signed_in_bind [OF sessions_attempt refl] signed_in_refuse
            safe_intros simp flip: bind_assoc)
    qed
    qed
  qed
  with assms show ?thesis
    by (auto simp: signed_in_def ok_def split: sum.splits login_outcome.splits)
qed
definition no_mfa :: mfa_input where
  "no_mfa = \<lparr>mi_mfaCode = None, mi_mfaFactorId = None, mi_mfaRecoveryCode = None\<rparr>"

definition after_idp_login :: "(err + login_outcome) \<times> world" where
  "after_idp_login = AuthService_login sample_libs APP_CONSTANTS ''ann@x.org'' ''secret'' None None no_mfa None
     (sample_world sample_db)"

lemmas idp_eval = run_simps Let_def hashOpaqueToken_def user_exists_def opt_user_exists_def
  insert_attempt_def recordAttempt_def recordLoginResult_def AuthService_createSecurityEvent_def
  createSecurityEvent_def insert_event_def recordSecurityEventMetric_def

lemma after_idp_login_ok: "\<exists>a. fst after_idp_login = Inr (LoggedIn a)"
  by (simp add: after_idp_login_def AuthService_login_def method_conflict_def no_mfa_def check_login_def verifyPassword_io_def verify_hash_def
      findWithPasswordByEmail_def verifyPassword_def argon2Prefix_def starts_with_def login_active_def
      login_risk_def APP_CONSTANTS_def low_risk_def hasEnabledMfa_def finish_login_def
      MfaRepository_findActiveFactorsByUserId_def AuthService_createSession_def
      SessionRepository_create_def insert_session_def idp_eval sample_defs uniq_defs)

theorem idp_login_sound_witness:
  "\<exists>s. userSessions (db (snd after_idp_login)) = [sample_session, s] \<and> us_userId s = 1"
proof -
  obtain a where a: "fst after_idp_login = Inr (LoggedIn a)" using after_idp_login_ok ..
  have u: "valid_login sample_libs sample_db ''ann@x.org'' ''secret'' = Some u \<Longrightarrow> uc_id u = 1" for u
    by (auto simp: valid_login_def findWithPasswordByEmail_def sample_defs split: if_splits)
  from idp_login_sound [where L = sample_libs and env = APP_CONSTANTS and email = "''ann@x.org''" and
      password = "''secret''" and ip = None and agent = None and mfa = no_mfa and device = None and
      w = "sample_world sample_db", OF prod.collapse [symmetric]] a u show ?thesis
    unfolding after_idp_login_def [symmetric] by (auto simp: session_of_def sample_db_def)
qed

section \<open>Google login\<close>

definition grows :: "(database \<Rightarrow> 'a list) \<Rightarrow> database \<Rightarrow> database \<Rightarrow> bool" where
  "grows f d d' \<longleftrightarrow> (\<exists>xs. f d' = f d @ xs)"

interpretation grows: db_order "grows f" for f
  by unfold_locales (auto simp: grows_def)

lemma google_user_frame:
  assumes "\<And>d g. f (users_update g d) = f d" and "\<And>d g. f (userEmails_update g d) = f d"
    and "\<And>d g. f (externalIdentities_update g d) = f d"
  shows "safe (on_db (same f)) (google_user sub email)"
  unfolding google_user_def createWithoutPassword_def insert_user_def insert_email_def IdentityRepository_create_def
  by (intro safe_intros same.safe_insert_row) (simp_all add: same_def assms)

lemma google_user_grows: "safe (on_db (grows users)) (google_user sub email)"
  unfolding google_user_def createWithoutPassword_def insert_user_def insert_email_def IdentityRepository_create_def
  by (intro safe_intros grows.safe_insert_row) (simp_all add: grows_def)

lemma clock_transaction [safe_intros]: "safe same_clock m \<Longrightarrow> safe same_clock (transaction m)"
  by (auto simp: safe_def same_clock_def transaction_def split: prod.split sum.split)
    (metis snd_conv)+

lemma google_user_clock: "safe same_clock (google_user sub email)"
  unfolding google_user_def createWithoutPassword_def insert_user_def insert_email_def IdentityRepository_create_def
  by (intro safe_intros)

text \<open>The account a Google identity signs in to: the linked one, else the active owner of the
  address, else a new one.\<close>

definition google_account :: "database \<Rightarrow> string \<Rightarrow> string \<Rightarrow> uuid \<Rightarrow> bool" where
  "google_account d sub email u \<longleftrightarrow>
     (case findByProvider d ''google'' sub of
        Some i \<Rightarrow> u = xi_userId i
      | None \<Rightarrow> (case findByEmail d email of
            Some (v, _) \<Rightarrow> u = u_id v \<and> u_status v = ''active''
          | None \<Rightarrow> \<not> user_exists d u))"

lemma createWithoutPassword_new: "createWithoutPassword email v st w = (Inr u, w') \<Longrightarrow> \<not> user_exists (db w) u"
  by (auto simp: createWithoutPassword_def insert_user_def insert_email_def run_simps uniq_users_def
      user_exists_def split: if_splits)

lemma google_user_account:
  assumes "google_user sub email w = (Inr u, w')"
  shows "google_account (db w) sub email u"
  using assms
  by (auto simp: google_user_def google_account_def bind_assoc read_bind ret_run throw_run
      elim!: bind_Inr_E dest: createWithoutPassword_new split: option.splits if_splits)

lemma google_claims_ok:
  "google_claims L tok c w = (Inr (sub, email), w') \<Longrightarrow> w' = w \<and>
   (\<exists>p e. google_verify L tok c (clock w) = Some (Some p) \<and> gp_emailVerified p \<and>
      gp_sub p = Some sub \<and> sub \<noteq> [] \<and> gp_email p = Some e \<and> e \<noteq> [] \<and> email = to_lower e)"
  by (auto simp: google_claims_def run_simps truthy_iff split: option.splits if_splits)

lemma google_claims_same [safe_intros]: "safe (on_db (same f)) (google_claims L tok c)"
  unfolding google_claims_def by (intro safe_intros)

lemma password_row_kept:
  assumes "grows users d d'" and "userPasswords d' = userPasswords d" and "findWithPasswordById d u \<noteq> None"
  shows "findWithPasswordById d' u \<noteq> None"
proof -
  have *: "findWithPasswordById d u = None \<longleftrightarrow>
      (\<forall>v \<in> set (users d). \<forall>p \<in> set (userPasswords d). u_id v = u \<longrightarrow> pw_userId p \<noteq> u_id v)" for d
    unfolding findWithPasswordById_def first_row_None concat_eq_Nil_conv set_map ball_simps
    by (auto split: if_splits)
  from assms show ?thesis unfolding * by (auto simp: grows_def)
qed

lemma signed_in_google:
  assumes "userSessions (db w) = rs"
    and "\<And>a. ls_userId a = u \<Longrightarrow> ar_level (ls_adaptiveRisk a) \<noteq> RiskHigh \<Longrightarrow>
      (findWithPasswordById (db w) u \<noteq> None \<and> hasEnabledMfa (db w) u \<longrightarrow>
        second_factor L env (db w) (clock w) u mfa) \<Longrightarrow> ok a"
  shows "signed_in L rs ok (google_login_user L env email u ip agent mfa w)"
proof -
  have issue: "signed_in L rs ok (google_session L env email u ip agent b k v)"
    if "userSessions (db v) = rs" "\<And>a. ls_userId a = u \<Longrightarrow> ls_adaptiveRisk a = k \<Longrightarrow> ok a" for b k v
    unfolding google_session_def using that
    by (intro signed_in_session safe_intros) (auto simp: event_never_throws)
  have mfa: "signed_in L rs ok (bind (whenever (hasEnabledMfa (db w) u)
        (bind (enforceMfaForLogin L env u ip mfa) (\<lambda>_. ret ()))) (\<lambda>_.
        google_session L env email u ip agent (hasEnabledMfa (db w) u) k) w)"
    if "ar_level k \<noteq> RiskHigh" for k
  proof (rule signed_in_bind [OF _ assms(1)])
    show "safe (on_db (same userSessions)) (whenever (hasEnabledMfa (db w) u)
        (bind (enforceMfaForLogin L env u ip mfa) (\<lambda>_. ret ())))" by (intro safe_intros)
    fix x v assume m: "whenever (hasEnabledMfa (db w) u)
        (bind (enforceMfaForLogin L env u ip mfa) (\<lambda>_. ret ())) w = (Inr x, v)"
    have "second_factor L env (db w) (clock w) u mfa" if "hasEnabledMfa (db w) u"
      using m that enforce_passed by (auto simp: whenever_run elim!: bind_Inr_E)
    then show "signed_in L rs ok (google_session L env email u ip agent (hasEnabledMfa (db w) u) k v)"
      if "userSessions (db v) = rs" using that \<open>ar_level k \<noteq> RiskHigh\<close> by (intro issue assms(2)) auto
  qed
  have refuse: "signed_in L rs ok (bind (AuthService_createSecurityEvent t i p) (\<lambda>_. throw e) w)" for t i p e
    using assms(1) by (intro signed_in_refuse safe_intros)
  show ?thesis
    unfolding google_login_user_def read_bind now_bind
    using issue [OF assms(1)] mfa refuse assms
    by (simp add: throw_run ret_run signed_in_throw signed_in_pending)
qed

text \<open>
  A Google sign-in that ends in a session is backed by an ID token that the verifier accepted
  for the configured client with a verified address; it signs in the account linked to the
  subject, else the active owner of the address, else a new account, and an account with a local
  password and enabled factors also held a valid second factor. Exactly one session is added; in
  every other case the sessions are what they were.
\<close>

theorem idp_google_sound:
  assumes "AuthService_loginWithGoogle L env tok ip agent device mfa w = (x, w')"
  shows "case x of
      Inr (LoggedIn a) \<Rightarrow> \<exists>p sub e s. google_verify L tok
          (or_text (sg_clientId (getSocialLoginConfig (db w) ''google'')) (GOOGLE_CLIENT_ID env)) (clock w) = Some (Some p) \<and>
        gp_emailVerified p \<and> gp_sub p = Some sub \<and> sub \<noteq> [] \<and> gp_email p = Some e \<and>
        google_account (db w) sub (to_lower e) (ls_userId a) \<and> ar_level (ls_adaptiveRisk a) \<noteq> RiskHigh \<and>
        (findWithPasswordById (db w) (ls_userId a) \<noteq> None \<and> hasEnabledMfa (db w) (ls_userId a) \<longrightarrow>
          second_factor L env (db w) (clock w) (ls_userId a) mfa) \<and>
        userSessions (db w') = userSessions (db w) @ [s] \<and> session_of L (ls_userId a) (ls_session a) s
    | _ \<Rightarrow> userSessions (db w') = userSessions (db w)"
proof -
  let ?c = "or_text (sg_clientId (getSocialLoginConfig (db w) ''google'')) (GOOGLE_CLIENT_ID env)"
  define ok where "ok a \<longleftrightarrow> (\<exists>p sub e. google_verify L tok ?c (clock w) = Some (Some p) \<and>
    gp_emailVerified p \<and> gp_sub p = Some sub \<and> sub \<noteq> [] \<and> gp_email p = Some e \<and>
    google_account (db w) sub (to_lower e) (ls_userId a) \<and> ar_level (ls_adaptiveRisk a) \<noteq> RiskHigh \<and>
    (findWithPasswordById (db w) (ls_userId a) \<noteq> None \<and> hasEnabledMfa (db w) (ls_userId a) \<longrightarrow>
      second_factor L env (db w) (clock w) (ls_userId a) mfa))" for a :: login_success
  have rest: "signed_in L (userSessions (db w)) ok (google_login_user L env email u ip ag mfa v)"
    if c: "google_claims L tok ?c w = (Inr (sub, email), w)" and v: "google_user sub email w = (Inr u, v)"
    for sub email u v ag
  proof (rule signed_in_google)
    have f: "userSessions (db v) = userSessions (db w)" "userPasswords (db v) = userPasswords (db w)"
      "mfaFactors (db v) = mfaFactors (db w)" "mfaRecoveryCodes (db v) = mfaRecoveryCodes (db w)"
      using v by (auto intro!: frameD [OF google_user_frame])
    then show "userSessions (db v) = userSessions (db w)" by simp
    fix a :: login_success assume a: "ls_userId a = u" "ar_level (ls_adaptiveRisk a) \<noteq> RiskHigh"
      "findWithPasswordById (db v) u \<noteq> None \<and> hasEnabledMfa (db v) u \<longrightarrow> second_factor L env (db v) (clock v) u mfa"
    have "hasEnabledMfa (db v) = hasEnabledMfa (db w)" "second_factor L env (db v) = second_factor L env (db w)"
      using f by (auto simp: fun_eq_iff hasEnabledMfa_def MfaRepository_findActiveFactorsByUserId_def
          second_factor_def recovery_passed_def factor_passed_def)
    moreover have "clock v = clock w" using safe_run [OF google_user_clock v] by (simp add: same_clock_def)
    moreover have "findWithPasswordById (db w) u \<noteq> None \<Longrightarrow> findWithPasswordById (db v) u \<noteq> None"
      using password_row_kept safe_run [OF google_user_grows v] f(2) by (auto simp: on_db_def)
    ultimately show "ok a"
      using a google_claims_ok [OF c] google_user_account [OF v] unfolding ok_def by auto
  qed
  have "signed_in L (userSessions (db w)) ok (AuthService_loginWithGoogle L env tok ip agent device mfa w)"
  proof (cases "method_conflict mfa \<or> \<not> sg_providerEnabled (getSocialLoginConfig (db w) ''google'')")
    case True
    then show ?thesis by (auto simp: AuthService_loginWithGoogle_def read_bind throw_run signed_in_throw)
  next
    case False
    have "signed_in L (userSessions (db w)) ok (bind (google_claims L tok ?c) (\<lambda>(sub, email).
      bind (google_user sub email) (\<lambda>userId. bind (read_db (\<lambda>d. is_active_user d userId)) (\<lambda>active.
      if \<not> active then throw invalid_request
      else google_login_user L env email userId ip (buildSessionUserAgent agent device) mfa))) w)"
    proof (rule signed_in_bind [OF google_claims_same refl])
      fix x v assume "google_claims L tok ?c w = (Inr x, v)"
      moreover obtain sub email where x: "x = (sub, email)" by (cases x)
      ultimately have c: "google_claims L tok ?c w = (Inr (sub, email), w)" "v = w"
        using google_claims_ok [of L tok ?c w sub email v] by auto
      show "signed_in L (userSessions (db w)) ok ((case x of (sub, email) \<Rightarrow>
        bind (google_user sub email) (\<lambda>userId. bind (read_db (\<lambda>d. is_active_user d userId)) (\<lambda>active.
        if \<not> active then throw invalid_request
        else google_login_user L env email userId ip (buildSessionUserAgent agent device) mfa))) v)"
        unfolding x c(2) prod.case
        by (rule signed_in_bind [OF google_user_frame refl])
          (simp_all add: read_bind throw_run signed_in_throw rest [OF c(1)])
    qed
    with False show ?thesis by (simp add: AuthService_loginWithGoogle_def read_bind)
  qed
  with assms show ?thesis
    by (auto simp: signed_in_def ok_def split: sum.splits login_outcome.splits)
qed

theorem idp_google_sound_witness:
  "userSessions (db (snd (AuthService_loginWithGoogle sample_libs APP_CONSTANTS [] None None None no_mfa
     (sample_world sample_db)))) = [sample_session]"
  using idp_google_sound [where L = sample_libs and env = APP_CONSTANTS and tok = "[]" and ip = None and agent = None
      and device = None and mfa = no_mfa and w = "sample_world sample_db", OF prod.collapse [symmetric]]
  by (simp add: AuthService_loginWithGoogle_def no_mfa_def method_conflict_def getSocialLoginConfig_def getConfig_def
      DEFAULT_SOCIAL_LOGIN_CONFIG_def google_claims_def bind_run read_db_run now_run throw_run sample_libs_def sample_defs
      sample_world_def)

end
