(* ===== verification/IdpRecovery.thy ===== *)
theory IdpRecovery
  imports IdpLogin MfaFacts
begin

text \<open>
  Recovery codes over the life of an account: a code that was accepted is never accepted again,
  whatever the server does in between, and issuing a new batch replaces the old one with codes
  that work.
\<close>

section \<open>Frames\<close>

text \<open>The log writers leave every other table alone.\<close>

lemma same_security_event:
  assumes "\<And>d g. f (securityEvents_update g d) = f d"
  shows "safe (on_db (same f)) (createSecurityEvent k u p)"
  unfolding createSecurityEvent_def insert_event_def recordSecurityEventMetric_def
  by (intro safe_intros same.safe_insert_row) (simp add: same_def assms)

lemma same_audit_log:
  assumes "\<And>d g. f (auditLogs_update g d) = f d"
  shows "safe (on_db (same f)) (createAuditLog L u a rt ri p)"
  unfolding createAuditLog_def createAuditLog_tx_def insert_audit_def
  by (intro safe_intros same.safe_insert_row) (simp_all add: same_def assms)

lemma codes_event [safe_intros]: "safe (on_db (same mfaRecoveryCodes)) (createSecurityEvent k u p)"
  by (rule same_security_event) simp

lemma codes_audit [safe_intros]: "safe (on_db (same mfaRecoveryCodes)) (createAuditLog L u a rt ri p)"
  by (rule same_audit_log) simp

section \<open>Using a code\<close>

definition mark_used :: "uuid \<Rightarrow> time \<Rightarrow> recovery_row list \<Rightarrow> recovery_row list" where
  "mark_used i t = update_where (\<lambda>r. rc_id r = i \<and> active_code r) (\<lambda>r. r\<lparr>rc_usedAt := Some t\<rparr>)"

lemma consumeCode_ok:
  assumes "consumeCode L env u code w = (Inr n, w')"
  shows "\<exists>c. findActiveByLookupHash (db w) (lookupHash L env (normalizeCode code)) = Some c \<and> rc_userId c = u \<and>
    argon2_verify L (rc_codeHash c) (normalizeCode code) \<and>
    mfaRecoveryCodes (db w') = mark_used (rc_id c) (clock w) (mfaRecoveryCodes (db w)) \<and>
    n = countActiveByUserId (db w') u"
proof -
  from assms obtain c where c: "findActiveByLookupHash (db w) (lookupHash L env (normalizeCode code)) = Some c"
    "rc_userId c = u" "argon2_verify L (rc_codeHash c) (normalizeCode code)"
    by (auto simp: consumeCode_def Let_def read_bind throw_run verified_guard split: option.splits)
  with assms obtain used v where m: "markUsed (rc_id c) w = (Inr used, v)" "used"
    by (auto simp: consumeCode_def Let_def read_bind throw_run elim!: bind_Inr_E dest!: verify_hash_InrD split: if_splits)
  let ?n = "countActiveByUserId (db v) u"
  let ?tail = "\<lambda>payload. bind (createAuditLog L (Some u) ''mfa.recovery_code.used'' ''user'' (Some (uuid_text u)) payload) (\<lambda>_.
     bind (createSecurityEvent ''mfa.recovery_code.used'' (Some u) payload) (\<lambda>_.
     bind (whenever (?n \<le> 2) (createSecurityEvent ''mfa.recovery_codes.low'' (Some u) payload)) (\<lambda>_. ret ?n)))"
  have t: "safe (on_db (same mfaRecoveryCodes)) (?tail p)" for p by (intro safe_intros)
  have "?tail (JObj [(''remainingCount'', jnat ?n)]) v = (Inr n, w')"
    using assms c m by (simp add: consumeCode_def Let_def read_bind verified_guard bind_eq_if_ret)
  with frameD [OF t this] have "n = ?n" "mfaRecoveryCodes (db w') = mfaRecoveryCodes (db v)"
    by (auto elim!: bind_Inr_E simp: ret_run)
  moreover have "mfaRecoveryCodes (db v) = mark_used (rc_id c) (clock w) (mfaRecoveryCodes (db w))"
    using m by (auto simp: markUsed_def run_simps mark_used_def)
  ultimately show ?thesis using c by (auto simp: countActiveByUserId_def)
qed

lemma uniq_recovery_lookup:
  "uniq_recovery rs \<Longrightarrow> a \<in> set rs \<Longrightarrow> b \<in> set rs \<Longrightarrow> rc_lookupHash a = rc_lookupHash b \<Longrightarrow> a = b"
  using distinct_map_eqD [of rc_lookupHash rs a b] by (simp add: uniq_recovery_def)

lemma uniq_recovery_id:
  "uniq_recovery rs \<Longrightarrow> a \<in> set rs \<Longrightarrow> b \<in> set rs \<Longrightarrow> rc_id a = rc_id b \<Longrightarrow> a = b"
  using distinct_map_eqD [of rc_id rs a b] by (simp add: uniq_recovery_def)

text \<open>A row that is not active any more makes its code useless for good.\<close>

lemma dead_code_refused:
  assumes "uniq_recovery (mfaRecoveryCodes (db w))" and "c \<in> set (mfaRecoveryCodes (db w))"
    and "\<not> active_code c" and "lookupHash L env (normalizeCode code) = rc_lookupHash c"
  shows "fst (consumeCode L env v code (run_idp_ops fuel L env ops w)) = Inl invalid_recovery_code"
proof -
  let ?w = "run_idp_ops fuel L env ops w"
  from recovery.run_idp_ops_respects [of w fuel L env ops] assms(1-3) obtain c' where
    u: "uniq_recovery (mfaRecoveryCodes (db ?w))" and c': "c' \<in> set (mfaRecoveryCodes (db ?w))"
      "\<not> active_code c'" "rc_lookupHash c' = rc_lookupHash c"
    unfolding codes_kept_def code_evolves_def by blast
  have "findActiveByLookupHash (db ?w) (rc_lookupHash c) = None"
    unfolding findActiveByLookupHash_def find_None using uniq_recovery_lookup [OF u _ c'(1)] c'(2,3) by metis
  then show ?thesis by (simp add: consumeCode_def Let_def read_bind throw_run assms(4))
qed

lemma count_mark_used:
  assumes "distinct (map rc_id rs)" and "c \<in> set rs" and "active_code c"
  shows "Suc (length (filter (\<lambda>r. rc_userId r = rc_userId c \<and> active_code r) (mark_used (rc_id c) t rs))) =
    length (filter (\<lambda>r. rc_userId r = rc_userId c \<and> active_code r) rs)"
  using assms
proof (induction rs)
  case (Cons r rs)
  show ?case
  proof (cases "r = c")
    case True
    with Cons.prems have "update_where (\<lambda>r. rc_id r = rc_id c \<and> active_code r) (\<lambda>r. r\<lparr>rc_usedAt := Some t\<rparr>) rs = rs"
      by (intro update_where_none) (metis distinct.simps(2) imageI list.map(2) set_map)
    with True Cons.prems show ?thesis by (auto simp: mark_used_def active_code_def)
  next
    case False
    with Cons.prems have "rc_id r \<noteq> rc_id c" "c \<in> set rs" by auto
    with Cons show ?thesis by (auto simp: mark_used_def)
  qed
qed simp

text \<open>
  C14: A recovery code works once: a code that was accepted was an unused code of that user, the
  number of remaining codes reported is one less than before, and afterwards, whatever operations
  of the server follow, no user gets the same code (in any spelling) accepted again.
\<close>

theorem recovery_code_single_use:
  assumes "consumeCode L env u code w = (Inr n, w')" and "uniq_recovery (mfaRecoveryCodes (db w))"
    and "normalizeCode code' = normalizeCode code"
  shows "recovery_passed L env (db w) u code \<and> Suc n = countActiveByUserId (db w) u \<and>
    fst (consumeCode L env v code' (run_idp_ops fuel L env ops w')) = Inl invalid_recovery_code"
proof -
  from consumeCode_ok [OF assms(1)] obtain c where
    f: "findActiveByLookupHash (db w) (lookupHash L env (normalizeCode code)) = Some c" and u: "rc_userId c = u"
    and codes: "mfaRecoveryCodes (db w') = mark_used (rc_id c) (clock w) (mfaRecoveryCodes (db w))"
    and n: "n = countActiveByUserId (db w') u" by blast
  from find_SomeD [OF f [unfolded findActiveByLookupHash_def]] have c: "c \<in> set (mfaRecoveryCodes (db w))"
    "active_code c" "rc_lookupHash c = lookupHash L env (normalizeCode code)" by auto
  have "uniq_recovery (mfaRecoveryCodes (db w'))"
    using assms(2) by (simp add: codes mark_used_def)
  moreover have "c\<lparr>rc_usedAt := Some (clock w)\<rparr> \<in> set (mfaRecoveryCodes (db w'))"
    using in_update_where [OF c(1), of "\<lambda>r. rc_id r = rc_id c \<and> active_code r" "\<lambda>r. r\<lparr>rc_usedAt := Some (clock w)\<rparr>"] c(2)
    by (simp add: codes mark_used_def)
  ultimately have "fst (consumeCode L env v code' (run_idp_ops fuel L env ops w')) = Inl invalid_recovery_code"
    by (rule dead_code_refused) (simp_all add: active_code_def assms(3) c(3))
  moreover have "Suc n = countActiveByUserId (db w) u"
    using count_mark_used [of "mfaRecoveryCodes (db w)" c "clock w"] assms(2) c(1,2) u n
    by (simp add: countActiveByUserId_def codes uniq_recovery_def)
  ultimately show ?thesis using consumeCode_passed [OF assms(1)] by blast
qed

section \<open>A new batch\<close>

lemma list_all2_member: "list_all2 P xs ys \<Longrightarrow> x \<in> set xs \<Longrightarrow> \<exists>y \<in> set ys. P x y"
  by (induction rule: list_all2_induct) auto

lemma map_each_all:
  assumes "map_each xs f w = (Inr ys, w')" and "\<And>x v y v'. f x v = (Inr y, v') \<Longrightarrow> Q x y"
  shows "list_all2 Q xs ys"
  using assms(1)
  by (induction xs arbitrary: w ys) (auto simp: ret_run elim!: bind_Inr_E intro: assms(2))

lemma map_each_same:
  assumes "map_each xs f w = (Inr ys, w')" and "\<And>x. safe (on_db (same g)) (f x)"
  shows "g (db w') = g (db w)"
  by (rule frameD [OF same.safe_map_each assms(1)]) (rule assms(2))

definition code_row :: "uuid \<Rightarrow> code_record \<Rightarrow> recovery_row \<Rightarrow> bool" where
  "code_row u c r \<longleftrightarrow> rc_userId r = u \<and> rc_lookupHash r = cr_lookupHash c \<and> rc_codeHash r = cr_codeHash c \<and>
     active_code r"

lemma insert_batch:
  assumes "for_each codes f w = (Inr (), w')"
    and "\<And>c v v'. f c v = (Inr (), v') \<Longrightarrow>
      \<exists>r. mfaRecoveryCodes (db v') = mfaRecoveryCodes (db v) @ [r] \<and> code_row u c r"
  shows "\<exists>rs. mfaRecoveryCodes (db w') = mfaRecoveryCodes (db w) @ rs \<and> list_all2 (code_row u) codes rs"
  using assms(1)
proof (induction codes arbitrary: w)
  case (Cons c cs)
  then obtain v where v: "f c w = (Inr (), v)" "for_each cs f v = (Inr (), w')"
    by (auto elim!: bind_Inr_E)
  from assms(2) [OF v(1)] Cons.IH [OF v(2)] show ?case by force
qed (simp add: ret_run)

definition codes_ended :: "uuid \<Rightarrow> time \<Rightarrow> recovery_row list \<Rightarrow> recovery_row list" where
  "codes_ended u t = update_where (\<lambda>r. rc_userId r = u \<and> active_code r) (\<lambda>r. r\<lparr>rc_revokedAt := Some t\<rparr>)"

lemma createBatch_ok:
  assumes "createBatch u b codes w = (Inr (), w')"
  shows "\<exists>rs. mfaRecoveryCodes (db w') = codes_ended u (clock w) (mfaRecoveryCodes (db w)) @ rs \<and>
    list_all2 (code_row u) codes rs"
proof -
  let ?f = "\<lambda>code. bind draw_uuid (\<lambda>i. bind now (\<lambda>t.
       insert_recovery \<lparr>rc_id = i, rc_userId = u, rc_batchId = b,
         rc_lookupHash = cr_lookupHash code, rc_codeHash = cr_codeHash code,
         rc_lastChars = cr_lastChars code, rc_usedAt = None, rc_revokedAt = None,
         rc_createdAt = t\<rparr>))"
  from assms obtain v where "revokeActiveByUserId u w = (Inr (), v)" and v: "for_each codes ?f v = (Inr (), w')"
    by (auto simp: createBatch_def transaction_Inr elim!: bind_Inr_E)
  then have "mfaRecoveryCodes (db v) = codes_ended u (clock w) (mfaRecoveryCodes (db w))"
    by (auto simp: revokeActiveByUserId_def run_simps codes_ended_def)
  moreover have "\<exists>r. mfaRecoveryCodes (db x') = mfaRecoveryCodes (db x) @ [r] \<and> code_row u c r"
    if "?f c x = (Inr (), x')" for c x x'
    using that by (auto simp: insert_recovery_def run_simps code_row_def active_code_def split: if_splits)
  ultimately show ?thesis using insert_batch [OF v, of u] by auto
qed

text \<open>Drawing and hashing the codes writes nothing.\<close>

lemma draw_same [safe_intros]: "safe (on_db (same f)) (draw_letters fuel n raw)"
proof (induction fuel arbitrary: raw)
  case 0
  show ?case by (subst draw_letters.simps) (auto intro: same.safe_ret same.safe_throw)
next
  case (Suc fuel)
  show ?case by (subst draw_letters.simps) (auto intro!: safe_intros Suc)
qed

lemma plain_same [safe_intros]: "safe (on_db (same f)) (generatePlainCode fuel env)"
  unfolding generatePlainCode_def by (intro safe_intros)

lemma record_same [safe_intros]: "safe (on_db (same f)) (code_record_of L env c)"
  unfolding code_record_of_def by (intro safe_intros)

definition issued_for :: "libs \<Rightarrow> app_env \<Rightarrow> string \<Rightarrow> code_record \<Rightarrow> bool" where
  "issued_for L env code r \<longleftrightarrow> cr_lookupHash r = lookupHash L env code \<and>
     (\<exists>salt. cr_codeHash r = argon2_hash L argon2_defaults (normalizeCode code) salt)"

lemma code_record_issued: "code_record_of L env c w = (Inr r, w') \<Longrightarrow> issued_for L env c r"
  by (auto simp: code_record_of_def run_simps issued_for_def)

lemma generateCodes_ok:
  assumes "generateCodes fuel L env u reason w = (Inr (b, codes), w')"
  shows "\<exists>v rs recs. length codes = MFA_RECOVERY_CODE_COUNT env \<and> list_all2 (issued_for L env) codes recs \<and>
    list_all2 (code_row u) recs rs \<and>
    mfaRecoveryCodes (db w') = codes_ended u v (mfaRecoveryCodes (db w)) @ rs"
proof -
  from assms obtain w1 batch v1 recs v2 v3 where d: "draw_uuid w = (Inr batch, w1)"
    and 1: "map_each [0..<MFA_RECOVERY_CODE_COUNT env] (\<lambda>_. generatePlainCode fuel env) w1 = (Inr codes, v1)"
    and 2: "map_each codes (code_record_of L env) v1 = (Inr recs, v2)"
    and 3: "createBatch u batch recs v2 = (Inr (), v3)"
    and 4: "mfaRecoveryCodes (db w') = mfaRecoveryCodes (db v3)"
    unfolding generateCodes_def Let_def
    by (auto simp: ret_run elim!: bind_Inr_E dest!: frameD [OF codes_event] frameD [OF codes_audit])
  have "db w1 = db w" using d by (auto simp: draw_uuid_run)
  moreover have "mfaRecoveryCodes (db v1) = mfaRecoveryCodes (db w1)"
    by (rule map_each_same [OF 1]) (rule plain_same)
  moreover have "mfaRecoveryCodes (db v2) = mfaRecoveryCodes (db v1)"
    by (rule map_each_same [OF 2]) (rule record_same)
  moreover have "length codes = MFA_RECOVERY_CODE_COUNT env"
    using map_each_all [OF 1, of "\<lambda>_ _. True"] by (auto dest: list_all2_lengthD)
  moreover have "list_all2 (issued_for L env) codes recs"
    by (rule map_each_all [OF 2]) (rule code_record_issued)
  ultimately show ?thesis using createBatch_ok [OF 3] 4 by auto
qed

lemma char_code_eq: "x = y \<longleftrightarrow> (of_char x :: nat) = of_char y"
  by (metis char_of_char)

lemma upper_char_code:
  "(of_char (upper_char x) :: nat) =
    (if 97 \<le> (of_char x :: nat) \<and> (of_char x :: nat) \<le> 122 then of_char x - 32 else of_char x)"
  by (auto simp: upper_char_def)

lemma kept_char_upper:
  assumes "\<not> js_space x" and "x \<noteq> CHR ''-''"
  shows "\<not> js_space (upper_char x) \<and> upper_char x \<noteq> CHR ''-'' \<and> upper_char (upper_char x) = upper_char x"
proof (cases "97 \<le> (of_char x :: nat) \<and> (of_char x :: nat) \<le> 122")
  case True
  then have y: "65 \<le> (of_char (upper_char x) :: nat)" "(of_char (upper_char x) :: nat) \<le> 90"
    unfolding upper_char_code by (simp_all, linarith+)
  then have "\<not> js_space (upper_char x)" "upper_char x \<noteq> CHR ''-''"
    unfolding js_space_def by (auto simp: char_code_eq)
  moreover from y have "upper_char (upper_char x) = upper_char x" by (simp add: upper_char_def [of "upper_char x"])
  ultimately show ?thesis by blast
next
  case False
  then have "upper_char x = x" by (auto simp: upper_char_def)
  with assms show ?thesis by simp
qed

lemma normalizeCode_idem [simp]: "normalizeCode (normalizeCode c) = normalizeCode c"
  unfolding normalizeCode_def to_upper_def by (induction c) (auto simp: kept_char_upper)
text \<open>
  Regenerating the recovery codes replaces the batch: the configured number of codes is
  returned, every code the user had before is refused from then on, whatever operations of the
  server follow, and every code of the new batch is accepted as the user's second factor.
\<close>

theorem regenerate_replaces_codes:
  assumes "regenerateCodes fuel L env u w = (Inr (b, codes), w')"
    and "uniq_recovery (mfaRecoveryCodes (db w))"
    and "\<And>password salt. argon2_verify L (argon2_hash L argon2_defaults password salt) password"
  shows "length codes = MFA_RECOVERY_CODE_COUNT env \<and>
    (\<forall>c \<in> set (mfaRecoveryCodes (db w)). rc_userId c = u \<longrightarrow>
      (\<forall>code v ops. lookupHash L env (normalizeCode code) = rc_lookupHash c \<longrightarrow>
        fst (consumeCode L env v code (run_idp_ops fuel L env ops w')) = Inl invalid_recovery_code)) \<and>
    (\<forall>code \<in> set codes. recovery_passed L env (db w') u code)"
proof -
  from assms(1) obtain w1 where "mfaRecoveryCodes (db w1) = mfaRecoveryCodes (db w)"
    "generateCodes fuel L env u ''regenerated'' w1 = (Inr (b, codes), w')"
    by (auto simp: regenerateCodes_def elim!: bind_Inr_E dest!: frameD [OF codes_event])
  from generateCodes_ok [OF this(2), unfolded this(1)] obtain t rs recs where
    len: "length codes = MFA_RECOVERY_CODE_COUNT env" and iss: "list_all2 (issued_for L env) codes recs"
    and rows: "list_all2 (code_row u) recs rs"
    and codes: "mfaRecoveryCodes (db w') = codes_ended u t (mfaRecoveryCodes (db w)) @ rs" by blast
  have u: "uniq_recovery (mfaRecoveryCodes (db w'))"
    using safeD [OF recovery.i_safe_regenerateCodes, of w fuel L env u] assms(1,2)
    by (simp add: on_db_def codes_kept_def)
  have old: "fst (consumeCode L env v code (run_idp_ops fuel L env ops w')) = Inl invalid_recovery_code"
    if c: "c \<in> set (mfaRecoveryCodes (db w))" "rc_userId c = u" "lookupHash L env (normalizeCode code) = rc_lookupHash c"
    for c v code ops
  proof -
    let ?f = "\<lambda>r. r\<lparr>rc_revokedAt := Some t\<rparr>"
    let ?c = "if rc_userId c = u \<and> active_code c then ?f c else c"
    have in_db: "?c \<in> set (mfaRecoveryCodes (db w'))"
      using in_update_where [OF c(1), of "\<lambda>r. rc_userId r = u \<and> active_code r" ?f]
      by (simp add: codes codes_ended_def)
    have dead: "\<not> active_code ?c" and same_hash: "rc_lookupHash ?c = rc_lookupHash c"
      using c(2) by (auto simp: active_code_def)
    from c(3) same_hash have "lookupHash L env (normalizeCode code) = rc_lookupHash ?c" by (rule trans [OF _ sym])
    then show ?thesis by (rule dead_code_refused [OF u in_db dead])
  qed
  have new: "recovery_passed L env (db w') u code" if "code \<in> set codes" for code
  proof -
    from list_all2_member [OF iss that] obtain r where r: "r \<in> set recs" "issued_for L env code r" by blast
    from list_all2_member [OF rows r(1)] obtain c where c: "c \<in> set rs" "code_row u r c" by blast
    from r(2) obtain salt where "cr_codeHash r = argon2_hash L argon2_defaults (normalizeCode code) salt"
      unfolding issued_for_def by blast
    with c(2) assms(3) [of "normalizeCode code" salt] have "argon2_verify L (rc_codeHash c) (normalizeCode code)"
      by (simp add: code_row_def)
    moreover have "c \<in> set (mfaRecoveryCodes (db w'))" using c(1) by (simp add: codes)
    moreover have "active_code c" "rc_userId c = u" "rc_lookupHash c = lookupHash L env (normalizeCode code)"
      using c(2) r(2) by (simp_all add: code_row_def issued_for_def lookupHash_def)
    ultimately show ?thesis unfolding recovery_passed_def by blast
  qed
  from len old new show ?thesis by blast
qed

section \<open>Witnesses\<close>

definition sample_code :: recovery_row where
  "sample_code = \<lparr>rc_id = 7, rc_userId = 1, rc_batchId = 8, rc_lookupHash = ''dev-mfa-recovery-pepper/AB'',
     rc_codeHash = ''$argon2AB'', rc_lastChars = ''AB'', rc_usedAt = None, rc_revokedAt = None, rc_createdAt = 0\<rparr>"

definition codes_world :: world where
  "codes_world = sample_world (sample_db\<lparr>mfaRecoveryCodes := [sample_code]\<rparr>)"

definition after_code :: "(err + nat) \<times> world" where
  "after_code = consumeCode sample_libs APP_CONSTANTS 1 ''a-b'' codes_world"

lemma code_ab: "normalizeCode ''a-b'' = ''AB''" "normalizeCode ''AB'' = ''AB''" "normalizeCode ''ab'' = ''AB''"
  by code_simp+

lemma after_code_ok: "fst after_code = Inr 0"
  by (simp add: after_code_def codes_world_def consumeCode_def code_ab lookupHash_def findActiveByLookupHash_def
      sample_code_def active_code_def markUsed_def countActiveByUserId_def createAuditLog_def createAuditLog_tx_def
      insert_audit_def shouldUseHashChain_def starts_with_def APP_CONSTANTS_def idp_eval sample_defs uniq_defs)

lemma after_code_run: "consumeCode sample_libs APP_CONSTANTS 1 ''a-b'' codes_world = (Inr 0, snd after_code)"
  by (metis after_code_def after_code_ok prod.collapse)

theorem recovery_code_single_use_witness:
  "fst (consumeCode sample_libs APP_CONSTANTS 1 ''ab''
     (run_idp_ops 9 sample_libs APP_CONSTANTS [IdpRegenerateCodes 1, IdpWait 5] (snd after_code))) = Inl invalid_recovery_code"
  using recovery_code_single_use [OF after_code_run, of "''ab''"]
  by (simp add: code_ab codes_world_def uniq_recovery_def)

definition short_codes_env :: app_env where
  "short_codes_env = APP_CONSTANTS\<lparr>MFA_RECOVERY_CODE_COUNT := 1, MFA_RECOVERY_CODE_LENGTH := 2\<rparr>"

definition after_regenerate :: "(err + uuid \<times> string list) \<times> world" where
  "after_regenerate = regenerateCodes 5 sample_libs short_codes_env 1 (sample_world sample_db)"

lemma draw_two:
  assumes "accepted_byte (rnd_byte w (rnd w))" and "accepted_byte (rnd_byte w (Suc (rnd w)))"
  shows "draw_letters 5 2 [] w =
    (Inr [byte_letter (rnd_byte w (rnd w)), byte_letter (rnd_byte w (Suc (rnd w)))], w\<lparr>rnd := Suc (Suc (rnd w))\<rparr>)"
proof -
  have "draw_letters (Suc (Suc n)) 2 [] w =
    (Inr [byte_letter (rnd_byte w (rnd w)), byte_letter (rnd_byte w (Suc (rnd w)))], w\<lparr>rnd := Suc (Suc (rnd w))\<rparr>)" for n
    using assms by (subst draw_letters.simps, simp add: bind_run draw_byte_run)
      (subst draw_letters.simps, simp add: bind_run draw_byte_run, subst draw_letters.simps, simp add: ret_run)
  from this [of 3] show ?thesis by (simp add: eval_nat_numeral)
qed

lemma after_regenerate_ok: "\<exists>r. fst after_regenerate = Inr r"
  by (simp add: after_regenerate_def regenerateCodes_def generateCodes_def generatePlainCode_def short_codes_env_def
      draw_two accepted_byte_def recoveryAlphabet_def
      format_code_def code_record_of_def createBatch_def revokeActiveByUserId_def insert_recovery_def uniq_recovery_def
      createAuditLog_def createAuditLog_tx_def
      insert_audit_def shouldUseHashChain_def starts_with_def APP_CONSTANTS_def idp_eval sample_defs uniq_defs)

theorem regenerate_replaces_codes_witness:
  "length (snd (projr (fst after_regenerate))) = 1"
proof -
  obtain b codes where r: "fst after_regenerate = Inr (b, codes)" using after_regenerate_ok by auto
  then have "regenerateCodes 5 sample_libs short_codes_env 1 (sample_world sample_db) = (Inr (b, codes), snd after_regenerate)"
    by (metis after_regenerate_def prod.collapse)
  from regenerate_replaces_codes [OF this] r show ?thesis
    by (simp add: sample_defs uniq_recovery_def short_codes_env_def)
qed

end
