(* ===== verification/AccountDeletionFacts.thy ===== *)
theory AccountDeletionFacts
  imports AccountDeletion IdpRecovery
begin

text \<open>
  What a deletion does: a scheduled one needs re-authentication and ends every session for good; the
  job that carries deletions out removes exactly the due accounts without a legal hold, all their
  rows with them, and what that does to the audit chain.
\<close>

section \<open>Scheduling\<close>

text \<open>The proof of identity a request came with.\<close>

definition reauthenticated :: "libs \<Rightarrow> database \<Rightarrow> time \<Rightarrow> uuid \<Rightarrow> reauth \<Rightarrow> bool" where
  "reauthenticated L d t u re \<longleftrightarrow>
     (truthy (re_currentPassword re) \<or> truthy (re_mfaCode re)) \<and>
     (truthy (re_currentPassword re) \<longrightarrow> (\<exists>p \<in> set (userPasswords d).
        pw_userId p = u \<and> verifyPassword L (the (re_currentPassword re)) (pw_passwordHash p))) \<and>
     (truthy (re_mfaCode re) \<longrightarrow> (\<exists>i. re_mfaFactorId re = Some i \<and> factor_passed L d t u i (the (re_mfaCode re))))"

lemma check_password_ok:
  assumes "check_password L u re w = (Inr (), w')"
  shows "w' = w \<and> (truthy (re_currentPassword re) \<longrightarrow> (\<exists>p \<in> set (userPasswords (db w)).
    pw_userId p = u \<and> verifyPassword L (the (re_currentPassword re)) (pw_passwordHash p)))"
  using assms
  by (auto simp: check_password_def whenever_run read_db_run throw_run ret_run bind_run findWithPasswordById_def
      split: if_splits option.splits sum.splits prod.splits dest!: first_row_in verifyPassword_io_InrD)

text \<open>Recovery codes issued on the way touch their own table and the logs.\<close>

lemma issue_frame:
  assumes "\<And>d g. f (mfaRecoveryCodes_update g d) = f d" and "\<And>d g. f (auditLogs_update g d) = f d"
    and "\<And>d g. f (securityEvents_update g d) = f d"
  shows "safe (on_db (same f)) (generateCodesIfMissing fuel L env u)"
proof -
  have letters: "safe (on_db (same f)) (draw_letters n m raw)" for n m raw
  proof (induction n arbitrary: raw)
    case 0
    show ?case by (subst draw_letters.simps) (auto intro: safe_intros)
  next
    case (Suc n)
    show ?case by (subst draw_letters.simps) (auto intro!: safe_intros Suc)
  qed
  show ?thesis
    unfolding generateCodesIfMissing_def generateCodes_def generatePlainCode_def code_record_of_def createBatch_def
      revokeActiveByUserId_def insert_recovery_def
    by (intro safe_intros letters same_audit_log same_security_event assms same.safe_insert_row same.safe_update_rows)
      (simp_all add: same_def assms)
qed

lemma issue_clock: "safe same_clock (generateCodesIfMissing fuel L env u)"
proof -
  have byte: "safe same_clock draw_byte" by (simp add: safe_def draw_byte_run same_clock_def)
  have rows: "safe same_clock (update_rows upd p f)" for upd :: "(recovery_row list \<Rightarrow> recovery_row list) \<Rightarrow> database \<Rightarrow> database" and p f
    by (simp add: safe_def update_rows_run same_clock_def)
  have letters: "safe same_clock (draw_letters n m raw)" for n m raw
  proof (induction n arbitrary: raw)
    case 0
    show ?case by (subst draw_letters.simps) (auto intro: safe_intros)
  next
    case (Suc n)
    show ?case by (subst draw_letters.simps) (auto intro!: safe_intros byte Suc)
  qed
  show ?thesis
    unfolding generateCodesIfMissing_def generateCodes_def generatePlainCode_def code_record_of_def createBatch_def
      revokeActiveByUserId_def insert_recovery_def createAuditLog_def createAuditLog_tx_def insert_audit_def createSecurityEvent_def
      insert_event_def recordSecurityEventMetric_def
    by (intro safe_intros letters rows)
qed

lemma check_mfa_ok:
  assumes "check_mfa fuel L env u re w = (Inr (), w')"
  shows "clock w' = clock w" and "users (db w') = users (db w)" and "userSessions (db w') = userSessions (db w)"
    and "userPasswords (db w') = userPasswords (db w)"
    and "truthy (re_mfaCode re) \<and> re_mfaFactorId re \<noteq> None \<Longrightarrow>
      factor_passed L (db w) (clock w) u (the (re_mfaFactorId re)) (the (re_mfaCode re))"
proof -
  let ?m = "MfaService_verifyMfa fuel L env u (the (re_mfaFactorId re)) (the (re_mfaCode re)) True"
  have run: "w' = w \<and> \<not> (truthy (re_mfaCode re) \<and> re_mfaFactorId re \<noteq> None) \<or> (\<exists>x. ?m w = (Inr x, w'))"
    using assms by (cases "?m w"; cases "fst (?m w)")
      (auto simp: check_mfa_def whenever_run try_catch_run bind_run ret_run throw_run split: err.splits if_splits)
  have frame: "safe (on_db (same f)) ?m" if "\<And>d g. f (mfaRecoveryCodes_update g d) = f d"
    "\<And>d g. f (auditLogs_update g d) = f d" "\<And>d g. f (securityEvents_update g d) = f d" for f :: "database \<Rightarrow> 'b"
    unfolding MfaService_verifyMfa_def by (intro safe_intros issue_frame that)
  have clocks: "safe same_clock ?m" unfolding MfaService_verifyMfa_def by (intro safe_intros issue_clock)
  show "clock w' = clock w" using run safe_run [OF clocks] by (auto simp: same_clock_def)
  show "users (db w') = users (db w)" using run frameD [OF frame [of users]] by auto
  show "userSessions (db w') = userSessions (db w)" using run frameD [OF frame [of userSessions]] by auto
  show "userPasswords (db w') = userPasswords (db w)" using run frameD [OF frame [of userPasswords]] by auto
  show "factor_passed L (db w) (clock w) u (the (re_mfaFactorId re)) (the (re_mfaCode re))"
    if "truthy (re_mfaCode re) \<and> re_mfaFactorId re \<noteq> None"
    using run that verifyMfa_passed by metis
qed

text \<open>What \<open>markAsDeleted\<close> does to an active account.\<close>

definition account_closed :: "uuid \<Rightarrow> time \<Rightarrow> time \<Rightarrow> database \<Rightarrow> database" where
  "account_closed i t due d = d\<lparr>
     users := update_where (\<lambda>u. u_id u = i \<and> u_status u = ''active'') (mark_deleted_row t t due) (users d),
     userSessions := update_where (\<lambda>s. us_userId s = i) (revoke_session_row t) (userSessions d)\<rparr>"

lemma markAsDeleted_Some:
  "markAsDeleted i t t due w = (Inr (Some x), w') \<Longrightarrow> db w' = account_closed i t due (db w) \<and>
    (\<exists>u \<in> set (users (db w)). u_id u = i \<and> u_status u = ''active'')"
  by (auto simp: markAsDeleted_def run_simps account_closed_def filter_empty_conv split: if_splits)

lemma already_scheduled_flag: "already_scheduled i w = (Inr a, w') \<Longrightarrow> dl_alreadyDeleted a"
  by (auto simp: already_scheduled_def run_simps split: option.splits)

lemma users_event [safe_intros]: "safe (on_db (same users)) (createSecurityEvent k u p)"
  by (rule same_security_event) simp

lemma users_audit [safe_intros]: "safe (on_db (same users)) (createAuditLog L u a rt ri p)"
  by (rule same_audit_log) simp

text \<open>The request past its checks.\<close>

lemma requestDeletion_checked:
  assumes "requestDeletion fuel L env i re w = (Inr a, w')" and "\<not> dl_alreadyDeleted a"
  obtains v x y where "truthy (re_currentPassword re) \<or> truthy (re_mfaCode re)"
    and "truthy (re_mfaCode re) \<longleftrightarrow> re_mfaFactorId re \<noteq> None"
    and "check_password L i re w = (Inr (), w)" and "check_mfa fuel L env i re w = (Inr (), v)"
    and "markAsDeleted i (clock v) (clock v) (clock v + ACCOUNT_DELETION_GRACE_DAYS env * 24 * 60 * 60 * 1000) v = (Inr (Some x), y)"
    and "users (db w') = users (db y)" and "userSessions (db w') = userSessions (db y)"
    and "dl_deletionDueAt a = clock v + ACCOUNT_DELETION_GRACE_DAYS env * 24 * 60 * 60 * 1000"
proof -
  from assms obtain u where u: "UserRepository_findById (db w) i = Some u"
    by (auto simp: requestDeletion_def read_bind throw_run split: option.splits)
  with assms have st: "uv_status u = ''active''"
    by (auto simp: requestDeletion_def read_bind throw_run dest: already_scheduled_flag split: if_splits)
  from assms u st have both: "truthy (re_mfaCode re) \<longleftrightarrow> re_mfaFactorId re \<noteq> None"
    by (auto simp: requestDeletion_def read_bind throw_run split: if_splits)
  from assms u st both have given: "truthy (re_currentPassword re) \<or> truthy (re_mfaCode re)"
    by (auto simp: requestDeletion_def read_bind throw_run split: if_splits)
  from assms(1) u st both given obtain w1 v where p: "check_password L i re w = (Inr (), w1)"
    and m: "check_mfa fuel L env i re w1 = (Inr (), v)"
    by (auto simp: requestDeletion_def read_bind elim!: bind_Inr_E split: if_splits)
  from check_password_ok [OF p] have w1: "w1 = w" by simp
  let ?due = "clock v + ACCOUNT_DELETION_GRACE_DAYS env * 24 * 60 * 60 * 1000"
  note cp = bind_eq_if_ret [where m = "check_password L i re" and w = w and x = "()" and v = w, OF p [unfolded w1]]
  note cm = bind_eq_if_ret [where m = "check_mfa fuel L env i re" and w = w and x = "()" and v = v, OF m [unfolded w1]]
  from assms(1) u st both given have rest: "bind (markAsDeleted i (clock v) (clock v) ?due) (\<lambda>updated.
      case updated of None \<Rightarrow> already_scheduled i
      | Some _ \<Rightarrow> bind (createAuditLog L (Some i) ''account.deletion.requested'' ''user'' (Some (uuid_text i))
           (JObj [(''deletionDueAt'', JStr (iso_string L ?due)), (''legalHoldActive'', JBool (hasActiveLegalHold (db v) (clock v) i)),
                  (''reauthMethod'', JStr (reauth_method re))])) (\<lambda>_.
         bind (createSecurityEvent ''account.deletion.requested'' (Some i) (JObj [(''status'', JStr ''scheduled'')])) (\<lambda>_.
         ret \<lparr>dl_deletionDueAt = ?due, dl_alreadyDeleted = False\<rparr>))) v = (Inr a, w')"
    by (simp add: requestDeletion_def read_bind now_bind Let_def cp cm split: if_splits)
  then obtain upd y where k: "markAsDeleted i (clock v) (clock v) ?due v = (Inr upd, y)" by (blast elim: bind_Inr_E)
  with rest assms(2) obtain x where x: "upd = Some x"
    by (cases upd) (auto simp: bind_eq_if_ret dest: already_scheduled_flag)
  note ck = bind_eq_if_ret [where m = "markAsDeleted i (clock v) (clock v) ?due" and w = v and x = upd and v = y, OF k]
  have due: "dl_deletionDueAt a = ?due" using rest [unfolded ck x option.case] by (auto simp: ret_run elim!: bind_Inr_E)
  have us: "users (db w') = users (db y)" using rest [unfolded ck x option.case]
    by (auto simp: ret_run elim!: bind_Inr_E dest!: frameD [OF users_event] frameD [OF users_audit])
  have ss: "userSessions (db w') = userSessions (db y)" using rest [unfolded ck x option.case]
    by (auto simp: ret_run elim!: bind_Inr_E dest!: frameD [OF sessions_event] frameD [OF sessions_audit])
  show thesis by (rule that [OF given both p [unfolded w1] m [unfolded w1] k [unfolded x] us ss due])
qed

lemma requestDeletion_new:
  assumes "requestDeletion fuel L env i re w = (Inr a, w')" and "\<not> dl_alreadyDeleted a"
  shows "reauthenticated L (db w) (clock w) i re" and "dl_deletionDueAt a = clock w + ACCOUNT_DELETION_GRACE_DAYS env * 86400000"
    and "\<exists>u \<in> set (users (db w)). u_id u = i \<and> u_status u = ''active''"
    and "users (db w') = users (account_closed i (clock w) (dl_deletionDueAt a) (db w))"
    and "userSessions (db w') = userSessions (account_closed i (clock w) (dl_deletionDueAt a) (db w))"
proof -
  obtain v x y where given: "truthy (re_currentPassword re) \<or> truthy (re_mfaCode re)" "truthy (re_mfaCode re) \<longleftrightarrow> re_mfaFactorId re \<noteq> None"
    and p: "check_password L i re w = (Inr (), w)" and m: "check_mfa fuel L env i re w = (Inr (), v)"
    and k: "markAsDeleted i (clock v) (clock v) (clock v + ACCOUNT_DELETION_GRACE_DAYS env * 24 * 60 * 60 * 1000) v = (Inr (Some x), y)"
    and same: "users (db w') = users (db y)" "userSessions (db w') = userSessions (db y)"
    and due: "dl_deletionDueAt a = clock v + ACCOUNT_DELETION_GRACE_DAYS env * 24 * 60 * 60 * 1000"
    by (rule requestDeletion_checked [OF assms])
  note mfa = check_mfa_ok [OF m]
  show "reauthenticated L (db w) (clock w) i re"
    unfolding reauthenticated_def using given check_password_ok [OF p] mfa(5) by auto
  show "dl_deletionDueAt a = clock w + ACCOUNT_DELETION_GRACE_DAYS env * 86400000" by (simp add: due mfa(1))
  from markAsDeleted_Some [OF k] show "\<exists>u \<in> set (users (db w)). u_id u = i \<and> u_status u = ''active''" by (simp add: mfa(2))
  from markAsDeleted_Some [OF k] show "users (db w') = users (account_closed i (clock w) (dl_deletionDueAt a) (db w))"
    "userSessions (db w') = userSessions (account_closed i (clock w) (dl_deletionDueAt a) (db w))"
    by (simp_all add: same due mfa(1-3) account_closed_def)
qed

text \<open>
  C15: A deletion that was newly scheduled was re-authenticated: every credential the request carried was right,
  and there was at least one. The row of the account, which was active, is marked deleted as of now and due after
  the grace period, the due date of the answer; the rows of all others are as they were, and no row of the account
  is active. Whatever operations of the server follow, no session the user had before authenticates or refreshes
  again.
\<close>

theorem deletion_ends_access:
  assumes "requestDeletion fuel L env i re w = (Inr a, w')" and "\<not> dl_alreadyDeleted a"
    and "uniq_sessions (userSessions (db w))"
  shows "reauthenticated L (db w) (clock w) i re \<and>
    dl_deletionDueAt a = clock w + ACCOUNT_DELETION_GRACE_DAYS env * 86400000 \<and>
    (\<exists>u \<in> set (users (db w)). u_id u = i \<and> u_status u = ''active'' \<and>
       u\<lparr>u_status := ''deleted'', u_deletedAt := Some (clock w), u_deletionRequestedAt := Some (clock w),
         u_deletionDueAt := Some (dl_deletionDueAt a)\<rparr> \<in> set (users (db w'))) \<and>
    (\<forall>u \<in> set (users (db w')). u_id u = i \<longrightarrow> u_status u \<noteq> ''active'') \<and>
    filter (\<lambda>u. u_id u \<noteq> i) (users (db w')) = filter (\<lambda>u. u_id u \<noteq> i) (users (db w)) \<and>
    (\<forall>s \<in> set (userSessions (db w)). us_userId s = i \<longrightarrow> (\<forall>at rt ops.
       hashOpaqueToken L at = us_accessTokenHash s \<longrightarrow> hashOpaqueToken L rt = us_refreshTokenHash s \<longrightarrow>
       fst (AuthService_authenticateAccessToken L at (run_idp_ops k L env ops w')) = Inl bad_access \<and>
       fst (AuthService_refresh L env rt (run_idp_ops k L env ops w')) = Inl bad_refresh))"
proof (intro conjI ballI allI impI)
  note new = requestDeletion_new [OF assms(1,2)]
  let ?mark = "mark_deleted_row (clock w) (clock w) (dl_deletionDueAt a)"
  have us: "users (db w') = update_where (\<lambda>u. u_id u = i \<and> u_status u = ''active'') ?mark (users (db w))"
    and ss: "userSessions (db w') = update_where (\<lambda>s. us_userId s = i) (revoke_session_row (clock w)) (userSessions (db w))"
    using new(4,5) unfolding account_closed_def by simp_all
  show "reauthenticated L (db w) (clock w) i re"
    "dl_deletionDueAt a = clock w + ACCOUNT_DELETION_GRACE_DAYS env * 86400000" by (fact new)+
  from new(3) obtain u where u: "u \<in> set (users (db w))" "u_id u = i" "u_status u = ''active''" by blast
  with in_update_where [OF u(1), of "\<lambda>u. u_id u = i \<and> u_status u = ''active''" ?mark]
  have "?mark u \<in> set (users (db w'))" by (simp add: us)
  then show "\<exists>u \<in> set (users (db w)). u_id u = i \<and> u_status u = ''active'' \<and>
       u\<lparr>u_status := ''deleted'', u_deletedAt := Some (clock w), u_deletionRequestedAt := Some (clock w),
         u_deletionDueAt := Some (dl_deletionDueAt a)\<rparr> \<in> set (users (db w'))"
    using u by (intro bexI [of _ u]) (simp_all add: mark_deleted_row_def)
  show "u_status u \<noteq> ''active''" if "u \<in> set (users (db w'))" "u_id u = i" for u
  proof -
    from that(1) obtain q where "u = (if u_id q = i \<and> u_status q = ''active'' then ?mark q else q)"
      unfolding us by (rule update_whereE)
    with that(2) show ?thesis by (cases "u_id q = i \<and> u_status q = ''active''") (simp_all add: mark_deleted_row_def)
  qed
  have "filter (\<lambda>u. u_id u \<noteq> i) (update_where (\<lambda>u. u_id u = i \<and> u_status u = ''active'') ?mark us) =
      filter (\<lambda>u. u_id u \<noteq> i) us" for us
    by (induction us) (auto simp: update_where_def mark_deleted_row_def)
  then show "filter (\<lambda>u. u_id u \<noteq> i) (users (db w')) = filter (\<lambda>u. u_id u \<noteq> i) (users (db w))" by (simp add: us)
  fix s at rt ops
  assume s: "s \<in> set (userSessions (db w))" "us_userId s = i"
    and tokens: "hashOpaqueToken L at = us_accessTokenHash s" "hashOpaqueToken L rt = us_refreshTokenHash s"
  let ?f = "revoke_session_row (clock w)"
  have "uniq_sessions (userSessions (db w'))"
    using assms(3) by (simp add: ss uniq_sessions_def revoke_session_row_def)
  moreover have "?f s \<in> set (userSessions (db w'))"
    using in_update_where [OF s(1), of "\<lambda>s. us_userId s = i" ?f] s(2) by (simp add: ss)
  moreover have "us_revokedAt (?f s) \<noteq> None" by (simp add: revoke_session_row_def)
  ultimately have dead: "fst (AuthService_authenticateAccessToken L at (run_idp_ops k L env ops w')) = Inl bad_access \<and>
      fst (AuthService_refresh L env rt (run_idp_ops k L env ops w')) = Inl bad_refresh"
    by (rule idp_dead_session) (simp_all add: tokens revoke_session_row_def)
  from dead show "fst (AuthService_authenticateAccessToken L at (run_idp_ops k L env ops w')) = Inl bad_access"
    "fst (AuthService_refresh L env rt (run_idp_ops k L env ops w')) = Inl bad_refresh" by simp_all
qed

definition by_password :: reauth where
  "by_password = \<lparr>re_currentPassword = Some ''secret'', re_mfaCode = None, re_mfaFactorId = None\<rparr>"

definition after_request :: "(err + deletion_answer) \<times> world" where
  "after_request = requestDeletion 1 sample_libs APP_CONSTANTS 1 by_password (sample_world sample_db)"

lemma after_request_ok: "fst after_request = Inr \<lparr>dl_deletionDueAt = 2592001000, dl_alreadyDeleted = False\<rparr>"
  by (simp add: after_request_def requestDeletion_def by_password_def check_password_def check_mfa_def
      findWithPasswordById_def UserRepository_findById_def left_join_def hasActiveLegalHold_def markAsDeleted_def
      mark_deleted_row_def createAuditLog_def createAuditLog_tx_def insert_audit_def shouldUseHashChain_def
      starts_with_def verifyPassword_io_def argon2Prefix_def APP_CONSTANTS_def idp_eval sample_defs uniq_defs)

theorem deletion_ends_access_witness:
  "fst (AuthService_refresh sample_libs APP_CONSTANTS ''b''
     (run_idp_ops 1 sample_libs APP_CONSTANTS [IdpWait 3, IdpRefresh ''b''] (snd after_request))) = Inl bad_refresh"
proof -
  have "requestDeletion 1 sample_libs APP_CONSTANTS 1 by_password (sample_world sample_db) =
      (Inr \<lparr>dl_deletionDueAt = 2592001000, dl_alreadyDeleted = False\<rparr>, snd after_request)"
    using after_request_ok unfolding after_request_def by (metis prod.collapse)
  from deletion_ends_access [OF this, of 1] show ?thesis
    by (auto simp: sample_defs uniq_defs hashOpaqueToken_def)
qed
section \<open>Carrying deletions out\<close>

text \<open>
  What carrying out a set of deletions promises: every row that belongs to one of the accounts is
  gone and every reference to one is cleared, all at once.
\<close>

definition cleared_all :: "uuid set \<Rightarrow> uuid option \<Rightarrow> uuid option" where
  "cleared_all G ref = (case ref of None \<Rightarrow> None | Some i \<Rightarrow> if i \<in> G then None else Some i)"

definition erase_users :: "uuid set \<Rightarrow> database \<Rightarrow> database" where
  "erase_users G d = d\<lparr>
     users := filter (\<lambda>r. u_id r \<notin> G) (users d),
     userEmails := filter (\<lambda>r. em_userId r \<notin> G) (userEmails d),
     userPasswords := filter (\<lambda>r. pw_userId r \<notin> G) (userPasswords d),
     userProfiles := filter (\<lambda>r. pf_userId r \<notin> G) (userProfiles d),
     mfaFactors := filter (\<lambda>r. mf_userId r \<notin> G) (mfaFactors d),
     mfaRecoveryCodes := filter (\<lambda>r. rc_userId r \<notin> G) (mfaRecoveryCodes d),
     externalIdentities := filter (\<lambda>r. xi_userId r \<notin> G) (externalIdentities d),
     userSessions := filter (\<lambda>r. us_userId r \<notin> G) (userSessions d),
     passwordResetTokens := filter (\<lambda>r. tk_userId r \<notin> G) (passwordResetTokens d),
     emailVerificationTokens := filter (\<lambda>r. tk_userId r \<notin> G) (emailVerificationTokens d),
     userRoles := filter (\<lambda>r. ur_userId r \<notin> G) (userRoles d),
     groupMemberships := filter (\<lambda>r. gm_userId r \<notin> G) (groupMemberships d),
     entitlements := filter (\<lambda>r. en_userId r \<notin> Some ` G) (entitlements d),
     securityEvents := map (\<lambda>r. r\<lparr>se_userId := cleared_all G (se_userId r)\<rparr>) (securityEvents d),
     auditLogs := map (\<lambda>r. r\<lparr>au_actorUserId := cleared_all G (au_actorUserId r)\<rparr>) (auditLogs d),
     signingKeys := map (\<lambda>r. r\<lparr>sk_rotatedBy := cleared_all G (sk_rotatedBy r)\<rparr>) (signingKeys d),
     legalHolds := filter (\<lambda>r. lh_userId r \<notin> G) (legalHolds d),
     oauthClientAuditLogs := map (\<lambda>r. r\<lparr>oa_actorUserId := cleared_all G (oa_actorUserId r)\<rparr>) (oauthClientAuditLogs d)\<rparr>"

lemma cleared_all_simps [simp]:
  "cleared_all G None = None" "cleared_all {} ref = ref" "cleared i ref = cleared_all {i} ref"
  "cleared_all G (cleared_all H ref) = cleared_all (G \<union> H) ref"
  by (auto simp: cleared_all_def cleared_def split: option.splits)

lemma erase_none: "erase_users {} d = d"
  by (simp add: erase_users_def)

lemma erase_one: "cascade_user i d = erase_users {i} d"
  unfolding cascade_user_def erase_users_def by (simp add: delete_where_def image_def)

lemma erase_more: "erase_users G (erase_users H d) = erase_users (H \<union> G) d"
  unfolding erase_users_def by (simp add: conj_commute Un_commute image_Un cong: filter_cong map_cong)

text \<open>The entries the job adds carry no actor and are outside the hash chain.\<close>

definition job_entry :: "audit_row \<Rightarrow> bool" where
  "job_entry r \<longleftrightarrow> au_actorUserId r = None \<and> \<not> is_chained r"

lemma erase_after_log:
  assumes "\<forall>r \<in> set rs. job_entry r"
  shows "erase_users G (auditLogs_update (\<lambda>l. l @ rs) d) = auditLogs_update (\<lambda>l. l @ rs) (erase_users G d)"
proof -
  have "map (\<lambda>r. r\<lparr>au_actorUserId := cleared_all G (au_actorUserId r)\<rparr>) rs = rs"
    using assms by (induction rs) (auto simp: job_entry_def)
  then show ?thesis by (simp add: erase_users_def)
qed

definition held :: "database \<Rightarrow> time \<Rightarrow> uuid \<Rightarrow> bool" where
  "held d t i \<longleftrightarrow> (\<exists>h \<in> set (legalHolds d). lh_userId h = i \<and> hold_active t h)"

lemma hasActiveLegalHold_iff: "hasActiveLegalHold d t i \<longleftrightarrow> held d t i"
  by (auto simp: hasActiveLegalHold_def held_def filter_empty_conv)

lemma held_erase [simp]: "held (erase_users G d) t i \<longleftrightarrow> i \<notin> G \<and> held d t i"
  by (auto simp: held_def erase_users_def)

lemma held_log [simp]: "held (auditLogs_update f d) t i \<longleftrightarrow> held d t i"
  by (simp add: held_def)

lemma plain_log:
  assumes "\<not> shouldUseHashChain action" and "createAuditLog L None action rt ri p w = (x, w')"
  shows "\<exists>rs. (\<forall>r \<in> set rs. job_entry r) \<and> db w' = auditLogs_update (\<lambda>l. l @ rs) (db w) \<and> clock w' = clock w"
proof -
  define row where "row = \<lparr>au_id = rnd_uuid w (rnd w), au_actorUserId = None, au_action = action, au_resourceType = rt,
    au_resourceId = ri, au_payload = p, au_prevHash = None, au_entryHash = None,
    au_integrityVersion = INTEGRITY_VERSION_NONE, au_createdAt = clock w, au_micros = 0\<rparr>"
  have entry: "job_entry row"
    by (simp add: row_def job_entry_def is_chained_def INTEGRITY_VERSION_NONE_def INTEGRITY_VERSION_CHAINED_def)
  from assms have "w' = w\<lparr>rnd := rnd w'\<rparr> \<or> w' = w\<lparr>rnd := rnd w', db := auditLogs_update (\<lambda>l. l @ [row]) (db w)\<rparr>"
    by (auto simp: createAuditLog_def createAuditLog_tx_def insert_audit_def run_simps row_def split: if_splits)
  then show ?thesis
  proof
    assume "w' = w\<lparr>rnd := rnd w'\<rparr>"
    then have "db w' = db w \<and> clock w' = clock w"
      by (metis world.select_convs(1,2) world.surjective world.update_convs(3))
    then show ?thesis by (intro exI [of _ "[]"]) simp
  next
    assume "w' = w\<lparr>rnd := rnd w', db := auditLogs_update (\<lambda>l. l @ [row]) (db w)\<rparr>"
    then have "db w' = auditLogs_update (\<lambda>l. l @ [row]) (db w) \<and> clock w' = clock w"
      by (metis world.select_convs(1,2) world.surjective world.update_convs(1,3))
    with entry show ?thesis by (intro exI [of _ "[row]"]) simp
  qed
qed

lemma or_failed_log:
  assumes "\<not> shouldUseHashChain action"
  obtains s' rs v where "or_failed i s (createAuditLog L None action rt ri p) w = (Inr s', v)"
    and "s' = s \<or> s' = s\<lparr>ds_failed := ds_failed s + 1\<rparr>" and "\<forall>r \<in> set rs. job_entry r"
    and "db v = auditLogs_update (\<lambda>l. l @ rs) (db w)" and "clock v = clock w"
proof -
  obtain x v where v: "createAuditLog L None action rt ri p w = (x, v)" by (cases "createAuditLog L None action rt ri p w")
  from plain_log [OF assms v] obtain rs where rs: "\<forall>r \<in> set rs. job_entry r"
    "db v = auditLogs_update (\<lambda>l. l @ rs) (db w)" "clock v = clock w" by blast
  show thesis
  proof (cases x)
    case (Inl e)
    let ?v = "v\<lparr>emitted := emitted v @ [LogLine ''Failed to finalize account deletion'' (JObj [(''userId'', juuid i)])]\<rparr>"
    from Inl v have "or_failed i s (createAuditLog L None action rt ri p) w = (Inr (s\<lparr>ds_failed := ds_failed s + 1\<rparr>), ?v)"
      by (simp add: or_failed_def try_catch_run bind_run ret_run emit_run)
    then show thesis by (rule that) (use rs in simp_all)
  next
    case (Inr u)
    with v have "or_failed i s (createAuditLog L None action rt ri p) w = (Inr s, v)"
      by (simp add: or_failed_def try_catch_run bind_run ret_run)
    then show thesis by (rule that) (use rs in simp_all)
  qed
qed

lemma job_actions: "\<not> shouldUseHashChain ''account.deletion.deferred_legal_hold''"
  "\<not> shouldUseHashChain ''account.deletion.finalized''"
  by (simp_all add: shouldUseHashChain_def starts_with_def)

text \<open>The counts a run ends with, over those it started from.\<close>

definition counted :: "deletion_summary \<Rightarrow> nat \<Rightarrow> nat \<Rightarrow> deletion_summary \<Rightarrow> bool" where
  "counted s gone kept s' \<longleftrightarrow> ds_processed s' = ds_processed s + gone + kept \<and>
     ds_deleted s' = ds_deleted s + gone \<and> ds_deferredLegalHold s' = ds_deferredLegalHold s + kept \<and>
     ds_failed s \<le> ds_failed s' \<and> ds_failed s' \<le> ds_failed s + gone + kept"

lemma finalize_user_run:
  obtains s' rs v where "finalize_user L i s w = (Inr s', v)" and "\<forall>r \<in> set rs. job_entry r"
    and "clock v = clock w"
    and "db v = auditLogs_update (\<lambda>l. l @ rs) (erase_users (if held (db w) (clock w) i then {} else {i}) (db w))"
    and "if held (db w) (clock w) i then counted s 0 1 s' else counted s 1 0 s'"
proof (cases "held (db w) (clock w) i")
  case True
  then have run: "finalize_user L i s w = or_failed i (s\<lparr>ds_processed := ds_processed s + 1, ds_deferredLegalHold := ds_deferredLegalHold s + 1\<rparr>)
      (createAuditLog L None ''account.deletion.deferred_legal_hold'' ''user'' (Some (uuid_text i))
        (JObj [(''reason'', JStr ''Active legal hold'')])) w"
    by (simp add: finalize_user_def Let_def now_bind read_bind hasActiveLegalHold_iff)
  show thesis
    by (rule or_failed_log [OF job_actions(1)], rule that, subst run, assumption)
      (auto simp: True erase_none counted_def)
next
  case False
  let ?w = "w\<lparr>db := cascade_user i (db w)\<rparr>"
  have "bind (physicallyDeleteUser i) f w = f () ?w" for f :: "unit \<Rightarrow> deletion_summary io"
    by (simp add: physicallyDeleteUser_def run_simps)
  with False have run: "finalize_user L i s w = or_failed i (s\<lparr>ds_processed := ds_processed s + 1, ds_deleted := ds_deleted s + 1\<rparr>)
      (createAuditLog L None ''account.deletion.finalized'' ''user'' (Some (uuid_text i)) (JObj [])) ?w"
    by (simp add: finalize_user_def Let_def now_bind read_bind hasActiveLegalHold_iff)
  show thesis
    by (rule or_failed_log [OF job_actions(2)], rule that, subst run, assumption)
      (auto simp: False erase_one counted_def)
qed
lemma counted_add: "counted s g k s1 \<Longrightarrow> counted s1 g' k' s2 \<Longrightarrow> counted s (g + g') (k + k') s2"
  by (simp add: counted_def)

lemma finalize_users_run:
  obtains s' rs v where "finalize_users L ids s w = (Inr s', v)" and "\<forall>r \<in> set rs. job_entry r"
    and "clock v = clock w"
    and "db v = auditLogs_update (\<lambda>l. l @ rs) (erase_users {i \<in> set ids. \<not> held (db w) (clock w) i} (db w))"
    and "counted s (length (filter (\<lambda>i. \<not> held (db w) (clock w) i) ids))
      (length (filter (held (db w) (clock w)) ids)) s'"
proof (induction ids arbitrary: s w thesis)
  case Nil
  show ?case by (rule Nil.prems [of s w "[]"]) (simp_all add: ret_run erase_none counted_def)
next
  case (Cons i ids)
  obtain s1 rs1 v1 where 1: "finalize_user L i s w = (Inr s1, v1)" "\<forall>r \<in> set rs1. job_entry r"
    "clock v1 = clock w"
    "db v1 = auditLogs_update (\<lambda>l. l @ rs1) (erase_users (if held (db w) (clock w) i then {} else {i}) (db w))"
    "if held (db w) (clock w) i then counted s 0 1 s1 else counted s 1 0 s1" by (rule finalize_user_run)
  have h: "held (db v1) (clock v1) = held (db w) (clock w)"
    by (auto simp: 1 fun_eq_iff)
  obtain s2 rs2 v2 where 2: "finalize_users L ids s1 v1 = (Inr s2, v2)" "\<forall>r \<in> set rs2. job_entry r"
    "clock v2 = clock v1"
    "db v2 = auditLogs_update (\<lambda>l. l @ rs2) (erase_users {i \<in> set ids. \<not> held (db v1) (clock v1) i} (db v1))"
    "counted s1 (length (filter (\<lambda>i. \<not> held (db v1) (clock v1) i) ids)) (length (filter (held (db v1) (clock v1)) ids)) s2"
    by (rule Cons.IH)
  define G where "G = (if held (db w) (clock w) i then {} else {i})"
  define H where "H = {i \<in> set ids. \<not> held (db w) (clock w) i}"
  have "G \<union> H = {j \<in> set (i # ids). \<not> held (db w) (clock w) j}" by (auto simp: G_def H_def)
  moreover have "db v2 = auditLogs_update (\<lambda>l. l @ rs2) (erase_users H (db v1))"
    using 2(4) unfolding h H_def [symmetric] .
  then have "db v2 = auditLogs_update (\<lambda>l. l @ rs1 @ rs2) (erase_users (G \<union> H) (db w))"
    unfolding 1(4) G_def [symmetric] erase_after_log [OF 1(2)] erase_more by (simp add: comp_def)
  ultimately have db: "db v2 = auditLogs_update (\<lambda>l. l @ rs1 @ rs2) (erase_users {j \<in> set (i # ids). \<not> held (db w) (clock w) j} (db w))"
    by simp
  show ?case
  proof (rule Cons.prems [of s2 v2 "rs1 @ rs2"])
    show "finalize_users L (i # ids) s w = (Inr s2, v2)" using 1(1) 2(1) by (simp add: bind_run)
    show "counted s (length (filter (\<lambda>i. \<not> held (db w) (clock w) i) (i # ids))) (length (filter (held (db w) (clock w)) (i # ids))) s2"
      using counted_add [OF _ 2(5) [unfolded h]] 1(5) by (cases "held (db w) (clock w) i") force+
  qed (use 1 2 db in auto)
qed

definition due_now :: "app_env \<Rightarrow> time \<Rightarrow> database \<Rightarrow> uuid list" where
  "due_now env t d = findDueDeletions d t (RETENTION_BATCH_CHUNK_SIZE env)"

definition no_counts :: deletion_summary where
  "no_counts = \<lparr>ds_processed = 0, ds_deleted = 0, ds_deferredLegalHold = 0, ds_failed = 0\<rparr>"

lemma finalize_run:
  obtains s rs v where "finalizeDueDeletions L env t w = (Inr s, v)" and "list_all job_entry rs"
    and "db v = auditLogs_update (\<lambda>l. l @ rs)
      (erase_users {i \<in> set (due_now env t (db w)). \<not> held (db w) (clock w) i} (db w))"
    and "counted no_counts (length (filter (\<lambda>i. \<not> held (db w) (clock w) i) (due_now env t (db w))))
      (length (filter (held (db w) (clock w)) (due_now env t (db w)))) s"
proof -
  obtain s rs v where "finalize_users L (due_now env t (db w)) no_counts w = (Inr s, v)"
    "\<forall>r \<in> set rs. job_entry r" "db v = auditLogs_update (\<lambda>l. l @ rs)
      (erase_users {i \<in> set (due_now env t (db w)). \<not> held (db w) (clock w) i} (db w))"
    "counted no_counts (length (filter (\<lambda>i. \<not> held (db w) (clock w) i) (due_now env t (db w))))
      (length (filter (held (db w) (clock w)) (due_now env t (db w)))) s" by (rule finalize_users_run)
  then show thesis
    by (intro that [of s v rs]) (simp_all add: finalizeDueDeletions_def read_bind due_now_def no_counts_def list_all_iff)
qed

lemma due_batch: "due_now env t d = take (RETENTION_BATCH_CHUNK_SIZE env) (map u_id
    (filter (\<lambda>u. u_status u = ''deleted'' \<and> (\<exists>due. u_deletionDueAt u = Some due \<and> due \<le> t)) (users d)))"
proof -
  have "deletion_due t = (\<lambda>u. u_status u = ''deleted'' \<and> (\<exists>due. u_deletionDueAt u = Some due \<and> due \<le> t))"
    by (auto simp: fun_eq_iff deletion_due_def split: option.split)
  then show ?thesis by (simp add: due_now_def findDueDeletions_def)
qed

lemma held_until: "held d t i \<longleftrightarrow> (\<exists>h \<in> set (legalHolds d). lh_userId h = i \<and> (\<forall>e. lh_expiresAt h = Some e \<longrightarrow> t < e))"
  by (auto simp: held_def hold_active_def split: option.splits)

text \<open>
  C33: The deletion job refines one atomic erasure. Its batch is the first accounts, up to the chunk size, that are
  marked deleted and whose due date has come; it always returns, and the database it leaves is the one before with
  exactly the accounts of the batch erased that are not under a legal hold that has not expired, with everything
  that belongs to them, plus entries of its own in the audit log. It counts each account of the batch as
  deleted or deferred accordingly.
\<close>

theorem finalize_erases_due:
  assumes "batch = take (RETENTION_BATCH_CHUNK_SIZE env) (map u_id
      (filter (\<lambda>u. u_status u = ''deleted'' \<and> (\<exists>due. u_deletionDueAt u = Some due \<and> due \<le> t)) (users (db w))))"
    and "on_hold = (\<lambda>i. \<exists>h \<in> set (legalHolds (db w)). lh_userId h = i \<and> (\<forall>e. lh_expiresAt h = Some e \<longrightarrow> clock w < e))"
  shows "\<exists>s rs. fst (finalizeDueDeletions L env t w) = Inr s \<and> list_all job_entry rs \<and>
     db (snd (finalizeDueDeletions L env t w)) =
       auditLogs_update (\<lambda>l. l @ rs) (erase_users {i \<in> set batch. \<not> on_hold i} (db w)) \<and>
     ds_processed s = length batch \<and> ds_deleted s = length (filter (\<lambda>i. \<not> on_hold i) batch) \<and>
     ds_deferredLegalHold s = length (filter on_hold batch)"
proof -
  have batch: "due_now env t (db w) = batch" unfolding assms(1) by (rule due_batch)
  have hold: "held (db w) (clock w) = on_hold" unfolding assms(2) by (intro ext held_until)
  obtain s rs v where r: "finalizeDueDeletions L env t w = (Inr s, v)" "list_all job_entry rs"
    "db v = auditLogs_update (\<lambda>l. l @ rs) (erase_users {i \<in> set batch. \<not> on_hold i} (db w))"
    "counted no_counts (length (filter (\<lambda>i. \<not> on_hold i) batch)) (length (filter on_hold batch)) s"
    by (rule finalize_run [of L env t w, unfolded batch hold])
  from sum_length_filter_compl [of on_hold batch] r(4) have
    "ds_processed s = length batch \<and> ds_deleted s = length (filter (\<lambda>i. \<not> on_hold i) batch) \<and>
     ds_deferredLegalHold s = length (filter on_hold batch)"
    unfolding counted_def no_counts_def by simp
  then show ?thesis unfolding r(1) fst_conv snd_conv r(3) using r(2) by (intro exI [of _ s] exI [of _ rs]) simp
qed

section \<open>Deletion and the audit chain\<close>

lemma not_intact:
  assumes "r \<in> set (chain d)" and "au_entryHash r \<noteq> Some (buildEntryHash L r)"
  shows "\<not> ir_ok (verifyIntegrityRange L d None None)"
proof -
  from assms(1) obtain i where "i < length (chain d)" "chain d ! i = r" by (auto simp: in_set_conv_nth simp del: set_chain)
  with assms(2) have "find_break L None (chain d) \<noteq> None" unfolding intact_iff_linked by metis
  then show ?thesis by (simp only: verify_all_ok chain_intact_def) simp
qed

text \<open>
  Deleting an administrator breaks the audit chain: the deletion job clears the actor of the
  chained entries the account wrote, which their hashes cover, so unless SHA-256 collides the
  integrity check answers not ok from then on, although nobody tampered with the log.
\<close>

theorem deletion_breaks_chain:
  assumes "i \<in> set (due_now env t (db w))" and "\<not> held (db w) (clock w) i"
    and "r \<in> set (auditLogs (db w))" and "is_chained r" and "au_actorUserId r = Some i"
    and "au_entryHash r = Some (buildEntryHash L r)"
    and "buildEntryHash L (r\<lparr>au_actorUserId := None\<rparr>) \<noteq> buildEntryHash L r"
  shows "\<not> ir_ok (verifyIntegrityRange L (db (snd (finalizeDueDeletions L env t w))) None None)"
proof -
  let ?G = "{i \<in> set (due_now env t (db w)). \<not> held (db w) (clock w) i}"
  obtain s rs v where run: "finalizeDueDeletions L env t w = (Inr s, v)" "list_all job_entry rs"
    and db: "db v = auditLogs_update (\<lambda>l. l @ rs) (erase_users ?G (db w))" by (rule finalize_run)
  let ?r = "r\<lparr>au_actorUserId := None\<rparr>"
  have "cleared_all ?G (au_actorUserId r) = None" using assms(1,2,5) by (simp add: cleared_all_def)
  then have "?r = r\<lparr>au_actorUserId := cleared_all ?G (au_actorUserId r)\<rparr>" by simp
  then have "?r \<in> set (auditLogs (erase_users ?G (db w)))"
    using assms(3) by (simp add: erase_users_def)
  then have "?r \<in> set (chain (db v))" using assms(4) by (simp add: db is_chained_def)
  moreover have "au_entryHash ?r \<noteq> Some (buildEntryHash L ?r)" using assms(6,7) by simp
  ultimately show ?thesis using not_intact run(1) by simp
qed

definition former_admin :: user_row where
  "former_admin = sample_user\<lparr>u_status := ''deleted'', u_deletionDueAt := Some 500\<rparr>"

definition admin_entry :: audit_row where
  "admin_entry = sample_entry\<lparr>au_actorUserId := Some 1,
     au_entryHash := Some (buildEntryHash sample_libs (sample_entry\<lparr>au_actorUserId := Some 1\<rparr>))\<rparr>"

definition former_admin_world :: world where
  "former_admin_world = sample_world (sample_db\<lparr>users := [former_admin], auditLogs := [admin_entry]\<rparr>)"

theorem deletion_breaks_chain_witness:
  "\<not> ir_ok (verifyIntegrityRange sample_libs
     (db (snd (finalizeDueDeletions sample_libs APP_CONSTANTS 1000 former_admin_world))) None None)"
proof (rule deletion_breaks_chain)
  show "1 \<in> set (due_now APP_CONSTANTS 1000 (db former_admin_world))"
    by (simp add: due_now_def findDueDeletions_def former_admin_world_def former_admin_def deletion_due_def
        APP_CONSTANTS_def sample_user_def)
  show "\<not> held (db former_admin_world) (clock former_admin_world) 1"
    by (simp add: held_def former_admin_world_def sample_defs)
  show "admin_entry \<in> set (auditLogs (db former_admin_world))" by (simp add: former_admin_world_def)
  show "is_chained admin_entry" "au_actorUserId admin_entry = Some 1"
    by (simp_all add: admin_entry_def is_chained_def sample_entry_def chained_entry_def Let_def)
  show "au_entryHash admin_entry = Some (buildEntryHash sample_libs admin_entry)"
    by (simp add: admin_entry_def buildEntryHash_def)
  show "buildEntryHash sample_libs (admin_entry\<lparr>au_actorUserId := None\<rparr>) \<noteq> buildEntryHash sample_libs admin_entry"
    by (simp add: admin_entry_def buildEntryHash_def audit_source_def sample_entry_def chained_entry_def Let_def
        sort_entries_def json_quote_def json_escape_def juuid_def)
qed

theorem finalize_erases_due_witness:
  "users (db (snd (finalizeDueDeletions sample_libs APP_CONSTANTS 1000 former_admin_world))) = []"
proof -
  let ?batch = "take (RETENTION_BATCH_CHUNK_SIZE APP_CONSTANTS) (map u_id
      (filter (\<lambda>u. u_status u = ''deleted'' \<and> (\<exists>due. u_deletionDueAt u = Some due \<and> due \<le> 1000)) (users (db former_admin_world))))"
  have b: "?batch = [1]"
    by (simp add: former_admin_world_def former_admin_def APP_CONSTANTS_def sample_user_def)
  obtain s rs where "db (snd (finalizeDueDeletions sample_libs APP_CONSTANTS 1000 former_admin_world)) =
      auditLogs_update (\<lambda>l. l @ rs) (erase_users {i \<in> set ?batch. \<not> (\<exists>h \<in> set (legalHolds (db former_admin_world)).
        lh_userId h = i \<and> (\<forall>e. lh_expiresAt h = Some e \<longrightarrow> clock former_admin_world < e))} (db former_admin_world))"
    using finalize_erases_due [OF refl refl, of sample_libs APP_CONSTANTS 1000 former_admin_world] by blast
  then show ?thesis
    unfolding b by (simp add: erase_users_def former_admin_world_def former_admin_def sample_defs)
qed

end
