(* ===== verification/DataRetention.thy ===== *)
theory DataRetention
  imports AccountDeletionFacts
begin

text \<open>
  jobs/data-retention.ts: old sessions, security events and audit entries are anonymised and later
  deleted in chunks, except those of users under an active legal hold. The chunk loop runs until a
  query finds nothing, which the code does not bound: it is a partial function whose value is
  \<open>None\<close> when it never returns.
\<close>

section \<open>Chunks\<close>

text \<open>\<open>processIdsInChunks\<close> without \<open>countAll\<close>; \<open>select\<close> and \<open>process\<close> are its two statements.\<close>

partial_function (option) process_chunks ::
    "('d \<Rightarrow> uuid list) \<Rightarrow> (uuid list \<Rightarrow> 'd \<Rightarrow> 'd) \<Rightarrow> nat \<Rightarrow> 'd \<Rightarrow> (nat \<times> 'd) option" where
  "process_chunks selectIds processIds sofar d =
     (let ids = selectIds d in
      if ids = [] then Some (sofar, d)
      else process_chunks selectIds processIds (sofar + length ids) (processIds ids d))"

declare process_chunks.simps [code]

section \<open>The statements\<close>

text \<open>
  The LEFT JOIN with the active holds of the row's user, kept where it found none: a row of a
  held user is left out, a row without a user is never held.
\<close>

definition unheld :: "database \<Rightarrow> time \<Rightarrow> uuid option \<Rightarrow> bool" where
  "unheld d t u = (filter (\<lambda>h. Some (lh_userId h) = u \<and> hold_active t h) (legalHolds d) = [])"

definition subtractDays :: "time \<Rightarrow> int \<Rightarrow> time" where
  "subtractDays base days = base - days * 24 * 60 * 60 * 1000"

definition stale_sessions :: "time \<Rightarrow> time \<Rightarrow> database \<Rightarrow> uuid list" where
  "stale_sessions t before d = map us_id (filter (\<lambda>s. us_refreshExpiresAt s < before \<and>
     (us_ipAddress s \<noteq> None \<or> us_userAgent s \<noteq> None) \<and> unheld d t (Some (us_userId s))) (userSessions d))"

definition anonymize_sessions :: "uuid list \<Rightarrow> database \<Rightarrow> database" where
  "anonymize_sessions ids = userSessions_update
     (update_where (\<lambda>s. us_id s \<in> set ids) (\<lambda>s. s\<lparr>us_ipAddress := None, us_userAgent := None\<rparr>))"

definition stale_events :: "time \<Rightarrow> time \<Rightarrow> database \<Rightarrow> uuid list" where
  "stale_events t before d = map se_id (filter (\<lambda>e. se_createdAt e < before \<and> unheld d t (se_userId e)) (securityEvents d))"

definition anonymize_events :: "uuid list \<Rightarrow> database \<Rightarrow> database" where
  "anonymize_events ids = securityEvents_update
     (update_where (\<lambda>e. se_id e \<in> set ids) (\<lambda>e. e\<lparr>se_userId := None, se_payload := JObj []\<rparr>))"

definition stale_logs :: "time \<Rightarrow> time \<Rightarrow> database \<Rightarrow> uuid list" where
  "stale_logs t before d = map au_id (filter (\<lambda>r. au_createdAt r < before \<and> unheld d t (au_actorUserId r)) (auditLogs d))"

definition anonymize_logs :: "uuid list \<Rightarrow> database \<Rightarrow> database" where
  "anonymize_logs ids = auditLogs_update (update_where (\<lambda>r. au_id r \<in> set ids)
     (\<lambda>r. r\<lparr>au_actorUserId := None, au_resourceId := None, au_payload := JObj []\<rparr>))"

definition expired_sessions :: "time \<Rightarrow> time \<Rightarrow> database \<Rightarrow> uuid list" where
  "expired_sessions t before d = map us_id (filter (\<lambda>s. us_refreshExpiresAt s < before \<and>
     unheld d t (Some (us_userId s))) (userSessions d))"

definition delete_sessions :: "uuid list \<Rightarrow> database \<Rightarrow> database" where
  "delete_sessions ids = userSessions_update (delete_where (\<lambda>s. us_id s \<in> set ids))"

definition delete_events :: "uuid list \<Rightarrow> database \<Rightarrow> database" where
  "delete_events ids = securityEvents_update (delete_where (\<lambda>e. se_id e \<in> set ids))"

definition delete_logs :: "uuid list \<Rightarrow> database \<Rightarrow> database" where
  "delete_logs ids = auditLogs_update (delete_where (\<lambda>r. au_id r \<in> set ids))"

text \<open>\<open>processIdsInChunks\<close>: a dry run only counts the rows.\<close>

definition pass :: "bool \<Rightarrow> nat \<Rightarrow> (database \<Rightarrow> uuid list) \<Rightarrow> (uuid list \<Rightarrow> database \<Rightarrow> database) \<Rightarrow>
    database \<Rightarrow> (nat \<times> database) option" where
  "pass dryRun chunkSize rows processIds d =
     (if dryRun then Some (length (rows d), d)
      else process_chunks (\<lambda>d. take chunkSize (rows d)) processIds 0 d)"

section \<open>The job\<close>

record pass_counts =
  pc_anonymized :: nat
  pc_deleted :: nat

record retention_summary =
  rs_dryRun :: bool
  rs_auditLogs :: pass_counts
  rs_securityEvents :: pass_counts
  rs_sessions :: pass_counts

definition json_counts :: "pass_counts \<Rightarrow> json" where
  "json_counts c = JObj [(''anonymized'', JNum (int (pc_anonymized c))), (''deleted'', JNum (int (pc_deleted c)))]"

definition json_summary :: "retention_summary \<Rightarrow> json" where
  "json_summary s = JObj [(''dryRun'', JBool (rs_dryRun s)), (''auditLogs'', json_counts (rs_auditLogs s)),
     (''securityEvents'', json_counts (rs_securityEvents s)), (''sessions'', json_counts (rs_sessions s))]"

definition retention_passes :: "app_env \<Rightarrow> time \<Rightarrow> bool \<Rightarrow> database \<Rightarrow> (retention_summary \<times> database) option" where
  "retention_passes env t dryRun d =
     (let chunk = RETENTION_BATCH_CHUNK_SIZE env;
          before = (\<lambda>days. subtractDays t days) in
      Option.bind (pass dryRun chunk (stale_sessions t (before (RETENTION_SESSION_ANONYMIZE_DAYS env))) anonymize_sessions d) (\<lambda>(sa, d1).
      Option.bind (pass dryRun chunk (stale_events t (before (RETENTION_SECURITY_EVENT_ANONYMIZE_DAYS env))) anonymize_events d1) (\<lambda>(ea, d2).
      Option.bind (pass dryRun chunk (stale_logs t (before (RETENTION_AUDIT_LOG_ANONYMIZE_DAYS env))) anonymize_logs d2) (\<lambda>(la, d3).
      Option.bind (pass dryRun chunk (expired_sessions t (before (RETENTION_SESSION_DELETE_DAYS env))) delete_sessions d3) (\<lambda>(sd, d4).
      Option.bind (pass dryRun chunk (stale_events t (before (RETENTION_SECURITY_EVENT_DELETE_DAYS env))) delete_events d4) (\<lambda>(ed, d5).
      Option.bind (pass dryRun chunk (stale_logs t (before (RETENTION_AUDIT_LOG_DELETE_DAYS env))) delete_logs d5) (\<lambda>(ld, d6).
      Some (\<lparr>rs_dryRun = dryRun,
             rs_auditLogs = \<lparr>pc_anonymized = la, pc_deleted = ld\<rparr>,
             rs_securityEvents = \<lparr>pc_anonymized = ea, pc_deleted = ed\<rparr>,
             rs_sessions = \<lparr>pc_anonymized = sa, pc_deleted = sd\<rparr>\<rparr>, d6))))))))"

text \<open>The entry the job writes about itself: a plain insert, outside the hash chain.\<close>

definition insert_retention_log :: "libs \<Rightarrow> time \<Rightarrow> retention_summary \<Rightarrow> unit io" where
  "insert_retention_log L t s = bind draw_uuid (\<lambda>i. bind now (\<lambda>createdAt. bind now_micros (\<lambda>micros.
     insert_audit \<lparr>au_id = i, au_actorUserId = None, au_action = ''system.retention.execute'',
       au_resourceType = ''retention_job'', au_resourceId = None,
       au_payload = JObj [(''executedAt'', JStr (iso_string L t)), (''summary'', json_summary s)],
       au_prevHash = None, au_entryHash = None, au_integrityVersion = INTEGRITY_VERSION_NONE,
       au_createdAt = createdAt, au_micros = micros\<rparr>)))"

definition retention_finish :: "libs \<Rightarrow> time \<Rightarrow> bool \<Rightarrow> retention_summary \<Rightarrow> retention_summary io" where
  "retention_finish L t dryRun s =
     bind (whenever (\<not> dryRun) (insert_retention_log L t s)) (\<lambda>_.
     bind (emit (LogLine ''data retention job completed'' (JObj [(''event'', JStr ''retention.job.completed''),
       (''dryRun'', JBool dryRun), (''summary'', json_summary s)]))) (\<lambda>_. ret s))"

definition runDataRetentionJob ::
    "libs \<Rightarrow> app_env \<Rightarrow> time option \<Rightarrow> bool \<Rightarrow> world \<Rightarrow> ((err + retention_summary) \<times> world) option" where
  "runDataRetentionJob L env at dryRun w =
     (let t = (case at of None \<Rightarrow> clock w | Some n \<Rightarrow> n) in
      Option.bind (retention_passes env t dryRun (db w)) (\<lambda>(s, d).
      Some (retention_finish L t dryRun s (w\<lparr>db := d\<rparr>))))"

section \<open>When the loop returns\<close>

text \<open>A pass that removes what it processed from its own selection ends.\<close>

locale shrinking_pass =
  fixes rows :: "'d \<Rightarrow> uuid list" and processIds :: "uuid list \<Rightarrow> 'd \<Rightarrow> 'd"
  assumes shrinks: "rows (processIds ids d) = filter (\<lambda>i. i \<notin> set ids) (rows d)"
    and in_parts: "processIds ys (processIds xs d) = processIds (xs @ ys) d"
    and empty_chunk: "processIds [] d = d"
begin

lemma chunks_end:
  assumes "0 < n" and "distinct (rows d)"
  shows "process_chunks (\<lambda>d. take n (rows d)) processIds sofar d =
    Some (sofar + length (rows d), processIds (rows d) d)"
  using assms(2)
proof (induction "length (rows d)" arbitrary: d sofar rule: less_induct)
  case less
  show ?case
  proof (cases "rows d")
    case Nil
    then have "process_chunks (\<lambda>d. take n (rows d)) processIds sofar d = Some (sofar, d)"
      by (subst process_chunks.simps) simp
    then show ?thesis unfolding Nil by (simp only: empty_chunk list.size add_0_right)
  next
    case (Cons i js)
    let ?ids = "take n (rows d)"
    have split: "distinct (?ids @ drop n (rows d))" using less.prems by simp
    have "filter (\<lambda>i. i \<notin> set ?ids) (?ids @ drop n (rows d)) = drop n (rows d)"
      using split by (auto simp: filter_empty_conv filter_id_conv simp del: append_take_drop_id)
    then have rest: "rows (processIds ?ids d) = drop n (rows d)" by (simp add: shrinks)
    have "process_chunks (\<lambda>d. take n (rows d)) processIds (sofar + length ?ids) (processIds ?ids d) =
        Some (sofar + length ?ids + length (drop n (rows d)), processIds (drop n (rows d)) (processIds ?ids d))"
      unfolding rest [symmetric]
    proof (rule less.hyps)
      show "length (rows (processIds ?ids d)) < length (rows d)" unfolding rest using assms(1) Cons by simp
      show "distinct (rows (processIds ?ids d))" unfolding rest using less.prems by simp
    qed
    moreover have "?ids \<noteq> []" using assms(1) Cons by simp
    ultimately show ?thesis by (subst process_chunks.simps) (simp add: in_parts min_def)
  qed
qed

end

text \<open>A pass whose selection does not change, and is not empty, never ends.\<close>

locale stuck_pass =
  fixes rows :: "'d \<Rightarrow> uuid list" and processIds :: "uuid list \<Rightarrow> 'd \<Rightarrow> 'd"
  assumes stays: "rows d \<noteq> [] \<Longrightarrow> rows (processIds ids d) \<noteq> []"
begin

lemma chunks_forever:
  assumes "0 < n" and "rows d \<noteq> []"
  shows "process_chunks (\<lambda>d. take n (rows d)) processIds sofar d = None"
proof -
  have "rows d = []" if "process_chunks s p sofar d = Some y" "s = (\<lambda>d. take n (rows d))" "p = processIds" for s p sofar d y
    using that
  proof (induction s p sofar d y rule: process_chunks.raw_induct [rotated, consumes 1])
    case (1 process_chunks s p sofar d y)
    show ?case
    proof (rule ccontr)
      assume ne: "rows d \<noteq> []"
      with 1(3) assms(1) have "s d \<noteq> []" by simp
      with 1(2) have "process_chunks s p (sofar + length (s d)) (p (s d) d) = Some y"
        by (simp add: Let_def)
      from 1(1) [OF this 1(3,4)] have "rows (p (s d) d) = []" .
      with stays [OF ne, of "s d"] show False by (simp add: 1(4))
    qed
  qed
  with assms(2) show ?thesis by (cases "process_chunks (\<lambda>d. take n (rows d)) processIds sofar d") blast+
qed

end

section \<open>The passes\<close>

lemma unheld_frames [simp]:
  "unheld (anonymize_sessions ids d) t u = unheld d t u" "unheld (anonymize_events ids d) t u = unheld d t u"
  "unheld (anonymize_logs ids d) t u = unheld d t u" "unheld (delete_sessions ids d) t u = unheld d t u"
  "unheld (delete_events ids d) t u = unheld d t u" "unheld (delete_logs ids d) t u = unheld d t u"
  "unheld d t None"
  by (simp_all add: unheld_def anonymize_sessions_def anonymize_events_def anonymize_logs_def
      delete_sessions_def delete_events_def delete_logs_def)

lemma delete_rows_filter:
  "map f (filter q (delete_where (\<lambda>r. f r \<in> set ids) rs)) = filter (\<lambda>i. i \<notin> set ids) (map f (filter q rs))"
  by (induction rs) (auto simp: delete_where_def)

lemma anonymize_filter:
  assumes "\<And>r. f (g r) = f r" and "\<And>r. \<not> q (g r)"
  shows "map f (filter q (update_where (\<lambda>r. f r \<in> set ids) g rs)) = filter (\<lambda>i. i \<notin> set ids) (map f (filter q rs))"
  by (induction rs) (auto simp: assms)

interpretation sessions_anonymized: shrinking_pass "stale_sessions t before" anonymize_sessions for t before
proof unfold_locales
  fix ids xs ys and d :: database
  show "stale_sessions t before (anonymize_sessions ids d) = filter (\<lambda>i. i \<notin> set ids) (stale_sessions t before d)"
    unfolding stale_sessions_def unheld_frames unfolding anonymize_sessions_def
    by (simp add: anonymize_filter)
  show "anonymize_sessions ys (anonymize_sessions xs d) = anonymize_sessions (xs @ ys) d"
    by (auto simp: anonymize_sessions_def update_where_def)
  show "anonymize_sessions [] d = d" by (simp add: anonymize_sessions_def update_where_def)
qed

interpretation sessions_deleted: shrinking_pass "expired_sessions t before" delete_sessions for t before
proof unfold_locales
  fix ids xs ys and d :: database
  show "expired_sessions t before (delete_sessions ids d) = filter (\<lambda>i. i \<notin> set ids) (expired_sessions t before d)"
    unfolding expired_sessions_def unheld_frames unfolding delete_sessions_def by (simp add: delete_rows_filter)
  show "delete_sessions ys (delete_sessions xs d) = delete_sessions (xs @ ys) d"
    by (auto simp: delete_sessions_def delete_where_def conj_commute)
  show "delete_sessions [] d = d" by (simp add: delete_sessions_def delete_where_def)
qed

interpretation events_deleted: shrinking_pass "stale_events t before" delete_events for t before
proof unfold_locales
  fix ids xs ys and d :: database
  show "stale_events t before (delete_events ids d) = filter (\<lambda>i. i \<notin> set ids) (stale_events t before d)"
    unfolding stale_events_def unheld_frames unfolding delete_events_def by (simp add: delete_rows_filter)
  show "delete_events ys (delete_events xs d) = delete_events (xs @ ys) d"
    by (auto simp: delete_events_def delete_where_def conj_commute)
  show "delete_events [] d = d" by (simp add: delete_events_def delete_where_def)
qed

interpretation logs_deleted: shrinking_pass "stale_logs t before" delete_logs for t before
proof unfold_locales
  fix ids xs ys and d :: database
  show "stale_logs t before (delete_logs ids d) = filter (\<lambda>i. i \<notin> set ids) (stale_logs t before d)"
    unfolding stale_logs_def unheld_frames unfolding delete_logs_def by (simp add: delete_rows_filter)
  show "delete_logs ys (delete_logs xs d) = delete_logs (xs @ ys) d"
    by (auto simp: delete_logs_def delete_where_def conj_commute)
  show "delete_logs [] d = d" by (simp add: delete_logs_def delete_where_def)
qed

lemma update_filter_kept:
  assumes "\<And>r. q r \<Longrightarrow> q (g r)" and "filter q rs \<noteq> []"
  shows "filter q (update_where p g rs) \<noteq> []"
  using assms by (induction rs) (auto split: if_splits)

interpretation events_anonymized: stuck_pass "stale_events t before" anonymize_events for t before
proof unfold_locales
  fix ids and d :: database
  assume "stale_events t before d \<noteq> []"
  then show "stale_events t before (anonymize_events ids d) \<noteq> []"
    unfolding stale_events_def unheld_frames map_is_Nil_conv unfolding anonymize_events_def
    by (simp, intro update_filter_kept) simp_all
qed

interpretation logs_anonymized: stuck_pass "stale_logs t before" anonymize_logs for t before
proof unfold_locales
  fix ids and d :: database
  assume "stale_logs t before d \<noteq> []"
  then show "stale_logs t before (anonymize_logs ids d) \<noteq> []"
    unfolding stale_logs_def unheld_frames map_is_Nil_conv unfolding anonymize_logs_def
    by (simp, intro update_filter_kept) simp_all
qed
section \<open>The whole job\<close>

lemma stale_frames [simp]:
  "stale_events t b (anonymize_sessions ids d) = stale_events t b d" "stale_logs t b (anonymize_sessions ids d) = stale_logs t b d"
  "stale_events t b (delete_sessions ids d) = stale_events t b d" "stale_logs t b (delete_sessions ids d) = stale_logs t b d"
  "stale_logs t b (delete_events ids d) = stale_logs t b d"
  unfolding stale_events_def stale_logs_def unheld_frames
  by (simp_all add: anonymize_sessions_def delete_sessions_def delete_events_def)

lemma distinct_stale:
  "uniq_sessions (userSessions d) \<Longrightarrow> distinct (stale_sessions t b d)"
  "uniq_sessions (userSessions d) \<Longrightarrow> distinct (expired_sessions t b d)"
  "uniq_events (securityEvents d) \<Longrightarrow> distinct (stale_events t b d)"
  "uniq_audit (auditLogs d) \<Longrightarrow> distinct (stale_logs t b d)"
  by (simp_all add: stale_sessions_def expired_sessions_def stale_events_def stale_logs_def
      uniq_sessions_def uniq_events_def uniq_audit_def distinct_map_filter)

lemma uniq_anonymized: "uniq_sessions (userSessions d) \<Longrightarrow> uniq_sessions (userSessions (anonymize_sessions ids d))"
  by (simp add: anonymize_sessions_def uniq_sessions_def)

lemma quiet_pass: "rows d = [] \<Longrightarrow> pass False n rows p d = Some (0, d)"
  by (simp add: pass_def process_chunks.simps)

text \<open>Where the anonymisation of events and entries finds work at the start, there is no result.\<close>

definition event_work :: "app_env \<Rightarrow> time \<Rightarrow> database \<Rightarrow> uuid list" where
  "event_work env t d = stale_events t (subtractDays t (RETENTION_SECURITY_EVENT_ANONYMIZE_DAYS env)) d"

definition log_work :: "app_env \<Rightarrow> time \<Rightarrow> database \<Rightarrow> uuid list" where
  "log_work env t d = stale_logs t (subtractDays t (RETENTION_AUDIT_LOG_ANONYMIZE_DAYS env)) d"

lemma pass_sessions:
  assumes "0 < n" and "uniq_sessions (userSessions d)"
  shows "pass False n (stale_sessions t b) anonymize_sessions d =
    Some (length (stale_sessions t b d), anonymize_sessions (stale_sessions t b d) d)"
  using sessions_anonymized.chunks_end [OF assms(1), of t b d] distinct_stale(1) [OF assms(2)]
  by (simp add: pass_def)

lemma stuck_events: "0 < n \<Longrightarrow> stale_events t b d \<noteq> [] \<Longrightarrow> pass False n (stale_events t b) anonymize_events d = None"
  by (simp add: pass_def events_anonymized.chunks_forever)

lemma stuck_logs: "0 < n \<Longrightarrow> stale_logs t b d \<noteq> [] \<Longrightarrow> pass False n (stale_logs t b) anonymize_logs d = None"
  by (simp add: pass_def logs_anonymized.chunks_forever)

lemma passes_stuck:
  assumes "0 < RETENTION_BATCH_CHUNK_SIZE env" and "uniq_sessions (userSessions d)"
    and "event_work env t d \<noteq> [] \<or> log_work env t d \<noteq> []"
  shows "retention_passes env t False d = None"
proof (cases "event_work env t d = []")
  case False
  then show ?thesis using assms(1)
    by (simp add: retention_passes_def Let_def pass_sessions [OF assms(1,2)] stuck_events event_work_def)
next
  case True
  with assms(3) have "log_work env t d \<noteq> []" by simp
  with True show ?thesis using assms(1)
    by (simp add: retention_passes_def Let_def pass_sessions [OF assms(1,2)] quiet_pass stuck_logs
        event_work_def log_work_def)
qed

text \<open>Otherwise it has one: the passes over the sessions and the deletions all end.\<close>

lemma passes_end:
  assumes "0 < RETENTION_BATCH_CHUNK_SIZE env" and "uniq_sessions (userSessions d)"
    and "uniq_events (securityEvents d)" and "uniq_audit (auditLogs d)"
    and "event_work env t d = []" and "log_work env t d = []"
  shows "\<exists>s. retention_passes env t False d = Some (s,
    (let d1 = anonymize_sessions (stale_sessions t (subtractDays t (RETENTION_SESSION_ANONYMIZE_DAYS env)) d) d;
         d2 = delete_sessions (expired_sessions t (subtractDays t (RETENTION_SESSION_DELETE_DAYS env)) d1) d1;
         d3 = delete_events (stale_events t (subtractDays t (RETENTION_SECURITY_EVENT_DELETE_DAYS env)) d2) d2
     in delete_logs (stale_logs t (subtractDays t (RETENTION_AUDIT_LOG_DELETE_DAYS env)) d3) d3))"
proof -
  let ?d1 = "anonymize_sessions (stale_sessions t (subtractDays t (RETENTION_SESSION_ANONYMIZE_DAYS env)) d) d"
  let ?d2 = "delete_sessions (expired_sessions t (subtractDays t (RETENTION_SESSION_DELETE_DAYS env)) ?d1) ?d1"
  let ?d3 = "delete_events (stale_events t (subtractDays t (RETENTION_SECURITY_EVENT_DELETE_DAYS env)) ?d2) ?d2"
  have "pass False n (expired_sessions t b) delete_sessions ?d1 =
      Some (length (expired_sessions t b ?d1), delete_sessions (expired_sessions t b ?d1) ?d1)" if "0 < n" for n b
    using sessions_deleted.chunks_end [OF that distinct_stale(2) [OF uniq_anonymized [OF assms(2)]]]
    by (simp add: pass_def)
  moreover have "pass False n (stale_events t b) delete_events ?d2 =
      Some (length (stale_events t b ?d2), delete_events (stale_events t b ?d2) ?d2)" if "0 < n" for n b
    using events_deleted.chunks_end [OF that, of t b ?d2] distinct_stale(3) [OF assms(3)]
    by (simp add: pass_def)
  moreover have "pass False n (stale_logs t b) delete_logs ?d3 =
      Some (length (stale_logs t b ?d3), delete_logs (stale_logs t b ?d3) ?d3)" if "0 < n" for n b
    using logs_deleted.chunks_end [OF that, of t b ?d3] distinct_stale(4) [OF assms(4)]
    by (simp add: pass_def)
  ultimately show ?thesis using assms(1,5,6)
    by (simp add: retention_passes_def Let_def pass_sessions [OF assms(1,2)] quiet_pass event_work_def log_work_def)
qed

lemma unheld_iff: "unheld d t u \<longleftrightarrow>
    (\<forall>h \<in> set (legalHolds d). u = Some (lh_userId h) \<longrightarrow> (\<exists>x. lh_expiresAt h = Some x \<and> x \<le> t))"
proof -
  have "\<not> hold_active t h \<longleftrightarrow> (\<exists>x. lh_expiresAt h = Some x \<and> x \<le> t)" for h
    by (auto simp: hold_active_def split: option.split)
  then show ?thesis unfolding unheld_def filter_empty_conv by metis
qed

lemma subtractDays_ms: "subtractDays t days = t - days * 86400000"
  by (simp add: subtractDays_def)

lemma no_work:
  "event_work env t d = [] \<longleftrightarrow> \<not> (\<exists>e \<in> set (securityEvents d).
     se_createdAt e < t - RETENTION_SECURITY_EVENT_ANONYMIZE_DAYS env * 86400000 \<and>
     (\<forall>h \<in> set (legalHolds d). se_userId e = Some (lh_userId h) \<longrightarrow> (\<exists>x. lh_expiresAt h = Some x \<and> x \<le> t)))"
  "log_work env t d = [] \<longleftrightarrow> \<not> (\<exists>a \<in> set (auditLogs d).
     au_createdAt a < t - RETENTION_AUDIT_LOG_ANONYMIZE_DAYS env * 86400000 \<and>
     (\<forall>h \<in> set (legalHolds d). au_actorUserId a = Some (lh_userId h) \<longrightarrow> (\<exists>x. lh_expiresAt h = Some x \<and> x \<le> t)))"
  unfolding unheld_iff [symmetric] subtractDays_ms [symmetric]
  by (simp_all add: event_work_def log_work_def stale_events_def stale_logs_def filter_empty_conv)

text \<open>
  C34: The retention job returns exactly when it is a dry run or there is nothing to anonymise in the logs: with a
  positive chunk size, a run that changes the database ends if and only if no security event and no audit entry is
  older than its anonymisation limit, unless it is of a user under a legal hold that has not expired. As soon as one
  is, the anonymisation loop selects the same rows for ever, because what it writes does not take a row out of
  its own selection.
\<close>

theorem retention_returns_iff:
  assumes "0 < RETENTION_BATCH_CHUNK_SIZE env" and "uniq_sessions (userSessions (db w))"
    and "uniq_events (securityEvents (db w))" and "uniq_audit (auditLogs (db w))"
  shows "runDataRetentionJob L env (Some t) dryRun w \<noteq> None \<longleftrightarrow> dryRun \<or>
    \<not> (\<exists>e \<in> set (securityEvents (db w)).
        se_createdAt e < t - RETENTION_SECURITY_EVENT_ANONYMIZE_DAYS env * 86400000 \<and>
        (\<forall>h \<in> set (legalHolds (db w)). se_userId e = Some (lh_userId h) \<longrightarrow> (\<exists>x. lh_expiresAt h = Some x \<and> x \<le> t))) \<and>
    \<not> (\<exists>a \<in> set (auditLogs (db w)).
        au_createdAt a < t - RETENTION_AUDIT_LOG_ANONYMIZE_DAYS env * 86400000 \<and>
        (\<forall>h \<in> set (legalHolds (db w)). au_actorUserId a = Some (lh_userId h) \<longrightarrow> (\<exists>x. lh_expiresAt h = Some x \<and> x \<le> t)))"
  unfolding no_work [symmetric]
proof (cases "dryRun \<or> event_work env t (db w) = [] \<and> log_work env t (db w) = []")
  case True
  have "\<exists>s d. retention_passes env t dryRun (db w) = Some (s, d)"
  proof (cases dryRun)
    case True
    then show ?thesis by (simp add: retention_passes_def Let_def pass_def)
  next
    case False
    with True have "event_work env t (db w) = []" "log_work env t (db w) = []" by simp_all
    from passes_end [OF assms this] False show ?thesis by (elim exE) simp
  qed
  with True show "runDataRetentionJob L env (Some t) dryRun w \<noteq> None \<longleftrightarrow>
      dryRun \<or> event_work env t (db w) = [] \<and> log_work env t (db w) = []" by (auto simp: runDataRetentionJob_def)
next
  case False
  with passes_stuck [OF assms(1,2), of t] have "retention_passes env t dryRun (db w) = None" by auto
  with False show "runDataRetentionJob L env (Some t) dryRun w \<noteq> None \<longleftrightarrow>
      dryRun \<or> event_work env t (db w) = [] \<and> log_work env t (db w) = []" by (auto simp: runDataRetentionJob_def)
qed

text \<open>What a run that returns leaves of the sessions.\<close>

definition kept_session :: "app_env \<Rightarrow> time \<Rightarrow> database \<Rightarrow> session_row \<Rightarrow> bool" where
  "kept_session env t d s \<longleftrightarrow> held d t (us_userId s) \<or>
     subtractDays t (RETENTION_SESSION_DELETE_DAYS env) \<le> us_refreshExpiresAt s"

definition private_session :: "app_env \<Rightarrow> time \<Rightarrow> database \<Rightarrow> session_row \<Rightarrow> session_row" where
  "private_session env t d s = (if held d t (us_userId s) \<or>
     subtractDays t (RETENTION_SESSION_ANONYMIZE_DAYS env) \<le> us_refreshExpiresAt s then s
     else s\<lparr>us_ipAddress := None, us_userAgent := None\<rparr>)"

lemma unheld_Some [simp]: "unheld d t (Some i) \<longleftrightarrow> \<not> held d t i"
  by (auto simp: unheld_def held_def filter_empty_conv)

lemma update_by_id:
  assumes "distinct (map f rs)"
  shows "update_where (\<lambda>r. f r \<in> set (map f (filter q rs))) g rs = map (\<lambda>r. if q r then g r else r) rs"
  unfolding update_where_def by (rule map_cong [OF refl]) (use assms in \<open>auto dest: distinct_map_eqD\<close>)

lemma delete_by_id:
  assumes "distinct (map f rs)"
  shows "delete_where (\<lambda>r. f r \<in> set (map f (filter q rs))) rs = filter (\<lambda>r. \<not> q r) rs"
  unfolding delete_where_def by (rule filter_cong [OF refl]) (use assms in \<open>auto dest: distinct_map_eqD\<close>)
lemma anonymized_sessions:
  assumes "uniq_sessions (userSessions d)"
  shows "userSessions (anonymize_sessions (stale_sessions t (subtractDays t (RETENTION_SESSION_ANONYMIZE_DAYS env)) d) d) =
    map (private_session env t d) (userSessions d)"
proof -
  have "distinct (map us_id (userSessions d))" using assms by (simp add: uniq_sessions_def)
  then show ?thesis
    unfolding anonymize_sessions_def stale_sessions_def
    by (auto simp: update_by_id private_session_def simp del: set_map set_filter)
qed

lemma private_session_simps [simp]:
  "us_id (private_session env t d s) = us_id s" "us_userId (private_session env t d s) = us_userId s"
  "us_refreshExpiresAt (private_session env t d s) = us_refreshExpiresAt s"
  by (simp_all add: private_session_def)

lemma held_anonymized [simp]: "held (anonymize_sessions ids d) t i = held d t i"
  by (simp add: held_def anonymize_sessions_def)

lemma remaining_sessions:
  assumes "uniq_sessions (userSessions d)"
  shows "let d1 = anonymize_sessions (stale_sessions t (subtractDays t (RETENTION_SESSION_ANONYMIZE_DAYS env)) d) d
    in userSessions (delete_sessions (expired_sessions t (subtractDays t (RETENTION_SESSION_DELETE_DAYS env)) d1) d1) =
      map (private_session env t d) (filter (kept_session env t d) (userSessions d))"
proof -
  let ?d1 = "anonymize_sessions (stale_sessions t (subtractDays t (RETENTION_SESSION_ANONYMIZE_DAYS env)) d) d"
  have "distinct (map us_id (userSessions ?d1))"
    using uniq_anonymized [OF assms] by (simp add: uniq_sessions_def)
  then have "userSessions (delete_sessions (expired_sessions t (subtractDays t (RETENTION_SESSION_DELETE_DAYS env)) ?d1) ?d1) =
      filter (kept_session env t d) (userSessions ?d1)"
    unfolding delete_sessions_def expired_sessions_def
    by (auto simp: delete_by_id kept_session_def intro!: filter_cong simp del: set_map set_filter)
  also have "\<dots> = map (private_session env t d) (filter (kept_session env t d) (userSessions d))"
    unfolding anonymized_sessions [OF assms] by (simp add: filter_map comp_def kept_session_def [abs_def])
  finally show ?thesis by (simp add: Let_def)
qed

lemma older_is_stale:
  "b \<le> c \<Longrightarrow> stale_events t c d = [] \<Longrightarrow> stale_events t b d = []"
  "b \<le> c \<Longrightarrow> stale_logs t c d = [] \<Longrightarrow> stale_logs t b d = []"
  by (fastforce simp: stale_events_def stale_logs_def filter_empty_conv)+

lemma subtractDays_mono: "m \<le> n \<Longrightarrow> subtractDays t n \<le> subtractDays t m"
  by (simp add: subtractDays_def)

lemma finish_ok:
  assumes "retention_finish L t False s w = (Inr x, w')"
  shows "x = s \<and> userSessions (db w') = userSessions (db w) \<and> securityEvents (db w') = securityEvents (db w) \<and>
    (\<exists>rs. list_all job_entry rs \<and> auditLogs (db w') = auditLogs (db w) @ rs)"
  using assms
  by (auto simp: retention_finish_def insert_retention_log_def insert_audit_def run_simps job_entry_def is_chained_def
      INTEGRITY_VERSION_NONE_def INTEGRITY_VERSION_CHAINED_def split: if_splits)

text \<open>
  What the retention job does when it ends: with limits the settings allow (anonymisation no
  later than deletion), it drops the sessions past the deletion limit, clears the address and the
  browser of those past the anonymisation limit, leaves every session of a user under an active
  legal hold exactly as it was, never anonymises or removes a security event or an audit entry,
  and appends only its own entry to the log.
\<close>

theorem retention_result:
  assumes "0 < RETENTION_BATCH_CHUNK_SIZE env" and "uniq_sessions (userSessions (db w))"
    and "uniq_events (securityEvents (db w))" and "uniq_audit (auditLogs (db w))"
    and "RETENTION_SECURITY_EVENT_ANONYMIZE_DAYS env \<le> RETENTION_SECURITY_EVENT_DELETE_DAYS env"
    and "RETENTION_AUDIT_LOG_ANONYMIZE_DAYS env \<le> RETENTION_AUDIT_LOG_DELETE_DAYS env"
    and "runDataRetentionJob L env (Some t) False w = Some (Inr s, w')"
  shows "userSessions (db w') =
      map (private_session env t (db w)) (filter (kept_session env t (db w)) (userSessions (db w))) \<and>
    securityEvents (db w') = securityEvents (db w) \<and>
    (\<exists>rs. list_all job_entry rs \<and> auditLogs (db w') = auditLogs (db w) @ rs)"
proof -
  let ?d = "db w"
  define d1 where "d1 = anonymize_sessions (stale_sessions t (subtractDays t (RETENTION_SESSION_ANONYMIZE_DAYS env)) ?d) ?d"
  define d2 where "d2 = delete_sessions (expired_sessions t (subtractDays t (RETENTION_SESSION_DELETE_DAYS env)) d1) d1"
  have quiet: "event_work env t ?d = []" "log_work env t ?d = []"
    using assms(7) passes_stuck [OF assms(1,2), of t] by (fastforce simp: runDataRetentionJob_def)+
  have none: "stale_events t (subtractDays t (RETENTION_SECURITY_EVENT_DELETE_DAYS env)) d2 = []"
    "stale_logs t (subtractDays t (RETENTION_AUDIT_LOG_DELETE_DAYS env)) d2 = []"
    unfolding d2_def d1_def stale_frames
    using quiet older_is_stale [OF subtractDays_mono [OF assms(5)]] older_is_stale [OF subtractDays_mono [OF assms(6)]]
    by (simp_all add: event_work_def log_work_def)
  let ?d3 = "delete_events (stale_events t (subtractDays t (RETENTION_SECURITY_EVENT_DELETE_DAYS env)) d2) d2"
  from passes_end [OF assms(1-4) quiet] obtain s' where p: "retention_passes env t False ?d =
      Some (s', delete_logs (stale_logs t (subtractDays t (RETENTION_AUDIT_LOG_DELETE_DAYS env)) ?d3) ?d3)"
    unfolding Let_def d1_def d2_def by blast
  moreover have "?d3 = d2" unfolding none(1) by (rule events_deleted.empty_chunk)
  ultimately have "retention_passes env t False ?d = Some (s', d2)"
    by (simp only: none(2) logs_deleted.empty_chunk)
  with assms(7) have "retention_finish L t False s' (w\<lparr>db := d2\<rparr>) = (Inr s, w')"
    by (simp add: runDataRetentionJob_def)
  from finish_ok [OF this] have "userSessions (db w') = userSessions d2" "securityEvents (db w') = securityEvents d2"
    and "\<exists>rs. list_all job_entry rs \<and> auditLogs (db w') = auditLogs d2 @ rs" by auto
  moreover have "userSessions d2 = map (private_session env t ?d) (filter (kept_session env t ?d) (userSessions ?d))"
    using remaining_sessions [OF assms(2), of t env] by (simp add: Let_def d1_def d2_def)
  moreover have "securityEvents d2 = securityEvents ?d" "auditLogs d2 = auditLogs ?d"
    by (simp_all add: d2_def d1_def delete_sessions_def anonymize_sessions_def)
  ultimately show ?thesis by simp
qed

section \<open>Witnesses\<close>

definition old_event :: event_row where
  "old_event = \<lparr>se_id = 9, se_userId = Some 1, se_eventType = ''login.success'', se_payload = JNull, se_createdAt = 0, se_micros = 0\<rparr>"

definition years_later :: time where "years_later = 100000000000"

theorem retention_returns_iff_witness:
  "runDataRetentionJob sample_libs APP_CONSTANTS (Some years_later) False
     (sample_world (sample_db\<lparr>securityEvents := [old_event]\<rparr>)) = None"
proof -
  let ?w = "sample_world (sample_db\<lparr>securityEvents := [old_event]\<rparr>)"
  have "0 < RETENTION_BATCH_CHUNK_SIZE APP_CONSTANTS" "uniq_sessions (userSessions (db ?w))"
    "uniq_events (securityEvents (db ?w))" "uniq_audit (auditLogs (db ?w))"
    by (simp_all add: APP_CONSTANTS_def sample_defs uniq_defs)
  from retention_returns_iff [OF this, of sample_libs years_later False]
  have "(runDataRetentionJob sample_libs APP_CONSTANTS (Some years_later) False ?w \<noteq> None) = False"
    by (simp add: years_later_def old_event_def APP_CONSTANTS_def sample_defs del: not_None_eq)
  then show ?thesis by blast
qed

definition browser_session :: session_row where
  "browser_session = sample_session\<lparr>us_ipAddress := Some ''192.0.2.1''\<rparr>"

definition retention_run :: "((err + retention_summary) \<times> world) option" where
  "retention_run = runDataRetentionJob sample_libs APP_CONSTANTS (Some (32 * 86400000)) False
     (sample_world (sample_db\<lparr>userSessions := [browser_session]\<rparr>))"

lemma retention_run_ok: "\<exists>s. map_option fst retention_run = Some (Inr s)"
proof -
  let ?w = "sample_world (sample_db\<lparr>userSessions := [browser_session]\<rparr>)"
  have "event_work APP_CONSTANTS (32 * 86400000) (db ?w) = []" "log_work APP_CONSTANTS (32 * 86400000) (db ?w) = []"
    by (simp_all add: event_work_def log_work_def stale_events_def stale_logs_def sample_defs)
  moreover have "0 < RETENTION_BATCH_CHUNK_SIZE APP_CONSTANTS" "uniq_sessions (userSessions (db ?w))"
    "uniq_events (securityEvents (db ?w))" "uniq_audit (auditLogs (db ?w))"
    by (simp_all add: APP_CONSTANTS_def browser_session_def sample_defs uniq_defs)
  ultimately obtain s d where p: "retention_passes APP_CONSTANTS (32 * 86400000) False (db ?w) = Some (s, d)"
    and d: "auditLogs d = []"
    using passes_end [of APP_CONSTANTS "db ?w" "32 * 86400000"]
    by (auto simp: Let_def delete_logs_def delete_events_def delete_sessions_def anonymize_sessions_def sample_defs delete_where_def)
  then show ?thesis
    by (simp add: retention_run_def runDataRetentionJob_def retention_finish_def insert_retention_log_def
        insert_audit_def run_simps opt_user_exists_def uniq_audit_def)
qed

theorem retention_result_witness:
  "\<exists>s w'. retention_run = Some (Inr s, w') \<and> userSessions (db w') = [sample_session]"
proof -
  from retention_run_ok obtain s w' where r: "retention_run = Some (Inr s, w')"
    by (cases retention_run) auto
  have "userSessions (db w') = [sample_session]"
    using retention_result [OF _ _ _ _ _ _ r [unfolded retention_run_def]]
    by (simp add: APP_CONSTANTS_def browser_session_def sample_defs uniq_defs kept_session_def private_session_def
        held_def subtractDays_def)
  with r show ?thesis by blast
qed

end
