(* ===== verification/KeyStore.thy ===== *)
theory KeyStore
  imports IdpEnv Samples
begin

text \<open>
  packages/auth-core/src/key-store-service.ts: the signing keys, their rotation and what is
  published of them. RSA key generation and the JWK export of node:crypto are parameters.
\<close>

section \<open>Parameters\<close>

text \<open>
  \<open>rsa_pems seed\<close> is the private and the public PEM text \<open>generateKeyPairSync\<close> makes of the
  entropy \<open>seed\<close>; the exports give the members of the JWK of a PEM.
\<close>

record key_libs =
  rsa_pems :: "string \<Rightarrow> string \<times> string"
  public_export :: "string \<Rightarrow> (string \<times> json) list"
  private_export :: "string \<Rightarrow> (string \<times> json) list"

record key_options =
  ko_rotationIntervalHours :: int
  ko_gracePeriodHours :: int

definition hours :: "int \<Rightarrow> int" where "hours n = n * 60 * 60 * 1000"

definition nowPlusHours :: "int \<Rightarrow> time io" where
  "nowPlusHours n = bind now (\<lambda>t. ret (t + hours n))"

definition createRsaKeyPair :: "key_libs \<Rightarrow> (string \<times> string) io" where
  "createRsaKeyPair K = bind draw_text (\<lambda>seed. ret (rsa_pems K seed))"

text \<open>\<open>{...jwk, use, alg, kid}\<close>.\<close>

definition with_key_members :: "(string \<times> json) list \<Rightarrow> uuid \<Rightarrow> string \<Rightarrow> json" where
  "with_key_members jwk kid alg =
     JObj (filter (\<lambda>(k, _). k \<noteq> ''use'' \<and> k \<noteq> ''alg'' \<and> k \<noteq> ''kid'') jwk @
       [(''use'', JStr ''sig''), (''alg'', JStr alg), (''kid'', juuid kid)])"

definition publicJwkFromPem :: "key_libs \<Rightarrow> string \<Rightarrow> uuid \<Rightarrow> string \<Rightarrow> json" where
  "publicJwkFromPem K pem kid alg = with_key_members (public_export K pem) kid alg"

definition privateJwkFromPem :: "key_libs \<Rightarrow> string \<Rightarrow> uuid \<Rightarrow> string \<Rightarrow> json" where
  "privateJwkFromPem K pem kid alg = with_key_members (private_export K pem) kid alg"

section \<open>The current key\<close>

definition usable_key :: "key_row \<Rightarrow> bool" where
  "usable_key k \<longleftrightarrow> sk_isActive k \<and> sk_expiresAt k = None \<and> sk_revokedAt k = None"

definition getCurrentActiveKey :: "database \<Rightarrow> key_row option" where
  "getCurrentActiveKey d = first_row (order_desc sk_createdAt (filter usable_key (signingKeys d)))"

definition insert_key :: "key_row \<Rightarrow> unit io" where
  "insert_key k = insert_row signingKeys signingKeys_update uniq_keys (\<lambda>d r. opt_user_exists d (sk_rotatedBy r)) k"

definition fresh_key :: "uuid \<Rightarrow> string \<times> string \<Rightarrow> uuid option \<Rightarrow> string \<Rightarrow> uuid option \<Rightarrow> time \<Rightarrow> key_row" where
  "fresh_key kid pems rotatedFrom reason actor t =
     \<lparr>sk_kid = kid, sk_alg = ''RS256'', sk_privateKeyPem = fst pems, sk_publicKeyPem = snd pems,
      sk_isActive = True, sk_rotatedFromKid = rotatedFrom, sk_rotationReason = Some reason,
      sk_rotatedBy = actor, sk_createdAt = t, sk_expiresAt = None, sk_revokedAt = None\<rparr>"

definition ensureKeyExists :: "key_libs \<Rightarrow> key_row io" where
  "ensureKeyExists K = bind (read_db getCurrentActiveKey) (\<lambda>current.
     case current of
       Some k \<Rightarrow> ret k
     | None \<Rightarrow>
         bind (createRsaKeyPair K) (\<lambda>keyPair. bind draw_uuid (\<lambda>kid. bind now (\<lambda>t.
         bind (insert_key (fresh_key kid keyPair None ''bootstrap'' None t)) (\<lambda>_.
         bind (read_db getCurrentActiveKey) (\<lambda>created.
         case created of
           None \<Rightarrow> throw (PlainError ''failed_to_create_signing_key'')
         | Some k \<Rightarrow> ret k))))))"

section \<open>Rotation\<close>

record rotation =
  kr_rotated :: bool
  kr_activeKid :: uuid
  kr_previousKid :: "uuid option"
  kr_reason :: string

text \<open>\<open>deactivateSet\<close>: an emergency revokes at once, otherwise the key stays for the grace period.\<close>

definition deactivated :: "key_options \<Rightarrow> string \<Rightarrow> uuid option \<Rightarrow> time \<Rightarrow> key_row \<Rightarrow> key_row" where
  "deactivated opts reason actor t k =
     (if reason = ''emergency''
      then k\<lparr>sk_isActive := False, sk_expiresAt := Some t, sk_revokedAt := Some t,
             sk_rotationReason := Some reason, sk_rotatedBy := actor\<rparr>
      else k\<lparr>sk_isActive := False, sk_expiresAt := Some (t + hours (ko_gracePeriodHours opts)),
             sk_rotationReason := Some reason, sk_rotatedBy := actor\<rparr>)"

definition rotation_target :: "uuid \<Rightarrow> key_row \<Rightarrow> bool" where
  "rotation_target kid k \<longleftrightarrow> sk_kid k = kid \<and> sk_isActive k \<and> sk_revokedAt k = None"

definition rotateNow :: "key_options \<Rightarrow> key_libs \<Rightarrow> string \<Rightarrow> uuid option \<Rightarrow> rotation io" where
  "rotateNow opts K reason actor =
     bind (ensureKeyExists K) (\<lambda>active.
     bind (createRsaKeyPair K) (\<lambda>next. bind draw_uuid (\<lambda>nextKid.
     bind (transaction (bind now (\<lambda>t.
       bind (read_db (\<lambda>d. filter (rotation_target (sk_kid active)) (signingKeys d))) (\<lambda>updated.
       bind (update_rows signingKeys_update (rotation_target (sk_kid active)) (deactivated opts reason actor t)) (\<lambda>_.
       if updated = [] then ret None
       else bind (insert_key (fresh_key nextKid next (Some (sk_kid active)) reason actor t)) (\<lambda>_.
         ret (Some \<lparr>kr_rotated = True, kr_activeKid = nextKid, kr_previousKid = Some (sk_kid active),
                    kr_reason = reason\<rparr>))))))) (\<lambda>rotated.
     case rotated of
       Some r \<Rightarrow> ret r
     | None \<Rightarrow> bind (ensureKeyExists K) (\<lambda>latest.
         ret \<lparr>kr_rotated = False, kr_activeKid = sk_kid latest, kr_previousKid = None, kr_reason = reason\<rparr>)))))"

definition rotateIfDue :: "key_options \<Rightarrow> key_libs \<Rightarrow> rotation io" where
  "rotateIfDue opts K = bind (ensureKeyExists K) (\<lambda>active. bind now (\<lambda>t.
     if t < sk_createdAt active + hours (ko_rotationIntervalHours opts)
     then ret \<lparr>kr_rotated = False, kr_activeKid = sk_kid active, kr_previousKid = None, kr_reason = ''scheduled''\<rparr>
     else rotateNow opts K ''scheduled'' None))"

definition rotateManual :: "key_options \<Rightarrow> key_libs \<Rightarrow> uuid option \<Rightarrow> rotation io" where
  "rotateManual opts K actor = rotateNow opts K ''manual'' actor"

definition rotateEmergency :: "key_options \<Rightarrow> key_libs \<Rightarrow> uuid option \<Rightarrow> rotation io" where
  "rotateEmergency opts K actor = rotateNow opts K ''emergency'' actor"

section \<open>Listing and publication\<close>

datatype key_state = KeyActive | KeyGrace | KeyRevoked

definition key_state_of :: "key_row \<Rightarrow> key_state" where
  "key_state_of k = (if sk_revokedAt k \<noteq> None then KeyRevoked else if sk_isActive k then KeyActive else KeyGrace)"

definition listKeys :: "database \<Rightarrow> (key_row \<times> key_state) list" where
  "listKeys d = map (\<lambda>k. (k, key_state_of k)) (order_desc sk_createdAt (signingKeys d))"

definition publishable :: "time \<Rightarrow> key_row \<Rightarrow> bool" where
  "publishable t k \<longleftrightarrow> sk_revokedAt k = None \<and>
     (sk_isActive k \<or> (case sk_expiresAt k of None \<Rightarrow> False | Some e \<Rightarrow> t < e))"

text \<open>Active keys first, then by age.\<close>

definition published_keys :: "time \<Rightarrow> database \<Rightarrow> key_row list" where
  "published_keys t d = sort_key (\<lambda>k. (\<not> sk_isActive k, sk_createdAt k)) (filter (publishable t) (signingKeys d))"

definition getPublicJwks :: "key_libs \<Rightarrow> json list io" where
  "getPublicJwks K = bind (ensureKeyExists K) (\<lambda>_. bind now (\<lambda>t.
     bind (read_db (published_keys t)) (\<lambda>rows.
     ret (map (\<lambda>k. publicJwkFromPem K (sk_publicKeyPem k) (sk_kid k) (sk_alg k)) rows))))"

definition getActivePrivateJwks :: "key_libs \<Rightarrow> json list io" where
  "getActivePrivateJwks K = bind (ensureKeyExists K) (\<lambda>active.
     ret [privateJwkFromPem K (sk_privateKeyPem active) (sk_kid active) (sk_alg active)])"

section \<open>One active key\<close>

text \<open>
  The state of the store: key ids are unique, at most one key is active, an active key neither
  expires nor is revoked, and one that is not active expires.
\<close>

definition keys_ok :: "key_row list \<Rightarrow> bool" where
  "keys_ok ks \<longleftrightarrow> uniq_keys ks \<and> length (filter sk_isActive ks) \<le> 1 \<and>
     (\<forall>k \<in> set ks. if sk_isActive k then usable_key k else sk_expiresAt k \<noteq> None)"

text \<open>The active key, when there is one, and what deactivating it and adding another leaves.\<close>

definition signing_with :: "key_row list \<Rightarrow> key_row \<Rightarrow> bool" where
  "signing_with ks k \<longleftrightarrow> keys_ok ks \<and> filter sk_isActive ks = [k]"

lemma usable_active: "keys_ok ks \<Longrightarrow> filter usable_key ks = filter sk_isActive ks"
  by (rule filter_cong) (auto simp: keys_ok_def usable_key_def split: if_splits)

lemma current_key:
  assumes "keys_ok (signingKeys d)"
  shows "getCurrentActiveKey d = (case filter sk_isActive (signingKeys d) of [] \<Rightarrow> None | k # _ \<Rightarrow> Some k)"
proof -
  have "length (filter sk_isActive (signingKeys d)) \<le> 1" using assms by (simp add: keys_ok_def)
  then show ?thesis
    by (cases "filter sk_isActive (signingKeys d)") (auto simp: getCurrentActiveKey_def usable_active [OF assms] order_desc_def)
qed

lemma current_key_Some: "signing_with (signingKeys d) k \<Longrightarrow> getCurrentActiveKey d = Some k"
  by (simp add: signing_with_def current_key)

lemma keys_ok_Nil [simp]: "keys_ok []"
  by (simp add: keys_ok_def uniq_keys_def)

lemma fresh_key_simps [simp]:
  "sk_kid (fresh_key kid p f r a t) = kid" "sk_isActive (fresh_key kid p f r a t)"
  "usable_key (fresh_key kid p f r a t)" "sk_createdAt (fresh_key kid p f r a t) = t"
  "sk_rotatedBy (fresh_key kid p f r a t) = a" "sk_revokedAt (fresh_key kid p f r a t) = None"
  by (simp_all add: fresh_key_def usable_key_def)

lemma deactivated_simps [simp]:
  "sk_kid (deactivated o' r a t k) = sk_kid k" "\<not> sk_isActive (deactivated o' r a t k)"
  "sk_expiresAt (deactivated o' r a t k) \<noteq> None"
  by (simp_all add: deactivated_def)

lemma first_key_ok:
  assumes "keys_ok ks" and "filter sk_isActive ks = []" and "uniq_keys (ks @ [fresh_key kid p f r a t])"
  shows "signing_with (ks @ [fresh_key kid p f r a t]) (fresh_key kid p f r a t)"
  using assms by (auto simp: signing_with_def keys_ok_def)

lemma ensure_Inr:
  assumes "keys_ok (signingKeys (db w))" and "ensureKeyExists K w = (Inr k, w')"
  shows "signing_with (signingKeys (db w')) k \<and> clock w' = clock w \<and>
    (filter sk_isActive (signingKeys (db w)) = [k] \<and> w' = w \<or>
     filter sk_isActive (signingKeys (db w)) = [] \<and> sk_createdAt k = clock w)"
proof (cases "filter sk_isActive (signingKeys (db w))")
  case Nil
  define p where "p = rsa_pems K (rnd_text w (rnd w))"
  define key where "key = fresh_key (rnd_uuid w (Suc (rnd w))) p None ''bootstrap'' None (clock w)"
  from Nil assms have u: "uniq_keys (signingKeys (db w) @ [key])"
    and w': "w' = w\<lparr>rnd := Suc (Suc (rnd w)), db := signingKeys_update (\<lambda>ks. ks @ [key]) (db w)\<rparr>"
    and k: "getCurrentActiveKey (db w') = Some k"
    by (auto simp: ensureKeyExists_def current_key run_simps createRsaKeyPair_def insert_key_def key_def p_def
        opt_user_exists_def split: if_splits option.splits)
  have s: "signing_with (signingKeys (db w) @ [key]) key"
    using first_key_ok [OF assms(1) Nil] u unfolding key_def by blast
  with k current_key_Some [of "db w'" key] have "k = key" by (simp add: w')
  with s Nil show ?thesis by (simp add: w' key_def)
next
  case (Cons k' ks)
  with assms(1) have "filter sk_isActive (signingKeys (db w)) = [k']" by (auto simp: keys_ok_def)
  with assms show ?thesis by (auto simp: ensureKeyExists_def read_db_run bind_run current_key ret_run signing_with_def)
qed

lemma ensure_Inl:
  assumes "keys_ok (signingKeys (db w))" and "ensureKeyExists K w = (Inl e, w')"
  shows "signingKeys (db w') = signingKeys (db w) \<and> clock w' = clock w"
proof (cases "getCurrentActiveKey (db w)")
  case None
  with assms have n: "filter sk_isActive (signingKeys (db w)) = []" by (auto simp: current_key split: list.splits)
  define p where "p = rsa_pems K (rnd_text w (rnd w))"
  define key where "key = fresh_key (rnd_uuid w (Suc (rnd w))) p None ''bootstrap'' None (clock w)"
  let ?w = "w\<lparr>rnd := Suc (Suc (rnd w)), db := signingKeys_update (\<lambda>ks. ks @ [key]) (db w)\<rparr>"
  have "getCurrentActiveKey (db ?w) = Some key" if "uniq_keys (signingKeys (db w) @ [key])"
    using first_key_ok [OF assms(1) n] that current_key_Some [of "db ?w" key] by (simp add: key_def)
  with assms(2) None show ?thesis
    by (auto simp: ensureKeyExists_def run_simps createRsaKeyPair_def insert_key_def key_def [symmetric] p_def [symmetric]
        opt_user_exists_def split: if_splits)
qed (use assms in \<open>auto simp: ensureKeyExists_def run_simps\<close>)
section \<open>What a rotation does\<close>

lemma signing_active:
  assumes "signing_with ks k"
  shows "k \<in> set ks" and "q \<in> set ks \<Longrightarrow> sk_isActive q \<longleftrightarrow> q = k"
proof -
  have "set (filter sk_isActive ks) = {k}" using assms by (simp add: signing_with_def)
  then show "k \<in> set ks" and "q \<in> set ks \<Longrightarrow> sk_isActive q \<longleftrightarrow> q = k" by auto
qed

lemma only_target:
  assumes "signing_with ks k" and "q \<in> set ks"
  shows "rotation_target (sk_kid k) q \<longleftrightarrow> q = k"
proof -
  note k = signing_active(1) [OF assms(1)]
  have act: "sk_isActive k" using signing_active(2) [OF assms(1) k] by simp
  with assms(1) k have "sk_revokedAt k = None" by (auto simp: signing_with_def keys_ok_def usable_key_def)
  with k act assms show ?thesis
    by (auto simp: rotation_target_def signing_with_def keys_ok_def uniq_keys_def dest: distinct_map_eqD)
qed

lemma target_rows:
  assumes "signing_with ks k"
  shows "filter (rotation_target (sk_kid k)) ks = [k]"
proof -
  have "filter (rotation_target (sk_kid k)) ks = filter sk_isActive ks"
    by (rule filter_cong) (simp_all add: only_target [OF assms] signing_active(2) [OF assms])
  then show ?thesis using assms by (simp add: signing_with_def)
qed

definition rotated_keys :: "key_options \<Rightarrow> string \<Rightarrow> uuid option \<Rightarrow> time \<Rightarrow> key_row \<Rightarrow> key_row \<Rightarrow> key_row list \<Rightarrow> key_row list" where
  "rotated_keys opts reason actor t old new ks =
     update_where (rotation_target (sk_kid old)) (deactivated opts reason actor t) ks @ [new]"

lemma rotated_signing:
  assumes "signing_with ks old" and "uniq_keys (rotated_keys opts reason actor t old new ks)"
    and "usable_key new"
  shows "signing_with (rotated_keys opts reason actor t old new ks) new"
proof -
  have "filter sk_isActive (update_where (rotation_target (sk_kid old)) (deactivated opts reason actor t) ks) = []"
    using signing_active(2) [OF assms(1)] only_target [OF assms(1)]
    by (auto simp: filter_empty_conv elim!: update_whereE split: if_splits)
  moreover have "sk_expiresAt q \<noteq> None" if "q \<in> set (update_where (rotation_target (sk_kid old)) (deactivated opts reason actor t) ks)"
    "\<not> sk_isActive q" for q
  proof -
    from that(1) obtain p where p: "p \<in> set ks"
      "q = (if rotation_target (sk_kid old) p then deactivated opts reason actor t p else p)" by (rule update_whereE)
    moreover have "if sk_isActive p then usable_key p else sk_expiresAt p \<noteq> None"
      using assms(1) p(1) unfolding signing_with_def keys_ok_def by blast
    ultimately show ?thesis using that(2) deactivated_simps(3)
      by (cases "rotation_target (sk_kid old) p"; cases "sk_isActive p") simp_all
  qed
  ultimately show ?thesis
    using assms(2,3) by (auto simp: signing_with_def keys_ok_def rotated_keys_def filter_empty_conv usable_key_def)
qed

lemma rotate_Inr:
  assumes "keys_ok (signingKeys (db w))" and "rotateNow opts K reason actor w = (Inr r, w')"
  obtains old v new where "ensureKeyExists K w = (Inr old, v)" and "signing_with (signingKeys (db v)) old"
    and "signingKeys (db w') = rotated_keys opts reason actor (clock w) old new (signingKeys (db v))"
    and "signing_with (signingKeys (db w')) new" and "sk_kid new \<noteq> sk_kid old" and "sk_createdAt new = clock w"
    and "usable_key new" and "clock w' = clock w"
    and "r = \<lparr>kr_rotated = True, kr_activeKid = sk_kid new, kr_previousKid = Some (sk_kid old), kr_reason = reason\<rparr>"
proof -
  from assms(2) obtain old v where e: "ensureKeyExists K w = (Inr old, v)"
    by (auto simp: rotateNow_def elim: bind_Inr_E)
  from ensure_Inr [OF assms(1) e] have s: "signing_with (signingKeys (db v)) old" and c: "clock v = clock w" by auto
  define new where "new = fresh_key (rnd_uuid v (Suc (rnd v))) (rsa_pems K (rnd_text v (rnd v))) (Some (sk_kid old)) reason actor (clock w)"
  note te = bind_eq_if_ret [where m = "ensureKeyExists K" and w = w and x = old and v = v, OF e]
  from assms(2) have u: "uniq_keys (rotated_keys opts reason actor (clock w) old new (signingKeys (db v)))"
    and w': "w' = v\<lparr>rnd := Suc (Suc (rnd v)), db := signingKeys_update (rotated_keys opts reason actor (clock w) old new) (db v)\<rparr>"
    and r: "r = \<lparr>kr_rotated = True, kr_activeKid = sk_kid new, kr_previousKid = Some (sk_kid old), kr_reason = reason\<rparr>"
    unfolding rotateNow_def te
    by (auto simp: run_simps createRsaKeyPair_def insert_key_def target_rows [OF s] c new_def rotated_keys_def
        comp_def split: if_splits)
  have n: "usable_key new" "sk_createdAt new = clock w" by (simp_all add: new_def)
  have "sk_kid new \<noteq> sk_kid old"
    using u signing_active(1) [OF s] by (auto simp: uniq_keys_def rotated_keys_def)
  moreover have keys: "signingKeys (db w') = rotated_keys opts reason actor (clock w) old new (signingKeys (db v))"
    by (simp add: w')
  ultimately show thesis
    using that [OF e s keys] rotated_signing [OF s u n(1)] n r c by (simp add: w')
qed

lemma rotate_Inl:
  assumes "keys_ok (signingKeys (db w))" and "rotateNow opts K reason actor w = (Inl x, w')"
  shows "keys_ok (signingKeys (db w')) \<and> clock w' = clock w"
proof (cases "fst (ensureKeyExists K w)")
  case (Inl e)
  with assms(2) have "ensureKeyExists K w = (Inl x, w')"
    by (cases "ensureKeyExists K w") (auto simp: rotateNow_def bind_run)
  with ensure_Inl [OF assms(1)] assms(1) show ?thesis by simp
next
  case (Inr old)
  then obtain v where e: "ensureKeyExists K w = (Inr old, v)" by (cases "ensureKeyExists K w") auto
  from ensure_Inr [OF assms(1) e] have s: "signing_with (signingKeys (db v)) old" and c: "clock v = clock w" by auto
  note te = bind_eq_if_ret [where m = "ensureKeyExists K" and w = w and x = old and v = v, OF e]
  from assms(2) have "signingKeys (db w') = signingKeys (db v)" "clock w' = clock v"
    unfolding rotateNow_def te
    by (auto simp: run_simps createRsaKeyPair_def insert_key_def target_rows [OF s] split: if_splits)
  with s c show ?thesis by (simp add: signing_with_def)
qed

section \<open>Reachable stores\<close>

datatype key_op =
    KeyEnsure
  | KeyRotateIfDue
  | KeyRotateManual "uuid option"
  | KeyRotateEmergency "uuid option"
  | KeyPublicJwks
  | KeyPrivateJwks
  | KeyWait nat

fun run_key :: "key_options \<Rightarrow> key_libs \<Rightarrow> key_op \<Rightarrow> world \<Rightarrow> world" where
  "run_key opts K KeyEnsure w = snd (ensureKeyExists K w)"
| "run_key opts K KeyRotateIfDue w = snd (rotateIfDue opts K w)"
| "run_key opts K (KeyRotateManual a) w = snd (rotateManual opts K a w)"
| "run_key opts K (KeyRotateEmergency a) w = snd (rotateEmergency opts K a w)"
| "run_key opts K KeyPublicJwks w = snd (getPublicJwks K w)"
| "run_key opts K KeyPrivateJwks w = snd (getActivePrivateJwks K w)"
| "run_key opts K (KeyWait n) w = w\<lparr>clock := clock w + int n\<rparr>"

inductive key_reachable :: "key_options \<Rightarrow> key_libs \<Rightarrow> world \<Rightarrow> bool" for opts K where
  empty_store: "signingKeys (db w) = [] \<Longrightarrow> key_reachable opts K w"
| key_step: "key_reachable opts K w \<Longrightarrow> key_reachable opts K (run_key opts K op w)"

lemma ensure_ok: "keys_ok (signingKeys (db w)) \<Longrightarrow> keys_ok (signingKeys (db (snd (ensureKeyExists K w))))"
  using ensure_Inr [of w K] ensure_Inl [of w K]
  by (cases "ensureKeyExists K w"; cases "fst (ensureKeyExists K w)") (auto simp: signing_with_def)

lemma rotate_ok: "keys_ok (signingKeys (db w)) \<Longrightarrow> keys_ok (signingKeys (db (snd (rotateNow opts K r a w))))"
proof (cases "fst (rotateNow opts K r a w)")
  case (Inl x)
  moreover assume "keys_ok (signingKeys (db w))"
  ultimately show ?thesis using rotate_Inl [of w opts K r a x] by (cases "rotateNow opts K r a w") auto
next
  case (Inr x)
  assume ok: "keys_ok (signingKeys (db w))"
  from Inr obtain w' where w': "rotateNow opts K r a w = (Inr x, w')" by (cases "rotateNow opts K r a w") auto
  obtain new where "signing_with (signingKeys (db w')) new" by (rule rotate_Inr [OF ok w'])
  with w' show ?thesis by (simp add: signing_with_def)
qed

lemma rotateIfDue_ok:
  assumes "keys_ok (signingKeys (db w))"
  shows "keys_ok (signingKeys (db (snd (rotateIfDue opts K w))))"
proof (cases "ensureKeyExists K w")
  case (Pair x v)
  with ensure_ok [OF assms, of K] have "keys_ok (signingKeys (db v))" by simp
  with Pair rotate_ok show ?thesis
    by (cases x) (auto simp: rotateIfDue_def bind_run now_run ret_run)
qed

lemma run_key_ok:
  assumes "keys_ok (signingKeys (db w))"
  shows "keys_ok (signingKeys (db (run_key opts K op w)))"
proof -
  have "db (snd (getPublicJwks K w)) = db (snd (ensureKeyExists K w))"
    "db (snd (getActivePrivateJwks K w)) = db (snd (ensureKeyExists K w))"
    by (cases "ensureKeyExists K w"; cases "fst (ensureKeyExists K w)";
      simp add: getPublicJwks_def getActivePrivateJwks_def run_simps)+
  with assms ensure_ok [OF assms] rotate_ok [OF assms] rotateIfDue_ok [OF assms] show ?thesis
    by (cases op) (simp_all add: rotateManual_def rotateEmergency_def)
qed
lemma reachable_ok: "key_reachable opts K w \<Longrightarrow> keys_ok (signingKeys (db w))"
  by (induction rule: key_reachable.induct) (simp_all add: run_key_ok)

section \<open>Properties\<close>

definition published_kids :: "time \<Rightarrow> database \<Rightarrow> uuid set" where
  "published_kids t d = sk_kid ` set (published_keys t d)"

lemma in_published: "k \<in> set (signingKeys d) \<Longrightarrow> publishable t k \<Longrightarrow> sk_kid k \<in> published_kids t d"
  by (simp add: published_kids_def published_keys_def)

lemma not_published:
  assumes "uniq_keys (signingKeys d)" and "k \<in> set (signingKeys d)" and "\<not> publishable t k"
  shows "sk_kid k \<notin> published_kids t d"
proof
  assume "sk_kid k \<in> published_kids t d"
  then obtain q where q: "q \<in> set (signingKeys d)" "publishable t q" "sk_kid k = sk_kid q"
    by (auto simp: published_kids_def published_keys_def)
  have "k = q" using assms(1) by (intro distinct_map_eqD [OF _ assms(2) q(1) q(3)]) (simp add: uniq_keys_def)
  with q(2) assms(3) show False by simp
qed

lemma usable_publishable: "usable_key k \<Longrightarrow> publishable t k"
  by (simp add: usable_key_def publishable_def)

lemma signing_usable: "signing_with ks k \<Longrightarrow> usable_key k"
proof -
  assume s: "signing_with ks k"
  note k = signing_active(1) [OF s]
  have "if sk_isActive k then usable_key k else sk_expiresAt k \<noteq> None"
    using s k unfolding signing_with_def keys_ok_def by blast
  then show ?thesis using signing_active(2) [OF s k] by simp
qed

text \<open>
  C16: However the key store was operated, from an empty one on, in whatever order and over
  whatever time, it has at most one active key and key ids are unique; and whenever it hands out
  a signing key, that is the only active key and is among the published ones at any later time
  until something else is done.
\<close>

theorem one_signing_key:
  assumes "key_reachable opts K w"
  shows "uniq_keys (signingKeys (db w)) \<and> length (filter sk_isActive (signingKeys (db w))) \<le> 1 \<and>
    (\<forall>k w'. ensureKeyExists K w = (Inr k, w') \<longrightarrow>
      filter sk_isActive (signingKeys (db w')) = [k] \<and> (\<forall>t. sk_kid k \<in> published_kids t (db w')))"
proof -
  have ok: "keys_ok (signingKeys (db w))" using assms by (rule reachable_ok)
  have "filter sk_isActive (signingKeys (db w')) = [k] \<and> (\<forall>t. sk_kid k \<in> published_kids t (db w'))"
    if "ensureKeyExists K w = (Inr k, w')" for k w'
  proof -
    from ensure_Inr [OF ok that] have s: "signing_with (signingKeys (db w')) k" by simp
    then have "publishable t k" for t by (intro usable_publishable signing_usable)
    with signing_active(1) [OF s] in_published s show ?thesis unfolding signing_with_def by blast
  qed
  with ok show ?thesis by (simp add: keys_ok_def)
qed

text \<open>
  C17: A rotation that returns replaced the signing key: the new key has another id, signs from now
  on and is published; the old key is published for exactly the grace period, so that what it
  signed still verifies, and after an emergency rotation it is not published at any time.
\<close>

theorem rotation_grace:
  assumes "key_reachable opts K w" and "rotateNow opts K reason actor w = (Inr r, w')"
  shows "\<exists>old new. kr_rotated r \<and> kr_previousKid r = Some old \<and> kr_activeKid r = sk_kid new \<and>
    sk_kid new \<noteq> old \<and> getCurrentActiveKey (db w') = Some new \<and>
    (\<forall>t. sk_kid new \<in> published_kids t (db w') \<and>
      (old \<in> published_kids t (db w') \<longleftrightarrow>
        reason \<noteq> ''emergency'' \<and> t < clock w + hours (ko_gracePeriodHours opts)))"
proof -
  obtain old v new where "ensureKeyExists K w = (Inr old, v)" and v: "signing_with (signingKeys (db v)) old"
    and ks: "signingKeys (db w') = rotated_keys opts reason actor (clock w) old new (signingKeys (db v))"
    and s: "signing_with (signingKeys (db w')) new" and ne: "sk_kid new \<noteq> sk_kid old"
    and "sk_createdAt new = clock w" and "usable_key new" and "clock w' = clock w"
    and r: "r = \<lparr>kr_rotated = True, kr_activeKid = sk_kid new, kr_previousKid = Some (sk_kid old), kr_reason = reason\<rparr>"
    by (rule rotate_Inr [OF reachable_ok [OF assms(1)] assms(2)])
  let ?old = "deactivated opts reason actor (clock w) old"
  have "?old \<in> set (signingKeys (db w'))"
    using in_update_where [OF signing_active(1) [OF v], of "rotation_target (sk_kid old)"]
    by (simp add: ks rotated_keys_def only_target [OF v signing_active(1) [OF v]])
  moreover have "publishable t ?old \<longleftrightarrow> reason \<noteq> ''emergency'' \<and> t < clock w + hours (ko_gracePeriodHours opts)" for t
    using signing_usable [OF v] by (simp add: publishable_def deactivated_def usable_key_def)
  moreover have "uniq_keys (signingKeys (db w'))" using s by (simp add: signing_with_def keys_ok_def)
  ultimately have "sk_kid old \<in> published_kids t (db w') \<longleftrightarrow> reason \<noteq> ''emergency'' \<and> t < clock w + hours (ko_gracePeriodHours opts)" for t
    using in_published [of ?old "db w'" t] not_published [of "db w'" ?old t] by auto
  moreover have "sk_kid new \<in> published_kids t (db w')" for t
    by (rule in_published [OF signing_active(1) [OF s] usable_publishable [OF signing_usable [OF s]]])
  ultimately show ?thesis using ne r current_key_Some [OF s]
    by - (rule exI [of _ "sk_kid old"], rule exI [of _ new], simp)
qed

text \<open>The draw of an id that is not in use is all a rotation of an existing key needs.\<close>

lemma rotate_succeeds:
  assumes "signing_with (signingKeys (db w)) k" and "rnd_uuid w (Suc (rnd w)) \<notin> sk_kid ` set (signingKeys (db w))"
  shows "\<exists>r w'. rotateNow opts K reason None w = (Inr r, w') \<and> kr_rotated r \<and> kr_previousKid r = Some (sk_kid k)"
proof -
  let ?ks = "update_where (rotation_target (sk_kid k)) (deactivated opts reason None (clock w)) (signingKeys (db w))"
  have "distinct (map sk_kid ?ks)" using assms(1) by (simp add: signing_with_def keys_ok_def uniq_keys_def)
  with assms(2) have "uniq_keys (?ks @ [fresh_key (rnd_uuid w (Suc (rnd w))) p f reason None t])" for p f t
    by (simp add: uniq_keys_def)
  then show ?thesis
    by (simp add: rotateNow_def ensureKeyExists_def run_simps current_key_Some [OF assms(1)] createRsaKeyPair_def
        target_rows [OF assms(1)] insert_key_def opt_user_exists_def)
qed

text \<open>
  Rotation happens: in any reachable store with a signing key, the scheduled rotation leaves
  the key alone while it is younger than the interval, and once the interval has passed, the next
  run replaces it (given that the id drawn for the new key is not in use).
\<close>

theorem rotation_when_due:
  assumes "key_reachable opts K w" and "getCurrentActiveKey (db w) = Some k"
    and "rnd_uuid w (Suc (rnd w)) \<notin> sk_kid ` set (signingKeys (db w))"
  shows "\<exists>r w'. rotateIfDue opts K (run_key opts K (KeyWait n) w) = (Inr r, w') \<and>
    (kr_rotated r \<longleftrightarrow> sk_createdAt k + hours (ko_rotationIntervalHours opts) \<le> clock w + int n) \<and>
    (kr_rotated r \<longrightarrow> kr_previousKid r = Some (sk_kid k)) \<and> (\<not> kr_rotated r \<longrightarrow> kr_activeKid r = sk_kid k)"
proof -
  have ok: "keys_ok (signingKeys (db w))" using assms(1) by (rule reachable_ok)
  with assms(2) have s: "signing_with (signingKeys (db w)) k"
    by (cases "filter sk_isActive (signingKeys (db w))") (auto simp: current_key signing_with_def keys_ok_def)
  let ?w = "w\<lparr>clock := clock w + int n\<rparr>"
  have e: "rotateIfDue opts K ?w = (if clock ?w < sk_createdAt k + hours (ko_rotationIntervalHours opts)
      then (Inr \<lparr>kr_rotated = False, kr_activeKid = sk_kid k, kr_previousKid = None, kr_reason = ''scheduled''\<rparr>, ?w)
      else rotateNow opts K ''scheduled'' None ?w)"
    by (simp add: rotateIfDue_def ensureKeyExists_def run_simps assms(2))
  show ?thesis
  proof (cases "clock ?w < sk_createdAt k + hours (ko_rotationIntervalHours opts)")
    case True
    then show ?thesis by (simp add: e)
  next
    case False
    with rotate_succeeds [of ?w k opts K "''scheduled''"] s assms(3) show ?thesis by (auto simp: e)
  qed
qed

section \<open>Witnesses\<close>

definition sample_key_libs :: key_libs where
  "sample_key_libs = \<lparr>rsa_pems = (\<lambda>seed. (''private'' @ seed, ''public'' @ seed)),
     public_export = (\<lambda>pem. [(''n'', JStr pem)]), private_export = (\<lambda>pem. [(''d'', JStr pem)])\<rparr>"

definition sample_key_options :: key_options where
  "sample_key_options = \<lparr>ko_rotationIntervalHours = 720, ko_gracePeriodHours = 72\<rparr>"

definition first_store :: world where
  "first_store = run_key sample_key_options sample_key_libs KeyEnsure (sample_world sample_db)"

lemma first_store_reachable: "key_reachable sample_key_options sample_key_libs first_store"
  unfolding first_store_def by (intro key_step empty_store) (simp add: sample_defs)

definition first_key :: key_row where
  "first_key = fresh_key 101 (''private'', ''public'') None ''bootstrap'' None 1000"

lemma first_store_key: "signingKeys (db first_store) = [first_key]" "getCurrentActiveKey (db first_store) = Some first_key"
  "clock first_store = 1000" "rnd first_store = 2" "rnd_uuid first_store = (\<lambda>k. 100 + k)"
  by (simp_all add: first_store_def ensureKeyExists_def run_simps getCurrentActiveKey_def createRsaKeyPair_def
      insert_key_def opt_user_exists_def uniq_keys_def order_desc_def first_key_def fresh_key_def usable_key_def
      sample_key_libs_def sample_defs sample_world_def)

theorem one_signing_key_witness:
  "length (filter sk_isActive (signingKeys (db (run_key sample_key_options sample_key_libs (KeyRotateEmergency None) first_store)))) \<le> 1"
  using one_signing_key [OF key_step [OF first_store_reachable]] by blast

theorem rotation_grace_witness:
  "\<exists>r w'. rotateNow sample_key_options sample_key_libs ''manual'' None first_store = (Inr r, w') \<and>
    kr_previousKid r = Some 101 \<and> 101 \<in> published_kids 2000 (db w') \<and> 101 \<notin> published_kids 259201000 (db w')"
proof -
  have "signing_with (signingKeys (db first_store)) first_key"
    by (simp add: first_store_key signing_with_def keys_ok_def uniq_keys_def first_key_def)
  from rotate_succeeds [OF this, of sample_key_options sample_key_libs "''manual''"] obtain r w' where
    r: "rotateNow sample_key_options sample_key_libs ''manual'' None first_store = (Inr r, w')"
    and p: "kr_previousKid r = Some 101"
    by (auto simp: first_store_key first_key_def)
  from rotation_grace [OF first_store_reachable r] p
  have "101 \<in> published_kids t (db w') \<longleftrightarrow> t < clock first_store + hours 72" for t
    by (auto simp: sample_key_options_def)
  with r p show ?thesis by (auto simp: first_store_key hours_def)
qed

theorem rotation_when_due_witness:
  "\<exists>r w'. rotateIfDue sample_key_options sample_key_libs
     (run_key sample_key_options sample_key_libs (KeyWait (720 * 3600000)) first_store) = (Inr r, w') \<and> kr_rotated r"
  using rotation_when_due [OF first_store_reachable first_store_key(2), of "720 * 3600000"]
  by (auto simp: first_store_key first_key_def hours_def sample_key_options_def)

end
