(* ===== verification/Bytes.thy ===== *)
theory Bytes
  imports Json
begin

text \<open>
  The byte-level functions of the Node.js standard library that the OAuth client authentication
  and the server SDK use: UTF-8 and base64 conversions of \<open>Buffer\<close> and the form encoding of
  \<open>URLSearchParams\<close>, with their round trips.

  A byte is a \<open>char\<close>, as is a code unit of a string; both are below 256. A decoded character
  outside Latin-1 has no counterpart among the strings of the model; \<open>utf8_text\<close> puts the
  control character SUBSTITUTE for it.
\<close>

type_synonym bytes = "char list"

section \<open>UTF-8\<close>

definition utf8_char :: "char \<Rightarrow> bytes" where
  "utf8_char c = (let n = of_char c :: nat in
     if n < 128 then [c] else [char_of (192 + n div 64), char_of (128 + n mod 64)])"

text \<open>\<open>Buffer.from(s, "utf8")\<close>.\<close>

definition utf8_bytes :: "string \<Rightarrow> bytes" where
  "utf8_bytes s = concat (map utf8_char s)"

definition substitute :: char where "substitute = CHR 0x1A"

text \<open>The bytes allowed after a first byte of a sequence: bounds of the second, number of the rest.\<close>

definition utf8_lead :: "nat \<Rightarrow> (nat \<times> nat \<times> nat) option" where
  "utf8_lead b =
     (if 0xC2 \<le> b \<and> b \<le> 0xDF then Some (0x80, 0xBF, 0)
      else if b = 0xE0 then Some (0xA0, 0xBF, 1)
      else if b = 0xED then Some (0x80, 0x9F, 1)
      else if 0xE1 \<le> b \<and> b \<le> 0xEF then Some (0x80, 0xBF, 1)
      else if b = 0xF0 then Some (0x90, 0xBF, 2)
      else if b = 0xF4 then Some (0x80, 0x8F, 2)
      else if 0xF1 \<le> b \<and> b \<le> 0xF3 then Some (0x80, 0xBF, 2)
      else None)"

text \<open>How many continuation bytes, at most \<open>n\<close>, a text starts with.\<close>

fun continuation :: "nat \<Rightarrow> bytes \<Rightarrow> nat" where
  "continuation 0 bs = 0"
| "continuation (Suc n) [] = 0"
| "continuation (Suc n) (b # bs) =
     (if 0x80 \<le> (of_char b :: nat) \<and> (of_char b :: nat) \<le> 0xBF then Suc (continuation n bs) else 0)"

text \<open>
  \<open>toString("utf8")\<close>: a maximal part of a broken sequence becomes one replacement character,
  which is outside Latin-1 as well.
\<close>

function utf8_text :: "bytes \<Rightarrow> string" where
  "utf8_text [] = []"
| "utf8_text (b # bs) =
     (if (of_char b :: nat) < 128 then b # utf8_text bs
      else (case utf8_lead (of_char b) of
              None \<Rightarrow> substitute # utf8_text bs
            | Some (lo, hi, rest) \<Rightarrow>
                (case bs of
                   [] \<Rightarrow> [substitute]
                 | c # cs \<Rightarrow>
                     if \<not> (lo \<le> (of_char c :: nat) \<and> (of_char c :: nat) \<le> hi) then substitute # utf8_text bs
                     else if rest = 0 then
                       (let n = (of_char b - 192) * 64 + (of_char c - 128) :: nat in
                        (if n < 256 then char_of n else substitute) # utf8_text cs)
                     else substitute # utf8_text (drop (continuation rest cs) cs))))"
  by pat_completeness auto
termination by (relation "measure length") auto

lemma utf8_text_char: "utf8_text (utf8_char c @ bs) = c # utf8_text bs"
proof (cases "(of_char c :: nat) < 128")
  case True
  then show ?thesis by (simp add: utf8_char_def)
next
  case False
  let ?n = "of_char c :: nat"
  have n: "?n < 256" by (rule nat_of_char_less_256)
  then have "?n div 64 < 4" by (simp add: div_less_iff_less_mult)
  moreover have "2 \<le> ?n div 64" using False by simp
  ultimately have d: "?n div 64 = 2 \<or> ?n div 64 = 3" by linarith
  have "?n mod 64 < 64" by simp
  with d have b: "(192 + ?n div 64) mod 256 = 192 + ?n div 64" "(128 + ?n mod 64) mod 256 = 128 + ?n mod 64"
    by (auto simp: mod_less)
  have "utf8_lead (192 + ?n div 64) = Some (0x80, 0xBF, 0)" using d by (auto simp: utf8_lead_def)
  moreover have "(?n div 64) * 64 + ?n mod 64 = ?n" by simp
  moreover have "128 + ?n mod 64 \<le> 191" using \<open>?n mod 64 < 64\<close> by linarith
  ultimately show ?thesis using False n by (simp add: utf8_char_def Let_def b)
qed

theorem utf8_round_trip: "utf8_text (utf8_bytes s) = s"
  by (induction s) (simp_all add: utf8_bytes_def utf8_text_char)

section \<open>Base64\<close>

text \<open>The alphabet: capital letters, small letters, digits, plus and slash.\<close>

definition base64_digit :: "nat \<Rightarrow> char" where
  "base64_digit n = char_of (if n < 26 then n + 65 else if n < 52 then n + 71 else if n < 62 then n - 4
     else if n = 62 then 43 else 47)"

definition base64_group :: "nat \<Rightarrow> nat \<Rightarrow> nat \<Rightarrow> nat list" where
  "base64_group a b c = [a div 4, a mod 4 * 16 + b div 16, b mod 16 * 4 + c div 64, c mod 64]"

text \<open>\<open>toString("base64")\<close>.\<close>

fun base64_encode :: "bytes \<Rightarrow> string" where
  "base64_encode [] = []"
| "base64_encode [a] = map base64_digit (take 2 (base64_group (of_char a) 0 0)) @ ''==''"
| "base64_encode [a, b] = map base64_digit (take 3 (base64_group (of_char a) (of_char b) 0)) @ ''=''"
| "base64_encode (a # b # c # bs) =
     map base64_digit (base64_group (of_char a) (of_char b) (of_char c)) @ base64_encode bs"

text \<open>
  \<open>Buffer.from(s, "base64")\<close> accepts both alphabets, stops at the padding, skips every other
  character, and drops an incomplete byte at the end.
\<close>

definition base64_value :: "char \<Rightarrow> nat option" where
  "base64_value c = (let n = of_char c :: nat in
     if 65 \<le> n \<and> n \<le> 90 then Some (n - 65)
     else if 97 \<le> n \<and> n \<le> 122 then Some (n - 71)
     else if 48 \<le> n \<and> n \<le> 57 then Some (n + 4)
     else if n = 43 \<or> n = 45 then Some 62
     else if n = 47 \<or> n = 95 then Some 63
     else None)"

definition base64_values :: "string \<Rightarrow> nat list" where
  "base64_values s = List.map_filter base64_value (takeWhile (\<lambda>c. c \<noteq> CHR ''='') s)"

fun base64_bytes :: "nat list \<Rightarrow> bytes" where
  "base64_bytes (p # q # r # s # vs) =
     char_of (p * 4 + q div 16) # char_of (q mod 16 * 16 + r div 4) # char_of (r mod 4 * 64 + s) # base64_bytes vs"
| "base64_bytes [p, q, r] = [char_of (p * 4 + q div 16), char_of (q mod 16 * 16 + r div 4)]"
| "base64_bytes [p, q] = [char_of (p * 4 + q div 16)]"
| "base64_bytes _ = []"

definition base64_decode :: "string \<Rightarrow> bytes" where
  "base64_decode s = base64_bytes (base64_values s)"

lemma base64_value_digit: "n < 64 \<Longrightarrow> base64_value (base64_digit n) = Some n"
  by (auto simp: base64_value_def base64_digit_def Let_def)

lemma base64_digit_padding: "n < 64 \<Longrightarrow> base64_digit n \<noteq> CHR ''=''"
proof
  assume "n < 64" and "base64_digit n = CHR ''=''"
  then have "Some n = base64_value (CHR ''='')" using base64_value_digit by metis
  then show False by (simp add: base64_value_def)
qed

lemma base64_values_digits:
  "\<forall>v \<in> set vs. v < 64 \<Longrightarrow> base64_values (map base64_digit vs @ s) = vs @ base64_values s"
  by (induction vs) (simp_all add: base64_values_def base64_value_digit base64_digit_padding map_filter_simps)

lemma base64_values_padding [simp]: "base64_values (CHR ''='' # s) = []" "base64_values [] = []"
  by (simp_all add: base64_values_def map_filter_simps)

lemma byte_group:
  fixes a b c :: nat
  assumes "a < 256" "b < 256" "c < 256"
  shows "\<forall>v \<in> set (base64_group a b c). v < 64"
    and "a div 4 * 4 + (a mod 4 * 16 + b div 16) div 16 = a"
    and "(a mod 4 * 16 + b div 16) mod 16 * 16 + (b mod 16 * 4 + c div 64) div 4 = b"
    and "(b mod 16 * 4 + c div 64) mod 4 * 64 + c mod 64 = c"
proof -
  have q: "b div 16 < 16" "c div 64 < 4" using assms by simp_all
  have h: "a div 4 < 64" "a mod 4 * 16 + b div 16 < 64" "b mod 16 * 4 + c div 64 < 64"
    using assms q mod_less_divisor [of 4 a] mod_less_divisor [of 16 b] by linarith+
  then show "\<forall>v \<in> set (base64_group a b c). v < 64" by (simp add: base64_group_def)
  show "a div 4 * 4 + (a mod 4 * 16 + b div 16) div 16 = a"
    "(a mod 4 * 16 + b div 16) mod 16 * 16 + (b mod 16 * 4 + c div 64) div 4 = b"
    "(b mod 16 * 4 + c div 64) mod 4 * 64 + c mod 64 = c"
    using q by simp_all
qed

lemma base64_bytes_group:
  fixes a b c :: char
  shows "base64_bytes (base64_group (of_char a) (of_char b) (of_char c) @ vs) = a # b # c # base64_bytes vs"
  using byte_group [of "of_char a" "of_char b" "of_char c"] by (simp add: base64_group_def)

theorem base64_round_trip: "base64_decode (base64_encode bs) = bs"
proof (induction bs rule: base64_encode.induct)
  case (2 a)
  have "\<forall>v \<in> set (take 2 (base64_group (of_char a) 0 0)). v < 64"
    using byte_group(1) [of "of_char a" 0 0] by (meson in_set_takeD nat_of_char_less_256 zero_less_numeral)
  then show ?case using byte_group(2) [of "of_char a" 0 0]
    by (simp add: base64_decode_def base64_values_digits) (simp add: base64_group_def)
next
  case (3 a b)
  have "\<forall>v \<in> set (take 3 (base64_group (of_char a) (of_char b) 0)). v < 64"
    using byte_group(1) [of "of_char a" "of_char b" 0] by (meson in_set_takeD nat_of_char_less_256 zero_less_numeral)
  then show ?case using byte_group(2,3) [of "of_char a" "of_char b" 0]
    by (simp add: base64_decode_def base64_values_digits) (simp add: base64_group_def)
next
  case (4 a b c bs)
  then show ?case using byte_group(1) [of "of_char a" "of_char b" "of_char c"]
    by (simp add: base64_decode_def base64_values_digits base64_bytes_group)
qed (simp add: base64_decode_def)
section \<open>Base64url\<close>

definition url_digit :: "char \<Rightarrow> char" where
  "url_digit c = (if c = CHR ''+'' then CHR ''-'' else if c = CHR ''/'' then CHR ''_'' else c)"

text \<open>\<open>toString("base64url")\<close>: the other two digits, no padding. \<open>Buffer.from(s, "base64url")\<close> is the
  decoder above.\<close>

definition base64url_encode :: "bytes \<Rightarrow> string" where
  "base64url_encode bs = map url_digit (filter (\<lambda>c. c \<noteq> CHR ''='') (base64_encode bs))"

lemma base64_value_url: "base64_value (url_digit c) = base64_value c"
  by (simp add: url_digit_def base64_value_def)

lemma url_digit_padding [simp]: "url_digit c = CHR ''='' \<longleftrightarrow> c = CHR ''=''"
  by (simp add: url_digit_def)

lemma base64_values_url: "base64_values (map url_digit s) = base64_values s"
  by (induction s) (auto simp: base64_values_def map_filter_simps base64_value_url split: option.split)

lemma padding_last: "filter (\<lambda>c. c \<noteq> CHR ''='') (base64_encode bs) = takeWhile (\<lambda>c. c \<noteq> CHR ''='') (base64_encode bs)"
proof (induction bs rule: base64_encode.induct)
  case (2 a)
  then show ?case using byte_group(1) [of "of_char a" 0 0] by (simp add: base64_group_def base64_digit_padding)
next
  case (3 a b)
  then show ?case using byte_group(1) [of "of_char a" "of_char b" 0] by (simp add: base64_group_def base64_digit_padding)
next
  case (4 a b c bs)
  then show ?case using byte_group(1) [of "of_char a" "of_char b" "of_char c"]
    by (simp add: base64_group_def base64_digit_padding)
qed simp

theorem base64url_round_trip: "base64_decode (base64url_encode bs) = bs"
proof -
  have "base64_values (base64url_encode bs) = base64_values (base64_encode bs)"
    unfolding base64url_encode_def base64_values_url padding_last by (simp add: base64_values_def)
  then show ?thesis using base64_round_trip [of bs] by (simp add: base64_decode_def)
qed

text \<open>What base64 texts consist of.\<close>

lemma base64_digit_range: "43 \<le> (of_char (base64_digit n) :: nat)" "(of_char (base64_digit n) :: nat) < 128"
  by (auto simp: base64_digit_def)

lemma base64_encode_range: "c \<in> set (base64_encode bs) \<Longrightarrow> 43 \<le> (of_char c :: nat) \<and> (of_char c :: nat) < 128"
  by (induction bs rule: base64_encode.induct) (auto simp: base64_group_def base64_digit_range)

lemma js_trim_id:
  assumes "\<forall>c \<in> set s. \<not> js_space c"
  shows "js_trim s = s"
proof -
  have "dropWhile js_space t = t" if "\<forall>c \<in> set t. \<not> js_space c" for t
    using that by (cases t) auto
  from this [of s] this [of "rev s"] assms show ?thesis by (simp add: js_trim_def)
qed

lemma js_trim_base64: "js_trim (base64_encode bs) = base64_encode bs"
proof (rule js_trim_id, rule ballI)
  fix c assume "c \<in> set (base64_encode bs)"
  from base64_encode_range [OF this] show "\<not> js_space c" by (auto simp: js_space_def)
qed

end
