(* ===== verification/OAuthClients.thy ===== *)
theory OAuthClients
  imports AuditTrail IdpEnv Bytes
begin

text \<open>
  OAuth clients: core/oauth-client-auth.ts, modules/oauth-clients/oauth-client.repository.ts and
  oauth-client.service.ts. A client has secrets of which one is primary; a rotated secret is
  accepted until its grace period ends.
\<close>

section \<open>HTTP Basic credentials\<close>

record client_credentials =
  cr_clientId :: string
  cr_clientSecret :: string

text \<open>\<open>timingSafeEqual\<close> compares the bytes; it throws on different lengths, so those come first.\<close>

definition safeEqualString :: "string \<Rightarrow> string \<Rightarrow> bool" where
  "safeEqualString left right =
     (let leftBuf = utf8_bytes left; rightBuf = utf8_bytes right
      in if length leftBuf \<noteq> length rightBuf then False else leftBuf = rightBuf)"

text \<open>\<open>s.indexOf(c)\<close>, with \<open>None\<close> for -1.\<close>

definition index_of :: "char \<Rightarrow> string \<Rightarrow> nat option" where
  "index_of c s = (if c \<in> set s then Some (length (takeWhile (\<lambda>x. x \<noteq> c) s)) else None)"

definition invalid_client :: "string \<Rightarrow> err" where
  "invalid_client message = ApiError 401 ''invalid_client'' message"

definition parseOAuthClientBasicAuth :: "string option \<Rightarrow> err + client_credentials" where
  "parseOAuthClientBasicAuth authorization =
     (case authorization of
        None \<Rightarrow> Inl (invalid_client ''OAuth client authentication required'')
      | Some a \<Rightarrow>
          if \<not> starts_with a ''Basic '' then Inl (invalid_client ''OAuth client authentication required'')
          else
            (let encoded = js_trim (drop (length ''Basic '') a);
                 decoded = utf8_text (base64_decode encoded)
             in case index_of (CHR '':'') decoded of
                  None \<Rightarrow> Inl (invalid_client ''Invalid client credentials format'')
                | Some separator \<Rightarrow>
                    if separator < 1 then Inl (invalid_client ''Invalid client credentials format'')
                    else Inr \<lparr>cr_clientId = take separator decoded, cr_clientSecret = drop (separator + 1) decoded\<rparr>))"

section \<open>Constraints of the tables\<close>

definition uniq_clients :: "client_row list \<Rightarrow> bool" where
  "uniq_clients rs \<longleftrightarrow> distinct (map oc_id rs) \<and> distinct (map oc_clientId rs)"

definition uniq_secrets :: "secret_row list \<Rightarrow> bool" where
  "uniq_secrets rs \<longleftrightarrow> distinct (map os_id rs)"

definition uniq_redirects :: "redirect_row list \<Rightarrow> bool" where
  "uniq_redirects rs \<longleftrightarrow> distinct (map ou_id rs) \<and> distinct (map (\<lambda>r. (ou_clientPkId r, ou_redirectUri r)) rs)"

definition uniq_scopes :: "scope_row list \<Rightarrow> bool" where
  "uniq_scopes rs \<longleftrightarrow> distinct (map ox_id rs) \<and> distinct (map (\<lambda>r. (ox_clientPkId r, ox_scope r)) rs)"

definition uniq_client_audit :: "client_audit_row list \<Rightarrow> bool" where
  "uniq_client_audit rs \<longleftrightarrow> distinct (map oa_id rs)"

definition client_exists :: "database \<Rightarrow> uuid \<Rightarrow> bool" where
  "client_exists d i \<longleftrightarrow> i \<in> set (map oc_id (oauthClients d))"

section \<open>OAuthClientRepository\<close>

definition findByClientId :: "database \<Rightarrow> string \<Rightarrow> client_row option" where
  "findByClientId d clientId = List.find (\<lambda>c. oc_clientId c = clientId) (oauthClients d)"

definition findActiveByClientId :: "database \<Rightarrow> string \<Rightarrow> client_row option" where
  "findActiveByClientId d clientId =
     List.find (\<lambda>c. oc_clientId c = clientId \<and> oc_status c = ''active'') (oauthClients d)"

definition unexpired_secret :: "time \<Rightarrow> uuid \<Rightarrow> secret_row \<Rightarrow> bool" where
  "unexpired_secret t clientPkId s \<longleftrightarrow> os_clientPkId s = clientPkId \<and> os_revokedAt s = None \<and>
     (case os_expiresAt s of None \<Rightarrow> True | Some e \<Rightarrow> t < e)"

definition listActiveSecrets :: "database \<Rightarrow> time \<Rightarrow> uuid \<Rightarrow> secret_row list" where
  "listActiveSecrets d t clientPkId =
     order_desc os_createdAt (filter (unexpired_secret t clientPkId) (oauthClientSecrets d))"

record client_view =
  vw_client :: client_row
  vw_redirectUris :: "string list"
  vw_allowedScopes :: "string list"

definition listClients :: "database \<Rightarrow> client_view list" where
  "listClients d = map (\<lambda>c. \<lparr>vw_client = c,
       vw_redirectUris = map ou_redirectUri (filter (\<lambda>r. ou_clientPkId r = oc_id c) (oauthClientRedirectUris d)),
       vw_allowedScopes = map ox_scope (filter (\<lambda>r. ox_clientPkId r = oc_id c) (oauthClientScopes d))\<rparr>)
     (order_desc oc_createdAt (oauthClients d))"

text \<open>
  One INSERT of several rows. It is part of a transaction, so whether the rows before a refused
  one were written makes no difference.
\<close>

definition insert_redirects :: "uuid \<Rightarrow> string list \<Rightarrow> unit io" where
  "insert_redirects clientPkId redirectUris = for_each redirectUris (\<lambda>uri.
     bind draw_uuid (\<lambda>i. bind now (\<lambda>t.
     insert_row oauthClientRedirectUris oauthClientRedirectUris_update uniq_redirects
       (\<lambda>d r. client_exists d (ou_clientPkId r))
       \<lparr>ou_id = i, ou_clientPkId = clientPkId, ou_redirectUri = uri, ou_createdAt = t\<rparr>)))"

definition insert_scopes :: "uuid \<Rightarrow> string list \<Rightarrow> unit io" where
  "insert_scopes clientPkId allowedScopes = for_each allowedScopes (\<lambda>scope.
     bind draw_uuid (\<lambda>i. bind now (\<lambda>t.
     insert_row oauthClientScopes oauthClientScopes_update uniq_scopes
       (\<lambda>d r. client_exists d (ox_clientPkId r))
       \<lparr>ox_id = i, ox_clientPkId = clientPkId, ox_scope = scope, ox_createdAt = t\<rparr>)))"

definition insert_secret :: "uuid \<Rightarrow> string \<Rightarrow> string \<Rightarrow> unit io" where
  "insert_secret clientPkId secretHash secretHint =
     bind draw_uuid (\<lambda>i. bind now (\<lambda>t.
     insert_row oauthClientSecrets oauthClientSecrets_update uniq_secrets
       (\<lambda>d r. client_exists d (os_clientPkId r))
       \<lparr>os_id = i, os_clientPkId = clientPkId, os_secretHash = secretHash, os_secretHint = secretHint,
        os_isPrimary = True, os_expiresAt = None, os_graceUntil = None, os_revokedAt = None, os_createdAt = t\<rparr>))"

definition insert_client_audit :: "uuid \<Rightarrow> uuid \<Rightarrow> string \<Rightarrow> json \<Rightarrow> unit io" where
  "insert_client_audit clientPkId actorUserId eventType payload =
     bind draw_uuid (\<lambda>i. bind now (\<lambda>t.
     insert_row oauthClientAuditLogs oauthClientAuditLogs_update uniq_client_audit
       (\<lambda>d r. client_exists d clientPkId \<and> user_exists d actorUserId)
       \<lparr>oa_id = i, oa_clientPkId = Some clientPkId, oa_actorUserId = Some actorUserId,
        oa_eventType = eventType, oa_payload = payload, oa_createdAt = t\<rparr>))"

record client_input =
  ci_clientId :: string
  ci_name :: string
  ci_clientType :: string
  ci_tokenEndpointAuthMethod :: string
  ci_accessTokenTtlSeconds :: "int option"
  ci_refreshTokenTtlSeconds :: "int option"
  ci_redirectUris :: "string list"
  ci_allowedScopes :: "string list"

definition OAuthClientRepository_createClient ::
    "client_input \<Rightarrow> string \<Rightarrow> string \<Rightarrow> uuid \<Rightarrow> client_row io" where
  "OAuthClientRepository_createClient input secretHash secretHint actorUserId = transaction (
     bind draw_uuid (\<lambda>i. bind now (\<lambda>t.
     let created = \<lparr>oc_id = i, oc_clientId = ci_clientId input, oc_name = ci_name input,
           oc_clientType = ci_clientType input, oc_tokenEndpointAuthMethod = ci_tokenEndpointAuthMethod input,
           oc_status = ''active'', oc_accessTokenTtlSeconds = ci_accessTokenTtlSeconds input,
           oc_refreshTokenTtlSeconds = ci_refreshTokenTtlSeconds input, oc_createdAt = t, oc_updatedAt = t\<rparr> in
     bind (insert_row oauthClients oauthClients_update uniq_clients (\<lambda>_ _. True) created) (\<lambda>_.
     bind (insert_secret i secretHash secretHint) (\<lambda>_.
     bind (insert_redirects i (ci_redirectUris input)) (\<lambda>_.
     bind (insert_scopes i (ci_allowedScopes input)) (\<lambda>_.
     bind (insert_client_audit i actorUserId ''oauth.client.created''
             (JObj [(''clientId'', JStr (oc_clientId created)), (''status'', JStr (oc_status created))])) (\<lambda>_.
     ret created))))))))"

text \<open>An absent field is \<open>None\<close>; a time to live can also be set to \<open>null\<close>.\<close>

record client_patch =
  cp_name :: "string option"
  cp_status :: "string option"
  cp_accessTokenTtlSeconds :: "int option option"
  cp_refreshTokenTtlSeconds :: "int option option"
  cp_redirectUris :: "string list option"
  cp_allowedScopes :: "string list option"

definition or_else :: "'a option \<Rightarrow> 'a \<Rightarrow> 'a" where
  "or_else x y = (case x of None \<Rightarrow> y | Some v \<Rightarrow> v)"

definition patched_client :: "client_patch \<Rightarrow> time \<Rightarrow> client_row \<Rightarrow> client_row" where
  "patched_client patch t found = found\<lparr>
     oc_name := or_else (cp_name patch) (oc_name found),
     oc_status := or_else (cp_status patch) (oc_status found),
     oc_accessTokenTtlSeconds := or_else (cp_accessTokenTtlSeconds patch) (oc_accessTokenTtlSeconds found),
     oc_refreshTokenTtlSeconds := or_else (cp_refreshTokenTtlSeconds patch) (oc_refreshTokenTtlSeconds found),
     oc_updatedAt := t\<rparr>"

definition OAuthClientRepository_updateClient ::
    "string \<Rightarrow> uuid \<Rightarrow> client_patch \<Rightarrow> client_row option io" where
  "OAuthClientRepository_updateClient clientId actorUserId patch = transaction (
     bind (read_db (\<lambda>d. findByClientId d clientId)) (\<lambda>found.
     case found of
       None \<Rightarrow> ret None
     | Some c \<Rightarrow>
         bind now (\<lambda>t.
         let updated = patched_client patch t c in
         bind (update_rows oauthClients_update (\<lambda>r. oc_id r = oc_id c) (patched_client patch t)) (\<lambda>_.
         bind (case cp_redirectUris patch of None \<Rightarrow> ret ()
               | Some uris \<Rightarrow>
                   bind (delete_rows oauthClientRedirectUris_update (\<lambda>r. ou_clientPkId r = oc_id c)) (\<lambda>_.
                   insert_redirects (oc_id c) uris)) (\<lambda>_.
         bind (case cp_allowedScopes patch of None \<Rightarrow> ret ()
               | Some scopes \<Rightarrow>
                   bind (delete_rows oauthClientScopes_update (\<lambda>r. ox_clientPkId r = oc_id c)) (\<lambda>_.
                   insert_scopes (oc_id c) scopes)) (\<lambda>_.
         bind (insert_client_audit (oc_id c) actorUserId ''oauth.client.updated''
                 (JObj [(''clientId'', JStr clientId), (''status'', JStr (oc_status updated))])) (\<lambda>_.
         ret (Some updated))))))))"

definition superseded :: "time option \<Rightarrow> secret_row \<Rightarrow> secret_row" where
  "superseded graceUntil s = s\<lparr>os_isPrimary := False, os_graceUntil := graceUntil\<rparr>"

definition current_primary :: "uuid \<Rightarrow> secret_row \<Rightarrow> bool" where
  "current_primary clientPkId s \<longleftrightarrow> os_clientPkId s = clientPkId \<and> os_isPrimary s \<and> os_revokedAt s = None"

definition OAuthClientRepository_rotateSecret ::
    "libs \<Rightarrow> string \<Rightarrow> uuid \<Rightarrow> string \<Rightarrow> string \<Rightarrow> time option \<Rightarrow> client_row option io" where
  "OAuthClientRepository_rotateSecret L clientId actorUserId secretHash secretHint graceUntil = transaction (
     bind (read_db (\<lambda>d. findByClientId d clientId)) (\<lambda>found.
     case found of
       None \<Rightarrow> ret None
     | Some c \<Rightarrow>
         bind (update_rows oauthClientSecrets_update (current_primary (oc_id c)) (superseded graceUntil)) (\<lambda>_.
         bind (insert_secret (oc_id c) secretHash secretHint) (\<lambda>_.
         bind now (\<lambda>t.
         bind (update_rows oauthClients_update (\<lambda>r. oc_id r = oc_id c) (\<lambda>r. r\<lparr>oc_updatedAt := t\<rparr>)) (\<lambda>_.
         bind (insert_client_audit (oc_id c) actorUserId ''oauth.client.secret_rotated''
                 (JObj [(''clientId'', JStr clientId),
                        (''graceUntil'', json_of_opt (\<lambda>g. JStr (iso_string L g)) graceUntil)])) (\<lambda>_.
         ret (Some c))))))))"

section \<open>OAuthClientService\<close>

definition isSecretUsable :: "time \<Rightarrow> secret_row \<Rightarrow> bool" where
  "isSecretUsable t secret =
     (if os_isPrimary secret then True
      else (case os_graceUntil secret of None \<Rightarrow> False | Some g \<Rightarrow> t < g))"

definition createClientSecret :: "string io" where
  "createClientSecret = bind draw_text (\<lambda>value. ret (''ocs_'' @ value))"

definition secretHint :: "string \<Rightarrow> string" where
  "secretHint secret = drop (length secret - 4) secret"

record client_principal =
  cl_clientPkId :: "uuid option"
  cl_clientId :: string
  cl_status :: string

definition matching_secret :: "libs \<Rightarrow> database \<Rightarrow> time \<Rightarrow> uuid \<Rightarrow> string \<Rightarrow> secret_row option" where
  "matching_secret L d t clientPkId clientSecret =
     List.find (\<lambda>s. isSecretUsable t s \<and> verifyPassword L clientSecret (os_secretHash s))
       (listActiveSecrets d t clientPkId)"

definition registered_client :: "libs \<Rightarrow> database \<Rightarrow> time \<Rightarrow> client_credentials \<Rightarrow> client_principal option" where
  "registered_client L d t credentials =
     (case findActiveByClientId d (cr_clientId credentials) of
        None \<Rightarrow> None
      | Some client \<Rightarrow>
          (case matching_secret L d t (oc_id client) (cr_clientSecret credentials) of
             None \<Rightarrow> None
           | Some _ \<Rightarrow> Some \<lparr>cl_clientPkId = Some (oc_id client), cl_clientId = oc_clientId client,
                                cl_status = oc_status client\<rparr>))"

definition authenticateClientBasic :: "libs \<Rightarrow> app_env \<Rightarrow> string option \<Rightarrow> client_principal io" where
  "authenticateClientBasic L env authorization =
     (case parseOAuthClientBasicAuth authorization of
        Inl e \<Rightarrow> throw e
      | Inr credentials \<Rightarrow>
          bind now (\<lambda>t.
          bind (read_db (\<lambda>d. registered_client L d t credentials)) (\<lambda>found.
          case found of
            Some p \<Rightarrow> ret p
          | None \<Rightarrow>
              if safeEqualString (cr_clientId credentials) (OAUTH_CLIENT_ID env) \<and>
                 safeEqualString (cr_clientSecret credentials) (OAUTH_CLIENT_SECRET env)
              then ret \<lparr>cl_clientPkId = None, cl_clientId = OAUTH_CLIENT_ID env, cl_status = ''active''\<rparr>
              else throw (invalid_client ''Invalid OAuth client credentials''))))"

record created_client =
  cc_clientId :: string
  cc_clientSecret :: string
  cc_secretHint :: string

text \<open>\<open>input.clientId ?? ...\<close> comes with the other fields; the generated name is drawn before the hash.\<close>

definition OAuthClientService_createClient ::
    "libs \<Rightarrow> uuid \<Rightarrow> string option \<Rightarrow> client_input \<Rightarrow> created_client io" where
  "OAuthClientService_createClient L actorUserId clientId input =
     bind createClientSecret (\<lambda>newSecret.
     bind (case clientId of Some i \<Rightarrow> ret i | None \<Rightarrow> bind draw_text (\<lambda>r. ret (''client_'' @ r))) (\<lambda>i.
     bind (hashPassword L newSecret) (\<lambda>secretHash.
     bind (OAuthClientRepository_createClient (input\<lparr>ci_clientId := i\<rparr>) secretHash (secretHint newSecret) actorUserId)
       (\<lambda>created.
     bind (createSecurityEvent ''admin.oauth_client.created'' (Some actorUserId)
             (JObj [(''clientId'', JStr (oc_clientId created))])) (\<lambda>_.
     ret \<lparr>cc_clientId = oc_clientId created, cc_clientSecret = newSecret, cc_secretHint = secretHint newSecret\<rparr>)))))"

definition no_such_client :: err where
  "no_such_client = ApiError 404 ''not_found'' ''OAuth client not found''"

definition OAuthClientService_updateClient :: "uuid \<Rightarrow> string \<Rightarrow> client_patch \<Rightarrow> string io" where
  "OAuthClientService_updateClient actorUserId clientId patch =
     bind (OAuthClientRepository_updateClient clientId actorUserId patch) (\<lambda>updated.
     case updated of
       None \<Rightarrow> throw no_such_client
     | Some c \<Rightarrow>
         bind (createSecurityEvent ''admin.oauth_client.updated'' (Some actorUserId)
                 (JObj [(''clientId'', JStr (oc_clientId c)), (''status'', JStr (oc_status c))])) (\<lambda>_.
         ret (oc_clientId c)))"

record rotated_client =
  ro_clientSecret :: string
  ro_secretHint :: string
  ro_graceUntil :: "string option"

text \<open>How long the replaced secret stays usable.\<close>

definition grace_end :: "time \<Rightarrow> int \<Rightarrow> time option" where
  "grace_end t gracePeriodDays =
     (if gracePeriodDays > 0 then Some (t + gracePeriodDays * 24 * 60 * 60 * 1000) else None)"

definition OAuthClientService_rotateSecret :: "libs \<Rightarrow> uuid \<Rightarrow> string \<Rightarrow> int \<Rightarrow> rotated_client io" where
  "OAuthClientService_rotateSecret L actorUserId clientId gracePeriodDays =
     bind createClientSecret (\<lambda>newSecret.
     bind now (\<lambda>t.
     let graceUntil = grace_end t gracePeriodDays in
     bind (hashPassword L newSecret) (\<lambda>secretHash.
     bind (OAuthClientRepository_rotateSecret L clientId actorUserId secretHash (secretHint newSecret) graceUntil)
       (\<lambda>found.
     case found of
       None \<Rightarrow> throw no_such_client
     | Some _ \<Rightarrow>
         bind (createSecurityEvent ''admin.oauth_client.secret_rotated'' (Some actorUserId)
                 (JObj [(''clientId'', JStr clientId),
                        (''graceUntil'', json_of_opt (\<lambda>g. JStr (iso_string L g)) graceUntil)])) (\<lambda>_.
         ret \<lparr>ro_clientSecret = newSecret, ro_secretHint = secretHint newSecret, ro_graceUntil = map_option (iso_string L) graceUntil\<rparr>)))))"

end
