(* ===== verification/OidcAdapter.thy ===== *)
theory OidcAdapter
  imports OAuthClients JsonText
begin

text \<open>
  core/oidc-provider-adapter.ts: the storage oidc-provider keeps its grants, codes, tokens and
  interactions in, and the client metadata it reads from the registry, with the comparison of
  client secrets core/oidc-provider.ts installs.
\<close>

section \<open>Client metadata\<close>

definition oidcClientSecretHashesPrefix :: string where
  "oidcClientSecretHashesPrefix = ''argon2-hashes:''"

definition encodeOidcClientSecretHashes :: "string list \<Rightarrow> string" where
  "encodeOidcClientSecretHashes hashes =
     oidcClientSecretHashesPrefix @ base64url_encode (utf8_bytes (stringify (JArr (map JStr hashes))))"

text \<open>\<open>None\<close> when \<open>JSON.parse\<close> throws.\<close>

definition verifyOidcClientSecretMetadata :: "libs \<Rightarrow> string \<Rightarrow> string option \<Rightarrow> bool option" where
  "verifyOidcClientSecretMetadata L actualSecret metadataSecret =
     (case metadataSecret of
        None \<Rightarrow> Some False
      | Some m \<Rightarrow>
          if \<not> starts_with m oidcClientSecretHashesPrefix then Some False
          else
            (case json_parse (utf8_text (base64_decode (drop (length oidcClientSecretHashesPrefix) m))) of
               None \<Rightarrow> None
             | Some (JArr hashes) \<Rightarrow>
                 Some (list_ex (\<lambda>h. case h of JStr hash \<Rightarrow> verifyPassword L actualSecret hash | _ \<Rightarrow> False) hashes)
             | Some _ \<Rightarrow> Some False))"

text \<open>\<open>compareClientSecret\<close> with the method of the library it replaces.\<close>

definition compareClientSecret :: "libs \<Rightarrow> (string \<Rightarrow> string option \<Rightarrow> bool) \<Rightarrow> string \<Rightarrow> string option \<Rightarrow> bool option" where
  "compareClientSecret L originalCompareClientSecret actual clientSecret =
     map_option (\<lambda>ok. if ok then True else originalCompareClientSecret actual clientSecret)
       (verifyOidcClientSecretMetadata L actual clientSecret)"

record client_registry =
  rg_clientId :: string
  rg_name :: string
  rg_redirectUris :: "string list"
  rg_allowedScopes :: "string list"
  rg_secretHashes :: "string list"

definition jstrings :: "string list \<Rightarrow> json" where "jstrings xs = JArr (map JStr xs)"

definition buildOidcClientMetadata :: "client_registry \<Rightarrow> json option" where
  "buildOidcClientMetadata client =
     (let allowedScopes = js_uniq (rg_allowedScopes client) in
      if rg_redirectUris client = [] \<or> ''openid'' \<notin> set allowedScopes \<or> rg_secretHashes client = [] then None
      else Some (JObj
        [(''client_id'', JStr (rg_clientId client)),
         (''client_name'', JStr (rg_name client)),
         (''client_secret'', JStr (encodeOidcClientSecretHashes (rg_secretHashes client))),
         (''client_secret_expires_at'', JNum 0),
         (''grant_types'', jstrings [''authorization_code'', ''refresh_token'']),
         (''redirect_uris'', jstrings (rg_redirectUris client)),
         (''post_logout_redirect_uris'', jstrings (rg_redirectUris client)),
         (''response_types'', jstrings [''code'']),
         (''scope'', JStr (js_join '' '' allowedScopes)),
         (''token_endpoint_auth_method'', JStr ''client_secret_basic'')]))"

definition oidc_secret :: "time \<Rightarrow> uuid \<Rightarrow> secret_row \<Rightarrow> bool" where
  "oidc_secret t clientPkId s \<longleftrightarrow> os_clientPkId s = clientPkId \<and> os_revokedAt s = None \<and>
     (case os_expiresAt s of None \<Rightarrow> True | Some e \<Rightarrow> t < e) \<and>
     (os_isPrimary s \<or> (case os_graceUntil s of None \<Rightarrow> False | Some g \<Rightarrow> t < g))"

definition oidc_client :: "string \<Rightarrow> client_row \<Rightarrow> bool" where
  "oidc_client clientId c \<longleftrightarrow> oc_clientId c = clientId \<and> oc_status c = ''active'' \<and>
     oc_clientType c = ''confidential'' \<and> oc_tokenEndpointAuthMethod c = ''client_secret_basic''"

definition findClient :: "database \<Rightarrow> time \<Rightarrow> string \<Rightarrow> json option" where
  "findClient d t clientId =
     (case List.find (oidc_client clientId) (oauthClients d) of
        None \<Rightarrow> None
      | Some client \<Rightarrow> buildOidcClientMetadata
          \<lparr>rg_clientId = oc_clientId client, rg_name = oc_name client,
           rg_redirectUris = map ou_redirectUri (filter (\<lambda>r. ou_clientPkId r = oc_id client) (oauthClientRedirectUris d)),
           rg_allowedScopes = map ox_scope (filter (\<lambda>r. ox_clientPkId r = oc_id client) (oauthClientScopes d)),
           rg_secretHashes = map os_secretHash
             (order_desc os_createdAt (filter (oidc_secret t (oc_id client)) (oauthClientSecrets d)))\<rparr>)"

section \<open>The store\<close>

definition consumedEpochSeconds :: "time \<Rightarrow> int" where
  "consumedEpochSeconds date = date div 1000"

definition toExpiresAt :: "time \<Rightarrow> int \<Rightarrow> time" where
  "toExpiresAt t expiresInSeconds = t + expiresInSeconds * 1000"

text \<open>A \<open>Date\<close> beyond 8.64e15 milliseconds is invalid.\<close>

definition toConsumedAt :: "json \<Rightarrow> time option" where
  "toConsumedAt payload = (case json_prop payload ''consumed'' of
     Some (JNum n) \<Rightarrow> if \<bar>n * 1000\<bar> \<le> 8640000000000000 then Some (n * 1000) else None
   | _ \<Rightarrow> None)"

fun withConsumed :: "json \<Rightarrow> time option \<Rightarrow> json" where
  "withConsumed payload None = payload"
| "withConsumed (JObj fs) (Some consumedAt) = JObj (put_member ''consumed'' (JNum (consumedEpochSeconds consumedAt)) fs)"
| "withConsumed payload (Some consumedAt) = JObj [(''consumed'', JNum (consumedEpochSeconds consumedAt))]"

definition string_prop :: "json \<Rightarrow> string \<Rightarrow> string option" where
  "string_prop payload k = (case json_prop payload k of Some (JStr s) \<Rightarrow> Some s | _ \<Rightarrow> None)"

definition same_key :: "string \<Rightarrow> string \<Rightarrow> oidc_row \<Rightarrow> bool" where
  "same_key model i r \<longleftrightarrow> oi_model r = model \<and> oi_id r = i"

definition state_row :: "string \<Rightarrow> string \<Rightarrow> json \<Rightarrow> int \<Rightarrow> time \<Rightarrow> oidc_row" where
  "state_row model i payload expiresIn t =
     \<lparr>oi_id = i, oi_model = model, oi_payload = payload, oi_grantId = string_prop payload ''grantId'',
      oi_userCode = string_prop payload ''userCode'', oi_uid = string_prop payload ''uid'',
      oi_expiresAt = toExpiresAt t expiresIn, oi_consumedAt = toConsumedAt payload, oi_createdAt = t, oi_updatedAt = t\<rparr>"

text \<open>\<open>onConflictDoUpdate\<close> on (model, id): everything but the key and the creation time is replaced.\<close>

definition adapter_upsert :: "string \<Rightarrow> string \<Rightarrow> json \<Rightarrow> int \<Rightarrow> unit io" where
  "adapter_upsert model i payload expiresIn =
     bind now (\<lambda>t. write_db (oidcProviderStates_update (\<lambda>rs.
       if filter (same_key model i) rs = [] then rs @ [state_row model i payload expiresIn t]
       else update_where (same_key model i)
              (\<lambda>r. (state_row model i payload expiresIn t)\<lparr>oi_createdAt := oi_createdAt r\<rparr>) rs)))"

definition live_state :: "time \<Rightarrow> oidc_row \<Rightarrow> bool" where
  "live_state t r \<longleftrightarrow> t < oi_expiresAt r"

definition adapter_find :: "string \<Rightarrow> database \<Rightarrow> time \<Rightarrow> string \<Rightarrow> json option" where
  "adapter_find model d t i =
     (if model = ''Client'' then findClient d t i
      else map_option (\<lambda>r. withConsumed (oi_payload r) (oi_consumedAt r))
             (List.find (\<lambda>r. same_key model i r \<and> live_state t r) (oidcProviderStates d)))"

definition findByColumn :: "(oidc_row \<Rightarrow> string option) \<Rightarrow> string \<Rightarrow> database \<Rightarrow> time \<Rightarrow> string \<Rightarrow> json option" where
  "findByColumn column model d t value =
     map_option (\<lambda>r. withConsumed (oi_payload r) (oi_consumedAt r))
       (List.find (\<lambda>r. oi_model r = model \<and> column r = Some value \<and> live_state t r) (oidcProviderStates d))"

definition findByUserCode :: "string \<Rightarrow> database \<Rightarrow> time \<Rightarrow> string \<Rightarrow> json option" where
  "findByUserCode = findByColumn oi_userCode"

definition findByUid :: "string \<Rightarrow> database \<Rightarrow> time \<Rightarrow> string \<Rightarrow> json option" where
  "findByUid = findByColumn oi_uid"

definition adapter_consume :: "string \<Rightarrow> string \<Rightarrow> unit io" where
  "adapter_consume model i = bind now (\<lambda>t. update_rows oidcProviderStates_update (same_key model i)
     (\<lambda>r. r\<lparr>oi_consumedAt := Some t, oi_updatedAt := t\<rparr>))"

definition adapter_destroy :: "string \<Rightarrow> string \<Rightarrow> unit io" where
  "adapter_destroy model i = delete_rows oidcProviderStates_update (same_key model i)"

definition revokeByGrantId :: "string \<Rightarrow> unit io" where
  "revokeByGrantId grantId = delete_rows oidcProviderStates_update (\<lambda>r. oi_grantId r = Some grantId)"

definition deleteExpiredOidcProviderStates :: "nat io" where
  "deleteExpiredOidcProviderStates =
     bind now (\<lambda>t.
     bind (read_db (\<lambda>d. length (filter (\<lambda>r. oi_expiresAt r \<le> t) (oidcProviderStates d)))) (\<lambda>n.
     bind (delete_rows oidcProviderStates_update (\<lambda>r. oi_expiresAt r \<le> t)) (\<lambda>_. ret n)))"

end
