(* ===== verification/SdkEncoding.thy ===== *)
theory SdkEncoding
  imports Platform Bytes JsonText
begin

text \<open>The encodings of packages/server-sdk/src/index.ts: base64url, PKCE challenges, JWT parts and Basic
  credentials.\<close>

definition replace_all :: "char \<Rightarrow> char \<Rightarrow> string \<Rightarrow> string" where
  "replace_all a b s = map (\<lambda>c. if c = a then b else c) s"

definition base64Url :: "bytes \<Rightarrow> string" where
  "base64Url input = filter (\<lambda>c. c \<noteq> CHR ''='')
     (replace_all (CHR ''/'') (CHR ''_'') (replace_all (CHR ''+'') (CHR ''-'') (base64_encode input)))"

definition base64UrlToBuffer :: "string \<Rightarrow> bytes" where
  "base64UrlToBuffer value =
     (let normalized = replace_all (CHR ''_'') (CHR ''/'') (replace_all (CHR ''-'') (CHR ''+'') value);
          padded = normalized @ replicate ((4 - length normalized mod 4) mod 4) (CHR ''='')
      in base64_decode padded)"

text \<open>\<open>createHash("sha256").update(value).digest()\<close> gives the bytes; \<open>digest\<close> stands for it.\<close>

definition sha256Base64Url :: "(string \<Rightarrow> bytes) \<Rightarrow> string \<Rightarrow> string" where
  "sha256Base64Url digest value = base64Url (digest value)"

definition toBasic :: "string \<Rightarrow> string \<Rightarrow> string" where
  "toBasic clientId clientSecret = ''Basic '' @ base64_encode (utf8_bytes (clientId @ '':'' @ clientSecret))"

text \<open>\<open>decodeJson\<close> and \<open>decodeJwtPart\<close>: the parsed text of a token part, nothing when the parser throws.\<close>

definition decodeJson :: "string \<Rightarrow> json option" where
  "decodeJson value = json_parse (utf8_text (base64UrlToBuffer value))"

lemma base64Url_eq: "base64Url bs = base64url_encode bs"
proof -
  have "map url_digit (filter (\<lambda>c. c \<noteq> CHR ''='') s) =
      filter (\<lambda>c. c \<noteq> CHR ''='') (replace_all (CHR ''/'') (CHR ''_'') (replace_all (CHR ''+'') (CHR ''-'') s))" for s
    by (induction s) (auto simp: replace_all_def url_digit_def)
  then show ?thesis by (simp add: base64Url_def base64url_encode_def)
qed

lemma base64_values_append_padding: "base64_values (s @ replicate n (CHR ''='')) = base64_values s"
proof -
  have "takeWhile (\<lambda>c. c \<noteq> CHR ''='') (s @ replicate n (CHR ''='')) = takeWhile (\<lambda>c. c \<noteq> CHR ''='') s"
    by (induction s) (auto simp: takeWhile_eq_Nil_iff)
  then show ?thesis by (simp add: base64_values_def)
qed

lemma base64_values_normal:
  "base64_values (replace_all (CHR ''_'') (CHR ''/'') (replace_all (CHR ''-'') (CHR ''+'') s)) = base64_values s"
proof -
  have v: "base64_value (if c = CHR ''-'' then CHR ''+'' else c) = base64_value c"
    "base64_value (if c = CHR ''_'' then CHR ''/'' else c) = base64_value c" for c
    by (simp_all add: base64_value_def)
  show ?thesis
    by (induction s) (auto simp: base64_values_def replace_all_def map_filter_simps base64_value_def split: option.split)
qed

text \<open>What \<open>base64Url\<close> wrote, \<open>base64UrlToBuffer\<close> reads.\<close>

lemma base64Url_round_trip: "base64UrlToBuffer (base64Url bs) = bs"
proof -
  have "base64UrlToBuffer s = base64_decode s" for s
    by (simp add: base64UrlToBuffer_def base64_decode_def base64_values_append_padding base64_values_normal)
  then show ?thesis by (simp add: base64Url_eq base64url_round_trip)
qed

lemma decodeJson_round_trip: "json_ok j \<Longrightarrow> decodeJson (base64Url (utf8_bytes (stringify j))) = Some j"
  by (simp add: decodeJson_def base64Url_round_trip utf8_round_trip json_parse_stringify)

end
