(* ===== verification/OAuthClientsFacts.thy ===== *)
theory OAuthClientsFacts
  imports OAuthClients SdkEncoding Samples
begin

text \<open>
  Correctness of OAuth client authentication: which credentials the Basic header of the server SDK
  is accepted for, and what a rotation of the secret does to the old and the new one.
\<close>

section \<open>The Basic header\<close>

lemma index_of_append: "c \<notin> set a \<Longrightarrow> index_of c (a @ c # b) = Some (length a)"
  by (simp add: index_of_def takeWhile_append)

lemma parse_toBasic:
  assumes "clientId \<noteq> []" and "CHR '':'' \<notin> set clientId"
  shows "parseOAuthClientBasicAuth (Some (toBasic clientId secret)) =
    Inr \<lparr>cr_clientId = clientId, cr_clientSecret = secret\<rparr>"
  using assms
  by (simp add: parseOAuthClientBasicAuth_def toBasic_def js_trim_base64 base64_round_trip utf8_round_trip
      index_of_append Suc_le_eq starts_with_def)

lemma safeEqualString_iff: "safeEqualString a b \<longleftrightarrow> a = b"
  by (metis safeEqualString_def utf8_round_trip)

section \<open>Accepted secrets\<close>

text \<open>When a secret is accepted: not revoked, not expired, and the primary one or in its grace period.\<close>

definition secret_valid :: "time \<Rightarrow> secret_row \<Rightarrow> bool" where
  "secret_valid t s \<longleftrightarrow> os_revokedAt s = None \<and>
     (case os_expiresAt s of None \<Rightarrow> True | Some e \<Rightarrow> t < e) \<and>
     (os_isPrimary s \<or> (\<exists>g. os_graceUntil s = Some g \<and> t < g))"

text \<open>The contract of client authentication, without order of rows and tables.\<close>

definition client_accepts :: "libs \<Rightarrow> database \<Rightarrow> time \<Rightarrow> string \<Rightarrow> string \<Rightarrow> bool" where
  "client_accepts L d t clientId secret \<longleftrightarrow>
     (\<exists>c \<in> set (oauthClients d). oc_clientId c = clientId \<and> oc_status c = ''active'' \<and>
       (\<exists>s \<in> set (oauthClientSecrets d). os_clientPkId s = oc_id c \<and> secret_valid t s \<and>
          verifyPassword L secret (os_secretHash s)))"

lemma usable_iff: "isSecretUsable t s \<and> unexpired_secret t i s \<longleftrightarrow> os_clientPkId s = i \<and> secret_valid t s"
  by (auto simp: isSecretUsable_def unexpired_secret_def secret_valid_def split: option.splits)

lemma matching_iff: "matching_secret L d t i secret \<noteq> None \<longleftrightarrow>
    (\<exists>s \<in> set (oauthClientSecrets d). os_clientPkId s = i \<and> secret_valid t s \<and> verifyPassword L secret (os_secretHash s))"
  using usable_iff [of t _ i] unfolding matching_secret_def listActiveSecrets_def
  by (auto simp: find_None_iff)

lemma client_unique:
  "uniq_clients cs \<Longrightarrow> c \<in> set cs \<Longrightarrow> c' \<in> set cs \<Longrightarrow> oc_clientId c = oc_clientId c' \<Longrightarrow> c = c'"
  by (auto simp: uniq_clients_def dest: distinct_map_eqD)

lemma find_client:
  assumes "uniq_clients (oauthClients d)"
  shows "findByClientId d i = Some c \<longleftrightarrow> c \<in> set (oauthClients d) \<and> oc_clientId c = i"
    and "findActiveByClientId d i = Some c \<longleftrightarrow> c \<in> set (oauthClients d) \<and> oc_clientId c = i \<and> oc_status c = ''active''"
  unfolding findByClientId_def findActiveByClientId_def using client_unique [OF assms]
  by (blast intro: find_unique dest: find_SomeD)+

lemma registered_exact:
  assumes "uniq_clients (oauthClients d)"
  shows "registered_client L d t cr = None \<longleftrightarrow> \<not> client_accepts L d t (cr_clientId cr) (cr_clientSecret cr)"
proof (cases "findActiveByClientId d (cr_clientId cr)")
  case None
  then have "\<not> (oc_clientId c = cr_clientId cr \<and> oc_status c = ''active'')" if "c \<in> set (oauthClients d)" for c
    using that by (simp add: findActiveByClientId_def find_None)
  with None show ?thesis by (auto simp: registered_client_def client_accepts_def)
next
  case (Some c)
  then have c: "c \<in> set (oauthClients d)" "oc_clientId c = cr_clientId cr" "oc_status c = ''active''"
    using find_client(2) [OF assms] by auto
  have "client_accepts L d t (cr_clientId cr) (cr_clientSecret cr) \<longleftrightarrow>
      matching_secret L d t (oc_id c) (cr_clientSecret cr) \<noteq> None"
    using c client_unique [OF assms] unfolding client_accepts_def matching_iff by metis
  with Some show ?thesis by (simp add: registered_client_def split: option.split)
qed

text \<open>
  C20: Client authentication is exact. A service that presents itself with the Basic header of the
  server SDK is let in exactly when the registry has an active client of that name with a secret
  that verifies and is not revoked, not expired and primary or within its grace period, or when the
  credentials are the ones of the environment; otherwise the answer is \<open>invalid_client\<close>. Nothing
  is changed either way.
\<close>

theorem client_auth_exact:
  assumes "clientId \<noteq> []" and "CHR '':'' \<notin> set clientId" and "uniq_clients (oauthClients (db w))"
  shows "snd (authenticateClientBasic L env (Some (toBasic clientId secret)) w) = w \<and>
    (case fst (authenticateClientBasic L env (Some (toBasic clientId secret)) w) of
       Inr p \<Rightarrow> cl_clientId p = clientId \<and> cl_status p = ''active'' \<and>
         (client_accepts L (db w) (clock w) clientId secret \<or> clientId = OAUTH_CLIENT_ID env \<and> secret = OAUTH_CLIENT_SECRET env)
     | Inl e \<Rightarrow> e = ApiError 401 ''invalid_client'' ''Invalid OAuth client credentials'' \<and>
         \<not> client_accepts L (db w) (clock w) clientId secret \<and>
         (clientId = OAUTH_CLIENT_ID env \<longrightarrow> secret \<noteq> OAUTH_CLIENT_SECRET env))"
proof -
  let ?cr = "\<lparr>cr_clientId = clientId, cr_clientSecret = secret\<rparr>"
  let ?found = "registered_client L (db w) (clock w) ?cr"
  have run: "authenticateClientBasic L env (Some (toBasic clientId secret)) w =
      (case ?found of Some p \<Rightarrow> (Inr p, w)
       | None \<Rightarrow> if clientId = OAUTH_CLIENT_ID env \<and> secret = OAUTH_CLIENT_SECRET env
           then (Inr \<lparr>cl_clientPkId = None, cl_clientId = OAUTH_CLIENT_ID env, cl_status = ''active''\<rparr>, w)
           else (Inl (invalid_client ''Invalid OAuth client credentials''), w))"
    by (simp add: authenticateClientBasic_def parse_toBasic [OF assms(1,2)] run_simps safeEqualString_iff split: option.split)
  have "cl_clientId p = clientId \<and> cl_status p = ''active''" if "?found = Some p" for p
    using that find_client(2) [OF assms(3)] by (auto simp: registered_client_def split: option.splits)
  with registered_exact [OF assms(3), of L "clock w" ?cr] show ?thesis
    unfolding run by (cases ?found) (auto simp: invalid_client_def)
qed

text \<open>
  The fallback does not look at the registry: a client that was disabled there, or whose secret was
  rotated, is still let in with the credentials of the environment.
\<close>

lemma environment_credentials_stay:
  assumes "OAUTH_CLIENT_ID env \<noteq> []" and "CHR '':'' \<notin> set (OAUTH_CLIENT_ID env)"
    and "\<forall>c \<in> set (oauthClients (db w)). oc_status c = ''disabled''"
  shows "\<exists>p. fst (authenticateClientBasic L env (Some (toBasic (OAUTH_CLIENT_ID env) (OAUTH_CLIENT_SECRET env))) w) = Inr p"
proof -
  have "findActiveByClientId (db w) i = None" for i using assms(3) by (auto simp: findActiveByClientId_def find_None)
  then show ?thesis
    by (simp add: authenticateClientBasic_def parse_toBasic [OF assms(1,2)] run_simps safeEqualString_iff registered_client_def)
qed
section \<open>Rotation\<close>

definition new_secret :: "uuid \<Rightarrow> string \<Rightarrow> string \<Rightarrow> time \<Rightarrow> uuid \<Rightarrow> secret_row" where
  "new_secret clientPkId secretHash hint t i = \<lparr>os_id = i, os_clientPkId = clientPkId, os_secretHash = secretHash,
     os_secretHint = hint, os_isPrimary = True, os_expiresAt = None, os_graceUntil = None, os_revokedAt = None,
     os_createdAt = t\<rparr>"

lemma rotate_run:
  assumes "OAuthClientRepository_rotateSecret L clientId actor h hint g w = (Inr (Some c), w')"
  shows "\<exists>i. findByClientId (db w) clientId = Some c \<and> clock w' = clock w \<and>
    oauthClients (db w') = update_where (\<lambda>r. oc_id r = oc_id c) (\<lambda>r. r\<lparr>oc_updatedAt := clock w\<rparr>) (oauthClients (db w)) \<and>
    oauthClientSecrets (db w') = update_where (current_primary (oc_id c)) (superseded g) (oauthClientSecrets (db w)) @
      [new_secret (oc_id c) h hint (clock w) i]"
  using assms
  by (auto simp: OAuthClientRepository_rotateSecret_def transaction_Inr run_simps insert_secret_def
      insert_client_audit_def new_secret_def split: option.splits if_splits)

lemma event_keeps_clients:
  assumes "createSecurityEvent k u p w = (r, w')"
  shows "oauthClients (db w') = oauthClients (db w) \<and> oauthClientSecrets (db w') = oauthClientSecrets (db w)"
  using assms by (auto simp: createSecurityEvent_def insert_event_def recordSecurityEventMetric_def run_simps split: if_splits)

lemma rotation_result:
  assumes "OAuthClientService_rotateSecret L actor clientId days w = (Inr r, w')"
  obtains c i salt where "findByClientId (db w) clientId = Some c"
    and "oauthClients (db w') = update_where (\<lambda>r. oc_id r = oc_id c) (\<lambda>r. r\<lparr>oc_updatedAt := clock w\<rparr>) (oauthClients (db w))"
    and "oauthClientSecrets (db w') =
      update_where (current_primary (oc_id c)) (superseded (grace_end (clock w) days)) (oauthClientSecrets (db w)) @
      [new_secret (oc_id c) (argon2_hash L argon2_defaults (ro_clientSecret r) salt) (secretHint (ro_clientSecret r)) (clock w) i]"
proof -
  let ?s = "''ocs_'' @ rnd_text w (rnd w)" and ?salt = "rnd_text w (Suc (rnd w))"
  let ?g = "grace_end (clock (w\<lparr>rnd := Suc (rnd w)\<rparr>)) days"
  let ?w = "w\<lparr>rnd := Suc (Suc (rnd w))\<rparr>"
  let ?h = "argon2_hash L argon2_defaults ?s ?salt"
  let ?rotate = "OAuthClientRepository_rotateSecret L clientId actor ?h (secretHint ?s) ?g ?w"
  have run: "OAuthClientService_rotateSecret L actor clientId days w = bind (\<lambda>w. ?rotate) (\<lambda>found.
     case found of
       None \<Rightarrow> throw no_such_client
     | Some _ \<Rightarrow>
         bind (createSecurityEvent ''admin.oauth_client.secret_rotated'' (Some actor)
                 (JObj [(''clientId'', JStr clientId),
                        (''graceUntil'', json_of_opt (\<lambda>g. JStr (iso_string L g)) ?g)])) (\<lambda>_.
         ret \<lparr>ro_clientSecret = ?s, ro_secretHint = secretHint ?s,
              ro_graceUntil = map_option (iso_string L) ?g\<rparr>)) ?w"
    by (simp add: OAuthClientService_rotateSecret_def createClientSecret_def Let_def run_simps split: prod.split sum.split option.split)
  from bind_Inr_E [OF assms [unfolded run]] obtain found v where v: "?rotate = (Inr found, v)"
    and rest: "(case found of None \<Rightarrow> throw no_such_client
     | Some _ \<Rightarrow>
         bind (createSecurityEvent ''admin.oauth_client.secret_rotated'' (Some actor)
                 (JObj [(''clientId'', JStr clientId),
                        (''graceUntil'', json_of_opt (\<lambda>g. JStr (iso_string L g)) ?g)])) (\<lambda>_.
         ret \<lparr>ro_clientSecret = ?s, ro_secretHint = secretHint ?s,
              ro_graceUntil = map_option (iso_string L) ?g\<rparr>)) v = (Inr r, w')" .
  obtain c p x where c: "found = Some c" "createSecurityEvent ''admin.oauth_client.secret_rotated'' (Some actor) p v = (x, w')"
    and r: "ro_clientSecret r = ?s"
    using rest by (cases found) (auto simp: throw_run ret_run elim!: bind_Inr_E)
  from rotate_run [OF v [unfolded c(1)]] event_keeps_clients [OF c(2)] that [of c ?salt] r show thesis by auto
qed
lemma secret_valid_superseded:
  "secret_valid t (superseded g s) \<longleftrightarrow> os_revokedAt s = None \<and>
     (case os_expiresAt s of None \<Rightarrow> True | Some e \<Rightarrow> t < e) \<and> (\<exists>e. g = Some e \<and> t < e)"
  by (simp add: secret_valid_def superseded_def)

lemma updated_clients:
  "(\<exists>c \<in> set (update_where p (\<lambda>r. r\<lparr>oc_updatedAt := u\<rparr>) cs). P (oc_id c) (oc_clientId c) (oc_status c)) \<longleftrightarrow>
   (\<exists>c \<in> set cs. P (oc_id c) (oc_clientId c) (oc_status c))"
  by (auto simp: update_where_def simp del: if_image_distrib)

text \<open>Acceptance by a client, spelled over its key.\<close>

definition key_accepts :: "libs \<Rightarrow> secret_row list \<Rightarrow> time \<Rightarrow> uuid \<Rightarrow> string \<Rightarrow> bool" where
  "key_accepts L ss t i secret \<longleftrightarrow>
     (\<exists>s \<in> set ss. os_clientPkId s = i \<and> secret_valid t s \<and> verifyPassword L secret (os_secretHash s))"

lemma client_accepts_key: "client_accepts L d t clientId secret \<longleftrightarrow>
    (\<exists>c \<in> set (oauthClients d). oc_clientId c = clientId \<and> oc_status c = ''active'' \<and>
      key_accepts L (oauthClientSecrets d) t (oc_id c) secret)"
  by (simp add: client_accepts_def key_accepts_def)

lemma bex_updated: "(\<exists>s \<in> set (update_where p f ss @ [n]). Q s) \<longleftrightarrow> Q n \<or> (\<exists>s \<in> set ss. Q (if p s then f s else s))"
  by (auto simp: update_where_def simp del: if_image_distrib)

lemma key_accepts_rotated:
  "key_accepts L (update_where (current_primary i) (superseded g) ss @ [new_secret i h hint t0 n]) t j secret \<longleftrightarrow>
    j = i \<and> verifyPassword L secret h \<or>
    (\<exists>s \<in> set ss. os_clientPkId s = j \<and> verifyPassword L secret (os_secretHash s) \<and> os_revokedAt s = None \<and>
       (case os_expiresAt s of None \<Rightarrow> True | Some e \<Rightarrow> t < e) \<and>
       (if j = i \<and> os_isPrimary s then \<exists>e. g = Some e \<and> t < e
        else os_isPrimary s \<or> (\<exists>e. os_graceUntil s = Some e \<and> t < e)))"
proof -
  have new: "secret_valid t (new_secret i h hint t0 n)" "os_clientPkId (new_secret i h hint t0 n) = i"
    "os_secretHash (new_secret i h hint t0 n) = h" by (simp_all add: secret_valid_def new_secret_def)
  have old: "(os_clientPkId r = j \<and> secret_valid t r \<and> verifyPassword L secret (os_secretHash r)) =
      (os_clientPkId s = j \<and> verifyPassword L secret (os_secretHash s) \<and> os_revokedAt s = None \<and>
       (case os_expiresAt s of None \<Rightarrow> True | Some e \<Rightarrow> t < e) \<and>
       (if j = i \<and> os_isPrimary s then \<exists>e. g = Some e \<and> t < e
        else os_isPrimary s \<or> (\<exists>e. os_graceUntil s = Some e \<and> t < e)))"
    if "r = (if current_primary i s then superseded g s else s)" for r s
    unfolding that by (auto simp: current_primary_def superseded_def secret_valid_def)
  show ?thesis unfolding key_accepts_def bex_updated old [OF refl] using new by auto
qed


section \<open>Examples\<close>

definition sample_client :: client_row where
  "sample_client = \<lparr>oc_id = 20, oc_clientId = ''app'', oc_name = ''App'', oc_clientType = ''confidential'',
     oc_tokenEndpointAuthMethod = ''client_secret_basic'', oc_status = ''active'', oc_accessTokenTtlSeconds = None,
     oc_refreshTokenTtlSeconds = None, oc_createdAt = 0, oc_updatedAt = 0\<rparr>"

definition sample_secret :: secret_row where
  "sample_secret = \<lparr>os_id = 21, os_clientPkId = 20, os_secretHash = ''$argon2old'', os_secretHint = ''old'',
     os_isPrimary = True, os_expiresAt = None, os_graceUntil = None, os_revokedAt = None, os_createdAt = 0\<rparr>"

definition client_db :: database where
  "client_db = sample_db\<lparr>oauthClients := [sample_client], oauthClientSecrets := [sample_secret]\<rparr>"

lemma client_db_tables: "oauthClients client_db = [sample_client]" "oauthClientSecrets client_db = [sample_secret]"
  "securityEvents client_db = []" "users client_db = [sample_user]" "oauthClientAuditLogs client_db = []"
  by (simp_all add: client_db_def sample_db_def empty_database_def)

lemma sample_verify: "verifyPassword sample_libs pw (''$argon2'' @ secret) \<longleftrightarrow> secret = pw"
  by (simp add: verifyPassword_def argon2Prefix_def starts_with_def)

theorem client_auth_exact_witness:
  "\<exists>p. fst (authenticateClientBasic sample_libs APP_CONSTANTS (Some (toBasic ''app'' ''old'')) (sample_world client_db)) = Inr p \<and>
     cl_clientId p = ''app''"
proof -
  let ?w = "sample_world client_db"
  have acc: "client_accepts sample_libs (db ?w) (clock ?w) ''app'' ''old''"
    using sample_verify [of "''old''" "''old''"]
    by (simp add: client_accepts_def client_db_tables sample_client_def sample_secret_def secret_valid_def)
  have u: "uniq_clients (oauthClients (db ?w))" by (simp add: client_db_tables uniq_clients_def)
  have "''app'' \<noteq> []" and "CHR '':'' \<notin> set ''app''" by simp_all
  from client_auth_exact [OF this u, of sample_libs APP_CONSTANTS "''old''"] acc show ?thesis
    by (auto split: sum.splits)
qed


end
