(* ===== verification/OidcAdapterFacts.thy ===== *)
theory OidcAdapterFacts
  imports OidcAdapter OAuthClientsFacts
begin

text \<open>
  The adapter implements an expiring key-value store, and the client secrets oidc-provider accepts
  are those the client registry accepts.
\<close>

section \<open>Client secrets\<close>

lemma stored_hashes_read_back:
  "verifyOidcClientSecretMetadata L secret (Some (encodeOidcClientSecretHashes hashes)) =
     Some (\<exists>h \<in> set hashes. verifyPassword L secret h)"
proof -
  have "json_ok (JArr (map JStr hashes))" by (simp add: list_all_iff)
  then have "json_parse (stringify (JArr (map JStr hashes))) = Some (JArr (map JStr hashes))"
    by (rule json_parse_stringify)
  then show ?thesis
    by (simp add: verifyOidcClientSecretMetadata_def encodeOidcClientSecretHashes_def base64url_round_trip
        utf8_round_trip list_ex_iff)
qed

text \<open>What the provider needs of a client besides a secret.\<close>

definition oidc_ready :: "database \<Rightarrow> client_row \<Rightarrow> bool" where
  "oidc_ready d c \<longleftrightarrow> oc_clientType c = ''confidential'' \<and> oc_tokenEndpointAuthMethod c = ''client_secret_basic'' \<and>
     (\<exists>r \<in> set (oauthClientRedirectUris d). ou_clientPkId r = oc_id c) \<and>
     (\<exists>s \<in> set (oauthClientScopes d). ox_clientPkId s = oc_id c \<and> ox_scope s = ''openid'')"

lemma oidc_secret_iff: "oidc_secret t i s \<longleftrightarrow> os_clientPkId s = i \<and> secret_valid t s"
  by (auto simp: oidc_secret_def secret_valid_def split: option.splits)

lemma metadata_None:
  "buildOidcClientMetadata r = None \<longleftrightarrow>
     rg_redirectUris r = [] \<or> ''openid'' \<notin> set (rg_allowedScopes r) \<or> rg_secretHashes r = []"
  by (auto simp: buildOidcClientMetadata_def Let_def js_uniq_def)

lemma metadata_secret:
  "buildOidcClientMetadata r = Some m \<Longrightarrow> string_prop m ''client_secret'' = Some (encodeOidcClientSecretHashes (rg_secretHashes r))"
  by (auto simp: buildOidcClientMetadata_def string_prop_def Let_def split: if_splits)

lemma order_desc_none [simp]: "order_desc k xs = [] \<longleftrightarrow> xs = []"
  by (metis length_0_conv length_order_desc)

text \<open>
  The two endpoints agree on client secrets. When the provider finds a client, it accepts
  exactly the secrets the client registry accepts for that name at that instant; and it finds every
  client for which some secret is accepted and that is confidential, authenticates with Basic, has a
  redirect URI and the scope openid.
\<close>

theorem oidc_secrets_agree:
  assumes "uniq_clients (oauthClients d)"
  shows "(case findClient d t clientId of
       Some m \<Rightarrow> verifyOidcClientSecretMetadata L secret (string_prop m ''client_secret'') =
         Some (client_accepts L d t clientId secret)
     | None \<Rightarrow> client_accepts L d t clientId secret \<longrightarrow>
         \<not> (\<exists>c \<in> set (oauthClients d). oc_clientId c = clientId \<and> oidc_ready d c))"
proof (cases "List.find (oidc_client clientId) (oauthClients d)")
  case None
  then have n: "\<not> oidc_client clientId c" if "c \<in> set (oauthClients d)" for c using that by (simp add: find_None)
  have "\<not> client_accepts L d t clientId secret"
    if "c \<in> set (oauthClients d)" "oc_clientId c = clientId" "oidc_ready d c" for c
    using n [OF that(1)] that client_unique [OF assms] unfolding client_accepts_def oidc_client_def oidc_ready_def by metis
  with None show ?thesis by (auto simp: findClient_def)
next
  case (Some c)
  then have c: "c \<in> set (oauthClients d)" "oc_clientId c = clientId" "oc_status c = ''active''"
    by (auto dest!: find_SomeD simp: oidc_client_def)
  let ?hashes = "map os_secretHash (order_desc os_createdAt (filter (oidc_secret t (oc_id c)) (oauthClientSecrets d)))"
  have acc: "client_accepts L d t clientId secret \<longleftrightarrow> (\<exists>h \<in> set ?hashes. verifyPassword L secret h)"
    unfolding client_accepts_key using c client_unique [OF assms]
    by (auto simp: key_accepts_def oidc_secret_iff)
  show ?thesis
  proof (cases "findClient d t clientId")
    case None
    with Some have "\<not> oidc_ready d c \<or> ?hashes = []"
      by (auto simp: findClient_def oidc_ready_def filter_empty_conv metadata_None image_iff)
    then show ?thesis using None c client_unique [OF assms] unfolding acc by fastforce
  next
    case found: (Some m)
    with Some have "string_prop m ''client_secret'' = Some (encodeOidcClientSecretHashes ?hashes)"
      by (auto simp: findClient_def dest!: metadata_secret)
    with found show ?thesis unfolding acc by (simp add: stored_hashes_read_back)
  qed
qed

text \<open>
  The comparison \<open>compareClientSecret\<close> falls back to that of the library, which compares with the
  metadata text: the text of the stored hashes is itself accepted as the secret.
\<close>

lemma metadata_is_a_secret:
  assumes "\<And>a s. original a (Some s) \<longleftrightarrow> a = s"
    and "findClient d t clientId = Some m" and "string_prop m ''client_secret'' = Some text_of_hashes"
  shows "compareClientSecret L original text_of_hashes (string_prop m ''client_secret'') = Some True"
proof -
  obtain hashes where h: "text_of_hashes = encodeOidcClientSecretHashes hashes"
    using assms(2,3) by (auto simp: findClient_def dest!: metadata_secret split: option.splits)
  show ?thesis unfolding assms(3) compareClientSecret_def h stored_hashes_read_back using assms(1) by simp
qed

section \<open>The store\<close>

datatype oidc_op =
    Upsert string string json int
  | Consume string string
  | Destroy string string
  | RevokeGrant string
  | Sweep

fun run_oidc :: "oidc_op \<Rightarrow> unit io" where
  "run_oidc (Upsert m i p e) = adapter_upsert m i p e"
| "run_oidc (Consume m i) = adapter_consume m i"
| "run_oidc (Destroy m i) = adapter_destroy m i"
| "run_oidc (RevokeGrant g) = revokeByGrantId g"
| "run_oidc Sweep = bind deleteExpiredOidcProviderStates (\<lambda>_. ret ())"

text \<open>The contract: a map from model and id to payload, instant of consumption and expiry.\<close>

type_synonym oidc_store = "string \<Rightarrow> string \<Rightarrow> (json \<times> time option \<times> time) option"

fun store_op :: "time \<Rightarrow> oidc_op \<Rightarrow> oidc_store \<Rightarrow> oidc_store" where
  "store_op t (Upsert m i p e) M = (\<lambda>m' i'. if m' = m \<and> i' = i then Some (p, toConsumedAt p, t + e * 1000) else M m' i')"
| "store_op t (Consume m i) M = (\<lambda>m' i'. if m' = m \<and> i' = i then map_option (\<lambda>(p, _, x). (p, Some t, x)) (M m' i') else M m' i')"
| "store_op t (Destroy m i) M = (\<lambda>m' i'. if m' = m \<and> i' = i then None else M m' i')"
| "store_op t (RevokeGrant g) M = (\<lambda>m i. case M m i of
     Some (p, c, x) \<Rightarrow> if string_prop p ''grantId'' = Some g then None else Some (p, c, x) | None \<Rightarrow> None)"
| "store_op t Sweep M = (\<lambda>m i. case M m i of Some (p, c, x) \<Rightarrow> if x \<le> t then None else Some (p, c, x) | None \<Rightarrow> None)"

definition store_find :: "oidc_store \<Rightarrow> time \<Rightarrow> string \<Rightarrow> string \<Rightarrow> json option" where
  "store_find M t m i = (case M m i of Some (p, c, x) \<Rightarrow> if t < x then Some (withConsumed p c) else None | None \<Rightarrow> None)"

definition entry_of_row :: "oidc_row \<Rightarrow> json \<times> time option \<times> time" where
  "entry_of_row r = (oi_payload r, oi_consumedAt r, oi_expiresAt r)"

definition store_of :: "database \<Rightarrow> oidc_store" where
  "store_of d m i = map_option entry_of_row (List.find (same_key m i) (oidcProviderStates d))"

definition row_key :: "oidc_row \<Rightarrow> string \<times> string" where "row_key r = (oi_model r, oi_id r)"

text \<open>The key is unique and the grant column repeats the payload's.\<close>

definition states_ok :: "oidc_row list \<Rightarrow> bool" where
  "states_ok rs \<longleftrightarrow> distinct (map row_key rs) \<and> (\<forall>r \<in> set rs. oi_grantId r = string_prop (oi_payload r) ''grantId'')"

lemma same_key_iff: "same_key m i r \<longleftrightarrow> row_key r = (m, i)"
  by (auto simp: same_key_def row_key_def)

lemma find_by_key:
  assumes "distinct (map row_key rs)"
  shows "List.find (same_key m i) rs = Some r \<longleftrightarrow> r \<in> set rs \<and> row_key r = (m, i)"
proof
  assume "r \<in> set rs \<and> row_key r = (m, i)"
  then show "List.find (same_key m i) rs = Some r"
    using assms by (intro find_unique) (auto simp: same_key_iff dest: distinct_map_eqD)
qed (auto dest: find_SomeD simp: same_key_iff)

lemma find_update:
  assumes "\<And>r. row_key (f r) = row_key r"
  shows "List.find (same_key m' i') (update_where (same_key m i) f rs) =
    (if m' = m \<and> i' = i then map_option f else id) (List.find (same_key m' i') rs)"
  by (induction rs) (auto simp: same_key_iff assms)

lemma find_delete:
  assumes "distinct (map row_key rs)"
  shows "List.find (same_key m i) (delete_where q rs) =
    (case List.find (same_key m i) rs of None \<Rightarrow> None | Some r \<Rightarrow> if q r then None else Some r)"
proof (cases "List.find (same_key m i) rs")
  case None
  moreover from this have "List.find (same_key m i) (delete_where q rs) = None" by (simp add: find_None)
  ultimately show ?thesis by simp
next
  case (Some r)
  with find_by_key [OF assms] have r: "r \<in> set rs" "row_key r = (m, i)" by auto
  have u: "x = r" if "x \<in> set rs" "row_key x = (m, i)" for x
    using that r assms by (auto dest: distinct_map_eqD)
  show ?thesis
  proof (cases "q r")
    case True
    with u have "List.find (same_key m i) (delete_where q rs) = None" unfolding find_None same_key_iff set_delete_where by blast
    with True Some show ?thesis by simp
  next
    case False
    have "List.find (same_key m i) (delete_where q rs) = Some r"
    proof (rule find_unique)
      show "r \<in> set (delete_where q rs)" "same_key m i r" using False r by (simp_all add: same_key_iff)
      show "x = r" if "x \<in> set (delete_where q rs)" "same_key m i x" for x
        using that u by (simp add: same_key_iff)
    qed
    with False Some show ?thesis by simp
  qed
qed

lemma states_ok_update:
  assumes "states_ok rs" and "\<And>r. row_key (f r) = row_key r"
    and "\<And>r. oi_grantId r = string_prop (oi_payload r) ''grantId'' \<Longrightarrow> oi_grantId (f r) = string_prop (oi_payload (f r)) ''grantId''"
  shows "states_ok (update_where p f rs)"
proof -
  have "map row_key (update_where p f rs) = map row_key rs" by (simp add: assms(2))
  moreover have "oi_grantId x = string_prop (oi_payload x) ''grantId''" if x: "x \<in> set (update_where p f rs)" for x
  proof -
    from x obtain r where r: "r \<in> set rs" "x = (if p r then f r else r)" by (rule update_whereE)
    from r(1) assms(1) have "oi_grantId r = string_prop (oi_payload r) ''grantId''" unfolding states_ok_def by blast
    with assms(3) [OF this] show ?thesis unfolding r(2) by (cases "p r") simp_all
  qed
  ultimately show ?thesis using assms(1) unfolding states_ok_def by simp
qed

lemma states_ok_delete: "states_ok rs \<Longrightarrow> states_ok (delete_where q rs)"
  unfolding states_ok_def delete_where_def by (simp add: distinct_map_filter)


lemma store_of_rows: "oidcProviderStates d = rs \<Longrightarrow> store_of d = (\<lambda>m i. map_option entry_of_row (List.find (same_key m i) rs))"
  by (simp add: store_of_def fun_eq_iff)

lemma upsert_rows:
  assumes "states_ok rs"
    and new_def: "new = state_row m i p e t"
    and rs'_def: "rs' = (if filter (same_key m i) rs = [] then rs @ [new]
       else update_where (same_key m i) (\<lambda>r. new\<lparr>oi_createdAt := oi_createdAt r\<rparr>) rs)"
  shows "states_ok rs'"
    and "map_option entry_of_row (List.find (same_key m' i') rs') =
      (if m' = m \<and> i' = i then Some (p, toConsumedAt p, t + e * 1000)
       else map_option entry_of_row (List.find (same_key m' i') rs))"
proof -
  have new: "row_key new = (m, i)" "oi_grantId new = string_prop (oi_payload new) ''grantId''"
    "entry_of_row (new\<lparr>oi_createdAt := c\<rparr>) = (p, toConsumedAt p, t + e * 1000)"
    "entry_of_row new = (p, toConsumedAt p, t + e * 1000)" for c
    by (simp_all add: new_def state_row_def row_key_def entry_of_row_def toExpiresAt_def)
  show "states_ok rs'"
  proof (cases "filter (same_key m i) rs = []")
    case True
    then have "(m, i) \<notin> row_key ` set rs" by (auto simp: filter_empty_conv same_key_iff)
    with True assms(1) new show ?thesis by (auto simp: rs'_def states_ok_def)
  next
    case False
    have "distinct (map row_key rs')"
    proof -
      have "map row_key rs' = map row_key rs"
        using False new(1) by (auto simp: rs'_def update_where_def same_key_iff row_key_def)
      then show ?thesis using assms(1) by (simp add: states_ok_def)
    qed
    moreover have "oi_grantId x = string_prop (oi_payload x) ''grantId''" if x: "x \<in> set rs'" for x
    proof -
      from x False obtain r where "r \<in> set rs" "x = (if same_key m i r then new\<lparr>oi_createdAt := oi_createdAt r\<rparr> else r)"
        unfolding rs'_def by (auto elim: update_whereE)
      with assms(1) new(2) show ?thesis unfolding states_ok_def by (cases "same_key m i r") auto
    qed
    ultimately show ?thesis unfolding states_ok_def by blast
  qed
  have k: "same_key a b new \<longleftrightarrow> a = m \<and> b = i" for a b using new(1) by (auto simp: same_key_iff)
  show "map_option entry_of_row (List.find (same_key m' i') rs') =
      (if m' = m \<and> i' = i then Some (p, toConsumedAt p, t + e * 1000)
       else map_option entry_of_row (List.find (same_key m' i') rs))"
  proof (cases "filter (same_key m i) rs = []")
    case True
    then have "List.find (same_key m i) rs = None" by (simp add: find_None filter_empty_conv)
    with True k new(4) show ?thesis by (auto simp: rs'_def find_append split: option.split)
  next
    case False
    then obtain r where r: "List.find (same_key m i) rs = Some r"
      by (cases "List.find (same_key m i) rs") (auto simp: find_None filter_empty_conv)
    have f: "List.find (same_key m' i') rs' = (if m' = m \<and> i' = i then map_option (\<lambda>r. new\<lparr>oi_createdAt := oi_createdAt r\<rparr>) else id)
        (List.find (same_key m' i') rs)"
    proof -
      have "List.find (same_key m' i') (update_where (same_key m i) g rs) =
          (if m' = m \<and> i' = i then map_option g else id) (List.find (same_key m' i') rs)"
        if "\<And>r. row_key (g r) = (m, i)" for g
        by (induction rs) (auto simp: same_key_iff that)
      with False new(1) show ?thesis by (simp add: rs'_def row_key_def)
    qed
    show ?thesis unfolding f using r new(3) by auto
  qed
qed
lemma states_ok_keys: "states_ok rs \<Longrightarrow> distinct (map row_key rs)"
  by (simp add: states_ok_def)

text \<open>A lookup by key and expiry.\<close>

lemma find_live:
  assumes "distinct (map row_key rs)"
  shows "List.find (\<lambda>r. same_key m i r \<and> live_state t r) rs =
    (case List.find (same_key m i) rs of None \<Rightarrow> None | Some r \<Rightarrow> if live_state t r then Some r else None)"
  using assms
proof (induction rs)
  case (Cons r rs)
  have "List.find (\<lambda>x. same_key m i x \<and> live_state t x) rs = None" if "same_key m i r"
    using that Cons.prems by (force simp: find_None same_key_iff)
  with Cons show ?case by auto
qed simp

lemma adapter_find_store:
  assumes "states_ok (oidcProviderStates d)" and "m \<noteq> ''Client''"
  shows "adapter_find m d t i = store_find (store_of d) t m i"
  using assms
  by (simp add: adapter_find_def store_find_def store_of_def entry_of_row_def live_state_def states_ok_def
      find_live [unfolded live_state_def] split: option.split)

lemma adapter_effect:
  assumes "states_ok (oidcProviderStates (db w))"
  shows "\<exists>w'. run_oidc op w = (Inr (), w') \<and> states_ok (oidcProviderStates (db w')) \<and>
    store_of (db w') = store_op (clock w) op (store_of (db w))"
proof (cases op)
  case (Upsert m i p e)
  note u = upsert_rows [where m = m and i = i and p = p and e = e and t = "clock w", OF assms refl refl]
  from u(1) show ?thesis
    by (simp add: Upsert adapter_upsert_def run_simps store_of_rows [OF refl] u(2) fun_eq_iff)
next
  case (Consume m i)
  have "states_ok (update_where (same_key m i) (\<lambda>r. r\<lparr>oi_consumedAt := Some (clock w), oi_updatedAt := clock w\<rparr>) (oidcProviderStates (db w)))"
    by (rule states_ok_update [OF assms]) (simp_all add: row_key_def)
  moreover have "List.find (same_key m' i') (update_where (same_key m i) (\<lambda>r. r\<lparr>oi_consumedAt := Some (clock w), oi_updatedAt := clock w\<rparr>) (oidcProviderStates (db w))) =
      (if m' = m \<and> i' = i then map_option (\<lambda>r. r\<lparr>oi_consumedAt := Some (clock w), oi_updatedAt := clock w\<rparr>) else id)
        (List.find (same_key m' i') (oidcProviderStates (db w)))" for m' i'
    by (rule find_update) (simp add: row_key_def)
  ultimately show ?thesis
    by (auto simp: Consume adapter_consume_def run_simps store_of_rows [OF refl] fun_eq_iff entry_of_row_def
        option.map_comp o_def)
next
  case (Destroy m i)
  with states_ok_delete [OF assms] show ?thesis
    by (auto simp: adapter_destroy_def run_simps store_of_rows [OF refl] fun_eq_iff find_delete [OF states_ok_keys [OF assms]]
        split: option.split dest: find_SomeD simp: same_key_def)
next
  case (RevokeGrant g)
  have "oi_grantId r = string_prop (oi_payload r) ''grantId''" if "List.find (same_key m i) (oidcProviderStates (db w)) = Some r" for m i r
    using that assms unfolding states_ok_def by (blast dest: find_SomeD)
  with RevokeGrant states_ok_delete [OF assms] show ?thesis
    by (auto simp: revokeByGrantId_def run_simps store_of_rows [OF refl] fun_eq_iff find_delete [OF states_ok_keys [OF assms]] entry_of_row_def
        split: option.split)
next
  case Sweep
  with states_ok_delete [OF assms] show ?thesis
    by (auto simp: deleteExpiredOidcProviderStates_def run_simps store_of_rows [OF refl] fun_eq_iff find_delete [OF states_ok_keys [OF assms]]
        entry_of_row_def split: option.split)
qed

text \<open>
  C19: The adapter is an expiring key-value store. Every operation returns, keeps the table well
  formed and changes the abstract store as its contract says (an upsert replaces the entry of its
  key only, consumption is recorded, a revoked grant takes all its entries with it), and a lookup
  finds an entry exactly until it expires, marked as consumed once it was.
\<close>

theorem adapter_refines_store:
  assumes "states_ok (oidcProviderStates (db w))"
  shows "\<exists>w'. run_oidc op w = (Inr (), w') \<and> states_ok (oidcProviderStates (db w')) \<and>
    store_of (db w') = store_op (clock w) op (store_of (db w)) \<and>
    (\<forall>m i t. m \<noteq> ''Client'' \<longrightarrow> adapter_find m (db w') t i = store_find (store_of (db w')) t m i)"
  using adapter_effect [OF assms, of op] adapter_find_store by metis
section \<open>Examples\<close>

definition oidc_db :: database where
  "oidc_db = client_db\<lparr>
     oauthClientRedirectUris := [\<lparr>ou_id = 22, ou_clientPkId = 20, ou_redirectUri = ''https://app'', ou_createdAt = 0\<rparr>],
     oauthClientScopes := [\<lparr>ox_id = 23, ox_clientPkId = 20, ox_scope = ''openid'', ox_createdAt = 0\<rparr>]\<rparr>"

theorem oidc_secrets_agree_witness:
  "\<exists>m. findClient oidc_db 1000 ''app'' = Some m \<and>
     verifyOidcClientSecretMetadata sample_libs ''old'' (string_prop m ''client_secret'') = Some True"
proof -
  have u: "uniq_clients (oauthClients oidc_db)" by (simp add: oidc_db_def client_db_tables uniq_clients_def)
  have acc: "client_accepts sample_libs oidc_db 1000 ''app'' ''old''"
    using sample_verify [of "''old''" "''old''"]
    by (simp add: client_accepts_def oidc_db_def client_db_tables sample_client_def sample_secret_def secret_valid_def)
  have "sample_client \<in> set (oauthClients oidc_db)" "oc_clientId sample_client = ''app''" "oidc_ready oidc_db sample_client"
    by (simp_all add: oidc_db_def client_db_tables sample_client_def oidc_ready_def)
  with oidc_secrets_agree [where t = 1000 and clientId = "''app''" and L = sample_libs and secret = "''old''", OF u] acc show ?thesis
    by (auto split: option.splits)
qed

text \<open>An authorisation code is stored, used at once and looked up: it is reported as consumed.\<close>

theorem adapter_refines_store_witness:
  "\<exists>w1 w2. run_oidc (Upsert ''AuthorizationCode'' ''c1'' (JObj [(''grantId'', JStr ''g'')]) 60) (sample_world sample_db) = (Inr (), w1) \<and>
     run_oidc (Consume ''AuthorizationCode'' ''c1'') w1 = (Inr (), w2) \<and>
     adapter_find ''AuthorizationCode'' (db w2) 2000 ''c1'' = Some (JObj [(''grantId'', JStr ''g''), (''consumed'', JNum 1)])"
proof -
  let ?p = "JObj [(''grantId'', JStr ''g'')]"
  have "states_ok (oidcProviderStates (db (sample_world sample_db)))"
    by (simp add: states_ok_def sample_db_def empty_database_def)
  from adapter_refines_store [OF this, of "Upsert ''AuthorizationCode'' ''c1'' ?p 60"]
  obtain w1 where w1: "run_oidc (Upsert ''AuthorizationCode'' ''c1'' ?p 60) (sample_world sample_db) = (Inr (), w1)"
    "states_ok (oidcProviderStates (db w1))"
    "store_of (db w1) ''AuthorizationCode'' ''c1'' = Some (?p, None, 61000)"
    by (auto simp: toConsumedAt_def)
  have c: "clock w1 = 1000" using w1(1) by (auto simp: adapter_upsert_def run_simps)
  from adapter_refines_store [OF w1(2), of "Consume ''AuthorizationCode'' ''c1''"]
  obtain w2 where w2: "run_oidc (Consume ''AuthorizationCode'' ''c1'') w1 = (Inr (), w2)"
    "store_of (db w2) ''AuthorizationCode'' ''c1'' = Some (?p, Some 1000, 61000)"
    "adapter_find ''AuthorizationCode'' (db w2) 2000 ''c1'' = store_find (store_of (db w2)) 2000 ''AuthorizationCode'' ''c1''"
    using w1(3) c by auto
  show ?thesis using w1(1) w2 by (auto simp: store_find_def consumedEpochSeconds_def)
qed

end
