(* ===== verification/WebAuthn.thy ===== *)
theory WebAuthn
  imports RateLimiter AuthCoreAccounts Bytes Samples
begin

text \<open>
  packages/auth-core/src/webauthn-service.ts: passkeys as second factors. A challenge is kept in
  Redis for five minutes per user and purpose; the cryptographic checks are those of the package
  simplewebauthn, given as functions of what they are called with.
\<close>

section \<open>The package\<close>

text \<open>
  A registered credential as the package reports it (its \<open>id\<close> is base64url text), the options it
  generates (the challenge among them), and its two checks: nothing when it throws, and otherwise
  the result when it verified.
\<close>

record passkey =
  pk_id :: string
  pk_publicKey :: bytes
  pk_counter :: nat
  pk_transports :: "string list option"

record webauthn_lib =
  registration_request :: "string \<Rightarrow> string \<Rightarrow> bytes \<Rightarrow> string \<Rightarrow> string \<Rightarrow> json"
  authentication_request :: "string \<Rightarrow> string \<Rightarrow> json"
  check_registration :: "json \<Rightarrow> string \<Rightarrow> string \<Rightarrow> string \<Rightarrow> passkey option option"
  check_authentication :: "json \<Rightarrow> string \<Rightarrow> string \<Rightarrow> string \<Rightarrow> passkey \<Rightarrow> nat option option"

section \<open>WebAuthnService\<close>

record webauthn_service =
  wa_rpName :: string
  wa_rpID :: string
  wa_origin :: string
  wa_hook :: bool

definition getChallengeKey :: "uuid \<Rightarrow> string \<Rightarrow> string" where
  "getChallengeKey userId purpose = ''webauthn:challenge:'' @ purpose @ '':'' @ uuid_text userId"

definition store_challenge :: "string \<Rightarrow> string \<Rightarrow> unit io" where
  "store_challenge key challenge =
     bind now (\<lambda>t. redis_put key (Some (challenge, Some (t + 300 * 1000))))"

text \<open>The stored challenge, when it is there and not empty.\<close>

definition read_challenge :: "string \<Rightarrow> string option io" where
  "read_challenge key = gets (\<lambda>w. case redis_live w key of
     None \<Rightarrow> None | Some (challenge, _) \<Rightarrow> if challenge = [] then None else Some challenge)"

definition generateRegistrationOptions :: "webauthn_lib \<Rightarrow> webauthn_service \<Rightarrow> uuid \<Rightarrow> string \<Rightarrow> json io" where
  "generateRegistrationOptions P S userId userEmail =
     bind draw_text (\<lambda>challenge.
     bind (store_challenge (getChallengeKey userId ''registration'') challenge) (\<lambda>_.
     ret (registration_request P (wa_rpName S) (wa_rpID S) (utf8_bytes (uuid_text userId)) userEmail challenge)))"

definition package_error :: err where "package_error = PlainError ''webauthn''"

definition stored_credential :: "passkey \<Rightarrow> webauthn_data" where
  "stored_credential credential =
     \<lparr>wd_credentialID = base64url_encode (utf8_bytes (pk_id credential)),
      wd_publicKey = base64url_encode (pk_publicKey credential),
      wd_counter = pk_counter credential, wd_transports = pk_transports credential\<rparr>"

definition passkey_name :: "string option \<Rightarrow> string" where
  "passkey_name name = (case name of None \<Rightarrow> ''Passkey'' | Some n \<Rightarrow> n)"

definition verifyRegistrationResponse ::
    "webauthn_lib \<Rightarrow> webauthn_service \<Rightarrow> uuid \<Rightarrow> json \<Rightarrow> string option \<Rightarrow> unit io" where
  "verifyRegistrationResponse P S userId body name =
     bind (read_challenge (getChallengeKey userId ''registration'')) (\<lambda>expectedChallenge.
     case expectedChallenge of
       None \<Rightarrow> throw (ApiError 400 ''webauthn_challenge_expired'' ''Registration challenge expired or not found'')
     | Some challenge \<Rightarrow>
         (case check_registration P body challenge (wa_origin S) (wa_rpID S) of
            None \<Rightarrow> throw package_error
          | Some None \<Rightarrow> throw (ApiError 400 ''webauthn_verification_failed'' ''WebAuthn registration verification failed'')
          | Some (Some credential) \<Rightarrow>
              bind (transaction (
                bind draw_uuid (\<lambda>i. bind now (\<lambda>t.
                insert_factor \<lparr>mf_id = i, mf_userId = userId, mf_type = ''webauthn'', mf_name = Some (passkey_name name),
                  mf_secret = None, mf_webauthnData = Some (stored_credential credential), mf_enabled = True,
                  mf_createdAt = t\<rparr>)))) (\<lambda>_.
              bind (redis_put (getChallengeKey userId ''registration'') None) (\<lambda>_.
              hook_event (wa_hook S) ''mfa.webauthn.registered'' (Some userId)
                (JObj [(''credentialID'', JStr (wd_credentialID (stored_credential credential))),
                       (''name'', JStr (passkey_name name))])))))"

definition generateAuthenticationOptions :: "webauthn_lib \<Rightarrow> webauthn_service \<Rightarrow> uuid \<Rightarrow> json io" where
  "generateAuthenticationOptions P S userId =
     bind draw_text (\<lambda>challenge.
     bind (store_challenge (getChallengeKey userId ''authentication'') challenge) (\<lambda>_.
     ret (authentication_request P (wa_rpID S) challenge)))"

definition webauthn_factors :: "database \<Rightarrow> uuid \<Rightarrow> factor_row list" where
  "webauthn_factors d userId =
     filter (\<lambda>f. mf_userId f = userId \<and> mf_type f = ''webauthn'' \<and> mf_enabled f) (mfaFactors d)"

text \<open>\<open>factors.find(...)\<close>: reading a property of \<open>null\<close> throws (\<open>None\<close>).\<close>

fun find_credential :: "json option \<Rightarrow> factor_row list \<Rightarrow> (factor_row \<times> webauthn_data) option option" where
  "find_credential i [] = Some None"
| "find_credential i (f # fs) = (case mf_webauthnData f of
     None \<Rightarrow> None
   | Some data \<Rightarrow> if Some (JStr (wd_credentialID data)) = i then Some (Some (f, data)) else find_credential i fs)"

definition passkey_of :: "webauthn_data \<Rightarrow> passkey" where
  "passkey_of data = \<lparr>pk_id = wd_credentialID data, pk_publicKey = base64_decode (wd_publicKey data),
     pk_counter = wd_counter data, pk_transports = wd_transports data\<rparr>"

definition no_such_credential :: err where
  "no_such_credential = ApiError 404 ''webauthn_credential_not_found'' ''Credential not found for this user''"

definition challenge_expired :: err where
  "challenge_expired = ApiError 400 ''webauthn_challenge_expired'' ''Authentication challenge expired or not found''"

definition verifyAuthenticationResponse ::
    "webauthn_lib \<Rightarrow> webauthn_service \<Rightarrow> uuid \<Rightarrow> json \<Rightarrow> unit io" where
  "verifyAuthenticationResponse P S userId body =
     bind (read_challenge (getChallengeKey userId ''authentication'')) (\<lambda>expectedChallenge.
     case expectedChallenge of
       None \<Rightarrow> throw challenge_expired
     | Some challenge \<Rightarrow>
         bind (read_db (\<lambda>d. find_credential (json_prop body ''id'') (webauthn_factors d userId))) (\<lambda>found.
         case found of
           None \<Rightarrow> throw (PlainError ''TypeError'')
         | Some None \<Rightarrow> throw no_such_credential
         | Some (Some (factor, data)) \<Rightarrow>
             (case check_authentication P body challenge (wa_origin S) (wa_rpID S) (passkey_of data) of
                None \<Rightarrow> throw package_error
              | Some None \<Rightarrow> throw (ApiError 400 ''webauthn_verification_failed'' ''WebAuthn authentication verification failed'')
              | Some (Some newCounter) \<Rightarrow>
                  bind (transaction (update_rows mfaFactors_update (\<lambda>f. mf_id f = mf_id factor)
                    (\<lambda>f. f\<lparr>mf_webauthnData := Some (data\<lparr>wd_counter := newCounter\<rparr>)\<rparr>))) (\<lambda>_.
                  bind (redis_put (getChallengeKey userId ''authentication'') None) (\<lambda>_.
                  hook_event (wa_hook S) ''mfa.webauthn.authenticated'' (Some userId)
                    (JObj [(''credentialID'', JStr (wd_credentialID data)), (''factorId'', juuid (mf_id factor))]))))))"

section \<open>Challenges are used once\<close>

lemma live_after_delete: "redis_live (w\<lparr>redis := (redis w)(key := None)\<rparr>) key = None"
  by (simp add: redis_live_def)

lemma hook_run: "\<exists>es. hook_event b k u p w = (Inr (), w\<lparr>emitted := es\<rparr>)"
  by (auto simp: hook_event_def whenever_run emit_run intro: exI [of _ "emitted w"])

lemma subst_snd: "m = (Inr (), a) \<Longrightarrow> m = (Inr (), b) \<Longrightarrow> a = b"
  by simp

lemma find_credential_SomeD:
  "find_credential i fs = Some (Some (f, data)) \<Longrightarrow> f \<in> set fs \<and> mf_webauthnData f = Some data \<and> i = Some (JStr (wd_credentialID data))"
  by (induction fs) (auto split: option.splits if_splits)

lemma authentication_run:
  assumes "verifyAuthenticationResponse P S userId body w = (Inr (), w')"
  obtains challenge factor data newCounter es where
    "read_challenge (getChallengeKey userId ''authentication'') w = (Inr (Some challenge), w)"
    "find_credential (json_prop body ''id'') (webauthn_factors (db w) userId) = Some (Some (factor, data))"
    "check_authentication P body challenge (wa_origin S) (wa_rpID S) (passkey_of data) = Some (Some newCounter)"
    "w' = w\<lparr>db := mfaFactors_update (update_where (\<lambda>f. mf_id f = mf_id factor)
        (\<lambda>f. f\<lparr>mf_webauthnData := Some (data\<lparr>wd_counter := newCounter\<rparr>)\<rparr>)) (db w),
      redis := (redis w)(getChallengeKey userId ''authentication'' := None), emitted := es\<rparr>"
proof -
  let ?read = "read_challenge (getChallengeKey userId ''authentication'') w"
  have keep: "snd ?read = w" by (simp add: read_challenge_def gets_run)
  obtain c where c: "?read = (Inr (Some c), w)"
    using assms keep by (cases ?read) (auto simp: verifyAuthenticationResponse_def bind_run throw_run split: option.splits sum.splits)
  let ?found = "find_credential (json_prop body ''id'') (webauthn_factors (db w) userId)"
  obtain f data where f: "?found = Some (Some (f, data))"
    using assms c by (auto simp: verifyAuthenticationResponse_def bind_run read_db_run throw_run split: option.splits)
  obtain n where n: "check_authentication P body c (wa_origin S) (wa_rpID S) (passkey_of data) = Some (Some n)"
    using assms c f by (auto simp: verifyAuthenticationResponse_def bind_run read_db_run throw_run split: option.splits)
  let ?v = "w\<lparr>db := mfaFactors_update (update_where (\<lambda>g. mf_id g = mf_id f)
        (\<lambda>g. g\<lparr>mf_webauthnData := Some (data\<lparr>wd_counter := n\<rparr>)\<rparr>)) (db w),
      redis := (redis w)(getChallengeKey userId ''authentication'' := None)\<rparr>"
  have "hook_event (wa_hook S) ''mfa.webauthn.authenticated'' (Some userId)
      (JObj [(''credentialID'', JStr (wd_credentialID data)), (''factorId'', juuid (mf_id f))]) ?v = (Inr (), w')"
    using assms c f n by (simp add: verifyAuthenticationResponse_def run_simps redis_put_def)
  moreover obtain es where "hook_event (wa_hook S) ''mfa.webauthn.authenticated'' (Some userId)
      (JObj [(''credentialID'', JStr (wd_credentialID data)), (''factorId'', juuid (mf_id f))]) ?v = (Inr (), ?v\<lparr>emitted := es\<rparr>)"
    using hook_run by blast
  ultimately have "w' = ?v\<lparr>emitted := es\<rparr>" by (rule subst_snd)
  with that [OF c f n] show thesis by simp
qed

text \<open>
  Passkey authentication is sound and its challenge is used up: when it succeeds, the package
  verified the response against the stored challenge, the configured origin and the stored
  credential of an enabled passkey of that very user; only the counter of that factor changes; and
  until a new challenge is drawn every response of the user, the same one included, is refused.
\<close>

theorem passkey_challenge_single_use:
  assumes "verifyAuthenticationResponse P S userId body w = (Inr (), w')"
    and "uniq_factors (mfaFactors (db w))"
  shows "(\<exists>challenge e factor data newCounter.
       redis_live w (getChallengeKey userId ''authentication'') = Some (challenge, e) \<and>
       factor \<in> set (mfaFactors (db w)) \<and> mf_userId factor = userId \<and> mf_enabled factor \<and> mf_webauthnData factor = Some data \<and>
       check_authentication P body challenge (wa_origin S) (wa_rpID S) (passkey_of data) = Some (Some newCounter) \<and>
       mfaFactors (db w') = update_where (\<lambda>f. f = factor)
         (\<lambda>f. f\<lparr>mf_webauthnData := Some (data\<lparr>wd_counter := newCounter\<rparr>)\<rparr>) (mfaFactors (db w))) \<and>
    (\<forall>later other. clock w' \<le> later \<longrightarrow>
       fst (verifyAuthenticationResponse P S userId other (w'\<lparr>clock := later\<rparr>)) = Inl challenge_expired)"
proof -
  obtain c f data n es where c: "read_challenge (getChallengeKey userId ''authentication'') w = (Inr (Some c), w)"
    and f: "find_credential (json_prop body ''id'') (webauthn_factors (db w) userId) = Some (Some (f, data))"
    and n: "check_authentication P body c (wa_origin S) (wa_rpID S) (passkey_of data) = Some (Some n)"
    and w': "w' = w\<lparr>db := mfaFactors_update (update_where (\<lambda>g. mf_id g = mf_id f)
        (\<lambda>g. g\<lparr>mf_webauthnData := Some (data\<lparr>wd_counter := n\<rparr>)\<rparr>)) (db w),
      redis := (redis w)(getChallengeKey userId ''authentication'' := None), emitted := es\<rparr>"
    by (rule authentication_run [OF assms(1)])
  from find_credential_SomeD [OF f] have fac: "f \<in> set (mfaFactors (db w))" "mf_userId f = userId" "mf_enabled f"
    "mf_webauthnData f = Some data" by (auto simp: webauthn_factors_def)
  have "mf_id g = mf_id f \<longleftrightarrow> g = f" if "g \<in> set (mfaFactors (db w))" for g
    using that fac(1) assms(2) by (auto simp: uniq_factors_def dest: distinct_map_eqD)
  then have upd: "mfaFactors (db w') = update_where (\<lambda>g. g = f)
      (\<lambda>g. g\<lparr>mf_webauthnData := Some (data\<lparr>wd_counter := n\<rparr>)\<rparr>) (mfaFactors (db w))"
    by (simp add: w' update_where_def)
  obtain e where "redis_live w (getChallengeKey userId ''authentication'') = Some (c, e)"
    using c by (auto simp: read_challenge_def gets_run split: option.splits if_splits)
  moreover have "fst (verifyAuthenticationResponse P S userId other (w'\<lparr>clock := later\<rparr>)) = Inl challenge_expired" for later other
    by (simp add: verifyAuthenticationResponse_def bind_run read_challenge_def gets_run redis_live_def w' throw_run)
  ultimately show ?thesis using fac n upd by blast
qed

section \<open>Credentials are stored under another name\<close>

lemma base64_length: "bs \<noteq> [] \<Longrightarrow> length bs < length (filter (\<lambda>c. c \<noteq> CHR ''='') (base64_encode bs))"
proof (induction bs rule: base64_encode.induct)
  case (2 a)
  then show ?case using byte_group(1) [of "of_char a" 0 0] by (simp add: base64_group_def base64_digit_padding)
next
  case (3 a b)
  then show ?case using byte_group(1) [of "of_char a" "of_char b" 0] by (simp add: base64_group_def base64_digit_padding)
next
  case (4 a b c bs)
  then show ?case using byte_group(1) [of "of_char a" "of_char b" "of_char c"]
    by (cases bs) (simp_all add: base64_group_def base64_digit_padding)
qed simp

lemma utf8_length: "length s \<le> length (utf8_bytes s)"
  by (induction s) (auto simp: utf8_bytes_def utf8_char_def Let_def)

lemma encoded_id_differs: "i \<noteq> [] \<Longrightarrow> base64url_encode (utf8_bytes i) \<noteq> i"
proof
  assume i: "i \<noteq> []" and eq: "base64url_encode (utf8_bytes i) = i"
  from i have "utf8_bytes i \<noteq> []" using utf8_length [of i] by auto
  from base64_length [OF this] have "length (utf8_bytes i) < length (base64url_encode (utf8_bytes i))"
    by (simp add: base64url_encode_def)
  with utf8_length [of i] show False unfolding eq by simp
qed

text \<open>
  A passkey that was registered cannot be used. The service encodes the identifier of a
  credential once more before it stores it, and compares the stored text with the identifier of
  the response: for a user whose first passkey is registered, a response with the identifier of
  that passkey finds no credential and nothing changes.
\<close>

theorem registered_passkey_not_found:
  assumes "verifyRegistrationResponse P S userId body name w = (Inr (), w')"
    and "webauthn_factors (db w) userId = []"
    and "\<And>challenge c. check_registration P body challenge (wa_origin S) (wa_rpID S) = Some (Some c) \<Longrightarrow> pk_id c = credentialId"
    and "credentialId \<noteq> []"
    and "json_prop response ''id'' = Some (JStr credentialId)"
    and "redis_live v (getChallengeKey userId ''authentication'') = Some (challenge, e)" and "challenge \<noteq> []"
    and "mfaFactors (db v) = mfaFactors (db w')"
  shows "verifyAuthenticationResponse P S userId response v = (Inl no_such_credential, v)"
proof -
  have "\<exists>f c. mfaFactors (db w') = mfaFactors (db w) @ [f] \<and> mf_webauthnData f = Some (stored_credential c) \<and> pk_id c = credentialId"
    using assms(1,3)
    by (auto simp: verifyRegistrationResponse_def run_simps insert_factor_def read_challenge_def redis_put_def hook_event_def
        split: option.splits if_splits) blast+
  then obtain f c where f: "mfaFactors (db w') = mfaFactors (db w) @ [f]" "mf_webauthnData f = Some (stored_credential c)"
    and c: "pk_id c = credentialId" by blast
  from f(1) assms(2,8) have "webauthn_factors (db v) userId = [] \<or> webauthn_factors (db v) userId = [f]"
    by (auto simp: webauthn_factors_def)
  moreover have "wd_credentialID (stored_credential c) \<noteq> credentialId"
    using encoded_id_differs [OF assms(4)] c by (simp add: stored_credential_def)
  ultimately have "find_credential (json_prop response ''id'') (webauthn_factors (db v) userId) = Some None"
    using f(2) assms(5) by auto
  with assms(6,7) show ?thesis
    by (simp add: verifyAuthenticationResponse_def run_simps read_challenge_def)
qed

section \<open>Examples\<close>

definition sample_webauthn :: webauthn_lib where
  "sample_webauthn = \<lparr>registration_request = (\<lambda>_ _ _ _ challenge. JStr challenge), authentication_request = (\<lambda>_ challenge. JStr challenge),
     check_registration = (\<lambda>_ _ _ _. Some (Some \<lparr>pk_id = ''cred'', pk_publicKey = ''k'', pk_counter = 0, pk_transports = None\<rparr>)),
     check_authentication = (\<lambda>_ _ _ _ k. Some (Some (pk_counter k + 1)))\<rparr>"

definition sample_wa :: webauthn_service where
  "sample_wa = \<lparr>wa_rpName = ''idp'', wa_rpID = ''localhost'', wa_origin = ''http://localhost'', wa_hook = True\<rparr>"

definition sample_passkey :: factor_row where
  "sample_passkey = \<lparr>mf_id = 30, mf_userId = 1, mf_type = ''webauthn'', mf_name = None, mf_secret = None,
     mf_webauthnData = Some \<lparr>wd_credentialID = ''cred'', wd_publicKey = ''k'', wd_counter = 0, wd_transports = None\<rparr>,
     mf_enabled = True, mf_createdAt = 0\<rparr>"

text \<open>The user has asked for a challenge of both kinds.\<close>

definition passkey_world :: "factor_row list \<Rightarrow> world" where
  "passkey_world fs = (sample_world (sample_db\<lparr>mfaFactors := fs\<rparr>))\<lparr>redis := (\<lambda>_. Some (''ch'', Some 301000))\<rparr>"

lemma passkey_world_simps [simp]: "redis_live (passkey_world fs) key = Some (''ch'', Some 301000)"
  "mfaFactors (db (passkey_world fs)) = fs" "users (db (passkey_world fs)) = [sample_user]" "clock (passkey_world fs) = 1000"
  by (simp_all add: passkey_world_def redis_live_def sample_db_def)

theorem passkey_challenge_single_use_witness:
  "\<exists>w'. verifyAuthenticationResponse sample_webauthn sample_wa 1 (JObj [(''id'', JStr ''cred'')]) (passkey_world [sample_passkey]) = (Inr (), w') \<and>
     fst (verifyAuthenticationResponse sample_webauthn sample_wa 1 (JObj [(''id'', JStr ''cred'')]) (w'\<lparr>clock := 2000\<rparr>)) = Inl challenge_expired"
proof -
  let ?w = "passkey_world [sample_passkey]" and ?b = "JObj [(''id'', JStr ''cred'')]"
  obtain w' where run: "verifyAuthenticationResponse sample_webauthn sample_wa 1 ?b ?w = (Inr (), w')" and c: "clock w' = 1000"
    by (auto simp: verifyAuthenticationResponse_def run_simps read_challenge_def webauthn_factors_def sample_passkey_def
        sample_webauthn_def sample_wa_def redis_put_def hook_event_def)
  from passkey_challenge_single_use [OF run] c show ?thesis using run by (auto simp: uniq_factors_def)
qed

theorem registered_passkey_not_found_witness:
  "\<exists>w'. verifyRegistrationResponse sample_webauthn sample_wa 1 (JObj []) None (passkey_world []) = (Inr (), w') \<and>
     verifyAuthenticationResponse sample_webauthn sample_wa 1 (JObj [(''id'', JStr ''cred'')]) (passkey_world (mfaFactors (db w'))) =
       (Inl no_such_credential, passkey_world (mfaFactors (db w')))"
proof -
  obtain w' where run: "verifyRegistrationResponse sample_webauthn sample_wa 1 (JObj []) None (passkey_world []) = (Inr (), w')"
    by (auto simp: verifyRegistrationResponse_def run_simps read_challenge_def sample_webauthn_def sample_wa_def
        redis_put_def hook_event_def insert_factor_def uniq_factors_def user_exists_def sample_user_def)
  have "verifyAuthenticationResponse sample_webauthn sample_wa 1 (JObj [(''id'', JStr ''cred'')]) (passkey_world (mfaFactors (db w'))) =
       (Inl no_such_credential, passkey_world (mfaFactors (db w')))"
    by (rule registered_passkey_not_found [OF run, where credentialId = "''cred''" and challenge = "''ch''" and e = "Some 301000"])
      (auto simp: webauthn_factors_def sample_webauthn_def)
  with run show ?thesis by blast
qed

end
