(* ===== verification/ServerSdk.thy ===== *)
theory ServerSdk
  imports SdkEncoding
begin

text \<open>
  packages/server-sdk/src/index.ts: the client library of relying parties. The identity provider
  is seen through \<open>fetch\<close> only, so its answers are a parameter, as are the RSA check and SHA-256 of
  node:crypto; the state of a client are its two caches.
\<close>

section \<open>The outside\<close>

record http_request =
  rq_url :: string
  rq_method :: string
  rq_headers :: "(string \<times> string) list"
  rq_body :: "string option"

text \<open>
  What a request comes to: \<open>fetch\<close> rejects, the timeout aborts it, or a response with its status and
  its parsed body (nothing when the body is not JSON).
\<close>

datatype http_outcome = Rejected string | TimedOut | Responded nat "json option"

text \<open>
  \<open>answer\<close> may depend on all earlier requests of the client. \<open>rsa_verify data jwk signature\<close> is
  nothing when the key is not accepted. \<open>with_params url ps\<close> is the text of a \<open>URL\<close> after setting the
  search parameters \<open>ps\<close> in turn, nothing when the text is no URL.
\<close>

record sdk_lib =
  answer :: "http_request list \<Rightarrow> http_request \<Rightarrow> http_outcome"
  sha256_digest :: "string \<Rightarrow> bytes"
  rsa_verify :: "bytes \<Rightarrow> json \<Rightarrow> bytes \<Rightarrow> bool option"
  with_params :: "string \<Rightarrow> (string \<times> string) list \<Rightarrow> string option"

record sdk_state =
  sd_discovery :: "json option"
  sd_jwks :: "json option"
  sd_sent :: "http_request list"
  sd_clock :: time
  sd_drawn :: nat
  sd_bytes :: "nat \<Rightarrow> bytes"

type_synonym 'a sdk = "(sdk_state, 'a) act"

definition type_error :: err where "type_error = PlainError ''TypeError''"

definition randomToken :: "string sdk" where
  "randomToken = (\<lambda>s. (Inr (base64Url (sd_bytes s (sd_drawn s))), s\<lparr>sd_drawn := Suc (sd_drawn s)\<rparr>))"

section \<open>JavaScript values\<close>

text \<open>Reading a property: of \<open>null\<close> it throws, of a value that is not an object it is \<open>undefined\<close>.\<close>

definition get_prop :: "json \<Rightarrow> string \<Rightarrow> json option sdk" where
  "get_prop v k = (if v = JNull then throw type_error else ret (json_prop v k))"

definition prop_text :: "json option \<Rightarrow> string" where
  "prop_text v = (case v of None \<Rightarrow> ''undefined'' | Some j \<Rightarrow> js_text j)"

definition string_of :: "json option \<Rightarrow> string option" where
  "string_of v = (case v of Some (JStr s) \<Rightarrow> Some s | _ \<Rightarrow> None)"

definition number_of :: "json option \<Rightarrow> int option" where
  "number_of v = (case v of Some (JNum n) \<Rightarrow> Some n | _ \<Rightarrow> None)"

definition bool_of :: "json option \<Rightarrow> bool option" where
  "bool_of v = (case v of Some (JBool b) \<Rightarrow> Some b | _ \<Rightarrow> None)"

definition truthy_value :: "json option \<Rightarrow> bool" where
  "truthy_value v \<longleftrightarrow> (case v of None \<Rightarrow> False
     | Some j \<Rightarrow> j \<noteq> JNull \<and> j \<noteq> JBool False \<and> j \<noteq> JNum 0 \<and> j \<noteq> JStr [])"

definition stringArray :: "json option \<Rightarrow> string list" where
  "stringArray value = (case value of
     Some (JArr xs) \<Rightarrow> List.map_filter (\<lambda>x. string_of (Some x)) xs | _ \<Rightarrow> [])"

definition recordValue :: "json option \<Rightarrow> json" where
  "recordValue value = (case value of Some (JObj fs) \<Rightarrow> JObj fs | _ \<Rightarrow> JObj [])"

text \<open>The members \<open>{...v}\<close> takes over.\<close>

definition spread :: "json \<Rightarrow> (string \<times> json) list" where
  "spread v = (case v of
     JObj fs \<Rightarrow> fs
   | JArr xs \<Rightarrow> zip (map show_nat [0..<length xs]) xs
   | JStr s \<Rightarrow> zip (map show_nat [0..<length s]) (map (\<lambda>c. JStr [c]) s)
   | _ \<Rightarrow> [])"

definition merge_members :: "(string \<times> json) list \<Rightarrow> (string \<times> json) list \<Rightarrow> (string \<times> json) list" where
  "merge_members base extra = fold (\<lambda>(k, v). put_member k v) extra base"

section \<open>Form bodies\<close>

text \<open>\<open>new URLSearchParams(body).toString()\<close>.\<close>

definition form_char :: "char \<Rightarrow> string" where
  "form_char c = (let n = of_char c :: nat in
     if 48 \<le> n \<and> n \<le> 57 \<or> 65 \<le> n \<and> n \<le> 90 \<or> 97 \<le> n \<and> n \<le> 122 \<or> c \<in> set ''*-._'' then [c]
     else if c = CHR '' '' then ''+''
     else [CHR ''%'', upper_hex (n div 16), upper_hex (n mod 16)])"

definition form_text :: "string \<Rightarrow> string" where
  "form_text s = concat (map form_char (utf8_bytes s))"

definition form_encode :: "(string \<times> string) list \<Rightarrow> string" where
  "form_encode body = js_join ''&'' (map (\<lambda>(k, v). form_text k @ ''='' @ form_text v) body)"

section \<open>Requests\<close>

definition oidc_timeout :: err where
  "oidc_timeout = ServerSdkError ''oidc_timeout'' ''OIDC request timed out'' True"

definition http_error :: "nat \<Rightarrow> err" where
  "http_error status = ServerSdkError (if status = 429 then ''oidc_rate_limited'' else ''oidc_http_error'')
     (''OIDC request failed with status '' @ show_nat status) (status = 429 \<or> 500 \<le> status)"

text \<open>\<open>response.ok\<close>: a status from 200 to 299. The parsed body, when there is one.\<close>

definition sdk_request :: "sdk_lib \<Rightarrow> http_request \<Rightarrow> json option sdk" where
  "sdk_request N r = (\<lambda>s.
     let s' = s\<lparr>sd_sent := sd_sent s @ [r]\<rparr> in
     case answer N (sd_sent s) r of
       Rejected message \<Rightarrow> (Inl (PlainError message), s')
     | TimedOut \<Rightarrow> (Inl oidc_timeout, s')
     | Responded status body \<Rightarrow>
         if 200 \<le> status \<and> status < 300 then (Inr body, s') else (Inl (http_error status), s'))"

definition requestJson :: "sdk_lib \<Rightarrow> http_request \<Rightarrow> json sdk" where
  "requestJson N r = bind (sdk_request N r) (\<lambda>body.
     case body of None \<Rightarrow> throw (PlainError ''SyntaxError'') | Some j \<Rightarrow> ret j)"

definition get_request :: "string \<Rightarrow> http_request" where
  "get_request url = \<lparr>rq_url = url, rq_method = ''GET'', rq_headers = [], rq_body = None\<rparr>"

section \<open>ServerSdkClient\<close>

record sdk_options =
  so_issuer :: string
  so_clientId :: string
  so_clientSecret :: string

definition form_request :: "sdk_options \<Rightarrow> string \<Rightarrow> (string \<times> string) list \<Rightarrow> http_request" where
  "form_request opts url body = \<lparr>rq_url = url, rq_method = ''POST'',
     rq_headers = [(''authorization'', toBasic (so_clientId opts) (so_clientSecret opts)),
                   (''content-type'', ''application/x-www-form-urlencoded'')],
     rq_body = Some (form_encode body)\<rparr>"

text \<open>\<open>issuer.replace(/\/$/, "")\<close>.\<close>

definition without_slash :: "string \<Rightarrow> string" where
  "without_slash s = (if s \<noteq> [] \<and> last s = CHR ''/'' then butlast s else s)"

definition getDiscovery :: "sdk_lib \<Rightarrow> string \<Rightarrow> json sdk" where
  "getDiscovery N issuer =
     bind (gets sd_discovery) (\<lambda>cached.
     if truthy_value cached then ret (the cached)
     else bind (requestJson N (get_request (without_slash issuer @ ''/.well-known/openid-configuration''))) (\<lambda>j.
       bind (modify (\<lambda>s. s\<lparr>sd_discovery := Some j\<rparr>)) (\<lambda>_. ret j)))"

definition getJwks :: "sdk_lib \<Rightarrow> string \<Rightarrow> json sdk" where
  "getJwks N issuer =
     bind (gets sd_jwks) (\<lambda>cached.
     if truthy_value cached then ret (the cached)
     else bind (getDiscovery N issuer) (\<lambda>discovery.
       bind (get_prop discovery ''jwks_uri'') (\<lambda>uri.
       bind (requestJson N (get_request (prop_text uri))) (\<lambda>j.
       bind (modify (\<lambda>s. s\<lparr>sd_jwks := Some j\<rparr>)) (\<lambda>_. ret j)))))"

definition postForm :: "sdk_lib \<Rightarrow> sdk_options \<Rightarrow> string \<Rightarrow> (string \<times> string) list \<Rightarrow> json sdk" where
  "postForm N opts url body = requestJson N (form_request opts url body)"

definition postFormVoid :: "sdk_lib \<Rightarrow> sdk_options \<Rightarrow> string \<Rightarrow> (string \<times> string) list \<Rightarrow> unit sdk" where
  "postFormVoid N opts url body = bind (sdk_request N (form_request opts url body)) (\<lambda>_. ret ())"

record authorization_url =
  au_url :: string
  au_state :: string
  au_nonce :: string
  au_codeVerifier :: string

definition given_or_drawn :: "string option \<Rightarrow> string sdk" where
  "given_or_drawn v = (case v of None \<Rightarrow> randomToken | Some s \<Rightarrow> ret s)"

definition url_with :: "sdk_lib \<Rightarrow> json option \<Rightarrow> (string \<times> string) list \<Rightarrow> string sdk" where
  "url_with N endpoint ps = (case with_params N (prop_text endpoint) ps of None \<Rightarrow> throw type_error | Some u \<Rightarrow> ret u)"

definition createAuthorizationUrl ::
    "sdk_lib \<Rightarrow> sdk_options \<Rightarrow> string \<Rightarrow> string list option \<Rightarrow> string option \<Rightarrow> string option \<Rightarrow> authorization_url sdk" where
  "createAuthorizationUrl N opts redirectUri scope state nonce =
     bind (getDiscovery N (so_issuer opts)) (\<lambda>discovery.
     bind (given_or_drawn state) (\<lambda>st.
     bind (given_or_drawn nonce) (\<lambda>no.
     bind randomToken (\<lambda>codeVerifier.
     bind (get_prop discovery ''authorization_endpoint'') (\<lambda>endpoint.
     bind (url_with N endpoint
       [(''client_id'', so_clientId opts), (''response_type'', ''code''), (''redirect_uri'', redirectUri),
        (''scope'', js_join '' '' (case scope of None \<Rightarrow> [''openid'', ''profile'', ''email''] | Some xs \<Rightarrow> xs)),
        (''state'', st), (''nonce'', no),
        (''code_challenge'', sha256Base64Url (sha256_digest N) codeVerifier), (''code_challenge_method'', ''S256'')]) (\<lambda>url.
     ret \<lparr>au_url = url, au_state = st, au_nonce = no, au_codeVerifier = codeVerifier\<rparr>))))))"

definition hasValidAccessTokenResponse :: "json \<Rightarrow> bool" where
  "hasValidAccessTokenResponse response \<longleftrightarrow> string_of (json_prop response ''access_token'') \<noteq> None \<and>
     (case number_of (json_prop response ''expires_in'') of None \<Rightarrow> False | Some n \<Rightarrow> 0 < n)"

definition access_token_of :: "json \<Rightarrow> string" where
  "access_token_of response = the (string_of (json_prop response ''access_token''))"

definition expires_in_of :: "json \<Rightarrow> int" where
  "expires_in_of response = the (number_of (json_prop response ''expires_in''))"

record token_set =
  ts_idToken :: string
  ts_accessToken :: string
  ts_refreshToken :: "string option"
  ts_expiresIn :: int

definition invalid_response :: "string \<Rightarrow> err" where
  "invalid_response message = ServerSdkError ''oidc_invalid_response'' message False"

definition exchangeCode :: "sdk_lib \<Rightarrow> sdk_options \<Rightarrow> string \<Rightarrow> string \<Rightarrow> string \<Rightarrow> token_set sdk" where
  "exchangeCode N opts code redirectUri codeVerifier =
     bind (getDiscovery N (so_issuer opts)) (\<lambda>discovery.
     bind (get_prop discovery ''token_endpoint'') (\<lambda>endpoint.
     bind (postForm N opts (prop_text endpoint)
       [(''grant_type'', ''authorization_code''), (''code'', code), (''redirect_uri'', redirectUri),
        (''code_verifier'', codeVerifier)]) (\<lambda>response.
     bind (get_prop response ''id_token'') (\<lambda>idToken.
     case string_of idToken of
       None \<Rightarrow> throw (invalid_response ''OIDC token response is missing required fields'')
     | Some t \<Rightarrow>
         if \<not> hasValidAccessTokenResponse response
         then throw (invalid_response ''OIDC token response is missing required fields'')
         else ret \<lparr>ts_idToken = t, ts_accessToken = access_token_of response,
                ts_refreshToken = string_of (json_prop response ''refresh_token''),
                ts_expiresIn = expires_in_of response\<rparr>))))"

record refresh_token_set =
  rf_accessToken :: string
  rf_idToken :: "string option"
  rf_refreshToken :: "string option"
  rf_expiresIn :: int

definition refreshTokens :: "sdk_lib \<Rightarrow> sdk_options \<Rightarrow> string \<Rightarrow> string list option \<Rightarrow> refresh_token_set sdk" where
  "refreshTokens N opts refreshToken scope =
     bind (getDiscovery N (so_issuer opts)) (\<lambda>discovery.
     bind (get_prop discovery ''token_endpoint'') (\<lambda>endpoint.
     bind (postForm N opts (prop_text endpoint)
       ([(''grant_type'', ''refresh_token''), (''refresh_token'', refreshToken)] @
        (case scope of None \<Rightarrow> [] | Some xs \<Rightarrow> [(''scope'', js_join '' '' xs)]))) (\<lambda>response.
     bind (get_prop response ''access_token'') (\<lambda>_.
     if \<not> hasValidAccessTokenResponse response
     then throw (invalid_response ''OIDC refresh response is missing required fields'')
     else ret \<lparr>rf_accessToken = access_token_of response,
            rf_idToken = string_of (json_prop response ''id_token''),
            rf_refreshToken = string_of (json_prop response ''refresh_token''),
            rf_expiresIn = expires_in_of response\<rparr>))))"
section \<open>ID tokens\<close>

text \<open>\<open>===\<close> between two parsed values: objects and arrays of different texts are never the same.\<close>

fun same_value :: "json option \<Rightarrow> json option \<Rightarrow> bool" where
  "same_value None None \<longleftrightarrow> True"
| "same_value (Some (JObj _)) _ \<longleftrightarrow> False"
| "same_value (Some (JArr _)) _ \<longleftrightarrow> False"
| "same_value (Some a) (Some b) \<longleftrightarrow> a = b"
| "same_value _ _ \<longleftrightarrow> False"

text \<open>\<open>jwks.keys.find((key) => key.kid === header.kid)\<close>: a \<open>null\<close> before the match throws.\<close>

fun find_key :: "string \<Rightarrow> json list \<Rightarrow> json option sdk" where
  "find_key kid [] = ret None"
| "find_key kid (key # keys) =
     bind (get_prop key ''kid'') (\<lambda>k. if k = Some (JStr kid) then ret (Some key) else find_key kid keys)"

definition find_jwk :: "json \<Rightarrow> string \<Rightarrow> json option sdk" where
  "find_jwk jwks kid = bind (get_prop jwks ''keys'') (\<lambda>keys.
     case keys of Some (JArr ks) \<Rightarrow> find_key kid ks | _ \<Rightarrow> throw type_error)"

text \<open>\<open>const [encodedHeader, encodedPayload, encodedSignature] = token.split(".")\<close> and the check of the
  three: further parts are ignored.\<close>

definition token_parts :: "string \<Rightarrow> (string \<times> string \<times> string) option" where
  "token_parts token = (case js_split (CHR ''.'') token of
     h # p # s # _ \<Rightarrow> if h \<noteq> [] \<and> p \<noteq> [] \<and> s \<noteq> [] then Some (h, p, s) else None
   | _ \<Rightarrow> None)"

definition decode_part :: "string \<Rightarrow> string \<Rightarrow> json sdk" where
  "decode_part errorCode part = (case decodeJson part of
     None \<Rightarrow> throw (ServerSdkError errorCode ''Invalid token JSON'' False) | Some j \<Rightarrow> ret j)"

definition signing_kid :: "err \<Rightarrow> json \<Rightarrow> string sdk" where
  "signing_kid e header =
     bind (get_prop header ''alg'') (\<lambda>alg. bind (get_prop header ''kid'') (\<lambda>kid.
       if alg \<noteq> Some (JStr ''RS256'') then throw e
       else case string_of kid of None \<Rightarrow> throw e | Some k \<Rightarrow> ret k))"

text \<open>\<open>verify("RSA-SHA256", ..., createPublicKey({key: jwk, format: "jwk"}), ...)\<close>.\<close>

definition check_signature :: "sdk_lib \<Rightarrow> string \<Rightarrow> string \<Rightarrow> string \<Rightarrow> json \<Rightarrow> bool sdk" where
  "check_signature N h p s jwk =
     (case rsa_verify N (utf8_bytes (h @ ''.'' @ p)) jwk (base64UrlToBuffer s) of
        None \<Rightarrow> throw (PlainError ''ERR_CRYPTO'') | Some b \<Rightarrow> ret b)"

definition now_seconds :: "int sdk" where
  "now_seconds = gets (\<lambda>s. sd_clock s div 1000)"

definition array_of :: "json option \<Rightarrow> json list option" where
  "array_of v = (case v of Some (JArr xs) \<Rightarrow> Some xs | _ \<Rightarrow> None)"

definition audience_matches :: "json option \<Rightarrow> string \<Rightarrow> bool" where
  "audience_matches audience expected \<longleftrightarrow> audience = Some (JStr expected) \<or>
     (case array_of audience of Some xs \<Rightarrow> JStr expected \<in> set xs | None \<Rightarrow> False)"

definition several_audiences :: "json option \<Rightarrow> bool" where
  "several_audiences audience \<longleftrightarrow> (case array_of audience of Some xs \<Rightarrow> 1 < length xs | None \<Rightarrow> False)"

definition invalid_id_token :: "string \<Rightarrow> err" where
  "invalid_id_token message = ServerSdkError ''oidc_invalid_token'' message False"

record verified_id_token =
  vi_sub :: string
  vi_email :: "string option"
  vi_emailVerified :: "bool option"
  vi_claims :: json

definition unless_valid :: "bool \<Rightarrow> err \<Rightarrow> unit sdk" where
  "unless_valid ok e = (if ok then ret () else throw e)"

text \<open>The checks of the claims and the result, from reading the clock on.\<close>

definition id_token_claims :: "sdk_options \<Rightarrow> json \<Rightarrow> string option \<Rightarrow> json \<Rightarrow> verified_id_token sdk" where
  "id_token_claims opts discovery nonce claims =
     bind now_seconds (\<lambda>now.
     bind (get_prop claims ''iss'') (\<lambda>iss.
     bind (get_prop discovery ''issuer'') (\<lambda>issuer.
     let audience = json_prop claims ''aud''; expiry = number_of (json_prop claims ''exp'') in
     bind (unless_valid (same_value iss issuer) (invalid_id_token ''Invalid issuer'')) (\<lambda>_.
     bind (unless_valid (audience_matches audience (so_clientId opts)) (invalid_id_token ''Invalid audience'')) (\<lambda>_.
     bind (unless_valid (several_audiences audience \<longrightarrow> json_prop claims ''azp'' = Some (JStr (so_clientId opts)))
       (invalid_id_token ''Invalid authorized party'')) (\<lambda>_.
     bind (unless_valid (expiry \<noteq> None \<and> now < the expiry) (invalid_id_token ''ID Token is expired'')) (\<lambda>_.
     bind (unless_valid (truthy nonce \<longrightarrow> json_prop claims ''nonce'' = Some (JStr (the nonce)))
       (invalid_id_token ''Invalid nonce'')) (\<lambda>_.
     case string_of (json_prop claims ''sub'') of
       None \<Rightarrow> throw (invalid_id_token ''Missing subject'')
     | Some sub \<Rightarrow> ret \<lparr>vi_sub = sub, vi_email = string_of (json_prop claims ''email''),
                    vi_emailVerified = bool_of (json_prop claims ''email_verified''), vi_claims = claims\<rparr>))))))))"

definition verifyIdToken :: "sdk_lib \<Rightarrow> sdk_options \<Rightarrow> string \<Rightarrow> string option \<Rightarrow> verified_id_token sdk" where
  "verifyIdToken N opts idToken nonce =
     bind (getDiscovery N (so_issuer opts)) (\<lambda>discovery.
     case token_parts idToken of
       None \<Rightarrow> throw (invalid_id_token ''Invalid ID Token'')
     | Some (h, p, s) \<Rightarrow>
         bind (decode_part ''oidc_invalid_token'' h) (\<lambda>header.
         bind (decode_part ''oidc_invalid_token'' p) (\<lambda>claims.
         bind (signing_kid (invalid_id_token ''Unsupported ID Token'') header) (\<lambda>kid.
         bind (getJwks N (so_issuer opts)) (\<lambda>jwks.
         bind (find_jwk jwks kid) (\<lambda>jwk.
         case jwk of
           None \<Rightarrow> throw (invalid_id_token ''Signing key not found'')
         | Some key \<Rightarrow> bind (check_signature N h p s key) (\<lambda>verified.
             if \<not> verified then throw (invalid_id_token ''Invalid ID Token signature'')
             else id_token_claims opts discovery nonce claims)))))))"

section \<open>Sessions of the relying party\<close>

record session_identity =
  si_userId :: string
  si_email :: "string option"
  si_emailVerified :: "bool option"
  si_permissions :: "string list"
  si_entitlements :: json
  si_claims :: json

definition toSessionIdentity :: "verified_id_token \<Rightarrow> json option \<Rightarrow> session_identity" where
  "toSessionIdentity idToken userInfo =
     (let merged = JObj (merge_members (spread (vi_claims idToken))
                     (case userInfo of None \<Rightarrow> [] | Some u \<Rightarrow> spread u))
      in \<lparr>si_userId = vi_sub idToken,
          si_email = string_of (json_prop merged ''email''),
          si_emailVerified = bool_of (json_prop merged ''email_verified''),
          si_permissions = stringArray (json_prop merged ''permissions''),
          si_entitlements = recordValue (json_prop merged ''entitlements''),
          si_claims = merged\<rparr>)"

text \<open>An optional endpoint of the discovery document.\<close>

definition endpoint_or :: "json \<Rightarrow> string \<Rightarrow> string \<Rightarrow> json option sdk" where
  "endpoint_or discovery name message = bind (get_prop discovery name) (\<lambda>endpoint.
     if truthy_value endpoint then ret endpoint else throw (ServerSdkError ''oidc_unsupported'' message False))"

definition getUserInfo :: "sdk_lib \<Rightarrow> sdk_options \<Rightarrow> string \<Rightarrow> json sdk" where
  "getUserInfo N opts accessToken =
     bind (getDiscovery N (so_issuer opts)) (\<lambda>discovery.
     bind (endpoint_or discovery ''userinfo_endpoint'' ''UserInfo is not supported'') (\<lambda>endpoint.
     requestJson N \<lparr>rq_url = prop_text endpoint, rq_method = ''GET'',
       rq_headers = [(''authorization'', ''Bearer '' @ accessToken)], rq_body = None\<rparr>))"

definition token_body :: "string \<Rightarrow> string option \<Rightarrow> (string \<times> string) list" where
  "token_body token tokenTypeHint = [(''token'', token)] @
     (if truthy tokenTypeHint then [(''token_type_hint'', the tokenTypeHint)] else [])"

record introspection_result =
  ir_active :: bool
  ir_scope :: "string option"
  ir_clientId :: "string option"
  ir_sub :: "string option"
  ir_exp :: "int option"
  ir_iat :: "int option"
  ir_claims :: json

definition sdk_introspectToken :: "sdk_lib \<Rightarrow> sdk_options \<Rightarrow> string \<Rightarrow> string option \<Rightarrow> introspection_result sdk" where
  "sdk_introspectToken N opts token tokenTypeHint =
     bind (getDiscovery N (so_issuer opts)) (\<lambda>discovery.
     bind (endpoint_or discovery ''introspection_endpoint'' ''Token introspection is not supported'') (\<lambda>endpoint.
     bind (postForm N opts (prop_text endpoint) (token_body token tokenTypeHint)) (\<lambda>response.
     bind (get_prop response ''active'') (\<lambda>active.
     ret \<lparr>ir_active = (active = Some (JBool True)),
          ir_scope = string_of (json_prop response ''scope''),
          ir_clientId = string_of (json_prop response ''client_id''),
          ir_sub = string_of (json_prop response ''sub''),
          ir_exp = number_of (json_prop response ''exp''),
          ir_iat = number_of (json_prop response ''iat''),
          ir_claims = response\<rparr>))))"

definition revokeToken :: "sdk_lib \<Rightarrow> sdk_options \<Rightarrow> string \<Rightarrow> string option \<Rightarrow> unit sdk" where
  "revokeToken N opts token tokenTypeHint =
     bind (getDiscovery N (so_issuer opts)) (\<lambda>discovery.
     bind (endpoint_or discovery ''revocation_endpoint'' ''Token revocation is not supported'') (\<lambda>endpoint.
     postFormVoid N opts (prop_text endpoint) (token_body token tokenTypeHint)))"

definition param_if :: "string \<Rightarrow> string option \<Rightarrow> (string \<times> string) list" where
  "param_if name v = (if truthy v then [(name, the v)] else [])"

definition createLogoutUrl ::
    "sdk_lib \<Rightarrow> sdk_options \<Rightarrow> string option \<Rightarrow> string option \<Rightarrow> string option \<Rightarrow> string sdk" where
  "createLogoutUrl N opts postLogoutRedirectUri idTokenHint state =
     bind (getDiscovery N (so_issuer opts)) (\<lambda>discovery.
     bind (endpoint_or discovery ''end_session_endpoint'' ''Logout is not supported'') (\<lambda>endpoint.
     url_with N endpoint (param_if ''post_logout_redirect_uri'' postLogoutRedirectUri @
       param_if ''id_token_hint'' idTokenHint @ param_if ''state'' state)))"

record logout_input =
  li_global :: bool
  li_refreshToken :: "string option"
  li_accessToken :: "string option"
  li_idTokenHint :: "string option"
  li_postLogoutRedirectUri :: "string option"
  li_state :: "string option"
  li_clearLocalSession :: "unit sdk"

record logout_result =
  lr_localSessionCleared :: bool
  lr_refreshTokenRevoked :: bool
  lr_accessTokenRevoked :: bool
  lr_logoutUrl :: "string option"
  lr_warnings :: "string list"

text \<open>\<open>try { ... } catch (error) { warnings.push(...) }\<close>: the value, or the warning.\<close>

definition warning :: "string \<Rightarrow> err \<Rightarrow> string" where
  "warning label e = label @ '':'' @ (case e of ServerSdkError errorCode _ _ \<Rightarrow> errorCode | _ \<Rightarrow> ''unknown'')"

definition or_warning :: "string \<Rightarrow> 'a sdk \<Rightarrow> ('a option \<times> string list) sdk" where
  "or_warning label m =
     try_catch (bind m (\<lambda>x. ret (Some x, []))) (\<lambda>e. ret (None, [warning label e]))"

definition revoke_if_given ::
    "sdk_lib \<Rightarrow> sdk_options \<Rightarrow> string option \<Rightarrow> string \<Rightarrow> string \<Rightarrow> (unit option \<times> string list) sdk" where
  "revoke_if_given N opts token hint label =
     (if truthy token then or_warning label (revokeToken N opts (the token) (Some hint)) else ret (None, []))"

definition logout :: "sdk_lib \<Rightarrow> sdk_options \<Rightarrow> logout_input \<Rightarrow> logout_result sdk" where
  "logout N opts i =
     bind (revoke_if_given N opts (li_refreshToken i) ''refresh_token'' ''refresh_token_revoke_failed'') (\<lambda>(r, w1).
     bind (revoke_if_given N opts (li_accessToken i) ''access_token'' ''access_token_revoke_failed'') (\<lambda>(a, w2).
     bind (bind (li_clearLocalSession i) (\<lambda>_. ret True)) (\<lambda>localSessionCleared.
     bind (if li_global i
           then or_warning ''global_logout_url_failed''
                  (createLogoutUrl N opts (li_postLogoutRedirectUri i) (li_idTokenHint i) (li_state i))
           else ret (None, [])) (\<lambda>(url, w3).
     ret \<lparr>lr_localSessionCleared = localSessionCleared, lr_refreshTokenRevoked = (r \<noteq> None),
          lr_accessTokenRevoked = (a \<noteq> None), lr_logoutUrl = url, lr_warnings = w1 @ w2 @ w3\<rparr>))))"

record callback_input =
  ci_code :: "string option"
  ci_state :: "string option"
  ci_expectedState :: string
  ci_expectedNonce :: "string option"
  ci_redirectUri :: string
  ci_codeVerifier :: string
  ci_fetchUserInfo :: bool

record callback_result =
  cr_tokens :: token_set
  cr_idToken :: verified_id_token
  cr_userInfo :: "json option"
  cr_sessionIdentity :: session_identity

definition invalid_callback :: "string \<Rightarrow> err" where
  "invalid_callback message = ServerSdkError ''oidc_invalid_callback'' message False"

definition completeAuthorizationCodeCallback :: "sdk_lib \<Rightarrow> sdk_options \<Rightarrow> callback_input \<Rightarrow> callback_result sdk" where
  "completeAuthorizationCodeCallback N opts i =
     (if \<not> truthy (ci_code i) then throw (invalid_callback ''Authorization callback is missing code'')
      else if \<not> truthy (ci_state i) \<or> the (ci_state i) \<noteq> ci_expectedState i
      then throw (invalid_callback ''Authorization callback state mismatch'')
      else
        bind (exchangeCode N opts (the (ci_code i)) (ci_redirectUri i) (ci_codeVerifier i)) (\<lambda>tokens.
        bind (verifyIdToken N opts (ts_idToken tokens) (ci_expectedNonce i)) (\<lambda>idToken.
        if ci_fetchUserInfo i
        then bind (getUserInfo N opts (ts_accessToken tokens)) (\<lambda>userInfo.
          ret \<lparr>cr_tokens = tokens, cr_idToken = idToken, cr_userInfo = Some userInfo,
               cr_sessionIdentity = toSessionIdentity idToken (Some userInfo)\<rparr>)
        else ret \<lparr>cr_tokens = tokens, cr_idToken = idToken, cr_userInfo = None,
               cr_sessionIdentity = toSessionIdentity idToken None\<rparr>)))"

section \<open>JwtVerifier\<close>

record verifier_options =
  jv_issuer :: string
  jv_audience :: string
  jv_jwksUri :: "string option"
  jv_clockSkewSeconds :: int

text \<open>The constructor's default for the skew.\<close>

definition verifier_with :: "string \<Rightarrow> string \<Rightarrow> string option \<Rightarrow> int option \<Rightarrow> verifier_options" where
  "verifier_with issuer audience jwksUri skew =
     \<lparr>jv_issuer = issuer, jv_audience = audience, jv_jwksUri = jwksUri,
      jv_clockSkewSeconds = (case skew of None \<Rightarrow> 30 | Some n \<Rightarrow> n)\<rparr>"

definition verifierRequestJson :: "sdk_lib \<Rightarrow> string \<Rightarrow> json sdk" where
  "verifierRequestJson N url = requestJson N (get_request url)"

definition verifierGetDiscovery :: "sdk_lib \<Rightarrow> verifier_options \<Rightarrow> json sdk" where
  "verifierGetDiscovery N v =
     bind (gets sd_discovery) (\<lambda>cached.
     if truthy_value cached then ret (the cached)
     else bind (verifierRequestJson N (without_slash (jv_issuer v) @ ''/.well-known/openid-configuration'')) (\<lambda>j.
       bind (modify (\<lambda>s. s\<lparr>sd_discovery := Some j\<rparr>)) (\<lambda>_. ret j)))"

definition verifierGetJwks :: "sdk_lib \<Rightarrow> verifier_options \<Rightarrow> json sdk" where
  "verifierGetJwks N v =
     bind (gets sd_jwks) (\<lambda>cached.
     if truthy_value cached then ret (the cached)
     else bind
       (if truthy (jv_jwksUri v) then verifierRequestJson N (the (jv_jwksUri v))
        else bind (verifierGetDiscovery N v) (\<lambda>discovery.
          bind (get_prop discovery ''jwks_uri'') (\<lambda>uri. verifierRequestJson N (prop_text uri)))) (\<lambda>j.
       bind (modify (\<lambda>s. s\<lparr>sd_jwks := Some j\<rparr>)) (\<lambda>_. ret j)))"

definition invalid_token :: "string \<Rightarrow> err" where
  "invalid_token message = ServerSdkError ''invalid_token'' message False"

definition validateClaims :: "verifier_options \<Rightarrow> json \<Rightarrow> unit sdk" where
  "validateClaims v claims =
     bind now_seconds (\<lambda>now.
     bind (get_prop claims ''iss'') (\<lambda>iss.
     let expiry = number_of (json_prop claims ''exp'');
         later = (\<lambda>name. case number_of (json_prop claims name) of
                    None \<Rightarrow> False | Some n \<Rightarrow> now + jv_clockSkewSeconds v < n) in
     bind (unless_valid (iss = Some (JStr (jv_issuer v))) (invalid_token ''Invalid issuer'')) (\<lambda>_.
     bind (unless_valid (audience_matches (json_prop claims ''aud'') (jv_audience v))
       (invalid_token ''Invalid audience'')) (\<lambda>_.
     bind (unless_valid (expiry \<noteq> None) (invalid_token ''Missing exp claim'')) (\<lambda>_.
     bind (unless_valid (now - jv_clockSkewSeconds v < the expiry)
       (ServerSdkError ''token_expired'' ''Access token is expired'' False)) (\<lambda>_.
     bind (unless_valid (\<not> later ''nbf'') (invalid_token ''Token is not active yet'')) (\<lambda>_.
     unless_valid (\<not> later ''iat'') (invalid_token ''Token issued-at is invalid'')))))))) "

definition normalizeScope :: "json \<Rightarrow> string list" where
  "normalizeScope claims = (case string_of (json_prop claims ''scope'') of
     Some scope \<Rightarrow> filter (\<lambda>v. v \<noteq> []) (map js_trim (js_split (CHR '' '') scope))
   | None \<Rightarrow> stringArray (json_prop claims ''scp''))"

record service_token =
  st_claims :: json
  st_scope :: "string list"
  st_sub :: "string option"
  st_clientId :: "string option"

definition missing_scopes :: "string list \<Rightarrow> string list \<Rightarrow> string list" where
  "missing_scopes requiredScopes scope = filter (\<lambda>required. required \<notin> set scope) requiredScopes"

definition service_token_of :: "json \<Rightarrow> service_token" where
  "service_token_of claims = \<lparr>st_claims = claims, st_scope = normalizeScope claims,
     st_sub = string_of (json_prop claims ''sub''),
     st_clientId = (case string_of (json_prop claims ''client_id'') of
        Some c \<Rightarrow> Some c | None \<Rightarrow> string_of (json_prop claims ''azp''))\<rparr>"

definition verifyAccessToken ::
    "sdk_lib \<Rightarrow> verifier_options \<Rightarrow> string \<Rightarrow> string list option \<Rightarrow> service_token sdk" where
  "verifyAccessToken N v token requiredScopes =
     (if token = [] then throw (ServerSdkError ''missing_token'' ''Access token is required'' False)
      else case token_parts token of
        None \<Rightarrow> throw (invalid_token ''Invalid access token format'')
      | Some (h, p, s) \<Rightarrow>
          bind (decode_part ''invalid_token'' h) (\<lambda>header.
          bind (decode_part ''invalid_token'' p) (\<lambda>claims.
          bind (signing_kid (invalid_token ''Unsupported token algorithm'') header) (\<lambda>kid.
          bind (verifierGetJwks N v) (\<lambda>jwks.
          bind (find_jwk jwks kid) (\<lambda>jwk.
          case jwk of
            None \<Rightarrow> throw (invalid_token ''Signing key not found'')
          | Some key \<Rightarrow> bind (check_signature N h p s key) (\<lambda>signatureValid.
              if \<not> signatureValid then throw (invalid_token ''Invalid token signature'')
              else bind (validateClaims v claims) (\<lambda>_.
                let missing = missing_scopes (case requiredScopes of None \<Rightarrow> [] | Some xs \<Rightarrow> xs) (normalizeScope claims) in
                if missing \<noteq> []
                then throw (ServerSdkError ''insufficient_scope'' (''Missing required scopes: '' @ js_join '', '' missing) False)
                else ret (service_token_of claims)))))))))"

section \<open>The middleware of resource servers\<close>

text \<open>The headers of a request: a \<open>Headers\<close> object, asked by lower-case name, or a plain object.\<close>

datatype request_headers = HeadersObject "string \<Rightarrow> string option" | HeaderRecord "string \<Rightarrow> string option"

definition readAuthorizationHeader :: "request_headers \<Rightarrow> string option" where
  "readAuthorizationHeader headers = (case headers of
     HeadersObject get \<Rightarrow> get ''authorization''
   | HeaderRecord r \<Rightarrow> (case r ''authorization'' of None \<Rightarrow> r ''Authorization'' | Some h \<Rightarrow> Some h))"

definition missing_token :: "string \<Rightarrow> err" where
  "missing_token message = ServerSdkError ''missing_token'' message False"

definition bearer_token :: "string \<Rightarrow> string option" where
  "bearer_token header = (case js_split (CHR '' '') header of
     scheme # token # _ \<Rightarrow> if to_lower scheme = ''bearer'' \<and> token \<noteq> [] then Some token else None
   | _ \<Rightarrow> None)"

definition authorize ::
    "sdk_lib \<Rightarrow> verifier_options \<Rightarrow> string list option \<Rightarrow> request_headers \<Rightarrow> string list option \<Rightarrow> service_token sdk" where
  "authorize N v optionScopes headers requiredScopes =
     (let header = readAuthorizationHeader headers in
      if \<not> truthy header then throw (missing_token ''Authorization header is required'')
      else case bearer_token (the header) of
        None \<Rightarrow> throw (missing_token ''Bearer token is required'')
      | Some token \<Rightarrow> verifyAccessToken N v token
          (Some (case requiredScopes of Some xs \<Rightarrow> xs
             | None \<Rightarrow> (case optionScopes of Some xs \<Rightarrow> xs | None \<Rightarrow> []))))"

end
