(* ===== verification/Returns.thy ===== *)
theory Returns
  imports Schema
begin

text \<open>
  \<open>ok_iffs\<close> says of every step when it returns and what, so that simplification turns a run that
  returned into the facts along its way.
\<close>

named_theorems ok_iffs "when a step returns, and what"

lemma bind_ok [ok_iffs]: "bind m f s = (Inr y, s') \<longleftrightarrow> (\<exists>x u. m s = (Inr x, u) \<and> f x u = (Inr y, s'))"
  by (auto simp: bind_def split: prod.splits sum.splits)

lemma ret_ok [ok_iffs]: "ret x s = (Inr y, s') \<longleftrightarrow> y = x \<and> s' = s"
  by (auto simp: ret_def)

lemma throw_ok [ok_iffs]: "throw e s = (Inr y, s') \<longleftrightarrow> False"
  by (simp add: throw_def)

lemma gets_ok [ok_iffs]: "gets f s = (Inr y, s') \<longleftrightarrow> y = f s \<and> s' = s"
  by (auto simp: gets_def)

lemma modify_ok [ok_iffs]: "modify f s = (Inr u, s') \<longleftrightarrow> s' = f s"
  by (auto simp: modify_def)

lemma if_throw_ok [ok_iffs]: "(if b then throw e else m) s = (Inr y, s') \<longleftrightarrow> \<not> b \<and> m s = (Inr y, s')"
  by (simp add: throw_def)

lemma whenever_ok [ok_iffs]: "whenever b m s = (Inr u, s') \<longleftrightarrow> (if b then m s = (Inr u, s') else s' = s)"
  by (auto simp: whenever_def ret_def)

lemma now_ok [ok_iffs]: "now w = (Inr t, w') \<longleftrightarrow> t = clock w \<and> w' = w"
  by (auto simp: now_def gets_def)

lemma now_micros_ok [ok_iffs]: "now_micros w = (Inr m, w') \<longleftrightarrow> m = rnd_micros w (rnd w) mod 1000 \<and> w' = w"
  by (auto simp: now_micros_def gets_def)

lemma read_db_ok [ok_iffs]: "read_db f w = (Inr x, w') \<longleftrightarrow> x = f (db w) \<and> w' = w"
  by (auto simp: read_db_def gets_def)

lemma transaction_ok [ok_iffs]: "transaction m w = (Inr x, w') \<longleftrightarrow> m w = (Inr x, w')"
  by (simp add: transaction_Inr)

lemma insert_row_ok [ok_iffs]: "insert_row tbl upd uniq parent r w = (Inr u, w') \<longleftrightarrow>
    uniq (tbl (db w) @ [r]) \<and> parent (db w) r \<and> w' = w\<lparr>db := upd (\<lambda>rs. rs @ [r]) (db w)\<rparr>"
  by (auto simp: insert_row_def)

lemma update_unique_ok [ok_iffs]: "update_unique tbl upd uniq p f w = (Inr u, w') \<longleftrightarrow>
    uniq (update_where p f (tbl (db w))) \<and> w' = w\<lparr>db := upd (update_where p f) (db w)\<rparr>"
  by (auto simp: update_unique_def)

end
