(* ===== verification/ServerSdkFacts.thy ===== *)
theory ServerSdkFacts
  imports ServerSdk Returns
begin

text \<open>
  What the verifications of packages/server-sdk accept, what a callback guarantees, and what a
  logout does when the provider does not answer. \<open>ok_iffs\<close> says of every step when it returns.
\<close>

section \<open>When a step returns\<close>

lemma get_prop_ok [ok_iffs]: "get_prop v k s = (Inr x, s') \<longleftrightarrow> v \<noteq> JNull \<and> x = json_prop v k \<and> s' = s"
  by (auto simp: get_prop_def ok_iffs)

lemma unless_valid_ok [ok_iffs]: "unless_valid ok e s = (Inr u, s') \<longleftrightarrow> ok \<and> s' = s"
  by (auto simp: unless_valid_def ok_iffs)

lemma now_seconds_ok [ok_iffs]: "now_seconds s = (Inr n, s') \<longleftrightarrow> n = sd_clock s div 1000 \<and> s' = s"
  by (auto simp: now_seconds_def ok_iffs)

lemma decode_part_ok [ok_iffs]: "decode_part c p s = (Inr j, s') \<longleftrightarrow> decodeJson p = Some j \<and> s' = s"
  by (auto simp: decode_part_def ok_iffs split: option.splits)

lemma value_readers [simp]: "string_of (Some (JStr t)) = Some t" "number_of (Some (JNum n)) = Some n"
  by (simp_all add: string_of_def number_of_def)

lemma string_of_Some [simp]: "string_of v = Some t \<longleftrightarrow> v = Some (JStr t)"
  by (auto simp: string_of_def split: option.splits json.splits)

lemma number_of_Some [simp]: "number_of v = Some n \<longleftrightarrow> v = Some (JNum n)"
  by (auto simp: number_of_def split: option.splits json.splits)

lemma case_string_ok [ok_iffs]: "(case string_of v of None \<Rightarrow> throw e | Some k \<Rightarrow> f k) s = (Inr y, s') \<longleftrightarrow>
    (\<exists>k. v = Some (JStr k) \<and> f k s = (Inr y, s'))"
  by (cases "string_of v") (auto simp: ok_iffs simp flip: string_of_Some)

lemma signing_kid_ok [ok_iffs]: "signing_kid e h s = (Inr k, s') \<longleftrightarrow>
    json_prop h ''alg'' = Some (JStr ''RS256'') \<and> json_prop h ''kid'' = Some (JStr k) \<and> s' = s"
  by (cases "h = JNull") (auto simp: signing_kid_def ok_iffs)

lemma check_signature_ok [ok_iffs]: "check_signature N h p sg key s = (Inr b, s') \<longleftrightarrow>
    rsa_verify N (utf8_bytes (h @ ''.'' @ p)) key (base64UrlToBuffer sg) = Some b \<and> s' = s"
  by (auto simp: check_signature_def ok_iffs split: option.splits)

text \<open>The key a set of keys offers for an id: the first one, if no \<open>null\<close> comes before it.\<close>

definition offered_key :: "string \<Rightarrow> json list \<Rightarrow> json \<Rightarrow> bool" where
  "offered_key kid keys key \<longleftrightarrow> (\<exists>pre post. keys = pre @ key # post \<and>
     json_prop key ''kid'' = Some (JStr kid) \<and>
     (\<forall>k \<in> set pre. k \<noteq> JNull \<and> json_prop k ''kid'' \<noteq> Some (JStr kid)))"

lemma ex_list_cons: "(\<exists>pre. P pre) \<longleftrightarrow> P [] \<or> (\<exists>x pre. P (x # pre))"
  by (metis list.exhaust)

lemma offered_key_Nil [simp]: "\<not> offered_key kid [] key"
  by (simp add: offered_key_def)

lemma offered_key_Cons [simp]: "offered_key kid (k # keys) key \<longleftrightarrow>
    (if json_prop k ''kid'' = Some (JStr kid) then k = key else k \<noteq> JNull \<and> offered_key kid keys key)"
proof -
  have "offered_key kid (k # keys) key \<longleftrightarrow>
      (\<exists>pre. (\<exists>post. k # keys = pre @ key # post) \<and> json_prop key ''kid'' = Some (JStr kid) \<and>
        (\<forall>k \<in> set pre. k \<noteq> JNull \<and> json_prop k ''kid'' \<noteq> Some (JStr kid)))"
    by (auto simp: offered_key_def)
  also have "\<dots> \<longleftrightarrow> (k = key \<and> json_prop key ''kid'' = Some (JStr kid)) \<or>
      (k \<noteq> JNull \<and> json_prop k ''kid'' \<noteq> Some (JStr kid) \<and> offered_key kid keys key)"
    unfolding offered_key_def by (subst ex_list_cons) auto
  finally show ?thesis by auto
qed

lemma find_key_ok: "find_key kid keys s = (Inr (Some key), s') \<longleftrightarrow> offered_key kid keys key \<and> s' = s"
proof (induction keys)
  case (Cons k keys)
  then show ?case by (cases "k = JNull") (auto simp: ok_iffs)
qed (simp add: ok_iffs)

lemma find_jwk_ok [ok_iffs]: "find_jwk jwks kid s = (Inr (Some key), s') \<longleftrightarrow>
    (\<exists>keys. json_prop jwks ''keys'' = Some (JArr keys) \<and> offered_key kid keys key) \<and> s' = s"
  by (cases "jwks = JNull") (auto simp: find_jwk_def ok_iffs find_key_ok split: option.splits json.splits)

text \<open>A token whose parts are signed by the key of a key set that its header names.\<close>

definition signed_by :: "sdk_lib \<Rightarrow> json \<Rightarrow> string \<Rightarrow> json \<Rightarrow> bool" where
  "signed_by N jwks token claims \<longleftrightarrow> (\<exists>h p sg header kid keys key.
     token_parts token = Some (h, p, sg) \<and> decodeJson h = Some header \<and> decodeJson p = Some claims \<and>
     json_prop header ''alg'' = Some (JStr ''RS256'') \<and> json_prop header ''kid'' = Some (JStr kid) \<and>
     json_prop jwks ''keys'' = Some (JArr keys) \<and> offered_key kid keys key \<and>
     rsa_verify N (utf8_bytes (h @ ''.'' @ p)) key (base64UrlToBuffer sg) = Some True)"

section \<open>Access tokens\<close>

text \<open>The claims a resource server accepts at a time (in seconds).\<close>

definition access_claims_ok :: "verifier_options \<Rightarrow> int \<Rightarrow> json \<Rightarrow> bool" where
  "access_claims_ok v secs claims \<longleftrightarrow>
     json_prop claims ''iss'' = Some (JStr (jv_issuer v)) \<and>
     audience_matches (json_prop claims ''aud'') (jv_audience v) \<and>
     (\<exists>e. json_prop claims ''exp'' = Some (JNum e) \<and> secs - jv_clockSkewSeconds v < e) \<and>
     (\<forall>n. json_prop claims ''nbf'' = Some (JNum n) \<longrightarrow> n \<le> secs + jv_clockSkewSeconds v) \<and>
     (\<forall>n. json_prop claims ''iat'' = Some (JNum n) \<longrightarrow> n \<le> secs + jv_clockSkewSeconds v)"

lemma later_claim: "(case number_of c of None \<Rightarrow> False | Some n \<Rightarrow> b < n) \<longleftrightarrow> (\<exists>n. c = Some (JNum n) \<and> b < n)"
  by (cases "number_of c") (auto simp flip: number_of_Some)

lemma validateClaims_ok [ok_iffs]: "validateClaims v claims s = (Inr u, s') \<longleftrightarrow>
    access_claims_ok v (sd_clock s div 1000) claims \<and> s' = s"
proof -
  have "(number_of c \<noteq> None \<and> b < the (number_of c)) \<longleftrightarrow> (\<exists>e. c = Some (JNum e) \<and> b < e)" for c and b :: int
    by (cases "number_of c") (auto simp flip: number_of_Some)
  then show ?thesis
    by (cases "claims = JNull")
      (auto simp: validateClaims_def access_claims_ok_def ok_iffs later_claim Let_def not_less)
qed

lemma token_parts_Nil [simp]: "token_parts [] = None"
  by (simp add: token_parts_def)

lemma missing_scopes_Nil [simp]: "missing_scopes req scope = [] \<longleftrightarrow> set req \<subseteq> set scope"
  by (auto simp: missing_scopes_def filter_empty_conv)

lemma verifierGetJwks_cached:
  "sd_jwks s = Some jwks \<Longrightarrow> truthy_value (Some jwks) \<Longrightarrow> verifierGetJwks N v s = (Inr jwks, s)"
  by (simp add: verifierGetJwks_def run_simps)

lemma getJwks_cached: "sd_jwks s = Some jwks \<Longrightarrow> truthy_value (Some jwks) \<Longrightarrow> getJwks N i s = (Inr jwks, s)"
  by (simp add: getJwks_def run_simps)

lemma getDiscovery_cached: "sd_discovery s = Some d \<Longrightarrow> truthy_value (Some d) \<Longrightarrow> getDiscovery N i s = (Inr d, s)"
  by (simp add: getDiscovery_def run_simps)

lemma verifyAccessToken_ok: "verifyAccessToken N v token req s = (Inr t, s') \<longleftrightarrow>
    (\<exists>jwks claims. verifierGetJwks N v s = (Inr jwks, s') \<and> signed_by N jwks token claims \<and>
       access_claims_ok v (sd_clock s' div 1000) claims \<and>
       set (case req of None \<Rightarrow> [] | Some xs \<Rightarrow> xs) \<subseteq> set (normalizeScope claims) \<and>
       t = service_token_of claims)"
proof (cases "token_parts token")
  case None
  then show ?thesis by (auto simp: verifyAccessToken_def signed_by_def ok_iffs)
next
  case (Some parts)
  obtain h p sg where parts: "parts = (h, p, sg)" by (cases parts)
  have "token \<noteq> []" using Some by auto
  then show ?thesis
    by (auto simp: verifyAccessToken_def signed_by_def Some parts ok_iffs Let_def split: option.splits) blast+
qed

text \<open>
  C26: With a key set in its cache, a resource server accepts exactly the tokens that key set signed, with
  the configured issuer and audience, within their times up to the skew, and with every required
  scope; it then changes nothing and reports the claims and scopes of the token.
\<close>

theorem access_token_exact:
  assumes "sd_jwks s = Some jwks" and "truthy_value (Some jwks)"
  shows "verifyAccessToken N v token req s = (Inr t, s') \<longleftrightarrow>
    s' = s \<and> (\<exists>claims. signed_by N jwks token claims \<and> access_claims_ok v (sd_clock s div 1000) claims \<and>
      set (case req of None \<Rightarrow> [] | Some xs \<Rightarrow> xs) \<subseteq> set (normalizeScope claims) \<and> t = service_token_of claims)"
  by (auto simp: verifyAccessToken_ok verifierGetJwks_cached [OF assms])

section \<open>ID tokens\<close>

definition id_claims_ok :: "sdk_options \<Rightarrow> json option \<Rightarrow> string option \<Rightarrow> int \<Rightarrow> json \<Rightarrow> bool" where
  "id_claims_ok opts issuer nonce secs claims \<longleftrightarrow>
     same_value (json_prop claims ''iss'') issuer \<and>
     audience_matches (json_prop claims ''aud'') (so_clientId opts) \<and>
     (several_audiences (json_prop claims ''aud'') \<longrightarrow> json_prop claims ''azp'' = Some (JStr (so_clientId opts))) \<and>
     (\<exists>e. json_prop claims ''exp'' = Some (JNum e) \<and> secs < e) \<and>
     (truthy nonce \<longrightarrow> json_prop claims ''nonce'' = Some (JStr (the nonce)))"

lemma number_above: "(number_of c \<noteq> None \<and> b < the (number_of c)) \<longleftrightarrow> (\<exists>e. c = Some (JNum e) \<and> b < e)"
  by (cases "number_of c") (auto simp flip: number_of_Some)

lemma id_token_claims_ok [ok_iffs]: "id_token_claims opts d nonce claims s = (Inr x, s') \<longleftrightarrow>
    claims \<noteq> JNull \<and> d \<noteq> JNull \<and> id_claims_ok opts (json_prop d ''issuer'') nonce (sd_clock s div 1000) claims \<and>
    json_prop claims ''sub'' = Some (JStr (vi_sub x)) \<and> vi_email x = string_of (json_prop claims ''email'') \<and>
    vi_emailVerified x = bool_of (json_prop claims ''email_verified'') \<and> vi_claims x = claims \<and> s' = s"
  by (cases x) (auto simp: id_token_claims_def id_claims_ok_def ok_iffs Let_def number_above)

lemma verifyIdToken_ok: "verifyIdToken N opts token nonce s = (Inr x, s') \<longleftrightarrow>
    (\<exists>d u jwks. getDiscovery N (so_issuer opts) s = (Inr d, u) \<and> getJwks N (so_issuer opts) u = (Inr jwks, s') \<and>
       signed_by N jwks token (vi_claims x) \<and>
       id_token_claims opts d nonce (vi_claims x) s' = (Inr x, s'))"
proof (cases "token_parts token")
  case None
  then show ?thesis by (auto simp: verifyIdToken_def signed_by_def ok_iffs)
next
  case (Some parts)
  obtain h p sg where parts: "parts = (h, p, sg)" by (cases parts)
  show ?thesis
    by (auto simp: verifyIdToken_def signed_by_def Some parts ok_iffs split: option.splits) blast+
qed

section \<open>What every operation keeps\<close>

text \<open>A cached document stays cached, the clock is read only, requests are only added.\<close>

definition sdk_grows :: "sdk_state \<Rightarrow> sdk_state \<Rightarrow> bool" where
  "sdk_grows s s' \<longleftrightarrow> (\<forall>d. sd_discovery s = Some d \<longrightarrow> truthy_value (Some d) \<longrightarrow> sd_discovery s' = Some d) \<and>
     (\<forall>j. sd_jwks s = Some j \<longrightarrow> truthy_value (Some j) \<longrightarrow> sd_jwks s' = Some j) \<and>
     sd_clock s' = sd_clock s \<and> (\<exists>rs. sd_sent s' = sd_sent s @ rs)"

lemma sdk_grows_refl [simp]: "sdk_grows s s"
  by (simp add: sdk_grows_def)

lemma sdk_grows_trans: "sdk_grows a b \<Longrightarrow> sdk_grows b c \<Longrightarrow> sdk_grows a c"
  by (auto simp: sdk_grows_def)

interpretation sdk_order: effect_order sdk_grows
  by unfold_locales (auto intro: sdk_grows_trans)

lemma grows_sdk_request [safe_intros]: "safe sdk_grows (sdk_request N r)"
  by (rule safeI) (auto simp: sdk_request_def Let_def sdk_grows_def split: http_outcome.split)

lemma grows_get_prop [safe_intros]: "safe sdk_grows (get_prop v k)"
  by (auto simp: get_prop_def intro!: safe_intros)

lemma grows_requestJson [safe_intros]: "safe sdk_grows (requestJson N r)"
  by (auto simp: requestJson_def intro!: safe_intros)

text \<open>Filling a cache that holds nothing true keeps what was cached.\<close>

lemma fill_grows:
  "sdk_grows s u \<Longrightarrow> \<not> truthy_value (sd_discovery s) \<Longrightarrow> sdk_grows s (u\<lparr>sd_discovery := x\<rparr>)"
  "sdk_grows s u \<Longrightarrow> \<not> truthy_value (sd_jwks s) \<Longrightarrow> sdk_grows s (u\<lparr>sd_jwks := x\<rparr>)"
  by (auto simp: sdk_grows_def)

lemma safe_fill:
  assumes "safe sdk_grows m" and "\<And>u x. sdk_grows s u \<Longrightarrow> sdk_grows s (f x u)"
  shows "sdk_grows s (snd (bind m (\<lambda>j. bind (modify (f j)) (\<lambda>_. ret j)) s))"
proof -
  obtain q u where q: "m s = (q, u)" by fastforce
  have "sdk_grows s u" by (rule safe_run [OF assms(1) q])
  with q assms(2) show ?thesis by (cases q) (auto simp: run_simps)
qed

lemma grows_getDiscovery [safe_intros]: "safe sdk_grows (getDiscovery N i)"
proof (rule safeI)
  fix s
  have "\<not> truthy_value (sd_discovery s) \<Longrightarrow> sdk_grows s (snd (bind
      (requestJson N (get_request (without_slash i @ ''/.well-known/openid-configuration'')))
      (\<lambda>j. bind (modify (\<lambda>s. s\<lparr>sd_discovery := Some j\<rparr>)) (\<lambda>_. ret j)) s))"
    by (rule safe_fill) (auto intro: grows_requestJson fill_grows)
  then show "sdk_grows s (snd (getDiscovery N i s))"
    by (cases "truthy_value (sd_discovery s)") (simp_all add: getDiscovery_def run_simps)
qed

lemma sdk_bind_assoc: "bind (bind m f) g = bind m (\<lambda>x. bind (f x) g)"
  by (rule ext) (simp add: bind_def split: prod.split sum.split)

lemma bind_gets: "bind (gets f) g s = g (f s) s"
  by (simp add: run_simps)

lemma grows_getJwks [safe_intros]: "safe sdk_grows (getJwks N i)"
proof (rule safeI)
  fix s
  have "safe sdk_grows (bind (getDiscovery N i) (\<lambda>discovery.
      bind (get_prop discovery ''jwks_uri'') (\<lambda>uri. requestJson N (get_request (prop_text uri)))))"
    by (intro safe_intros)
  then have "\<not> truthy_value (sd_jwks s) \<Longrightarrow> sdk_grows s (snd (bind (bind (getDiscovery N i) (\<lambda>discovery.
      bind (get_prop discovery ''jwks_uri'') (\<lambda>uri. requestJson N (get_request (prop_text uri)))))
      (\<lambda>j. bind (modify (\<lambda>s. s\<lparr>sd_jwks := Some j\<rparr>)) (\<lambda>_. ret j)) s))"
    by (rule safe_fill) (auto intro: fill_grows)
  then show "sdk_grows s (snd (getJwks N i s))"
    by (cases "truthy_value (sd_jwks s)") (simp_all add: getJwks_def bind_gets sdk_bind_assoc ret_run)
qed

lemmas sdk_defs = postForm_def postFormVoid_def exchangeCode_def endpoint_or_def getUserInfo_def
  revokeToken_def createLogoutUrl_def url_with_def

lemma grows_operations [safe_intros]:
  "safe sdk_grows (exchangeCode N opts c r v)" "safe sdk_grows (getUserInfo N opts a)"
  "safe sdk_grows (revokeToken N opts t h)" "safe sdk_grows (createLogoutUrl N opts p q st)"
  unfolding sdk_defs by (intro safe_intros)+

text \<open>What a document fetch returns is what the cache holds afterwards.\<close>

lemma getDiscovery_caches: "getDiscovery N i s = (Inr d, s') \<Longrightarrow> sd_discovery s' = Some d"
  by (cases "sd_discovery s") (auto simp: getDiscovery_def truthy_value_def ok_iffs split: if_splits)

lemma getJwks_caches: "getJwks N i s = (Inr j, s') \<Longrightarrow> sd_jwks s' = Some j"
  by (cases "sd_jwks s") (auto simp: getJwks_def truthy_value_def ok_iffs split: if_splits)

section \<open>Callbacks\<close>

lemma same_value_Some: "same_value (Some j) issuer \<Longrightarrow> issuer = Some j"
  by (cases j; cases issuer) auto

text \<open>A verified ID token, seen from any later state of the client.\<close>

lemma verifyIdToken_sound:
  assumes verified: "verifyIdToken N opts token nonce u = (Inr x, w)" and later: "sdk_grows w s'"
  shows "\<exists>jwks claims. sd_jwks s' = Some jwks \<and> signed_by N jwks token claims \<and>
      (\<forall>j. json_prop claims ''iss'' = Some j \<longrightarrow>
         (\<exists>d. sd_discovery s' = Some d \<and> json_prop d ''issuer'' = Some j)) \<and>
      (\<exists>issuer. id_claims_ok opts issuer nonce (sd_clock s' div 1000) claims) \<and>
      json_prop claims ''sub'' = Some (JStr (vi_sub x))"
proof -
  obtain d v jwks where d: "getDiscovery N (so_issuer opts) u = (Inr d, v)"
    and jwks: "getJwks N (so_issuer opts) v = (Inr jwks, w)"
    and signed: "signed_by N jwks token (vi_claims x)"
    and claims: "id_token_claims opts d nonce (vi_claims x) w = (Inr x, w)"
    using verified unfolding verifyIdToken_ok by blast
  have grows: "sdk_grows v s'"
    using sdk_grows_trans safe_run [OF grows_getJwks jwks] later by blast
  have "truthy_value (Some d)" if "json_prop d ''issuer'' = Some j" for j
    using that by (cases d) (auto simp: truthy_value_def)
  then have iss: "json_prop (vi_claims x) ''iss'' = Some j \<Longrightarrow>
      sd_discovery s' = Some d \<and> json_prop d ''issuer'' = Some j" for j
    using claims getDiscovery_caches [OF d] grows same_value_Some
    by (auto simp: id_token_claims_ok id_claims_ok_def sdk_grows_def)
  have "truthy_value (Some jwks)"
    using signed by (cases jwks) (auto simp: signed_by_def truthy_value_def)
  then have "sd_jwks s' = Some jwks" "sd_clock s' = sd_clock w"
    using getJwks_caches [OF jwks] later by (auto simp: sdk_grows_def)
  with signed iss claims show ?thesis by (auto simp: id_token_claims_ok)
qed

text \<open>
  C27: A callback that completes carried a code and the state the application had stored; the session it
  reports is that of the subject of an ID token that is signed by a key of the provider's key set, is
  issued by the provider for this client (alone, or with this client as authorized party), has not
  expired and carries the stored nonce.
\<close>

theorem callback_sound:
  assumes "completeAuthorizationCodeCallback N opts i s = (Inr r, s')"
  shows "ci_state i = Some (ci_expectedState i) \<and> truthy (ci_code i) \<and> truthy (ci_state i) \<and>
    (\<exists>jwks claims. sd_jwks s' = Some jwks \<and> signed_by N jwks (ts_idToken (cr_tokens r)) claims \<and>
      (\<forall>j. json_prop claims ''iss'' = Some j \<longrightarrow>
         (\<exists>d. sd_discovery s' = Some d \<and> json_prop d ''issuer'' = Some j)) \<and>
      (\<exists>issuer. id_claims_ok opts issuer (ci_expectedNonce i) (sd_clock s' div 1000) claims) \<and>
      json_prop claims ''sub'' = Some (JStr (si_userId (cr_sessionIdentity r))))"
proof -
  obtain tokens u x w where guard: "truthy (ci_code i)" "truthy (ci_state i)" "the (ci_state i) = ci_expectedState i"
    and verified: "verifyIdToken N opts (ts_idToken tokens) (ci_expectedNonce i) u = (Inr x, w)"
    and rest: "s' = w \<or> (\<exists>ui. getUserInfo N opts (ts_accessToken tokens) w = (Inr ui, s'))"
    and r: "cr_tokens r = tokens" "si_userId (cr_sessionIdentity r) = vi_sub x"
    using assms by (auto simp: completeAuthorizationCodeCallback_def toSessionIdentity_def Let_def ok_iffs split: if_splits)
  have "sdk_grows w s'"
    using rest safe_run [OF grows_operations(2)] by auto
  from verifyIdToken_sound [OF verified this] guard r show ?thesis by (auto simp: truthy_iff)
qed

text \<open>
  A callback without a code, without a state or with another state than the stored one is refused
  before anything is sent, and leaves the client as it was.
\<close>

theorem forged_callback_refused:
  assumes "\<not> (truthy (ci_code i) \<and> truthy (ci_state i) \<and> ci_state i = Some (ci_expectedState i))"
  shows "\<exists>message. completeAuthorizationCodeCallback N opts i s =
    (Inl (ServerSdkError ''oidc_invalid_callback'' message False), s)"
  using assms by (auto simp: completeAuthorizationCodeCallback_def invalid_callback_def throw_run truthy_iff)

section \<open>Logout\<close>

lemma revoke_if_given_total:
  obtains r ws where "revoke_if_given N opts t h l s =
      (Inr (r, ws), if truthy t then snd (revokeToken N opts (the t) (Some h) s) else s)"
    and "r \<noteq> None \<longleftrightarrow> truthy t \<and> \<not> isl (fst (revokeToken N opts (the t) (Some h) s))"
    and "ws = [] \<longleftrightarrow> (truthy t \<longrightarrow> r \<noteq> None)"
proof -
  obtain q u where q: "revokeToken N opts (the t) (Some h) s = (q, u)" by fastforce
  with that show ?thesis
    by (cases "truthy t"; cases q) (auto simp: revoke_if_given_def or_warning_def run_simps)
qed

lemma or_warning_total:
  obtains r ws where "or_warning l m s = (Inr (r, ws), snd (m s))" and "r = None \<longleftrightarrow> ws \<noteq> []"
  by (cases "m s"; cases "fst (m s)") (auto simp: or_warning_def run_simps)

text \<open>
  C40: A logout first asks the provider to revoke the tokens given, one after the other, whatever it
  answers, and then clears the local session in the state these requests left. When clearing fails the
  logout fails with that error; when it succeeds the logout always returns, with the session reported
  as cleared, the revocations as they went, and no warning exactly when each of them succeeded and, for
  a global logout, the address of the provider's logout is known.
\<close>

theorem logout_clears_locally:
  "let rt = li_refreshToken i; at = li_accessToken i;
       s1 = (if truthy rt then snd (revokeToken N opts (the rt) (Some ''refresh_token'') s) else s);
       s2 = (if truthy at then snd (revokeToken N opts (the at) (Some ''access_token'') s1) else s1) in
   case li_clearLocalSession i s2 of
     (Inl e, v) \<Rightarrow> logout N opts i s = (Inl e, v)
   | (Inr _, v) \<Rightarrow> \<exists>r. logout N opts i s =
       (Inr r, if li_global i then snd (createLogoutUrl N opts (li_postLogoutRedirectUri i) (li_idTokenHint i) (li_state i) v)
               else v) \<and> lr_localSessionCleared r \<and>
       (lr_refreshTokenRevoked r \<longleftrightarrow> truthy rt \<and> \<not> isl (fst (revokeToken N opts (the rt) (Some ''refresh_token'') s))) \<and>
       (lr_accessTokenRevoked r \<longleftrightarrow> truthy at \<and> \<not> isl (fst (revokeToken N opts (the at) (Some ''access_token'') s1))) \<and>
       (lr_warnings r = [] \<longleftrightarrow> (truthy rt \<longrightarrow> lr_refreshTokenRevoked r) \<and>
          (truthy at \<longrightarrow> lr_accessTokenRevoked r) \<and> (li_global i \<longrightarrow> lr_logoutUrl r \<noteq> None))"
proof -
  obtain a w1 where 1: "revoke_if_given N opts (li_refreshToken i) ''refresh_token'' ''refresh_token_revoke_failed'' s
      = (Inr (a, w1), if truthy (li_refreshToken i) then snd (revokeToken N opts (the (li_refreshToken i)) (Some ''refresh_token'') s) else s)"
      (is "_ = (_, ?s1)")
      "a \<noteq> None \<longleftrightarrow> truthy (li_refreshToken i) \<and> \<not> isl (fst (revokeToken N opts (the (li_refreshToken i)) (Some ''refresh_token'') s))"
      "w1 = [] \<longleftrightarrow> (truthy (li_refreshToken i) \<longrightarrow> a \<noteq> None)"
    by (rule revoke_if_given_total)
  obtain b w2 where 2: "revoke_if_given N opts (li_accessToken i) ''access_token'' ''access_token_revoke_failed'' ?s1
      = (Inr (b, w2), if truthy (li_accessToken i) then snd (revokeToken N opts (the (li_accessToken i)) (Some ''access_token'') ?s1) else ?s1)"
      (is "_ = (_, ?s2)")
      "b \<noteq> None \<longleftrightarrow> truthy (li_accessToken i) \<and> \<not> isl (fst (revokeToken N opts (the (li_accessToken i)) (Some ''access_token'') ?s1))"
      "w2 = [] \<longleftrightarrow> (truthy (li_accessToken i) \<longrightarrow> b \<noteq> None)"
    by (rule revoke_if_given_total)
  obtain x v where clear: "li_clearLocalSession i ?s2 = (x, v)" by fastforce
  obtain q w3 where 3: "or_warning ''global_logout_url_failed''
      (createLogoutUrl N opts (li_postLogoutRedirectUri i) (li_idTokenHint i) (li_state i)) v =
      (Inr (q, w3), snd (createLogoutUrl N opts (li_postLogoutRedirectUri i) (li_idTokenHint i) (li_state i) v))"
      "q = None \<longleftrightarrow> w3 \<noteq> []"
    by (rule or_warning_total)
  have run: "logout N opts i s = (case x of Inl e \<Rightarrow> (Inl e, v)
    | Inr _ \<Rightarrow> if li_global i
        then (Inr \<lparr>lr_localSessionCleared = True, lr_refreshTokenRevoked = (a \<noteq> None), lr_accessTokenRevoked = (b \<noteq> None),
                lr_logoutUrl = q, lr_warnings = w1 @ w2 @ w3\<rparr>,
              snd (createLogoutUrl N opts (li_postLogoutRedirectUri i) (li_idTokenHint i) (li_state i) v))
        else (Inr \<lparr>lr_localSessionCleared = True, lr_refreshTokenRevoked = (a \<noteq> None), lr_accessTokenRevoked = (b \<noteq> None),
                lr_logoutUrl = None, lr_warnings = w1 @ w2\<rparr>, v))"
    unfolding logout_def
    by (simp add: bind_run 1(1) 2(1) 3(1) clear ret_run split: sum.split)
  show ?thesis
    using 1(2,3) 2(2,3) 3(2) unfolding Let_def clear
    by (cases x; cases "li_global i"; cases "truthy (li_refreshToken i)"; cases "truthy (li_accessToken i)")
      (auto simp: run)
qed

section \<open>Keys that change\<close>

text \<open>
  The caches are never read again: once a key set without the key of a token is cached, the token is
  refused for ever, whatever key set the provider publishes by now.
\<close>

lemma rotated_key_refused:
  assumes "sd_jwks s = Some jwks" and "truthy_value (Some jwks)"
    and "token_parts token = Some (h, p, sg)" and "decodeJson h = Some header"
    and "json_prop header ''kid'' = Some (JStr kid)"
    and "json_prop jwks ''keys'' = Some (JArr keys)" and "\<forall>k \<in> set keys. json_prop k ''kid'' \<noteq> Some (JStr kid)"
  shows "fst (verifyAccessToken N v token req s) \<noteq> Inr t \<and> fst (verifyIdToken N opts token nonce s) \<noteq> Inr x"
proof -
  have no: "\<not> signed_by N jwks token claims" for claims
    using assms by (auto simp: signed_by_def offered_key_def)
  have "verifyAccessToken N v token req s \<noteq> (Inr t, s')" for s'
    using no assms by (auto simp: verifyAccessToken_ok verifierGetJwks_cached)
  moreover have "verifyIdToken N opts token nonce s \<noteq> (Inr x, s')" for s'
  proof
    assume "verifyIdToken N opts token nonce s = (Inr x, s')"
    then obtain d u jw where d: "getDiscovery N (so_issuer opts) s = (Inr d, u)"
      and jw: "getJwks N (so_issuer opts) u = (Inr jw, s')" and "signed_by N jw token (vi_claims x)"
      unfolding verifyIdToken_ok by blast
    moreover have "sd_jwks u = Some jwks"
      using safe_run [OF grows_getDiscovery d] assms by (simp add: sdk_grows_def)
    ultimately show False using no assms by (simp add: getJwks_cached)
  qed
  ultimately show ?thesis by (metis surjective_pairing)
qed

section \<open>A concrete provider\<close>

text \<open>A provider at \<open>i\<close> whose signatures are the letter \<open>s\<close>, and a client that has fetched nothing.\<close>

definition sample_jwt :: string where
  "sample_jwt = ''eyJhbGciOiJSUzI1NiIsImtpZCI6ImsifQ.eyJpc3MiOiJpIiwiYXVkIjoiYyIsImV4cCI6OSwic3ViIjoidSIsIm5vbmNlIjoibiJ9.cw''"

definition sample_key_set :: json where
  "sample_key_set = JObj [(''keys'', JArr [JObj [(''kid'', JStr ''k'')]])]"

definition sample_provider :: sdk_lib where
  "sample_provider = \<lparr>
     answer = (\<lambda>_ r. Responded 200 (Some (
       if rq_url r = ''i/.well-known/openid-configuration''
       then JObj [(''issuer'', JStr ''i''), (''token_endpoint'', JStr ''t''), (''jwks_uri'', JStr ''k'')]
       else if rq_url r = ''t''
       then JObj [(''id_token'', JStr sample_jwt), (''access_token'', JStr ''a''), (''expires_in'', JNum 60)]
       else sample_key_set))),
     sha256_digest = id,
     rsa_verify = (\<lambda>_ _ signature. Some (signature = ''s'')),
     with_params = (\<lambda>u ps. Some (u @ ''?'' @ form_encode ps))\<rparr>"

definition fresh_client :: sdk_state where
  "fresh_client = \<lparr>sd_discovery = None, sd_jwks = None, sd_sent = [], sd_clock = 5000, sd_drawn = 0, sd_bytes = (\<lambda>_. ''r'')\<rparr>"

definition sample_options :: sdk_options where
  "sample_options = \<lparr>so_issuer = ''i/'', so_clientId = ''c'', so_clientSecret = ''x''\<rparr>"

definition sample_callback :: "string option \<Rightarrow> callback_input" where
  "sample_callback st = \<lparr>ci_code = Some ''code'', ci_state = st, ci_expectedState = ''st'', ci_expectedNonce = Some ''n'',
     ci_redirectUri = ''r'', ci_codeVerifier = ''v'', ci_fetchUserInfo = False\<rparr>"

lemma sample_callback_run:
  "(case fst (completeAuthorizationCodeCallback sample_provider sample_options (sample_callback (Some ''st'')) fresh_client) of
     Inr r \<Rightarrow> si_userId (cr_sessionIdentity r) = ''u'' | Inl _ \<Rightarrow> False)"
  by code_simp

theorem callback_sound_witness:
  "\<exists>r s' jwks claims.
     completeAuthorizationCodeCallback sample_provider sample_options (sample_callback (Some ''st'')) fresh_client = (Inr r, s') \<and>
     signed_by sample_provider jwks (ts_idToken (cr_tokens r)) claims \<and>
     json_prop claims ''sub'' = Some (JStr ''u'') \<and> json_prop claims ''nonce'' = Some (JStr ''n'')"
proof -
  let ?run = "completeAuthorizationCodeCallback sample_provider sample_options (sample_callback (Some ''st'')) fresh_client"
  obtain r where r: "fst ?run = Inr r" "si_userId (cr_sessionIdentity r) = ''u''"
    using sample_callback_run by (cases "fst ?run") auto
  then have run: "?run = (Inr r, snd ?run)" by (metis prod.collapse)
  from callback_sound [OF run] r(2) run show ?thesis
    by (fastforce simp: id_claims_ok_def sample_callback_def)
qed

theorem forged_callback_refused_witness:
  "\<exists>message. completeAuthorizationCodeCallback sample_provider sample_options (sample_callback (Some ''other'')) fresh_client
     = (Inl (ServerSdkError ''oidc_invalid_callback'' message False), fresh_client)"
  by (rule forged_callback_refused) (simp add: sample_callback_def)

text \<open>A provider that never answers, and a session that is cleared by setting a mark.\<close>

definition clearing :: "unit sdk \<Rightarrow> logout_input" where
  "clearing c = \<lparr>li_global = False, li_refreshToken = None, li_accessToken = None, li_idTokenHint = None,
     li_postLogoutRedirectUri = None, li_state = None, li_clearLocalSession = c\<rparr>"

theorem logout_clears_locally_witness:
  "(\<exists>r v. logout (sample_provider\<lparr>answer := \<lambda>_ _. TimedOut\<rparr>) sample_options
       (clearing (modify (\<lambda>s. s\<lparr>sd_drawn := 7\<rparr>))) fresh_client = (Inr r, v) \<and> lr_localSessionCleared r \<and> sd_drawn v = 7) \<and>
   fst (logout (sample_provider\<lparr>answer := \<lambda>_ _. TimedOut\<rparr>) sample_options (clearing (throw type_error)) fresh_client) =
     Inl type_error"
  using logout_clears_locally [where i = "clearing (modify (\<lambda>s. s\<lparr>sd_drawn := 7\<rparr>))"
      and N = "sample_provider\<lparr>answer := \<lambda>_ _. TimedOut\<rparr>" and opts = sample_options and s = fresh_client]
    logout_clears_locally [where i = "clearing (throw type_error)"
      and N = "sample_provider\<lparr>answer := \<lambda>_ _. TimedOut\<rparr>" and opts = sample_options and s = fresh_client]
  by (auto simp: clearing_def modify_run throw_run)

definition sample_verifier :: verifier_options where
  "sample_verifier = verifier_with ''i'' ''c'' None None"

lemma sample_access_run:
  "fst (verifyAccessToken sample_provider sample_verifier sample_jwt None (fresh_client\<lparr>sd_jwks := Some sample_key_set\<rparr>))
    = Inr \<lparr>st_claims = JObj [(''iss'', JStr ''i''), (''aud'', JStr ''c''), (''exp'', JNum 9), (''sub'', JStr ''u''), (''nonce'', JStr ''n'')],
           st_scope = [], st_sub = Some ''u'', st_clientId = None\<rparr>"
  by code_simp

theorem access_token_exact_witness:
  "\<exists>claims. signed_by sample_provider sample_key_set sample_jwt claims \<and> access_claims_ok sample_verifier 5 claims \<and>
     json_prop claims ''sub'' = Some (JStr ''u'')"
proof -
  let ?s = "fresh_client\<lparr>sd_jwks := Some sample_key_set\<rparr>"
  let ?run = "verifyAccessToken sample_provider sample_verifier sample_jwt None ?s"
  obtain t where t: "fst ?run = Inr t" "st_sub t = Some ''u''"
    using sample_access_run by auto
  have run: "?run = (Inr t, snd ?run)" using t(1) by (metis prod.collapse)
  have cached: "sd_jwks ?s = Some sample_key_set" "truthy_value (Some sample_key_set)"
    by (simp_all add: truthy_value_def sample_key_set_def)
  from access_token_exact [OF cached, THEN iffD1, OF run] t(2) show ?thesis
    by (auto simp: fresh_client_def service_token_of_def)
qed

end
