(* ===== verification/EnvSchema.thy ===== *)
theory EnvSchema
  imports IdpEnv JsonText "HOL-Library.Monad_Syntax"
begin

text \<open>
  config/env.ts: \<open>loadEnv\<close> reads the settings from the process environment and refuses what the
  schema does not allow. Of zod the schema uses optional defaults, coercion of texts to numbers,
  bounds, enumerations and transformations; \<open>None\<close> stands for a recorded issue, whatever its text.
  Whether a text is a URL is the parameter \<open>url\<close>.
\<close>

section \<open>Numbers\<close>

text \<open>
  \<open>Number(text)\<close> followed by \<open>int()\<close>: white space around is dropped, the empty text is 0, and the rest is
  a decimal literal (sign, digits, fraction, exponent) or a hexadecimal, octal or binary one. The
  value is the exact one (doubles round it beyond 2^53), and a value that overflows is refused.
\<close>

fun digits_of :: "nat \<Rightarrow> string \<Rightarrow> nat list \<times> string" where
  "digits_of base [] = ([], [])"
| "digits_of base (c # cs) = (case hex_value c of
     Some v \<Rightarrow> if v < base then (let (ds, rest) = digits_of base cs in (v # ds, rest)) else ([], c # cs)
   | None \<Rightarrow> ([], c # cs))"

definition value_of :: "nat \<Rightarrow> nat list \<Rightarrow> nat" where
  "value_of base ds = fold (\<lambda>d n. n * base + d) ds 0"

definition exponent_of :: "string \<Rightarrow> int option" where
  "exponent_of s = (case s of
     [] \<Rightarrow> Some 0
   | c # cs \<Rightarrow>
       if c \<noteq> CHR ''e'' \<and> c \<noteq> CHR ''E'' then None
       else
         let negative = (cs \<noteq> [] \<and> hd cs = CHR ''-''); signed = (cs \<noteq> [] \<and> hd cs \<in> set ''+-'');
             (ds, rest) = digits_of 10 (if signed then tl cs else cs)
         in if ds = [] \<or> rest \<noteq> [] then None
            else Some (if negative then - int (value_of 10 ds) else int (value_of 10 ds)))"

definition scaled :: "nat \<Rightarrow> int \<Rightarrow> int option" where
  "scaled mantissa e =
     (if 0 \<le> e then Some (int mantissa * 10 ^ nat e)
      else if mantissa mod 10 ^ nat (- e) = 0 then Some (int (mantissa div 10 ^ nat (- e))) else None)"

definition decimal_integer :: "string \<Rightarrow> int option" where
  "decimal_integer s =
     (let (whole, rest) = digits_of 10 s;
          point = (rest \<noteq> [] \<and> hd rest = CHR ''.'');
          (fraction, rest') = (if point then digits_of 10 (tl rest) else ([], rest))
      in if whole = [] \<and> fraction = [] then None
         else case exponent_of rest' of
           None \<Rightarrow> None
         | Some e \<Rightarrow> scaled (value_of 10 (whole @ fraction)) (e - int (length fraction)))"

definition radix_integer :: "nat \<Rightarrow> string \<Rightarrow> int option" where
  "radix_integer base s = (let (ds, rest) = digits_of base s in
     if ds = [] \<or> rest \<noteq> [] then None else Some (int (value_of base ds)))"

definition js_integer :: "string \<Rightarrow> int option" where
  "js_integer text =
     (let s = js_trim text;
          n = (if s = [] then Some 0
               else if starts_with s ''0x'' \<or> starts_with s ''0X'' then radix_integer 16 (drop 2 s)
               else if starts_with s ''0o'' \<or> starts_with s ''0O'' then radix_integer 8 (drop 2 s)
               else if starts_with s ''0b'' \<or> starts_with s ''0B'' then radix_integer 2 (drop 2 s)
               else if hd s = CHR ''-'' then map_option uminus (decimal_integer (tl s))
               else if hd s = CHR ''+'' then decimal_integer (tl s)
               else decimal_integer s)
      in case n of None \<Rightarrow> None | Some v \<Rightarrow> if \<bar>v\<bar> < 2 ^ 1024 then Some v else None)"

section \<open>Fields\<close>

definition at_least :: "int \<Rightarrow> int \<Rightarrow> bool" where "at_least low n \<longleftrightarrow> low \<le> n"
definition between :: "int \<Rightarrow> int \<Rightarrow> int \<Rightarrow> bool" where "between low high n \<longleftrightarrow> low \<le> n \<and> n \<le> high"
definition any_int :: "int \<Rightarrow> bool" where "any_int n \<longleftrightarrow> True"

definition checked :: "('a \<Rightarrow> bool) \<Rightarrow> 'a \<Rightarrow> 'a option" where
  "checked ok v = (if ok v then Some v else None)"

definition coerced_int :: "(int \<Rightarrow> bool) \<Rightarrow> int \<Rightarrow> string option \<Rightarrow> int option" where
  "coerced_int ok fallback value = (case value of
     None \<Rightarrow> checked ok fallback
   | Some s \<Rightarrow> Option.bind (js_integer s) (checked ok))"

definition text_value :: "(string \<Rightarrow> bool) \<Rightarrow> string option \<Rightarrow> string option \<Rightarrow> string option" where
  "text_value ok fallback value = Option.bind (case value of None \<Rightarrow> fallback | Some s \<Rightarrow> Some s) (checked ok)"

definition one_of :: "string list \<Rightarrow> string \<Rightarrow> string option \<Rightarrow> string option" where
  "one_of values fallback value = checked (\<lambda>s. s \<in> set values) (case value of None \<Rightarrow> fallback | Some s \<Rightarrow> s)"

definition envBoolean :: "bool \<Rightarrow> string option \<Rightarrow> bool option" where
  "envBoolean defaultValue value = (case value of
     None \<Rightarrow> Some defaultValue
   | Some s \<Rightarrow>
       let normalized = to_lower (js_trim s) in
       if normalized \<in> set [''true'', ''1'', ''yes''] then Some True
       else if normalized \<in> set [''false'', ''0'', ''no''] then Some False
       else None)"

definition comma_parts :: "string \<Rightarrow> string list" where
  "comma_parts value = filter (\<lambda>v. 0 < length v) (map js_trim (js_split (CHR '','') value))"

definition comma_list :: "(string list \<Rightarrow> bool) \<Rightarrow> string \<Rightarrow> string option \<Rightarrow> string list option" where
  "comma_list ok fallback value =
     checked ok (comma_parts (case value of None \<Rightarrow> fallback | Some s \<Rightarrow> s))"

abbreviation nonempty :: "string \<Rightarrow> bool" where "nonempty s \<equiv> 1 \<le> length s"

section \<open>The schema\<close>

text \<open>The settings beyond those of the modelled services.\<close>

record server_env = app_env +
  PORT :: int
  OIDC_PORT :: int
  OIDC_ISSUER :: string
  OIDC_CLIENT_REDIRECT_URIS :: "string list"
  ARGON2_MEMORY_COST :: int
  ARGON2_TIME_COST :: int
  ARGON2_PARALLELISM :: int
  RATE_LIMIT_SIGNUP_PER_MIN :: int
  RATE_LIMIT_LOGIN_PER_MIN :: int
  RATE_LIMIT_OAUTH_PER_MIN :: int
  RATE_LIMIT_DISCOVERY_PER_MIN :: int
  MFA_ISSUER :: string
  RETENTION_JOB_LOCK_KEY :: int
  RETENTION_JOB_ENABLED :: bool
  ACCOUNT_DELETION_JOB_LOCK_KEY :: int
  ACCOUNT_DELETION_JOB_ENABLED :: bool
  RATE_LIMIT_ACCOUNT_DELETE_PER_HOUR :: int
  RATE_LIMIT_PROFILE_UPDATE_PER_10_MIN :: int
  LOG_LEVEL :: string
  RBAC_CACHE_ENABLED :: bool
  RBAC_CACHE_PERCENT :: int
  RBAC_CACHE_AUTH_TTL_SECONDS :: int
  RBAC_CACHE_ENT_TTL_SECONDS :: int
  RBAC_CACHE_NEGATIVE_TTL_SECONDS :: int
  TURNSTILE_VERIFY_URL :: string
  TURNSTILE_REQUIRED_ACTIONS :: "string list"
  TURNSTILE_ENFORCE_LOGIN_MODE :: string
  TURNSTILE_EXPECTED_HOSTNAME :: string
  DATABASE_URL :: string
  REDIS_URL :: string
  OTEL_EXPORTER_OTLP_ENDPOINT :: string
  GOOGLE_CLIENT_SECRET :: string
  WEBAUTHN_RP_NAME :: string
  WEBAUTHN_RP_ID :: string
  WEBAUTHN_ORIGIN :: string

definition parse_fields :: "(string \<Rightarrow> bool) \<Rightarrow> (string \<Rightarrow> string option) \<Rightarrow> server_env option" where
  "parse_fields url raw = do {
     node_env \<leftarrow> one_of [''development'', ''test'', ''production''] ''development'' (raw ''NODE_ENV'');
     port \<leftarrow> coerced_int (at_least 1) 3000 (raw ''PORT'');
     oidc_port \<leftarrow> coerced_int (at_least 1) 3001 (raw ''OIDC_PORT'');
     oidc_issuer \<leftarrow> text_value url (Some ''http://localhost:3001'') (raw ''OIDC_ISSUER'');
     oauth_client_id \<leftarrow> text_value nonempty (Some ''local-client'') (raw ''OAUTH_CLIENT_ID'');
     oauth_client_secret \<leftarrow> text_value nonempty (Some ''local-client-secret'') (raw ''OAUTH_CLIENT_SECRET'');
     oidc_client_redirect_uris \<leftarrow> comma_list (\<lambda>vs. vs \<noteq> [] \<and> list_all url vs) ''http://localhost:5173/callback'' (raw ''OIDC_CLIENT_REDIRECT_URIS'');
     access_token_ttl_seconds \<leftarrow> coerced_int (at_least 1) 900 (raw ''ACCESS_TOKEN_TTL_SECONDS'');
     refresh_token_ttl_seconds \<leftarrow> coerced_int (at_least 1) 2592000 (raw ''REFRESH_TOKEN_TTL_SECONDS'');
     argon2_memory_cost \<leftarrow> coerced_int (at_least 4096) 19456 (raw ''ARGON2_MEMORY_COST'');
     argon2_time_cost \<leftarrow> coerced_int (at_least 1) 2 (raw ''ARGON2_TIME_COST'');
     argon2_parallelism \<leftarrow> coerced_int (at_least 1) 1 (raw ''ARGON2_PARALLELISM'');
     rate_limit_signup_per_min \<leftarrow> coerced_int (at_least 1) 10 (raw ''RATE_LIMIT_SIGNUP_PER_MIN'');
     rate_limit_login_per_min \<leftarrow> coerced_int (at_least 1) 20 (raw ''RATE_LIMIT_LOGIN_PER_MIN'');
     rate_limit_oauth_per_min \<leftarrow> coerced_int (at_least 1) 60 (raw ''RATE_LIMIT_OAUTH_PER_MIN'');
     rate_limit_discovery_per_min \<leftarrow> coerced_int (at_least 1) 120 (raw ''RATE_LIMIT_DISCOVERY_PER_MIN'');
     mfa_issuer \<leftarrow> text_value nonempty (Some ''gxp-idProvider'') (raw ''MFA_ISSUER'');
     jwks_rotation_interval_hours \<leftarrow> coerced_int (at_least 1) 720 (raw ''JWKS_ROTATION_INTERVAL_HOURS'');
     jwks_grace_period_hours \<leftarrow> coerced_int (at_least 1) 72 (raw ''JWKS_GRACE_PERIOD_HOURS'');
     retention_audit_log_anonymize_days \<leftarrow> coerced_int (at_least 1) 365 (raw ''RETENTION_AUDIT_LOG_ANONYMIZE_DAYS'');
     retention_audit_log_delete_days \<leftarrow> coerced_int (at_least 1) 2555 (raw ''RETENTION_AUDIT_LOG_DELETE_DAYS'');
     retention_security_event_anonymize_days \<leftarrow> coerced_int (at_least 1) 90 (raw ''RETENTION_SECURITY_EVENT_ANONYMIZE_DAYS'');
     retention_security_event_delete_days \<leftarrow> coerced_int (at_least 1) 365 (raw ''RETENTION_SECURITY_EVENT_DELETE_DAYS'');
     retention_session_anonymize_days \<leftarrow> coerced_int (at_least 1) 30 (raw ''RETENTION_SESSION_ANONYMIZE_DAYS'');
     retention_session_delete_days \<leftarrow> coerced_int (at_least 1) 90 (raw ''RETENTION_SESSION_DELETE_DAYS'');
     retention_batch_chunk_size \<leftarrow> coerced_int (at_least 1) 500 (raw ''RETENTION_BATCH_CHUNK_SIZE'');
     retention_job_lock_key \<leftarrow> coerced_int any_int 91000101 (raw ''RETENTION_JOB_LOCK_KEY'');
     retention_job_enabled \<leftarrow> envBoolean True (raw ''RETENTION_JOB_ENABLED'');
     account_deletion_grace_days \<leftarrow> coerced_int (at_least 0) 30 (raw ''ACCOUNT_DELETION_GRACE_DAYS'');
     account_deletion_job_lock_key \<leftarrow> coerced_int any_int 91000102 (raw ''ACCOUNT_DELETION_JOB_LOCK_KEY'');
     account_deletion_job_enabled \<leftarrow> envBoolean True (raw ''ACCOUNT_DELETION_JOB_ENABLED'');
     rate_limit_account_delete_per_hour \<leftarrow> coerced_int (at_least 1) 3 (raw ''RATE_LIMIT_ACCOUNT_DELETE_PER_HOUR'');
     rate_limit_profile_update_per_10_min \<leftarrow> coerced_int (at_least 1) 30 (raw ''RATE_LIMIT_PROFILE_UPDATE_PER_10_MIN'');
     mfa_recovery_code_pepper \<leftarrow> text_value (\<lambda>s. 16 \<le> length s) (Some ''dev-mfa-recovery-pepper'') (raw ''MFA_RECOVERY_CODE_PEPPER'');
     mfa_recovery_code_count \<leftarrow> coerced_int (at_least 1) 10 (raw ''MFA_RECOVERY_CODE_COUNT'');
     mfa_recovery_code_length \<leftarrow> coerced_int (at_least 20) 20 (raw ''MFA_RECOVERY_CODE_LENGTH'');
     rate_limit_mfa_recovery_per_min \<leftarrow> coerced_int (at_least 1) 5 (raw ''RATE_LIMIT_MFA_RECOVERY_PER_MIN'');
     log_level \<leftarrow> one_of [''debug'', ''info'', ''warn'', ''error''] ''info'' (raw ''LOG_LEVEL'');
     admin_sod_enforced \<leftarrow> envBoolean False (raw ''ADMIN_SOD_ENFORCED'');
     metrics_enabled \<leftarrow> envBoolean True (raw ''METRICS_ENABLED'');
     metrics_bearer_token \<leftarrow> text_value (\<lambda>_. True) (Some []) (raw ''METRICS_BEARER_TOKEN'');
     rbac_cache_enabled \<leftarrow> envBoolean False (raw ''RBAC_CACHE_ENABLED'');
     rbac_cache_percent \<leftarrow> coerced_int (between 0 100) 0 (raw ''RBAC_CACHE_PERCENT'');
     rbac_cache_auth_ttl_seconds \<leftarrow> coerced_int (at_least 1) 30 (raw ''RBAC_CACHE_AUTH_TTL_SECONDS'');
     rbac_cache_ent_ttl_seconds \<leftarrow> coerced_int (at_least 1) 60 (raw ''RBAC_CACHE_ENT_TTL_SECONDS'');
     rbac_cache_negative_ttl_seconds \<leftarrow> coerced_int (at_least 1) 15 (raw ''RBAC_CACHE_NEGATIVE_TTL_SECONDS'');
     turnstile_enabled \<leftarrow> envBoolean False (raw ''TURNSTILE_ENABLED'');
     turnstile_secret_key \<leftarrow> text_value (\<lambda>_. True) (Some []) (raw ''TURNSTILE_SECRET_KEY'');
     turnstile_site_key \<leftarrow> text_value (\<lambda>_. True) (Some []) (raw ''TURNSTILE_SITE_KEY'');
     turnstile_verify_url \<leftarrow> text_value url (Some ''https://challenges.cloudflare.com/turnstile/v0/siteverify'') (raw ''TURNSTILE_VERIFY_URL'');
     turnstile_required_actions \<leftarrow> comma_list (list_all (\<lambda>v. v \<in> set [''signup'', ''password_reset'', ''login'', ''google_login''])) ''signup,password_reset'' (raw ''TURNSTILE_REQUIRED_ACTIONS'');
     turnstile_enforce_login_mode \<leftarrow> one_of [''off'', ''risk'', ''always''] ''risk'' (raw ''TURNSTILE_ENFORCE_LOGIN_MODE'');
     turnstile_expected_hostname \<leftarrow> text_value (\<lambda>_. True) (Some []) (raw ''TURNSTILE_EXPECTED_HOSTNAME'');
     bot_risk_window_seconds \<leftarrow> coerced_int (at_least 1) 600 (raw ''BOT_RISK_WINDOW_SECONDS'');
     bot_risk_login_threshold_per_window \<leftarrow> coerced_int (at_least 1) 20 (raw ''BOT_RISK_LOGIN_THRESHOLD_PER_WINDOW'');
     bot_risk_medium_watermark_percent \<leftarrow> coerced_int (between 1 100) 20 (raw ''BOT_RISK_MEDIUM_WATERMARK_PERCENT'');
     adaptive_mfa_enabled \<leftarrow> envBoolean False (raw ''ADAPTIVE_MFA_ENABLED'');
     adaptive_mfa_require_for_medium \<leftarrow> envBoolean True (raw ''ADAPTIVE_MFA_REQUIRE_FOR_MEDIUM'');
     adaptive_mfa_ip_failure_window_seconds \<leftarrow> coerced_int (at_least 1) 900 (raw ''ADAPTIVE_MFA_IP_FAILURE_WINDOW_SECONDS'');
     adaptive_mfa_ip_failure_high_threshold \<leftarrow> coerced_int (at_least 1) 20 (raw ''ADAPTIVE_MFA_IP_FAILURE_HIGH_THRESHOLD'');
     adaptive_mfa_impossible_travel_window_minutes \<leftarrow> coerced_int (at_least 1) 30 (raw ''ADAPTIVE_MFA_IMPOSSIBLE_TRAVEL_WINDOW_MINUTES'');
     adaptive_mfa_high_risk_ips \<leftarrow> comma_list (\<lambda>_. True) [] (raw ''ADAPTIVE_MFA_HIGH_RISK_IPS'');
     jwt_private_key \<leftarrow> text_value nonempty None (raw ''JWT_PRIVATE_KEY'');
     database_url \<leftarrow> text_value url None (raw ''DATABASE_URL'');
     redis_url \<leftarrow> text_value url None (raw ''REDIS_URL'');
     otel_exporter_otlp_endpoint \<leftarrow> text_value url (Some ''http://localhost:4318/v1/traces'') (raw ''OTEL_EXPORTER_OTLP_ENDPOINT'');
     google_client_id \<leftarrow> text_value nonempty None (raw ''GOOGLE_CLIENT_ID'');
     google_client_secret \<leftarrow> text_value nonempty None (raw ''GOOGLE_CLIENT_SECRET'');
     webauthn_rp_name \<leftarrow> text_value nonempty (Some ''gxp-idProvider'') (raw ''WEBAUTHN_RP_NAME'');
     webauthn_rp_id \<leftarrow> text_value nonempty (Some ''localhost'') (raw ''WEBAUTHN_RP_ID'');
     webauthn_origin \<leftarrow> text_value url (Some ''http://localhost:3000'') (raw ''WEBAUTHN_ORIGIN'');
     Some \<lparr>
       ACCESS_TOKEN_TTL_SECONDS = access_token_ttl_seconds,
       REFRESH_TOKEN_TTL_SECONDS = refresh_token_ttl_seconds,
       JWKS_ROTATION_INTERVAL_HOURS = jwks_rotation_interval_hours,
       JWKS_GRACE_PERIOD_HOURS = jwks_grace_period_hours,
       RETENTION_AUDIT_LOG_ANONYMIZE_DAYS = retention_audit_log_anonymize_days,
       RETENTION_AUDIT_LOG_DELETE_DAYS = retention_audit_log_delete_days,
       RETENTION_SECURITY_EVENT_ANONYMIZE_DAYS = retention_security_event_anonymize_days,
       RETENTION_SECURITY_EVENT_DELETE_DAYS = retention_security_event_delete_days,
       RETENTION_SESSION_ANONYMIZE_DAYS = retention_session_anonymize_days,
       RETENTION_SESSION_DELETE_DAYS = retention_session_delete_days,
       RETENTION_BATCH_CHUNK_SIZE = nat retention_batch_chunk_size,
       ACCOUNT_DELETION_GRACE_DAYS = account_deletion_grace_days,
       MFA_RECOVERY_CODE_PEPPER = mfa_recovery_code_pepper,
       MFA_RECOVERY_CODE_COUNT = nat mfa_recovery_code_count,
       MFA_RECOVERY_CODE_LENGTH = nat mfa_recovery_code_length,
       RATE_LIMIT_MFA_RECOVERY_PER_MIN = rate_limit_mfa_recovery_per_min,
       BOT_RISK_WINDOW_SECONDS = bot_risk_window_seconds,
       BOT_RISK_LOGIN_THRESHOLD_PER_WINDOW = bot_risk_login_threshold_per_window,
       BOT_RISK_MEDIUM_WATERMARK_PERCENT = bot_risk_medium_watermark_percent,
       ADAPTIVE_MFA_ENABLED = adaptive_mfa_enabled,
       ADAPTIVE_MFA_REQUIRE_FOR_MEDIUM = adaptive_mfa_require_for_medium,
       ADAPTIVE_MFA_HIGH_RISK_IPS = adaptive_mfa_high_risk_ips,
       ADAPTIVE_MFA_IP_FAILURE_WINDOW_SECONDS = adaptive_mfa_ip_failure_window_seconds,
       ADAPTIVE_MFA_IP_FAILURE_HIGH_THRESHOLD = nat adaptive_mfa_ip_failure_high_threshold,
       ADAPTIVE_MFA_IMPOSSIBLE_TRAVEL_WINDOW_MINUTES = adaptive_mfa_impossible_travel_window_minutes,
       GOOGLE_CLIENT_ID = google_client_id,
       OAUTH_CLIENT_ID = oauth_client_id,
       OAUTH_CLIENT_SECRET = oauth_client_secret,
       NODE_ENV = node_env,
       JWT_PRIVATE_KEY = jwt_private_key,
       METRICS_ENABLED = metrics_enabled,
       METRICS_BEARER_TOKEN = metrics_bearer_token,
       ADMIN_SOD_ENFORCED = admin_sod_enforced,
       TURNSTILE_ENABLED = turnstile_enabled,
       TURNSTILE_SECRET_KEY = turnstile_secret_key,
       TURNSTILE_SITE_KEY = turnstile_site_key,
       PORT = port,
       OIDC_PORT = oidc_port,
       OIDC_ISSUER = oidc_issuer,
       OIDC_CLIENT_REDIRECT_URIS = oidc_client_redirect_uris,
       ARGON2_MEMORY_COST = argon2_memory_cost,
       ARGON2_TIME_COST = argon2_time_cost,
       ARGON2_PARALLELISM = argon2_parallelism,
       RATE_LIMIT_SIGNUP_PER_MIN = rate_limit_signup_per_min,
       RATE_LIMIT_LOGIN_PER_MIN = rate_limit_login_per_min,
       RATE_LIMIT_OAUTH_PER_MIN = rate_limit_oauth_per_min,
       RATE_LIMIT_DISCOVERY_PER_MIN = rate_limit_discovery_per_min,
       MFA_ISSUER = mfa_issuer,
       RETENTION_JOB_LOCK_KEY = retention_job_lock_key,
       RETENTION_JOB_ENABLED = retention_job_enabled,
       ACCOUNT_DELETION_JOB_LOCK_KEY = account_deletion_job_lock_key,
       ACCOUNT_DELETION_JOB_ENABLED = account_deletion_job_enabled,
       RATE_LIMIT_ACCOUNT_DELETE_PER_HOUR = rate_limit_account_delete_per_hour,
       RATE_LIMIT_PROFILE_UPDATE_PER_10_MIN = rate_limit_profile_update_per_10_min,
       LOG_LEVEL = log_level,
       RBAC_CACHE_ENABLED = rbac_cache_enabled,
       RBAC_CACHE_PERCENT = rbac_cache_percent,
       RBAC_CACHE_AUTH_TTL_SECONDS = rbac_cache_auth_ttl_seconds,
       RBAC_CACHE_ENT_TTL_SECONDS = rbac_cache_ent_ttl_seconds,
       RBAC_CACHE_NEGATIVE_TTL_SECONDS = rbac_cache_negative_ttl_seconds,
       TURNSTILE_VERIFY_URL = turnstile_verify_url,
       TURNSTILE_REQUIRED_ACTIONS = turnstile_required_actions,
       TURNSTILE_ENFORCE_LOGIN_MODE = turnstile_enforce_login_mode,
       TURNSTILE_EXPECTED_HOSTNAME = turnstile_expected_hostname,
       DATABASE_URL = database_url,
       REDIS_URL = redis_url,
       OTEL_EXPORTER_OTLP_ENDPOINT = otel_exporter_otlp_endpoint,
       GOOGLE_CLIENT_SECRET = google_client_secret,
       WEBAUTHN_RP_NAME = webauthn_rp_name,
       WEBAUTHN_RP_ID = webauthn_rp_id,
       WEBAUTHN_ORIGIN = webauthn_origin\<rparr>
   }"

text \<open>\<open>superRefine\<close>: the conditions between settings. It adds issues, so one suffices to refuse.\<close>

definition refine_issue :: "server_env \<Rightarrow> bool" where
  "refine_issue env \<longleftrightarrow>
     NODE_ENV env = ''production'' \<and> JWT_PRIVATE_KEY env = ''dev-private-key'' \<or>
     NODE_ENV env = ''production'' \<and> MFA_RECOVERY_CODE_PEPPER env = ''dev-mfa-recovery-pepper'' \<or>
     NODE_ENV env = ''production'' \<and> METRICS_ENABLED env \<and> length (js_trim (METRICS_BEARER_TOKEN env)) = 0 \<or>
     TURNSTILE_ENABLED env \<and> length (js_trim (TURNSTILE_SECRET_KEY env)) = 0 \<or>
     TURNSTILE_ENABLED env \<and> length (js_trim (TURNSTILE_SITE_KEY env)) = 0 \<or>
     RETENTION_AUDIT_LOG_DELETE_DAYS env < RETENTION_AUDIT_LOG_ANONYMIZE_DAYS env \<or>
     RETENTION_SECURITY_EVENT_DELETE_DAYS env < RETENTION_SECURITY_EVENT_ANONYMIZE_DAYS env \<or>
     RETENTION_SESSION_DELETE_DAYS env < RETENTION_SESSION_ANONYMIZE_DAYS env"

definition loadEnv :: "(string \<Rightarrow> bool) \<Rightarrow> (string \<Rightarrow> string option) \<Rightarrow> err + server_env" where
  "loadEnv url rawEnv = (case parse_fields url rawEnv of
     None \<Rightarrow> Inl (PlainError ''Invalid environment variables'')
   | Some env \<Rightarrow>
       if refine_issue env then Inl (PlainError ''Invalid environment variables'') else Inr env)"

section \<open>What the services may rely on\<close>

definition positive_settings :: "server_env \<Rightarrow> int list" where
  "positive_settings env = [PORT env, OIDC_PORT env, ACCESS_TOKEN_TTL_SECONDS env, REFRESH_TOKEN_TTL_SECONDS env, 
        ARGON2_TIME_COST env, ARGON2_PARALLELISM env, RATE_LIMIT_SIGNUP_PER_MIN env, 
        RATE_LIMIT_LOGIN_PER_MIN env, RATE_LIMIT_OAUTH_PER_MIN env, RATE_LIMIT_DISCOVERY_PER_MIN env, 
        JWKS_ROTATION_INTERVAL_HOURS env, JWKS_GRACE_PERIOD_HOURS env, 
        RETENTION_AUDIT_LOG_ANONYMIZE_DAYS env, RETENTION_AUDIT_LOG_DELETE_DAYS env, 
        RETENTION_SECURITY_EVENT_ANONYMIZE_DAYS env, RETENTION_SECURITY_EVENT_DELETE_DAYS env, 
        RETENTION_SESSION_ANONYMIZE_DAYS env, RETENTION_SESSION_DELETE_DAYS env, 
        RATE_LIMIT_ACCOUNT_DELETE_PER_HOUR env, RATE_LIMIT_PROFILE_UPDATE_PER_10_MIN env, 
        RATE_LIMIT_MFA_RECOVERY_PER_MIN env, RBAC_CACHE_AUTH_TTL_SECONDS env, RBAC_CACHE_ENT_TTL_SECONDS env, 
        RBAC_CACHE_NEGATIVE_TTL_SECONDS env, BOT_RISK_WINDOW_SECONDS env, 
        BOT_RISK_LOGIN_THRESHOLD_PER_WINDOW env, ADAPTIVE_MFA_IP_FAILURE_WINDOW_SECONDS env, 
        ADAPTIVE_MFA_IMPOSSIBLE_TRAVEL_WINDOW_MINUTES env]"

definition url_settings :: "server_env \<Rightarrow> string list" where
  "url_settings env = [OIDC_ISSUER env, TURNSTILE_VERIFY_URL env, DATABASE_URL env, REDIS_URL env, 
        OTEL_EXPORTER_OTLP_ENDPOINT env, WEBAUTHN_ORIGIN env] @ OIDC_CLIENT_REDIRECT_URIS env"

definition named_settings :: "server_env \<Rightarrow> string list" where
  "named_settings env = [OAUTH_CLIENT_ID env, OAUTH_CLIENT_SECRET env, MFA_ISSUER env, 
        JWT_PRIVATE_KEY env, GOOGLE_CLIENT_ID env, GOOGLE_CLIENT_SECRET env, WEBAUTHN_RP_NAME env, 
        WEBAUTHN_RP_ID env]"

definition listed :: "string list \<Rightarrow> bool" where
  "listed vs \<longleftrightarrow> (\<forall>v \<in> set vs. v \<noteq> [] \<and> CHR '','' \<notin> set v)"

definition settings_ok :: "(string \<Rightarrow> bool) \<Rightarrow> server_env \<Rightarrow> bool" where
  "settings_ok url env \<longleftrightarrow>
     (\<forall>n \<in> set (positive_settings env). 1 \<le> n) \<and> (\<forall>u \<in> set (url_settings env). url u) \<and>
     (\<forall>s \<in> set (named_settings env). s \<noteq> []) \<and>
     NODE_ENV env \<in> set [''development'', ''test'', ''production''] \<and>
     LOG_LEVEL env \<in> set [''debug'', ''info'', ''warn'', ''error''] \<and>
     TURNSTILE_ENFORCE_LOGIN_MODE env \<in> set [''off'', ''risk'', ''always''] \<and>
     (\<forall>v \<in> set (TURNSTILE_REQUIRED_ACTIONS env). v \<in> set [''signup'', ''password_reset'', ''login'', ''google_login'']) \<and>
     OIDC_CLIENT_REDIRECT_URIS env \<noteq> [] \<and> listed (OIDC_CLIENT_REDIRECT_URIS env) \<and> listed (ADAPTIVE_MFA_HIGH_RISK_IPS env) \<and>
     1 \<le> RETENTION_BATCH_CHUNK_SIZE env \<and> 1 \<le> MFA_RECOVERY_CODE_COUNT env \<and> 1 \<le> ADAPTIVE_MFA_IP_FAILURE_HIGH_THRESHOLD env \<and>
     20 \<le> MFA_RECOVERY_CODE_LENGTH env \<and> 16 \<le> length (MFA_RECOVERY_CODE_PEPPER env) \<and>
     4096 \<le> ARGON2_MEMORY_COST env \<and> 0 \<le> ACCOUNT_DELETION_GRACE_DAYS env \<and>
     0 \<le> RBAC_CACHE_PERCENT env \<and> RBAC_CACHE_PERCENT env \<le> 100 \<and>
     1 \<le> BOT_RISK_MEDIUM_WATERMARK_PERCENT env \<and> BOT_RISK_MEDIUM_WATERMARK_PERCENT env \<le> 100 \<and>
     (NODE_ENV env = ''production'' \<longrightarrow> JWT_PRIVATE_KEY env \<noteq> ''dev-private-key'' \<and>
        MFA_RECOVERY_CODE_PEPPER env \<noteq> ''dev-mfa-recovery-pepper'' \<and>
        (METRICS_ENABLED env \<longrightarrow> (\<exists>c \<in> set (METRICS_BEARER_TOKEN env). \<not> js_space c))) \<and>
     (TURNSTILE_ENABLED env \<longrightarrow> (\<exists>c \<in> set (TURNSTILE_SECRET_KEY env). \<not> js_space c) \<and>
        (\<exists>c \<in> set (TURNSTILE_SITE_KEY env). \<not> js_space c)) \<and>
     RETENTION_AUDIT_LOG_ANONYMIZE_DAYS env \<le> RETENTION_AUDIT_LOG_DELETE_DAYS env \<and>
     RETENTION_SECURITY_EVENT_ANONYMIZE_DAYS env \<le> RETENTION_SECURITY_EVENT_DELETE_DAYS env \<and>
     RETENTION_SESSION_ANONYMIZE_DAYS env \<le> RETENTION_SESSION_DELETE_DAYS env"

lemma checked_Some: "checked ok v = Some w \<longleftrightarrow> w = v \<and> ok v"
  by (auto simp: checked_def)

lemma coerced_int_Some: "coerced_int ok d v = Some n \<Longrightarrow> ok n"
  by (auto simp: coerced_int_def checked_Some bind_eq_Some_conv split: option.splits)

lemma text_value_Some: "text_value ok d v = Some s \<Longrightarrow> ok s"
  by (auto simp: text_value_def checked_Some bind_eq_Some_conv split: option.splits)

lemma one_of_Some: "one_of vs d v = Some s \<Longrightarrow> s \<in> set vs"
  by (auto simp: one_of_def checked_Some split: option.splits)

lemma set_js_trim: "set (js_trim s) \<subseteq> set s"
  by (auto simp: js_trim_def dest!: set_dropWhileD)

lemma not_blank: "js_trim s \<noteq> [] \<Longrightarrow> \<exists>c \<in> set s. \<not> js_space c"
  by (auto simp: js_trim_def dest: set_dropWhileD)

lemma comma_list_Some: "comma_list ok d v = Some vs \<Longrightarrow> ok vs \<and> listed vs"
  using set_js_trim js_split_parts
  by (fastforce simp: comma_list_def checked_Some comma_parts_def listed_def split: option.splits)

lemma lower_bounds: "Suc 0 \<le> nat i \<longleftrightarrow> 1 \<le> i" "20 \<le> nat i \<longleftrightarrow> 20 \<le> i" "Suc 0 \<le> length s \<longleftrightarrow> s \<noteq> []"
  by (auto simp: Suc_le_eq)

lemma bind_SomeE:
  assumes "Option.bind m f = Some y"
  obtains x where "m = Some x" and "f x = Some y"
  using assms by (auto simp: bind_eq_Some_conv)


definition sample_environment :: "string \<Rightarrow> string option" where
  "sample_environment = map_of
     [(''NODE_ENV'', ''production''), (''JWT_PRIVATE_KEY'', ''key''), (''DATABASE_URL'', ''postgres://db''),
      (''REDIS_URL'', ''redis://r''), (''GOOGLE_CLIENT_ID'', ''g''), (''GOOGLE_CLIENT_SECRET'', ''s''),
      (''MFA_RECOVERY_CODE_PEPPER'', ''0123456789abcdef''), (''METRICS_ENABLED'', '' No ''),
      (''PORT'', ''0x10''), (''RETENTION_SESSION_DELETE_DAYS'', ''1.2e2'')]"

lemma sample_settings:
  "(case loadEnv (\<lambda>u. u \<noteq> []) sample_environment of
      Inr env \<Rightarrow> PORT env = 16 \<and> RETENTION_SESSION_DELETE_DAYS env = 120 \<and> \<not> METRICS_ENABLED env \<and>
        RETENTION_BATCH_CHUNK_SIZE env = 500
    | Inl _ \<Rightarrow> False)"
  by code_simp


end
