(* ===== verification/WebRequests.thy ===== *)
theory WebRequests
  imports Bytes Platform JsonText
begin

text \<open>
  The HTTP layer of the identity server: cookies and the caller's address
  (utils/cookie.ts, utils/ip-address.ts), and the token, its source and the CSRF check of
  adapters/authenticated-endpoint-adapter.ts. Header values are texts.
\<close>

section \<open>Percent encoding\<close>

text \<open>\<open>encodeURIComponent\<close>.\<close>

definition percent :: "nat \<Rightarrow> string" where
  "percent n = [CHR ''%'', upper_hex (n div 16), upper_hex (n mod 16)]"

definition uri_char :: "char \<Rightarrow> string" where
  "uri_char c = (let n = of_char c :: nat in
     if 48 \<le> n \<and> n \<le> 57 \<or> 65 \<le> n \<and> n \<le> 90 \<or> 97 \<le> n \<and> n \<le> 122 \<or> c \<in> set [CHR ''-'', CHR ''_'', CHR ''.'', CHR ''!'', CHR ''~'', CHR ''*'', CHR 0x27, CHR ''('', CHR '')''] then [c]
     else concat (map (\<lambda>b. percent (of_char b)) (utf8_char c)))"

definition uri_encode :: "string \<Rightarrow> string" where
  "uri_encode s = concat (map uri_char s)"

text \<open>
  \<open>decodeURIComponent\<close>: nothing when it throws (a broken escape or a broken UTF-8 sequence). A
  character beyond Latin-1 becomes \<open>substitute\<close>.
\<close>

fun hex_pair :: "string \<Rightarrow> (nat \<times> string) option" where
  "hex_pair (p # a # b # rest) =
     (case (hex_value a, hex_value b) of
        (Some x, Some y) \<Rightarrow> if p = CHR ''%'' then Some (16 * x + y, rest) else None
      | _ \<Rightarrow> None)"
| "hex_pair _ = None"

fun hex_tail :: "nat \<Rightarrow> string \<Rightarrow> string option" where
  "hex_tail 0 s = Some s"
| "hex_tail (Suc k) s = (case hex_pair s of
     None \<Rightarrow> None
   | Some (b, rest) \<Rightarrow> if 0x80 \<le> b \<and> b \<le> 0xBF then hex_tail k rest else None)"

lemma hex_pair_length: "hex_pair s = Some (b, rest) \<Longrightarrow> length rest < length s"
  by (induction s rule: hex_pair.induct) (auto split: option.splits if_splits)

lemma hex_tail_length: "hex_tail k s = Some rest \<Longrightarrow> length rest \<le> length s"
proof (induction k s rule: hex_tail.induct)
  case (2 k s)
  then show ?case
    by (cases "hex_pair s") (fastforce split: if_splits dest: hex_pair_length)+
qed simp

function uri_decode :: "string \<Rightarrow> string option" where
  "uri_decode [] = Some []"
| "uri_decode (c # cs) =
     (if c \<noteq> CHR ''%'' then map_option ((#) c) (uri_decode cs)
      else case hex_pair (c # cs) of
        None \<Rightarrow> None
      | Some (b, rest) \<Rightarrow>
          if b < 128 then map_option ((#) (char_of b)) (uri_decode rest)
          else case utf8_lead b of
            None \<Rightarrow> None
          | Some (lo, hi, k) \<Rightarrow>
              (case hex_pair rest of
                 None \<Rightarrow> None
               | Some (b', rest') \<Rightarrow>
                   if \<not> (lo \<le> b' \<and> b' \<le> hi) then None
                   else case hex_tail k rest' of
                     None \<Rightarrow> None
                   | Some rest'' \<Rightarrow>
                       (let n = (b - 192) * 64 + (b' - 128) in
                        map_option ((#) (if k = 0 \<and> n < 256 then char_of n else substitute))
                          (uri_decode rest''))))"
  by pat_completeness auto
termination
  by (relation "measure length") (auto dest!: hex_pair_length hex_tail_length)

section \<open>utils\<close>

record cookie_options =
  co_httpOnly :: bool
  co_secure :: bool
  co_sameSite :: "string option"
  co_path :: "string option"
  co_maxAge :: "int option"

definition serializeCookie :: "string \<Rightarrow> string \<Rightarrow> cookie_options \<Rightarrow> string" where
  "serializeCookie name value options = js_join ''; '' (
     [name @ ''='' @ uri_encode value,
      ''Path='' @ (case co_path options of None \<Rightarrow> ''/'' | Some p \<Rightarrow> p)] @
     (if co_httpOnly options then [''HttpOnly''] else []) @
     (if co_secure options then [''Secure''] else []) @
     (if truthy (co_sameSite options) then [''SameSite='' @ the (co_sameSite options)] else []) @
     (case co_maxAge options of None \<Rightarrow> [] | Some n \<Rightarrow> [''Max-Age='' @ show_int (max 0 n)]))"

definition clearCookie :: "string \<Rightarrow> bool \<Rightarrow> string" where
  "clearCookie name secure = serializeCookie name []
     \<lparr>co_httpOnly = (name = ''idp_access_token''), co_secure = secure, co_sameSite = Some ''Lax'',
      co_path = Some ''/'', co_maxAge = Some 0\<rparr>"

definition getIpAddress :: "string option \<Rightarrow> string option" where
  "getIpAddress headerValue =
     (if \<not> truthy headerValue then None
      else case js_split (CHR '','') (the headerValue) of
        first # _ \<Rightarrow> if first = [] then None else Some (js_trim first)
      | [] \<Rightarrow> None)"

section \<open>The adapter for authenticated endpoints\<close>

definition authHeaderPrefix :: string where "authHeaderPrefix = ''Bearer ''"
definition accessTokenCookieName :: string where "accessTokenCookieName = ''idp_access_token''"
definition csrfTokenCookieName :: string where "csrfTokenCookieName = ''idp_csrf_token''"

datatype token_source = FromBearer | FromCookie

definition cookie_pair :: "string \<Rightarrow> (string \<times> string) option" where
  "cookie_pair pair =
     (if CHR ''='' \<notin> set pair then None
      else
        let index = length (takeWhile (\<lambda>c. c \<noteq> CHR ''='') pair);
            key = js_trim (take index pair);
            value = js_trim (drop (index + 1) pair)
        in if index = 0 \<or> key = [] then None
           else Some (key, case uri_decode value of None \<Rightarrow> value | Some v \<Rightarrow> v))"

definition add_cookie :: "string \<Rightarrow> (string \<Rightarrow> string option) \<Rightarrow> (string \<Rightarrow> string option)" where
  "add_cookie pair cookies = (case cookie_pair pair of None \<Rightarrow> cookies | Some (k, v) \<Rightarrow> cookies(k := Some v))"

definition parseCookieHeader :: "string option \<Rightarrow> (string \<Rightarrow> string option)" where
  "parseCookieHeader cookieHeader =
     (if \<not> truthy cookieHeader then (\<lambda>_. None)
      else fold add_cookie (js_split (CHR '';'') (the cookieHeader)) (\<lambda>_. None))"

definition unauthorized :: "string \<Rightarrow> err" where
  "unauthorized message = ApiError 401 ''unauthorized'' message"

definition getTokenFromRequest :: "string option \<Rightarrow> string option \<Rightarrow> err + (string \<times> token_source)" where
  "getTokenFromRequest authorization cookieHeader =
     (if (case authorization of None \<Rightarrow> False | Some a \<Rightarrow> starts_with a authHeaderPrefix) then
        let token = js_trim (drop (length authHeaderPrefix) (the authorization)) in
        if length token < 16 then Inl (unauthorized ''Invalid bearer token'') else Inr (token, FromBearer)
      else
        case parseCookieHeader cookieHeader accessTokenCookieName of
          None \<Rightarrow> Inl (unauthorized ''Missing access token'')
        | Some token \<Rightarrow>
            if token = [] \<or> length token < 16 then Inl (unauthorized ''Missing access token'')
            else Inr (token, FromCookie))"

definition isSafeMethod :: "string \<Rightarrow> bool" where
  "isSafeMethod method \<longleftrightarrow> method \<in> set [''GET'', ''HEAD'', ''OPTIONS'', ''TRACE'']"

definition csrf_ok :: "string \<Rightarrow> token_source \<Rightarrow> string option \<Rightarrow> string option \<Rightarrow> bool" where
  "csrf_ok method source cookieHeader csrfHeader \<longleftrightarrow>
     source \<noteq> FromCookie \<or> isSafeMethod method \<or>
     (let csrfCookie = parseCookieHeader cookieHeader csrfTokenCookieName in
      truthy csrfCookie \<and> truthy csrfHeader \<and> csrfCookie = csrfHeader)"

record web_request =
  wr_method :: string
  wr_authorization :: "string option"
  wr_cookie :: "string option"
  wr_csrf :: "string option"
  wr_contentType :: "string option"
  wr_body :: "json option"
  wr_form :: json

text \<open>
  The payload a handler's schema sees: \<open>c.req.json()\<close> with an empty object when it throws, or the
  parsed form. \<open>wr_body\<close> is the body as JSON when it is JSON.
\<close>

definition has_part :: "string \<Rightarrow> string \<Rightarrow> bool" where
  "has_part part s \<longleftrightarrow> list_ex (\<lambda>i. starts_with (drop i s) part) [0..<Suc (length s)]"

definition readPayload :: "web_request \<Rightarrow> json" where
  "readPayload r =
     (let json_body = (case wr_body r of None \<Rightarrow> JObj [] | Some j \<Rightarrow> j);
          contentType = (case wr_contentType r of None \<Rightarrow> [] | Some t \<Rightarrow> t) in
      if wr_method r = ''GET'' \<or> wr_method r = ''HEAD'' then JObj []
      else if has_part ''application/json'' contentType then json_body
      else if has_part ''application/x-www-form-urlencoded'' contentType \<or> has_part ''multipart/form-data'' contentType
      then wr_form r
      else json_body)"

text \<open>
  The endpoint: token, CSRF check, authentication, validation, handler, in this order. The schema
  is a parameter, nothing when it reports issues.
\<close>

definition authenticated_endpoint ::
    "(json \<Rightarrow> 'p option) \<Rightarrow> (string \<Rightarrow> (uuid \<times> uuid) io) \<Rightarrow> ('p \<Rightarrow> uuid \<times> uuid \<Rightarrow> 'a io) \<Rightarrow> web_request \<Rightarrow> 'a io" where
  "authenticated_endpoint schema authenticate handler r =
     (case getTokenFromRequest (wr_authorization r) (wr_cookie r) of
        Inl e \<Rightarrow> throw e
      | Inr (token, source) \<Rightarrow>
          if \<not> csrf_ok (wr_method r) source (wr_cookie r) (wr_csrf r)
          then throw (ApiError 403 ''csrf_invalid'' ''Invalid CSRF token'')
          else
            bind (authenticate token) (\<lambda>auth.
            case schema (readPayload r) of
              None \<Rightarrow> throw (ApiError 400 ''validation_error'' [])
            | Some payload \<Rightarrow> handler payload auth))"

text \<open>adapters/public-endpoint-adapter.ts, which reads JSON bodies only.\<close>

definition public_payload :: "web_request \<Rightarrow> json" where
  "public_payload r = (if wr_method r = ''GET'' \<or> wr_method r = ''HEAD'' then JObj []
     else case wr_body r of None \<Rightarrow> JObj [] | Some j \<Rightarrow> j)"

definition public_endpoint :: "(json \<Rightarrow> 'p option) \<Rightarrow> ('p \<Rightarrow> 'a io) \<Rightarrow> web_request \<Rightarrow> 'a io" where
  "public_endpoint schema handler r = (case schema (public_payload r) of
     None \<Rightarrow> throw (ApiError 400 ''validation_error'' []) | Some payload \<Rightarrow> handler payload)"

end
