(* ===== verification/WebRequestsFacts.thy ===== *)
theory WebRequestsFacts
  imports WebRequests Returns IdpTokens
begin

text \<open>
  Cookies the server sets are read back, and the endpoints for signed-in users run their handler
  only behind a token and, for cookies, the CSRF token.
\<close>

section \<open>Percent encoding is undone\<close>

lemma hex_pair_percent: "n < 256 \<Longrightarrow> hex_pair (percent n @ rest) = Some (n, rest)"
  by (simp add: percent_def hex_value_upper less_mult_imp_div_less)

lemma uri_decode_byte: "n < 128 \<Longrightarrow> uri_decode (percent n @ rest) = map_option ((#) (char_of n)) (uri_decode rest)"
  using hex_pair_percent [of n rest] by (simp add: percent_def)

lemma uri_decode_two:
  assumes "128 \<le> n" and "n < 256"
  shows "uri_decode (percent (192 + n div 64) @ percent (128 + n mod 64) @ rest) =
    map_option ((#) (char_of n)) (uri_decode rest)"
proof -
  have lead: "utf8_lead (192 + n div 64) = Some (0x80, 0xBF, 0)"
  proof -
    have "2 \<le> n div 64" using div_le_mono [OF assms(1), of 64] by simp
    moreover have "n div 64 < 4" using assms(2) by (simp add: less_mult_imp_div_less)
    moreover have "utf8_lead (192 + m) = Some (0x80, 0xBF, 0)" if "2 \<le> m" "m < 4" for m
      using that by (simp add: utf8_lead_def)
    ultimately show ?thesis by blast
  qed
  have "hex_pair (percent (192 + n div 64) @ percent (128 + n mod 64) @ rest) =
      Some (192 + n div 64, percent (128 + n mod 64) @ rest)"
    "hex_pair (percent (128 + n mod 64) @ rest) = Some (128 + n mod 64, rest)"
    using assms by (auto intro!: hex_pair_percent)
  moreover have "n mod 64 \<le> 63" using mod_less_divisor [of 64 n] by linarith
  moreover obtain a b where p: "percent (192 + n div 64) = [CHR ''%'', a, b]"
    by (simp add: percent_def)
  ultimately show ?thesis
    using lead assms unfolding p by (simp del: hex_pair.simps)
qed

lemma uri_decode_char: "uri_decode (uri_char c @ rest) = map_option ((#) c) (uri_decode rest)"
proof -
  let ?n = "of_char c :: nat"
  have n: "?n < 256" by simp
  show ?thesis
  proof (cases "uri_char c = [c]")
    case True
    then have "c \<noteq> CHR ''%''" by (auto simp: uri_char_def percent_def utf8_char_def)
    with True show ?thesis by simp
  next
    case False
    then have "uri_char c = concat (map (\<lambda>b. percent (of_char b)) (utf8_char c))"
      by (auto simp: uri_char_def Let_def split: if_splits)
    then show ?thesis
      using uri_decode_byte [of ?n rest] uri_decode_two [of ?n rest] n
      by (cases "?n < 128") (auto simp: utf8_char_def Let_def)
  qed
qed

lemma uri_round_trip: "uri_decode (uri_encode s) = Some s"
  by (induction s) (simp_all add: uri_encode_def uri_decode_char)

text \<open>An encoded text has no separator of the cookie syntax and no white space.\<close>

definition cookie_safe :: "char \<Rightarrow> bool" where
  "cookie_safe c \<longleftrightarrow> c \<noteq> CHR '';'' \<and> \<not> js_space c"

lemma percent_safe: "n < 256 \<Longrightarrow> c \<in> set (percent n) \<Longrightarrow> cookie_safe c"
proof -
  have "m < 16 \<Longrightarrow> cookie_safe (upper_hex m)" for m
    by (frule upper_hex_digit, drule hex_digit_cases, elim insertE emptyE)
      (simp_all add: cookie_safe_def js_space_def)
  moreover have "cookie_safe (CHR ''%'')" by (simp add: cookie_safe_def js_space_def)
  ultimately show "n < 256 \<Longrightarrow> c \<in> set (percent n) \<Longrightarrow> cookie_safe c"
    by (auto simp: percent_def less_mult_imp_div_less)
qed

lemma uri_encode_safe: "c \<in> set (uri_encode s) \<Longrightarrow> cookie_safe c"
proof -
  have "cookie_safe c" if "c \<in> set (uri_char x)" for x
  proof (cases "uri_char x = [x]")
    case True
    with that have "c = x" by simp
    show ?thesis
    proof (rule ccontr)
      assume "\<not> cookie_safe c"
      then have "x = CHR '';'' \<or> x = CHR '' '' \<or> x = CHR 0x09 \<or> x = CHR 0x0A \<or> x = CHR 0x0B \<or>
          x = CHR 0x0C \<or> x = CHR 0x0D \<or> x = CHR 0xA0"
        by (simp add: \<open>c = x\<close> cookie_safe_def js_space_def)
      then show False
        using True by (elim disjE) (simp_all add: uri_char_def utf8_char_def percent_def)
    qed
  next
    case False
    then have "uri_char x = concat (map (\<lambda>b. percent (of_char b)) (utf8_char x))"
      by (auto simp: uri_char_def Let_def split: if_splits)
    with that obtain b where "c \<in> set (percent (of_char b))" by auto
    moreover have "(of_char b :: nat) < 256" by simp
    ultimately show ?thesis using percent_safe by blast
  qed
  then show "c \<in> set (uri_encode s) \<Longrightarrow> cookie_safe c" by (auto simp: uri_encode_def)
qed


section \<open>Cookies are read back\<close>

definition cookie_name :: "string \<Rightarrow> bool" where
  "cookie_name k \<longleftrightarrow> k \<noteq> [] \<and> (\<forall>c \<in> set k. cookie_safe c \<and> c \<noteq> CHR ''='')"

text \<open>The \<open>Cookie\<close> header a browser sends for cookies the server set.\<close>

definition cookie_text :: "string \<times> string \<Rightarrow> string" where
  "cookie_text kv = fst kv @ ''='' @ uri_encode (snd kv)"

definition cookie_header :: "(string \<times> string) list \<Rightarrow> string" where
  "cookie_header kvs = js_join ''; '' (map cookie_text kvs)"

lemma js_trim_clean: "(\<forall>c \<in> set s. \<not> js_space c) \<Longrightarrow> js_trim s = s"
proof -
  have "(\<forall>c \<in> set s. \<not> js_space c) \<Longrightarrow> dropWhile js_space s = s" for s
    by (cases s) auto
  from this [of s] this [of "rev s"]
  show "(\<forall>c \<in> set s. \<not> js_space c) \<Longrightarrow> js_trim s = s" by (simp add: js_trim_def)
qed

lemma js_trim_space: "js_trim (CHR '' '' # s) = js_trim s"
  by (simp add: js_trim_def js_space_def)

lemma takeWhile_name: "cookie_name k \<Longrightarrow> takeWhile (\<lambda>c. c \<noteq> CHR ''='') (k @ CHR ''='' # v) = k"
  by (auto simp: cookie_name_def takeWhile_append)

lemma cookie_pair_text:
  assumes "cookie_name k"
  shows "cookie_pair (cookie_text (k, v)) = Some (k, v)" "cookie_pair (CHR '' '' # cookie_text (k, v)) = Some (k, v)"
proof -
  have encoded: "js_trim (uri_encode v) = uri_encode v"
    using uri_encode_safe by (intro js_trim_clean) (auto simp: cookie_safe_def)
  have key: "js_trim k = k" "k \<noteq> []"
    using assms by (auto simp: cookie_name_def cookie_safe_def intro!: js_trim_clean)
  show "cookie_pair (cookie_text (k, v)) = Some (k, v)"
    "cookie_pair (CHR '' '' # cookie_text (k, v)) = Some (k, v)"
    using assms by (simp_all add: cookie_pair_def cookie_text_def takeWhile_name encoded key uri_round_trip js_trim_space)
qed

lemma join_first_char: "js_join sep ((c # s) # xs) = c # js_join sep (s # xs)"
  by (cases xs) simp_all

lemma join_semicolon:
  "js_join ''; '' (x # xs) = js_join '';'' (x # map ((#) (CHR '' '')) xs)"
  by (induction xs arbitrary: x) (simp_all add: join_first_char)

text \<open>
  Every cookie the server sets comes back from the header with its value, whatever characters the
  value has; of two cookies of one name the last one counts.
\<close>

theorem cookies_round_trip:
  assumes "kvs \<noteq> []" and "\<forall>kv \<in> set kvs. cookie_name (fst kv)"
  shows "parseCookieHeader (Some (cookie_header kvs)) = map_of (rev kvs)"
proof -
  obtain kv rest where kvs: "kvs = kv # rest" using assms(1) by (cases kvs) auto
  let ?pairs = "cookie_text kv # map (\<lambda>kv. CHR '' '' # cookie_text kv) rest"
  have clean: "CHR '';'' \<notin> set (cookie_text kv)" if "kv \<in> set kvs" for kv
    using assms(2) that uri_encode_safe by (auto simp: cookie_text_def cookie_name_def cookie_safe_def)
  have "js_split (CHR '';'') (cookie_header kvs) = ?pairs"
    unfolding cookie_header_def kvs list.map join_semicolon
    by (subst js_split_join) (use clean in \<open>auto simp: kvs comp_def\<close>)
  moreover have "fold add_cookie (map (\<lambda>kv. CHR '' '' # cookie_text kv) rs) m = m ++ map_of (rev rs)"
    if "\<forall>kv \<in> set rs. cookie_name (fst kv)" for rs m
    using that
    by (induction rs arbitrary: m)
      (auto simp: add_cookie_def cookie_pair_text map_add_def fun_eq_iff split: option.split)
  moreover have "cookie_header kvs \<noteq> []"
    by (cases rest) (auto simp: cookie_header_def kvs cookie_text_def)
  ultimately show ?thesis
    using assms(2) cookie_pair_text [of "fst kv" "snd kv"]
    by (cases kv) (auto simp: parseCookieHeader_def kvs add_cookie_def map_add_def fun_eq_iff split: option.split)
qed

theorem cookies_round_trip_witness:
  "parseCookieHeader (Some (cookie_header [(''idp_access_token'', ''a b;=%''), (''idp_csrf_token'', ''x'')])) ''idp_access_token''
     = Some ''a b;=%''"
  by (subst cookies_round_trip) (auto simp: cookie_name_def cookie_safe_def js_space_def)

section \<open>Endpoints for signed-in users\<close>

text \<open>The token of a request: that of its \<open>Authorization\<close> header when it has one, else its cookie.\<close>

definition presents :: "web_request \<Rightarrow> string \<Rightarrow> bool" where
  "presents r token \<longleftrightarrow> 16 \<le> length token \<and>
     (case wr_authorization r of
        Some a \<Rightarrow> if starts_with a authHeaderPrefix then token = js_trim (drop (length authHeaderPrefix) a)
                  else parseCookieHeader (wr_cookie r) accessTokenCookieName = Some token
      | None \<Rightarrow> parseCookieHeader (wr_cookie r) accessTokenCookieName = Some token)"

definition by_bearer :: "web_request \<Rightarrow> bool" where
  "by_bearer r \<longleftrightarrow> (\<exists>rest. wr_authorization r = Some (authHeaderPrefix @ rest))"

definition same_site :: "web_request \<Rightarrow> bool" where
  "same_site r \<longleftrightarrow> (\<exists>t. t \<noteq> [] \<and> wr_csrf r = Some t \<and> parseCookieHeader (wr_cookie r) csrfTokenCookieName = Some t)"

lemma getTokenFromRequest_ok:
  "getTokenFromRequest (wr_authorization r) (wr_cookie r) = Inr (token, src) \<longleftrightarrow>
     presents r token \<and> src = (if by_bearer r then FromBearer else FromCookie)"
  by (auto simp: getTokenFromRequest_def presents_def by_bearer_def starts_with_iff Let_def
      split: option.splits if_splits)

lemma csrf_ok_iff:
  "csrf_ok m (if by_bearer r then FromBearer else FromCookie) (wr_cookie r) (wr_csrf r) \<longleftrightarrow>
     by_bearer r \<or> isSafeMethod m \<or> same_site r"
  by (auto simp: csrf_ok_def same_site_def Let_def truthy_iff)

text \<open>A token the adapter goes on with: presented, and not by the cookie of a request of another site.\<close>

definition admitted :: "web_request \<Rightarrow> string \<Rightarrow> bool" where
  "admitted r token \<longleftrightarrow> presents r token \<and> (by_bearer r \<or> isSafeMethod (wr_method r) \<or> same_site r)"

lemma endpoint_run:
  "authenticated_endpoint schema authenticate handler r w =
     (case getTokenFromRequest (wr_authorization r) (wr_cookie r) of
        Inl e \<Rightarrow> (Inl e, w)
      | Inr (token, source) \<Rightarrow>
          if \<not> admitted r token then (Inl (ApiError 403 ''csrf_invalid'' ''Invalid CSRF token''), w)
          else case authenticate token w of
            (Inl e, u) \<Rightarrow> (Inl e, u)
          | (Inr auth, u) \<Rightarrow> (case schema (readPayload r) of
               None \<Rightarrow> (Inl (ApiError 400 ''validation_error'' []), u)
             | Some payload \<Rightarrow> handler payload auth u))"
proof (cases "getTokenFromRequest (wr_authorization r) (wr_cookie r)")
  case (Inr ts)
  obtain token src where ts: "ts = (token, src)" by (cases ts)
  have "presents r token" "src = (if by_bearer r then FromBearer else FromCookie)"
    using Inr ts getTokenFromRequest_ok by auto
  then have "csrf_ok (wr_method r) src (wr_cookie r) (wr_csrf r) \<longleftrightarrow> admitted r token"
    using csrf_ok_iff by (simp add: admitted_def)
  with Inr ts show ?thesis
    by (auto simp: authenticated_endpoint_def throw_run bind_run split: prod.split sum.split option.split)
qed (simp add: authenticated_endpoint_def throw_run)

text \<open>
  C28: The handler behind the adapter runs on the request itself, with all its effects and failures,
  when the request presents a token in its \<open>Authorization\<close> header or, in a cookie, with a safe method
  or a CSRF header equal to the CSRF cookie, the token authenticates, and the payload passes the schema.
  In every other case the answer is an error and the handler did not run: nothing happened at all, or,
  for an admitted token, only its authentication.
\<close>

theorem endpoint_runs_iff:
  "(\<forall>token auth u payload. admitted r token \<and> authenticate token w = (Inr auth, u) \<and>
       schema (readPayload r) = Some payload \<longrightarrow>
       authenticated_endpoint schema authenticate handler r w = handler payload auth u) \<and>
   ((\<exists>token auth u payload. admitted r token \<and> authenticate token w = (Inr auth, u) \<and>
       schema (readPayload r) = Some payload) \<or>
    (\<exists>e. authenticated_endpoint schema authenticate handler r w = (Inl e, w)) \<or>
    (\<exists>token e. admitted r token \<and>
       authenticated_endpoint schema authenticate handler r w = (Inl e, snd (authenticate token w))))"
proof (cases "getTokenFromRequest (wr_authorization r) (wr_cookie r)")
  case (Inl e)
  then have "\<not> admitted r token" for token
    using getTokenFromRequest_ok [of r token "if by_bearer r then FromBearer else FromCookie"]
    by (auto simp: admitted_def)
  with Inl show ?thesis by (simp add: endpoint_run)
next
  case (Inr ts)
  obtain token src where ts: "ts = (token, src)" by (cases ts)
  have unique: "presents r t' \<longleftrightarrow> t' = token" for t'
    using Inr ts getTokenFromRequest_ok [of r t' src] getTokenFromRequest_ok [of r token src] by auto
  show ?thesis
  proof (cases "admitted r token")
    case False
    with unique have "\<not> admitted r t'" for t' by (metis admitted_def)
    with Inr ts show ?thesis by (simp add: endpoint_run)
  next
    case True
    with unique have only: "admitted r t' \<longleftrightarrow> t' = token" for t' by (metis admitted_def)
    obtain a u where auth: "authenticate token w = (a, u)" by fastforce
    show ?thesis
      by (cases a; cases "schema (readPayload r)") (simp_all add: endpoint_run Inr ts only auth)
  qed
qed

text \<open>A request of another site carries the cookies but not the CSRF header: it changes nothing.\<close>

theorem cross_site_request_refused:
  assumes "\<not> by_bearer r" and "\<not> isSafeMethod (wr_method r)" and "\<not> same_site r"
  shows "\<exists>e. authenticated_endpoint schema authenticate handler r w = (Inl e, w)"
proof (cases "getTokenFromRequest (wr_authorization r) (wr_cookie r)")
  case (Inl e)
  then show ?thesis by (simp add: authenticated_endpoint_def throw_run)
next
  case (Inr ts)
  obtain token src where ts: "ts = (token, src)" by (cases ts)
  then have "\<not> csrf_ok (wr_method r) src (wr_cookie r) (wr_csrf r)"
    using Inr getTokenFromRequest_ok [of r token src] csrf_ok_iff [of "wr_method r" r] assms by auto
  with Inr ts show ?thesis by (simp add: authenticated_endpoint_def throw_run)
qed


text \<open>A form of another site that carries the cookie: the handler, which would end the session, does not run.\<close>

definition forged_request :: web_request where
  "forged_request = \<lparr>wr_method = ''POST'', wr_authorization = None,
     wr_cookie = Some ''idp_access_token=0123456789abcdef; idp_csrf_token=x'', wr_csrf = None,
     wr_contentType = None, wr_body = None, wr_form = JNull\<rparr>"

theorem endpoint_runs_iff_witness:
  "authenticated_endpoint Some (\<lambda>token. ret (1, 2)) (\<lambda>_ auth. AuthService_logout (snd auth))
       (forged_request\<lparr>wr_csrf := Some ''x''\<rparr>) (sample_world sample_db) =
     AuthService_logout 2 (sample_world sample_db) \<and>
   snd (authenticated_endpoint Some (\<lambda>token. ret (1, 2)) (\<lambda>_ auth. AuthService_logout (snd auth))
       forged_request (sample_world sample_db)) = sample_world sample_db"
proof
  have c: "parseCookieHeader (wr_cookie forged_request) accessTokenCookieName = Some ''0123456789abcdef''"
    "parseCookieHeader (wr_cookie forged_request) csrfTokenCookieName = Some ''x''"
    by code_simp+
  have "admitted (forged_request\<lparr>wr_csrf := Some ''x''\<rparr>) ''0123456789abcdef''"
    using c by (simp add: admitted_def presents_def same_site_def forged_request_def)
  then show "authenticated_endpoint Some (\<lambda>token. ret (1, 2)) (\<lambda>_ auth. AuthService_logout (snd auth))
       (forged_request\<lparr>wr_csrf := Some ''x''\<rparr>) (sample_world sample_db) = AuthService_logout 2 (sample_world sample_db)"
    by (subst endpoint_runs_iff [THEN conjunct1, rule_format, where auth = "(1, 2)" and u = "sample_world sample_db"])
      (auto simp: ret_run)
  have "\<not> admitted forged_request token" for token
    by (simp add: admitted_def by_bearer_def isSafeMethod_def same_site_def forged_request_def)
  then show "snd (authenticated_endpoint Some (\<lambda>token. ret (1, 2)) (\<lambda>_ auth. AuthService_logout (snd auth))
       forged_request (sample_world sample_db)) = sample_world sample_db"
    using endpoint_runs_iff [THEN conjunct2, of forged_request "\<lambda>token. ret (1, 2)" "sample_world sample_db" Some
        "\<lambda>_ auth. AuthService_logout (snd auth)"]
    by auto
qed

theorem cross_site_request_refused_witness:
  "\<exists>e. authenticated_endpoint Some (AuthService_authenticateAccessToken sample_libs) (\<lambda>_ auth. AuthService_logout (snd auth))
       \<lparr>wr_method = ''POST'', wr_authorization = None, wr_cookie = Some ''idp_access_token=0123456789abcdef; idp_csrf_token=x'',
        wr_csrf = None, wr_contentType = None, wr_body = None, wr_form = JNull\<rparr> (sample_world sample_db)
     = (Inl e, sample_world sample_db)"
  by (rule cross_site_request_refused) (simp_all add: by_bearer_def isSafeMethod_def same_site_def)

end
