(* ===== verification/UserService.thy ===== *)
theory UserService
  imports IdpAuth RbacService
begin

text \<open>
  The remaining services on the users of the identity server: modules/users/users.service.ts with
  user-profile.repository.ts, modules/sessions/sessions.service.ts,
  modules/rbac/admin-authorization.ts, and the claims core/oidc-provider.ts builds for an account.
\<close>

section \<open>UserProfileRepository\<close>

text \<open>An absent field is \<open>None\<close>.\<close>

record profile_patch =
  pp_displayName :: "string option"
  pp_givenName :: "string option"
  pp_familyName :: "string option"
  pp_preferredUsername :: "string option"
  pp_locale :: "string option"
  pp_zoneinfo :: "string option"

definition findByUserId :: "database \<Rightarrow> uuid \<Rightarrow> profile_row option" where
  "findByUserId d userId = List.find (\<lambda>p. pf_userId p = userId) (userProfiles d)"

definition isPreferredUsernameTaken :: "database \<Rightarrow> string \<Rightarrow> uuid \<Rightarrow> bool" where
  "isPreferredUsernameTaken d preferredUsername excludingUserId =
     list_ex (\<lambda>p. username_key p = Some (to_lower preferredUsername) \<and> pf_userId p \<noteq> excludingUserId)
       (userProfiles d)"

definition patched :: "'a option \<Rightarrow> 'a option \<Rightarrow> 'a option" where
  "patched new old = (case new of None \<Rightarrow> old | Some v \<Rightarrow> Some v)"

definition patch_profile :: "profile_patch \<Rightarrow> time \<Rightarrow> profile_row \<Rightarrow> profile_row" where
  "patch_profile patch t p = p\<lparr>
     pf_displayName := patched (pp_displayName patch) (pf_displayName p),
     pf_givenName := patched (pp_givenName patch) (pf_givenName p),
     pf_familyName := patched (pp_familyName patch) (pf_familyName p),
     pf_preferredUsername := patched (pp_preferredUsername patch) (pf_preferredUsername p),
     pf_locale := patched (pp_locale patch) (pf_locale p),
     pf_zoneinfo := patched (pp_zoneinfo patch) (pf_zoneinfo p),
     pf_updatedAt := t\<rparr>"

definition new_profile :: "uuid \<Rightarrow> profile_patch \<Rightarrow> time \<Rightarrow> profile_row" where
  "new_profile userId patch t =
     \<lparr>pf_userId = userId, pf_displayName = pp_displayName patch, pf_givenName = pp_givenName patch,
      pf_familyName = pp_familyName patch, pf_preferredUsername = pp_preferredUsername patch,
      pf_locale = pp_locale patch, pf_zoneinfo = pp_zoneinfo patch, pf_updatedAt = t\<rparr>"

text \<open>
  Every caller passes its transaction. After a statement of a transaction failed, the database
  refuses the later ones with SQLSTATE 25P02 until the rollback: so does the UPDATE that is to
  repair a refused INSERT.
\<close>

definition is_unique_violation :: "libs \<Rightarrow> err \<Rightarrow> bool" where
  "is_unique_violation L e \<longleftrightarrow> error_code L e = Some ''23505''"

definition transaction_aborted :: err where "transaction_aborted = DbError ''25P02''"

definition UserProfileRepository_upsert :: "libs \<Rightarrow> uuid \<Rightarrow> profile_patch \<Rightarrow> unit io" where
  "UserProfileRepository_upsert L userId patch =
     bind now (\<lambda>t.
     bind (read_db (\<lambda>d. filter (\<lambda>p. pf_userId p = userId) (userProfiles d))) (\<lambda>updated.
     bind (update_unique userProfiles userProfiles_update uniq_profiles (\<lambda>p. pf_userId p = userId)
             (patch_profile patch t)) (\<lambda>_.
     if updated \<noteq> [] then ret ()
     else try_catch
       (insert_row userProfiles userProfiles_update uniq_profiles (\<lambda>d r. user_exists d (pf_userId r))
          (new_profile userId patch t))
       (\<lambda>e. throw (if is_unique_violation L e then transaction_aborted else e)))))"

section \<open>UserService\<close>

definition findActiveUserIdByEmail :: "database \<Rightarrow> string \<Rightarrow> uuid option" where
  "findActiveUserIdByEmail d email = (case findByEmail d (to_lower email) of
     None \<Rightarrow> None | Some (u, _) \<Rightarrow> if u_status u \<noteq> ''active'' then None else Some (u_id u))"

definition requireActiveUser :: "uuid \<Rightarrow> user_view io" where
  "requireActiveUser userId =
     bind (read_db (\<lambda>d. UserRepository_findById d userId)) (\<lambda>user.
     case user of
       None \<Rightarrow> throw (ApiError 404 ''user_not_found'' ''User not found'')
     | Some u \<Rightarrow>
         if uv_status u \<noteq> ''active'' then throw (ApiError 401 ''unauthorized'' ''Account is not active'') else ret u)"

record profile_view =
  pv_displayName :: "string option"
  pv_givenName :: "string option"
  pv_familyName :: "string option"
  pv_preferredUsername :: "string option"
  pv_locale :: "string option"
  pv_zoneinfo :: "string option"

text \<open>A user without a profile row has NULLs in every field.\<close>

definition profile_of :: "user_view \<Rightarrow> profile_view" where
  "profile_of u = (case uv_profile u of
     None \<Rightarrow> \<lparr>pv_displayName = None, pv_givenName = None, pv_familyName = None, pv_preferredUsername = None,
              pv_locale = None, pv_zoneinfo = None\<rparr>
   | Some p \<Rightarrow> \<lparr>pv_displayName = pf_displayName p, pv_givenName = pf_givenName p, pv_familyName = pf_familyName p,
              pv_preferredUsername = pf_preferredUsername p, pv_locale = pf_locale p, pv_zoneinfo = pf_zoneinfo p\<rparr>)"

record me_answer =
  me_userId :: uuid
  me_email :: string
  me_status :: string
  me_emailVerified :: bool
  me_profile :: profile_view

definition verified_of :: "user_view \<Rightarrow> bool" where
  "verified_of u = (case uv_emailVerified u of None \<Rightarrow> False | Some b \<Rightarrow> b)"

definition UserService_getMe :: "uuid \<Rightarrow> me_answer io" where
  "UserService_getMe userId = bind (requireActiveUser userId) (\<lambda>u. ret
     \<lparr>me_userId = uv_id u, me_email = (case uv_email u of None \<Rightarrow> [] | Some e \<Rightarrow> e), me_status = uv_status u,
      me_emailVerified = verified_of u, me_profile = profile_of u\<rparr>)"

record oidc_account =
  ac_userId :: uuid
  ac_email :: "string option"
  ac_emailVerified :: bool
  ac_profile :: profile_view
  ac_profileUpdatedAt :: "time option"

definition getOidcAccount :: "uuid \<Rightarrow> oidc_account io" where
  "getOidcAccount userId = bind (requireActiveUser userId) (\<lambda>u. ret
     \<lparr>ac_userId = uv_id u, ac_email = uv_email u, ac_emailVerified = verified_of u, ac_profile = profile_of u,
      ac_profileUpdatedAt = map_option pf_updatedAt (uv_profile u)\<rparr>)"

definition present :: "string \<Rightarrow> 'a option \<Rightarrow> string list" where
  "present field v = (if v = None then [] else [field])"

text \<open>The keys of the patch; all of them are fields with a claim.\<close>

definition changed_fields :: "profile_patch \<Rightarrow> string list" where
  "changed_fields patch =
     present ''displayName'' (pp_displayName patch) @ present ''givenName'' (pp_givenName patch) @
     present ''familyName'' (pp_familyName patch) @ present ''preferredUsername'' (pp_preferredUsername patch) @
     present ''locale'' (pp_locale patch) @ present ''zoneinfo'' (pp_zoneinfo patch)"

definition username_taken :: err where
  "username_taken = ApiError 409 ''preferred_username_taken'' ''Preferred username is already taken''"

text \<open>The transaction with its handler; the profile cache of the deployment does nothing.\<close>

definition write_profile :: "libs \<Rightarrow> uuid \<Rightarrow> profile_patch \<Rightarrow> unit io" where
  "write_profile L userId patch = try_catch
     (transaction (
        bind (UserProfileRepository_upsert L userId patch) (\<lambda>_.
        createAuditLog_tx L (Some userId) ''user.profile.updated'' ''user'' (Some (uuid_text userId))
          (JObj [(''changedFields'', JArr (map JStr (changed_fields patch)))]))))
     (\<lambda>e. throw (if is_unique_violation L e then username_taken else e))"

definition updateProfile :: "libs \<Rightarrow> uuid \<Rightarrow> profile_patch \<Rightarrow> me_answer io" where
  "updateProfile L userId patch =
     bind (requireActiveUser userId) (\<lambda>_.
     bind (if truthy (pp_preferredUsername patch)
           then read_db (\<lambda>d. isPreferredUsernameTaken d (the (pp_preferredUsername patch)) userId)
           else ret False) (\<lambda>taken.
     if taken then throw username_taken
     else bind (write_profile L userId patch) (\<lambda>_. UserService_getMe userId)))"

definition UserService_verifyCurrentPassword :: "libs \<Rightarrow> uuid \<Rightarrow> string \<Rightarrow> unit io" where
  "UserService_verifyCurrentPassword L userId password =
     bind (read_db (\<lambda>d. findWithPasswordById d userId)) (\<lambda>user.
     case user of
       Some (_, _, hash) \<Rightarrow>
         bind (verifyPassword_io L password hash) (\<lambda>valid.
         if valid then ret ()
         else throw (ApiError 401 ''invalid_password'' ''Current password is incorrect''))
     | None \<Rightarrow> throw (ApiError 401 ''invalid_password'' ''Current password is incorrect''))"

definition UserService_changePassword :: "libs \<Rightarrow> uuid \<Rightarrow> string \<Rightarrow> string \<Rightarrow> unit io" where
  "UserService_changePassword L userId currentPassword newPassword =
     bind (UserService_verifyCurrentPassword L userId currentPassword) (\<lambda>_.
     bind (hashPassword L newPassword) (\<lambda>hash. UserRepository_update userId None (Some hash)))"

definition linked_payload :: "string \<Rightarrow> string \<Rightarrow> json" where
  "linked_payload sub email = JObj [(''providerSubject'', JStr sub), (''email'', JStr email)]"

definition UserService_linkGoogleIdentity :: "libs \<Rightarrow> uuid \<Rightarrow> string \<Rightarrow> string \<Rightarrow> unit io" where
  "UserService_linkGoogleIdentity L userId idToken clientId =
     bind (google_claims L idToken clientId) (\<lambda>(sub, email).
     bind (requireActiveUser userId) (\<lambda>me.
     if \<not> truthy (uv_email me) \<or> to_lower (the (uv_email me)) \<noteq> email
     then throw (ApiError 400 ''email_mismatch'' ''Google email must match your primary email'')
     else
       bind (read_db (\<lambda>d. findByProvider d ''google'' sub)) (\<lambda>existing.
       if (case existing of None \<Rightarrow> False | Some i \<Rightarrow> xi_userId i \<noteq> userId)
       then throw (ApiError 409 ''google_identity_in_use'' ''Google identity is already linked to another account'')
       else
         bind (whenever (existing = None) (IdentityRepository_create userId ''google'' sub email)) (\<lambda>_.
         createSecurityEvent ''identity.google.linked'' (Some userId) (linked_payload sub email)))))"

definition UserService_unlinkSocialIdentity :: "uuid \<Rightarrow> string \<Rightarrow> string \<Rightarrow> unit io" where
  "UserService_unlinkSocialIdentity userId provider subject =
     bind (IdentityRepository_delete userId provider subject) (\<lambda>_.
     createSecurityEvent (''identity.'' @ provider @ ''.unlinked'') (Some userId)
       (JObj [(''providerSubject'', JStr subject)]))"

section \<open>SessionService\<close>

text \<open>The RBAC service is an optional dependency.\<close>

definition invalidate_if :: "rbac_service option \<Rightarrow> uuid \<Rightarrow> unit io" where
  "invalidate_if S userId = (case S of None \<Rightarrow> ret () | Some s \<Rightarrow> invalidateUserCache s userId)"

definition SessionService_revokeSession :: "rbac_service option \<Rightarrow> uuid \<Rightarrow> uuid \<Rightarrow> unit io" where
  "SessionService_revokeSession S userId sessionId =
     bind (read_db (\<lambda>d. SessionRepository_findById d sessionId)) (\<lambda>session.
     case session of
       None \<Rightarrow> ret ()
     | Some s \<Rightarrow> whenever (us_userId s = userId)
         (bind (SessionRepository_revoke sessionId) (\<lambda>_. invalidate_if S userId)))"

definition SessionService_revokeAllSessions :: "rbac_service option \<Rightarrow> uuid \<Rightarrow> unit io" where
  "SessionService_revokeAllSessions S userId =
     bind (revokeAllByUserId userId) (\<lambda>_. invalidate_if S userId)"

section \<open>Admin permissions\<close>

record admin_input =
  ai_userId :: uuid
  ai_resource :: string
  ai_action :: string
  ai_path :: "string option"
  ai_method :: "string option"
  ai_message :: "string option"

definition isAllowed :: "json \<Rightarrow> bool" where
  "isAllowed v \<longleftrightarrow> json_prop v ''allowed'' = Some (JBool True)"

definition admin_request :: "uuid \<Rightarrow> string \<Rightarrow> string \<Rightarrow> authz_request" where
  "admin_request userId resource action =
     \<lparr>aq_userId = userId, aq_action = action, aq_resource = resource,
      aq_context = no_context\<rparr>"

definition admin_denied :: "admin_input \<Rightarrow> bool \<Rightarrow> json" where
  "admin_denied i sodEnforced = JObj
     [(''resource'', JStr (ai_resource i)), (''action'', JStr (ai_action i)),
      (''requiredPermission'', JStr (ai_resource i @ '':'' @ ai_action i)),
      (''path'', jstr_opt (ai_path i)), (''method'', jstr_opt (ai_method i)), (''sodEnforced'', JBool sodEnforced)]"

definition assertAdminPermission :: "rbac_service \<Rightarrow> app_env \<Rightarrow> admin_input \<Rightarrow> unit io" where
  "assertAdminPermission S env i =
     bind (RBACService_authorizationCheck S (admin_request (ai_userId i) (ai_resource i) (ai_action i))) (\<lambda>primary.
     if isAllowed primary then ret ()
     else
       bind (if ADMIN_SOD_ENFORCED env then ret False
             else bind (RBACService_authorizationCheck S (admin_request (ai_userId i) ''admin'' ''manage''))
                    (\<lambda>legacy. ret (isAllowed legacy))) (\<lambda>legacyAllowed.
       if legacyAllowed then ret ()
       else
         bind (try_catch
           (createSecurityEvent ''admin.access.denied'' (Some (ai_userId i)) (admin_denied i (ADMIN_SOD_ENFORCED env)))
           (\<lambda>_. ret ())) (\<lambda>_.
         throw (ApiError 403 ''forbidden''
           (case ai_message i of None \<Rightarrow> ''Insufficient admin permission'' | Some m \<Rightarrow> m)))))"

section \<open>Claims of an account\<close>

definition claim_if :: "string \<Rightarrow> string option \<Rightarrow> (string \<times> json) list" where
  "claim_if name v = (if truthy v then [(name, JStr (the v))] else [])"

fun json_of_entitlement :: "entitlement_value \<Rightarrow> json" where
  "json_of_entitlement (EVBool b) = JBool b"
| "json_of_entitlement (EVObj fs) = JObj fs"

text \<open>An instant is never 0 here, so \<open>if (me.profileUpdatedAt)\<close> asks whether there is one.\<close>

definition buildOidcClaims :: "string \<Rightarrow> oidc_account \<Rightarrow> snapshot \<Rightarrow> json" where
  "buildOidcClaims sub me snapshot = JObj (
     [(''sub'', JStr sub), (''email'', jstr_opt (ac_email me)), (''email_verified'', JBool (ac_emailVerified me)),
      (''permissions'', JArr (map JStr (sn_permissions snapshot))),
      (''entitlements'', JObj (map (\<lambda>(k, v). (k, json_of_entitlement v)) (sn_entitlements snapshot)))] @
     claim_if ''name'' (pv_displayName (ac_profile me)) @
     claim_if ''given_name'' (pv_givenName (ac_profile me)) @
     claim_if ''family_name'' (pv_familyName (ac_profile me)) @
     claim_if ''preferred_username'' (pv_preferredUsername (ac_profile me)) @
     claim_if ''locale'' (pv_locale (ac_profile me)) @
     claim_if ''zoneinfo'' (pv_zoneinfo (ac_profile me)) @
     (case ac_profileUpdatedAt me of None \<Rightarrow> [] | Some t \<Rightarrow> [(''updated_at'', JNum (t div 1000))]))"

text \<open>\<open>findAccount\<close>: nothing when the account cannot be resolved, whatever the reason.\<close>

definition findAccount :: "uuid \<Rightarrow> json option io" where
  "findAccount sub =
     bind (try_catch (bind (getOidcAccount sub) (\<lambda>me. ret (Some me))) (\<lambda>_. ret None)) (\<lambda>me.
     case me of
       None \<Rightarrow> ret None
     | Some a \<Rightarrow> bind now (\<lambda>t. bind (read_db (\<lambda>d. RBACService_getAuthorizationSnapshot d t sub no_context)) (\<lambda>snapshot.
         ret (Some (buildOidcClaims (uuid_text sub) a snapshot)))))"

end
