(* ===== verification/UserServiceFacts.thy ===== *)
theory UserServiceFacts
  imports UserService RbacServiceFacts Returns IdpWrites Samples
begin

text \<open>
  What modules/users/users.service.ts, modules/sessions/sessions.service.ts and
  modules/rbac/admin-authorization.ts guarantee, and which accounts core/oidc-provider.ts resolves.
\<close>

section \<open>Admin permissions\<close>

text \<open>A permission as the checks read it: the action on the resource, all of the resource, or all.\<close>

definition holds_permission :: "database \<Rightarrow> uuid \<Rightarrow> string \<Rightarrow> string \<Rightarrow> bool" where
  "holds_permission d userId resource action \<longleftrightarrow>
     (\<exists>k \<in> {resource @ '':'' @ action, resource @ '':all'', ''*''}. k \<in> set (RBACRepository_listPermissionKeys d userId no_context))"

lemma isAllowed_result:
  "isAllowed (snd (authorization_result d (admin_request u res act))) = holds_permission d u res act"
  "fst (authorization_result d (admin_request u res act)) = holds_permission d u res act"
  by (auto simp: isAllowed_def authorization_result_def Let_def admin_request_def holds_permission_def)

lemma uncached_check:
  assumes "\<not> shouldUseCache S u"
  shows "\<exists>es. RBACService_authorizationCheck S (admin_request u res act) w =
    (Inr (snd (authorization_result (db w) (admin_request u res act))), w\<lparr>emitted := es\<rparr>)"
  using assms
  by (cases "authorization_result (db w) (admin_request u res act)")
    (simp add: RBACService_authorizationCheck_def run_simps read_db_def recordRbacAuthorizationDecision_def,
     auto simp: admin_request_def run_simps)

text \<open>
  Without the cache, the guard lets an administrator pass exactly when the permission, or the former
  \<open>admin:manage\<close> unless duties are separated, is held; otherwise it answers 403, even when the
  refusal cannot be recorded.
\<close>

theorem admin_guard_exact:
  assumes "\<not> shouldUseCache S (ai_userId i)"
  shows "fst (assertAdminPermission S env i w) =
    (if holds_permission (db w) (ai_userId i) (ai_resource i) (ai_action i) \<or>
        \<not> ADMIN_SOD_ENFORCED env \<and> holds_permission (db w) (ai_userId i) ''admin'' ''manage''
     then Inr ()
     else Inl (ApiError 403 ''forbidden'' (case ai_message i of None \<Rightarrow> ''Insufficient admin permission'' | Some m \<Rightarrow> m)))"
proof -
  let ?u = "ai_userId i"
  obtain es where 1: "RBACService_authorizationCheck S (admin_request ?u (ai_resource i) (ai_action i)) w =
      (Inr (snd (authorization_result (db w) (admin_request ?u (ai_resource i) (ai_action i)))), w\<lparr>emitted := es\<rparr>)"
    using uncached_check [OF assms] by metis
  obtain es' where 2: "RBACService_authorizationCheck S (admin_request ?u ''admin'' ''manage'') (w\<lparr>emitted := es\<rparr>) =
      (Inr (snd (authorization_result (db w) (admin_request ?u ''admin'' ''manage''))), w\<lparr>emitted := es'\<rparr>)"
    using uncached_check [OF assms, of "''admin''" "''manage''" "w\<lparr>emitted := es\<rparr>"] by auto
  have recorded: "\<exists>v. try_catch m (\<lambda>_. ret ()) v' = (Inr (), v)" for m :: "unit io" and v'
    by (simp add: run_simps split: prod.split sum.split)
  show ?thesis
    using recorded
    by (simp add: assertAdminPermission_def run_simps 1 2 isAllowed_result split: prod.split sum.split)
qed


section \<open>Linking a Google identity\<close>

lemma requireActiveUser_ok [ok_iffs]: "requireActiveUser u w = (Inr v, w') \<longleftrightarrow>
    UserRepository_findById (db w) u = Some v \<and> uv_status v = ''active'' \<and> w' = w"
  by (auto simp: requireActiveUser_def ok_iffs split: option.splits)

lemma google_claims_iff [ok_iffs]: "google_claims L tok aud w = (Inr (sub, email), w') \<longleftrightarrow>
    (\<exists>p e. google_verify L tok aud (clock w) = Some (Some p) \<and> gp_emailVerified p \<and> gp_sub p = Some sub \<and> sub \<noteq> [] \<and>
       gp_email p = Some e \<and> e \<noteq> [] \<and> email = to_lower e) \<and> w' = w"
  by (auto simp: google_claims_def ok_iffs truthy_iff split: option.splits)

lemma event_identities: "createSecurityEvent k u p w = (Inr (), w') \<Longrightarrow> externalIdentities (db w') = externalIdentities (db w)"
  by (auto simp: createSecurityEvent_def insert_event_def recordSecurityEventMetric_def ok_iffs emit_run
      draw_uuid_def split: if_splits)

lemma find_append_new:
  "List.find p xs = None \<Longrightarrow> p x \<Longrightarrow> List.find p (xs @ [x]) = Some x"
  by (simp add: find_append)

text \<open>
  A link succeeds only for an active user, with a token Google verified for this client whose address
  is that of the user; afterwards the Google account belongs to that user, who alone can have gained
  an identity, and it belonged to nobody else before.
\<close>

theorem google_link_sound:
  assumes "UserService_linkGoogleIdentity L u tok aud w = (Inr (), w')"
  shows "\<exists>p sub e v m i. google_verify L tok aud (clock w) = Some (Some p) \<and> gp_emailVerified p \<and>
      gp_sub p = Some sub \<and> gp_email p = Some e \<and>
      UserRepository_findById (db w) u = Some v \<and> uv_status v = ''active'' \<and> uv_email v = Some m \<and> to_lower m = to_lower e \<and>
      findByProvider (db w') ''google'' sub = Some i \<and> xi_userId i = u \<and>
      (\<forall>j. findByProvider (db w) ''google'' sub = Some j \<longrightarrow> xi_userId j = u) \<and>
      (\<forall>r \<in> set (externalIdentities (db w')). r \<in> set (externalIdentities (db w)) \<or> xi_userId r = u)"
proof -
  obtain sub email v x where google: "google_claims L tok aud w = (Inr (sub, email), w)"
    and user: "UserRepository_findById (db w) u = Some v" "uv_status v = ''active''" "truthy (uv_email v)"
      "to_lower (the (uv_email v)) = email"
    and free: "\<not> (case findByProvider (db w) ''google'' sub of None \<Rightarrow> False | Some i \<Rightarrow> xi_userId i \<noteq> u)"
    and linked: "whenever (findByProvider (db w) ''google'' sub = None) (IdentityRepository_create u ''google'' sub email) w = (Inr (), x)"
    and event: "createSecurityEvent ''identity.google.linked'' (Some u) (linked_payload sub email) x = (Inr (), w')"
  proof -
    have "google_claims L tok aud w = (r, w1) \<Longrightarrow> w1 = w" for r w1
      by (auto simp: google_claims_def run_simps split: option.splits if_splits)
    then show thesis
      using that assms by (fastforce simp: UserService_linkGoogleIdentity_def ok_iffs simp del: google_claims_iff whenever_ok)
  qed
  obtain p e where claims: "google_verify L tok aud (clock w) = Some (Some p)" "gp_emailVerified p"
      "gp_sub p = Some sub" "gp_email p = Some e" "email = to_lower e"
    using google by (auto simp: google_claims_iff)
  have same: "externalIdentities (db w') = externalIdentities (db x)"
    by (rule event_identities [OF event])
  have "\<exists>i. findByProvider (db x) ''google'' sub = Some i \<and> xi_userId i = u \<and>
      (\<forall>r \<in> set (externalIdentities (db x)). r \<in> set (externalIdentities (db w)) \<or> xi_userId r = u)"
  proof (cases "findByProvider (db w) ''google'' sub")
    case None
    then show ?thesis
      using linked by (auto simp: ok_iffs IdentityRepository_create_def draw_uuid_def findByProvider_def find_append)
  next
    case (Some i)
    then show ?thesis using linked free by (auto simp: ok_iffs)
  qed
  then show ?thesis
    using claims user free same by (auto simp: truthy_iff findByProvider_def split: option.splits)
qed

section \<open>Profiles\<close>

definition view_of :: "profile_row \<Rightarrow> profile_view" where
  "view_of p = \<lparr>pv_displayName = pf_displayName p, pv_givenName = pf_givenName p, pv_familyName = pf_familyName p,
     pv_preferredUsername = pf_preferredUsername p, pv_locale = pf_locale p, pv_zoneinfo = pf_zoneinfo p\<rparr>"

text \<open>What a patch makes of the fields of a profile, empty when there was none.\<close>

definition patched_view :: "profile_patch \<Rightarrow> profile_row option \<Rightarrow> profile_view" where
  "patched_view patch old =
     (let was = (\<lambda>f. case old of None \<Rightarrow> None | Some p \<Rightarrow> f p) in
      \<lparr>pv_displayName = patched (pp_displayName patch) (was pf_displayName),
       pv_givenName = patched (pp_givenName patch) (was pf_givenName),
       pv_familyName = patched (pp_familyName patch) (was pf_familyName),
       pv_preferredUsername = patched (pp_preferredUsername patch) (was pf_preferredUsername),
       pv_locale = patched (pp_locale patch) (was pf_locale),
       pv_zoneinfo = patched (pp_zoneinfo patch) (was pf_zoneinfo)\<rparr>)"

lemma patched_simps [simp]: "patched None old = old" "patched (Some v) old = Some v" "patched new None = new"
  by (auto simp: patched_def split: option.split)

lemma view_of_patched:
  "view_of (patch_profile patch t p) = patched_view patch (Some p)"
  "view_of (new_profile u patch t) = patched_view patch None"
  by (simp_all add: view_of_def patch_profile_def new_profile_def patched_view_def)

lemma try_rethrow_ok: "try_catch m (\<lambda>e. throw (f e)) w = (Inr x, w') \<longleftrightarrow> m w = (Inr x, w')"
  by (auto simp: try_catch_def throw_def split: prod.splits sum.splits)

lemma audit_profiles: "createAuditLog_tx L a k r i p w = (Inr (), w') \<Longrightarrow> userProfiles (db w') = userProfiles (db w)"
  by (auto simp: createAuditLog_tx_def insert_audit_def draw_uuid_def ok_iffs Let_def split: if_splits)

lemma find_patched:
  "(\<And>p. pf_userId (f p) = pf_userId p) \<Longrightarrow>
   List.find (\<lambda>p. pf_userId p = v) (update_where (\<lambda>p. pf_userId p = u) f ps) =
     (if v = u then map_option f (List.find (\<lambda>p. pf_userId p = v) ps) else List.find (\<lambda>p. pf_userId p = v) ps)"
  by (induction ps) auto

lemma pf_userId_patch [simp]:
  "pf_userId (patch_profile patch t p) = pf_userId p" "pf_userId (new_profile u patch t) = u"
  by (simp_all add: patch_profile_def new_profile_def)

lemma upsert_profile:
  assumes "UserProfileRepository_upsert L u patch w = (Inr (), w')"
  shows "map_option view_of (findByUserId (db w') u) = Some (patched_view patch (findByUserId (db w) u)) \<and>
    (\<forall>v. v \<noteq> u \<longrightarrow> findByUserId (db w') v = findByUserId (db w) v) \<and> uniq_profiles (userProfiles (db w'))"
proof (cases "filter (\<lambda>p. pf_userId p = u) (userProfiles (db w))")
  case Nil
  then have none: "\<forall>p \<in> set (userProfiles (db w)). pf_userId p \<noteq> u" by (simp add: filter_empty_conv)
  then have "update_where (\<lambda>p. pf_userId p = u) f (userProfiles (db w)) = userProfiles (db w)" for f
    by (simp add: update_where_none)
  moreover have "findByUserId (db w) u = None" using none by (simp add: findByUserId_def find_None)
  ultimately show ?thesis
    using assms Nil
    by (auto simp: UserProfileRepository_upsert_def ok_iffs try_rethrow_ok findByUserId_def find_append view_of_patched
        split: option.splits)
next
  case (Cons p ps)
  then have "p \<in> set (filter (\<lambda>p. pf_userId p = u) (userProfiles (db w)))" by simp
  then obtain q where "findByUserId (db w) u = Some q"
    by (cases "findByUserId (db w) u") (auto simp: findByUserId_def find_None)
  then show ?thesis
    using assms Cons
    by (auto simp: UserProfileRepository_upsert_def ok_iffs findByUserId_def find_patched view_of_patched)
qed

lemma left_join_first: "left_join (filter q xs) = List.find q xs # tl (left_join (filter q xs))"
  by (induction xs) (auto simp: left_join_def split: if_splits)

lemma join_head: "\<exists>rs. concat (map (\<lambda>e. map (g e) (left_join (filter q ps))) (left_join (filter p es))) =
    g (List.find p es) (List.find q ps) # rs"
proof -
  obtain a b where "left_join (filter p es) = List.find p es # a" "left_join (filter q ps) = List.find q ps # b"
    using left_join_first by metis
  then show ?thesis by simp
qed

lemma first_row_of_joins:
  "(\<And>x. \<exists>rs. h x = k x # rs) \<Longrightarrow>
   first_row (concat (map (\<lambda>x. if q x then h x else []) xs)) = map_option k (List.find q xs)"
proof (induction xs)
  case (Cons x xs)
  obtain rs where "h x = k x # rs" using Cons.prems by blast
  then show ?case using Cons by (simp add: first_row_def)
qed (simp add: first_row_def)

text \<open>The joined row of a user: its first address and its profile, where there are any.\<close>

lemma findById_rows: "UserRepository_findById d i =
    map_option (\<lambda>u. \<lparr>uv_id = u_id u, uv_status = u_status u,
       uv_email = map_option em_email (List.find (\<lambda>e. em_userId e = u_id u) (userEmails d)),
       uv_emailVerified = map_option em_isVerified (List.find (\<lambda>e. em_userId e = u_id u) (userEmails d)),
       uv_profile = findByUserId d (u_id u), uv_createdAt = u_createdAt u\<rparr>)
    (List.find (\<lambda>u. u_id u = i) (users d))"
  unfolding UserRepository_findById_def findByUserId_def
  by (rule first_row_of_joins) (rule join_head)

lemma find_id: "List.find (\<lambda>u. u_id u = i) us = Some r \<Longrightarrow> u_id r = i"
  by (induction us) (auto split: if_splits)

lemma requireActiveUser_row:
  "requireActiveUser u w = (Inr v, w') \<Longrightarrow> uv_id v = u \<and> uv_profile v = findByUserId (db w') u \<and> w' = w"
  by (auto simp: ok_iffs findById_rows dest: find_id)

lemma getMe_ok: "UserService_getMe u w = (Inr me, w') \<Longrightarrow>
    me_userId me = u \<and> me_profile me = (case findByUserId (db w') u of None \<Rightarrow>
      \<lparr>pv_displayName = None, pv_givenName = None, pv_familyName = None, pv_preferredUsername = None,
       pv_locale = None, pv_zoneinfo = None\<rparr> | Some p \<Rightarrow> view_of p) \<and> w' = w"
  by (auto simp: UserService_getMe_def bind_ok ret_ok profile_of_def view_of_def dest!: requireActiveUser_row
      split: option.splits)

text \<open>
  A successful update of a profile answers the old profile with the given fields replaced, leaves
  the profiles of all others as they were and keeps preferred usernames unique.
\<close>

theorem profile_update:
  assumes "updateProfile L u patch w = (Inr me, w')"
  shows "me_userId me = u \<and> me_profile me = patched_view patch (findByUserId (db w) u) \<and>
    (\<forall>v. v \<noteq> u \<longrightarrow> findByUserId (db w') v = findByUserId (db w) v) \<and> uniq_profiles (userProfiles (db w'))"
proof -
  obtain x where written: "write_profile L u patch w = (Inr (), x)" and me: "UserService_getMe u x = (Inr me, w')"
    using assms by (auto simp: updateProfile_def bind_ok requireActiveUser_ok ok_iffs split: if_splits)
  obtain y where upsert: "UserProfileRepository_upsert L u patch w = (Inr (), y)"
    and same: "userProfiles (db x) = userProfiles (db y)"
    using written audit_profiles by (auto simp: write_profile_def try_rethrow_ok ok_iffs)
  have "findByUserId (db x) v = findByUserId (db y) v" for v using same by (simp add: findByUserId_def)
  then show ?thesis
    using upsert_profile [OF upsert] getMe_ok [OF me] same by (auto split: option.splits)
qed

lemma taken_username_refused:
  assumes "requireActiveUser u w = (Inr v, w)" "pp_preferredUsername patch = Some n" "n \<noteq> []"
    "isPreferredUsernameTaken (db w) n u"
  shows "updateProfile L u patch w = (Inl username_taken, w)"
  using assms by (simp add: updateProfile_def run_simps truthy_iff)

text \<open>
  A name taken between the check and the first write of a profile: the second statement of the
  aborted transaction fails with a code of its own, and the answer is not the intended 409.
\<close>

lemma first_profile_race:
  assumes "findByUserId (db w) u = None" "user_exists (db w) u"
    "uniq_profiles (userProfiles (db w))" "\<not> uniq_profiles (userProfiles (db w) @ [new_profile u patch (clock w)])"
    "driver_code L ''25P02'' \<noteq> Some ''23505''"
  shows "write_profile L u patch w =
    (Inl (DbError (if driver_code L ''23505'' = Some ''23505'' then ''25P02'' else ''23505'')), w)"
proof -
  have "\<forall>p \<in> set (userProfiles (db w)). pf_userId p \<noteq> u"
    using assms(1) by (simp add: findByUserId_def find_None_iff)
  then have "filter (\<lambda>p. pf_userId p = u) (userProfiles (db w)) = []"
    "update_where (\<lambda>p. pf_userId p = u) f (userProfiles (db w)) = userProfiles (db w)" for f
    by (auto simp: filter_empty_conv update_where_none)
  then show ?thesis
    using assms
    by (simp add: write_profile_def UserProfileRepository_upsert_def run_simps read_db_def insert_row_def
        update_unique_def is_unique_violation_def transaction_aborted_def error_code_def)
qed

section \<open>Sessions and accounts\<close>

lemma invalidate_db: "invalidate_if S u w = (r, w') \<Longrightarrow> db w' = db w"
proof (cases S)
  case (Some x)
  let ?ps = "[js_join '':'' [''rbac'', ''v1'', ''auth'', uuid_part (Some u)], js_join '':'' [''rbac'', ''v1'', ''ent'', uuid_part (Some u)]]"
  assume run: "invalidate_if S u w = (r, w')"
  obtain a v where v: "for_each ?ps (cache_deleteByPrefix (rb_cache x)) w = (a, v)"
    by (cases "for_each ?ps (cache_deleteByPrefix (rb_cache x)) w")
  then show ?thesis
    using drop_keys [OF v] run Some
    by (cases a) (auto simp: invalidate_if_def invalidateUserCache_def invalidate_def try_catch_run bind_run metric_defs
        emit_run ret_run)
qed (simp add: invalidate_if_def ret_run)

lemma find_only: "distinct (map us_id ss) \<Longrightarrow> List.find (\<lambda>x. us_id x = i) ss = Some s \<Longrightarrow>
    x \<in> set ss \<Longrightarrow> us_id x = i \<Longrightarrow> x = s"
  by (induction ss) (force simp: find_None_iff split: if_splits)+

text \<open>Revoking a session by its id touches that session only, and only when it is the user's own.\<close>

theorem revokes_own_session:
  assumes "SessionService_revokeSession S u s w = (r, w')" "uniq_sessions (userSessions (db w))"
  shows "userSessions (db w') = update_where (\<lambda>x. us_id x = s \<and> us_userId x = u)
    (revoke_session_row (clock w)) (userSessions (db w))"
proof (cases "List.find (\<lambda>x. us_id x = s) (userSessions (db w))")
  case None
  then have "\<forall>x \<in> set (userSessions (db w)). us_id x \<noteq> s" by (simp add: find_None_iff)
  then show ?thesis
    using assms None
    by (simp add: SessionService_revokeSession_def run_simps SessionRepository_findById_def update_where_none)
next
  case (Some x)
  have only: "y = x" if "y \<in> set (userSessions (db w))" "us_id y = s" for y
    using find_only [OF _ Some that] assms(2) by (simp add: uniq_sessions_def)
  show ?thesis
  proof (cases "us_userId x = u")
    case True
    have "update_where (\<lambda>x. us_id x = s \<and> us_userId x = u) f (userSessions (db w)) =
        update_where (\<lambda>x. us_id x = s) f (userSessions (db w))" for f
      using only True by (auto simp: update_where_def)
    then show ?thesis
      using assms Some True
      by (auto simp: SessionService_revokeSession_def run_simps SessionRepository_findById_def
          SessionRepository_revoke_def update_rows_def write_db_def modify_def dest!: invalidate_db)
  next
    case False
    then have "\<forall>y \<in> set (userSessions (db w)). \<not> (us_id y = s \<and> us_userId y = u)" using only by blast
    then show ?thesis
      using assms Some False
      by (simp add: SessionService_revokeSession_def run_simps SessionRepository_findById_def update_where_none)
  qed
qed

lemma requireActiveUser_keeps: "requireActiveUser u w = (r, w') \<Longrightarrow> w' = w"
  by (auto simp: requireActiveUser_def run_simps split: option.splits if_splits)

text \<open>
  An account is resolved exactly while its user is active; its claims then name that user.
\<close>

theorem account_resolved_iff:
  "fst (findAccount u w) =
    (case List.find (\<lambda>r. u_id r = u) (users (db w)) of
       None \<Rightarrow> Inr None
     | Some r \<Rightarrow> if u_status r \<noteq> ''active'' then Inr None
         else Inr (Some (buildOidcClaims (uuid_text u)
           \<lparr>ac_userId = u,
            ac_email = map_option em_email (List.find (\<lambda>e. em_userId e = u) (userEmails (db w))),
            ac_emailVerified = (case List.find (\<lambda>e. em_userId e = u) (userEmails (db w)) of None \<Rightarrow> False | Some e \<Rightarrow> em_isVerified e),
            ac_profile = (case findByUserId (db w) u of None \<Rightarrow> patched_view (profile_patch.make None None None None None None) None
              | Some p \<Rightarrow> view_of p),
            ac_profileUpdatedAt = map_option pf_updatedAt (findByUserId (db w) u)\<rparr>
           (RBACService_getAuthorizationSnapshot (db w) (clock w) u no_context))))"
  by (auto simp: findAccount_def getOidcAccount_def requireActiveUser_def run_simps findById_rows profile_of_def
      verified_of_def view_of_def patched_view_def profile_patch.make_def
      split: option.splits dest: find_id)


section \<open>Witnesses\<close>

definition plain_rbac :: rbac_service where
  "plain_rbac = \<lparr>rb_cache = NoopRBACCache, rb_cacheEnabled = False, rb_cachePercent = 0, rb_authTtlSeconds = 30,
     rb_entitlementTtlSeconds = 60, rb_negativeTtlSeconds = 15\<rparr>"

definition sample_admin_input :: admin_input where
  "sample_admin_input = \<lparr>ai_userId = 1, ai_resource = ''users'', ai_action = ''read'', ai_path = None,
     ai_method = None, ai_message = None\<rparr>"

theorem admin_guard_exact_witness:
  "fst (assertAdminPermission plain_rbac APP_CONSTANTS sample_admin_input (sample_world sample_db)) =
    Inl (ApiError 403 ''forbidden'' ''Insufficient admin permission'')"
proof -
  have "RBACRepository_listPermissionKeys sample_db 1 no_context = []" by code_simp
  then show ?thesis
    using admin_guard_exact [of plain_rbac sample_admin_input APP_CONSTANTS "sample_world sample_db"]
    by (simp add: plain_rbac_def sample_admin_input_def shouldUseCache_def holds_permission_def)
qed

lemma sample_link: "fst (UserService_linkGoogleIdentity sample_libs 1 ''g'' ''aud'' (sample_world sample_db)) = Inr ()"
  by code_simp

theorem google_link_sound_witness:
  "findByProvider (db (snd (UserService_linkGoogleIdentity sample_libs 1 ''g'' ''aud'' (sample_world sample_db)))) ''google'' ''g'' \<noteq> None"
proof -
  have "UserService_linkGoogleIdentity sample_libs 1 ''g'' ''aud'' (sample_world sample_db) =
      (Inr (), snd (UserService_linkGoogleIdentity sample_libs 1 ''g'' ''aud'' (sample_world sample_db)))"
    using sample_link by (metis prod.collapse)
  from google_link_sound [OF this] show ?thesis by (auto simp: sample_libs_def split: if_splits)
qed

definition sample_patch :: profile_patch where
  "sample_patch = \<lparr>pp_displayName = Some ''Ann'', pp_givenName = None, pp_familyName = None,
     pp_preferredUsername = Some ''ann'', pp_locale = None, pp_zoneinfo = None\<rparr>"

lemma sample_update: "case updateProfile sample_libs 1 sample_patch (sample_world sample_db) of (Inr me, _) \<Rightarrow> me_userId me = 1 | _ \<Rightarrow> False"
  by (simp add: updateProfile_def UserService_getMe_def requireActiveUser_def write_profile_def UserProfileRepository_upsert_def run_simps findById_rows
      findByUserId_def sample_patch_def isPreferredUsernameTaken_def insert_row_def update_unique_def uniq_profiles_def
      username_key_def user_exists_def opt_user_exists_def new_profile_def createAuditLog_tx_def insert_audit_def draw_uuid_def Let_def
      uniq_defs sample_defs)

theorem profile_update_witness:
  "\<exists>me w'. updateProfile sample_libs 1 sample_patch (sample_world sample_db) = (Inr me, w') \<and>
    pv_preferredUsername (me_profile me) = Some ''ann''"
proof -
  obtain me w' where run: "updateProfile sample_libs 1 sample_patch (sample_world sample_db) = (Inr me, w')"
    using sample_update by (auto split: prod.splits sum.splits)
  from profile_update [OF run] run show ?thesis by (simp add: patched_view_def sample_patch_def Let_def)
qed

theorem revokes_own_session_witness:
  "map us_revokedAt (userSessions (db (snd (SessionService_revokeSession None 1 3 (sample_world sample_db))))) = [Some 1000]"
proof -
  let ?run = "SessionService_revokeSession None 1 3 (sample_world sample_db)"
  have "uniq_sessions (userSessions (db (sample_world sample_db)))" by (simp add: sample_defs uniq_defs)
  from revokes_own_session [OF prod.collapse [of ?run, symmetric] this] show ?thesis
    by (simp add: sample_defs revoke_session_row_def)
qed

end
