(* ===== verification/RequestSchemas.thy ===== *)
theory RequestSchemas
  imports EnvSchema Rbac IdpAuth UserService
begin

text \<open>
  The request schemas of packages/shared/src/schemas (auth.ts, account.ts, session.ts, user.ts,
  webauthn.ts): what the handlers of the server get to see of a JSON payload. A schema maps a value
  to the parsed payload, nothing when zod reports an issue.

  Of zod itself the e-mail and UUID patterns are parameters, of the runtime the locales and time
  zones it knows; a UUID is read as the key the database sees.
\<close>

record zod =
  zod_email :: "string \<Rightarrow> bool"
  zod_uuid :: "string \<Rightarrow> uuid option"
  intl_locale :: "string \<Rightarrow> string option"
  intl_timezone :: "string \<Rightarrow> bool"

section \<open>Fields\<close>

definition text_field :: "(string \<Rightarrow> 'a option) \<Rightarrow> json option \<Rightarrow> 'a option" where
  "text_field f v = (case v of Some (JStr s) \<Rightarrow> f s | _ \<Rightarrow> None)"

definition optional_field :: "(json option \<Rightarrow> 'a option) \<Rightarrow> json option \<Rightarrow> 'a option option" where
  "optional_field f v = (case v of None \<Rightarrow> Some None | Some _ \<Rightarrow> map_option Some (f v))"

definition sized :: "nat \<Rightarrow> nat \<Rightarrow> string \<Rightarrow> string option" where
  "sized least most s = (if least \<le> length s \<and> length s \<le> most then Some s else None)"

definition trimmed_text :: "(string \<Rightarrow> 'a option) \<Rightarrow> string \<Rightarrow> 'a option" where
  "trimmed_text f s = f (js_trim s)"

text \<open>\<open>z.object\<close>: an object, whatever other keys it has.\<close>

definition object_with :: "((string \<Rightarrow> json option) \<Rightarrow> 'a option) \<Rightarrow> json \<Rightarrow> 'a option" where
  "object_with f j = (case j of JObj _ \<Rightarrow> f (json_prop j) | _ \<Rightarrow> None)"

definition normalizedEmail :: "zod \<Rightarrow> string \<Rightarrow> string option" where
  "normalizedEmail Z = trimmed_text (\<lambda>s. if zod_email Z s then Some (to_lower s) else None)"

definition totp_digits :: "string \<Rightarrow> string option" where
  "totp_digits s = (if length s = 6 \<and> list_all is_digit s then Some s else None)"

definition recovery_char :: "char \<Rightarrow> bool" where
  "recovery_char c \<longleftrightarrow> (let n = of_char c :: nat in
     65 \<le> n \<and> n \<le> 90 \<or> 97 \<le> n \<and> n \<le> 122 \<or> 50 \<le> n \<and> n \<le> 57 \<or> c = CHR '' '' \<or> c = CHR ''-'')"

definition recovery_code :: "string \<Rightarrow> string option" where
  "recovery_code = trimmed_text (\<lambda>s. if list_all recovery_char s then sized 20 32 s else None)"

definition challenge_token :: "json option \<Rightarrow> string option option" where
  "challenge_token = optional_field (text_field (sized 1 2048))"

definition opaque_token :: "json option \<Rightarrow> string option" where
  "opaque_token = text_field (sized 16 1024)"

text \<open>\<open>superRefine\<close>: \<open>mfaCode\<close> and \<open>mfaFactorId\<close> come together.\<close>

definition mfa_pair :: "string option \<Rightarrow> uuid option \<Rightarrow> (string option \<times> uuid option) option" where
  "mfa_pair code factorId = (if truthy code \<noteq> (factorId \<noteq> None) then None else Some (code, factorId))"

section \<open>auth.ts\<close>

record signup_payload =
  su_email :: string
  su_password :: string
  su_displayName :: string
  su_challengeToken :: "string option"

definition signupRequestSchema :: "zod \<Rightarrow> json \<Rightarrow> signup_payload option" where
  "signupRequestSchema Z = object_with (\<lambda>f. do {
     email \<leftarrow> text_field (normalizedEmail Z) (f ''email'');
     password \<leftarrow> text_field (sized 12 128) (f ''password'');
     displayName \<leftarrow> text_field (trimmed_text (sized 1 80)) (f ''displayName'');
     challengeToken \<leftarrow> challenge_token (f ''challengeToken'');
     Some \<lparr>su_email = email, su_password = password, su_displayName = displayName,
       su_challengeToken = challengeToken\<rparr>})"

definition mfa_fields :: "zod \<Rightarrow> (string \<Rightarrow> json option) \<Rightarrow> mfa_input option" where
  "mfa_fields Z f = do {
     mfaCode \<leftarrow> optional_field (text_field totp_digits) (f ''mfaCode'');
     mfaFactorId \<leftarrow> optional_field (text_field (zod_uuid Z)) (f ''mfaFactorId'');
     mfaRecoveryCode \<leftarrow> optional_field (text_field recovery_code) (f ''mfaRecoveryCode'');
     pair \<leftarrow> mfa_pair mfaCode mfaFactorId;
     Some \<lparr>mi_mfaCode = fst pair, mi_mfaFactorId = snd pair, mi_mfaRecoveryCode = mfaRecoveryCode\<rparr>}"

record login_payload =
  lp_email :: string
  lp_password :: string
  lp_mfa :: mfa_input
  lp_challengeToken :: "string option"

definition loginRequestSchema :: "zod \<Rightarrow> json \<Rightarrow> login_payload option" where
  "loginRequestSchema Z = object_with (\<lambda>f. do {
     email \<leftarrow> text_field (normalizedEmail Z) (f ''email'');
     password \<leftarrow> text_field (sized 1 128) (f ''password'');
     mfa \<leftarrow> mfa_fields Z f;
     challengeToken \<leftarrow> challenge_token (f ''challengeToken'');
     Some \<lparr>lp_email = email, lp_password = password, lp_mfa = mfa, lp_challengeToken = challengeToken\<rparr>})"

definition refreshRequestSchema :: "json \<Rightarrow> string option" where
  "refreshRequestSchema = object_with (\<lambda>f. opaque_token (f ''refreshToken''))"

definition oauthRevocationRequestSchema :: "json \<Rightarrow> string option" where
  "oauthRevocationRequestSchema = object_with (\<lambda>f. opaque_token (f ''token''))"

definition oauthIntrospectionRequestSchema :: "json \<Rightarrow> string option" where
  "oauthIntrospectionRequestSchema = object_with (\<lambda>f. opaque_token (f ''token''))"

record auth_check_payload =
  cp_subject :: "string option"
  cp_action :: string
  cp_resource :: string
  cp_context :: auth_context

definition at_least_one :: "string \<Rightarrow> string option" where
  "at_least_one s = (if s = [] then None else Some s)"

definition context_fields :: "zod \<Rightarrow> (string \<Rightarrow> json option) \<Rightarrow> auth_context option" where
  "context_fields Z f = do {
     organizationId \<leftarrow> optional_field (text_field (zod_uuid Z)) (f ''organizationId'');
     groupId \<leftarrow> optional_field (text_field (zod_uuid Z)) (f ''groupId'');
     Some \<lparr>cx_organizationId = organizationId, cx_groupId = groupId\<rparr>}"

definition authCheckRequestSchema :: "zod \<Rightarrow> json \<Rightarrow> auth_check_payload option" where
  "authCheckRequestSchema Z = object_with (\<lambda>f. do {
     subject \<leftarrow> optional_field (text_field at_least_one) (f ''subject'');
     action \<leftarrow> text_field at_least_one (f ''action'');
     resource \<leftarrow> text_field at_least_one (f ''resource'');
     cx \<leftarrow> context_fields Z f;
     Some \<lparr>cp_subject = subject, cp_action = action, cp_resource = resource, cp_context = cx\<rparr>})"

text \<open>\<open>z.coerce.number()\<close>: \<open>Number(value)\<close>.\<close>

fun coerced_number :: "json \<Rightarrow> int option" where
  "coerced_number JNull = Some 0"
| "coerced_number (JBool b) = Some (if b then 1 else 0)"
| "coerced_number (JNum n) = Some n"
| "coerced_number (JStr s) = js_integer s"
| "coerced_number (JArr xs) = js_integer (js_text (JArr xs))"
| "coerced_number (JObj _) = None"

definition positive_number :: "json option \<Rightarrow> int option" where
  "positive_number v = (case v of None \<Rightarrow> None | Some j \<Rightarrow> Option.bind (coerced_number j) (checked (at_least 1)))"

record ent_check_payload =
  ep_key :: string
  ep_context :: auth_context
  ep_quantity :: "int option"

definition entitlementCheckRequestSchema :: "zod \<Rightarrow> json \<Rightarrow> ent_check_payload option" where
  "entitlementCheckRequestSchema Z = object_with (\<lambda>f. do {
     key \<leftarrow> text_field (sized 1 128) (f ''key'');
     cx \<leftarrow> context_fields Z f;
     quantity \<leftarrow> optional_field positive_number (f ''quantity'');
     Some \<lparr>ep_key = key, ep_context = cx, ep_quantity = quantity\<rparr>})"

text \<open>\<open>mfaEnrollRequestSchema\<close> and session.ts's \<open>emptyRequestSchema\<close>.\<close>

definition emptyRequestSchema :: "json \<Rightarrow> unit option" where
  "emptyRequestSchema = object_with (\<lambda>_. Some ())"

definition mfaVerifyRequestSchema :: "zod \<Rightarrow> json \<Rightarrow> (uuid \<times> string) option" where
  "mfaVerifyRequestSchema Z = object_with (\<lambda>f. do {
     factorId \<leftarrow> text_field (zod_uuid Z) (f ''factorId'');
     code \<leftarrow> text_field totp_digits (f ''code'');
     Some (factorId, code)})"

text \<open>The re-authentication of recovery code regeneration and of account deletion (account.ts).\<close>

record reauth_payload =
  rp_currentPassword :: "string option"
  rp_mfaCode :: "string option"
  rp_mfaFactorId :: "uuid option"

definition reauthRequestSchema :: "zod \<Rightarrow> json \<Rightarrow> reauth_payload option" where
  "reauthRequestSchema Z = object_with (\<lambda>f. do {
     currentPassword \<leftarrow> optional_field (text_field (sized 8 128)) (f ''currentPassword'');
     mfaCode \<leftarrow> optional_field (text_field totp_digits) (f ''mfaCode'');
     mfaFactorId \<leftarrow> optional_field (text_field (zod_uuid Z)) (f ''mfaFactorId'');
     pair \<leftarrow> mfa_pair mfaCode mfaFactorId;
     Some \<lparr>rp_currentPassword = currentPassword, rp_mfaCode = fst pair, rp_mfaFactorId = snd pair\<rparr>})"

definition passwordChangeRequestSchema :: "json \<Rightarrow> (string \<times> string) option" where
  "passwordChangeRequestSchema = object_with (\<lambda>f. do {
     currentPassword \<leftarrow> text_field (sized 8 128) (f ''currentPassword'');
     newPassword \<leftarrow> text_field (sized 12 128) (f ''newPassword'');
     Some (currentPassword, newPassword)})"

definition passwordResetRequestSchema :: "zod \<Rightarrow> json \<Rightarrow> (string \<times> string option) option" where
  "passwordResetRequestSchema Z = object_with (\<lambda>f. do {
     email \<leftarrow> text_field (normalizedEmail Z) (f ''email'');
     challengeToken \<leftarrow> challenge_token (f ''challengeToken'');
     Some (email, challengeToken)})"

definition emailVerificationRequestSchema :: "zod \<Rightarrow> json \<Rightarrow> string option" where
  "emailVerificationRequestSchema Z = object_with (\<lambda>f. text_field (normalizedEmail Z) (f ''email''))"

definition emailVerificationConfirmSchema :: "json \<Rightarrow> string option" where
  "emailVerificationConfirmSchema = object_with (\<lambda>f. opaque_token (f ''token''))"

definition passwordResetConfirmRequestSchema :: "json \<Rightarrow> (string \<times> string) option" where
  "passwordResetConfirmRequestSchema = object_with (\<lambda>f. do {
     resetToken \<leftarrow> opaque_token (f ''resetToken'');
     newPassword \<leftarrow> text_field (sized 12 128) (f ''newPassword'');
     Some (resetToken, newPassword)})"

record google_login_payload =
  glp_idToken :: string
  glp_mfa :: mfa_input
  glp_challengeToken :: "string option"

definition googleLoginRequestSchema :: "zod \<Rightarrow> json \<Rightarrow> google_login_payload option" where
  "googleLoginRequestSchema Z = object_with (\<lambda>f. do {
     idToken \<leftarrow> text_field at_least_one (f ''idToken'');
     mfa \<leftarrow> mfa_fields Z f;
     challengeToken \<leftarrow> challenge_token (f ''challengeToken'');
     Some \<lparr>glp_idToken = idToken, glp_mfa = mfa, glp_challengeToken = challengeToken\<rparr>})"

definition googleLinkRequestSchema :: "json \<Rightarrow> (string \<times> string) option" where
  "googleLinkRequestSchema = object_with (\<lambda>f. do {
     idToken \<leftarrow> text_field at_least_one (f ''idToken'');
     currentPassword \<leftarrow> text_field (sized 8 128) (f ''currentPassword'');
     Some (idToken, currentPassword)})"

definition googleUnlinkRequestSchema :: "json \<Rightarrow> (string \<times> string) option" where
  "googleUnlinkRequestSchema = object_with (\<lambda>f. do {
     providerSubject \<leftarrow> text_field (sized 1 255) (f ''providerSubject'');
     currentPassword \<leftarrow> text_field (sized 8 128) (f ''currentPassword'');
     Some (providerSubject, currentPassword)})"

section \<open>session.ts and webauthn.ts\<close>

definition revokeSessionRequestSchema :: "zod \<Rightarrow> json \<Rightarrow> uuid option" where
  "revokeSessionRequestSchema Z = object_with (\<lambda>f. text_field (zod_uuid Z) (f ''sessionId''))"

text \<open>The address of a passkey request is neither trimmed_text nor lowered; a missing response is \<open>undefined\<close>.\<close>

definition any_value :: "json option \<Rightarrow> json option option" where "any_value v = Some v"

definition webauthnRegistrationVerifySchema :: "json \<Rightarrow> (string option \<times> json option) option" where
  "webauthnRegistrationVerifySchema = object_with (\<lambda>f. do {
     name \<leftarrow> optional_field (text_field (sized 0 128)) (f ''name'');
     response \<leftarrow> any_value (f ''response'');
     Some (name, response)})"

definition plain_email :: "zod \<Rightarrow> string \<Rightarrow> string option" where
  "plain_email Z s = (if zod_email Z s then Some s else None)"

definition webauthnAuthenticationOptionsSchema :: "zod \<Rightarrow> json \<Rightarrow> string option" where
  "webauthnAuthenticationOptionsSchema Z = object_with (\<lambda>f. text_field (plain_email Z) (f ''email''))"

definition webauthnAuthenticationVerifySchema :: "zod \<Rightarrow> json \<Rightarrow> (string \<times> json option) option" where
  "webauthnAuthenticationVerifySchema Z = object_with (\<lambda>f. do {
     email \<leftarrow> text_field (plain_email Z) (f ''email'');
     response \<leftarrow> any_value (f ''response'');
     Some (email, response)})"

section \<open>user.ts\<close>

definition control_char :: "char \<Rightarrow> bool" where
  "control_char c \<longleftrightarrow> (let n = of_char c :: nat in n < 32 \<or> 127 \<le> n \<and> n < 160 \<or> n = 173)"

definition profileTextField :: "string \<Rightarrow> string option" where
  "profileTextField = trimmed_text (\<lambda>s. if list_ex control_char s then None else sized 1 80 s)"

definition username_start :: "char \<Rightarrow> bool" where
  "username_start c \<longleftrightarrow> (let n = of_char c :: nat in 97 \<le> n \<and> n \<le> 122 \<or> 48 \<le> n \<and> n \<le> 57)"

definition username_mark :: "char \<Rightarrow> bool" where
  "username_mark c \<longleftrightarrow> c = CHR ''.'' \<or> c = CHR ''_'' \<or> c = CHR ''-''"

fun two_marks :: "string \<Rightarrow> bool" where
  "two_marks (a # b # s) = (username_mark a \<and> username_mark b \<or> two_marks (b # s))"
| "two_marks s = False"

text \<open>\<open>preferredUsernamePattern\<close>: 3 to 64 characters, no two marks in a row, none at the ends.\<close>

definition preferredUsernamePattern :: "string \<Rightarrow> bool" where
  "preferredUsernamePattern s \<longleftrightarrow> s \<noteq> [] \<and> \<not> two_marks s \<and> \<not> username_mark (last s) \<and> username_start (hd s) \<and>
     list_all (\<lambda>c. username_start c \<or> username_mark c) s \<and> 3 \<le> length s \<and> length s \<le> 64"

definition preferred_username :: "string \<Rightarrow> string option" where
  "preferred_username s = (let t = to_lower (js_trim s) in if preferredUsernamePattern t then Some t else None)"

definition canonicalLocale :: "zod \<Rightarrow> string \<Rightarrow> string option" where
  "canonicalLocale Z = trimmed_text (\<lambda>s. Option.bind (sized 1 35 s) (intl_locale Z))"

definition fallbackTimezones :: "string list" where
  "fallbackTimezones = [''UTC'', ''Asia/Tokyo'', ''America/New_York'', ''Europe/London'']"

definition canonicalTimezone :: "zod \<Rightarrow> string \<Rightarrow> string option" where
  "canonicalTimezone Z = trimmed_text (\<lambda>s. if intl_timezone Z s \<or> s \<in> set fallbackTimezones then sized 1 64 s else None)"

text \<open>\<open>strict()\<close> refuses other keys, the refinement an empty patch.\<close>

definition profile_fields :: "string list" where
  "profile_fields = [''displayName'', ''givenName'', ''familyName'', ''preferredUsername'', ''locale'', ''zoneinfo'']"

definition updateUserProfileRequestSchema :: "zod \<Rightarrow> json \<Rightarrow> profile_patch option" where
  "updateUserProfileRequestSchema Z j = (case j of
     JObj fs \<Rightarrow>
       if fs = [] \<or> \<not> list_all (\<lambda>(k, _). k \<in> set profile_fields) fs then None
       else object_with (\<lambda>f. do {
         displayName \<leftarrow> optional_field (text_field profileTextField) (f ''displayName'');
         givenName \<leftarrow> optional_field (text_field profileTextField) (f ''givenName'');
         familyName \<leftarrow> optional_field (text_field profileTextField) (f ''familyName'');
         preferredUsername \<leftarrow> optional_field (text_field preferred_username) (f ''preferredUsername'');
         locale' \<leftarrow> optional_field (text_field (canonicalLocale Z)) (f ''locale'');
         zoneinfo \<leftarrow> optional_field (text_field (canonicalTimezone Z)) (f ''zoneinfo'');
         Some \<lparr>pp_displayName = displayName, pp_givenName = givenName, pp_familyName = familyName,
           pp_preferredUsername = preferredUsername, pp_locale = locale', pp_zoneinfo = zoneinfo\<rparr>}) j
   | _ \<Rightarrow> None)"

end
