(* ===== verification/ExampleBff.thy ===== *)
theory ExampleBff
  imports ServerSdk WebRequests RequestSchemas
begin

text \<open>
  apps/example-bff: a backend for a frontend built on the server SDK (app.ts), and its sealed cookies
  (session.ts). A handler is an action of the SDK client, whose clock it shares.
\<close>

abbreviation bind :: "('w, 'a) act \<Rightarrow> ('a \<Rightarrow> ('w, 'b) act) \<Rightarrow> ('w, 'b) act" where
  "bind \<equiv> Prelude.bind"

section \<open>Sealed values\<close>

text \<open>
  \<open>hmac_digest secret payload\<close> is the HMAC of node:crypto, \<open>url_at path base\<close> the text of
  \<open>new URL(path, base)\<close>.
\<close>

record bff_lib =
  hmac_digest :: "string \<Rightarrow> string \<Rightarrow> bytes"
  url_at :: "string \<Rightarrow> string \<Rightarrow> string"

definition sign :: "bff_lib \<Rightarrow> string \<Rightarrow> string \<Rightarrow> string" where
  "sign B payload secret = base64Url (hmac_digest B secret payload)"

definition seal :: "bff_lib \<Rightarrow> json \<Rightarrow> string \<Rightarrow> string" where
  "seal B v secret = (let payload = base64Url (utf8_bytes (stringify v)) in payload @ ''.'' @ sign B payload secret)"

definition unseal :: "bff_lib \<Rightarrow> string option \<Rightarrow> string \<Rightarrow> err + json" where
  "unseal B sealed secret =
     (if \<not> truthy sealed then Inl (PlainError ''missing_cookie'')
      else case js_split (CHR ''.'') (the sealed) of
        payload # signature # _ \<Rightarrow>
          if payload = [] \<or> signature = [] then Inl (PlainError ''invalid_cookie'')
          else if utf8_bytes signature \<noteq> utf8_bytes (sign B payload secret) then Inl (PlainError ''invalid_cookie_signature'')
          else (case decodeJson payload of None \<Rightarrow> Inl (PlainError ''SyntaxError'') | Some j \<Rightarrow> Inr j)
      | _ \<Rightarrow> Inl (PlainError ''invalid_cookie''))"

section \<open>Cookies\<close>

definition oauthStateCookieName :: string where "oauthStateCookieName = ''example_bff_oidc''"
definition sessionCookieName :: string where "sessionCookieName = ''example_bff_session''"

definition bff_cookie_entry :: "string \<Rightarrow> (string \<times> string) option" where
  "bff_cookie_entry item =
     (let trimmed = js_trim item;
          rawName = takeWhile (\<lambda>c. c \<noteq> CHR ''='') trimmed;
          value = drop (Suc (length rawName)) trimmed
      in if rawName = [] then None
         else Some (rawName, case uri_decode value of None \<Rightarrow> value | Some v \<Rightarrow> v))"

definition parseCookies :: "string option \<Rightarrow> string \<Rightarrow> string option" where
  "parseCookies cookieHeader =
     (if \<not> truthy cookieHeader then (\<lambda>_. None)
      else map_of (rev (List.map_filter bff_cookie_entry (js_split (CHR '';'') (the cookieHeader)))))"

text \<open>A lifetime that is not a number is \<open>None\<close>.\<close>

record cookie_security =
  cs_secure :: bool
  cs_sameSite :: string

definition age_text :: "int option \<Rightarrow> string" where
  "age_text n = (case n of None \<Rightarrow> ''NaN'' | Some k \<Rightarrow> show_int (max 0 k))"

text \<open>Every cookie of the application is HttpOnly and for the path \<open>/\<close>, with a lifetime.\<close>

definition bff_cookie :: "string \<Rightarrow> string \<Rightarrow> cookie_security \<Rightarrow> int option \<Rightarrow> string" where
  "bff_cookie name value security maxAge = js_join ''; '' (
     [name @ ''='' @ uri_encode value, ''Path=/'', ''HttpOnly''] @
     (if cs_secure security then [''Secure''] else []) @
     [''SameSite='' @ cs_sameSite security, ''Max-Age='' @ age_text maxAge])"

definition bff_clear_cookie :: "string \<Rightarrow> cookie_security \<Rightarrow> string" where
  "bff_clear_cookie name security = bff_cookie name [] security (Some 0)"

section \<open>Configuration\<close>

record bff_config =
  bc_issuer :: string
  bc_clientId :: string
  bc_clientSecret :: string
  bc_baseUrl :: string
  bc_sessionSecret :: string
  bc_sessionTtlSeconds :: "int option"
  bc_cookieSecurity :: cookie_security

definition requireString :: "(string \<Rightarrow> string option) \<Rightarrow> string \<Rightarrow> string \<Rightarrow> err + string" where
  "requireString env name fallback =
     (let v = (case env name of None \<Rightarrow> fallback | Some s \<Rightarrow> s) in
      if v = [] then Inl (PlainError (name @ '' is required'')) else Inr v)"

definition sum_bind :: "err + 'a \<Rightarrow> ('a \<Rightarrow> err + 'b) \<Rightarrow> err + 'b" where
  "sum_bind m f = (case m of Inl e \<Rightarrow> Inl e | Inr x \<Rightarrow> f x)"

definition loadExampleBffConfig :: "(string \<Rightarrow> string option) \<Rightarrow> err + bff_config" where
  "loadExampleBffConfig env =
     sum_bind (requireString env ''BFF_BASE_URL'' ''http://localhost:5173'') (\<lambda>baseUrl.
     sum_bind (requireString env ''BFF_SESSION_SECRET'' ''dev-example-bff-session-secret-change-me'') (\<lambda>sessionSecret.
     sum_bind (requireString env ''OIDC_ISSUER'' ''http://localhost:3001'') (\<lambda>issuer.
     sum_bind (requireString env ''OIDC_CLIENT_ID'' ''local-client'') (\<lambda>clientId.
     sum_bind (requireString env ''OIDC_CLIENT_SECRET'' ''local-client-secret'') (\<lambda>clientSecret.
     Inr \<lparr>bc_issuer = issuer, bc_clientId = clientId, bc_clientSecret = clientSecret, bc_baseUrl = baseUrl,
          bc_sessionSecret = sessionSecret,
          bc_sessionTtlSeconds = js_integer (case env ''BFF_SESSION_TTL_SECONDS'' of None \<Rightarrow> ''3600'' | Some s \<Rightarrow> s),
          bc_cookieSecurity = \<lparr>cs_secure = starts_with baseUrl ''https://'', cs_sameSite = ''Lax''\<rparr>\<rparr>)))))"

definition sdk_options_of :: "bff_config \<Rightarrow> sdk_options" where
  "sdk_options_of config = \<lparr>so_issuer = bc_issuer config, so_clientId = bc_clientId config, so_clientSecret = bc_clientSecret config\<rparr>"

definition callbackUrl :: "bff_lib \<Rightarrow> bff_config \<Rightarrow> string" where
  "callbackUrl B config = url_at B ''/callback'' (bc_baseUrl config)"

definition postLogoutRedirectUrl :: "bff_lib \<Rightarrow> bff_config \<Rightarrow> string" where
  "postLogoutRedirectUrl B config = url_at B ''/'' (bc_baseUrl config)"

section \<open>Local sessions\<close>

definition member :: "json option \<Rightarrow> string \<Rightarrow> json option sdk" where
  "member v k = (case v of None \<Rightarrow> throw type_error | Some j \<Rightarrow> get_prop j k)"

text \<open>\<open>v <= t\<close> for a property \<open>v\<close>: what is no number compares as false.\<close>

definition at_most :: "json option \<Rightarrow> int \<Rightarrow> bool" where
  "at_most v t = (case Option.bind v coerced_number of None \<Rightarrow> False | Some n \<Rightarrow> n \<le> t)"

definition getSession :: "bff_lib \<Rightarrow> bff_config \<Rightarrow> string option \<Rightarrow> json option sdk" where
  "getSession B config cookieHeader =
     (let cookie = parseCookies cookieHeader sessionCookieName in
      if \<not> truthy cookie then ret None
      else case unseal B cookie (bc_sessionSecret config) of
        Inl e \<Rightarrow> throw e
      | Inr session \<Rightarrow>
          bind (get_prop session ''expiresAt'') (\<lambda>expiresAt.
          bind (gets sd_clock) (\<lambda>t.
          ret (if at_most expiresAt t then None else Some session))))"

definition identity_json :: "session_identity \<Rightarrow> json" where
  "identity_json i = JObj (
     [(''userId'', JStr (session_identity.si_userId i))] @
     (case si_email i of None \<Rightarrow> [] | Some e \<Rightarrow> [(''email'', JStr e)]) @
     (case si_emailVerified i of None \<Rightarrow> [] | Some b \<Rightarrow> [(''emailVerified'', JBool b)]) @
     [(''permissions'', JArr (map JStr (si_permissions i))), (''entitlements'', si_entitlements i), (''claims'', si_claims i)])"

definition local_session :: "bff_config \<Rightarrow> session_identity \<Rightarrow> int \<Rightarrow> json" where
  "local_session config i t = JObj
     [(''identity'', identity_json i), (''createdAt'', JNum t),
      (''expiresAt'', case bc_sessionTtlSeconds config of None \<Rightarrow> JNull | Some n \<Rightarrow> JNum (t + n * 1000))]"

definition issueSessionCookie :: "bff_lib \<Rightarrow> bff_config \<Rightarrow> callback_result \<Rightarrow> string sdk" where
  "issueSessionCookie B config result =
     bind (gets sd_clock) (\<lambda>t.
     ret (bff_cookie sessionCookieName
       (seal B (local_session config (cr_sessionIdentity result) t) (bc_sessionSecret config))
       (bc_cookieSecurity config) (bc_sessionTtlSeconds config)))"

definition exampleBffClearCookies :: "cookie_security \<Rightarrow> string list" where
  "exampleBffClearCookies security =
     [bff_clear_cookie sessionCookieName security, bff_clear_cookie oauthStateCookieName security]"

section \<open>Pages\<close>

datatype bff_body = Html string | PlainText string | JsonBody json | NoBody

record bff_response =
  br_status :: nat
  br_location :: "string option"
  br_body :: bff_body
  br_cookies :: "string list"

definition redirect_to :: "string \<Rightarrow> string list \<Rightarrow> bff_response" where
  "redirect_to location cookies = \<lparr>br_status = 302, br_location = Some location, br_body = NoBody, br_cookies = cookies\<rparr>"

definition answer_with :: "nat \<Rightarrow> bff_body \<Rightarrow> bff_response" where
  "answer_with status body = \<lparr>br_status = status, br_location = None, br_body = body, br_cookies = []\<rparr>"

definition text_lines :: "string list \<Rightarrow> string" where
  "text_lines xs = js_join [CHR 0x0A] xs"

definition html_head :: string where
  \<open>html_head = text_lines
    [''<!doctype html>'',
     ''<html lang="en">'',
     ''<head>'',
     ''  <meta charset="utf-8" />'',
     ''  <meta name="viewport" content="width=device-width, initial-scale=1" />'',
     ''  <title>Example BFF</title>'',
     ''  <style>'',
     ''    body { font-family: ui-sans-serif, system-ui, sans-serif; margin: 40px; line-height: 1.5; color: #17202a; }'',
     ''    main { max-width: 760px; margin: 0 auto; }'',
     ''    a, button { display: inline-block; margin: 8px 8px 8px 0; }'',
     ''    button { padding: 8px 12px; }'',
     ''    pre { background: #f4f6f8; padding: 16px; overflow: auto; }'',
     ''  </style>'',
     ''</head>'',
     ''<body><main>'']\<close>

definition html :: "string \<Rightarrow> string" where
  "html body = html_head @ body @ text_lines [''</main></body>'', ''</html>'']"

text \<open>\<open>JSON.stringify(v, null, 2)\<close>, at an indentation.\<close>

definition indented_block :: "char \<Rightarrow> char \<Rightarrow> nat \<Rightarrow> string list \<Rightarrow> string" where
  "indented_block opening closing n parts =
     (if parts = [] then [opening, closing]
      else opening # CHR 0x0A # js_join ('','' @ [CHR 0x0A]) (map (\<lambda>p. replicate (n + 2) (CHR '' '') @ p) parts) @
        CHR 0x0A # replicate n (CHR '' '') @ [closing])"

fun stringify_indented :: "nat \<Rightarrow> json \<Rightarrow> string" where
  "stringify_indented n (JArr xs) = indented_block (CHR ''['') (CHR '']'') n (map (stringify_indented (n + 2)) xs)"
| "stringify_indented n (JObj fs) = indented_block (CHR ''{'') (CHR ''}'') n
     (map (\<lambda>(k, v). json_quote k @ '': '' @ stringify_indented (n + 2) v) fs)"
| "stringify_indented n j = stringify j"

text \<open>\<open>a ?? b\<close>, as the text of a template.\<close>

definition nullish :: "json option \<Rightarrow> bool" where
  "nullish v \<longleftrightarrow> v = None \<or> v = Some JNull"

definition text_or :: "json option \<Rightarrow> string \<Rightarrow> string" where
  "text_or v other = (if nullish v then other else prop_text v)"

definition signed_out_page :: string where
  \<open>signed_out_page = html (text_lines
    [''<h1>Example BFF</h1>'',
     ''<p>This app is not logged in locally.</p>'',
     ''<p><a href="/login">Login with IdP</a></p>''])\<close>

definition home_page :: "string \<Rightarrow> json \<Rightarrow> string" where
  \<open>home_page who identity = html (text_lines
    [''<h1>Example BFF</h1>'',
     ''<p>Logged in as <strong>'' @ who @ ''</strong>.</p>'',
     ''<pre>'' @ stringify_indented 0 identity @ ''</pre>'',
     ''<p><a href="/protected">Protected page</a></p>'',
     ''<form method="post" action="/logout"><button type="submit">Local logout</button></form>'',
     ''<form method="post" action="/logout/global"><button type="submit">Global logout</button></form>''])\<close>

definition protected_page :: "string \<Rightarrow> string \<Rightarrow> string" where
  \<open>protected_page userId email = html (text_lines
    [''<h1>Protected</h1>'',
     ''<p>User ID: '' @ userId @ ''</p>'',
     ''<p>Email: '' @ email @ ''</p>'',
     ''<p><a href="/">Home</a></p>''])\<close>

section \<open>Handlers\<close>

definition home_handler :: "bff_lib \<Rightarrow> bff_config \<Rightarrow> string option \<Rightarrow> bff_response sdk" where
  "home_handler B config cookieHeader =
     bind (getSession B config cookieHeader) (\<lambda>session.
     if \<not> truthy_value session then ret (answer_with 200 (Html signed_out_page))
     else
       bind (member session ''identity'') (\<lambda>identity.
       bind (member identity ''email'') (\<lambda>email.
       bind (member identity ''userId'') (\<lambda>userId.
       ret (answer_with 200 (Html (home_page (text_or email (prop_text userId)) (the identity))))))))"

definition pending_state :: "authorization_url \<Rightarrow> int \<Rightarrow> json" where
  "pending_state auth t = JObj
     [(''state'', JStr (au_state auth)), (''nonce'', JStr (au_nonce auth)),
      (''codeVerifier'', JStr (au_codeVerifier auth)), (''createdAt'', JNum t)]"

definition login_redirect :: "sdk_lib \<Rightarrow> bff_lib \<Rightarrow> bff_config \<Rightarrow> bff_response sdk" where
  "login_redirect N B config =
     bind (createAuthorizationUrl N (sdk_options_of config) (callbackUrl B config)
       (Some [''openid'', ''profile'', ''email'']) None None) (\<lambda>auth.
     bind (gets sd_clock) (\<lambda>t.
     ret (redirect_to (au_url auth)
       [bff_cookie oauthStateCookieName (seal B (pending_state auth t) (bc_sessionSecret config))
          (bc_cookieSecurity config) (Some 300)])))"

text \<open>A pending state without a \<open>state\<close> is a mismatch for every callback.\<close>

definition callback_of :: "bff_lib \<Rightarrow> bff_config \<Rightarrow> string option \<Rightarrow> string option \<Rightarrow> json \<Rightarrow> string \<Rightarrow> callback_input" where
  "callback_of B config code st pending expectedState =
     \<lparr>ci_code = code, ci_state = st, ci_expectedState = expectedState,
      ci_expectedNonce = string_of (json_prop pending ''nonce''), ci_redirectUri = callbackUrl B config,
      ci_codeVerifier = prop_text (json_prop pending ''codeVerifier''), ci_fetchUserInfo = True\<rparr>"

definition completed_callback ::
    "sdk_lib \<Rightarrow> bff_lib \<Rightarrow> bff_config \<Rightarrow> string option \<Rightarrow> string option \<Rightarrow> json \<Rightarrow> callback_result sdk" where
  "completed_callback N B config code st pending = (case string_of (json_prop pending ''state'') of
     None \<Rightarrow> throw (invalid_callback (if \<not> truthy code then ''Authorization callback is missing code''
               else ''Authorization callback state mismatch''))
   | Some expectedState \<Rightarrow>
       completeAuthorizationCodeCallback N (sdk_options_of config) (callback_of B config code st pending expectedState))"

definition state_expired :: "json option \<Rightarrow> int \<Rightarrow> bool" where
  "state_expired createdAt t = (case Option.bind createdAt coerced_number of
     None \<Rightarrow> False | Some c \<Rightarrow> 5 * 60 * 1000 < t - c)"

definition callback_handler ::
    "sdk_lib \<Rightarrow> bff_lib \<Rightarrow> bff_config \<Rightarrow> string option \<Rightarrow> string option \<Rightarrow> string option \<Rightarrow> bff_response sdk" where
  "callback_handler N B config cookieHeader code st =
     (case unseal B (parseCookies cookieHeader oauthStateCookieName) (bc_sessionSecret config) of
        Inl _ \<Rightarrow> ret (answer_with 400 (PlainText ''Invalid or expired OIDC state cookie''))
      | Inr pending \<Rightarrow>
          bind (gets sd_clock) (\<lambda>t.
          bind (get_prop pending ''createdAt'') (\<lambda>createdAt.
          if state_expired createdAt t then ret (answer_with 400 (PlainText ''OIDC state cookie expired''))
          else
            bind (completed_callback N B config code st pending) (\<lambda>result.
            bind (issueSessionCookie B config result) (\<lambda>cookie.
            ret (redirect_to ''/'' [bff_clear_cookie oauthStateCookieName (bc_cookieSecurity config), cookie]))))))"

definition json_member :: "string \<Rightarrow> json option \<Rightarrow> (string \<times> json) list" where
  "json_member k v = (case v of None \<Rightarrow> [] | Some j \<Rightarrow> [(k, j)])"

definition me_handler :: "bff_lib \<Rightarrow> bff_config \<Rightarrow> string option \<Rightarrow> bff_response sdk" where
  "me_handler B config cookieHeader =
     bind (getSession B config cookieHeader) (\<lambda>session.
     if \<not> truthy_value session then ret (answer_with 401 (JsonBody (JObj [(''authenticated'', JBool False)])))
     else
       bind (member session ''identity'') (\<lambda>identity.
       bind (member session ''expiresAt'') (\<lambda>expiresAt.
       ret (answer_with 200 (JsonBody (JObj ((''authenticated'', JBool True) #
         json_member ''identity'' identity @ json_member ''expiresAt'' expiresAt)))))))"

definition protected_handler :: "bff_lib \<Rightarrow> bff_config \<Rightarrow> string option \<Rightarrow> bff_response sdk" where
  "protected_handler B config cookieHeader =
     bind (getSession B config cookieHeader) (\<lambda>session.
     if \<not> truthy_value session then ret (redirect_to ''/login'' [])
     else
       bind (member session ''identity'') (\<lambda>identity.
       bind (member identity ''userId'') (\<lambda>userId.
       bind (member identity ''email'') (\<lambda>email.
       ret (answer_with 200 (Html (protected_page (prop_text userId) (text_or email ''-''))))))))"

text \<open>\<open>clearLocalSession\<close> adds the cookies to the response; the SDK calls it unless it throws before.\<close>

definition logout_request :: "bool \<Rightarrow> string option \<Rightarrow> logout_input" where
  "logout_request everywhere url = \<lparr>li_global = everywhere, li_refreshToken = None, li_accessToken = None,
     li_idTokenHint = None, li_postLogoutRedirectUri = url, li_state = None, li_clearLocalSession = ret ()\<rparr>"

definition local_logout_handler :: "sdk_lib \<Rightarrow> bff_config \<Rightarrow> bff_response sdk" where
  "local_logout_handler N config =
     bind (logout N (sdk_options_of config) (logout_request False None)) (\<lambda>_.
     ret (redirect_to ''/'' (exampleBffClearCookies (bc_cookieSecurity config))))"

definition global_logout_handler :: "sdk_lib \<Rightarrow> bff_lib \<Rightarrow> bff_config \<Rightarrow> bff_response sdk" where
  "global_logout_handler N B config =
     bind (logout N (sdk_options_of config) (logout_request True (Some (postLogoutRedirectUrl B config)))) (\<lambda>result.
     ret (redirect_to (case lr_logoutUrl result of None \<Rightarrow> ''/'' | Some u \<Rightarrow> u)
       (exampleBffClearCookies (bc_cookieSecurity config))))"

end
