(* ===== verification/ExampleBffFacts.thy ===== *)
theory ExampleBffFacts
  imports ExampleBff ServerSdkFacts WebRequestsFacts
begin

text \<open>
  The sealed cookies of the example backend: what it seals it reads back, nobody without the secret
  can make one, and what the two cookies are accepted for.
\<close>

section \<open>Sealing\<close>

text \<open>An HMAC is not empty.\<close>

definition hmac_given :: "bff_lib \<Rightarrow> bool" where
  "hmac_given B \<longleftrightarrow> (\<forall>secret payload. hmac_digest B secret payload \<noteq> [])"

lemma base64_encode_dot: "CHR ''.'' \<notin> set (base64_encode bs)"
proof -
  have digit: "base64_digit n \<noteq> CHR ''.''" for n
  proof -
    have "(of_char (base64_digit n) :: nat) \<noteq> 46" by (auto simp: base64_digit_def)
    then show ?thesis by auto
  qed
  show ?thesis by (induction bs rule: base64_encode.induct) (auto simp: base64_group_def digit [symmetric])
qed

lemma base64Url_dot: "CHR ''.'' \<notin> set (base64Url bs)"
  using base64_encode_dot [of bs] by (auto simp: base64Url_def replace_all_def split: if_splits)

lemma base64Url_empty [simp]: "base64Url bs = [] \<longleftrightarrow> bs = []"
proof
  assume "base64Url bs = []"
  then have "base64UrlToBuffer [] = bs" by (metis base64Url_round_trip)
  moreover have "base64UrlToBuffer [] = []" by code_simp
  ultimately show "bs = []" by simp
qed (simp add: base64Url_def replace_all_def)

lemma utf8_bytes_inject: "utf8_bytes a = utf8_bytes b \<longleftrightarrow> a = b"
  by (metis utf8_round_trip)

lemma unseal_seal:
  assumes "hmac_given B" and "json_ok j"
  shows "unseal B (Some (seal B j secret)) secret = Inr j"
proof -
  let ?payload = "base64Url (utf8_bytes (stringify j))"
  have decoded: "decodeJson ?payload = Some j" by (rule decodeJson_round_trip [OF assms(2)])
  moreover have "decodeJson [] = None" by code_simp
  ultimately have "?payload \<noteq> []" by (metis option.distinct(1))
  moreover have "sign B ?payload secret \<noteq> []" using assms(1) by (simp add: sign_def hmac_given_def)
  moreover have "js_split (CHR ''.'') (seal B j secret) = [?payload, sign B ?payload secret]"
    by (simp add: seal_def Let_def js_split_append js_split_no_sep base64Url_dot sign_def)
  moreover have "truthy (Some (seal B j secret))" by (simp add: seal_def Let_def)
  ultimately show ?thesis by (simp add: unseal_def decoded)
qed

text \<open>A value is read only from a payload with its signature, followed by nothing or a further part.\<close>

definition sealed_with :: "bff_lib \<Rightarrow> string \<Rightarrow> string \<Rightarrow> json \<Rightarrow> bool" where
  "sealed_with B secret sealed j \<longleftrightarrow> (\<exists>payload rest. sealed = payload @ ''.'' @ sign B payload secret @ rest \<and>
     (rest = [] \<or> hd rest = CHR ''.'') \<and> decodeJson payload = Some j)"

lemma split_two:
  assumes "js_split sep s = a # b # ps"
  shows "\<exists>rest. s = a @ sep # b @ rest \<and> (rest = [] \<or> hd rest = sep)"
proof -
  have one: "\<exists>rest. s = p @ rest \<and> (rest = [] \<and> ps = [] \<or> (\<exists>t. rest = sep # t \<and> js_split sep t = ps))"
    if "js_split sep s = p # ps" for p ps s
    using that
  proof (induction s arbitrary: p ps)
    case (Cons c cs)
    show ?case
    proof (cases "c = sep")
      case False
      obtain q qs where q: "js_split sep cs = q # qs" by (metis js_split_not_Nil neq_Nil_conv)
      with Cons.prems False have "p = c # q" "ps = qs" by auto
      with Cons.IH [OF q] show ?thesis by auto
    qed (use Cons.prems in auto)
  qed simp
  from one [OF assms] obtain t where t: "s = a @ sep # t" "js_split sep t = b # ps" by auto
  from one [OF t(2)] t(1) show ?thesis by auto
qed

lemma unseal_sound:
  assumes "unseal B v secret = Inr j"
  shows "\<exists>sealed. v = Some sealed \<and> sealed_with B secret sealed j"
proof -
  obtain sealed where v: "v = Some sealed" using assms by (cases v) (auto simp: unseal_def)
  from assms obtain payload ps where split: "js_split (CHR ''.'') sealed = payload # sign B payload secret # ps"
    and decoded: "decodeJson payload = Some j"
    by (auto simp: unseal_def v utf8_bytes_inject split: if_splits list.splits option.splits)
  from split_two [OF split] decoded v show ?thesis by (auto simp: sealed_with_def)
qed

section \<open>Cookies\<close>

lemma cookie_entry_text:
  assumes "cookie_name k"
  shows "bff_cookie_entry (cookie_text (k, v)) = Some (k, v)" "bff_cookie_entry (CHR '' '' # cookie_text (k, v)) = Some (k, v)"
proof -
  have "js_trim (cookie_text (k, v)) = cookie_text (k, v)"
    using assms uri_encode_safe by (intro js_trim_clean) (auto simp: cookie_text_def cookie_name_def cookie_safe_def js_space_def)
  then show "bff_cookie_entry (cookie_text (k, v)) = Some (k, v)" "bff_cookie_entry (CHR '' '' # cookie_text (k, v)) = Some (k, v)"
    using assms by (simp_all add: bff_cookie_entry_def js_trim_space Let_def)
      (simp_all add: cookie_text_def takeWhile_name uri_round_trip cookie_name_def)
qed

lemma cookie_back:
  assumes "cookie_name k"
  shows "parseCookies (Some (cookie_header [(k, v)])) = [k \<mapsto> v]"
proof -
  have "CHR '';'' \<notin> set (cookie_text (k, v))"
    using assms uri_encode_safe by (auto simp: cookie_text_def cookie_name_def cookie_safe_def)
  moreover have "cookie_text (k, v) \<noteq> []" by (simp add: cookie_text_def)
  ultimately show ?thesis
    by (simp add: parseCookies_def cookie_header_def js_split_no_sep cookie_entry_text [OF assms] map_filter_simps)
qed

lemma bff_cookie_names: "cookie_name sessionCookieName" "cookie_name oauthStateCookieName"
  by (auto simp: cookie_name_def cookie_safe_def js_space_def sessionCookieName_def oauthStateCookieName_def)

lemma seal_nonempty: "seal B j secret \<noteq> []" by (simp add: seal_def Let_def)

lemma session_of_sealed:
  assumes "hmac_given B" and "json_ok j" and "j \<noteq> JNull"
  shows "getSession B config (Some (cookie_header [(sessionCookieName, seal B j (bc_sessionSecret config))])) s =
    (Inr (if at_most (json_prop j ''expiresAt'') (sd_clock s) then None else Some j), s)"
  using assms
  by (simp add: getSession_def Let_def cookie_back [OF bff_cookie_names(1)] seal_nonempty unseal_seal get_prop_def
      bind_run ret_run gets_run)

section \<open>Properties\<close>

lemma me_of_session:
  assumes "getSession B config h s = (Inr v, s)"
  shows "me_handler B config h s = (case v of
     Some (JObj fs) \<Rightarrow> (Inr (answer_with 200 (JsonBody (JObj ((''authenticated'', JBool True) #
       json_member ''identity'' (json_prop (JObj fs) ''identity'') @ json_member ''expiresAt'' (json_prop (JObj fs) ''expiresAt''))))), s)
   | None \<Rightarrow> (Inr (answer_with 401 (JsonBody (JObj [(''authenticated'', JBool False)]))), s)
   | _ \<Rightarrow> me_handler B config h s)"
proof -
  have "me_handler B config h s = (if \<not> truthy_value v
      then ret (answer_with 401 (JsonBody (JObj [(''authenticated'', JBool False)])))
      else bind (member v ''identity'') (\<lambda>identity. bind (member v ''expiresAt'') (\<lambda>expiresAt.
        ret (answer_with 200 (JsonBody (JObj ((''authenticated'', JBool True) #
          json_member ''identity'' identity @ json_member ''expiresAt'' expiresAt))))))) s"
    unfolding me_handler_def by (rule bind_eq_if_ret [of "getSession B config h" s, OF assms])
  then show ?thesis
    by (auto simp: truthy_value_def member_def get_prop_def bind_run ret_run split: option.split json.split)
qed

text \<open>
  C38: The cookie a completed callback sets signs the browser in: until its lifetime ends, and no longer,
  the application answers with the identity the SDK verified for this very callback, whose state was
  in the sealed cookie of the same browser.
\<close>

theorem bff_session_round_trip:
  assumes "callback_handler N B config h code st s = (Inr r, s')" and "br_status r = 302"
    and "hmac_given B" and "bc_sessionTtlSeconds config = Some n"
  shows "\<exists>sealed pending result v. parseCookies h oauthStateCookieName = Some sealed \<and>
    sealed_with B (bc_sessionSecret config) sealed pending \<and>
    unseal B (Some sealed) (bc_sessionSecret config) = Inr pending \<and>
    completed_callback N B config code st pending s = (Inr result, s') \<and>
    br_cookies r = [bff_clear_cookie oauthStateCookieName (bc_cookieSecurity config),
      bff_cookie sessionCookieName v (bc_cookieSecurity config) (Some n)] \<and>
    (json_ok (identity_json (cr_sessionIdentity result)) \<longrightarrow>
      (\<forall>later. fst (me_handler B config (Some (cookie_header [(sessionCookieName, v)])) later) = Inr (
        if sd_clock s' + n * 1000 \<le> sd_clock later
        then answer_with 401 (JsonBody (JObj [(''authenticated'', JBool False)]))
        else answer_with 200 (JsonBody (JObj [(''authenticated'', JBool True),
          (''identity'', identity_json (cr_sessionIdentity result)), (''expiresAt'', JNum (sd_clock s' + n * 1000))])))))"
proof -
  let ?secret = "bc_sessionSecret config"
  obtain pending where unsealed: "unseal B (parseCookies h oauthStateCookieName) ?secret = Inr pending"
    using assms(1,2) by (cases "unseal B (parseCookies h oauthStateCookieName) ?secret")
      (auto simp: callback_handler_def ret_run answer_with_def)
  then obtain sealed where sealed: "parseCookies h oauthStateCookieName = Some sealed" "sealed_with B ?secret sealed pending"
    using unseal_sound by blast
  have pending: "pending \<noteq> JNull" "\<not> state_expired (json_prop pending ''createdAt'') (sd_clock s)"
    using assms(1,2) unsealed
    by (auto simp: callback_handler_def get_prop_def bind_run ret_run gets_run throw_run answer_with_def split: if_splits)
  obtain result s1 where result: "completed_callback N B config code st pending s = (Inr result, s1)"
    and rest: "bind (issueSessionCookie B config result) (\<lambda>cookie.
      ret (redirect_to ''/'' [bff_clear_cookie oauthStateCookieName (bc_cookieSecurity config), cookie])) s1 = (Inr r, s')"
    using assms(1) pending
    by (auto simp: callback_handler_def unsealed ok_iffs gets_run)
  define session where "session = local_session config (cr_sessionIdentity result) (sd_clock s1)"
  define v where "v = seal B session ?secret"
  have s1: "s1 = s'" and r: "br_cookies r = [bff_clear_cookie oauthStateCookieName (bc_cookieSecurity config),
      bff_cookie sessionCookieName v (bc_cookieSecurity config) (Some n)]"
    using rest by (auto simp: issueSessionCookie_def bind_run ret_run gets_run redirect_to_def v_def session_def assms(4))
  have read: "fst (me_handler B config (Some (cookie_header [(sessionCookieName, v)])) later) = Inr (
        if sd_clock s' + n * 1000 \<le> sd_clock later
        then answer_with 401 (JsonBody (JObj [(''authenticated'', JBool False)]))
        else answer_with 200 (JsonBody (JObj [(''authenticated'', JBool True),
          (''identity'', identity_json (cr_sessionIdentity result)), (''expiresAt'', JNum (sd_clock s' + n * 1000))])))"
    if "json_ok (identity_json (cr_sessionIdentity result))" for later
  proof -
    have "json_ok session" "session \<noteq> JNull" using that by (simp_all add: session_def local_session_def assms(4))
    note me_of_session [OF session_of_sealed [OF assms(3) this, of config later, folded v_def]]
    then show ?thesis
      by (cases "sd_clock s' + n * 1000 \<le> sd_clock later")
        (simp_all add: session_def local_session_def assms(4) s1 at_most_def json_member_def)
  qed
  have "unseal B (Some sealed) ?secret = Inr pending" using unsealed sealed(1) by simp
  then show ?thesis using sealed result r read unfolding s1 by blast
qed

text \<open>
  The cookie of a pending sign-in is accepted as a session: sealed with the same secret and without an
  \<open>expiresAt\<close>, it makes \<open>/me\<close> answer that the browser is authenticated, whoever asked for it.
\<close>

theorem pending_cookie_is_a_session:
  assumes "login_redirect N B config s = (Inr r, s')" and "hmac_given B"
  shows "\<exists>v. br_cookies r = [bff_cookie oauthStateCookieName v (bc_cookieSecurity config) (Some 300)] \<and>
    (\<forall>later. me_handler B config (Some (cookie_header [(sessionCookieName, v)])) later =
      (Inr (answer_with 200 (JsonBody (JObj [(''authenticated'', JBool True)]))), later))"
proof -
  obtain auth t where auth: "br_cookies r = [bff_cookie oauthStateCookieName (seal B (pending_state auth t)
      (bc_sessionSecret config)) (bc_cookieSecurity config) (Some 300)]"
    using assms(1) by (auto simp: login_redirect_def redirect_to_def ok_iffs gets_run)
  have "json_ok (pending_state auth t)" "pending_state auth t \<noteq> JNull"
    by (simp_all add: pending_state_def)
  note me_of_session [OF session_of_sealed [OF assms(2) this, of config]]
  with auth show ?thesis by (auto simp: pending_state_def at_most_def json_member_def)
qed

section \<open>Samples\<close>

definition sample_bff :: bff_lib where
  "sample_bff = \<lparr>hmac_digest = (\<lambda>_ _. ''m''), url_at = (\<lambda>path base. base @ path)\<rparr>"

definition bff_settings :: bff_config where
  "bff_settings = \<lparr>bc_issuer = ''i/'', bc_clientId = ''c'', bc_clientSecret = ''x'', bc_baseUrl = ''b'', bc_sessionSecret = ''s'',
     bc_sessionTtlSeconds = Some 60, bc_cookieSecurity = \<lparr>cs_secure = True, cs_sameSite = ''Lax''\<rparr>\<rparr>"

definition bff_provider :: sdk_lib where
  "bff_provider = sample_provider\<lparr>answer := (\<lambda>sent r. if rq_url r = ''i/.well-known/openid-configuration''
     then Responded 200 (Some (JObj [(''issuer'', JStr ''i''), (''token_endpoint'', JStr ''t''), (''jwks_uri'', JStr ''k''),
       (''userinfo_endpoint'', JStr ''u''), (''authorization_endpoint'', JStr ''a'')]))
     else if rq_url r = ''u'' then Responded 200 (Some (JObj [(''email'', JStr ''e'')]))
     else answer sample_provider sent r)\<rparr>"

definition sample_pending :: json where
  "sample_pending = JObj [(''state'', JStr ''st''), (''nonce'', JStr ''n''), (''codeVerifier'', JStr ''v''), (''createdAt'', JNum 4000)]"

definition pending_header :: string where
  "pending_header = cookie_header [(oauthStateCookieName, seal sample_bff sample_pending ''s'')]"

lemma sample_bff_facts: "hmac_given sample_bff" "bc_sessionTtlSeconds bff_settings = Some 60" "bc_sessionSecret bff_settings = ''s''"
  by (simp_all add: hmac_given_def sample_bff_def bff_settings_def)

lemma sample_completed:
  "case fst (completed_callback bff_provider sample_bff bff_settings (Some ''code'') (Some ''st'') sample_pending fresh_client) of
     Inr r \<Rightarrow> json_ok (identity_json (cr_sessionIdentity r)) | Inl _ \<Rightarrow> False"
  by code_simp

lemma sample_bff_callback:
  "\<exists>r. fst (callback_handler bff_provider sample_bff bff_settings (Some pending_header) (Some ''code'') (Some ''st'') fresh_client) = Inr r \<and>
     br_status r = 302"
proof -
  have "json_ok sample_pending" "sample_pending \<noteq> JNull" by (simp_all add: sample_pending_def)
  moreover from this have "unseal sample_bff (parseCookies (Some pending_header) oauthStateCookieName) ''s'' = Inr sample_pending"
    by (simp add: pending_header_def cookie_back [OF bff_cookie_names(2)] unseal_seal sample_bff_facts)
  moreover have "\<not> state_expired (json_prop sample_pending ''createdAt'') (sd_clock fresh_client)" by code_simp
  moreover obtain result where "fst (completed_callback bff_provider sample_bff bff_settings (Some ''code'') (Some ''st'') sample_pending fresh_client) =
      Inr result"
    using sample_completed by (auto split: sum.splits)
  then obtain s1 where "completed_callback bff_provider sample_bff bff_settings (Some ''code'') (Some ''st'') sample_pending fresh_client = (Inr result, s1)"
    by (metis prod.collapse)
  ultimately show ?thesis
    by (simp add: callback_handler_def sample_bff_facts get_prop_def bind_run ret_run gets_run issueSessionCookie_def redirect_to_def)
qed

theorem bff_session_round_trip_witness:
  "\<exists>r s' (result :: callback_result) v. callback_handler bff_provider sample_bff bff_settings (Some pending_header) (Some ''code'') (Some ''st'') fresh_client =
      (Inr r, s') \<and>
    br_cookies r = [bff_clear_cookie oauthStateCookieName (bc_cookieSecurity bff_settings),
      bff_cookie sessionCookieName v (bc_cookieSecurity bff_settings) (Some 60)] \<and>
    json_ok (identity_json (cr_sessionIdentity result)) \<and>
    fst (me_handler sample_bff bff_settings (Some (cookie_header [(sessionCookieName, v)])) s') =
      Inr (answer_with 200 (JsonBody (JObj [(''authenticated'', JBool True),
        (''identity'', identity_json (cr_sessionIdentity result)), (''expiresAt'', JNum (sd_clock s' + 60000))])))"
proof -
  let ?run = "callback_handler bff_provider sample_bff bff_settings (Some pending_header) (Some ''code'') (Some ''st'') fresh_client"
  obtain r where r: "fst ?run = Inr r" "br_status r = 302" using sample_bff_callback by blast
  then have run: "?run = (Inr r, snd ?run)" by (metis prod.collapse)
  have parsed: "parseCookies (Some pending_header) oauthStateCookieName = Some (seal sample_bff sample_pending ''s'')"
    by (simp add: pending_header_def cookie_back [OF bff_cookie_names(2)])
  have pending: "pending = sample_pending"
    if "parseCookies (Some pending_header) oauthStateCookieName = Some sealed" "unseal sample_bff (Some sealed) ''s'' = Inr pending"
    for sealed pending
  proof -
    have "json_ok sample_pending" by (simp add: sample_pending_def)
    from unseal_seal [OF sample_bff_facts(1) this, of "''s''"] that parsed show ?thesis by auto
  qed
  have ok: "json_ok (identity_json (cr_sessionIdentity result))"
    if "completed_callback bff_provider sample_bff bff_settings (Some ''code'') (Some ''st'') sample_pending fresh_client = (Inr result, s1)"
    for result s1 using that sample_completed by simp
  from bff_session_round_trip [OF run r(2) sample_bff_facts(1,2)] obtain sealed pending result v where
    facts: "parseCookies (Some pending_header) oauthStateCookieName = Some sealed" "unseal sample_bff (Some sealed) ''s'' = Inr pending"
      "completed_callback bff_provider sample_bff bff_settings (Some ''code'') (Some ''st'') pending fresh_client = (Inr result, snd ?run)"
      "br_cookies r = [bff_clear_cookie oauthStateCookieName (bc_cookieSecurity bff_settings),
        bff_cookie sessionCookieName v (bc_cookieSecurity bff_settings) (Some 60)]"
    and read: "json_ok (identity_json (cr_sessionIdentity result)) \<longrightarrow>
      (\<forall>later. fst (me_handler sample_bff bff_settings (Some (cookie_header [(sessionCookieName, v)])) later) = Inr (
        if sd_clock (snd ?run) + 60 * 1000 \<le> sd_clock later
        then answer_with 401 (JsonBody (JObj [(''authenticated'', JBool False)]))
        else answer_with 200 (JsonBody (JObj [(''authenticated'', JBool True),
          (''identity'', identity_json (cr_sessionIdentity result)), (''expiresAt'', JNum (sd_clock (snd ?run) + 60 * 1000))]))))"
    unfolding sample_bff_facts(3) by blast
  have good: "json_ok (identity_json (cr_sessionIdentity result))" using ok facts(3) pending [OF facts(1,2)] by simp
  have "fst (me_handler sample_bff bff_settings (Some (cookie_header [(sessionCookieName, v)])) (snd ?run)) =
      Inr (answer_with 200 (JsonBody (JObj [(''authenticated'', JBool True),
        (''identity'', identity_json (cr_sessionIdentity result)), (''expiresAt'', JNum (sd_clock (snd ?run) + 60000))])))"
    using read good by simp
  with good facts(4) run show ?thesis by blast
qed

lemma sample_authorization:
  "case fst (createAuthorizationUrl bff_provider (sdk_options_of bff_settings) (callbackUrl sample_bff bff_settings)
     (Some [''openid'', ''profile'', ''email'']) None None fresh_client) of Inr _ \<Rightarrow> True | Inl _ \<Rightarrow> False"
  by code_simp

lemma sample_bff_login: "\<exists>r. fst (login_redirect bff_provider sample_bff bff_settings fresh_client) = Inr r"
  using sample_authorization by (auto simp: login_redirect_def bind_run ret_run gets_run split: prod.splits sum.splits)

theorem pending_cookie_is_a_session_witness:
  "\<exists>r s' v. login_redirect bff_provider sample_bff bff_settings fresh_client = (Inr r, s') \<and>
    br_cookies r = [bff_cookie oauthStateCookieName v (bc_cookieSecurity bff_settings) (Some 300)] \<and>
    fst (me_handler sample_bff bff_settings (Some (cookie_header [(sessionCookieName, v)])) fresh_client) =
      Inr (answer_with 200 (JsonBody (JObj [(''authenticated'', JBool True)])))"
proof -
  let ?run = "login_redirect bff_provider sample_bff bff_settings fresh_client"
  obtain r where "fst ?run = Inr r" using sample_bff_login by blast
  then have run: "?run = (Inr r, snd ?run)" by (metis prod.collapse)
  have "hmac_given sample_bff" by (simp add: hmac_given_def sample_bff_def)
  from pending_cookie_is_a_session [OF run this] run show ?thesis by (metis fst_conv)
qed

end
