(* ===== verification/AuthRoutes.thy ===== *)
theory AuthRoutes
  imports RequestSchemas OAuthClients WebRequests ServerSdk ConfigService
begin

text \<open>
  The public endpoints of modules/auth/auth.routes.ts (and the revocation endpoint of app.ts): rate
  limits, bot risk, the Turnstile challenge of core/turnstile.ts, client authentication and the
  cookies of a login, around the services modelled elsewhere.
\<close>

text \<open>\<open>bind\<close> is the one of actions from here on.\<close>

abbreviation bind :: "('w, 'a) act \<Rightarrow> ('a \<Rightarrow> ('w, 'b) act) \<Rightarrow> ('w, 'b) act" where
  "bind \<equiv> Prelude.bind"

section \<open>Turnstile\<close>

text \<open>
  The verification service is the parameter \<open>siteverify\<close>: from the URL and the form it gives the JSON
  answer, or the text \<open>String(error)\<close> gives, with the name of its class, when the request fails or the answer is not
  JSON.
\<close>

type_synonym siteverify = "string \<Rightarrow> (string \<times> string) list \<Rightarrow> string + json"

record turnstile_result =
  ts_ok :: bool
  ts_action :: "json option"
  ts_hostname :: "json option"
  ts_errorCodes :: "json list"

definition if_truthy :: "json option \<Rightarrow> json option" where
  "if_truthy v = (if truthy_value v then v else None)"

definition turnstile_form :: "string \<Rightarrow> string \<Rightarrow> string option \<Rightarrow> string \<Rightarrow> (string \<times> string) list" where
  "turnstile_form secretKey token remoteIp idempotencyKey =
     [(''secret'', secretKey), (''response'', token)] @
     (if truthy remoteIp then [(''remoteip'', the remoteIp)] else []) @ [(''idempotency_key'', idempotencyKey)]"

definition verifyTurnstileToken ::
    "siteverify \<Rightarrow> string \<Rightarrow> string \<Rightarrow> string \<Rightarrow> string option \<Rightarrow> string \<Rightarrow> turnstile_result io" where
  "verifyTurnstileToken V verifyUrl secretKey token remoteIp idempotencyKey =
     (case V verifyUrl (turnstile_form secretKey token remoteIp idempotencyKey) of
        Inl e \<Rightarrow> throw (PlainError e)
      | Inr JNull \<Rightarrow> throw (PlainError ''TypeError: Cannot read properties of null'')
      | Inr payload \<Rightarrow> ret
          \<lparr>ts_ok = truthy_value (json_prop payload ''success''),
           ts_action = if_truthy (json_prop payload ''action''),
           ts_hostname = if_truthy (json_prop payload ''hostname''),
           ts_errorCodes = (case json_prop payload ''error-codes'' of Some (JArr es) \<Rightarrow> es | _ \<Rightarrow> [])\<rparr>)"

section \<open>Challenges\<close>

definition recordBotChallengeResult :: "string \<Rightarrow> string \<Rightarrow> unit io" where
  "recordBotChallengeResult endpoint result = emit (Metric ''bot_challenge_total'' [endpoint, result])"

definition recordBotBlock :: "string \<Rightarrow> unit io" where
  "recordBotBlock endpoint = emit (Metric ''bot_block_total'' [endpoint])"

definition recordBotEvent :: "string \<Rightarrow> json \<Rightarrow> unit io" where
  "recordBotEvent eventType payload = AuthService_recordSecurityEvent eventType None payload"

definition challenge_payload :: "string \<Rightarrow> string \<Rightarrow> string option \<Rightarrow> (string \<times> json) list \<Rightarrow> json" where
  "challenge_payload endpoint action ipAddress more_fields = JObj
     ([(''endpoint'', JStr endpoint), (''action'', JStr action), (''ipAddress'', jstr_opt ipAddress)] @ more_fields)"

definition is_api_error :: "err \<Rightarrow> bool" where
  "is_api_error e = (case e of ApiError _ _ _ \<Rightarrow> True | _ \<Rightarrow> False)"

text \<open>\<open>String(error)\<close>: a \<open>PlainError\<close> of the verification carries that text.\<close>

definition error_text :: "err \<Rightarrow> string" where
  "error_text e = (case e of ApiError _ _ m \<Rightarrow> ''Error: '' @ m | DbError c \<Rightarrow> ''Error: '' @ c
     | ServerSdkError _ m _ \<Rightarrow> ''Error: '' @ m | PlainError m \<Rightarrow> m)"

definition or_null :: "json option \<Rightarrow> json" where
  "or_null v = (case v of None \<Rightarrow> JNull | Some j \<Rightarrow> j)"

definition hostname_ok :: "server_env \<Rightarrow> turnstile_result \<Rightarrow> bool" where
  "hostname_ok env v \<longleftrightarrow> js_trim (TURNSTILE_EXPECTED_HOSTNAME env) = [] \<or>
     ts_hostname v = Some (JStr (TURNSTILE_EXPECTED_HOSTNAME env))"

definition invalid_challenge :: err where
  "invalid_challenge = ApiError 401 ''invalid_challenge'' ''Invalid bot challenge token''"

text \<open>The body of the \<open>try\<close>: the verification and its verdict.\<close>

definition check_challenge ::
    "siteverify \<Rightarrow> server_env \<Rightarrow> string \<Rightarrow> string \<Rightarrow> string option \<Rightarrow> string \<Rightarrow> unit io" where
  "check_challenge V env endpoint action ipAddress token =
     bind draw_uuid (\<lambda>key.
     bind (verifyTurnstileToken V (TURNSTILE_VERIFY_URL env) (TURNSTILE_SECRET_KEY env) token ipAddress (uuid_text key)) (\<lambda>v.
     let actionOk = (ts_action v = Some (JStr action)) in
     if \<not> ts_ok v \<or> \<not> actionOk \<or> \<not> hostname_ok env v then
       bind (recordBotChallengeResult endpoint ''failed'') (\<lambda>_.
       bind (recordBotBlock endpoint) (\<lambda>_.
       bind (recordBotEvent ''bot.challenge.invalid'' (challenge_payload endpoint action ipAddress
         [(''verifiedAction'', or_null (ts_action v)), (''hostname'', or_null (ts_hostname v)),
          (''errorCodes'', JArr (ts_errorCodes v)), (''actionOk'', JBool actionOk),
          (''hostnameOk'', JBool (hostname_ok env v))])) (\<lambda>_.
       throw invalid_challenge)))
     else recordBotChallengeResult endpoint ''passed''))"

definition provider_error ::
    "string \<Rightarrow> string \<Rightarrow> string option \<Rightarrow> bool \<Rightarrow> err \<Rightarrow> unit io" where
  "provider_error endpoint action ipAddress failOpen error =
     (if is_api_error error then throw error
      else
        bind (recordBotChallengeResult endpoint ''error'') (\<lambda>_.
        bind (recordBotEvent ''bot.challenge.provider_error''
          (challenge_payload endpoint action ipAddress [(''error'', JStr (error_text error))])) (\<lambda>_.
        if \<not> failOpen then
          bind (recordBotBlock endpoint) (\<lambda>_.
          throw (ApiError 503 ''challenge_provider_unavailable''
            ''Bot challenge verification is temporarily unavailable''))
        else emit (LogLine ''turnstile verification failed; fail-open applied'' (JObj [(''endpoint'', JStr endpoint)])))))"

definition verifyChallengeOrThrow ::
    "siteverify \<Rightarrow> server_env \<Rightarrow> string \<Rightarrow> string \<Rightarrow> string option \<Rightarrow> string option \<Rightarrow> bool \<Rightarrow> unit io" where
  "verifyChallengeOrThrow V env endpoint action ipAddress token failOpen =
     (if \<not> TURNSTILE_ENABLED env then ret ()
      else if \<not> truthy token then
        bind (recordBotChallengeResult endpoint ''missing'') (\<lambda>_.
        bind (recordBotBlock endpoint) (\<lambda>_.
        bind (recordBotEvent ''bot.challenge.missing'' (challenge_payload endpoint action ipAddress [])) (\<lambda>_.
        throw (ApiError 400 ''challenge_required'' ''Bot challenge token is required''))))
      else try_catch (check_challenge V env endpoint action ipAddress (the token))
             (provider_error endpoint action ipAddress failOpen))"

section \<open>Requests and answers\<close>

record auth_request = web_request +
  rq_forwardedFor :: "string option"
  rq_userAgent :: "string option"
  rq_deviceId :: "string option"

record route_answer =
  an_body :: json
  an_cookies :: "string list"

text \<open>A header or nothing when it is empty.\<close>

definition or_none :: "string option \<Rightarrow> string option" where
  "or_none v = (if truthy v then v else None)"

definition or_unknown :: "string option \<Rightarrow> string" where
  "or_unknown v = (case v of None \<Rightarrow> ''unknown'' | Some s \<Rightarrow> s)"

definition rate_limited :: "string \<Rightarrow> err" where
  "rate_limited message = ApiError 429 ''rate_limited'' message"

text \<open>The guard at the start of most handlers.\<close>

definition within_rate :: "string \<Rightarrow> int \<Rightarrow> int \<Rightarrow> string \<Rightarrow> 'a io \<Rightarrow> 'a io" where
  "within_rate key limit windowSeconds message handler =
     bind (rate_consume key limit windowSeconds) (\<lambda>rate.
     if \<not> rl_allowed rate then throw (rate_limited message) else handler)"

definition client_ip :: "auth_request \<Rightarrow> string option" where
  "client_ip r = getIpAddress (rq_forwardedFor r)"

definition secure_cookie :: "server_env \<Rightarrow> bool" where
  "secure_cookie env \<longleftrightarrow> NODE_ENV env = ''production''"

definition access_cookie :: "server_env \<Rightarrow> string \<Rightarrow> string" where
  "access_cookie env accessToken = serializeCookie ''idp_access_token'' accessToken
     \<lparr>co_httpOnly = True, co_secure = secure_cookie env, co_sameSite = Some ''Lax'', co_path = Some ''/'',
      co_maxAge = Some (ACCESS_TOKEN_TTL_SECONDS env)\<rparr>"

definition csrf_cookie :: "server_env \<Rightarrow> string \<Rightarrow> string" where
  "csrf_cookie env csrfToken = serializeCookie ''idp_csrf_token'' csrfToken
     \<lparr>co_httpOnly = False, co_secure = secure_cookie env, co_sameSite = Some ''Lax'', co_path = Some ''/'',
      co_maxAge = Some (ACCESS_TOKEN_TTL_SECONDS env)\<rparr>"

definition setAuthCookies :: "server_env \<Rightarrow> string \<Rightarrow> string list io" where
  "setAuthCookies env accessToken = bind (createOpaqueToken ''csrf'') (\<lambda>csrfToken.
     ret [access_cookie env accessToken, csrf_cookie env csrfToken])"

definition clear_cookies :: "server_env \<Rightarrow> string list" where
  "clear_cookies env = [clearCookie ''idp_access_token'' (secure_cookie env), clearCookie ''idp_csrf_token'' (secure_cookie env)]"

definition plain_answer :: "json \<Rightarrow> route_answer" where
  "plain_answer body = \<lparr>an_body = body, an_cookies = []\<rparr>"

definition status_body :: "string \<Rightarrow> json" where
  "status_body s = JObj [(''status'', JStr s)]"

section \<open>Signup\<close>

definition toSignupResponse :: "server_env \<Rightarrow> string \<Rightarrow> uuid \<times> string \<Rightarrow> json" where
  "toSignupResponse env email = (\<lambda>(userId, verificationToken). JObj
     [(''status'', JStr ''accepted''),
      (''user'', JObj [(''userId'', juuid userId), (''email'', JStr email)]),
      (''verification'', JObj ((''required'', JBool True) #
         (if NODE_ENV env = ''production'' then [] else [(''token'', JStr verificationToken)])))])"

definition signup_handler ::
    "libs \<Rightarrow> siteverify \<Rightarrow> server_env \<Rightarrow> auth_request \<Rightarrow> signup_payload \<Rightarrow> route_answer io" where
  "signup_handler L V env r p =
     (let ipAddress = client_ip r in
      within_rate (''signup:'' @ or_unknown ipAddress) (RATE_LIMIT_SIGNUP_PER_MIN env) 60 ''Too many signup attempts''
      (bind (if ''signup'' \<in> set (TURNSTILE_REQUIRED_ACTIONS env)
             then verifyChallengeOrThrow V env ''signup'' ''signup'' ipAddress (su_challengeToken p) False
             else ret ()) (\<lambda>_.
       bind (AuthService_signup L (su_email p) (su_password p) (su_displayName p)) (\<lambda>result.
       ret (plain_answer (toSignupResponse env (su_email p) result))))))"

definition signup_route :: "zod \<Rightarrow> libs \<Rightarrow> siteverify \<Rightarrow> server_env \<Rightarrow> auth_request \<Rightarrow> route_answer io" where
  "signup_route Z L V env r =
     public_endpoint (signupRequestSchema Z) (signup_handler L V env r) (web_request.truncate r)"

section \<open>Login\<close>

definition risk_json :: "adaptive_risk \<Rightarrow> json" where
  "risk_json k = JObj [(''level'', JStr (level_text (ar_level k))), (''score'', jnat (ar_score k)),
     (''factors'', JArr (map json_of_factor (ar_factors k)))]"

definition session_json :: "session_tokens \<Rightarrow> (string \<times> json) list" where
  "session_json s =
     [(''accessToken'', JStr (ss_accessToken s)), (''refreshToken'', JStr (ss_refreshToken s)),
      (''accessExpiresAt'', JStr (ss_accessExpiresAt s)), (''refreshExpiresAt'', JStr (ss_refreshExpiresAt s))]"

fun login_json :: "login_outcome \<Rightarrow> json" where
  "login_json (MfaRequired userId risk) = JObj ([(''mfaRequired'', JBool True), (''userId'', juuid userId)] @
     (case risk of None \<Rightarrow> [] | Some k \<Rightarrow> [(''adaptiveRisk'', risk_json k)]))"
| "login_json (LoggedIn a) = JObj ([(''status'', JStr ''ok''), (''userId'', juuid (ls_userId a))] @
     session_json (ls_session a) @
     [(''mfaEnabled'', JBool (ls_mfaEnabled a)), (''adaptiveRisk'', risk_json (ls_adaptiveRisk a))])"

fun login_answer :: "server_env \<Rightarrow> login_outcome \<Rightarrow> route_answer io" where
  "login_answer env (MfaRequired userId risk) = ret (plain_answer (login_json (MfaRequired userId risk)))"
| "login_answer env (LoggedIn a) =
     bind (setAuthCookies env (ss_accessToken (ls_session a))) (\<lambda>cookies.
     ret \<lparr>an_body = login_json (LoggedIn a), an_cookies = cookies\<rparr>)"

text \<open>Bot risk and challenge, before the credentials are looked at.\<close>

definition challenge_for_login :: "server_env \<Rightarrow> risk_level \<Rightarrow> bool" where
  "challenge_for_login env riskLevel \<longleftrightarrow>
     (let loginMode = TURNSTILE_ENFORCE_LOGIN_MODE env in
      loginMode = ''always'' \<or> loginMode = ''risk'' \<and> riskLevel = RiskMedium)"

definition bot_guard ::
    "siteverify \<Rightarrow> server_env \<Rightarrow> string \<Rightarrow> string option \<Rightarrow> string option \<Rightarrow> string option \<Rightarrow> string option \<Rightarrow> unit io" where
  "bot_guard V env endpoint email ipAddress userAgent challengeToken =
     bind (assessBotRiskForLogin (app_env.truncate env) endpoint email ipAddress userAgent) (\<lambda>riskLevel.
     if riskLevel = RiskHigh then
       bind (recordBotBlock endpoint) (\<lambda>_.
       bind (recordBotEvent ''bot.risk.blocked'' (JObj ([(''endpoint'', JStr endpoint), (''ipAddress'', jstr_opt ipAddress)] @
         (case email of None \<Rightarrow> [] | Some e \<Rightarrow> [(''email'', JStr e)])))) (\<lambda>_.
       throw (ApiError 403 ''bot_risk_blocked'' ''Request blocked by bot risk policy'')))
     else if challenge_for_login env riskLevel then
       verifyChallengeOrThrow V env endpoint endpoint ipAddress challengeToken True
     else ret ())"

definition login_handler ::
    "libs \<Rightarrow> siteverify \<Rightarrow> server_env \<Rightarrow> auth_request \<Rightarrow> login_payload \<Rightarrow> route_answer io" where
  "login_handler L V env r p =
     (let ipAddress = client_ip r; userAgent = or_none (rq_userAgent r); deviceId = or_none (rq_deviceId r) in
      within_rate (''login:'' @ lp_email p @ '':'' @ or_unknown ipAddress) (RATE_LIMIT_LOGIN_PER_MIN env) 60
        ''Too many login attempts''
      (bind (bot_guard V env ''login'' (Some (lp_email p)) ipAddress userAgent (lp_challengeToken p)) (\<lambda>_.
       bind (AuthService_login L (app_env.truncate env) (lp_email p) (lp_password p) ipAddress userAgent (lp_mfa p) deviceId)
         (login_answer env))))"

definition login_route :: "zod \<Rightarrow> libs \<Rightarrow> siteverify \<Rightarrow> server_env \<Rightarrow> auth_request \<Rightarrow> route_answer io" where
  "login_route Z L V env r =
     public_endpoint (loginRequestSchema Z) (login_handler L V env r) (web_request.truncate r)"

definition google_login_handler ::
    "libs \<Rightarrow> siteverify \<Rightarrow> server_env \<Rightarrow> auth_request \<Rightarrow> google_login_payload \<Rightarrow> route_answer io" where
  "google_login_handler L V env r p =
     (let ipAddress = client_ip r; userAgent = or_none (rq_userAgent r); deviceId = or_none (rq_deviceId r) in
      within_rate (''login-google:'' @ or_unknown ipAddress) (RATE_LIMIT_LOGIN_PER_MIN env) 60 ''Too many login attempts''
      (bind (bot_guard V env ''google_login'' None ipAddress userAgent (glp_challengeToken p)) (\<lambda>_.
       bind (AuthService_loginWithGoogle L (app_env.truncate env) (glp_idToken p) ipAddress userAgent deviceId (glp_mfa p))
         (login_answer env))))"

definition google_login_route :: "zod \<Rightarrow> libs \<Rightarrow> siteverify \<Rightarrow> server_env \<Rightarrow> auth_request \<Rightarrow> route_answer io" where
  "google_login_route Z L V env r =
     public_endpoint (googleLoginRequestSchema Z) (google_login_handler L V env r) (web_request.truncate r)"

section \<open>Tokens\<close>

text \<open>\<open>Date.parse\<close> of the text of an instant is the parameter \<open>date_parse\<close>.\<close>

definition toOAuthTokenResponse :: "(string \<Rightarrow> time) \<Rightarrow> refresh_answer \<Rightarrow> json io" where
  "toOAuthTokenResponse date_parse v = bind now (\<lambda>t. ret (JObj
     [(''token_type'', JStr ''Bearer''), (''access_token'', JStr (ra_accessToken v)),
      (''refresh_token'', JStr (ra_refreshToken v)),
      (''expires_in'', JNum (max 1 ((date_parse (ra_accessExpiresAt v) - t) div 1000)))]))"

text \<open>The endpoints for OAuth clients: rate limit, client authentication, then the service.\<close>

definition for_oauth_client ::
    "libs \<Rightarrow> server_env \<Rightarrow> auth_request \<Rightarrow> string \<Rightarrow> string \<Rightarrow> 'a io \<Rightarrow> 'a io" where
  "for_oauth_client L env r key message handler =
     within_rate (key @ or_unknown (client_ip r)) (RATE_LIMIT_OAUTH_PER_MIN env) 60 message
     (bind (authenticateClientBasic L (app_env.truncate env) (wr_authorization r)) (\<lambda>_. handler))"

definition oauth_token_route :: "(string \<Rightarrow> time) \<Rightarrow> libs \<Rightarrow> server_env \<Rightarrow> auth_request \<Rightarrow> route_answer io" where
  "oauth_token_route date_parse L env r = public_endpoint refreshRequestSchema (\<lambda>refreshToken.
     for_oauth_client L env r ''oauth-token:'' ''Too many OAuth token requests''
       (bind (AuthService_refresh L (app_env.truncate env) refreshToken) (\<lambda>v.
        bind (toOAuthTokenResponse date_parse v) (\<lambda>body. ret (plain_answer body))))) (web_request.truncate r)"

definition refresh_json :: "refresh_answer \<Rightarrow> json" where
  "refresh_json v = JObj
     [(''userId'', juuid (ra_userId v)), (''accessToken'', JStr (ra_accessToken v)),
      (''refreshToken'', JStr (ra_refreshToken v)), (''accessExpiresAt'', JStr (ra_accessExpiresAt v)),
      (''refreshExpiresAt'', JStr (ra_refreshExpiresAt v))]"

definition refresh_route :: "libs \<Rightarrow> server_env \<Rightarrow> auth_request \<Rightarrow> route_answer io" where
  "refresh_route L env r = public_endpoint refreshRequestSchema (\<lambda>refreshToken.
     bind (AuthService_refresh L (app_env.truncate env) refreshToken) (\<lambda>v. ret (plain_answer (refresh_json v))))
     (web_request.truncate r)"

definition introspection_json :: "introspection option \<Rightarrow> json" where
  "introspection_json v = (case v of
     None \<Rightarrow> JObj [(''active'', JBool False)]
   | Some i \<Rightarrow> JObj
       [(''active'', JBool True), (''sub'', juuid (is_sub i)), (''sid'', juuid (is_sid i)), (''exp'', JNum (is_exp i)),
        (''permissions'', JArr (map JStr (is_permissions i))),
        (''entitlements'', JObj (map (\<lambda>(k, v). (k, json_of_entitlement v)) (is_entitlements i)))])"

definition oauth_introspection_route :: "libs \<Rightarrow> server_env \<Rightarrow> auth_request \<Rightarrow> route_answer io" where
  "oauth_introspection_route L env r = public_endpoint oauthIntrospectionRequestSchema (\<lambda>token.
     for_oauth_client L env r ''oauth-introspection:'' ''Too many OAuth introspection requests''
       (bind (AuthService_introspectToken L token) (\<lambda>v. ret (plain_answer (introspection_json v)))))
     (web_request.truncate r)"

definition oauth_revocation_route :: "libs \<Rightarrow> server_env \<Rightarrow> auth_request \<Rightarrow> route_answer io" where
  "oauth_revocation_route L env r = public_endpoint oauthRevocationRequestSchema (\<lambda>token.
     for_oauth_client L env r ''oauth-revocation:'' ''Too many OAuth revocation requests''
       (bind (AuthService_revokeByToken L token) (\<lambda>_. ret (plain_answer (status_body ''accepted'')))))
     (web_request.truncate r)"

definition logout_route :: "libs \<Rightarrow> server_env \<Rightarrow> auth_request \<Rightarrow> route_answer io" where
  "logout_route L env r = authenticated_endpoint emptyRequestSchema (AuthService_authenticateAccessToken L)
     (\<lambda>_ auth. bind (AuthService_logout (snd auth)) (\<lambda>_.
        ret \<lparr>an_body = status_body ''logged_out'', an_cookies = clear_cookies env\<rparr>)) (web_request.truncate r)"

section \<open>Verification and reset\<close>

definition accepted_fields :: "(string \<times> json) list" where
  "accepted_fields = [(''status'', JStr ''accepted''), (''accepted'', JBool True)]"

definition verification_json :: "string option \<Rightarrow> json" where
  "verification_json token = JObj (accepted_fields @ (case token of None \<Rightarrow> [] | Some t \<Rightarrow> [(''token'', JStr t)]))"

definition email_verify_request_route :: "zod \<Rightarrow> libs \<Rightarrow> server_env \<Rightarrow> auth_request \<Rightarrow> route_answer io" where
  "email_verify_request_route Z L env r = public_endpoint (emailVerificationRequestSchema Z) (\<lambda>email.
     within_rate (''email-verify:'' @ email @ '':'' @ or_unknown (client_ip r)) (RATE_LIMIT_LOGIN_PER_MIN env) 60
       ''Too many verification attempts''
     (bind (AuthService_requestEmailVerification L email) (\<lambda>token.
      bind (whenever (truthy token)
        (bind (read_db (\<lambda>d. getEmailTemplateConfig d ''signup_verify'')) (\<lambda>_.
         emit (LogLine ''verification email requested''
          (JObj [(''event'', JStr ''email.dispatch.requested''), (''to'', JStr email)]))))) (\<lambda>_.
      ret (plain_answer (if NODE_ENV env = ''production'' then status_body ''accepted'' else verification_json token))))))
     (web_request.truncate r)"

definition email_verify_confirm_route :: "libs \<Rightarrow> auth_request \<Rightarrow> route_answer io" where
  "email_verify_confirm_route L r = public_endpoint emailVerificationConfirmSchema (\<lambda>token.
     bind (AuthService_confirmEmailVerification L token) (\<lambda>_. ret (plain_answer (status_body ''verified''))))
     (web_request.truncate r)"

definition reset_json :: "string option \<Rightarrow> json" where
  "reset_json token = JObj ((''status'', JStr ''accepted'') # (case token of None \<Rightarrow> [] | Some t \<Rightarrow> [(''token'', JStr t)]))"

definition password_reset_handler ::
    "libs \<Rightarrow> siteverify \<Rightarrow> server_env \<Rightarrow> auth_request \<Rightarrow> string \<times> string option \<Rightarrow> route_answer io" where
  "password_reset_handler L V env r = (\<lambda>(email, challengeToken).
     let ipAddress = client_ip r in
     within_rate (''password-reset:'' @ email @ '':'' @ or_unknown ipAddress) (RATE_LIMIT_LOGIN_PER_MIN env) 60
       ''Too many password reset attempts''
     (bind (if ''password_reset'' \<in> set (TURNSTILE_REQUIRED_ACTIONS env)
            then verifyChallengeOrThrow V env ''password_reset'' ''password_reset'' ipAddress challengeToken False
            else ret ()) (\<lambda>_.
      bind (AuthService_requestPasswordReset L email) (\<lambda>token.
      ret (plain_answer (if NODE_ENV env = ''production'' then JObj accepted_fields else reset_json token))))))"

definition password_reset_request_route ::
    "zod \<Rightarrow> libs \<Rightarrow> siteverify \<Rightarrow> server_env \<Rightarrow> auth_request \<Rightarrow> route_answer io" where
  "password_reset_request_route Z L V env r =
     public_endpoint (passwordResetRequestSchema Z) (password_reset_handler L V env r) (web_request.truncate r)"

definition password_reset_confirm_route :: "libs \<Rightarrow> auth_request \<Rightarrow> route_answer io" where
  "password_reset_confirm_route L r = public_endpoint passwordResetConfirmRequestSchema (\<lambda>(resetToken, newPassword).
     bind (AuthService_confirmPasswordReset L resetToken newPassword) (\<lambda>_. ret (plain_answer (status_body ''reset''))))
     (web_request.truncate r)"

end
