(* ===== verification/AuthRoutesFacts.thy ===== *)
theory AuthRoutesFacts
  imports AuthRoutes WebRequestsFacts IdpLogin OAuthClientsFacts Returns
begin

text \<open>
  What the public endpoints of modules/auth/auth.routes.ts guarantee, as compositions of the rate
  limiter, the challenge, client authentication and the services.
\<close>

section \<open>Guards\<close>

text \<open>A guard changes the logs, Redis and the metrics, nothing else.\<close>

definition calm :: "world \<Rightarrow> world \<Rightarrow> bool" where
  "calm w w' \<longleftrightarrow> but_logs (db w') = but_logs (db w) \<and> clock w' = clock w"

interpretation calm: effect_order calm
  by unfold_locales (auto simp: calm_def)

lemma calm_steps [safe_intros]:
  "safe calm (emit e)" "safe calm draw_uuid" "safe calm draw_text" "safe calm now" "safe calm (read_db f)"
  by (simp_all add: safe_def calm_def emit_run draw_uuid_run draw_text_run now_run read_db_run)

lemma calm_rate [safe_intros]: "safe calm (rate_consume key limit window)"
proof (rule safeI)
  fix w
  show "calm w (snd (rate_consume key limit window w))"
    using rate_consume_db [of key limit window w] by (cases "rate_consume key limit window w") (simp add: calm_def)
qed

lemma calm_event [safe_intros]: "safe calm (AuthService_createSecurityEvent k u p)"
proof (rule safeI)
  fix w
  obtain w' where "AuthService_createSecurityEvent k u p w = (Inr (), w')" "calm w w'"
    using event_world [of k u p w] unfolding calm_def by metis
  then show "calm w (snd (AuthService_createSecurityEvent k u p w))" by simp
qed

text \<open>The reports of a challenge never fail.\<close>

lemma calm_bot_steps [safe_intros]:
  "safe calm (recordBotChallengeResult e r)" "safe calm (recordBotBlock e)" "safe calm (recordBotEvent k p)"
  unfolding recordBotChallengeResult_def recordBotBlock_def recordBotEvent_def AuthService_recordSecurityEvent_def
  by (intro safe_intros)+

lemma calm_turnstile [safe_intros]: "safe calm (verifyTurnstileToken V url key token ip k)"
  unfolding verifyTurnstileToken_def
  by (auto intro!: safe_intros split: sum.split json.split)

lemma calm_challenge [safe_intros]: "safe calm (verifyChallengeOrThrow V env endpoint action ip token failOpen)"
  unfolding verifyChallengeOrThrow_def check_challenge_def provider_error_def Let_def
  by (intro safe_intros)

lemma calm_risk [safe_intros]: "safe calm (assessBotRiskForLogin env endpoint email ip agent)"
  unfolding assessBotRiskForLogin_def Let_def by (intro safe_intros)

lemma calm_bot_guard [safe_intros]: "safe calm (bot_guard V env endpoint email ip agent token)"
  unfolding bot_guard_def by (intro safe_intros)

lemma calm_field: "calm w v \<Longrightarrow> (\<And>d. f (but_logs d) = f d) \<Longrightarrow> f (db v) = f (db w)"
  unfolding calm_def by metis

lemma calm_fields:
  assumes "calm w v"
  shows "userSessions (db v) = userSessions (db w)" "users (db v) = users (db w)" "userEmails (db v) = userEmails (db w)"
    "userPasswords (db v) = userPasswords (db w)" "mfaFactors (db v) = mfaFactors (db w)"
    "mfaRecoveryCodes (db v) = mfaRecoveryCodes (db w)" "clock v = clock w"
    "passwordResetTokens (db v) = passwordResetTokens (db w)" "emailVerificationTokens (db v) = emailVerificationTokens (db w)"
    "oauthClients (db v) = oauthClients (db w)"
  using assms by (simp_all add: calm_field but_logs_def) (simp add: calm_def)

section \<open>Challenges\<close>

text \<open>The verification service accepts the token for this action and the configured host.\<close>

definition challenge_passed :: "siteverify \<Rightarrow> server_env \<Rightarrow> string \<Rightarrow> string option \<Rightarrow> string \<Rightarrow> bool" where
  "challenge_passed V env action ip token \<longleftrightarrow>
     (\<exists>k j. V (TURNSTILE_VERIFY_URL env) (turnstile_form (TURNSTILE_SECRET_KEY env) token ip k) = Inr j \<and>
        truthy_value (json_prop j ''success'') \<and> json_prop j ''action'' = Some (JStr action) \<and>
        (js_trim (TURNSTILE_EXPECTED_HOSTNAME env) = [] \<or>
         json_prop j ''hostname'' = Some (JStr (TURNSTILE_EXPECTED_HOSTNAME env))))"

definition challenge_down :: "siteverify \<Rightarrow> server_env \<Rightarrow> string option \<Rightarrow> string \<Rightarrow> bool" where
  "challenge_down V env ip token \<longleftrightarrow>
     (\<exists>k. V (TURNSTILE_VERIFY_URL env) (turnstile_form (TURNSTILE_SECRET_KEY env) token ip k) = Inr JNull \<or>
        (\<exists>e. V (TURNSTILE_VERIFY_URL env) (turnstile_form (TURNSTILE_SECRET_KEY env) token ip k) = Inl e))"

lemma if_truthy_Some: "if_truthy v = Some j \<Longrightarrow> v = Some j"
  by (auto simp: if_truthy_def split: if_splits)

lemma metric_ok [ok_iffs]:
  "recordBotChallengeResult e r w = (Inr u, w') \<longleftrightarrow> w' = w\<lparr>emitted := emitted w @ [Metric ''bot_challenge_total'' [e, r]]\<rparr>"
  "recordBotBlock e w = (Inr u, w') \<longleftrightarrow> w' = w\<lparr>emitted := emitted w @ [Metric ''bot_block_total'' [e]]\<rparr>"
  by (auto simp: recordBotChallengeResult_def recordBotBlock_def emit_run)

lemma recordBotEvent_ok: "\<exists>v. recordBotEvent n p w = (Inr (), v)"
  unfolding recordBotEvent_def AuthService_recordSecurityEvent_def using event_world [of n None p w] by metis

lemma metric_run [run_simps]:
  "recordBotChallengeResult e r w = (Inr (), w\<lparr>emitted := emitted w @ [Metric ''bot_challenge_total'' [e, r]]\<rparr>)"
  "recordBotBlock e w = (Inr (), w\<lparr>emitted := emitted w @ [Metric ''bot_block_total'' [e]]\<rparr>)"
  by (simp_all add: recordBotChallengeResult_def recordBotBlock_def emit_run)

lemma refuse_run:
  "fst (bind (recordBotChallengeResult e r) (\<lambda>_. bind (recordBotBlock e) (\<lambda>_. bind (recordBotEvent n p) (\<lambda>_. throw x))) w) = Inl x"
proof -
  obtain v where "recordBotEvent n p (w\<lparr>emitted := emitted w @ [Metric ''bot_challenge_total'' [e, r]] @ [Metric ''bot_block_total'' [e]]\<rparr>) = (Inr (), v)"
    using recordBotEvent_ok by metis
  then show ?thesis by (simp add: bind_def metric_run throw_def)
qed

lemma ret_step: "bind (ret x) f = f x" and throw_step: "bind (throw e) f = throw e"
  by (simp_all add: bind_def ret_def throw_def)

text \<open>The verdict on an answer of the service.\<close>

lemma check_challenge_verdict:
  obtains (down) m where "challenge_down V env ip token" and "fst (check_challenge V env endpoint action ip token w) = Inl (PlainError m)"
  | (answer) k j where "V (TURNSTILE_VERIFY_URL env) (turnstile_form (TURNSTILE_SECRET_KEY env) token ip k) = Inr j"
    and "fst (check_challenge V env endpoint action ip token w) =
      (if truthy_value (json_prop j ''success'') \<and> if_truthy (json_prop j ''action'') = Some (JStr action) \<and>
         (js_trim (TURNSTILE_EXPECTED_HOSTNAME env) = [] \<or>
          if_truthy (json_prop j ''hostname'') = Some (JStr (TURNSTILE_EXPECTED_HOSTNAME env)))
       then Inr () else Inl invalid_challenge)"
proof -
  obtain k v where k: "draw_uuid w = (Inr k, v)" by (simp add: draw_uuid_run)
  note step = bind_eq_if_ret [of draw_uuid w, OF k]
  show thesis
  proof (cases "V (TURNSTILE_VERIFY_URL env) (turnstile_form (TURNSTILE_SECRET_KEY env) token ip (uuid_text k))")
    case (Inl m)
    then have "challenge_down V env ip token" unfolding challenge_down_def by blast
    with Inl show thesis
      by (intro down [of m]) (simp_all add: check_challenge_def step verifyTurnstileToken_def throw_step throw_run)
  next
    case (Inr j)
    show thesis
    proof (cases "j = JNull")
      case True
      with Inr have "challenge_down V env ip token" unfolding challenge_down_def by blast
      with Inr True show thesis
        by (intro down) (simp_all add: check_challenge_def step verifyTurnstileToken_def throw_step throw_run)
    next
      case False
      with Inr show thesis
        by (intro answer [of "uuid_text k" j], simp, cases j)
          (simp_all add: check_challenge_def step verifyTurnstileToken_def ret_step refuse_run metric_run Let_def hostname_ok_def)
    qed
  qed
qed

lemma check_challenge_ok:
  assumes "check_challenge V env endpoint action ip token w = (Inr u, w')"
  shows "challenge_passed V env action ip token"
  by (rule check_challenge_verdict [of V env ip token endpoint action w])
    (use assms in \<open>auto simp: challenge_passed_def dest: if_truthy_Some split: if_splits\<close>)

lemma check_challenge_throws:
  assumes "check_challenge V env endpoint action ip token w = (Inl e, w')" and "\<not> is_api_error e"
  shows "challenge_down V env ip token"
  by (rule check_challenge_verdict [of V env ip token endpoint action w])
    (use assms in \<open>auto simp: invalid_challenge_def is_api_error_def split: if_splits\<close>)

lemma challenge_ok:
  assumes "verifyChallengeOrThrow V env endpoint action ip token failOpen w = (Inr u, w')" and "TURNSTILE_ENABLED env"
  shows "\<exists>t. token = Some t \<and> (challenge_passed V env action ip t \<or> failOpen \<and> challenge_down V env ip t)"
proof -
  from assms obtain t where t: "token = Some t" "t \<noteq> []"
    by (cases "truthy token") (auto simp: verifyChallengeOrThrow_def ok_iffs truthy_iff)
  then have run: "try_catch (check_challenge V env endpoint action ip t) (provider_error endpoint action ip failOpen) w = (Inr u, w')"
    using assms by (simp add: verifyChallengeOrThrow_def)
  show ?thesis
  proof (cases "check_challenge V env endpoint action ip t w")
    case (Pair x v)
    show ?thesis
    proof (cases x)
      case (Inr y)
      then show ?thesis using Pair t check_challenge_ok by auto
    next
      case (Inl e)
      then have "\<not> is_api_error e" "failOpen"
        using run Pair by (auto simp: try_catch_def provider_error_def ok_iffs split: if_splits)
      then show ?thesis using Inl Pair t check_challenge_throws by auto
    qed
  qed
qed

section \<open>Signing in\<close>

lemma within_rate_ok [ok_iffs]: "within_rate key limit window message h w = (Inr x, w') \<longleftrightarrow>
    (\<exists>rate v. rate_consume key limit window w = (Inr rate, v) \<and> rl_allowed rate \<and> h v = (Inr x, w'))"
  by (auto simp: within_rate_def bind_ok if_throw_ok)

lemma public_endpoint_ok [ok_iffs]: "public_endpoint schema h r w = (Inr x, w') \<longleftrightarrow>
    (\<exists>p. schema (public_payload r) = Some p \<and> h p w = (Inr x, w'))"
  by (auto simp: public_endpoint_def throw_ok split: option.splits)

lemma calm_rate_run: "rate_consume key limit window w = (x, v) \<Longrightarrow> calm w v"
  by (rule safe_run [OF calm_rate])

lemma calm_login:
  assumes "calm w v"
  shows "valid_login L (db v) = valid_login L (db w)" "hasEnabledMfa (db v) = hasEnabledMfa (db w)"
    "second_factor L env (db v) = second_factor L env (db w)"
proof -
  note f = calm_fields [OF assms]
  show "valid_login L (db v) = valid_login L (db w)" "hasEnabledMfa (db v) = hasEnabledMfa (db w)"
    "second_factor L env (db v) = second_factor L env (db w)"
    unfolding fun_eq_iff valid_login_def findWithPasswordByEmail_def hasEnabledMfa_def
      MfaRepository_findActiveFactorsByUserId_def second_factor_def recovery_passed_def factor_passed_def f
    by simp_all
qed

lemma login_answer_ok:
  assumes "login_answer env x w = (Inr a, w')"
  shows "db w' = db w \<and> (case x of MfaRequired _ _ \<Rightarrow> an_cookies a = []
    | LoggedIn s \<Rightarrow> \<exists>csrf. an_cookies a = [access_cookie env (ss_accessToken (ls_session s)), csrf_cookie env csrf])"
  using assms by (cases x) (auto simp: plain_answer_def setAuthCookies_def createOpaqueToken_run run_simps)

text \<open>The caller solved the challenge, or it could not be verified.\<close>

definition challenged :: "siteverify \<Rightarrow> server_env \<Rightarrow> string \<Rightarrow> string option \<Rightarrow> string option \<Rightarrow> bool" where
  "challenged V env action ip token \<longleftrightarrow>
     (\<exists>t. token = Some t \<and> (challenge_passed V env action ip t \<or> challenge_down V env ip t))"

text \<open>
  The budget of the bot policy: how many more requests a counter allows in its window after this one,
  and when a login request is suspect: it names no user agent, or a counter is down to the watermark.
\<close>

definition tries_left :: "server_env \<Rightarrow> world \<Rightarrow> string \<Rightarrow> int" where
  "tries_left env w counter =
     BOT_RISK_LOGIN_THRESHOLD_PER_WINDOW env - int (window_count w (''bot-risk:login:'' @ counter)) - 1"

definition no_agent :: "string option \<Rightarrow> bool" where
  "no_agent agent \<longleftrightarrow> (\<forall>a. agent = Some a \<longrightarrow> (\<forall>c \<in> set a. js_space c))"

definition suspect :: "server_env \<Rightarrow> world \<Rightarrow> string \<Rightarrow> string option \<Rightarrow> string option \<Rightarrow> bool" where
  "suspect env w email ip agent \<longleftrightarrow> no_agent agent \<or>
     tries_left env w (''ip:'' @ or_unknown ip) \<le> mediumWatermark (app_env.truncate env) \<or>
     email \<noteq> [] \<and> tries_left env w (''email:'' @ email) \<le> mediumWatermark (app_env.truncate env)"

definition within_budget :: "server_env \<Rightarrow> world \<Rightarrow> string \<Rightarrow> string option \<Rightarrow> string option \<Rightarrow> bool" where
  "within_budget env w email ip agent \<longleftrightarrow> 0 \<le> tries_left env w (''ip:'' @ or_unknown ip) \<and>
     (no_agent agent \<or> email = [] \<or> 0 \<le> tries_left env w (''email:'' @ email))"

lemma rate_consume_count:
  assumes "rate_consume key limit window w = (Inr r, v)"
  shows "rl_allowed r \<longleftrightarrow> int (window_count w key) < limit"
    and "rl_allowed r \<Longrightarrow> rl_remaining r = limit - int (window_count w key) - 1"
    and "k \<noteq> key \<Longrightarrow> window_count v k = window_count w k"
  using assms
  by (auto simp: rate_consume_def incr_expire_def window_count_def bind_run ret_run redis_live_def
      split: option.splits if_splits prod.splits)

lemma blank_agent: "\<not> truthy (or_none agent) \<or> js_trim (the (or_none agent)) = [] \<longleftrightarrow> no_agent agent"
proof (cases agent)
  case (Some a)
  have "js_trim a = [] \<longleftrightarrow> (\<forall>c \<in> set a. js_space c)"
  proof
    assume "js_trim a = []"
    then have "\<forall>c \<in> set (dropWhile js_space a). js_space c" by (simp add: js_trim_def dropWhile_eq_Nil_conv)
    then have "dropWhile js_space a = []" using hd_dropWhile [of js_space a] hd_in_set by metis
    then show "\<forall>c \<in> set a. js_space c" by (simp add: dropWhile_eq_Nil_conv)
  qed (simp add: js_trim_def dropWhile_eq_Nil_conv [THEN iffD2])
  with Some show ?thesis by (auto simp: or_none_def no_agent_def truthy_iff)
qed (simp add: or_none_def no_agent_def truthy_iff)

lemma assessed_level:
  assumes "assessBotRiskForLogin (app_env.truncate env) ''login'' (Some email) ip (or_none agent) w = (Inr level, w')"
  shows "level = RiskHigh \<or> within_budget env w email ip agent \<and> (level = RiskMedium \<longleftrightarrow> suspect env w email ip agent)"
proof -
  let ?T = "BOT_RISK_LOGIN_THRESHOLD_PER_WINDOW env" and ?low = "mediumWatermark (app_env.truncate env)"
  define ipk where "ipk = ''bot-risk:login:ip:'' @ or_unknown ip"
  define emk where "emk = ''bot-risk:login:email:'' @ email"
  note keys = ipk_def emk_def
  have run: "assessBotRiskForLogin (app_env.truncate env) ''login'' (Some email) ip (or_none agent) =
      bind (rate_consume ipk ?T (BOT_RISK_WINDOW_SECONDS env)) (\<lambda>ipRate.
      if \<not> rl_allowed ipRate then ret RiskHigh
      else if no_agent agent then ret RiskMedium
      else if email \<noteq> [] then bind (rate_consume emk ?T (BOT_RISK_WINDOW_SECONDS env)) (\<lambda>emailRate.
        if \<not> rl_allowed emailRate then ret RiskHigh
        else if rl_remaining emailRate \<le> ?low \<or> rl_remaining ipRate \<le> ?low then ret RiskMedium
        else ret RiskLow)
      else if rl_remaining ipRate \<le> ?low then ret RiskMedium
      else ret RiskLow)"
    unfolding assessBotRiskForLogin_def Let_def blank_agent or_unknown_def [symmetric] keys
    by (simp add: app_env.truncate_def truthy_iff cong: if_cong)
  from assms obtain a v where a: "rate_consume ipk ?T (BOT_RISK_WINDOW_SECONDS env) w = (Inr a, v)"
    unfolding run by (elim bind_Inr_E)
  note ipc = rate_consume_count [OF a]
  have em: "window_count v emk = window_count w emk" by (rule ipc(3)) (simp add: keys)
  note level = assms [unfolded run bind_eq_if_ret [of "rate_consume ipk ?T (BOT_RISK_WINDOW_SECONDS env)" w, OF a]]
  show ?thesis
  proof (cases "rl_allowed a \<and> \<not> no_agent agent \<and> email \<noteq> []")
    case False
    with level ipc(1,2) show ?thesis
      by (auto simp: within_budget_def suspect_def tries_left_def ret_run keys split: if_splits)
  next
    case True
    with level obtain b u where b: "rate_consume emk ?T (BOT_RISK_WINDOW_SECONDS env) v = (Inr b, u)"
      by (auto elim!: bind_Inr_E)
    note emc = rate_consume_count(1,2) [OF b, unfolded em]
    from True level have "(if \<not> rl_allowed b then ret RiskHigh
        else if rl_remaining b \<le> ?low \<or> rl_remaining a \<le> ?low then ret RiskMedium else ret RiskLow) u = (Inr level, w')"
      by (simp add: bind_eq_if_ret [of "rate_consume emk ?T (BOT_RISK_WINDOW_SECONDS env)" v, OF b])
    with True ipc(1,2) emc show ?thesis
      by (auto simp: within_budget_def suspect_def tries_left_def ret_run keys split: if_splits)
  qed
qed

lemma bot_guard_ok:
  assumes "bot_guard V env ''login'' (Some email) ip (or_none agent) token w = (Inr u, w')"
  shows "within_budget env w email ip agent"
    and "TURNSTILE_ENABLED env \<Longrightarrow> TURNSTILE_ENFORCE_LOGIN_MODE env = ''always'' \<or>
      TURNSTILE_ENFORCE_LOGIN_MODE env = ''risk'' \<and> suspect env w email ip agent \<Longrightarrow> challenged V env ''login'' ip token"
proof -
  from assms obtain level v where level: "assessBotRiskForLogin (app_env.truncate env) ''login'' (Some email) ip (or_none agent) w = (Inr level, v)"
    and not_high: "level \<noteq> RiskHigh"
    and check: "(if challenge_for_login env level then verifyChallengeOrThrow V env ''login'' ''login'' ip token True else ret ()) v = (Inr u, w')"
    by (auto simp: bot_guard_def bind_ok throw_ok split: if_splits)
  note known = assessed_level [OF level]
  show "within_budget env w email ip agent" using known not_high by simp
  show "challenged V env ''login'' ip token" if "TURNSTILE_ENABLED env"
    "TURNSTILE_ENFORCE_LOGIN_MODE env = ''always'' \<or>
      TURNSTILE_ENFORCE_LOGIN_MODE env = ''risk'' \<and> suspect env w email ip agent"
  proof -
    have "challenge_for_login env level" using that(2) known not_high by (auto simp: challenge_for_login_def)
    with check that(1) show ?thesis by (auto simp: challenged_def dest!: challenge_ok)
  qed
qed

lemma login_route_steps:
  assumes "login_route Z L V env r w = (Inr a, w')"
  obtains p rate v1 v2 x v3 where "loginRequestSchema Z (public_payload (web_request.truncate r)) = Some p" and "calm w v2"
    and "rate_consume (''login:'' @ lp_email p @ '':'' @ or_unknown (client_ip r)) (RATE_LIMIT_LOGIN_PER_MIN env) 60 w = (Inr rate, v1)"
    and "bot_guard V env ''login'' (Some (lp_email p)) (client_ip r) (or_none (rq_userAgent r)) (lp_challengeToken p) v1 = (Inr (), v2)"
    and "AuthService_login L (app_env.truncate env) (lp_email p) (lp_password p) (client_ip r)
      (or_none (rq_userAgent r)) (lp_mfa p) (or_none (rq_deviceId r)) v2 = (Inr x, v3)"
    and "login_answer env x v3 = (Inr a, w')"
proof -
  obtain p rate v1 v2 x v3 where p: "loginRequestSchema Z (public_payload (web_request.truncate r)) = Some p"
    and rate: "rate_consume (''login:'' @ lp_email p @ '':'' @ or_unknown (client_ip r)) (RATE_LIMIT_LOGIN_PER_MIN env) 60 w = (Inr rate, v1)"
    and guard: "bot_guard V env ''login'' (Some (lp_email p)) (client_ip r) (or_none (rq_userAgent r)) (lp_challengeToken p) v1 = (Inr (), v2)"
    and rest: "AuthService_login L (app_env.truncate env) (lp_email p) (lp_password p) (client_ip r)
      (or_none (rq_userAgent r)) (lp_mfa p) (or_none (rq_deviceId r)) v2 = (Inr x, v3)" "login_answer env x v3 = (Inr a, w')"
    using assms by (auto simp: login_route_def login_handler_def Let_def public_endpoint_ok within_rate_ok bind_ok)
  have "calm w v2"
    by (rule calm.order_trans [OF calm_rate_run [OF rate] safe_run [OF calm_bot_guard guard]])
  then show thesis using that p rate guard rest by blast
qed


section \<open>The cookies of a login\<close>

text \<open>What a browser sends back for the cookies it was given: their names and values.\<close>

definition browser_cookies :: "string list \<Rightarrow> string" where
  "browser_cookies cs = js_join ''; '' (map (takeWhile (\<lambda>c. c \<noteq> CHR '';'')) cs)"

lemma takeWhile_cookie:
  assumes "cookie_name k"
  shows "takeWhile (\<lambda>c. c \<noteq> CHR '';'') (k @ ''='' @ uri_encode t @ '';'' @ rest) = cookie_text (k, t)"
proof -
  have "\<forall>c \<in> set (k @ ''='' @ uri_encode t). c \<noteq> CHR '';''"
    using assms uri_encode_safe by (auto simp: cookie_name_def cookie_safe_def)
  then have "takeWhile (\<lambda>c. c \<noteq> CHR '';'') ((k @ ''='' @ uri_encode t) @ '';'' @ rest) =
      (k @ ''='' @ uri_encode t) @ takeWhile (\<lambda>c. c \<noteq> CHR '';'') ('';'' @ rest)"
    by (intro takeWhile_append2) blast
  then show ?thesis by (simp add: cookie_text_def)
qed

lemma session_cookie_names [simp]: "cookie_name ''idp_access_token''" "cookie_name ''idp_csrf_token''"
  by (auto simp: cookie_name_def cookie_safe_def js_space_def)

lemma sent_back:
  "takeWhile (\<lambda>c. c \<noteq> CHR '';'') (access_cookie env t) = cookie_text (''idp_access_token'', t)"
  "takeWhile (\<lambda>c. c \<noteq> CHR '';'') (csrf_cookie env t) = cookie_text (''idp_csrf_token'', t)"
  using takeWhile_cookie [OF session_cookie_names(1), of t] takeWhile_cookie [OF session_cookie_names(2), of t]
  by (simp_all add: access_cookie_def csrf_cookie_def serializeCookie_def)

lemma uri_encode_inj: "uri_encode s = uri_encode t \<longleftrightarrow> s = t"
  by (metis option.inject uri_round_trip)

lemma access_cookie_inj:
  assumes "access_cookie env s = access_cookie env t"
  shows "s = t"
proof -
  have "cookie_text (''idp_access_token'', s) = cookie_text (''idp_access_token'', t)"
    using sent_back(1) [of env s] unfolding assms sent_back(1) by (rule sym)
  then show ?thesis by (simp only: cookie_text_def append_same_eq same_append_eq fst_conv snd_conv uri_encode_inj)
qed

lemma browser_cookies_read:
  "parseCookieHeader (Some (browser_cookies [access_cookie env t, csrf_cookie env c])) =
    [''idp_access_token'' \<mapsto> t, ''idp_csrf_token'' \<mapsto> c]"
proof -
  have "browser_cookies [access_cookie env t, csrf_cookie env c] =
      cookie_header [(''idp_access_token'', t), (''idp_csrf_token'', c)]"
    by (simp add: browser_cookies_def sent_back cookie_header_def)
  then show ?thesis by (simp add: cookies_round_trip fun_upd_twist)
qed

text \<open>
  C9: The cookies of a login sign the browser in: a later request with them and the CSRF token in its
  header presents the access token, counts as same-site, and authenticates as the user of the new
  session for as long as the session is live and the user active.
\<close>

theorem login_cookies_authenticate:
  assumes "login_route Z L V env r w = (Inr a, w')" and "an_cookies a = [access_cookie env token, csrf_cookie env csrf]"
    and "16 \<le> length token" and "csrf \<noteq> []"
    and "wr_authorization q = None" "wr_cookie q = Some (browser_cookies (an_cookies a))" "wr_csrf q = Some csrf"
  shows "presents q token \<and> same_site q \<and>
    (\<exists>s. userSessions (db w') = userSessions (db w) @ [s] \<and>
      (\<forall>v u. userSessions (db v) = userSessions (db w') \<and> uniq_sessions (userSessions (db v)) \<and> uniq_users (users (db v)) \<and>
         clock v < us_expiresAt s \<and> u \<in> set (users (db v)) \<and> u_id u = us_userId s \<and> u_status u = ''active'' \<longrightarrow>
         fst (AuthService_authenticateAccessToken L token v) = Inr (us_userId s, us_id s)))"
proof -
  have "presents q token" "same_site q"
    using assms(2-7) by (auto simp: presents_def same_site_def browser_cookies_read accessTokenCookieName_def csrfTokenCookieName_def)
  moreover obtain s where s: "userSessions (db w') = userSessions (db w) @ [s]" "us_revokedAt s = None"
      "us_accessTokenHash s = hashOpaqueToken L token"
  proof -
    obtain p v1 v2 x v3 where "loginRequestSchema Z (public_payload (web_request.truncate r)) = Some p" and calm: "calm w v2"
        and "bot_guard V env ''login'' (Some (lp_email p)) (client_ip r) (or_none (rq_userAgent r)) (lp_challengeToken p) v1 = (Inr (), v2)"
        and steps: "AuthService_login L (app_env.truncate env) (lp_email p) (lp_password p) (client_ip r)
          (or_none (rq_userAgent r)) (lp_mfa p) (or_none (rq_deviceId r)) v2 = (Inr x, v3)"
        and answer: "login_answer env x v3 = (Inr a, w')"
      by (rule login_route_steps [OF assms(1)])
    then show thesis
      using that idp_login_sound [OF steps] login_answer_ok [OF answer] calm_fields(1) [OF calm] assms(2)
      by (cases x) (auto simp: session_of_def dest!: access_cookie_inj)
  qed
  moreover have "fst (AuthService_authenticateAccessToken L token v) = Inr (us_userId s, us_id s)"
    if "userSessions (db v) = userSessions (db w')" "uniq_sessions (userSessions (db v))" "uniq_users (users (db v))"
      "clock v < us_expiresAt s" "u \<in> set (users (db v))" "u_id u = us_userId s" "u_status u = ''active''" for v u
    using that s by (intro idp_authenticate_ok [of v s L token u]) (auto simp: live_access_def)
  ultimately show ?thesis by blast
qed


section \<open>Refusals\<close>

text \<open>A guard that always throws stops what follows, and what ran before it was calm.\<close>

definition refuses :: "('w, 'a) act \<Rightarrow> bool" where
  "refuses m \<longleftrightarrow> (\<forall>w. \<exists>e. fst (m w) = Inl e)"

lemma refuses_throw [intro]: "refuses (throw e)"
  by (simp add: refuses_def throw_run)

lemma refuses_after [intro]:
  assumes "\<And>x. refuses (f x)"
  shows "refuses (bind m f)"
  unfolding refuses_def
proof
  fix w
  show "\<exists>e. fst (bind m f w) = Inl e"
    using assms by (cases "m w", cases "fst (m w)") (auto simp: bind_def refuses_def)
qed

lemma refuses_first [intro]:
  assumes "refuses m"
  shows "refuses (bind m f)"
  unfolding refuses_def
proof
  fix w
  obtain e where "fst (m w) = Inl e" using assms by (auto simp: refuses_def)
  then have "m w = (Inl e, snd (m w))" by (metis prod.collapse)
  then show "\<exists>e. fst (bind m f w) = Inl e" by (metis bind_eq_if_throw fst_conv)
qed

lemma calm_first:
  assumes "refuses m" and "safe calm m"
  shows "safe calm (bind m f)"
proof (rule safeI)
  fix w
  obtain e where "fst (m w) = Inl e" using assms(1) by (auto simp: refuses_def)
  then have "m w = (Inl e, snd (m w))" by (metis prod.collapse)
  then have "snd (bind m f w) = snd (m w)" by (metis bind_eq_if_throw snd_conv)
  with safeD [OF assms(2), of w] show "calm w (snd (bind m f w))" by simp
qed

text \<open>The action ends with an error and leaves at most entries of the logs, counters and metrics.\<close>

definition refused :: "'a io \<Rightarrow> bool" where
  "refused m \<longleftrightarrow> refuses m \<and> safe calm m"

lemma refused_first [intro]: "refused m \<Longrightarrow> refused (bind m f)"
  unfolding refused_def using refuses_first calm_first by blast

lemma refused_throw [intro]: "refused (throw e)"
  by (auto simp: refused_def intro: safe_intros)

lemma refused_within [intro]: "refused h \<Longrightarrow> refused (within_rate key limit window message h)"
  unfolding refused_def within_rate_def
  by (auto intro!: refuses_after safe_intros)

lemma refused_public [intro]:
  assumes "\<And>p. schema (public_payload r) = Some p \<Longrightarrow> refused (h p)"
  shows "refused (public_endpoint schema h r)"
  using assms by (auto simp: public_endpoint_def split: option.split)

lemma refused_challenge:
  assumes "TURNSTILE_ENABLED env" and "\<And>t. token = Some t \<Longrightarrow> \<not> challenge_passed V env action ip t"
  shows "refused (verifyChallengeOrThrow V env endpoint action ip token False)"
proof -
  have "verifyChallengeOrThrow V env endpoint action ip token False w \<noteq> (Inr u, w')" for w u w'
    using challenge_ok [OF _ assms(1)] assms(2) by blast
  then have "\<exists>e. fst (verifyChallengeOrThrow V env endpoint action ip token False w) = Inl e" for w
    by (cases "verifyChallengeOrThrow V env endpoint action ip token False w", cases "fst (verifyChallengeOrThrow V env endpoint action ip token False w)") auto
  then show ?thesis unfolding refused_def refuses_def using calm_challenge by blast
qed

definition unsolved :: "siteverify \<Rightarrow> server_env \<Rightarrow> string \<Rightarrow> string option \<Rightarrow> string option \<Rightarrow> bool" where
  "unsolved V env action ip token \<longleftrightarrow> (\<forall>t. token = Some t \<longrightarrow> \<not> challenge_passed V env action ip t)"

text \<open>
  With the challenge enabled and required for signup and password reset, a request whose token the
  verification service does not pass for that very action is refused, also when the service cannot be
  reached: no account is made, no reset token is issued.
\<close>

theorem unchallenged_requests_refused:
  assumes "TURNSTILE_ENABLED env" and "{''signup'', ''password_reset''} \<subseteq> set (TURNSTILE_REQUIRED_ACTIONS env)"
  shows "((\<forall>p. signupRequestSchema Z (public_payload (web_request.truncate r)) = Some p \<longrightarrow>
        unsolved V env ''signup'' (client_ip r) (su_challengeToken p)) \<longrightarrow> refused (signup_route Z L V env r)) \<and>
    ((\<forall>p. passwordResetRequestSchema Z (public_payload (web_request.truncate r)) = Some p \<longrightarrow>
        unsolved V env ''password_reset'' (client_ip r) (snd p)) \<longrightarrow> refused (password_reset_request_route Z L V env r))"
  using assms unfolding signup_route_def signup_handler_def password_reset_request_route_def password_reset_handler_def
  by (auto simp: Let_def unsolved_def split: prod.split intro!: refused_public refused_within refused_first refused_challenge)

section \<open>OAuth clients\<close>

text \<open>The answer is an error, and nothing changed but the counter of this rate limit.\<close>

definition refused_at :: "world \<Rightarrow> string \<Rightarrow> 'a io \<Rightarrow> bool" where
  "refused_at w key m \<longleftrightarrow> (\<exists>e entry. m w = (Inl e, w\<lparr>redis := (redis w)(limiter_key key := entry)\<rparr>))"

lemma rate_consume_world:
  obtains x entry where "rate_consume key limit window w = (x, w\<lparr>redis := (redis w)(limiter_key key := entry)\<rparr>)"
proof (cases "redis_live w (limiter_key key)")
  case None
  with that show ?thesis by (cases "limit < 1") (auto simp: rate_consume_def incr_expire_def bind_run ret_run)
next
  case (Some ve)
  have same: "w = w\<lparr>redis := (redis w)(limiter_key key := redis w (limiter_key key))\<rparr>" by simp
  show ?thesis
  proof (cases "parse_nat (fst ve)")
    case None
    with Some have "rate_consume key limit window w = (Inl (PlainError ''ERR value is not an integer or out of range''), w)"
      by (cases ve) (simp add: rate_consume_def incr_expire_def bind_run)
    with same that show ?thesis by metis
  next
    case (Some n)
    with \<open>redis_live w (limiter_key key) = Some ve\<close>
    have "rate_consume key limit window w =
        (Inr (if limit < int n + 1 then \<lparr>rl_allowed = False, rl_remaining = 0\<rparr>
              else \<lparr>rl_allowed = True, rl_remaining = max (limit - (int n + 1)) 0\<rparr>),
         w\<lparr>redis := (redis w)(limiter_key key :=
           Some (show_nat (n + 1), if n = 0 then Some (clock w + window * 1000) else snd ve))\<rparr>)"
      by (cases ve) (simp add: rate_consume_def incr_expire_def bind_run ret_run)
    then show ?thesis by (rule that)
  qed
qed

lemma client_auth_redis:
  "authenticateClientBasic L env h (w\<lparr>redis := r\<rparr>) = (fst (authenticateClientBasic L env h w), w\<lparr>redis := r\<rparr>)"
  by (simp add: authenticateClientBasic_def run_simps split: sum.split option.split)

lemma for_oauth_client_refused:
  assumes "fst (authenticateClientBasic L (app_env.truncate env) (wr_authorization r) w) = Inl e"
  shows "refused_at w (key @ or_unknown (client_ip r)) (for_oauth_client L env r key message h)"
proof -
  let ?key = "key @ or_unknown (client_ip r)"
  obtain x entry where x: "rate_consume ?key (RATE_LIMIT_OAUTH_PER_MIN env) 60 w =
      (x, w\<lparr>redis := (redis w)(limiter_key ?key := entry)\<rparr>)" (is "_ = (x, ?v)")
    by (rule rate_consume_world)
  have stop: "bind (authenticateClientBasic L (app_env.truncate env) (wr_authorization r)) f ?v = (Inl e, ?v)" for f :: "_ \<Rightarrow> 'a io"
    by (rule bind_eq_if_throw) (simp only: client_auth_redis assms)
  show ?thesis
  proof (cases x)
    case (Inl a)
    have "for_oauth_client L env r key message h w = (Inl a, ?v)"
      unfolding for_oauth_client_def within_rate_def
      by (rule bind_eq_if_throw) (simp add: x Inl)
    then show ?thesis unfolding refused_at_def by blast
  next
    case (Inr rate)
    have guard: "within_rate ?key (RATE_LIMIT_OAUTH_PER_MIN env) 60 message k w =
        (if rl_allowed rate then k ?v else (Inl (rate_limited message), ?v))" for k :: "'a io"
      by (simp add: within_rate_def bind_run x Inr throw_run)
    have "for_oauth_client L env r key message h w =
        (if rl_allowed rate then (Inl e, ?v) else (Inl (rate_limited message), ?v))"
      unfolding for_oauth_client_def guard stop ..
    then show ?thesis
      unfolding refused_at_def
      by (intro exI [of _ "if rl_allowed rate then e else rate_limited message"] exI [of _ entry]) simp
  qed
qed

lemma refused_at_public:
  assumes "\<And>p. refused_at w key (h p)"
  shows "refused_at w key (public_endpoint schema h r)"
proof (cases "schema (public_payload r)")
  case None
  have "w = w\<lparr>redis := (redis w)(limiter_key key := redis w (limiter_key key))\<rparr>" by simp
  with None show ?thesis unfolding refused_at_def public_endpoint_def by (metis option.simps(4) throw_run)
qed (use assms in \<open>simp add: public_endpoint_def refused_at_def\<close>)

text \<open>
  C21: A caller whose Basic credentials the client registry refuses gets nothing but an error from the
  token, introspection and revocation endpoints, whatever token it sends, and changes nothing there:
  the database, the logs and the metrics stay as they were, and in Redis only the counter of the rate
  limit of that endpoint for the address of the caller moves.
\<close>

theorem oauth_client_required:
  assumes "fst (authenticateClientBasic L (app_env.truncate env) (wr_authorization r) w) = Inl e"
  shows "refused_at w (''oauth-token:'' @ or_unknown (client_ip r)) (oauth_token_route date_parse L env r) \<and>
    refused_at w (''oauth-introspection:'' @ or_unknown (client_ip r)) (oauth_introspection_route L env r) \<and>
    refused_at w (''oauth-revocation:'' @ or_unknown (client_ip r)) (oauth_revocation_route L env r)"
  unfolding oauth_token_route_def oauth_introspection_route_def oauth_revocation_route_def
  by (intro conjI refused_at_public for_oauth_client_refused [OF assms])

text \<open>
  Sign-in looks at the login mode and the risk only: naming \<open>login\<close> or \<open>google_login\<close> among the required
  actions has no effect on it.
\<close>

lemma login_ignores_required_actions:
  "login_route Z L V (env\<lparr>TURNSTILE_REQUIRED_ACTIONS := xs\<rparr>) r = login_route Z L V env r"
  "google_login_route Z L V (env\<lparr>TURNSTILE_REQUIRED_ACTIONS := xs\<rparr>) r = google_login_route Z L V env r"
proof -
  have same: "bot_guard V (env\<lparr>TURNSTILE_REQUIRED_ACTIONS := xs\<rparr>) = bot_guard V env"
    by (simp add: fun_eq_iff bot_guard_def verifyChallengeOrThrow_def check_challenge_def hostname_ok_def
        challenge_for_login_def app_env.truncate_def cong: if_cong)
  have answer: "login_answer (env\<lparr>TURNSTILE_REQUIRED_ACTIONS := xs\<rparr>) = login_answer env"
  proof
    show "login_answer (env\<lparr>TURNSTILE_REQUIRED_ACTIONS := xs\<rparr>) x = login_answer env x" for x
      by (cases x) (simp_all add: setAuthCookies_def access_cookie_def csrf_cookie_def secure_cookie_def)
  qed
  have "login_handler L V (env\<lparr>TURNSTILE_REQUIRED_ACTIONS := xs\<rparr>) r = login_handler L V env r"
    "google_login_handler L V (env\<lparr>TURNSTILE_REQUIRED_ACTIONS := xs\<rparr>) r = google_login_handler L V env r"
    by (simp_all add: fun_eq_iff [of "login_handler _ _ _ _"] fun_eq_iff [of "google_login_handler _ _ _ _"]
        login_handler_def google_login_handler_def same answer app_env.truncate_def)
  then show
    "login_route Z L V (env\<lparr>TURNSTILE_REQUIRED_ACTIONS := xs\<rparr>) r = login_route Z L V env r"
    "google_login_route Z L V (env\<lparr>TURNSTILE_REQUIRED_ACTIONS := xs\<rparr>) r = google_login_route Z L V env r"
    by (simp_all add: login_route_def google_login_route_def)
qed

section \<open>Samples\<close>

definition sample_zod :: zod where
  "sample_zod = \<lparr>zod_email = (\<lambda>s. CHR ''@'' \<in> set s), zod_uuid = (\<lambda>_. None), intl_locale = Some, intl_timezone = (\<lambda>_. True)\<rparr>"

definition sample_server :: server_env where
  "sample_server = app_env.extend (APP_CONSTANTS\<lparr>TURNSTILE_ENABLED := True\<rparr>)
     (server_env.fields 3000 3001 ''http://localhost:3001'' [] 19456 3 1 10 20 60 120 ''idp'' 1 True 2 True 5 5 ''info''
        True 100 60 60 30 ''https://verify'' [''signup'', ''password_reset''] ''always'' [] ''db'' ''redis'' [] [] ''idp'' ''localhost''
        ''http://localhost:3000'')"

lemma sample_server_fields [simp]:
  "app_env.truncate sample_server = APP_CONSTANTS\<lparr>TURNSTILE_ENABLED := True\<rparr>"
  "TURNSTILE_ENABLED sample_server" "TURNSTILE_ENFORCE_LOGIN_MODE sample_server = ''always''"
  "RATE_LIMIT_LOGIN_PER_MIN sample_server = 20" "TURNSTILE_EXPECTED_HOSTNAME sample_server = []"
  "TURNSTILE_REQUIRED_ACTIONS sample_server = [''signup'', ''password_reset'']"
  by (simp_all add: sample_server_def app_env.defs server_env.defs)

text \<open>A verification service that passes the token \<open>t1\<close> for a login.\<close>

definition sample_siteverify :: siteverify where
  "sample_siteverify url form = (if (''response'', ''t1'') \<in> set form
     then Inr (JObj [(''success'', JBool True), (''action'', JStr ''login'')]) else Inl ''unreachable'')"

definition sample_login :: auth_request where
  "sample_login = \<lparr>wr_method = ''POST'', wr_authorization = None, wr_cookie = None, wr_csrf = None, wr_contentType = None,
     wr_body = Some (JObj [(''email'', JStr ''ann@x.org''), (''password'', JStr ''secret''), (''challengeToken'', JStr ''t1'')]),
     wr_form = JNull, rq_forwardedFor = None, rq_userAgent = None, rq_deviceId = None\<rparr>"

definition login_world :: world where
  "login_world = sample_world sample_db\<lparr>rnd := 20\<rparr>"

definition after_login :: "(err + route_answer) \<times> world" where
  "after_login = login_route sample_zod sample_libs sample_siteverify sample_server sample_login login_world"

lemma sample_login_payload:
  "loginRequestSchema sample_zod (public_payload (web_request.truncate sample_login)) =
     Some \<lparr>lp_email = ''ann@x.org'', lp_password = ''secret'', lp_mfa = no_mfa, lp_challengeToken = Some ''t1''\<rparr>"
  by code_simp

lemma sample_login_fields:
  "client_ip sample_login = None" "rq_userAgent sample_login = None" "rq_deviceId sample_login = None"
  by (simp_all add: client_ip_def sample_login_def getIpAddress_def)

lemma sample_thresholds:
  "BOT_RISK_LOGIN_THRESHOLD_PER_WINDOW sample_server = 20" "BOT_RISK_WINDOW_SECONDS sample_server = 600"
  by (simp_all add: sample_server_def app_env.defs server_env.defs APP_CONSTANTS_def)

lemma sample_truths: "truthy_value (Some (JStr ''login''))" "truthy_value (Some (JBool True))" "js_trim [] = []"
  by code_simp+

lemmas route_eval = login_route_def public_endpoint_def sample_login_payload login_handler_def sample_login_fields
  sample_thresholds sample_truths or_none_def within_rate_def bot_guard_def assessBotRiskForLogin_def rate_consume_def
  incr_expire_def redis_live_def challenge_for_login_def verifyChallengeOrThrow_def check_challenge_def
  verifyTurnstileToken_def sample_siteverify_def turnstile_form_def hostname_ok_def if_truthy_def metric_run

lemmas login_eval = AuthService_login_def method_conflict_def no_mfa_def check_login_def verifyPassword_io_def verify_hash_def findWithPasswordByEmail_def
  verifyPassword_def argon2Prefix_def starts_with_def login_active_def login_risk_def APP_CONSTANTS_def low_risk_def
  hasEnabledMfa_def finish_login_def MfaRepository_findActiveFactorsByUserId_def AuthService_createSession_def
  setAuthCookies_def SessionRepository_create_def insert_session_def idp_eval sample_defs uniq_defs

abbreviation login_token :: string where "login_token \<equiv> ''at_'' @ replicate 22 (CHR ''x'')"
abbreviation login_csrf :: string where "login_csrf \<equiv> ''csrf_'' @ replicate 26 (CHR ''x'')"

lemma after_login_cookies:
  "\<exists>a. fst after_login = Inr a \<and> an_cookies a = [access_cookie sample_server login_token, csrf_cookie sample_server login_csrf]"
  by (simp add: after_login_def login_world_def route_eval login_eval)

lemma after_login_sessions:
  "\<exists>s. userSessions (db (snd after_login)) = [sample_session, s] \<and> us_id s = 124 \<and> us_userId s = 1 \<and>
     us_expiresAt s = 901000 \<and> us_accessTokenHash s = sha256 sample_libs login_token \<and>
     us_refreshTokenHash s = sha256 sample_libs (''rt_'' @ replicate 23 (CHR ''x''))"
  by (simp add: after_login_def login_world_def route_eval login_eval)


definition next_request :: web_request where
  "next_request = \<lparr>wr_method = ''POST'', wr_authorization = None,
     wr_cookie = Some (browser_cookies [access_cookie sample_server login_token, csrf_cookie sample_server login_csrf]),
     wr_csrf = Some login_csrf, wr_contentType = None, wr_body = None, wr_form = JNull\<rparr>"

definition next_world :: world where
  "next_world = sample_world (sample_db\<lparr>userSessions := userSessions (db (snd after_login))\<rparr>)"

theorem login_cookies_authenticate_witness:
  "presents next_request login_token \<and> same_site next_request \<and>
   fst (AuthService_authenticateAccessToken sample_libs login_token next_world) = Inr (1, 124)"
proof -
  obtain a where a: "fst after_login = Inr a"
      "an_cookies a = [access_cookie sample_server login_token, csrf_cookie sample_server login_csrf]"
    using after_login_cookies by auto
  have run: "login_route sample_zod sample_libs sample_siteverify sample_server sample_login login_world = (Inr a, snd after_login)"
    using a(1) unfolding after_login_def by (metis prod.collapse)
  obtain s where s: "userSessions (db (snd after_login)) = [sample_session, s]" "us_id s = 124" "us_userId s = 1"
      "us_expiresAt s = 901000" "us_accessTokenHash s = sha256 sample_libs login_token"
      "us_refreshTokenHash s = sha256 sample_libs (''rt_'' @ replicate 23 (CHR ''x''))"
    using after_login_sessions by blast
  have q: "16 \<le> length login_token" "login_csrf \<noteq> []" "wr_authorization next_request = None"
    "wr_cookie next_request = Some (browser_cookies (an_cookies a))" "wr_csrf next_request = Some login_csrf"
    by (simp_all add: next_request_def a(2))
  note result = login_cookies_authenticate [OF run a(2) q]
  have "userSessions (db next_world) = userSessions (db (snd after_login))" "users (db next_world) = [sample_user]"
    "clock next_world = 1000" "uniq_sessions (userSessions (db next_world))" "uniq_users (users (db next_world))"
    using s by (simp_all add: next_world_def sample_db_def uniq_defs sample_defs)
  moreover have "sample_user \<in> set [sample_user]" "u_id sample_user = 1" "u_status sample_user = ''active''"
    by (simp_all add: sample_user_def)
  ultimately show ?thesis
    using result s by (auto simp: login_world_def sample_db_def)
qed

definition sample_signup :: auth_request where
  "sample_signup = sample_login\<lparr>wr_body := Some (JObj [(''email'', JStr ''bob@x.org''), (''password'', JStr ''secret-secret''),
     (''displayName'', JStr ''Bob''), (''challengeToken'', JStr ''t1'')])\<rparr>"

text \<open>A challenge solved for a login does not open the signup.\<close>

theorem unchallenged_requests_refused_witness:
  "(\<exists>p. signupRequestSchema sample_zod (public_payload (web_request.truncate sample_signup)) = Some p) \<and>
   refused (signup_route sample_zod sample_libs sample_siteverify sample_server sample_signup)"
proof
  have "su_challengeToken (the (signupRequestSchema sample_zod (public_payload (web_request.truncate sample_signup)))) = Some ''t1'' \<and>
      signupRequestSchema sample_zod (public_payload (web_request.truncate sample_signup)) \<noteq> None"
    by code_simp
  then obtain p where p: "signupRequestSchema sample_zod (public_payload (web_request.truncate sample_signup)) = Some p"
      "su_challengeToken p = Some ''t1''" by auto
  then show "\<exists>p. signupRequestSchema sample_zod (public_payload (web_request.truncate sample_signup)) = Some p" by blast
  have "unsolved sample_siteverify sample_server ''signup'' (client_ip sample_signup) (su_challengeToken p)"
    by (simp add: p(2) unsolved_def challenge_passed_def sample_siteverify_def turnstile_form_def)
  then show "refused (signup_route sample_zod sample_libs sample_siteverify sample_server sample_signup)"
    using unchallenged_requests_refused [of sample_server sample_zod sample_signup sample_siteverify sample_libs] p(1) by simp
qed

theorem oauth_client_required_witness:
  "refused_at login_world (''oauth-introspection:'' @ or_unknown (client_ip sample_login)) (oauth_introspection_route sample_libs sample_server sample_login)"
proof -
  have "\<exists>e. fst (authenticateClientBasic sample_libs (app_env.truncate sample_server) (wr_authorization sample_login) login_world) = Inl e"
    by (simp add: sample_login_def authenticateClientBasic_def parseOAuthClientBasicAuth_def throw_run)
  then show ?thesis using oauth_client_required by blast
qed

end
