(* ===== verification/OidcInteractions.thy ===== *)
theory OidcInteractions
  imports IdpAuth Bytes WebRequests
begin

text \<open>
  The login and consent interactions of core/oidc-interactions.ts: the pages, the form, and the
  middleware that answers a request to \<open>/interaction/:uid\<close>.

  Of the oidc-provider package the middleware uses the details of the interaction, the lookup of a
  client and of a grant (parameters), and its end with a result, which is the answer here.
\<close>

section \<open>Pages\<close>

definition replaced :: "char \<Rightarrow> string \<Rightarrow> string \<Rightarrow> string" where
  "replaced c t s = concat (map (\<lambda>x. if x = c then t else [x]) s)"

definition htmlEscape :: "string option \<Rightarrow> string" where
  "htmlEscape v =
     replaced (CHR 0x27) ''&#39;'' (replaced (CHR 0x22) ''&quot;'' (replaced (CHR ''>'') ''&gt;''
       (replaced (CHR ''<'') ''&lt;'' (replaced (CHR ''&'') ''&amp;'' (case v of None \<Rightarrow> [] | Some s \<Rightarrow> s)))))"

definition lines_of :: "string list \<Rightarrow> string" where
  "lines_of ls = js_join [CHR 0x0A] ls"

definition page_start :: string where
  \<open>page_start = lines_of
    [''<!doctype html>'',
     ''<html lang="en">'',
     ''<head>'',
     ''  <meta charset="utf-8" />'',
     ''  <meta name="viewport" content="width=device-width, initial-scale=1" />'',
     ''  <title>Sign in</title>'',
     ''  <style>'',
     ''    body { font-family: ui-sans-serif, system-ui, sans-serif; margin: 0; background: #f6f7f9; color: #20242a; }'',
     ''    main { max-width: 360px; margin: 12vh auto; padding: 28px; background: #fff; border: 1px solid #d9dde3; border-radius: 8px; }'',
     ''    h1 { font-size: 22px; margin: 0 0 8px; }'',
     ''    p { color: #5d6673; margin: 0 0 20px; }'',
     ''    label { display: block; font-size: 13px; margin: 14px 0 6px; }'',
     ''    input { width: 100%; box-sizing: border-box; padding: 10px 12px; border: 1px solid #b8c0cc; border-radius: 6px; font-size: 15px; }'',
     ''    button { width: 100%; margin-top: 18px; padding: 11px 14px; border: 0; border-radius: 6px; background: #1f6feb; color: #fff; font-weight: 700; }'',
     ''    .error { background: #fff1f1; color: #a4161a; border: 1px solid #ffc9c9; padding: 10px; border-radius: 6px; margin-bottom: 12px; }'',
     ''  </style>'',
     ''</head>'',
     ''<body>'',
     ''  <main>'',
     ''    <h1>Sign in</h1>'',
     ''    <p>'']\<close>

definition mfa_inputs :: string where
  \<open>mfa_inputs = lines_of
    [''<label for="mfaCode">MFA code</label>'',
     ''      <input id="mfaCode" name="mfaCode" autocomplete="one-time-code" />'',
     ''      <label for="mfaRecoveryCode">Recovery code</label>'',
     ''      <input id="mfaRecoveryCode" name="mfaRecoveryCode" />'']\<close>

record login_page =
  lg_uid :: string
  lg_clientName :: string
  lg_loginHint :: "string option"
  lg_error :: "string option"
  lg_mfaRequired :: bool

definition renderLogin :: "login_page \<Rightarrow> string" where
  \<open>renderLogin i = page_start @ htmlEscape (Some (lg_clientName i)) @ '' wants to authenticate your account.</p>'' @
     lines_of
      [[],
       ''    '' @ (if truthy (lg_error i) then ''<div class="error">'' @ htmlEscape (lg_error i) @ ''</div>'' else []),
       ''    <form method="post" action="/interaction/'' @ htmlEscape (Some (lg_uid i)) @ ''">'',
       ''      <input type="hidden" name="prompt" value="login" />'',
       ''      <label for="email">Email</label>'',
       ''      <input id="email" name="email" type="email" autocomplete="username" required value="'' @
          htmlEscape (lg_loginHint i) @ ''" />'',
       ''      <label for="password">Password</label>'',
       ''      <input id="password" name="password" type="password" autocomplete="current-password" required />'',
       ''      '' @ (if lg_mfaRequired i then mfa_inputs else []),
       ''      <button type="submit">Continue</button>'',
       ''    </form>'',
       ''  </main>'',
       ''</body>'',
       ''</html>'']\<close>

definition renderUnsupported :: "string \<Rightarrow> string" where
  \<open>renderUnsupported message = lines_of
     [''<!doctype html>'',
      ''<html lang="en"><head><meta charset="utf-8" /><title>Unsupported interaction</title></head>'',
      ''<body><main><h1>Unsupported interaction</h1><p>'' @ htmlEscape (Some message) @ ''</p></main></body></html>'']\<close>

section \<open>The form\<close>

text \<open>
  \<open>URLSearchParams\<close>: a leading question mark is dropped, fields stand between ampersands, a plus sign
  is a space, and an escape that is not followed by two hexadecimal digits stays as it is. \<open>get\<close> is
  the first field of the name.
\<close>

function form_bytes :: "string \<Rightarrow> bytes" where
  "form_bytes [] = []"
| "form_bytes (c # cs) =
     (case hex_pair (c # cs) of
        Some (b, rest) \<Rightarrow> char_of b # form_bytes rest
      | None \<Rightarrow> (if c = CHR ''+'' then utf8_char (CHR '' '') else utf8_char c) @ form_bytes cs)"
  by pat_completeness auto
termination
  by (relation "measure length") (auto dest!: hex_pair_length)

definition form_decoded :: "string \<Rightarrow> string" where
  "form_decoded s = utf8_text (form_bytes s)"

definition form_field :: "string \<Rightarrow> string \<times> string" where
  "form_field part =
     (form_decoded (takeWhile (\<lambda>c. c \<noteq> CHR ''='') part), form_decoded (tl (dropWhile (\<lambda>c. c \<noteq> CHR ''='') part)))"

definition readForm :: "string \<Rightarrow> (string \<Rightarrow> string option)" where
  "readForm body =
     (let body = (if starts_with body ''?'' then tl body else body) in
      map_of (map form_field (filter (\<lambda>p. p \<noteq> []) (js_split (CHR ''&'') body))))"

section \<open>The provider\<close>

record oidc_grant =
  gt_accountId :: string
  gt_clientId :: string
  gt_scopes :: "string list"
  gt_claims :: "json list"
  gt_resources :: "(string \<times> string) list"

record interaction_details =
  in_uid :: string
  in_prompt :: string
  in_promptDetails :: json
  in_grantId :: "string option"
  in_accountId :: "string option"
  in_params :: json

record oidc_api =
  api_details :: "err + interaction_details"
  api_client :: "string \<Rightarrow> (json option \<times> string) option"
  api_grant :: "string \<Rightarrow> oidc_grant option"

record interaction_request =
  ir_path :: string
  ir_method :: string
  ir_body :: string

text \<open>
  What a request ends with: the next middleware, a page with its status, a bare status, or the end of
  the interaction with a login or a saved grant.
\<close>

datatype interaction_answer =
    NextMiddleware
  | Page nat string
  | Status nat
  | LoginResult uuid "string list"
  | ConsentResult oidc_grant

definition koa_error :: "nat \<Rightarrow> string \<Rightarrow> err" where
  "koa_error status message = ApiError status [] message"

definition stringValue :: "json option \<Rightarrow> string option" where
  "stringValue v = (case v of Some (JStr s) \<Rightarrow> Some s | _ \<Rightarrow> None)"

text \<open>\<open>client_name ?? clientId ?? clientId\<close>; the name of a client is a text.\<close>

definition getClientName :: "oidc_api \<Rightarrow> string \<Rightarrow> string" where
  "getClientName P clientId = (case api_client P clientId of
     None \<Rightarrow> clientId
   | Some (name, i) \<Rightarrow> (case name of Some (JStr s) \<Rightarrow> s | _ \<Rightarrow> i))"

section \<open>Consent\<close>

definition joined_texts :: "json list \<Rightarrow> string" where
  "joined_texts xs = js_join '' '' (map (\<lambda>x. if x = JNull then [] else js_text x) xs)"

fun json_entries :: "json \<Rightarrow> (string \<times> json) list" where
  "json_entries (JObj fs) = fs"
| "json_entries (JArr xs) = map (\<lambda>(k, v). (show_nat k, v)) (enumerate 0 xs)"
| "json_entries _ = []"

definition add_missing :: "json \<Rightarrow> oidc_grant \<Rightarrow> oidc_grant" where
  "add_missing details g = g\<lparr>
     gt_scopes := gt_scopes g @ (case json_prop details ''missingOIDCScope'' of
       Some (JArr xs) \<Rightarrow> [joined_texts xs] | _ \<Rightarrow> []),
     gt_claims := gt_claims g @ (case json_prop details ''missingOIDCClaims'' of Some (JArr xs) \<Rightarrow> xs | _ \<Rightarrow> []),
     gt_resources := gt_resources g @ (case json_prop details ''missingResourceScopes'' of
       None \<Rightarrow> []
     | Some j \<Rightarrow> concat (map (\<lambda>(indicator, scopes). case scopes of JArr xs \<Rightarrow> [(indicator, joined_texts xs)] | _ \<Rightarrow> [])
         (json_entries j)))\<rparr>"

text \<open>\<open>None\<close> when the prompt is another one.\<close>

definition finishConsent :: "oidc_api \<Rightarrow> interaction_details \<Rightarrow> oidc_grant option io" where
  "finishConsent P i =
     (if in_prompt i \<noteq> ''consent'' then ret None
      else
        let clientId = stringValue (json_prop (in_params i) ''client_id'') in
        if \<not> truthy clientId then throw (koa_error 400 ''Missing client_id'')
        else if \<not> truthy (in_accountId i) then throw (koa_error 400 ''Missing authenticated session'')
        else
          case (if truthy (in_grantId i) then api_grant P (the (in_grantId i))
                else Some \<lparr>gt_accountId = the (in_accountId i), gt_clientId = the clientId, gt_scopes = [],
                           gt_claims = [], gt_resources = []\<rparr>) of
            None \<Rightarrow> throw (koa_error 400 ''Grant not found'')
          | Some grant \<Rightarrow> ret (Some (add_missing (in_promptDetails i) grant)))"

section \<open>Login\<close>

definition interaction_path :: "string \<Rightarrow> bool" where
  "interaction_path path \<longleftrightarrow> starts_with path ''/interaction/'' \<and>
     drop 13 path \<noteq> [] \<and> CHR ''/'' \<notin> set (drop 13 path)"

definition form_value :: "(string \<Rightarrow> string option) \<Rightarrow> string \<Rightarrow> string" where
  "form_value form name = (case form name of None \<Rightarrow> [] | Some s \<Rightarrow> s)"

definition form_option :: "(string \<Rightarrow> string option) \<Rightarrow> string \<Rightarrow> string option" where
  "form_option form name = (if truthy (form name) then form name else None)"

definition interaction_mfa :: "(string \<Rightarrow> string option) \<Rightarrow> mfa_input" where
  "interaction_mfa form = \<lparr>mi_mfaCode = form_option form ''mfaCode'', mi_mfaFactorId = None,
     mi_mfaRecoveryCode = form_option form ''mfaRecoveryCode''\<rparr>"

definition gives_code :: "(string \<Rightarrow> string option) \<Rightarrow> bool" where
  "gives_code form \<longleftrightarrow> truthy (form ''mfaCode'') \<or> truthy (form ''mfaRecoveryCode'')"

definition interaction_amr :: "(string \<Rightarrow> string option) \<Rightarrow> string list" where
  "interaction_amr form = (if gives_code form then [''pwd'', ''otp''] else [''pwd''])"

definition submit_login ::
    "libs \<Rightarrow> app_env \<Rightarrow> string \<Rightarrow> string \<Rightarrow> (string \<Rightarrow> string option) \<Rightarrow> interaction_answer io" where
  "submit_login L env uid clientName form =
     (let email = form_value form ''email'' in
      try_catch
        (bind (AuthService_login L env email (form_value form ''password'') None None (interaction_mfa form) None) (\<lambda>x.
         case x of
           MfaRequired _ _ \<Rightarrow> ret (Page 401 (renderLogin \<lparr>lg_uid = uid, lg_clientName = clientName, lg_loginHint = Some email,
             lg_error = Some ''MFA is required.'', lg_mfaRequired = True\<rparr>))
         | LoggedIn a \<Rightarrow> ret (LoginResult (ls_userId a) (interaction_amr form))))
        (\<lambda>_. ret (Page 401 (renderLogin \<lparr>lg_uid = uid, lg_clientName = clientName, lg_loginHint = Some email,
             lg_error = Some ''Invalid credentials.'', lg_mfaRequired = gives_code form\<rparr>))))"

definition login_interaction ::
    "libs \<Rightarrow> app_env \<Rightarrow> oidc_api \<Rightarrow> interaction_request \<Rightarrow> interaction_details \<Rightarrow> interaction_answer io" where
  "login_interaction L env P r i =
     (let clientId = stringValue (json_prop (in_params i) ''client_id'') in
      if \<not> truthy clientId then throw (koa_error 400 ''Missing client_id'')
      else
        let clientName = getClientName P (the clientId) in
        if in_prompt i \<noteq> ''login'' then
          ret (Page 501 (renderUnsupported (''Prompt '' @ in_prompt i @ '' is not implemented.'')))
        else if ir_method r = ''GET'' then
          let loginHint = stringValue (json_prop (in_params i) ''login_hint'') in
          ret (Page 200 (renderLogin \<lparr>lg_uid = in_uid i, lg_clientName = clientName,
            lg_loginHint = (if truthy loginHint then loginHint else None), lg_error = None, lg_mfaRequired = False\<rparr>))
        else if ir_method r \<noteq> ''POST'' then ret (Status 405)
        else submit_login L env (in_uid i) clientName (readForm (ir_body r)))"

definition interaction_middleware ::
    "libs \<Rightarrow> app_env \<Rightarrow> oidc_api \<Rightarrow> interaction_request \<Rightarrow> interaction_answer io" where
  "interaction_middleware L env P r =
     (if \<not> interaction_path (ir_path r) then ret NextMiddleware
      else case api_details P of
        Inl e \<Rightarrow> throw e
      | Inr i \<Rightarrow> bind (finishConsent P i) (\<lambda>grant.
          case grant of Some g \<Rightarrow> ret (ConsentResult g) | None \<Rightarrow> login_interaction L env P r i))"

end
