(* ===== verification/OidcInteractionsFacts.thy ===== *)
theory OidcInteractionsFacts
  imports OidcInteractions IdpLogin Returns
begin

text \<open>
  What the login pages and the login interaction of core/oidc-interactions.ts guarantee.
\<close>

section \<open>Pages\<close>

text \<open>The characters of HTML that open and close tags and attribute values.\<close>

definition is_markup :: "char \<Rightarrow> bool" where
  "is_markup c \<longleftrightarrow> c \<in> {CHR ''<'', CHR ''>'', CHR 0x22, CHR 0x27}"

definition markup :: "string \<Rightarrow> string" where
  "markup s = filter is_markup s"

lemma markup_append [simp]: "markup (s @ t) = markup s @ markup t"
  by (simp add: markup_def)

lemma markup_lines [simp]: "markup (lines_of ls) = concat (map markup ls)"
proof (induction ls)
  case (Cons l ls)
  then show ?case by (cases ls) (simp_all add: lines_of_def markup_def is_markup_def)
qed (simp add: lines_of_def markup_def)

lemma replaced_append [simp]: "replaced c t (a @ b) = replaced c t a @ replaced c t b"
  by (simp add: replaced_def)

text \<open>The escape of one character, the five replacements in a row.\<close>

definition escaped_char :: "char \<Rightarrow> string" where
  "escaped_char c =
     (if c = CHR ''&'' then ''&amp;'' else if c = CHR ''<'' then ''&lt;'' else if c = CHR ''>'' then ''&gt;''
      else if c = CHR 0x22 then ''&quot;'' else if c = CHR 0x27 then ''&#39;'' else [c])"

lemma htmlEscape_chars: "htmlEscape (Some s) = concat (map escaped_char s)"
proof (induction s)
  case (Cons c s)
  have "htmlEscape (Some (c # s)) = htmlEscape (Some [c]) @ htmlEscape (Some s)"
    by (simp add: htmlEscape_def flip: replaced_append)
  moreover have "htmlEscape (Some [c]) = escaped_char c"
    by (simp add: htmlEscape_def replaced_def escaped_char_def)
  ultimately show ?case by (simp add: Cons.IH)
qed (simp add: htmlEscape_def replaced_def)

lemma markup_escaped [simp]: "markup (htmlEscape v) = []"
proof (cases v)
  case None
  then show ?thesis by (simp add: htmlEscape_def replaced_def markup_def)
next
  case (Some s)
  have "markup (concat (map escaped_char s)) = []"
    by (induction s) (simp_all add: markup_def escaped_char_def is_markup_def)
  with Some show ?thesis by (simp add: htmlEscape_chars)
qed

text \<open>What a browser shows for an escaped text.\<close>

definition entities :: "(string \<times> char) list" where
  "entities = [(''&amp;'', CHR ''&''), (''&lt;'', CHR ''<''), (''&gt;'', CHR ''>''), (''&quot;'', CHR 0x22), (''&#39;'', CHR 0x27)]"

function html_unescape :: "string \<Rightarrow> string" where
  "html_unescape [] = []"
| "html_unescape (c # s) = (case find (\<lambda>(e, _). starts_with (c # s) e) entities of
     Some (e, x) \<Rightarrow> x # html_unescape (drop (length e) (c # s))
   | None \<Rightarrow> c # html_unescape s)"
  by pat_completeness auto
termination
  by (relation "measure length") (auto simp: find_Some_iff entities_def nth_Cons' split: if_splits)

lemma unescape_char: "html_unescape (escaped_char c @ s) = c # html_unescape s"
  by (simp add: escaped_char_def entities_def starts_with_def)

lemma unescape_escape: "html_unescape (htmlEscape (Some s)) = s"
  by (induction s) (simp_all add: htmlEscape_chars unescape_char)

text \<open>
  C39: No input can add an element or leave an attribute value on the login page: its markup is the same
  for any two inputs that agree on whether there is an error and on whether codes are asked for, and
  an escaped text reads back as it was.
\<close>

theorem login_page_safe:
  assumes "truthy (lg_error i) = truthy (lg_error j)" and "lg_mfaRequired i = lg_mfaRequired j"
  shows "markup (renderLogin i) = markup (renderLogin j) \<and> html_unescape (htmlEscape (Some s)) = s"
proof
  show "markup (renderLogin i) = markup (renderLogin j)"
    by (simp only: renderLogin_def markup_append markup_lines list.map concat.simps markup_escaped assms if_distrib [of markup])
  show "html_unescape (htmlEscape (Some s)) = s" by (rule unescape_escape)
qed

section \<open>Login\<close>

text \<open>The user a login interaction ends with, and what the form must have held.\<close>

definition form_login_ok :: "libs \<Rightarrow> app_env \<Rightarrow> world \<Rightarrow> (string \<Rightarrow> string option) \<Rightarrow> uuid \<Rightarrow> bool" where
  "form_login_ok L env w form u \<longleftrightarrow>
     (\<exists>c. valid_login L (db w) (form_value form ''email'') (form_value form ''password'') = Some c \<and>
        uc_status c = ''active'' \<and> uc_id c = u) \<and>
     (hasEnabledMfa (db w) u \<longrightarrow>
        truthy (form ''mfaRecoveryCode'') \<and> recovery_passed L env (db w) u (the (form ''mfaRecoveryCode'')))"

lemma form_second_factor:
  "second_factor L env d t u (interaction_mfa form) \<longleftrightarrow>
     truthy (form ''mfaRecoveryCode'') \<and> recovery_passed L env d u (the (form ''mfaRecoveryCode''))"
  by (cases "truthy (form ''mfaRecoveryCode'')") (simp_all add: second_factor_def interaction_mfa_def form_option_def)

definition refused_page ::
    "string \<Rightarrow> string \<Rightarrow> (string \<Rightarrow> string option) \<Rightarrow> err + login_outcome \<Rightarrow> login_page" where
  "refused_page uid name form x = \<lparr>lg_uid = uid, lg_clientName = name, lg_loginHint = Some (form_value form ''email''),
     lg_error = Some (case x of Inl e \<Rightarrow> ''Invalid credentials.'' | Inr y \<Rightarrow> ''MFA is required.''),
     lg_mfaRequired = (case x of Inl e \<Rightarrow> gives_code form | Inr y \<Rightarrow> True)\<rparr>"

lemma submit_login_result:
  assumes "submit_login L env uid name form w = (Inr (LoginResult u amr), w')"
  shows "form_login_ok L env w form u \<and> amr = interaction_amr form \<and>
    (\<exists>s. userSessions (db w') = userSessions (db w) @ [s] \<and> us_userId s = u)"
proof -
  let ?run = "AuthService_login L env (form_value form ''email'') (form_value form ''password'') None None (interaction_mfa form) None w"
  obtain x v where x: "?run = (x, v)" by fastforce
  have submit: "submit_login L env uid name form w = (case x of
      Inr (LoggedIn a) \<Rightarrow> (Inr (LoginResult (ls_userId a) (interaction_amr form)), v)
    | _ \<Rightarrow> (Inr (Page 401 (renderLogin (refused_page uid name form x))), v))"
    unfolding submit_login_def Let_def try_catch_def bind_def x
    by (simp add: refused_page_def ret_run split: sum.split login_outcome.split)
  with assms obtain a where a: "x = Inr (LoggedIn a)" "u = ls_userId a" "amr = interaction_amr form" "w' = v"
    by (simp split: sum.split_asm login_outcome.split_asm)
  from idp_login_sound [OF x] show ?thesis
    by (auto simp: a form_login_ok_def session_of_def form_second_factor)
qed

text \<open>
  C25: An interaction ends with a login only for a submitted form of a login prompt with the address and
  password of an active user; when the user has factors enabled, a recovery code must have been
  right, so a code of an authenticator is never enough here. One session is added for the user.
\<close>

theorem login_interaction_sound:
  assumes "interaction_middleware L env P r w = (Inr (LoginResult u amr), w')"
  shows "ir_method r = ''POST'' \<and> interaction_path (ir_path r) \<and>
    (\<exists>i. api_details P = Inr i \<and> in_prompt i = ''login'') \<and>
    form_login_ok L env w (readForm (ir_body r)) u \<and> amr = interaction_amr (readForm (ir_body r)) \<and>
    (\<exists>s. userSessions (db w') = userSessions (db w) @ [s] \<and> us_userId s = u)"
proof -
  from assms obtain i where i: "api_details P = Inr i" "interaction_path (ir_path r)"
    and bound: "bind (finishConsent P i) (\<lambda>grant. case grant of Some g \<Rightarrow> ret (ConsentResult g)
      | None \<Rightarrow> login_interaction L env P r i) w = (Inr (LoginResult u amr), w')"
    by (auto simp: interaction_middleware_def ok_iffs split: if_splits sum.splits)
  have consent: "v = w" if "finishConsent P i w = (Inr g, v)" for g v
    using that by (auto simp: finishConsent_def Let_def ok_iffs split: if_splits option.splits)
  with bound have "login_interaction L env P r i w = (Inr (LoginResult u amr), w')"
    by (auto simp: ok_iffs split: option.splits)
  then obtain name where "in_prompt i = ''login''" "ir_method r = ''POST''"
    and "submit_login L env (in_uid i) name (readForm (ir_body r)) w = (Inr (LoginResult u amr), w')"
    by (auto simp: login_interaction_def Let_def ok_iffs split: if_splits)
  with submit_login_result i show ?thesis by blast
qed

section \<open>Consent\<close>

text \<open>
  A consent ends without touching the database, for an authenticated account and a client, and gives
  the grant found, or a new one for this account and client, with everything the prompt missed.
\<close>

lemma finishConsent_ok:
  assumes "finishConsent P i w = (Inr (Some g), v)"
  shows "v = w \<and> in_prompt i = ''consent'' \<and> truthy (in_accountId i) \<and>
    truthy (stringValue (json_prop (in_params i) ''client_id'')) \<and>
    (\<exists>old. g = add_missing (in_promptDetails i) old \<and>
      (if truthy (in_grantId i) then api_grant P (the (in_grantId i)) = Some old
       else gt_accountId old = the (in_accountId i) \<and> gt_scopes old = []))"
  using assms by (simp add: finishConsent_def Let_def run_simps split: if_splits option.splits) auto

lemma consent_extends_grant:
  assumes "interaction_middleware L env P r w = (Inr (ConsentResult g), w')"
  shows "w' = w \<and> (\<exists>i old. api_details P = Inr i \<and> in_prompt i = ''consent'' \<and> truthy (in_accountId i) \<and>
    g = add_missing (in_promptDetails i) old \<and>
    (if truthy (in_grantId i) then api_grant P (the (in_grantId i)) = Some old
     else gt_accountId old = the (in_accountId i) \<and> gt_scopes old = []))"
proof -
  from assms obtain i where i: "api_details P = Inr i"
    and bound: "bind (finishConsent P i) (\<lambda>grant. case grant of Some g \<Rightarrow> ret (ConsentResult g)
      | None \<Rightarrow> login_interaction L env P r i) w = (Inr (ConsentResult g), w')"
    by (auto simp: interaction_middleware_def ok_iffs split: if_splits sum.splits)
  have login: "login_interaction L env P r i v \<noteq> (Inr (ConsentResult g), u)" for v u
    by (auto simp: login_interaction_def submit_login_def Let_def try_catch_def bind_def ret_def throw_def
        split: if_splits prod.splits sum.splits login_outcome.splits)
  from bound obtain v where fin: "finishConsent P i w = (Inr (Some g), v)" "w' = v"
    by (auto simp: ok_iffs login split: option.splits)
  from finishConsent_ok [OF fin(1)] fin(2) i show ?thesis by blast
qed

section \<open>Samples\<close>

theorem login_page_safe_witness:
  "markup (renderLogin \<lparr>lg_uid = ''u'', lg_clientName = ''<script>'', lg_loginHint = Some [CHR 0x22], lg_error = None, lg_mfaRequired = False\<rparr>) =
   markup (renderLogin \<lparr>lg_uid = [], lg_clientName = [], lg_loginHint = None, lg_error = None, lg_mfaRequired = False\<rparr>)"
  using login_page_safe by simp

definition sample_interaction :: interaction_details where
  "sample_interaction = \<lparr>in_uid = ''u1'', in_prompt = ''login'', in_promptDetails = JNull, in_grantId = None,
     in_accountId = None, in_params = JObj [(''client_id'', JStr ''app'')]\<rparr>"

definition sample_oidc :: oidc_api where
  "sample_oidc = \<lparr>api_details = Inr sample_interaction, api_client = (\<lambda>_. None), api_grant = (\<lambda>_. None)\<rparr>"

text \<open>A form with an invented code, for an account without factors.\<close>

definition sample_form :: interaction_request where
  "sample_form = \<lparr>ir_path = ''/interaction/u1'', ir_method = ''POST'',
     ir_body = ''email=ann%40x.org&password=secret&mfaCode=1''\<rparr>"

lemma sample_form_fields:
  "readForm (ir_body sample_form) ''email'' = Some ''ann@x.org''" "readForm (ir_body sample_form) ''password'' = Some ''secret''"
  "readForm (ir_body sample_form) ''mfaCode'' = Some ''1''" "readForm (ir_body sample_form) ''mfaRecoveryCode'' = None"
  "interaction_path (ir_path sample_form)" "ir_method sample_form = ''POST''"
  by code_simp+

definition after_interaction :: "(err + interaction_answer) \<times> world" where
  "after_interaction = interaction_middleware sample_libs APP_CONSTANTS sample_oidc sample_form (sample_world sample_db)"

lemma after_interaction_ok: "fst after_interaction = Inr (LoginResult 1 [''pwd'', ''otp''])"
  by (simp add: after_interaction_def interaction_middleware_def sample_form_fields sample_oidc_def finishConsent_def
      sample_interaction_def login_interaction_def stringValue_def submit_login_def try_catch_def form_value_def
      interaction_mfa_def form_option_def interaction_amr_def gives_code_def
      AuthService_login_def method_conflict_def check_login_def verifyPassword_io_def verify_hash_def
      findWithPasswordByEmail_def verifyPassword_def argon2Prefix_def starts_with_def login_active_def
      login_risk_def APP_CONSTANTS_def low_risk_def hasEnabledMfa_def finish_login_def
      MfaRepository_findActiveFactorsByUserId_def AuthService_createSession_def
      SessionRepository_create_def insert_session_def idp_eval sample_defs uniq_defs)

theorem login_interaction_sound_witness:
  "form_login_ok sample_libs APP_CONSTANTS (sample_world sample_db) (readForm (ir_body sample_form)) 1 \<and>
   interaction_amr (readForm (ir_body sample_form)) = [''pwd'', ''otp'']"
proof -
  have "interaction_middleware sample_libs APP_CONSTANTS sample_oidc sample_form (sample_world sample_db) =
      (Inr (LoginResult 1 [''pwd'', ''otp'']), snd after_interaction)"
    using after_interaction_ok unfolding after_interaction_def by (metis prod.collapse)
  from login_interaction_sound [OF this] show ?thesis by simp
qed

end
