(* ===== verification/AccountRoutes.thy ===== *)
theory AccountRoutes
  imports AuthRoutes UserService AccountDeletion WebAuthn
begin

text \<open>
  The endpoints of signed-in users: modules/users/users.routes.ts, modules/mfa/mfa.routes.ts,
  modules/sessions/sessions.routes.ts, modules/rbac/rbac.routes.ts and the permissions of
  modules/rbac/governance.routes.ts. \<open>S\<close> is the cache service the session service invalidates.
\<close>

abbreviation bind :: "('w, 'a) act \<Rightarrow> ('a \<Rightarrow> ('w, 'b) act) \<Rightarrow> ('w, 'b) act" where
  "bind \<equiv> Prelude.bind"

definition signed_in_endpoint ::
    "libs \<Rightarrow> (json \<Rightarrow> 'p option) \<Rightarrow> ('p \<Rightarrow> uuid \<times> uuid \<Rightarrow> 'a io) \<Rightarrow> auth_request \<Rightarrow> 'a io" where
  "signed_in_endpoint L schema handler r =
     authenticated_endpoint schema (AuthService_authenticateAccessToken L) handler (web_request.truncate r)"

definition signed_out_answer :: "server_env \<Rightarrow> json \<Rightarrow> route_answer" where
  "signed_out_answer env body = \<lparr>an_body = body, an_cookies = clear_cookies env\<rparr>"

section \<open>Users\<close>

definition me_json :: "me_answer \<Rightarrow> json" where
  "me_json m = (let p = me_profile m in JObj
     [(''userId'', juuid (me_userId m)), (''email'', JStr (me_email m)), (''status'', JStr (me_status m)),
      (''emailVerified'', JBool (me_emailVerified m)),
      (''profile'', JObj
        [(''displayName'', jstr_opt (pv_displayName p)), (''givenName'', jstr_opt (pv_givenName p)),
         (''familyName'', jstr_opt (pv_familyName p)), (''preferredUsername'', jstr_opt (pv_preferredUsername p)),
         (''locale'', jstr_opt (pv_locale p)), (''zoneinfo'', jstr_opt (pv_zoneinfo p))])])"

definition me_route :: "libs \<Rightarrow> auth_request \<Rightarrow> route_answer io" where
  "me_route L r = signed_in_endpoint L emptyRequestSchema (\<lambda>_ auth.
     bind (UserService_getMe (fst auth)) (\<lambda>m. ret (plain_answer (me_json m)))) r"

definition password_change_route :: "libs \<Rightarrow> rbac_service option \<Rightarrow> server_env \<Rightarrow> auth_request \<Rightarrow> route_answer io" where
  "password_change_route L S env r = signed_in_endpoint L passwordChangeRequestSchema (\<lambda>(currentPassword, newPassword) auth.
     bind (UserService_changePassword L (fst auth) currentPassword newPassword) (\<lambda>_.
     bind (SessionService_revokeAllSessions S (fst auth)) (\<lambda>_.
     ret (signed_out_answer env (status_body ''changed''))))) r"

definition profile_update_route :: "zod \<Rightarrow> libs \<Rightarrow> server_env \<Rightarrow> auth_request \<Rightarrow> route_answer io" where
  "profile_update_route Z L env r = signed_in_endpoint L (updateUserProfileRequestSchema Z) (\<lambda>patch auth.
     within_rate (''profile-update:'' @ uuid_text (fst auth)) (RATE_LIMIT_PROFILE_UPDATE_PER_10_MIN env) (10 * 60)
       ''Too many profile update attempts''
     (bind (updateProfile L (fst auth) patch) (\<lambda>m. ret (plain_answer (me_json m))))) r"

definition google_link_route :: "libs \<Rightarrow> server_env \<Rightarrow> auth_request \<Rightarrow> route_answer io" where
  "google_link_route L env r = signed_in_endpoint L googleLinkRequestSchema (\<lambda>(idToken, currentPassword) auth.
     bind (UserService_verifyCurrentPassword L (fst auth) currentPassword) (\<lambda>_.
     bind (read_db (\<lambda>d. getSocialLoginConfig d ''google'')) (\<lambda>social.
     if \<not> sg_providerEnabled social
     then throw (ApiError 403 ''provider_disabled'' ''Google identity linking is disabled'')
     else
       bind (UserService_linkGoogleIdentity L (fst auth) idToken (or_text (sg_clientId social) (GOOGLE_CLIENT_ID env))) (\<lambda>_.
       ret (plain_answer (status_body ''linked'')))))) r"

definition google_unlink_route :: "libs \<Rightarrow> auth_request \<Rightarrow> route_answer io" where
  "google_unlink_route L r = signed_in_endpoint L googleUnlinkRequestSchema (\<lambda>(providerSubject, currentPassword) auth.
     bind (UserService_verifyCurrentPassword L (fst auth) currentPassword) (\<lambda>_.
     bind (UserService_unlinkSocialIdentity (fst auth) ''google'' providerSubject) (\<lambda>_.
     ret (plain_answer (status_body ''unlinked''))))) r"

text \<open>The status is 200 unless it is set.\<close>

record status_answer = route_answer +
  an_status :: "nat option"

definition reauth_of :: "reauth_payload \<Rightarrow> reauth" where
  "reauth_of p = \<lparr>re_currentPassword = rp_currentPassword p, re_mfaCode = rp_mfaCode p, re_mfaFactorId = rp_mfaFactorId p\<rparr>"

definition account_delete_route :: "nat \<Rightarrow> zod \<Rightarrow> libs \<Rightarrow> server_env \<Rightarrow> auth_request \<Rightarrow> status_answer io" where
  "account_delete_route fuel Z L env r = signed_in_endpoint L (reauthRequestSchema Z) (\<lambda>p auth.
     within_rate (''account-delete:'' @ uuid_text (fst auth)) (RATE_LIMIT_ACCOUNT_DELETE_PER_HOUR env) (60 * 60)
       ''Too many account deletion attempts''
     (bind (requestDeletion fuel L (app_env.truncate env) (fst auth) (reauth_of p)) (\<lambda>v.
      ret \<lparr>an_body = JObj [(''status'', JStr ''scheduled''), (''deletionDueAt'', JStr (iso_string L (dl_deletionDueAt v)))],
           an_cookies = clear_cookies env, an_status = (if dl_alreadyDeleted v then Some 202 else None)\<rparr>))) r"

section \<open>Second factors\<close>

definition unavailable_options :: "string \<Rightarrow> string \<Rightarrow> json" where
  "unavailable_options rpID challenge = JObj
     [(''challenge'', JStr challenge), (''timeout'', JNum 60000), (''rpId'', JStr rpID),
      (''allowCredentials'', JArr []), (''userVerification'', JStr ''required'')]"

definition createUnavailableWebAuthnOptions :: "string \<Rightarrow> json io" where
  "createUnavailableWebAuthnOptions rpID = bind draw_text (\<lambda>challenge. ret (unavailable_options rpID challenge))"

definition webauthn_options_route ::
    "zod \<Rightarrow> webauthn_lib \<Rightarrow> webauthn_service \<Rightarrow> server_env \<Rightarrow> auth_request \<Rightarrow> route_answer io" where
  "webauthn_options_route Z P W env r = public_endpoint (webauthnAuthenticationOptionsSchema Z) (\<lambda>email.
     within_rate (''webauthn-auth-options:'' @ email @ '':'' @ or_unknown (client_ip r)) (RATE_LIMIT_LOGIN_PER_MIN env) 60
       ''Too many login attempts''
     (bind (read_db (\<lambda>d. findActiveUserIdByEmail d email)) (\<lambda>userId.
      bind (case userId of
              None \<Rightarrow> createUnavailableWebAuthnOptions (WEBAUTHN_RP_ID env)
            | Some u \<Rightarrow> generateAuthenticationOptions P W u) (\<lambda>options. ret (plain_answer options)))))
     (web_request.truncate r)"

definition passkey_session_json :: "uuid \<Rightarrow> session_tokens \<Rightarrow> json" where
  "passkey_session_json userId s = JObj ([(''status'', JStr ''ok''), (''userId'', juuid userId)] @
     session_json s @ [(''mfaEnabled'', JBool True)])"

definition webauthn_login_handler ::
    "libs \<Rightarrow> webauthn_lib \<Rightarrow> webauthn_service \<Rightarrow> server_env \<Rightarrow> auth_request \<Rightarrow> string \<times> json option \<Rightarrow> route_answer io" where
  "webauthn_login_handler L P W env r = (\<lambda>(email, response).
     let ipAddress = client_ip r in
     within_rate (''webauthn-auth-verify:'' @ email @ '':'' @ or_unknown ipAddress) (RATE_LIMIT_LOGIN_PER_MIN env) 60
       ''Too many login attempts''
     (bind (read_db (\<lambda>d. findActiveUserIdByEmail d email)) (\<lambda>userId.
      case userId of
        None \<Rightarrow> throw invalid_request
      | Some u \<Rightarrow>
          bind (try_catch (verifyAuthenticationResponse P W u (or_null response)) (\<lambda>_. throw invalid_request)) (\<lambda>_.
          bind (AuthService_createSessionForUser L (app_env.truncate env) u ipAddress (or_none (rq_userAgent r))) (\<lambda>s.
          ret (plain_answer (passkey_session_json u s)))))))"

definition webauthn_login_route ::
    "zod \<Rightarrow> libs \<Rightarrow> webauthn_lib \<Rightarrow> webauthn_service \<Rightarrow> server_env \<Rightarrow> auth_request \<Rightarrow> route_answer io" where
  "webauthn_login_route Z L P W env r =
     public_endpoint (webauthnAuthenticationVerifySchema Z) (webauthn_login_handler L P W env r) (web_request.truncate r)"

definition mfa_enroll_route :: "libs \<Rightarrow> auth_request \<Rightarrow> route_answer io" where
  "mfa_enroll_route L r = signed_in_endpoint L emptyRequestSchema (\<lambda>_ auth.
     bind (MfaService_enrollMfa (fst auth)) (\<lambda>(factorId, secret).
     ret (plain_answer (JObj [(''factorId'', juuid factorId), (''secret'', JStr secret)])))) r"

definition codes_json :: "string list \<Rightarrow> json" where
  "codes_json codes = JArr (map JStr codes)"

definition mfa_verify_route :: "nat \<Rightarrow> zod \<Rightarrow> libs \<Rightarrow> server_env \<Rightarrow> auth_request \<Rightarrow> route_answer io" where
  "mfa_verify_route fuel Z L env r = signed_in_endpoint L (mfaVerifyRequestSchema Z) (\<lambda>(factorId, code) auth.
     bind (MfaService_verifyMfa fuel L (app_env.truncate env) (fst auth) factorId code True) (\<lambda>codes.
     ret (plain_answer (JObj [(''status'', JStr ''verified''), (''recoveryCodes'', codes_json codes)])))) r"

definition webauthn_register_options_route ::
    "libs \<Rightarrow> webauthn_lib \<Rightarrow> webauthn_service \<Rightarrow> auth_request \<Rightarrow> route_answer io" where
  "webauthn_register_options_route L P W r = signed_in_endpoint L emptyRequestSchema (\<lambda>_ auth.
     bind (UserService_getMe (fst auth)) (\<lambda>m.
     if me_email m = [] then throw (ApiError 400 ''email_not_found'' ''User email not found'')
     else bind (generateRegistrationOptions P W (fst auth) (me_email m)) (\<lambda>options. ret (plain_answer options)))) r"

definition webauthn_register_route ::
    "nat \<Rightarrow> libs \<Rightarrow> webauthn_lib \<Rightarrow> webauthn_service \<Rightarrow> server_env \<Rightarrow> auth_request \<Rightarrow> route_answer io" where
  "webauthn_register_route fuel L P W env r = signed_in_endpoint L webauthnRegistrationVerifySchema (\<lambda>(name, response) auth.
     bind (verifyRegistrationResponse P W (fst auth) (or_null response) name) (\<lambda>_.
     bind (generateCodesIfMissing fuel L (app_env.truncate env) (fst auth)) (\<lambda>codes.
     ret (plain_answer (JObj ((''success'', JBool True) #
       (if codes \<noteq> [] then [(''recoveryCodes'', codes_json codes)] else []))))))) r"

definition regenerate_handler ::
    "nat \<Rightarrow> libs \<Rightarrow> rbac_service option \<Rightarrow> server_env \<Rightarrow> reauth_payload \<Rightarrow> uuid \<times> uuid \<Rightarrow> route_answer io" where
  "regenerate_handler fuel L S env p auth =
     (let hasPassword = truthy (rp_currentPassword p);
          hasMfa = truthy (rp_mfaCode p) \<and> rp_mfaFactorId p \<noteq> None in
      if \<not> hasPassword \<and> \<not> hasMfa
      then throw (ApiError 400 ''reauth_required'' ''Password or MFA reauthentication is required'')
      else
        bind (whenever hasPassword (UserService_verifyCurrentPassword L (fst auth) (the (rp_currentPassword p)))) (\<lambda>_.
        bind (if hasMfa
              then MfaService_verifyMfa fuel L (app_env.truncate env) (fst auth) (the (rp_mfaFactorId p)) (the (rp_mfaCode p)) False
              else ret []) (\<lambda>_.
        bind (regenerateCodes fuel L (app_env.truncate env) (fst auth)) (\<lambda>(batchId, codes).
        bind (SessionService_revokeAllSessions S (fst auth)) (\<lambda>_.
        ret (signed_out_answer env (JObj [(''batchId'', juuid batchId), (''recoveryCodes'', codes_json codes)])))))))"

definition regenerate_codes_route ::
    "nat \<Rightarrow> zod \<Rightarrow> libs \<Rightarrow> rbac_service option \<Rightarrow> server_env \<Rightarrow> auth_request \<Rightarrow> route_answer io" where
  "regenerate_codes_route fuel Z L S env r =
     signed_in_endpoint L (reauthRequestSchema Z) (regenerate_handler fuel L S env) r"

section \<open>Sessions\<close>

definition jtime :: "libs \<Rightarrow> time \<Rightarrow> json" where
  "jtime L t = JStr (iso_string L t)"

text \<open>A row as the query selects it, every column.\<close>

definition session_row_json :: "libs \<Rightarrow> session_row \<Rightarrow> json" where
  "session_row_json L s = JObj
     [(''id'', juuid (us_id s)), (''userId'', juuid (us_userId s)),
      (''accessTokenHash'', JStr (us_accessTokenHash s)), (''refreshTokenHash'', JStr (us_refreshTokenHash s)),
      (''ipAddress'', jstr_opt (us_ipAddress s)), (''userAgent'', jstr_opt (us_userAgent s)),
      (''expiresAt'', jtime L (us_expiresAt s)), (''refreshExpiresAt'', jtime L (us_refreshExpiresAt s)),
      (''revokedAt'', (case us_revokedAt s of None \<Rightarrow> JNull | Some t \<Rightarrow> jtime L t)),
      (''lastSeenAt'', jtime L (us_lastSeenAt s)), (''createdAt'', jtime L (us_createdAt s))]"

definition sessions_route :: "libs \<Rightarrow> auth_request \<Rightarrow> route_answer io" where
  "sessions_route L r = signed_in_endpoint L emptyRequestSchema (\<lambda>_ auth.
     bind (read_db (\<lambda>d. findAllByUserId d (fst auth))) (\<lambda>sessions.
     ret (plain_answer (JObj [(''sessions'', JArr (map (session_row_json L) sessions))])))) r"

definition session_revoke_route :: "zod \<Rightarrow> libs \<Rightarrow> rbac_service option \<Rightarrow> auth_request \<Rightarrow> route_answer io" where
  "session_revoke_route Z L S r = signed_in_endpoint L (revokeSessionRequestSchema Z) (\<lambda>sessionId auth.
     bind (SessionService_revokeSession S (fst auth) sessionId) (\<lambda>_.
     ret (plain_answer (JObj [(''status'', JStr ''revoked''), (''sessionId'', juuid sessionId)])))) r"

definition session_revoke_all_route :: "libs \<Rightarrow> rbac_service option \<Rightarrow> auth_request \<Rightarrow> route_answer io" where
  "session_revoke_all_route L S r = signed_in_endpoint L emptyRequestSchema (\<lambda>_ auth.
     bind (SessionService_revokeAllSessions S (fst auth)) (\<lambda>_. ret (plain_answer (status_body ''revoked_all'')))) r"

section \<open>Permissions\<close>

text \<open>A subject that is not the text of a UUID is refused by the database.\<close>

definition resolveSubject :: "zod \<Rightarrow> rbac_service \<Rightarrow> uuid \<Rightarrow> string option \<Rightarrow> uuid io" where
  "resolveSubject Z S actorUserId subject =
     (if \<not> truthy subject \<or> subject = Some (uuid_text actorUserId) then ret actorUserId
      else
        bind (RBACService_authorizationCheck S \<lparr>aq_userId = actorUserId, aq_action = ''manage'', aq_resource = ''admin'',
          aq_context = no_context\<rparr>) (\<lambda>adminCheck.
        if \<not> isAllowed adminCheck then throw (ApiError 403 ''forbidden'' ''Admin privilege is required'')
        else case zod_uuid Z (the subject) of None \<Rightarrow> throw (DbError ''22P02'') | Some u \<Rightarrow> ret u))"

definition authorization_check_route :: "zod \<Rightarrow> libs \<Rightarrow> rbac_service \<Rightarrow> auth_request \<Rightarrow> json io" where
  "authorization_check_route Z L S r = signed_in_endpoint L (authCheckRequestSchema Z) (\<lambda>p auth.
     bind (resolveSubject Z S (fst auth) (cp_subject p)) (\<lambda>userId.
     RBACService_authorizationCheck S
       \<lparr>aq_userId = userId, aq_action = cp_action p, aq_resource = cp_resource p, aq_context = cp_context p\<rparr>)) r"

definition entitlement_check_route :: "zod \<Rightarrow> libs \<Rightarrow> rbac_service \<Rightarrow> auth_request \<Rightarrow> json io" where
  "entitlement_check_route Z L S r = signed_in_endpoint L (entitlementCheckRequestSchema Z) (\<lambda>p auth.
     RBACService_entitlementCheck S
       \<lparr>eq_userId = fst auth, eq_key = ep_key p, eq_context = ep_context p, eq_quantity = ep_quantity p\<rparr>) r"

definition permissions_json :: "uuid \<Rightarrow> string list \<Rightarrow> (string \<times> entitlement_value) list \<Rightarrow> json" where
  "permissions_json userId perms ents = JObj
     [(''userId'', juuid userId), (''permissions'', JArr (map JStr perms)),
      (''entitlements'', JObj (map (\<lambda>(k, v). (k, json_of_entitlement v)) ents))]"

definition my_permissions_route :: "libs \<Rightarrow> auth_request \<Rightarrow> route_answer io" where
  "my_permissions_route L r = signed_in_endpoint L emptyRequestSchema (\<lambda>_ auth.
     bind (read_db (\<lambda>d. getEffectivePermissions d (fst auth) no_context)) (\<lambda>perms.
     bind now (\<lambda>t.
     bind (read_db (\<lambda>d. RBACService_getAuthorizationSnapshot d t (fst auth) no_context)) (\<lambda>snapshot.
     ret (plain_answer (permissions_json (fst auth) perms (sn_entitlements snapshot))))))) r"

end
