(* ===== verification/AdminRoutes.thy ===== *)
theory AdminRoutes
  imports AccountRoutes KeyStore
begin

text \<open>
  The endpoints of administrators: modules/config/config.routes.ts, modules/keys/keys.routes.ts,
  modules/oauth-clients/oauth-client.routes.ts, the access snapshot of
  modules/rbac/governance.routes.ts, and the schemas of shared/src/schemas/admin.ts. Where the answer
  is the value of a service it stays that value.
\<close>

abbreviation bind :: "('w, 'a) act \<Rightarrow> ('a \<Rightarrow> ('w, 'b) act) \<Rightarrow> ('w, 'b) act" where
  "bind \<equiv> Prelude.bind"

section \<open>Schemas\<close>

text \<open>
  \<open>providerEnabled\<close>: a boolean, a text or texts of a form, the choices in order.
\<close>

definition switched_on :: "json \<Rightarrow> bool" where
  "switched_on v \<longleftrightarrow> v = JStr ''true'' \<or> v = JStr ''on''"

definition is_text :: "json \<Rightarrow> bool" where
  "is_text v = (case v of JStr _ \<Rightarrow> True | _ \<Rightarrow> False)"

definition provider_enabled :: "json option \<Rightarrow> bool option" where
  "provider_enabled v = (case v of
     Some (JBool b) \<Rightarrow> Some b
   | Some (JStr s) \<Rightarrow> Some (switched_on (JStr s))
   | Some (JArr xs) \<Rightarrow> if list_all is_text xs then Some (list_ex switched_on xs) else None
   | _ \<Rightarrow> None)"

definition socialLoginUpdateSchema :: "json \<Rightarrow> social_config option" where
  "socialLoginUpdateSchema = object_with (\<lambda>f. do {
     enabled \<leftarrow> provider_enabled (f ''providerEnabled'');
     clientId \<leftarrow> text_field (trimmed_text (sized 0 255)) (f ''clientId'');
     clientSecret \<leftarrow> text_field (trimmed_text (sized 0 255)) (f ''clientSecret'');
     Some \<lparr>sg_providerEnabled = enabled, sg_clientId = clientId, sg_clientSecret = clientSecret\<rparr>})"

text \<open>
  A transformation of the notification settings parses its values again with \<open>parse\<close>, which throws
  a \<open>ZodError\<close> where a schema reports issues.
\<close>

datatype 'a parsed = Issues | Thrown | Parsed 'a

definition csv_texts :: "string \<Rightarrow> string list" where
  "csv_texts s = filter (\<lambda>v. v \<noteq> []) (map js_trim (js_split (CHR '','') s))"

definition texts_of :: "(string \<Rightarrow> string option) \<Rightarrow> json option \<Rightarrow> string list option" where
  "texts_of f v = (case v of
     Some (JArr xs) \<Rightarrow> those (map (\<lambda>x. text_field f (Some x)) xs)
   | Some (JStr s) \<Rightarrow> Some (csv_texts s)
   | _ \<Rightarrow> None)"

definition parsed_texts :: "(string \<Rightarrow> string option) \<Rightarrow> nat \<Rightarrow> nat \<Rightarrow> json option \<Rightarrow> string list parsed" where
  "parsed_texts f least most v = (case texts_of f v of
     None \<Rightarrow> Issues
   | Some xs \<Rightarrow> (case those (map f xs) of
         None \<Rightarrow> Thrown
       | Some ys \<Rightarrow> (case those (map f ys) of
             None \<Rightarrow> Issues
           | Some zs \<Rightarrow> if least \<le> length zs \<and> length zs \<le> most then Parsed zs else Issues)))"

definition alert_level :: "string \<Rightarrow> string option" where
  "alert_level s = (if s = ''Critical'' \<or> s = ''Warning'' then Some s else None)"

definition notificationUpdateSchema :: "zod \<Rightarrow> json \<Rightarrow> notification_config parsed" where
  "notificationUpdateSchema Z j = (case j of
     JObj _ \<Rightarrow> (case parsed_texts (normalizedEmail Z) 0 50 (json_prop j ''notificationRecipients'') of
         Thrown \<Rightarrow> Thrown
       | recipients \<Rightarrow> (case parsed_texts alert_level 1 2 (json_prop j ''alertLevels'') of
             Thrown \<Rightarrow> Thrown
           | Issues \<Rightarrow> Issues
           | Parsed levels \<Rightarrow> (case recipients of
                 Parsed rs \<Rightarrow> Parsed \<lparr>no_recipients = rs, no_alertLevels = levels\<rparr>
               | _ \<Rightarrow> Issues)))
   | _ \<Rightarrow> Issues)"

record template_payload =
  tp_templateKey :: string
  tp_subject :: string
  tp_body :: string

definition emailTemplateUpdateSchema :: "json \<Rightarrow> template_payload option" where
  "emailTemplateUpdateSchema = object_with (\<lambda>f. do {
     key \<leftarrow> text_field (trimmed_text (sized 1 128)) (f ''templateKey'');
     subject \<leftarrow> text_field (trimmed_text (sized 1 200)) (f ''subject'');
     body \<leftarrow> text_field (sized 1 20000) (f ''body'');
     Some \<lparr>tp_templateKey = key, tp_subject = subject, tp_body = body\<rparr>})"

text \<open>Clients. The pattern of a URL is the parameter \<open>url\<close>.\<close>

definition client_id_char :: "char \<Rightarrow> bool" where
  "client_id_char c \<longleftrightarrow> (let n = of_char c :: nat in
     65 \<le> n \<and> n \<le> 90 \<or> 97 \<le> n \<and> n \<le> 122 \<or> 48 \<le> n \<and> n \<le> 57 \<or> c \<in> set ''._:-'')"

definition client_id_text :: "string \<Rightarrow> string option" where
  "client_id_text = trimmed_text (\<lambda>s. if list_all client_id_char s then sized 3 128 s else None)"

definition one_of_texts :: "string list \<Rightarrow> string \<Rightarrow> string option" where
  "one_of_texts xs s = (if s \<in> set xs then Some s else None)"

definition with_default :: "'a \<Rightarrow> (json option \<Rightarrow> 'a option) \<Rightarrow> json option \<Rightarrow> 'a option" where
  "with_default x f v = (case v of None \<Rightarrow> Some x | Some _ \<Rightarrow> f v)"

definition text_list :: "nat \<Rightarrow> (string \<Rightarrow> string option) \<Rightarrow> json option \<Rightarrow> string list option" where
  "text_list most f v = (case v of
     Some (JArr xs) \<Rightarrow> if length xs \<le> most then those (map (\<lambda>x. text_field f (Some x)) xs) else None
   | _ \<Rightarrow> None)"

definition redirect_uris :: "(string \<Rightarrow> bool) \<Rightarrow> json option \<Rightarrow> string list option" where
  "redirect_uris url = text_list 50 (\<lambda>s. if url s then Some s else None)"

definition allowed_scopes :: "json option \<Rightarrow> string list option" where
  "allowed_scopes = text_list 100 (trimmed_text (sized 1 128))"

definition oauthClientCreateSchema :: "(string \<Rightarrow> bool) \<Rightarrow> json \<Rightarrow> (string option \<times> client_input) option" where
  "oauthClientCreateSchema url = object_with (\<lambda>f. do {
     clientId \<leftarrow> optional_field (text_field client_id_text) (f ''clientId'');
     name \<leftarrow> text_field (trimmed_text (sized 1 160)) (f ''name'');
     clientType \<leftarrow> with_default ''confidential'' (text_field (one_of_texts [''confidential'', ''public''])) (f ''clientType'');
     authMethod \<leftarrow> with_default ''client_secret_basic'' (text_field (one_of_texts [''client_secret_basic'']))
       (f ''tokenEndpointAuthMethod'');
     redirectUris \<leftarrow> with_default [] (redirect_uris url) (f ''redirectUris'');
     scopes \<leftarrow> with_default [] allowed_scopes (f ''allowedScopes'');
     accessTtl \<leftarrow> optional_field positive_number (f ''accessTokenTtlSeconds'');
     refreshTtl \<leftarrow> optional_field positive_number (f ''refreshTokenTtlSeconds'');
     Some (clientId, \<lparr>ci_clientId = [], ci_name = name, ci_clientType = clientType, ci_tokenEndpointAuthMethod = authMethod,
       ci_accessTokenTtlSeconds = accessTtl, ci_refreshTokenTtlSeconds = refreshTtl, ci_redirectUris = redirectUris,
       ci_allowedScopes = scopes\<rparr>)})"

definition nullable_number :: "json option \<Rightarrow> int option option" where
  "nullable_number v = (if v = Some JNull then Some None else map_option Some (positive_number v))"

definition update_fields :: "string list" where
  "update_fields = [''name'', ''status'', ''redirectUris'', ''allowedScopes'', ''accessTokenTtlSeconds'', ''refreshTokenTtlSeconds'']"

definition oauthClientUpdateSchema :: "(string \<Rightarrow> bool) \<Rightarrow> json \<Rightarrow> client_patch option" where
  "oauthClientUpdateSchema url = object_with (\<lambda>f. do {
     name \<leftarrow> optional_field (text_field (trimmed_text (sized 1 160))) (f ''name'');
     status \<leftarrow> optional_field (text_field (one_of_texts [''active'', ''disabled''])) (f ''status'');
     redirectUris \<leftarrow> optional_field (redirect_uris url) (f ''redirectUris'');
     scopes \<leftarrow> optional_field allowed_scopes (f ''allowedScopes'');
     accessTtl \<leftarrow> optional_field nullable_number (f ''accessTokenTtlSeconds'');
     refreshTtl \<leftarrow> optional_field nullable_number (f ''refreshTokenTtlSeconds'');
     if list_all (\<lambda>k. f k = None) update_fields then None
     else Some \<lparr>cp_name = name, cp_status = status, cp_accessTokenTtlSeconds = accessTtl,
       cp_refreshTokenTtlSeconds = refreshTtl, cp_redirectUris = redirectUris, cp_allowedScopes = scopes\<rparr>})"

definition grace_days :: "json option \<Rightarrow> int option" where
  "grace_days v = Option.bind (coerced_number (or_null v)) (\<lambda>n. if 0 \<le> n \<and> n \<le> 90 then Some n else None)"

definition oauthClientRotateSecretSchema :: "json \<Rightarrow> int option" where
  "oauthClientRotateSecretSchema = object_with (\<lambda>f. with_default 7 grace_days (f ''gracePeriodDays''))"

section \<open>Guard\<close>

record admin_http = auth_request +
  rq_path :: string
  rq_query :: "string \<Rightarrow> string option"

definition admin_endpoint ::
    "libs \<Rightarrow> rbac_service \<Rightarrow> server_env \<Rightarrow> string \<Rightarrow> string \<Rightarrow> (json \<Rightarrow> 'p option) \<Rightarrow> ('p \<Rightarrow> uuid \<Rightarrow> 'a io) \<Rightarrow> admin_http \<Rightarrow> 'a io" where
  "admin_endpoint L S env resource action schema handler r = signed_in_endpoint L schema (\<lambda>p auth.
     bind (assertAdminPermission S (app_env.truncate env)
       \<lparr>ai_userId = fst auth, ai_resource = resource, ai_action = action, ai_path = Some (rq_path r),
        ai_method = Some (wr_method r), ai_message = None\<rparr>) (\<lambda>_.
     handler p (fst auth))) (auth_request.truncate r)"

section \<open>Settings\<close>

record all_settings =
  as_google :: social_config
  as_notifications :: notification_config
  as_signupVerify :: email_template_config
  as_passwordReset :: email_template_config

definition configs_route :: "libs \<Rightarrow> rbac_service \<Rightarrow> server_env \<Rightarrow> admin_http \<Rightarrow> all_settings io" where
  "configs_route L S env = admin_endpoint L S env ''admin.config'' ''read'' emptyRequestSchema (\<lambda>_ _.
     read_db (\<lambda>d. \<lparr>as_google = getSocialLoginConfig d ''google'', as_notifications = getNotificationConfig d,
       as_signupVerify = getEmailTemplateConfig d ''signup_verify'',
       as_passwordReset = getEmailTemplateConfig d ''password_reset''\<rparr>))"

definition config_updated :: "uuid \<Rightarrow> string \<Rightarrow> json io" where
  "config_updated actor key =
     bind (createSecurityEvent ''admin.config.updated'' (Some actor) (JObj [(''key'', JStr key)])) (\<lambda>_.
     ret (status_body ''ok''))"

definition social_login_route :: "libs \<Rightarrow> rbac_service \<Rightarrow> server_env \<Rightarrow> admin_http \<Rightarrow> json io" where
  "social_login_route L S env = admin_endpoint L S env ''admin.config'' ''write'' socialLoginUpdateSchema (\<lambda>p actor.
     bind (updateSocialLoginConfig ''google'' p) (\<lambda>_. config_updated actor ''social_login.google''))"

text \<open>
  The schema of the notifications can throw; it runs after the authentication and before the
  handler. What is thrown is no \<open>ApiError\<close>.
\<close>

definition zod_error :: err where "zod_error = PlainError ''ZodError''"

definition unless_issues :: "'a parsed \<Rightarrow> 'a parsed option" where
  "unless_issues v = (case v of Issues \<Rightarrow> None | x \<Rightarrow> Some x)"

definition notifications_route :: "zod \<Rightarrow> libs \<Rightarrow> rbac_service \<Rightarrow> server_env \<Rightarrow> admin_http \<Rightarrow> json io" where
  "notifications_route Z L S env r =
     signed_in_endpoint L (\<lambda>j. unless_issues (notificationUpdateSchema Z j)) (\<lambda>v auth.
       case v of
         Parsed p \<Rightarrow>
           bind (assertAdminPermission S (app_env.truncate env)
             \<lparr>ai_userId = fst auth, ai_resource = ''admin.config'', ai_action = ''write'', ai_path = Some (rq_path r),
              ai_method = Some (wr_method r), ai_message = None\<rparr>) (\<lambda>_.
           bind (updateNotificationConfig p) (\<lambda>_. config_updated (fst auth) ''notifications''))
       | _ \<Rightarrow> throw zod_error) (auth_request.truncate r)"

definition email_template_route :: "libs \<Rightarrow> rbac_service \<Rightarrow> server_env \<Rightarrow> admin_http \<Rightarrow> json io" where
  "email_template_route L S env = admin_endpoint L S env ''admin.config'' ''write'' emailTemplateUpdateSchema (\<lambda>p actor.
     bind (updateEmailTemplateConfig (tp_templateKey p) \<lparr>et_subject = tp_subject p, et_body = tp_body p\<rparr>) (\<lambda>_.
     config_updated actor (''email_templates.'' @ tp_templateKey p)))"

section \<open>Keys\<close>

text \<open>The columns the query selects, without the key material.\<close>

record key_view =
  kv_kid :: uuid
  kv_alg :: string
  kv_isActive :: bool
  kv_rotatedFromKid :: "uuid option"
  kv_rotationReason :: "string option"
  kv_createdAt :: time
  kv_expiresAt :: "time option"
  kv_revokedAt :: "time option"
  kv_state :: key_state

definition key_view_of :: "key_row \<times> key_state \<Rightarrow> key_view" where
  "key_view_of = (\<lambda>(k, state). \<lparr>kv_kid = sk_kid k, kv_alg = sk_alg k, kv_isActive = sk_isActive k,
     kv_rotatedFromKid = sk_rotatedFromKid k, kv_rotationReason = sk_rotationReason k, kv_createdAt = sk_createdAt k,
     kv_expiresAt = sk_expiresAt k, kv_revokedAt = sk_revokedAt k, kv_state = state\<rparr>)"

definition keys_route :: "libs \<Rightarrow> rbac_service \<Rightarrow> server_env \<Rightarrow> admin_http \<Rightarrow> key_view list io" where
  "keys_route L S env = admin_endpoint L S env ''admin.keys'' ''read'' emptyRequestSchema (\<lambda>_ _.
     read_db (\<lambda>d. map key_view_of (listKeys d)))"

definition uuid_or_null :: "uuid option \<Rightarrow> json" where
  "uuid_or_null u = (case u of None \<Rightarrow> JNull | Some i \<Rightarrow> juuid i)"

definition rotation_payload :: "rotation \<Rightarrow> json" where
  "rotation_payload v = JObj [(''rotated'', JBool (kr_rotated v)), (''activeKid'', juuid (kr_activeKid v)),
     (''previousKid'', uuid_or_null (kr_previousKid v))]"

definition rotation_json :: "rotation \<Rightarrow> json" where
  "rotation_json v = JObj [(''status'', JStr (if kr_rotated v then ''rotated'' else ''noop'')),
     (''activeKid'', juuid (kr_activeKid v)), (''previousKid'', uuid_or_null (kr_previousKid v)),
     (''reason'', JStr (kr_reason v))]"

definition key_rotate_route ::
    "key_options \<Rightarrow> key_libs \<Rightarrow> libs \<Rightarrow> rbac_service \<Rightarrow> server_env \<Rightarrow> admin_http \<Rightarrow> json io" where
  "key_rotate_route opts K L S env = admin_endpoint L S env ''admin.keys'' ''rotate'' emptyRequestSchema (\<lambda>_ actor.
     bind (rotateManual opts K (Some actor)) (\<lambda>v.
     bind (createSecurityEvent ''key.rotation.manual'' (Some actor) (rotation_payload v)) (\<lambda>_.
     ret (rotation_json v))))"

definition key_emergency_route ::
    "key_options \<Rightarrow> key_libs \<Rightarrow> libs \<Rightarrow> rbac_service \<Rightarrow> server_env \<Rightarrow> admin_http \<Rightarrow> json io" where
  "key_emergency_route opts K L S env = admin_endpoint L S env ''admin.keys'' ''rotate'' emptyRequestSchema (\<lambda>_ actor.
     bind (rotateEmergency opts K (Some actor)) (\<lambda>v.
     bind (case kr_previousKid v of
             None \<Rightarrow> ret ()
           | Some kid \<Rightarrow> createSecurityEvent ''key.revoked'' (Some actor)
               (JObj [(''kid'', juuid kid), (''reason'', JStr ''emergency_rotation'')])) (\<lambda>_.
     bind (createSecurityEvent ''key.rotation.emergency'' (Some actor) (rotation_payload v)) (\<lambda>_.
     ret (rotation_json v)))))"

section \<open>Clients\<close>

text \<open>\<open>clientId\<close> is the parameter of the path.\<close>

definition client_required :: err where
  "client_required = ApiError 400 ''invalid_request'' ''clientId is required''"

definition for_client :: "string \<Rightarrow> 'a io \<Rightarrow> 'a io" where
  "for_client clientId m = (if clientId = [] then throw client_required else m)"

definition clients_route :: "libs \<Rightarrow> rbac_service \<Rightarrow> server_env \<Rightarrow> admin_http \<Rightarrow> client_view list io" where
  "clients_route L S env = admin_endpoint L S env ''admin.oauth_client'' ''read'' emptyRequestSchema (\<lambda>_ _. read_db listClients)"

definition client_create_route ::
    "(string \<Rightarrow> bool) \<Rightarrow> libs \<Rightarrow> rbac_service \<Rightarrow> server_env \<Rightarrow> admin_http \<Rightarrow> created_client io" where
  "client_create_route url L S env =
     admin_endpoint L S env ''admin.oauth_client'' ''write'' (oauthClientCreateSchema url) (\<lambda>(clientId, input) actor.
       OAuthClientService_createClient L actor clientId input)"

definition client_update_route ::
    "(string \<Rightarrow> bool) \<Rightarrow> string \<Rightarrow> libs \<Rightarrow> rbac_service \<Rightarrow> server_env \<Rightarrow> admin_http \<Rightarrow> string io" where
  "client_update_route url clientId L S env =
     admin_endpoint L S env ''admin.oauth_client'' ''write'' (oauthClientUpdateSchema url) (\<lambda>patch actor.
       for_client clientId (OAuthClientService_updateClient actor clientId patch))"

definition client_rotate_route ::
    "string \<Rightarrow> libs \<Rightarrow> rbac_service \<Rightarrow> server_env \<Rightarrow> admin_http \<Rightarrow> rotated_client io" where
  "client_rotate_route clientId L S env =
     admin_endpoint L S env ''admin.oauth_client'' ''write'' oauthClientRotateSecretSchema (\<lambda>gracePeriodDays actor.
       for_client clientId (OAuthClientService_rotateSecret L actor clientId gracePeriodDays))"

definition status_patch :: "string \<Rightarrow> client_patch" where
  "status_patch status = \<lparr>cp_name = None, cp_status = Some status, cp_accessTokenTtlSeconds = None,
     cp_refreshTokenTtlSeconds = None, cp_redirectUris = None, cp_allowedScopes = None\<rparr>"

text \<open>The endpoints \<open>disable\<close> and \<open>enable\<close> set \<open>disabled\<close> and \<open>active\<close>.\<close>

definition client_status_route ::
    "string \<Rightarrow> string \<Rightarrow> libs \<Rightarrow> rbac_service \<Rightarrow> server_env \<Rightarrow> admin_http \<Rightarrow> string io" where
  "client_status_route status clientId L S env =
     admin_endpoint L S env ''admin.oauth_client'' ''write'' emptyRequestSchema (\<lambda>_ actor.
       for_client clientId (OAuthClientService_updateClient actor clientId (status_patch status)))"

section \<open>Access snapshot\<close>

text \<open>A limit is a whole number here; the query takes ten joined rows per user asked for.\<close>

record access_snapshot =
  xs_generatedAt :: string
  xs_count :: nat
  xs_users :: "admin_row list"

definition snapshot_limit :: "string option \<Rightarrow> nat option" where
  "snapshot_limit text = Option.bind (js_integer (case text of None \<Rightarrow> ''100'' | Some s \<Rightarrow> s)) (\<lambda>n.
     if n < 1 \<or> 1000 < n then None else Some (nat n))"

definition access_snapshot_route :: "libs \<Rightarrow> rbac_service \<Rightarrow> server_env \<Rightarrow> admin_http \<Rightarrow> access_snapshot io" where
  "access_snapshot_route L S env r = admin_endpoint L S env ''admin.audit'' ''read'' emptyRequestSchema (\<lambda>_ _.
     case snapshot_limit (rq_query r ''limit'') of
       None \<Rightarrow> throw (ApiError 400 ''validation_error'' ''limit must be a number between 1 and 1000'')
     | Some rawLimit \<Rightarrow>
         bind (read_db (\<lambda>d. getAdminAccessSnapshot d rawLimit)) (\<lambda>users.
         bind now (\<lambda>t.
         ret \<lparr>xs_generatedAt = iso_string L t, xs_count = length users, xs_users = users\<rparr>))) r"

end
