(* ===== verification/AuditRoutes.thy ===== *)
theory AuditRoutes
  imports AdminRoutes SdkEncoding AuditTrail
begin

text \<open>
  modules/audit/audit.routes.ts and modules/audit/audit-export.service.ts: the listings with their
  cursors, the integrity check and the export.
\<close>

abbreviation bind :: "('w, 'a) act \<Rightarrow> ('a \<Rightarrow> ('w, 'b) act) \<Rightarrow> ('w, 'b) act" where
  "bind \<equiv> Prelude.bind"

section \<open>Queries\<close>

text \<open>
  What the runtime reads from texts: \<open>js_date v\<close> is \<open>new Date(v)\<close> when it is a date, \<open>js_floor s\<close>
  is \<open>Number(s)\<close> rounded down when it is finite, \<open>datetime_text\<close> is the pattern of zod, and
  \<open>id_position s\<close> is the first identifier whose text is not before \<open>s\<close>, so that an identifier's text
  is before \<open>s\<close> just when the identifier is before \<open>id_position s\<close>.
\<close>

record text_reader =
  js_date :: "json \<Rightarrow> time option"
  js_floor :: "string \<Rightarrow> int option"
  datetime_text :: "string \<Rightarrow> bool"
  id_position :: "string \<Rightarrow> uuid"

definition validation_error :: "string \<Rightarrow> err" where
  "validation_error m = ApiError 400 ''validation_error'' m"

definition parseDate :: "text_reader \<Rightarrow> string option \<Rightarrow> string \<Rightarrow> time option io" where
  "parseDate R v field =
     (if \<not> truthy v then ret None
      else case js_date R (JStr (the v)) of
        None \<Rightarrow> throw (validation_error (''Invalid '' @ field))
      | Some t \<Rightarrow> ret (Some t))"

definition cursor_of_json :: "text_reader \<Rightarrow> json \<Rightarrow> (time \<times> string) option" where
  "cursor_of_json R decoded = (case json_prop decoded ''createdAt'' of
     None \<Rightarrow> None
   | Some at \<Rightarrow> (case js_date R at of
         None \<Rightarrow> None
       | Some createdAt \<Rightarrow> (case json_prop decoded ''id'' of
             Some (JStr i) \<Rightarrow> Some (createdAt, i)
           | _ \<Rightarrow> None)))"

definition decodeCursor :: "text_reader \<Rightarrow> string option \<Rightarrow> (time \<times> string) option io" where
  "decodeCursor R v =
     (if \<not> truthy v then ret None
      else case Option.bind (decodeJson (the v)) (cursor_of_json R) of
        None \<Rightarrow> throw (validation_error ''Invalid cursor'')
      | Some c \<Rightarrow> ret (Some c))"

definition encodeCursor :: "libs \<Rightarrow> cursor option \<Rightarrow> string option" where
  "encodeCursor L v = map_option (\<lambda>(createdAt, i). base64Url (utf8_bytes (stringify
     (JObj [(''createdAt'', JStr (iso_string L createdAt)), (''id'', juuid i)])))) v"

text \<open>A text given for an identifier's column that is no UUID is refused by the database.\<close>

definition uuid_filter :: "zod \<Rightarrow> string option \<Rightarrow> uuid option io" where
  "uuid_filter Z v =
     (if \<not> truthy v then ret None
      else case zod_uuid Z (the v) of None \<Rightarrow> throw (DbError ''22P02'') | Some u \<Rightarrow> ret (Some u))"

definition asked_limit :: "text_reader \<Rightarrow> string option \<Rightarrow> int" where
  "asked_limit R v = (case v of None \<Rightarrow> 50 | Some s \<Rightarrow> (case js_floor R s of None \<Rightarrow> 50 | Some n \<Rightarrow> n))"

definition cursor_position :: "text_reader \<Rightarrow> (time \<times> string) option \<Rightarrow> cursor option" where
  "cursor_position R = map_option (\<lambda>(t, i). (t, id_position R i))"

section \<open>Listings\<close>

definition optional_id :: "uuid option \<Rightarrow> json" where
  "optional_id u = (case u of None \<Rightarrow> JNull | Some i \<Rightarrow> juuid i)"

definition audit_json :: "libs \<Rightarrow> audit_row \<Rightarrow> json" where
  "audit_json L r = JObj
     [(''id'', juuid (au_id r)), (''actorUserId'', optional_id (au_actorUserId r)), (''action'', JStr (au_action r)),
      (''resourceType'', JStr (au_resourceType r)), (''resourceId'', jstr_opt (au_resourceId r)),
      (''payload'', au_payload r), (''prevHash'', jstr_opt (au_prevHash r)), (''entryHash'', jstr_opt (au_entryHash r)),
      (''integrityVersion'', JNum (int (au_integrityVersion r))), (''createdAt'', JStr (iso_string L (au_createdAt r)))]"

definition event_json :: "libs \<Rightarrow> event_row \<Rightarrow> json" where
  "event_json L r = JObj
     [(''id'', juuid (se_id r)), (''userId'', optional_id (se_userId r)), (''eventType'', JStr (se_eventType r)),
      (''payload'', se_payload r), (''createdAt'', JStr (iso_string L (se_createdAt r)))]"

definition page_json :: "libs \<Rightarrow> string \<Rightarrow> json list \<Rightarrow> cursor option \<Rightarrow> json" where
  "page_json L field rows nextCursor =
     JObj [(field, JArr rows), (''nextCursor'', jstr_opt (encodeCursor L nextCursor))]"

definition audit_logs_route ::
    "text_reader \<Rightarrow> zod \<Rightarrow> libs \<Rightarrow> rbac_service \<Rightarrow> server_env \<Rightarrow> admin_http \<Rightarrow> json io" where
  "audit_logs_route R Z L S env r = admin_endpoint L S env ''admin.audit'' ''read'' emptyRequestSchema (\<lambda>_ _.
     let query = rq_query r in
     bind (parseDate R (query ''from'') ''from'') (\<lambda>from.
     bind (parseDate R (query ''to'') ''to'') (\<lambda>until.
     bind (decodeCursor R (query ''cursor'')) (\<lambda>cur.
     bind (uuid_filter Z (query ''actorUserId'')) (\<lambda>actor.
     bind (read_db (\<lambda>d. listAuditLogs d
       \<lparr>af_from = from, af_to = until, af_actorUserId = actor, af_action = query ''action'',
        af_resourceType = query ''resourceType'', af_resourceId = query ''resourceId''\<rparr>
       (asked_limit R (query ''limit'')) (cursor_position R cur))) (\<lambda>(items, nextCursor).
     ret (page_json L ''logs'' (map (audit_json L) items) nextCursor))))))) r"

definition security_events_route ::
    "text_reader \<Rightarrow> zod \<Rightarrow> libs \<Rightarrow> rbac_service \<Rightarrow> server_env \<Rightarrow> admin_http \<Rightarrow> json io" where
  "security_events_route R Z L S env r = admin_endpoint L S env ''admin.audit'' ''read'' emptyRequestSchema (\<lambda>_ _.
     let query = rq_query r in
     bind (parseDate R (query ''from'') ''from'') (\<lambda>from.
     bind (parseDate R (query ''to'') ''to'') (\<lambda>until.
     bind (decodeCursor R (query ''cursor'')) (\<lambda>cur.
     bind (uuid_filter Z (query ''userId'')) (\<lambda>userId.
     bind (read_db (\<lambda>d. listSecurityEvents d
       \<lparr>ef_from = from, ef_to = until, ef_userId = userId, ef_eventType = query ''eventType''\<rparr>
       (asked_limit R (query ''limit'')) (cursor_position R cur))) (\<lambda>(items, nextCursor).
     ret (page_json L ''events'' (map (event_json L) items) nextCursor))))))) r"

definition integrity_route ::
    "text_reader \<Rightarrow> libs \<Rightarrow> rbac_service \<Rightarrow> server_env \<Rightarrow> admin_http \<Rightarrow> integrity_report io" where
  "integrity_route R L S env r = admin_endpoint L S env ''admin.audit'' ''read'' emptyRequestSchema (\<lambda>_ _.
     bind (parseDate R (rq_query r ''from'') ''from'') (\<lambda>from.
     bind (parseDate R (rq_query r ''to'') ''to'') (\<lambda>until.
     read_db (\<lambda>d. verifyIntegrityRange L d from until)))) r"

section \<open>Export\<close>

definition EXPORT_PAGE_SIZE :: int where "EXPORT_PAGE_SIZE = 200"
definition EXPORT_MAX_RECORDS :: nat where "EXPORT_MAX_RECORDS = 10000"

text \<open>An export record: the two values it is sorted by, and its fields.\<close>

record export_record =
  xr_createdAt :: string
  xr_id :: string
  xr_fields :: json

definition audit_record :: "libs \<Rightarrow> audit_row \<Rightarrow> export_record" where
  "audit_record L r = \<lparr>xr_createdAt = iso_string L (au_createdAt r), xr_id = uuid_text (au_id r), xr_fields = JObj
     [(''kind'', JStr ''audit_log''), (''id'', juuid (au_id r)), (''createdAt'', JStr (iso_string L (au_createdAt r))),
      (''actorUserId'', optional_id (au_actorUserId r)), (''action'', JStr (au_action r)),
      (''resourceType'', JStr (au_resourceType r)), (''resourceId'', jstr_opt (au_resourceId r)),
      (''payload'', au_payload r), (''prevHash'', jstr_opt (au_prevHash r)), (''entryHash'', jstr_opt (au_entryHash r)),
      (''integrityVersion'', JNum (int (au_integrityVersion r)))]\<rparr>"

definition event_record :: "libs \<Rightarrow> event_row \<Rightarrow> export_record" where
  "event_record L r = \<lparr>xr_createdAt = iso_string L (se_createdAt r), xr_id = uuid_text (se_id r), xr_fields = JObj
     [(''kind'', JStr ''security_event''), (''id'', juuid (se_id r)), (''createdAt'', JStr (iso_string L (se_createdAt r))),
      (''userId'', optional_id (se_userId r)), (''eventType'', JStr (se_eventType r)), (''payload'', se_payload r)]\<rparr>"

text \<open>
  The loop of \<open>collectAuditLogs\<close> and \<open>collectSecurityEvents\<close>: a page that has a successor has rows,
  so every round adds records.
\<close>

function collect_pages ::
    "(cursor option \<Rightarrow> 'r list \<times> cursor option) \<Rightarrow> ('r \<Rightarrow> export_record) \<Rightarrow> cursor option \<Rightarrow> export_record list \<Rightarrow> export_record list" where
  "collect_pages list_page to_record cur records =
     (if length records < EXPORT_MAX_RECORDS
      then let (items, nextCursor) = list_page cur; records' = records @ map to_record items in
        if nextCursor = None \<or> items = [] then records' else collect_pages list_page to_record nextCursor records'
      else records)"
  by pat_completeness auto

termination collect_pages
  by (relation "measure (\<lambda>(_, _, _, records). EXPORT_MAX_RECORDS - length records)") (auto intro!: diff_less_mono2)

declare collect_pages.simps [simp del]

definition collectAuditLogs :: "libs \<Rightarrow> database \<Rightarrow> time option \<Rightarrow> time option \<Rightarrow> export_record list" where
  "collectAuditLogs L d from until = collect_pages
     (listAuditLogs d \<lparr>af_from = from, af_to = until, af_actorUserId = None, af_action = None, af_resourceType = None,
        af_resourceId = None\<rparr> EXPORT_PAGE_SIZE) (audit_record L) None []"

definition collectSecurityEvents :: "libs \<Rightarrow> database \<Rightarrow> time option \<Rightarrow> time option \<Rightarrow> export_record list" where
  "collectSecurityEvents L d from until = collect_pages
     (listSecurityEvents d \<lparr>ef_from = from, ef_to = until, ef_userId = None, ef_eventType = None\<rparr> EXPORT_PAGE_SIZE)
     (event_record L) None []"

text \<open>The comparator of the sort, and the stable sort with it.\<close>

definition record_before :: "libs \<Rightarrow> export_record \<Rightarrow> export_record \<Rightarrow> bool" where
  "record_before L l r =
     (if xr_createdAt l \<noteq> xr_createdAt r then collate L (xr_createdAt l) (xr_createdAt r)
      else collate L (xr_id l) (xr_id r))"

fun insert_record :: "libs \<Rightarrow> export_record \<Rightarrow> export_record list \<Rightarrow> export_record list" where
  "insert_record L x [] = [x]"
| "insert_record L x (y # ys) = (if record_before L x y then x # y # ys else y # insert_record L x ys)"

definition sort_records :: "libs \<Rightarrow> export_record list \<Rightarrow> export_record list" where
  "sort_records L xs = foldr (insert_record L) xs []"

definition toJsonLine :: "export_record \<Rightarrow> string" where
  "toJsonLine r = stringify (xr_fields r) @ [CHR 0x0A]"

datatype export_kind = AuditLogsKind | SecurityEventsKind | BothKinds

record audit_export =
  ax_exportId :: uuid
  ax_recordCount :: nat
  ax_sha256 :: string
  ax_generatedAt :: string
  ax_data :: string
  ax_truncated :: bool

definition export_records :: "libs \<Rightarrow> database \<Rightarrow> time option \<Rightarrow> time option \<Rightarrow> export_kind \<Rightarrow> export_record list" where
  "export_records L d from until kind = sort_records L
     ((if kind = AuditLogsKind \<or> kind = BothKinds then collectAuditLogs L d from until else []) @
      (if kind = SecurityEventsKind \<or> kind = BothKinds then collectSecurityEvents L d from until else []))"

definition createExport :: "libs \<Rightarrow> time option \<Rightarrow> time option \<Rightarrow> export_kind \<Rightarrow> audit_export io" where
  "createExport L from until kind =
     bind (read_db (\<lambda>d. export_records L d from until kind)) (\<lambda>records.
     let jsonl = concat (map toJsonLine records) in
     bind draw_uuid (\<lambda>exportId.
     bind now (\<lambda>t.
     ret \<lparr>ax_exportId = exportId, ax_recordCount = length records, ax_sha256 = sha256 L jsonl,
          ax_generatedAt = iso_string L t, ax_data = jsonl, ax_truncated = EXPORT_MAX_RECORDS \<le> length records\<rparr>)))"

definition kind_text :: "export_kind \<Rightarrow> string" where
  "kind_text k = (case k of AuditLogsKind \<Rightarrow> ''audit_logs'' | SecurityEventsKind \<Rightarrow> ''security_events'' | BothKinds \<Rightarrow> ''both'')"

definition export_kind_of :: "string \<Rightarrow> export_kind option" where
  "export_kind_of s = find (\<lambda>k. kind_text k = s) [AuditLogsKind, SecurityEventsKind, BothKinds]"

definition auditExportRequestSchema :: "text_reader \<Rightarrow> json \<Rightarrow> (string option \<times> string option \<times> export_kind) option" where
  "auditExportRequestSchema R = object_with (\<lambda>f. do {
     from \<leftarrow> optional_field (text_field (checked (datetime_text R))) (f ''from'');
     until \<leftarrow> optional_field (text_field (checked (datetime_text R))) (f ''to'');
     kind \<leftarrow> text_field export_kind_of (f ''kind'');
     _ \<leftarrow> with_default ''jsonl'' (text_field (one_of_texts [''jsonl''])) (f ''format'');
     Some (from, until, kind)})"

definition export_payload :: "export_kind \<Rightarrow> audit_export \<Rightarrow> (string \<times> json) list" where
  "export_payload kind v = [(''kind'', JStr (kind_text kind)), (''recordCount'', JNum (int (ax_recordCount v))),
     (''sha256'', JStr (ax_sha256 v))]"

text \<open>A text of the schema is a date: \<open>new Date(payload.from)\<close>.\<close>

definition asked_date :: "text_reader \<Rightarrow> string option \<Rightarrow> time option" where
  "asked_date R v = (if truthy v then js_date R (JStr (the v)) else None)"

definition later_than :: "time option \<Rightarrow> time option \<Rightarrow> bool" where
  "later_than a b = (case (a, b) of (Some x, Some y) \<Rightarrow> y < x | _ \<Rightarrow> False)"

definition audit_export_route ::
    "text_reader \<Rightarrow> libs \<Rightarrow> rbac_service \<Rightarrow> server_env \<Rightarrow> admin_http \<Rightarrow> audit_export io" where
  "audit_export_route R L S env =
     admin_endpoint L S env ''admin.audit'' ''export'' (auditExportRequestSchema R) (\<lambda>(fromText, untilText, kind) actor.
     let from = asked_date R fromText; until = asked_date R untilText in
     if later_than from until then throw (validation_error ''from must be <= to'')
     else
       bind (createExport L from until kind) (\<lambda>v.
       bind (createSecurityEvent ''audit.export.generated'' (Some actor)
         (JObj ((''exportId'', juuid (ax_exportId v)) # export_payload kind v))) (\<lambda>_.
       bind (createAuditLog L (Some actor) ''admin.audit.export.create'' ''audit_export'' (Some (uuid_text (ax_exportId v)))
         (JObj (export_payload kind v))) (\<lambda>_.
       ret v))))"

end
