(* ===== verification/AccountRoutesFacts.thy ===== *)
theory AccountRoutesFacts
  imports AccountRoutes AuthRoutesFacts UserServiceFacts IdpRecovery
begin

text \<open>
  What the endpoints of signed-in users guarantee beyond their services: re-authentication, passkey
  sign-in and checks on behalf of somebody else.
\<close>

section \<open>Passkeys\<close>

lemma refused_instead_ok: "try_catch m (\<lambda>_. throw e) w = (Inr x, w') \<longleftrightarrow> m w = (Inr x, w')"
  by (auto simp: try_catch_def throw_run split: prod.split sum.split)

text \<open>The limiter leaves keys of another kind alone.\<close>

lemma rate_consume_redis:
  assumes "rate_consume key limit window w = (x, w')" and "\<And>k. other \<noteq> limiter_key k"
  shows "redis_live w' other = redis_live w other"
  using assms by (auto simp: rate_consume_def run_simps incr_expire_def redis_live_def split: option.splits if_splits)

lemma challenge_key_apart: "getChallengeKey u purpose \<noteq> limiter_key k"
  by (simp add: getChallengeKey_def limiter_key_def)

text \<open>
  C23: A passkey sign-in was asked for with the address of an active user, verified against the challenge
  stored for that user with an enabled passkey of theirs, and adds one session for them, whose access
  token is in the answer; it sets no cookie.
\<close>

theorem passkey_login_sound:
  assumes "webauthn_login_route Z L P W env r w = (Inr a, w')"
  shows "\<exists>email response u challenge e factor data n i s.
    webauthnAuthenticationVerifySchema Z (public_payload (web_request.truncate r)) = Some (email, response) \<and>
    findActiveUserIdByEmail (db w) email = Some u \<and>
    redis_live w (getChallengeKey u ''authentication'') = Some (challenge, e) \<and>
    factor \<in> set (mfaFactors (db w)) \<and> mf_userId factor = u \<and> mf_enabled factor \<and> mf_webauthnData factor = Some data \<and>
    check_authentication P (or_null response) challenge (wa_origin W) (wa_rpID W) (passkey_of data) = Some (Some n) \<and>
    userSessions (db w') = userSessions (db w) @ [s] \<and> session_of L u i s \<and>
    a = plain_answer (passkey_session_json u i)"
proof -
  obtain email response where p: "webauthnAuthenticationVerifySchema Z (public_payload (web_request.truncate r)) = Some (email, response)"
    and h: "webauthn_login_handler L P W env r (email, response) w = (Inr a, w')"
    using assms by (auto simp: webauthn_login_route_def public_endpoint_ok)
  obtain rate v u v' i where rate: "rate_consume (''webauthn-auth-verify:'' @ email @ '':'' @ or_unknown (client_ip r))
      (RATE_LIMIT_LOGIN_PER_MIN env) 60 w = (Inr rate, v)"
    and u: "findActiveUserIdByEmail (db v) email = Some u"
    and pass: "verifyAuthenticationResponse P W u (or_null response) v = (Inr (), v')"
    and create: "AuthService_createSessionForUser L (app_env.truncate env) u (client_ip r) (or_none (rq_userAgent r)) v' = (Inr i, w')"
    and a: "a = plain_answer (passkey_session_json u i)"
    using h by (auto simp: webauthn_login_handler_def Let_def ok_iffs refused_instead_ok split: option.splits)
  have calm: "calm w v" by (rule calm_rate_run [OF rate])
  obtain challenge factor data n es where auth:
      "read_challenge (getChallengeKey u ''authentication'') v = (Inr (Some challenge), v)"
      "find_credential (json_prop (or_null response) ''id'') (webauthn_factors (db v) u) = Some (Some (factor, data))"
      "check_authentication P (or_null response) challenge (wa_origin W) (wa_rpID W) (passkey_of data) = Some (Some n)"
      "v' = v\<lparr>db := mfaFactors_update (update_where (\<lambda>f. mf_id f = mf_id factor)
        (\<lambda>f. f\<lparr>mf_webauthnData := Some (data\<lparr>wd_counter := n\<rparr>)\<rparr>)) (db v),
        redis := (redis v)(getChallengeKey u ''authentication'' := None), emitted := es\<rparr>"
    by (rule authentication_run [OF pass])
  obtain e where "redis_live v (getChallengeKey u ''authentication'') = Some (challenge, e)"
    using auth(1) by (auto simp: read_challenge_def gets_run split: option.splits if_splits)
  then have stored: "redis_live w (getChallengeKey u ''authentication'') = Some (challenge, e)"
    using rate_consume_redis [OF rate challenge_key_apart] by simp
  have factor: "factor \<in> set (mfaFactors (db w))" "mf_userId factor = u" "mf_enabled factor" "mf_webauthnData factor = Some data"
    using find_credential_SomeD [OF auth(2)] calm_fields(5) [OF calm] by (auto simp: webauthn_factors_def)
  have "AuthService_createSession L (app_env.truncate env) u (client_ip r) (or_none (rq_userAgent r)) v' = (Inr i, w')"
    using create by (simp add: AuthService_createSessionForUser_def ok_iffs)
  then obtain s where s: "db w' = userSessions_update (\<lambda>rs. rs @ [s]) (db v')" "session_of L u i s"
    using idp_createSession_cases [where L = L and env = "app_env.truncate env" and u = u and ip = "client_ip r" and
        agent = "or_none (rq_userAgent r)" and w = v'] by auto
  have "userSessions (db w') = userSessions (db w) @ [s]"
    using s(1) auth(4) calm_fields(1) [OF calm] by simp
  moreover have "findActiveUserIdByEmail (db w) email = Some u"
    using u unfolding findActiveUserIdByEmail_def findByEmail_def calm_fields(2,3) [OF calm] .
  ultimately show ?thesis using p stored factor auth(3) s(2) a by blast
qed


section \<open>New recovery codes\<close>

definition password_held :: "libs \<Rightarrow> database \<Rightarrow> uuid \<Rightarrow> string \<Rightarrow> bool" where
  "password_held L d u password \<longleftrightarrow>
     (\<exists>i status hash. findWithPasswordById d u = Some (i, status, hash) \<and> verifyPassword L password hash)"

lemma verifyCurrentPassword_ok [ok_iffs]:
  "UserService_verifyCurrentPassword L u password w = (Inr x, w') \<longleftrightarrow> password_held L (db w) u password \<and>
     (\<forall>i status hash. findWithPasswordById (db w) u = Some (i, status, hash) \<longrightarrow> argon2_error L hash = None) \<and> w' = w"
proof (cases "findWithPasswordById (db w) u")
  case (Some row)
  then show ?thesis
    by (cases row) (auto simp: UserService_verifyCurrentPassword_def read_bind password_held_def verifyPassword_io_def
        verifyPassword_def bind_run run_simps split: option.split)
qed (simp add: UserService_verifyCurrentPassword_def read_bind password_held_def throw_run)

lemma verifyMfa_checked:
  assumes "MfaService_verifyMfa fuel L env u i code False w = (Inr x, w')"
  shows "factor_passed L (db w) (clock w) u i code"
proof -
  have "MfaService_verifyMfa fuel L env u i code False = MfaService_verifyMfa 0 L env u i code False"
    by (simp add: MfaService_verifyMfa_def)
  then show ?thesis using assms verifyMfa_passed by metis
qed

text \<open>The sessions of a user after all of them were revoked.\<close>

lemma revokeAll_ended:
  assumes "SessionService_revokeAllSessions S u w = (Inr x, w')"
  shows "\<forall>s \<in> set (userSessions (db w')). us_userId s = u \<longrightarrow> us_revokedAt s \<noteq> None"
proof -
  obtain v where v: "revokeAllByUserId u w = (Inr (), v)" "invalidate_if S u v = (Inr x, w')"
    using assms by (auto simp: SessionService_revokeAllSessions_def ok_iffs)
  have "userSessions (db w') = update_where (live_of_user u) (revoke_session_row (clock w)) (userSessions (db w))"
    using v(1) invalidate_db [OF v(2)] by (auto simp: revokeAllByUserId_def run_simps)
  then have rows: "set (userSessions (db w')) = (\<lambda>s. if live_of_user u s then revoke_session_row (clock w) s else s) ` set (userSessions (db w))"
    by (simp add: update_where_def)
  show ?thesis
  proof (intro ballI impI)
    fix s assume "s \<in> set (userSessions (db w'))" and u: "us_userId s = u"
    then obtain r where "s = (if live_of_user u r then revoke_session_row (clock w) r else r)" unfolding rows by blast
    with u show "us_revokedAt s \<noteq> None"
      by (auto simp: live_of_user_def revoke_session_row_def split: if_split_asm)
  qed
qed

text \<open>
  C24: New recovery codes are given only to a user who proves who they are again: with the password, with
  a code of an own authenticator, and with both when both are sent. Every session of the user ends,
  this one included, and the cookies are cleared.
\<close>

theorem recovery_codes_need_reauth:
  assumes "regenerate_handler fuel L S env p (u, sid) w = (Inr a, w')"
  shows "(truthy (rp_currentPassword p) \<or> truthy (rp_mfaCode p) \<and> rp_mfaFactorId p \<noteq> None) \<and>
    (truthy (rp_currentPassword p) \<longrightarrow> password_held L (db w) u (the (rp_currentPassword p))) \<and>
    (truthy (rp_mfaCode p) \<and> rp_mfaFactorId p \<noteq> None \<longrightarrow>
      factor_passed L (db w) (clock w) u (the (rp_mfaFactorId p)) (the (rp_mfaCode p))) \<and>
    an_cookies a = clear_cookies env \<and>
    (\<forall>s \<in> set (userSessions (db w')). us_userId s = u \<longrightarrow> us_revokedAt s \<noteq> None)"
proof -
  let ?totp = "truthy (rp_mfaCode p) \<and> rp_mfaFactorId p \<noteq> None"
  have one: "truthy (rp_currentPassword p) \<or> ?totp"
    using assms by (auto simp: regenerate_handler_def Let_def throw_ok split: if_splits)
  then have guard: "\<not> (\<not> truthy (rp_currentPassword p) \<and> \<not> ?totp)" by blast
  note run = assms [unfolded regenerate_handler_def Let_def fst_conv if_not_P [OF guard]]
  obtain y v where password: "whenever (truthy (rp_currentPassword p)) (UserService_verifyCurrentPassword L u (the (rp_currentPassword p))) w = (Inr y, v)"
    and after: "bind (if ?totp then MfaService_verifyMfa fuel L (app_env.truncate env) u (the (rp_mfaFactorId p)) (the (rp_mfaCode p)) False
      else ret []) (\<lambda>_. bind (regenerateCodes fuel L (app_env.truncate env) u) (\<lambda>(batchId, codes).
      bind (SessionService_revokeAllSessions S u) (\<lambda>_.
      ret (signed_out_answer env (JObj [(''batchId'', juuid batchId), (''recoveryCodes'', codes_json codes)]))))) v = (Inr a, w')"
    by (rule bind_Inr_E [OF run])
  have v: "v = w" and held: "truthy (rp_currentPassword p) \<longrightarrow> password_held L (db w) u (the (rp_currentPassword p))"
    using password by (auto simp: ok_iffs split: if_splits)
  obtain c v1 where totp: "(if ?totp then MfaService_verifyMfa fuel L (app_env.truncate env) u (the (rp_mfaFactorId p)) (the (rp_mfaCode p)) False
      else ret []) w = (Inr c, v1)"
    and after: "bind (regenerateCodes fuel L (app_env.truncate env) u) (\<lambda>(batchId, codes).
      bind (SessionService_revokeAllSessions S u) (\<lambda>_.
      ret (signed_out_answer env (JObj [(''batchId'', juuid batchId), (''recoveryCodes'', codes_json codes)])))) v1 = (Inr a, w')"
    by (rule bind_Inr_E [OF after [unfolded v]])
  obtain x v2 where "bind (SessionService_revokeAllSessions S u) (\<lambda>_.
      ret (signed_out_answer env (JObj [(''batchId'', juuid (fst x)), (''recoveryCodes'', codes_json (snd x))]))) v2 = (Inr a, w')"
    by (rule bind_Inr_E [OF after]) (auto simp: case_prod_unfold)
  then have rest: "SessionService_revokeAllSessions S u v2 = (Inr (), w')" "an_cookies a = clear_cookies env"
    by (auto simp: ok_iffs signed_out_answer_def)
  have "?totp \<longrightarrow> factor_passed L (db w) (clock w) u (the (rp_mfaFactorId p)) (the (rp_mfaCode p))"
    using totp by (auto split: if_splits dest: verifyMfa_checked)
  then show ?thesis using one held rest revokeAll_ended by blast
qed

section \<open>Checks for others\<close>

text \<open>
  Whoever asks what another user may do holds the permission to manage, when no cached answer is in
  use.
\<close>

lemma foreign_subject_needs_admin:
  assumes "resolveSubject Z S actor subject w = (Inr u, w')" and "\<not> shouldUseCache S actor"
  shows "u = actor \<or> holds_permission (db w) actor ''admin'' ''manage''"
proof (cases "truthy subject \<and> subject \<noteq> Some (uuid_text actor)")
  case True
  obtain es where check: "RBACService_authorizationCheck S (admin_request actor ''admin'' ''manage'') w =
      (Inr (snd (authorization_result (db w) (admin_request actor ''admin'' ''manage''))), w\<lparr>emitted := es\<rparr>)"
    using uncached_check [OF assms(2)] by blast
  then have "isAllowed (snd (authorization_result (db w) (admin_request actor ''admin'' ''manage'')))"
    using assms(1) True by (auto simp: resolveSubject_def admin_request_def ok_iffs split: if_splits)
  then show ?thesis unfolding isAllowed_result by simp
next
  case False
  then show ?thesis using assms(1) by (auto simp: resolveSubject_def ok_iffs split: if_splits)
qed

section \<open>Samples\<close>

definition passkey_request :: auth_request where
  "passkey_request = sample_login\<lparr>wr_body := Some (JObj [(''email'', JStr ''ann@x.org''), (''response'', JObj [(''id'', JStr ''cred'')])])\<rparr>"

definition passkey_login_world :: world where
  "passkey_login_world = passkey_world [sample_passkey]\<lparr>redis := [getChallengeKey 1 ''authentication'' \<mapsto> (''ch'', Some 301000)]\<rparr>"

lemma passkey_payload:
  "webauthnAuthenticationVerifySchema sample_zod (public_payload (web_request.truncate passkey_request)) =
     Some (''ann@x.org'', Some (JObj [(''id'', JStr ''cred'')]))"
  by code_simp

lemma passkey_request_fields: "client_ip passkey_request = None" "rq_userAgent passkey_request = None"
  by (simp_all add: passkey_request_def sample_login_def client_ip_def getIpAddress_def)

definition after_passkey :: "(err + route_answer) \<times> world" where
  "after_passkey = webauthn_login_route sample_zod sample_libs sample_webauthn sample_wa sample_server passkey_request passkey_login_world"

lemma after_passkey_ok: "\<exists>a. fst after_passkey = Inr a"
  by (simp add: after_passkey_def webauthn_login_route_def webauthn_login_handler_def public_endpoint_def passkey_payload
      passkey_request_fields within_rate_def rate_consume_def incr_expire_def redis_live_def passkey_login_world_def
      passkey_world_def getChallengeKey_def limiter_key_def findActiveUserIdByEmail_def findByEmail_def to_lower_def lower_char_def
      verifyAuthenticationResponse_def read_challenge_def webauthn_factors_def sample_passkey_def sample_webauthn_def
      sample_wa_def redis_put_def hook_event_def or_null_def try_catch_def AuthService_createSessionForUser_def
      is_active_user_def UserRepository_findById_def left_join_def APP_CONSTANTS_def or_none_def
      AuthService_createSession_def SessionRepository_create_def insert_session_def idp_eval sample_defs uniq_defs)

theorem passkey_login_sound_witness:
  "\<exists>s. userSessions (db (snd after_passkey)) = [sample_session, s] \<and> us_userId s = 1"
proof -
  obtain a where "fst after_passkey = Inr a" using after_passkey_ok by blast
  then have "webauthn_login_route sample_zod sample_libs sample_webauthn sample_wa sample_server passkey_request passkey_login_world =
      (Inr a, snd after_passkey)"
    unfolding after_passkey_def by (metis prod.collapse)
  from passkey_login_sound [OF this] show ?thesis
    by (auto simp: session_of_def passkey_login_world_def passkey_world_def sample_passkey_def sample_db_def)
qed

definition short_codes_server :: server_env where
  "short_codes_server = app_env.extend short_codes_env
     (server_env.fields 3000 3001 ''http://localhost:3001'' [] 19456 3 1 10 20 60 120 ''idp'' 1 True 2 True 5 5 ''info''
        True 100 60 60 30 [] [] ''risk'' [] ''db'' ''redis'' [] [] ''idp'' ''localhost'' ''http://localhost:3000'')"

definition by_password_only :: reauth_payload where
  "by_password_only = \<lparr>rp_currentPassword = Some ''secret'', rp_mfaCode = None, rp_mfaFactorId = None\<rparr>"

theorem recovery_codes_need_reauth_witness:
  "\<exists>a w'. regenerate_handler 5 sample_libs None short_codes_server by_password_only (1, 3) (sample_world sample_db) = (Inr a, w') \<and>
     (\<forall>s \<in> set (userSessions (db w')). us_userId s = 1 \<longrightarrow> us_revokedAt s \<noteq> None)"
proof -
  let ?w = "sample_world sample_db"
  have env: "app_env.truncate short_codes_server = short_codes_env"
    by (simp add: short_codes_server_def app_env.defs server_env.defs)
  have "password_held sample_libs (db ?w) 1 ''secret''"
    by (simp add: password_held_def findWithPasswordById_def verifyPassword_def argon2Prefix_def starts_with_def sample_defs)
  then have password: "UserService_verifyCurrentPassword sample_libs 1 ''secret'' ?w = (Inr (), ?w)"
    by (simp add: verifyCurrentPassword_ok)
  obtain b codes v where codes: "regenerateCodes 5 sample_libs short_codes_env 1 ?w = (Inr (b, codes), v)"
    using after_regenerate_ok unfolding after_regenerate_def by (metis prod.collapse)
  have "\<exists>a w'. regenerate_handler 5 sample_libs None short_codes_server by_password_only (1, 3) ?w = (Inr a, w')"
    by (simp add: regenerate_handler_def by_password_only_def env bind_run whenever_def password codes ret_run
        SessionService_revokeAllSessions_def revokeAllByUserId_def run_simps invalidate_if_def del: One_nat_def)
  then show ?thesis using recovery_codes_need_reauth by blast
qed

end
