(* ===== verification/AdminRoutesFacts.thy ===== *)
theory AdminRoutesFacts
  imports AuditRoutes AccountRoutesFacts UserServiceFacts
begin

text \<open>
  The endpoints of administrators let nobody act without the permission they name, and leave nothing
  behind when they refuse but entries of the logs and the time a session was last seen.
\<close>

section \<open>Refusals\<close>

definition unseen :: "database \<Rightarrow> database" where
  "unseen d = (but_logs d)\<lparr>userSessions := map (\<lambda>s. s\<lparr>us_lastSeenAt := 0\<rparr>) (userSessions d)\<rparr>"

definition quiet :: "world \<Rightarrow> world \<Rightarrow> bool" where
  "quiet w w' \<longleftrightarrow> unseen (db w') = unseen (db w) \<and> clock w' = clock w"

interpretation quiet: effect_order quiet
  by unfold_locales (auto simp: quiet_def)

lemma unseen_of_calm: "but_logs d' = but_logs d \<Longrightarrow> unseen d' = unseen d"
proof -
  assume eq: "but_logs d' = but_logs d"
  have "userSessions (but_logs x) = userSessions x" for x by (simp add: but_logs_def)
  with eq have "userSessions d' = userSessions d" by metis
  with eq show ?thesis by (simp add: unseen_def)
qed

lemma quiet_of_calm: "calm w w' \<Longrightarrow> quiet w w'"
  unfolding calm_def quiet_def using unseen_of_calm by blast

lemma quiet_field: "quiet w v \<Longrightarrow> (\<And>d. f (unseen d) = f d) \<Longrightarrow> f (db v) = f (db w)"
  unfolding quiet_def by metis

lemma quiet_seen: "safe quiet (updateLastSeen i)"
  by (rule safeI)
    (auto simp: updateLastSeen_def run_simps quiet_def unseen_def but_logs_def update_where_def)

lemma quiet_steps [safe_intros]: "safe quiet now" "safe quiet (read_db f)"
  by (simp_all add: safe_def quiet_def now_run read_db_run)

lemma quiet_authenticate: "safe quiet (AuthService_authenticateAccessToken L tok)"
  unfolding AuthService_authenticateAccessToken_def Let_def
  by (intro safe_intros quiet_seen)

definition stopped :: "world \<Rightarrow> 'a io \<Rightarrow> bool" where
  "stopped w m \<longleftrightarrow> (\<exists>e. fst (m w) = Inl e) \<and> quiet w (snd (m w))"

lemma stopped_throw: "stopped w (throw e)"
  by (simp add: stopped_def throw_run quiet.order_refl)

section \<open>The guard\<close>

definition may :: "database \<Rightarrow> app_env \<Rightarrow> uuid \<Rightarrow> string \<Rightarrow> string \<Rightarrow> bool" where
  "may d env u resource action \<longleftrightarrow> holds_permission d u resource action \<or>
     \<not> ADMIN_SOD_ENFORCED env \<and> holds_permission d u ''admin'' ''manage''"

lemma unseen_fields:
  "userRoles (unseen d) = userRoles d" "rolePermissions (unseen d) = rolePermissions d"
  "permissions (unseen d) = permissions d" "groups (unseen d) = groups d"
  "groupMemberships (unseen d) = groupMemberships d" "groupRoles (unseen d) = groupRoles d"
  by (simp_all add: unseen_def but_logs_def)

lemma keys_unseen: "RBACRepository_listPermissionKeys (unseen d) u cx = RBACRepository_listPermissionKeys d u cx"
  unfolding RBACRepository_listPermissionKeys_def direct_keys_def group_keys_def role_keys_def member_groups_def unseen_fields
  by (rule refl)

lemma may_unseen: "may (unseen d) = may d"
  by (intro ext) (simp only: may_def holds_permission_def keys_unseen)

lemma calm_check: "\<not> shouldUseCache S u \<Longrightarrow> safe calm (RBACService_authorizationCheck S (admin_request u resource action))"
proof (rule safeI)
  fix w
  assume "\<not> shouldUseCache S u"
  from uncached_check [OF this, of resource action w]
  show "calm w (snd (RBACService_authorizationCheck S (admin_request u resource action) w))"
    by (auto simp: calm_def)
qed

lemma calm_audit_event [safe_intros]: "safe calm (createSecurityEvent k u p)"
  by (rule safeI)
    (auto simp: createSecurityEvent_def insert_event_def recordSecurityEventMetric_def run_simps calm_def but_logs_def
      draw_uuid_run emit_run)

lemma calm_guard: "\<not> shouldUseCache S (ai_userId i) \<Longrightarrow> safe calm (assertAdminPermission S env i)"
  unfolding assertAdminPermission_def by (intro safe_intros calm_check)

lemma guard_stops:
  assumes "\<not> shouldUseCache S (ai_userId i)" and "\<not> may (db w) env (ai_userId i) (ai_resource i) (ai_action i)"
  shows "stopped w (bind (assertAdminPermission S env i) f)"
proof -
  obtain e where "fst (assertAdminPermission S env i w) = Inl e"
    using admin_guard_exact [OF assms(1)] assms(2) by (simp add: may_def)
  then have run: "assertAdminPermission S env i w = (Inl e, snd (assertAdminPermission S env i w))"
    by (metis prod.collapse)
  have "calm w (snd (assertAdminPermission S env i w))" by (rule safeD [OF calm_guard [OF assms(1)]])
  then show ?thesis
    unfolding stopped_def bind_eq_if_throw [of "assertAdminPermission S env i" w, OF run] by (simp add: quiet_of_calm)
qed

section \<open>Endpoints\<close>

text \<open>The caller the token of the request authenticates.\<close>

definition caller :: "libs \<Rightarrow> admin_http \<Rightarrow> world \<Rightarrow> uuid option" where
  "caller L r w = (case getTokenFromRequest (wr_authorization r) (wr_cookie r) of
     Inl _ \<Rightarrow> None
   | Inr (token, _) \<Rightarrow> (case fst (AuthService_authenticateAccessToken L token w) of
         Inl _ \<Rightarrow> None
       | Inr (u, _) \<Rightarrow> Some u))"

lemma signed_in_stops:
  fixes h :: "'p \<Rightarrow> uuid \<times> uuid \<Rightarrow> 'a io"
  assumes "\<And>p u sid v. caller L r w = Some u \<Longrightarrow> quiet w v \<Longrightarrow> stopped v (h p (u, sid))"
  shows "stopped w (signed_in_endpoint L schema h (auth_request.truncate r))"
proof (cases "getTokenFromRequest (wr_authorization r) (wr_cookie r)")
  case (Inl e)
  then show ?thesis
    by (simp add: signed_in_endpoint_def authenticated_endpoint_def auth_request.defs web_request.defs stopped_throw)
next
  case (Inr ts)
  obtain token source where ts: "ts = (token, source)" by (cases ts)
  let ?m = "AuthService_authenticateAccessToken L token"
  obtain x v where x: "?m w = (x, v)" by fastforce
  have quiet: "quiet w v" using safeD [OF quiet_authenticate, of w L token] x by simp
  show ?thesis
  proof (cases x)
    case xe: (Inl e)
    have "stopped w (bind ?m f)" for f :: "_ \<Rightarrow> 'a io"
      using quiet by (simp add: stopped_def bind_eq_if_throw [of ?m w, OF x [unfolded xe]])
    then show ?thesis
      by (simp add: signed_in_endpoint_def authenticated_endpoint_def auth_request.defs web_request.defs Inr ts
          stopped_throw)
  next
    case xa: (Inr a)
    obtain u sid where a: "a = (u, sid)" by (cases a)
    have caller: "caller L r w = Some u" using Inr ts x xa a by (simp add: caller_def)
    have after: "stopped w (bind ?m f)" if "stopped v (f (u, sid))" for f :: "_ \<Rightarrow> 'a io"
      using that quiet quiet.order_trans [of w v] unfolding stopped_def
      by (auto simp: bind_eq_if_ret [of ?m w, OF x [unfolded xa a]])
    show ?thesis
      by (auto simp: signed_in_endpoint_def authenticated_endpoint_def auth_request.defs web_request.defs Inr ts
          stopped_throw intro!: after assms [OF caller quiet] split: option.split)
  qed
qed

definition admin_allowed :: "libs \<Rightarrow> server_env \<Rightarrow> admin_http \<Rightarrow> world \<Rightarrow> string \<Rightarrow> string \<Rightarrow> bool" where
  "admin_allowed L env r w resource action \<longleftrightarrow>
     (\<exists>u. caller L r w = Some u \<and> may (db w) (app_env.truncate env) u resource action)"

definition uncached :: "rbac_service \<Rightarrow> bool" where
  "uncached S \<longleftrightarrow> (\<forall>u. \<not> shouldUseCache S u)"

lemma guarded_stops:
  assumes "uncached S" and "\<not> admin_allowed L env r w resource action" and "caller L r w = Some u" and "quiet w v"
  shows "stopped v (bind (assertAdminPermission S (app_env.truncate env)
    \<lparr>ai_userId = u, ai_resource = resource, ai_action = action, ai_path = p, ai_method = m, ai_message = msg\<rparr>) f)"
proof (rule guard_stops)
  have "may (db v) = may (db w)" by (rule quiet_field [of w v may, OF assms(4) may_unseen])
  then show "\<not> may (db v) (app_env.truncate env) (ai_userId \<lparr>ai_userId = u, ai_resource = resource, ai_action = action,
      ai_path = p, ai_method = m, ai_message = msg\<rparr>) (ai_resource \<lparr>ai_userId = u, ai_resource = resource, ai_action = action,
      ai_path = p, ai_method = m, ai_message = msg\<rparr>) (ai_action \<lparr>ai_userId = u, ai_resource = resource, ai_action = action,
      ai_path = p, ai_method = m, ai_message = msg\<rparr>)"
    using assms(2,3) by (simp add: admin_allowed_def)
qed (use assms(1) in \<open>simp add: uncached_def\<close>)

lemma admin_endpoint_stops:
  assumes "uncached S" and "\<not> admin_allowed L env r w resource action"
  shows "stopped w (admin_endpoint L S env resource action schema handler r)"
  unfolding admin_endpoint_def
  by (rule signed_in_stops) (simp add: guarded_stops [OF assms])

lemma notifications_stops:
  assumes "uncached S" and "\<not> admin_allowed L env r w ''admin.config'' ''write''"
  shows "stopped w (notifications_route Z L S env r)"
  unfolding notifications_route_def
  by (rule signed_in_stops) (auto simp: guarded_stops [OF assms] stopped_throw split: parsed.split)


section \<open>Samples\<close>

text \<open>A signed-in user without roles asks for an emergency rotation of the keys.\<close>

definition user_token :: string where
  "user_token = replicate 16 (CHR ''a'')"

definition user_world :: world where
  "user_world = sample_world (sample_db\<lparr>userSessions := [sample_session\<lparr>us_accessTokenHash := sha256 sample_libs user_token\<rparr>]\<rparr>)"

definition user_request :: admin_http where
  "user_request = \<lparr>wr_method = ''POST'', wr_authorization = Some (''Bearer '' @ user_token), wr_cookie = None, wr_csrf = None,
     wr_contentType = None, wr_body = None, wr_form = JNull, rq_forwardedFor = None, rq_userAgent = None,
     rq_deviceId = None,
     rq_path = ''/v1/admin/keys/rotate-emergency'', rq_query = (\<lambda>_. None)\<rparr>"

lemma no_permissions: "RBACRepository_listPermissionKeys (db user_world) u cx = []"
  by (simp add: RBACRepository_listPermissionKeys_def direct_keys_def group_keys_def member_groups_def user_world_def sample_db_def
      empty_database_def js_uniq_def)


end
