(* ===== verification/AuditRoutesFacts.thy ===== *)
theory AuditRoutesFacts
  imports AuditRoutes AuditTrailFacts Samples "HOL-Library.Multiset"
begin

text \<open>
  Cursors read back as what they were written from, and an export holds the rows asked for.
\<close>

section \<open>Cursors\<close>

text \<open>
  The dates of cursors are written with milliseconds and read back, and a written identifier is its
  own position.
\<close>

definition reads_cursor :: "text_reader \<Rightarrow> libs \<Rightarrow> cursor \<Rightarrow> bool" where
  "reads_cursor R L c \<longleftrightarrow> js_date R (JStr (iso_string L (fst c))) = Some (fst c) \<and>
     id_position R (uuid_text (snd c)) = snd c"

lemma base64Url_nonempty: "decodeJson (base64Url bs) = Some j \<Longrightarrow> base64Url bs \<noteq> []"
proof
  assume "decodeJson (base64Url bs) = Some j" and empty: "base64Url bs = []"
  moreover have "decodeJson [] = None" by code_simp
  ultimately show False by simp
qed

lemma cursor_reads_back:
  assumes "reads_cursor R L c"
  shows "decodeCursor R (encodeCursor L (Some c)) w = (Inr (Some (fst c, uuid_text (snd c))), w)"
    and "cursor_position R (Some (fst c, uuid_text (snd c))) = Some c"
proof -
  let ?j = "JObj [(''createdAt'', JStr (iso_string L (fst c))), (''id'', juuid (snd c))]"
  have decoded: "decodeJson (base64Url (utf8_bytes (stringify ?j))) = Some ?j"
    by (rule decodeJson_round_trip) (simp add: juuid_def)
  then show "decodeCursor R (encodeCursor L (Some c)) w = (Inr (Some (fst c, uuid_text (snd c))), w)"
    using assms base64Url_nonempty [OF decoded]
    by (simp add: decodeCursor_def encodeCursor_def split_def truthy_iff cursor_of_json_def juuid_def reads_cursor_def ret_run)
  show "cursor_position R (Some (fst c, uuid_text (snd c))) = Some c"
    using assms by (simp add: cursor_position_def reads_cursor_def)
qed

section \<open>Collecting pages\<close>

text \<open>
  A cursor has milliseconds, a row microseconds. Rows are apart when two different ones of the same
  millisecond have no microseconds; then a cursor separates them as their positions do.
\<close>

definition apart :: "('r \<Rightarrow> position) \<Rightarrow> 'r list \<Rightarrow> bool" where
  "apart key S \<longleftrightarrow> (\<forall>r \<in> set S. \<forall>q \<in> set S. fst (fst (key r)) = fst (fst (key q)) \<longrightarrow>
     r = q \<or> snd (fst (key r)) = 0 \<and> snd (fst (key q)) = 0)"

lemma after_cursor:
  assumes "apart key S" and "l \<in> set S" and "r \<in> set S"
  shows "before_cursor (Some (toCursor (key l))) (key r) \<longleftrightarrow> key r < key l"
proof (cases "r = l")
  case True
  then show ?thesis by (cases "key l") (auto simp: before_cursor_def toCursor_def less_prod_def')
next
  case False
  with assms have "fst (fst (key r)) = fst (fst (key l)) \<Longrightarrow> snd (fst (key r)) = 0 \<and> snd (fst (key l)) = 0"
    unfolding apart_def by metis
  then show ?thesis
    by (cases "key l"; cases "key r") (auto simp: before_cursor_def toCursor_def less_prod_def')
qed

definition cursor_at :: "('r \<Rightarrow> position) \<Rightarrow> 'r list \<Rightarrow> nat \<Rightarrow> cursor option" where
  "cursor_at key S n = (if n = 0 then None else Some (toCursor (key (S ! (n - 1)))))"

lemma page_at:
  assumes "descending key S" and "S = order_desc key (filter p table)" and "n \<le> length S" and "0 < l"
    and "apart key S"
  shows "page key p l (cursor_at key S n) table =
    (take l (drop n S), if l < length S - n then cursor_at key S (n + l) else None)"
proof -
  have rest: "filter (\<lambda>r. before_cursor (cursor_at key S n) (key r)) S = drop n S"
  proof (cases "n = 0")
    case False
    then have "S ! (n - 1) \<in> set S" using assms(3) by simp
    then have "filter (\<lambda>r. before_cursor (cursor_at key S n) (key r)) S = filter (\<lambda>r. key r < key (S ! (n - 1))) S"
      using False after_cursor [OF assms(5)] by (auto simp: cursor_at_def intro: filter_cong)
    then show ?thesis using descending_after [OF assms(1) _ assms(3)] False by simp
  qed (simp add: cursor_at_def before_cursor_def)
  have rows: "order_desc key (filter (\<lambda>r. p r \<and> before_cursor (cursor_at key S n) (key r)) table) = drop n S"
    unfolding rest [symmetric] by (simp add: assms(2) order_desc_filter conj_commute)
  show ?thesis
  proof (cases "l < length S - n")
    case True
    have "take l (drop n S) \<noteq> []" using True assms(4) by auto
    moreover from this have "last (take l (drop n S)) = S ! (n + l - 1)"
      using True assms(4) by (subst last_conv_nth) (simp_all add: min_def)
    ultimately show ?thesis using True assms(4) unfolding page_def rows Let_def by (simp add: cursor_at_def)
  next
    case False
    then show ?thesis unfolding page_def rows Let_def by simp
  qed
qed

lemma collect_newest:
  assumes "descending key S" and "S = order_desc key (filter p table)" and "0 < l" and "l dvd EXPORT_MAX_RECORDS"
    and "apart key S"
  shows "n \<le> length S \<Longrightarrow> l dvd n \<Longrightarrow> n \<le> EXPORT_MAX_RECORDS \<Longrightarrow>
    collect_pages (\<lambda>cur. page key p l cur table) g (cursor_at key S n) (map g (take n S)) =
    map g (take EXPORT_MAX_RECORDS S)"
proof (induction "EXPORT_MAX_RECORDS - n" arbitrary: n rule: less_induct)
  case less
  show ?case
  proof (cases "n < EXPORT_MAX_RECORDS")
    case False
    with less.prems show ?thesis by (subst collect_pages.simps) simp
  next
    case True
    have step: "n + l \<le> EXPORT_MAX_RECORDS"
      using True less.prems(2) assms(4) by (metis dvd_imp_le dvd_diff_nat zero_less_diff le_add_diff_inverse
          add_le_cancel_left less_imp_le)
    have records: "map g (take n S) @ map g (take l (drop n S)) = map g (take (n + l) S)"
      by (simp add: take_add)
    show ?thesis
    proof (cases "l < length S - n")
      case more: True
      then obtain c where c: "cursor_at key S (n + l) = Some c" and items: "take l (drop n S) \<noteq> []"
        using assms(3) by (auto simp: cursor_at_def)
      then show ?thesis
        using less.hyps [of "n + l"] True step more less.prems assms(3)
        by (subst collect_pages.simps) (simp add: page_at [OF assms(1,2) less.prems(1) assms(3,5)] records Let_def c)
    next
      case False
      have "map g (take n S) @ map g (drop n S) = map g S" by (metis append_take_drop_id map_append)
      with False show ?thesis using True step less.prems
        by (subst collect_pages.simps) (simp add: page_at [OF assms(1,2) less.prems(1) assms(3,5)] records Let_def)
    qed
  qed
qed

lemma collect_all:
  assumes "distinct (map key table)" and "0 < l" and "l dvd EXPORT_MAX_RECORDS"
    and "apart key (order_desc key (filter p table))"
  shows "collect_pages (\<lambda>cur. page key p l cur table) g None [] =
    map g (take EXPORT_MAX_RECORDS (order_desc key (filter p table)))"
proof -
  have "distinct (map key (filter p table))" using assms(1) by (rule distinct_map_filter)
  then have "descending key (order_desc key (filter p table))" by (rule descending_order_desc)
  from collect_newest [OF this refl assms(2-4), of 0 g] show ?thesis by (simp add: cursor_at_def)
qed

definition export_filter :: "time option \<Rightarrow> time option \<Rightarrow> audit_filter" where
  "export_filter from until = \<lparr>af_from = from, af_to = until, af_actorUserId = None, af_action = None,
     af_resourceType = None, af_resourceId = None\<rparr>"

definition export_event_filter :: "time option \<Rightarrow> time option \<Rightarrow> event_filter" where
  "export_event_filter from until = \<lparr>ef_from = from, ef_to = until, ef_userId = None, ef_eventType = None\<rparr>"

lemma export_page: "nat (toPageLimit EXPORT_PAGE_SIZE) = 200" "200 dvd EXPORT_MAX_RECORDS"
  by (simp_all add: toPageLimit_def EXPORT_PAGE_SIZE_def MAX_PAGE_SIZE_def EXPORT_MAX_RECORDS_def)

definition asked_logs :: "database \<Rightarrow> time option \<Rightarrow> time option \<Rightarrow> audit_row list" where
  "asked_logs d from until = order_desc audit_key (filter (audit_matches (export_filter from until)) (auditLogs d))"

definition asked_events :: "database \<Rightarrow> time option \<Rightarrow> time option \<Rightarrow> event_row list" where
  "asked_events d from until = order_desc event_key (filter (event_matches (export_event_filter from until)) (securityEvents d))"

lemma collected_logs:
  assumes "uniq_audit (auditLogs d)" and "apart audit_key (asked_logs d from until)"
  shows "collectAuditLogs L d from until = map (audit_record L) (take EXPORT_MAX_RECORDS (asked_logs d from until))"
proof -
  have "distinct (map audit_key (auditLogs d))"
    using assms distinct_keys [of au_id "auditLogs d" "\<lambda>r. (au_createdAt r, au_micros r)"] by (simp add: uniq_audit_def audit_key_def [abs_def])
  from collect_all [OF this _ export_page(2) assms(2) [unfolded asked_logs_def]] show ?thesis
    by (simp add: collectAuditLogs_def listAuditLogs_def [abs_def] export_page export_filter_def [symmetric] asked_logs_def)
qed

lemma collected_events:
  assumes "uniq_events (securityEvents d)" and "apart event_key (asked_events d from until)"
  shows "collectSecurityEvents L d from until = map (event_record L) (take EXPORT_MAX_RECORDS (asked_events d from until))"
proof -
  have "distinct (map event_key (securityEvents d))"
    using assms distinct_keys [of se_id "securityEvents d" "\<lambda>r. (se_createdAt r, se_micros r)"] by (simp add: uniq_events_def event_key_def [abs_def])
  from collect_all [OF this _ export_page(2) assms(2) [unfolded asked_events_def]] show ?thesis
    by (simp add: collectSecurityEvents_def listSecurityEvents_def [abs_def] export_page export_event_filter_def [symmetric]
        asked_events_def)
qed

section \<open>Sorting\<close>

lemma mset_insert_record: "mset (insert_record L x ys) = add_mset x (mset ys)"
  by (induction ys) auto

lemma mset_sort_records [simp]: "mset (sort_records L xs) = mset xs"
  by (induction xs) (simp_all add: sort_records_def mset_insert_record)

lemma sorted_sort_records:
  fixes f :: "export_record \<Rightarrow> 'k :: linorder"
  assumes "\<And>x y. x \<in> set xs \<Longrightarrow> y \<in> set xs \<Longrightarrow> record_before L x y \<Longrightarrow> f x \<le> f y"
    and "\<And>x y. x \<in> set xs \<Longrightarrow> y \<in> set xs \<Longrightarrow> \<not> record_before L x y \<Longrightarrow> f y \<le> f x"
  shows "sorted (map f (sort_records L xs))"
  using assms
proof (induction xs)
  case (Cons x xs)
  have one: "sorted (map f (insert_record L x ys))" if "sorted (map f ys)" "set ys \<subseteq> set xs" for ys
    using that
  proof (induction ys)
    case (Cons y ys)
    have "set (insert_record L x ys) = insert x (set ys)"
      using mset_insert_record [of L x ys] by (metis set_mset_add_mset_insert set_mset_mset)
    with Cons Cons.prems show ?case
      using \<open>\<And>x' y. x' \<in> set (x # xs) \<Longrightarrow> y \<in> set (x # xs) \<Longrightarrow> record_before L x' y \<Longrightarrow> f x' \<le> f y\<close> [of x y]
        \<open>\<And>x' y. x' \<in> set (x # xs) \<Longrightarrow> y \<in> set (x # xs) \<Longrightarrow> \<not> record_before L x' y \<Longrightarrow> f y \<le> f x'\<close> [of x y]
      by (auto intro: order_trans)
  qed simp
  have "set (sort_records L xs) = set xs" by (metis mset_sort_records set_mset_mset)
  moreover have "sorted (map f (sort_records L xs))" by (rule Cons.IH) (auto intro: Cons.prems)
  ultimately show ?case using one by (simp add: sort_records_def)
qed (simp add: sort_records_def)

text \<open>Texts of dates compare as the dates.\<close>

definition dates_collate :: "libs \<Rightarrow> bool" where
  "dates_collate L \<longleftrightarrow> (\<forall>s t. collate L (iso_string L s) (iso_string L t) \<longleftrightarrow> s \<le> t)"

lemma sorted_by_date:
  assumes "dates_collate L" and "\<And>x. x \<in> set xs \<Longrightarrow> xr_createdAt x = iso_string L (f x)"
  shows "sorted (map f (sort_records L xs))"
proof (rule sorted_sort_records)
  have iff: "collate L (iso_string L s) (iso_string L t) \<longleftrightarrow> s \<le> t" for s t
    using assms(1) by (simp add: dates_collate_def)
  fix x y assume x: "x \<in> set xs" and y: "y \<in> set xs"
  have same: "f x = f y" if "xr_createdAt x = xr_createdAt y"
    using that iff [of "f x" "f y"] iff [of "f y" "f x"] iff [of "f x" "f x"] assms(2) [OF x] assms(2) [OF y] by simp
  { assume "record_before L x y"
    then show "f x \<le> f y" using same assms(2) [OF x] assms(2) [OF y] iff
      by (cases "xr_createdAt x = xr_createdAt y") (auto simp: record_before_def)
  next
    assume "\<not> record_before L x y"
    then show "f y \<le> f x" using same assms(2) [OF x] assms(2) [OF y] iff [of "f x" "f y"]
      by (cases "xr_createdAt x = xr_createdAt y") (auto simp: record_before_def)
  }
qed

section \<open>Properties\<close>

text \<open>
  The cursor of a page, sent back as the query parameter, is read as the position it was written from,
  so the next request asks for the rows that come strictly after it.
\<close>

theorem next_cursor_round_trip:
  assumes "reads_cursor R L c"
  shows "\<exists>t i. decodeCursor R (encodeCursor L (Some c)) w = (Inr (Some (t, i)), w) \<and>
    cursor_position R (Some (t, i)) = Some c \<and>
    fst (listAuditLogs d f n (cursor_position R (Some (t, i)))) =
      take (nat (toPageLimit n)) (filter (\<lambda>r. before_cursor (Some c) (audit_key r)) (order_desc audit_key (filter (audit_matches f) (auditLogs d))))"
proof -
  have "fst (listAuditLogs d f n (Some c)) =
      take (nat (toPageLimit n)) (filter (\<lambda>r. before_cursor (Some c) (audit_key r)) (order_desc audit_key (filter (audit_matches f) (auditLogs d))))"
    unfolding listAuditLogs_def page_def Let_def order_desc_filter [symmetric]
    by (auto simp: conj_commute)
  with cursor_reads_back [OF assms] show ?thesis by metis
qed


section \<open>Samples\<close>

text \<open>Numbers as the texts of dates: they read back and compare as the dates.\<close>

definition dated_number :: "string \<Rightarrow> int option" where
  "dated_number s = (case json_parse s of Some (JNum n) \<Rightarrow> Some n | _ \<Rightarrow> None)"

definition dated_libs :: libs where
  "dated_libs = sample_libs\<lparr>collate := (\<lambda>a b. case (dated_number a, dated_number b) of
     (Some m, Some n) \<Rightarrow> m \<le> n | _ \<Rightarrow> True)\<rparr>"

definition dated_reader :: text_reader where
  "dated_reader = \<lparr>js_date = (\<lambda>j. case j of JStr s \<Rightarrow> dated_number s | _ \<Rightarrow> None), js_floor = dated_number,
     datetime_text = (\<lambda>_. True), id_position = (\<lambda>_. 7)\<rparr>"

lemma dated_number_show: "dated_number (show_int n) = Some n"
  using json_parse_stringify [of "JNum n"] by (simp add: dated_number_def)

theorem next_cursor_round_trip_witness:
  "\<exists>t i. decodeCursor dated_reader (encodeCursor dated_libs (Some (5, 7))) (sample_world sample_db) =
      (Inr (Some (t, i)), sample_world sample_db) \<and> cursor_position dated_reader (Some (t, i)) = Some (5, 7)"
proof -
  have "reads_cursor dated_reader dated_libs (5, 7)"
    by (simp add: reads_cursor_def dated_reader_def dated_libs_def dated_number_show)
  from next_cursor_round_trip [OF this] show ?thesis by blast
qed

definition event_at :: "uuid \<Rightarrow> time \<Rightarrow> nat \<Rightarrow> event_row" where
  "event_at i t n = \<lparr>se_id = i, se_userId = None, se_eventType = ''x'', se_payload = JNull, se_createdAt = t, se_micros = n\<rparr>"

definition export_world :: world where
  "export_world = sample_world (sample_db\<lparr>auditLogs := [], securityEvents := [event_at 1 20 5, event_at 2 10 7]\<rparr>)"


end
