(* ===== verification/ServerApp.thy ===== *)
theory ServerApp
  imports AuditRoutes OidcAdapter
begin

text \<open>
  apps/idp-server/src/app.ts: the application as one function from requests to answers. The routes
  of all modules in the order they are mounted, the services composed from the settings
  (composition/), the JSON of the answers, the error handler and the middlewares.
\<close>

abbreviation bind :: "('w, 'a) act \<Rightarrow> ('a \<Rightarrow> ('w, 'b) act) \<Rightarrow> ('w, 'b) act" where
  "bind \<equiv> Prelude.bind"

section \<open>Composition\<close>

text \<open>
  What the process runs with: its settings, the packages, and the world outside. \<open>dp_match\<close> is the
  router of the hono package: the position of the route, in the list of methods and patterns, that
  handles a method and a path, with the parameters of the path. \<open>dp_fetch\<close> is an HTTP request: nothing
  when it fails, otherwise whether the status is a success and the body when it is JSON.
  \<open>dp_redis\<close> is the answer to PING and \<open>dp_db\<close> whether the database answers.
\<close>

record deployment =
  dp_env :: server_env
  dp_libs :: libs
  dp_zod :: zod
  dp_turnstile :: siteverify
  dp_passkeys :: webauthn_lib
  dp_keys :: key_libs
  dp_reader :: text_reader
  dp_url :: "string \<Rightarrow> bool"
  dp_date_parse :: "string \<Rightarrow> time"
  dp_fetch :: "string \<Rightarrow> (bool \<times> json option) option"
  dp_redis :: "string option"
  dp_db :: bool
  dp_render :: "io_event list \<Rightarrow> string"
  dp_match :: "(string \<times> string) list \<Rightarrow> string \<Rightarrow> string \<Rightarrow> (nat \<times> (string \<Rightarrow> string)) option"
  dp_fuel :: nat

definition rbac_of :: "deployment \<Rightarrow> rbac_service" where
  "rbac_of D = (let env = dp_env D in
     \<lparr>rb_cache = RedisRBACCache (dp_redis D \<noteq> None), rb_cacheEnabled = RBAC_CACHE_ENABLED env,
      rb_cachePercent = RBAC_CACHE_PERCENT env, rb_authTtlSeconds = RBAC_CACHE_AUTH_TTL_SECONDS env,
      rb_entitlementTtlSeconds = RBAC_CACHE_ENT_TTL_SECONDS env,
      rb_negativeTtlSeconds = RBAC_CACHE_NEGATIVE_TTL_SECONDS env\<rparr>)"

definition webauthn_of :: "deployment \<Rightarrow> webauthn_service" where
  "webauthn_of D = (let env = dp_env D in
     \<lparr>wa_rpName = WEBAUTHN_RP_NAME env, wa_rpID = WEBAUTHN_RP_ID env, wa_origin = WEBAUTHN_ORIGIN env, wa_hook = True\<rparr>)"

definition key_options_of :: "deployment \<Rightarrow> key_options" where
  "key_options_of D = \<lparr>ko_rotationIntervalHours = JWKS_ROTATION_INTERVAL_HOURS (dp_env D),
     ko_gracePeriodHours = JWKS_GRACE_PERIOD_HOURS (dp_env D)\<rparr>"

section \<open>Answers\<close>

text \<open>The body of \<open>c.notFound()\<close> is the package's own.\<close>

datatype http_body = JsonBody json | MetricsBody string | NotFoundBody

record http_answer =
  ha_status :: nat
  ha_body :: http_body
  ha_cookies :: "string list"

definition json_answer :: "nat \<Rightarrow> json \<Rightarrow> http_answer" where
  "json_answer status body = \<lparr>ha_status = status, ha_body = JsonBody body, ha_cookies = []\<rparr>"

definition answered :: "(json io) \<Rightarrow> http_answer io" where
  "answered m = bind m (\<lambda>body. ret (json_answer 200 body))"

definition of_route :: "route_answer io \<Rightarrow> http_answer io" where
  "of_route m = bind m (\<lambda>a. ret \<lparr>ha_status = 200, ha_body = JsonBody (an_body a), ha_cookies = an_cookies a\<rparr>)"

definition of_status_route :: "status_answer io \<Rightarrow> http_answer io" where
  "of_status_route m = bind m (\<lambda>a. ret
     \<lparr>ha_status = or_else (an_status a) 200, ha_body = JsonBody (an_body a), ha_cookies = an_cookies a\<rparr>)"

definition rendered :: "('a \<Rightarrow> json) \<Rightarrow> 'a io \<Rightarrow> http_answer io" where
  "rendered f m = answered (bind m (\<lambda>v. ret (f v)))"

definition jtime_opt :: "libs \<Rightarrow> time option \<Rightarrow> json" where
  "jtime_opt L v = (case v of None \<Rightarrow> JNull | Some t \<Rightarrow> jtime L t)"

definition jint_opt :: "int option \<Rightarrow> json" where
  "jint_opt v = (case v of None \<Rightarrow> JNull | Some n \<Rightarrow> JNum n)"

definition jtexts :: "string list \<Rightarrow> json" where
  "jtexts xs = JArr (map JStr xs)"

definition settings_json :: "all_settings \<Rightarrow> json" where
  "settings_json s = JObj
     [(''socialLogin'', JObj [(''google'', social_to_json (as_google s))]),
      (''notifications'', notification_to_json (as_notifications s)),
      (''emailTemplates'', JObj [(''signup_verify'', template_to_json (as_signupVerify s)),
         (''password_reset'', template_to_json (as_passwordReset s))])]"

definition key_state_text :: "key_state \<Rightarrow> string" where
  "key_state_text s = (case s of KeyActive \<Rightarrow> ''active'' | KeyGrace \<Rightarrow> ''grace'' | KeyRevoked \<Rightarrow> ''revoked'')"

definition key_json :: "libs \<Rightarrow> key_view \<Rightarrow> json" where
  "key_json L k = JObj
     [(''kid'', juuid (kv_kid k)), (''alg'', JStr (kv_alg k)), (''isActive'', JBool (kv_isActive k)),
      (''rotatedFromKid'', uuid_or_null (kv_rotatedFromKid k)), (''rotationReason'', jstr_opt (kv_rotationReason k)),
      (''createdAt'', jtime L (kv_createdAt k)), (''expiresAt'', jtime_opt L (kv_expiresAt k)),
      (''revokedAt'', jtime_opt L (kv_revokedAt k)), (''state'', JStr (key_state_text (kv_state k)))]"

definition keys_json :: "libs \<Rightarrow> key_view list \<Rightarrow> json" where
  "keys_json L ks = JObj [(''keys'', JArr (map (key_json L) ks))]"

definition client_json :: "libs \<Rightarrow> client_view \<Rightarrow> json" where
  "client_json L v = (let c = vw_client v in JObj
     [(''id'', juuid (oc_id c)), (''clientId'', JStr (oc_clientId c)), (''name'', JStr (oc_name c)),
      (''clientType'', JStr (oc_clientType c)), (''tokenEndpointAuthMethod'', JStr (oc_tokenEndpointAuthMethod c)),
      (''status'', JStr (oc_status c)), (''accessTokenTtlSeconds'', jint_opt (oc_accessTokenTtlSeconds c)),
      (''refreshTokenTtlSeconds'', jint_opt (oc_refreshTokenTtlSeconds c)), (''createdAt'', jtime L (oc_createdAt c)),
      (''updatedAt'', jtime L (oc_updatedAt c)), (''redirectUris'', jtexts (vw_redirectUris v)),
      (''allowedScopes'', jtexts (vw_allowedScopes v))])"

definition clients_json :: "libs \<Rightarrow> client_view list \<Rightarrow> json" where
  "clients_json L vs = JObj [(''clients'', JArr (map (client_json L) vs))]"

definition created_json :: "created_client \<Rightarrow> json" where
  "created_json c = JObj
     [(''status'', JStr ''created''), (''clientId'', JStr (cc_clientId c)), (''clientSecret'', JStr (cc_clientSecret c)),
      (''secretHint'', JStr (cc_secretHint c))]"

definition updated_json :: "string \<Rightarrow> json" where
  "updated_json clientId = JObj [(''status'', JStr ''updated''), (''clientId'', JStr clientId)]"

definition rotated_json :: "string \<Rightarrow> rotated_client \<Rightarrow> json" where
  "rotated_json clientId v = JObj
     [(''status'', JStr ''rotated''), (''clientId'', JStr clientId), (''clientSecret'', JStr (ro_clientSecret v)),
      (''secretHint'', JStr (ro_secretHint v)), (''graceUntil'', jstr_opt (ro_graceUntil v))]"

definition integrity_json :: "integrity_report \<Rightarrow> json" where
  "integrity_json v = JObj
     [(''ok'', JBool (ir_ok v)), (''checked'', jnat (ir_checked v)), (''firstId'', uuid_or_null (ir_firstId v)),
      (''lastId'', uuid_or_null (ir_lastId v)), (''brokenAt'', uuid_or_null (ir_brokenAt v)),
      (''reason'', jstr_opt (ir_reason v))]"

definition export_json :: "audit_export \<Rightarrow> json" where
  "export_json v = JObj
     [(''exportId'', juuid (ax_exportId v)), (''status'', JStr ''completed''),
      (''manifest'', JObj [(''recordCount'', jnat (ax_recordCount v)), (''sha256'', JStr (ax_sha256 v)),
         (''generatedAt'', JStr (ax_generatedAt v))]),
      (''format'', JStr ''jsonl''), (''data'', JStr (ax_data v)), (''truncated'', JBool (ax_truncated v))]"

definition admin_row_json :: "admin_row \<Rightarrow> json" where
  "admin_row_json a = JObj
     [(''userId'', juuid (ad_userId a)), (''email'', jstr_opt (ad_email a)), (''roles'', jtexts (ad_roles a)),
      (''permissions'', jtexts (ad_permissions a))]"

definition snapshot_json :: "access_snapshot \<Rightarrow> json" where
  "snapshot_json v = JObj
     [(''generatedAt'', JStr (xs_generatedAt v)), (''count'', jnat (xs_count v)),
      (''users'', JArr (map admin_row_json (xs_users v)))]"

section \<open>Routes\<close>

text \<open>
  A route: its method, its pattern and its handler, which is given the parameters of the path. One
  list per module, as its \<open>create...Routes\<close> registers them.
\<close>

type_synonym handler = "(string \<Rightarrow> string) \<Rightarrow> admin_http \<Rightarrow> http_answer io"
type_synonym route = "string \<times> string \<times> handler"

definition plain_route :: "(auth_request \<Rightarrow> route_answer io) \<Rightarrow> handler" where
  "plain_route f = (\<lambda>_ r. of_route (f (auth_request.truncate r)))"

definition json_route :: "('a \<Rightarrow> json) \<Rightarrow> (admin_http \<Rightarrow> 'a io) \<Rightarrow> handler" where
  "json_route render f = (\<lambda>_ r. rendered render (f r))"

definition client_route :: "(string \<Rightarrow> 'a \<Rightarrow> json) \<Rightarrow> (string \<Rightarrow> admin_http \<Rightarrow> 'a io) \<Rightarrow> handler" where
  "client_route render f = (\<lambda>params r. rendered (render (params ''clientId'')) (f (params ''clientId'') r))"

definition createAuthRoutes :: "deployment \<Rightarrow> route list" where
  "createAuthRoutes D = (let Z = dp_zod D; L = dp_libs D; V = dp_turnstile D; env = dp_env D in
     [(''POST'', ''/v1/signup'', plain_route (signup_route Z L V env)),
      (''POST'', ''/v1/login'', plain_route (login_route Z L V env)),
      (''POST'', ''/v1/login/google'', plain_route (google_login_route Z L V env)),
      (''POST'', ''/oauth/token'', plain_route (oauth_token_route (dp_date_parse D) L env)),
      (''POST'', ''/v1/token/refresh'', plain_route (refresh_route L env)),
      (''POST'', ''/oauth/introspection'', plain_route (oauth_introspection_route L env)),
      (''POST'', ''/v1/logout'', plain_route (logout_route L env)),
      (''POST'', ''/v1/email/verify/request'', plain_route (email_verify_request_route Z L env)),
      (''POST'', ''/v1/email/verify/confirm'', plain_route (email_verify_confirm_route L)),
      (''POST'', ''/v1/password/reset/request'', plain_route (password_reset_request_route Z L V env)),
      (''POST'', ''/v1/password/reset/confirm'', plain_route (password_reset_confirm_route L))])"

definition createUserRoutes :: "deployment \<Rightarrow> route list" where
  "createUserRoutes D = (let Z = dp_zod D; L = dp_libs D; env = dp_env D in
     [(''GET'', ''/v1/me'', plain_route (me_route L)),
      (''POST'', ''/v1/password/change'', plain_route (password_change_route L (Some (rbac_of D)) env)),
      (''PATCH'', ''/v1/me'', plain_route (profile_update_route Z L env)),
      (''POST'', ''/v1/identities/google/link'', plain_route (google_link_route L env)),
      (''POST'', ''/v1/identities/google/unlink'', plain_route (google_unlink_route L)),
      (''DELETE'', ''/v1/account'', (\<lambda>_ r. of_status_route (account_delete_route (dp_fuel D) Z L env (auth_request.truncate r))))])"

definition createSessionRoutes :: "deployment \<Rightarrow> route list" where
  "createSessionRoutes D = (let L = dp_libs D in
     [(''GET'', ''/v1/sessions'', plain_route (sessions_route L)),
      (''POST'', ''/v1/sessions/revoke'', plain_route (session_revoke_route (dp_zod D) L (Some (rbac_of D)))),
      (''POST'', ''/v1/sessions/revoke-all'', plain_route (session_revoke_all_route L (Some (rbac_of D))))])"

definition createMfaRoutes :: "deployment \<Rightarrow> route list" where
  "createMfaRoutes D = (let Z = dp_zod D; L = dp_libs D; P = dp_passkeys D; W = webauthn_of D; env = dp_env D in
     [(''POST'', ''/v1/mfa/webauthn/authenticate/options'', plain_route (webauthn_options_route Z P W env)),
      (''POST'', ''/v1/mfa/webauthn/authenticate/verify'', plain_route (webauthn_login_route Z L P W env)),
      (''POST'', ''/v1/mfa/enroll'', plain_route (mfa_enroll_route L)),
      (''POST'', ''/v1/mfa/verify'', plain_route (mfa_verify_route (dp_fuel D) Z L env)),
      (''GET'', ''/v1/mfa/webauthn/register/options'', plain_route (webauthn_register_options_route L P W)),
      (''POST'', ''/v1/mfa/webauthn/register/verify'', plain_route (webauthn_register_route (dp_fuel D) L P W env)),
      (''POST'', ''/v1/mfa/recovery-codes/regenerate'',
         plain_route (regenerate_codes_route (dp_fuel D) Z L (Some (rbac_of D)) env))])"

definition createRbacRoutes :: "deployment \<Rightarrow> route list" where
  "createRbacRoutes D = (let Z = dp_zod D; L = dp_libs D in
     [(''POST'', ''/v1/authorization/check'',
         (\<lambda>_ r. answered (authorization_check_route Z L (rbac_of D) (auth_request.truncate r)))),
      (''POST'', ''/v1/entitlements/check'',
         (\<lambda>_ r. answered (entitlement_check_route Z L (rbac_of D) (auth_request.truncate r))))])"

definition createGovernanceRoutes :: "deployment \<Rightarrow> route list" where
  "createGovernanceRoutes D =
     [(''GET'', ''/v1/governance/permissions/me'', plain_route (my_permissions_route (dp_libs D))),
      (''GET'', ''/v1/admin/governance/access-snapshot'',
         json_route snapshot_json (access_snapshot_route (dp_libs D) (rbac_of D) (dp_env D)))]"

definition createConfigRoutes :: "deployment \<Rightarrow> route list" where
  "createConfigRoutes D = (let L = dp_libs D; S = rbac_of D; env = dp_env D in
     [(''GET'', ''/v1/admin/configs'', json_route settings_json (configs_route L S env)),
      (''PUT'', ''/v1/admin/configs/social-login/google'', (\<lambda>_ r. answered (social_login_route L S env r))),
      (''PUT'', ''/v1/admin/configs/notifications'', (\<lambda>_ r. answered (notifications_route (dp_zod D) L S env r))),
      (''PUT'', ''/v1/admin/configs/email-template'', (\<lambda>_ r. answered (email_template_route L S env r)))])"

definition createOAuthClientRoutes :: "deployment \<Rightarrow> route list" where
  "createOAuthClientRoutes D = (let L = dp_libs D; S = rbac_of D; env = dp_env D in
     [(''GET'', ''/v1/admin/oauth/clients'', json_route (clients_json L) (clients_route L S env)),
      (''POST'', ''/v1/admin/oauth/clients'', json_route created_json (client_create_route (dp_url D) L S env)),
      (''PUT'', ''/v1/admin/oauth/clients/:clientId'',
         client_route (\<lambda>_. updated_json) (\<lambda>i. client_update_route (dp_url D) i L S env)),
      (''POST'', ''/v1/admin/oauth/clients/:clientId/rotate-secret'',
         client_route rotated_json (\<lambda>i. client_rotate_route i L S env)),
      (''POST'', ''/v1/admin/oauth/clients/:clientId/disable'',
         client_route (\<lambda>_. updated_json) (\<lambda>i. client_status_route ''disabled'' i L S env)),
      (''POST'', ''/v1/admin/oauth/clients/:clientId/enable'',
         client_route (\<lambda>_. updated_json) (\<lambda>i. client_status_route ''active'' i L S env))])"

definition createKeyManagementRoutes :: "deployment \<Rightarrow> route list" where
  "createKeyManagementRoutes D = (let L = dp_libs D; S = rbac_of D; env = dp_env D; opts = key_options_of D; K = dp_keys D in
     [(''GET'', ''/v1/admin/keys'', json_route (keys_json L) (keys_route L S env)),
      (''POST'', ''/v1/admin/keys/rotate'', (\<lambda>_ r. answered (key_rotate_route opts K L S env r))),
      (''POST'', ''/v1/admin/keys/rotate-emergency'', (\<lambda>_ r. answered (key_emergency_route opts K L S env r)))])"

definition createAuditRoutes :: "deployment \<Rightarrow> route list" where
  "createAuditRoutes D = (let R = dp_reader D; L = dp_libs D; S = rbac_of D; env = dp_env D in
     [(''GET'', ''/v1/admin/audit/logs'', (\<lambda>_ r. answered (audit_logs_route R (dp_zod D) L S env r))),
      (''GET'', ''/v1/admin/audit/security-events'', (\<lambda>_ r. answered (security_events_route R (dp_zod D) L S env r))),
      (''GET'', ''/v1/admin/audit/integrity'', json_route integrity_json (integrity_route R L S env)),
      (''POST'', ''/v1/admin/audit/exports'', json_route export_json (audit_export_route R L S env))])"

section \<open>The routes of the application itself\<close>

definition markDependency :: "string \<Rightarrow> bool \<Rightarrow> unit io" where
  "markDependency dependency up = bind (emit (Metric ''dependency_up'' [dependency, if up then ''1'' else ''0''])) (\<lambda>_.
     whenever (\<not> up) (emit (Metric ''dependency_errors_total'' [dependency])))"

definition code_message :: "string \<Rightarrow> string \<Rightarrow> json" where
  "code_message code message = JObj [(''code'', JStr code), (''message'', JStr message)]"

definition readyz :: "deployment \<Rightarrow> http_answer io" where
  "readyz D = (let redisReady = (dp_redis D = Some ''PONG'') in
     bind (markDependency ''db'' (dp_db D)) (\<lambda>_.
     bind (markDependency ''redis'' redisReady) (\<lambda>_.
     ret (if \<not> dp_db D \<or> \<not> redisReady
          then json_answer 503 (code_message ''dependency_unavailable'' ''One or more dependencies are unavailable'')
          else json_answer 200 (JObj [(''ready'', JBool True)])))))"

definition not_found :: http_answer where
  "not_found = \<lparr>ha_status = 404, ha_body = NotFoundBody, ha_cookies = []\<rparr>"

text \<open>The metrics are rendered by the prom-client package from what was counted.\<close>

definition metrics_route :: "deployment \<Rightarrow> admin_http \<Rightarrow> http_answer io" where
  "metrics_route D r = (let token = js_trim (METRICS_BEARER_TOKEN (dp_env D)) in
     if \<not> METRICS_ENABLED (dp_env D) then ret not_found
     else if token \<noteq> [] \<and> wr_authorization r \<noteq> Some (''Bearer '' @ token)
     then ret (json_answer 401 (code_message ''unauthorized'' ''Unauthorized metrics access''))
     else bind (gets emitted) (\<lambda>es. ret \<lparr>ha_status = 200, ha_body = MetricsBody (dp_render D es), ha_cookies = []\<rparr>))"

definition within_discovery_rate :: "deployment \<Rightarrow> admin_http \<Rightarrow> http_answer io \<Rightarrow> http_answer io" where
  "within_discovery_rate D r m =
     bind (rate_consume (''discovery:'' @ or_unknown (getIpAddress (rq_forwardedFor r)))
             (RATE_LIMIT_DISCOVERY_PER_MIN (dp_env D)) 60) (\<lambda>rate.
     if \<not> rl_allowed rate then ret (json_answer 429 (code_message ''rate_limited'' ''Too many requests'')) else m)"

definition discovery_unavailable :: "http_answer io" where
  "discovery_unavailable = bind (markDependency ''oidc'' False) (\<lambda>_.
     ret (json_answer 502 (code_message ''oidc_discovery_unavailable'' ''OIDC discovery is unavailable'')))"

text \<open>A body that is not JSON throws after the dependency was marked up.\<close>

definition discovery_route :: "deployment \<Rightarrow> admin_http \<Rightarrow> http_answer io" where
  "discovery_route D r = within_discovery_rate D r
     (case dp_fetch D (OIDC_ISSUER (dp_env D) @ ''/.well-known/openid-configuration'') of
        None \<Rightarrow> discovery_unavailable
      | Some (False, _) \<Rightarrow> discovery_unavailable
      | Some (True, body) \<Rightarrow> bind (markDependency ''oidc'' True) (\<lambda>_.
          case body of None \<Rightarrow> discovery_unavailable | Some j \<Rightarrow> ret (json_answer 200 j)))"

definition jwks_route :: "deployment \<Rightarrow> admin_http \<Rightarrow> http_answer io" where
  "jwks_route D r = within_discovery_rate D r
     (bind (getPublicJwks (dp_keys D)) (\<lambda>keys. ret (json_answer 200 (JObj [(''keys'', JArr keys)]))))"

definition own_routes :: "deployment \<Rightarrow> route list" where
  "own_routes D =
     [(''GET'', ''/healthz'', (\<lambda>_ _. ret (json_answer 200 (JObj [(''ok'', JBool True)])))),
      (''GET'', ''/readyz'', (\<lambda>_ _. readyz D)),
      (''GET'', ''/metrics'', (\<lambda>_. metrics_route D)),
      (''GET'', ''/.well-known/openid-configuration'', (\<lambda>_. discovery_route D)),
      (''GET'', ''/.well-known/jwks.json'', (\<lambda>_. jwks_route D)),
      (''POST'', ''/oauth/revocation'', plain_route (oauth_revocation_route (dp_libs D) (dp_env D)))]"

definition app_routes :: "deployment \<Rightarrow> route list" where
  "app_routes D = createAuthRoutes D @ createUserRoutes D @ createSessionRoutes D @ createMfaRoutes D @
     createRbacRoutes D @ createGovernanceRoutes D @ createConfigRoutes D @ createOAuthClientRoutes D @
     createKeyManagementRoutes D @ createAuditRoutes D @ own_routes D"

section \<open>Metric labels\<close>

text \<open>
  The three replacements of \<open>normalizePath\<close>. A matcher is given the character before a position and the
  text from there on and answers how many characters match; a replacement goes on after the match.
\<close>

definition digit_char :: "char \<Rightarrow> bool" where
  "digit_char c \<longleftrightarrow> (let n = of_char c :: nat in 48 \<le> n \<and> n \<le> 57)"

definition letter_char :: "char \<Rightarrow> bool" where
  "letter_char c \<longleftrightarrow> (let n = of_char c :: nat in 65 \<le> n \<and> n \<le> 90 \<or> 97 \<le> n \<and> n \<le> 122)"

definition word_char :: "char \<Rightarrow> bool" where
  "word_char c \<longleftrightarrow> digit_char c \<or> letter_char c \<or> c = CHR ''_''"

definition hex_digit_char :: "char \<Rightarrow> bool" where
  "hex_digit_char c \<longleftrightarrow> digit_char c \<or> (let n = of_char c :: nat in 65 \<le> n \<and> n \<le> 70 \<or> 97 \<le> n \<and> n \<le> 102)"

definition word_boundary :: "char option \<Rightarrow> string \<Rightarrow> bool" where
  "word_boundary before rest \<longleftrightarrow>
     (case before of None \<Rightarrow> False | Some c \<Rightarrow> word_char c) \<noteq> (case rest of [] \<Rightarrow> False | c # _ \<Rightarrow> word_char c)"

type_synonym matcher = "char option \<Rightarrow> string \<Rightarrow> nat option"

definition uuid_match :: matcher where
  "uuid_match before s =
     (if word_boundary before s \<and> 36 \<le> length s \<and>
         list_all (\<lambda>i. if i \<in> {8, 13, 18, 23} then s ! i = CHR ''-'' else hex_digit_char (s ! i)) [0..<36] \<and>
         word_boundary (Some (s ! 35)) (drop 36 s)
      then Some 36 else None)"

text \<open>A greedy run of a class of at least so many characters, given back until it ends at a boundary.\<close>

definition run_match :: "(char \<Rightarrow> bool) \<Rightarrow> nat \<Rightarrow> matcher" where
  "run_match cls least before s =
     (if word_boundary before s
      then find (\<lambda>m. word_boundary (Some (s ! (m - 1))) (drop m s)) (rev [least..<Suc (length (takeWhile cls s))])
      else None)"

function replaced_all :: "matcher \<Rightarrow> string \<Rightarrow> char option \<Rightarrow> string \<Rightarrow> string" where
  "replaced_all m sub before [] = []"
| "replaced_all m sub before (c # cs) = (case m before (c # cs) of
     None \<Rightarrow> c # replaced_all m sub (Some c) cs
   | Some n \<Rightarrow> sub @ replaced_all m sub (Some ((c # cs) ! (n - 1))) (drop (n - 1) cs))"
  by pat_completeness auto
termination by (relation "measure (\<lambda>(_, _, _, s). length s)") auto

definition normalizePath :: "string \<Rightarrow> string" where
  "normalizePath path = replaced_all (run_match (\<lambda>c. word_char c \<or> c = CHR ''-'') 24) '':token'' None
     (replaced_all (run_match digit_char 1) '':num'' None
       (replaced_all uuid_match '':id'' None path))"

definition toStatusClass :: "nat \<Rightarrow> string" where
  "toStatusClass statusCode = show_nat (statusCode div 100) @ ''xx''"

text \<open>The duration of a request is not modelled.\<close>

definition observeHttpRequest :: "string \<Rightarrow> string \<Rightarrow> nat \<Rightarrow> unit io" where
  "observeHttpRequest method path statusCode =
     (let labels = [method, normalizePath path, toStatusClass statusCode] in
      bind (emit (Metric ''http_requests_total'' labels)) (\<lambda>_.
      emit (Metric ''http_request_duration_seconds'' labels)))"

section \<open>Requests\<close>

text \<open>What the error handler makes of what a handler threw.\<close>

definition error_body :: "string \<Rightarrow> string \<Rightarrow> string \<Rightarrow> json" where
  "error_body traceId code message =
     JObj [(''code'', JStr code), (''message'', JStr message), (''traceId'', JStr traceId)]"

definition handleError :: "string \<Rightarrow> err \<Rightarrow> http_answer" where
  "handleError traceId e = (case e of
     ApiError status code message \<Rightarrow> json_answer status (error_body traceId code message)
   | _ \<Rightarrow> json_answer 500 (error_body traceId ''internal_error'' ''Internal Server Error''))"

definition dispatch :: "deployment \<Rightarrow> admin_http \<Rightarrow> http_answer io" where
  "dispatch D r = (let routes = app_routes D in
     case dp_match D (map (\<lambda>(method, path, _). (method, path)) routes) (wr_method r) (rq_path r) of
       None \<Rightarrow> ret not_found
     | Some (i, params) \<Rightarrow>
         if i < length routes then (case routes ! i of (_, _, handler) \<Rightarrow> handler params r) else ret not_found)"

text \<open>The trace identifier of the active span, when tracing has one.\<close>

record http_request = admin_http +
  hq_span :: "string option"

record http_response =
  hr_answer :: http_answer
  hr_traceId :: string

definition traced :: "http_request \<Rightarrow> string io" where
  "traced r = (case hq_span r of Some i \<Rightarrow> ret i | None \<Rightarrow> bind draw_uuid (\<lambda>u. ret (uuid_text u)))"

definition serve :: "deployment \<Rightarrow> http_request \<Rightarrow> http_response io" where
  "serve D r =
     bind (traced r) (\<lambda>traceId.
     bind (try_catch (dispatch D (admin_http.truncate r)) (\<lambda>e. ret (handleError traceId e))) (\<lambda>answer.
     bind (observeHttpRequest (wr_method r) (rq_path r) (ha_status answer)) (\<lambda>_.
     ret \<lparr>hr_answer = answer, hr_traceId = traceId\<rparr>)))"

section \<open>Start and notifications\<close>

text \<open>\<open>bootstrap\<close> up to the provider: a due rotation with its event, then the keys the provider signs with.\<close>

definition scheduled_rotation :: "deployment \<Rightarrow> unit io" where
  "scheduled_rotation D =
     bind (rotateIfDue (key_options_of D) (dp_keys D)) (\<lambda>rotation.
     whenever (kr_rotated rotation)
       (createSecurityEvent ''key.rotation.scheduled'' None
         (JObj [(''activeKid'', juuid (kr_activeKid rotation)), (''previousKid'', uuid_or_null (kr_previousKid rotation))])))"

definition startup :: "deployment \<Rightarrow> json list io" where
  "startup D = bind (scheduled_rotation D) (\<lambda>_. getActivePrivateJwks (dp_keys D))"

text \<open>
  core/security-notifier.ts, the handler of the security events of the passkey service: the line it logs,
  when the level is one of the settings and there are recipients.
\<close>

definition inferLevel :: "string \<Rightarrow> string" where
  "inferLevel eventType = (if has_part ''reuse_detected'' eventType then ''Critical'' else ''Warning'')"

definition security_notification :: "notification_config \<Rightarrow> string \<Rightarrow> uuid option \<Rightarrow> io_event option" where
  "security_notification settings eventType userId = (let level = inferLevel eventType in
     if level \<notin> set (no_alertLevels settings) \<or> no_recipients settings = [] then None
     else Some (LogLine ''security notification queued'' (JObj
       [(''event'', JStr ''security.notification.queued''), (''level'', JStr level), (''recipients'', jtexts (no_recipients settings)),
        (''securityEventType'', JStr eventType), (''userId'', uuid_or_null userId)])))"

definition notify :: "string \<Rightarrow> uuid option \<Rightarrow> unit io" where
  "notify eventType userId = bind (read_db getNotificationConfig) (\<lambda>settings.
     case security_notification settings eventType userId of None \<Rightarrow> ret () | Some line \<Rightarrow> emit line)"

end
