(* ===== verification/ApiWrites.thy ===== *)
theory ApiWrites
  imports IdpWrites ServerApp OidcInteractions
begin

text \<open>
  The statements behind every endpoint of the server, as an interface: \<open>api_writes\<close> adds to
  \<open>idp_writes\<close> those of the account, administration and passkey services. Inside it, every
  endpoint respects the relation.
\<close>

section \<open>The interface\<close>

locale api_writes = idp_writes r for r :: "database \<Rightarrow> database \<Rightarrow> bool" +
  assumes a_unlink: "r d (externalIdentities_update (delete_where q) d)"
    and a_profile: "(\<And>p. pf_userId (g p) = pf_userId p) \<Longrightarrow> uniq_profiles (update_where pq g (userProfiles d)) \<Longrightarrow>
      r d (userProfiles_update (update_where pq g) d)"
    and a_mark: "r d (users_update (update_where pu (mark_deleted_row t requested due)) d)"
    and a_passkey: "r d (mfaFactors_update (update_where pk (\<lambda>f. f\<lparr>mf_webauthnData := v\<rparr>)) d)"
    and a_config: "r d (systemConfigs_update h_config d)"
    and a_keys: "r d (signingKeys_update h_keys d)"
    and a_clients: "r d (oauthClients_update h_clients d)"
    and a_secrets: "r d (oauthClientSecrets_update h_secrets d)"
    and a_redirects: "r d (oauthClientRedirectUris_update h_redirects d)"
    and a_scopes: "r d (oauthClientScopes_update h_scopes d)"
    and a_client_audit: "r d (oauthClientAuditLogs_update h_audit d)"
    and a_oidc: "r d (oidcProviderStates_update h_oidc d)"
begin

section \<open>Caches and challenges\<close>

lemma a_safe_redis_put [safe_intros]: "safe (on_db r) (redis_put k v)"
  by (simp add: redis_put_def modify_def safe_def on_db_def db_refl)

lemma a_safe_cache_get [safe_intros]: "safe (on_db r) (cache_get c k)"
  by (cases c) (auto intro!: safe_intros)

lemma a_safe_cache_set [safe_intros]: "safe (on_db r) (cache_set c k v t)"
  by (cases c) (auto intro!: safe_intros)

lemma a_safe_cache_delete [safe_intros]: "safe (on_db r) (cache_deleteByPrefix c p)"
  by (cases c) (simp_all add: modify_def safe_def on_db_def db_refl throw_def ret_def)

lemmas metric_defs = observeRbacCacheLookupDuration_def recordRbacCacheHit_def recordRbacCacheMiss_def
  recordRbacCacheError_def recordRbacAuthorizationDecision_def recordRbacEntitlementDecision_def
  recordRbacCacheInvalidation_def recordBotChallengeResult_def recordBotBlock_def

lemma a_safe_cached_answer [safe_intros]: "safe (on_db r) (cached_answer c k key)"
  unfolding cached_answer_def metric_defs by (intro safe_intros)

lemma a_safe_store_answer [safe_intros]: "safe (on_db r) (store_answer c k v t)"
  unfolding store_answer_def metric_defs by (intro safe_intros)

lemma a_safe_authorizationCheck [safe_intros]: "safe (on_db r) (RBACService_authorizationCheck S q)"
  unfolding RBACService_authorizationCheck_def metric_defs by (intro safe_intros)

lemma a_safe_entitlementCheck [safe_intros]: "safe (on_db r) (RBACService_entitlementCheck S q)"
  unfolding RBACService_entitlementCheck_def metric_defs by (intro safe_intros)

lemma a_safe_invalidateUserCache [safe_intros]: "safe (on_db r) (invalidateUserCache S u)"
  unfolding invalidateUserCache_def invalidate_def metric_defs by (intro safe_intros)

lemma a_safe_assertAdminPermission [safe_intros]: "safe (on_db r) (assertAdminPermission S env i)"
  unfolding assertAdminPermission_def by (intro safe_intros)

section \<open>Accounts\<close>

lemma a_safe_requireActiveUser [safe_intros]: "safe (on_db r) (requireActiveUser u)"
  unfolding requireActiveUser_def by (intro safe_intros)

lemma a_safe_getMe [safe_intros]: "safe (on_db r) (UserService_getMe u)"
  unfolding UserService_getMe_def by (intro safe_intros)

lemma a_safe_upsert_profile [safe_intros]: "safe (on_db r) (UserProfileRepository_upsert L u p)"
  unfolding UserProfileRepository_upsert_def
  by (intro safe_intros safe_update_unique safe_insert_row a_profile i_profile) (auto simp: patch_profile_def)

lemma a_safe_audit_tx [safe_intros]: "safe (on_db r) (createAuditLog_tx L u a rt ri p)"
  unfolding createAuditLog_tx_def by (intro safe_intros)

lemma a_safe_updateProfile [safe_intros]: "safe (on_db r) (updateProfile L u p)"
  unfolding updateProfile_def write_profile_def by (intro safe_intros)

lemma a_safe_verifyCurrentPassword [safe_intros]: "safe (on_db r) (UserService_verifyCurrentPassword L u p)"
  unfolding UserService_verifyCurrentPassword_def by (intro safe_intros)

lemma a_safe_changePassword [safe_intros]: "safe (on_db r) (UserService_changePassword L u p q)"
  unfolding UserService_changePassword_def by (intro safe_intros)

lemma a_safe_link [safe_intros]: "safe (on_db r) (UserService_linkGoogleIdentity L u t c)"
  unfolding UserService_linkGoogleIdentity_def by (intro safe_intros)

lemma a_safe_unlink [safe_intros]: "safe (on_db r) (UserService_unlinkSocialIdentity u p s)"
  unfolding UserService_unlinkSocialIdentity_def IdentityRepository_delete_def
  by (intro safe_intros safe_delete_rows a_unlink)

lemma a_safe_invalidate_if [safe_intros]: "safe (on_db r) (invalidate_if S u)"
  unfolding invalidate_if_def by (intro safe_intros)

lemma a_safe_revokeSession [safe_intros]: "safe (on_db r) (SessionService_revokeSession S u i)"
  unfolding SessionService_revokeSession_def by (intro safe_intros)

lemma a_safe_revokeAllSessions [safe_intros]: "safe (on_db r) (SessionService_revokeAllSessions S u)"
  unfolding SessionService_revokeAllSessions_def by (intro safe_intros)

lemma a_safe_markAsDeleted [safe_intros]: "safe (on_db r) (markAsDeleted u a b c)"
  unfolding markAsDeleted_def by (intro safe_intros safe_update_rows a_mark i_revoke)

lemma a_safe_case_err: "(\<And>s c m. safe R (f s c m)) \<Longrightarrow> (\<And>c. safe R (g c)) \<Longrightarrow>
  (\<And>k m i. safe R (h k m i)) \<Longrightarrow> (\<And>m. safe R (p m)) \<Longrightarrow>
  safe R (case e of ApiError s c m \<Rightarrow> f s c m | DbError c \<Rightarrow> g c | ServerSdkError k m i \<Rightarrow> h k m i | PlainError m \<Rightarrow> p m)"
  by (cases e) auto

lemma a_safe_requestDeletion [safe_intros]: "safe (on_db r) (requestDeletion fuel L env u re)"
  unfolding requestDeletion_def already_scheduled_def check_password_def check_mfa_def
  by (intro safe_intros a_safe_case_err)

section \<open>Passkeys\<close>

lemma a_safe_read_challenge [safe_intros]: "safe (on_db r) (read_challenge k)"
  unfolding read_challenge_def by (intro safe_intros)

lemma a_safe_store_challenge [safe_intros]: "safe (on_db r) (store_challenge k c)"
  unfolding store_challenge_def by (intro safe_intros)

lemma a_safe_registration_options [safe_intros]: "safe (on_db r) (generateRegistrationOptions P W u e)"
  unfolding generateRegistrationOptions_def by (intro safe_intros)

lemma a_safe_authentication_options [safe_intros]: "safe (on_db r) (generateAuthenticationOptions P W u)"
  unfolding generateAuthenticationOptions_def by (intro safe_intros)

lemma a_safe_register [safe_intros]: "safe (on_db r) (verifyRegistrationResponse P W u b n)"
  unfolding verifyRegistrationResponse_def insert_factor_def
  by (intro safe_intros safe_insert_row i_factor) auto

lemma a_safe_verify_passkey [safe_intros]: "safe (on_db r) (verifyAuthenticationResponse P W u b)"
  unfolding verifyAuthenticationResponse_def by (intro safe_intros safe_update_rows a_passkey)

section \<open>Administration\<close>

lemma a_safe_upsertConfig [safe_intros]: "safe (on_db r) (upsertConfig k v)"
  unfolding upsertConfig_def by (intro safe_intros safe_write_db a_config)

lemma a_safe_insert_key [safe_intros]: "safe (on_db r) (insert_key k)"
  unfolding insert_key_def by (intro safe_insert_row a_keys)

lemma a_safe_ensureKeyExists [safe_intros]: "safe (on_db r) (ensureKeyExists K)"
  unfolding ensureKeyExists_def createRsaKeyPair_def by (intro safe_intros)

lemma a_safe_rotateNow [safe_intros]: "safe (on_db r) (rotateNow opts K why actor)"
  unfolding rotateNow_def createRsaKeyPair_def by (intro safe_intros safe_update_rows a_keys)

lemma a_safe_insert_redirects [safe_intros]: "safe (on_db r) (insert_redirects c us)"
  unfolding insert_redirects_def by (intro safe_intros safe_insert_row a_redirects)

lemma a_safe_insert_scopes [safe_intros]: "safe (on_db r) (insert_scopes c ss)"
  unfolding insert_scopes_def by (intro safe_intros safe_insert_row a_scopes)

lemma a_safe_insert_secret [safe_intros]: "safe (on_db r) (insert_secret c h i)"
  unfolding insert_secret_def by (intro safe_intros safe_insert_row a_secrets)

lemma a_safe_insert_client_audit [safe_intros]: "safe (on_db r) (insert_client_audit c u e p)"
  unfolding insert_client_audit_def by (intro safe_intros safe_insert_row a_client_audit)

lemma a_safe_createClient [safe_intros]: "safe (on_db r) (OAuthClientService_createClient L u c i)"
  unfolding OAuthClientService_createClient_def createClientSecret_def OAuthClientRepository_createClient_def
  by (intro safe_intros safe_insert_row a_clients)

lemma a_safe_updateClient [safe_intros]: "safe (on_db r) (OAuthClientService_updateClient u c p)"
  unfolding OAuthClientService_updateClient_def OAuthClientRepository_updateClient_def
  by (intro safe_intros safe_update_rows safe_delete_rows a_clients a_redirects a_scopes)

lemma a_safe_rotateSecret [safe_intros]: "safe (on_db r) (OAuthClientService_rotateSecret L u c days)"
  unfolding OAuthClientService_rotateSecret_def createClientSecret_def OAuthClientRepository_rotateSecret_def
  by (intro safe_intros safe_update_rows a_clients a_secrets)

lemma a_safe_authenticateClient [safe_intros]: "safe (on_db r) (authenticateClientBasic L env a)"
  unfolding authenticateClientBasic_def by (intro safe_intros)

section \<open>Endpoints\<close>

lemma a_safe_case_bool [safe_intros]:
  "safe R m \<Longrightarrow> safe R n \<Longrightarrow> safe R (case b of True \<Rightarrow> m | False \<Rightarrow> n)"
  by (cases b) auto

lemma a_safe_case_login [safe_intros]:
  "(\<And>u k. safe R (f u k)) \<Longrightarrow> (\<And>a. safe R (g a)) \<Longrightarrow> safe R (case v of MfaRequired u k \<Rightarrow> f u k | LoggedIn a \<Rightarrow> g a)"
  by (cases v) auto

lemma a_safe_case_prod [safe_intros]:
  "(\<And>a b. safe R (f a b x)) \<Longrightarrow> safe R ((case p of (a, b) \<Rightarrow> f a b) x)"
  by (cases p) auto

lemma a_safe_signed_in [safe_intros]:
  "(\<And>p u. safe (on_db r) (h p u)) \<Longrightarrow> safe (on_db r) (signed_in_endpoint L schema h q)"
  unfolding signed_in_endpoint_def authenticated_endpoint_def by (intro safe_intros i_safe_authenticate)

lemma a_safe_admin [safe_intros]:
  "(\<And>p u. safe (on_db r) (h p u)) \<Longrightarrow> safe (on_db r) (admin_endpoint L S env res act schema h q)"
  unfolding admin_endpoint_def by (intro safe_intros)

lemma a_safe_public [safe_intros]:
  "(\<And>p. safe (on_db r) (h p)) \<Longrightarrow> safe (on_db r) (public_endpoint schema h q)"
  unfolding public_endpoint_def by (intro safe_intros)

lemma a_safe_within_rate [safe_intros]:
  "safe (on_db r) m \<Longrightarrow> safe (on_db r) (within_rate k l t e m)"
  unfolding within_rate_def by (intro safe_intros)

lemma a_safe_turnstile [safe_intros]: "safe (on_db r) (verifyTurnstileToken V url k t i x)"
  by (auto simp: verifyTurnstileToken_def intro!: safe_intros split: sum.splits json.splits)

lemma a_safe_challenge [safe_intros]: "safe (on_db r) (verifyChallengeOrThrow V env e a i tok fo)"
  unfolding verifyChallengeOrThrow_def check_challenge_def provider_error_def recordBotEvent_def
    AuthService_recordSecurityEvent_def metric_defs
  by (intro safe_intros)

lemma a_safe_bot_guard [safe_intros]: "safe (on_db r) (bot_guard V env e m i a tok)"
  unfolding bot_guard_def assessBotRiskForLogin_def recordBotEvent_def AuthService_recordSecurityEvent_def metric_defs
  by (intro safe_intros)

lemma a_safe_login_answer [safe_intros]: "safe (on_db r) (login_answer env o')"
  by (cases o') (auto simp: setAuthCookies_def intro!: safe_intros)

lemma a_safe_signup_route [safe_intros]: "safe (on_db r) (signup_route Z L V env q)"
  unfolding signup_route_def signup_handler_def by (intro safe_intros i_safe_signup)

lemma a_safe_login_route [safe_intros]: "safe (on_db r) (login_route Z L V env q)"
  unfolding login_route_def login_handler_def by (intro safe_intros i_safe_login)

lemma a_safe_google_login_route [safe_intros]: "safe (on_db r) (google_login_route Z L V env q)"
  unfolding google_login_route_def google_login_handler_def by (intro safe_intros i_safe_loginWithGoogle)

lemma a_safe_token_routes [safe_intros]:
  "safe (on_db r) (oauth_token_route dp L env q)" "safe (on_db r) (refresh_route L env q)"
  "safe (on_db r) (oauth_introspection_route L env q)" "safe (on_db r) (oauth_revocation_route L env q)"
  unfolding oauth_token_route_def refresh_route_def oauth_introspection_route_def oauth_revocation_route_def
    for_oauth_client_def toOAuthTokenResponse_def
  by (intro safe_intros i_safe_refresh i_safe_introspect i_safe_revokeByToken)+

lemma a_safe_logout_route [safe_intros]: "safe (on_db r) (logout_route L env q)"
  unfolding logout_route_def authenticated_endpoint_def by (intro safe_intros i_safe_authenticate i_safe_logout)

lemma a_safe_single_use_routes [safe_intros]:
  "safe (on_db r) (email_verify_request_route Z L env q)" "safe (on_db r) (email_verify_confirm_route L q)"
  "safe (on_db r) (password_reset_request_route Z L V env q)" "safe (on_db r) (password_reset_confirm_route L q)"
  unfolding email_verify_request_route_def email_verify_confirm_route_def password_reset_request_route_def
    password_reset_handler_def password_reset_confirm_route_def
  by (intro safe_intros i_safe_request_verification i_safe_confirm_verification i_safe_request_reset
      i_safe_confirm_reset)+

lemma a_safe_user_routes [safe_intros]:
  "safe (on_db r) (me_route L q)" "safe (on_db r) (password_change_route L S' env q)"
  "safe (on_db r) (profile_update_route Z L env q)" "safe (on_db r) (google_link_route L env q)"
  "safe (on_db r) (google_unlink_route L q)" "safe (on_db r) (account_delete_route fuel Z L env q)"
  unfolding me_route_def password_change_route_def profile_update_route_def google_link_route_def
    google_unlink_route_def account_delete_route_def
  by (intro safe_intros)+

lemma a_safe_session_routes [safe_intros]:
  "safe (on_db r) (sessions_route L q)" "safe (on_db r) (session_revoke_route Z L S' q)"
  "safe (on_db r) (session_revoke_all_route L S' q)"
  unfolding sessions_route_def session_revoke_route_def session_revoke_all_route_def by (intro safe_intros)+

lemma a_safe_mfa_routes [safe_intros]:
  "safe (on_db r) (webauthn_options_route Z P W env q)" "safe (on_db r) (webauthn_login_route Z L P W env q)"
  "safe (on_db r) (mfa_enroll_route L q)" "safe (on_db r) (mfa_verify_route fuel Z L env q)"
  "safe (on_db r) (webauthn_register_options_route L P W q)"
  "safe (on_db r) (webauthn_register_route fuel L P W env q)"
  "safe (on_db r) (regenerate_codes_route fuel Z L S' env q)"
  unfolding webauthn_options_route_def createUnavailableWebAuthnOptions_def webauthn_login_route_def
    webauthn_login_handler_def mfa_enroll_route_def mfa_verify_route_def webauthn_register_options_route_def
    webauthn_register_route_def generateCodesIfMissing_def regenerate_codes_route_def regenerate_handler_def
  by (intro safe_intros i_safe_createSessionForUser i_safe_enrollMfa i_safe_regenerateCodes)+

lemma a_safe_check_routes [safe_intros]:
  "safe (on_db r) (authorization_check_route Z L S q)" "safe (on_db r) (entitlement_check_route Z L S q)"
  "safe (on_db r) (my_permissions_route L q)" "safe (on_db r) (access_snapshot_route L S env q')"
  unfolding authorization_check_route_def resolveSubject_def entitlement_check_route_def my_permissions_route_def
    access_snapshot_route_def
  by (intro safe_intros)+

lemma a_safe_config_routes [safe_intros]:
  "safe (on_db r) (configs_route L S env q)" "safe (on_db r) (social_login_route L S env q)"
  "safe (on_db r) (email_template_route L S env q)"
  unfolding configs_route_def social_login_route_def email_template_route_def config_updated_def
    updateSocialLoginConfig_def updateEmailTemplateConfig_def
  by (intro safe_intros)+

lemma a_safe_notifications_route [safe_intros]: "safe (on_db r) (notifications_route Z L S env q)"
  by (auto simp: notifications_route_def config_updated_def updateNotificationConfig_def
      intro!: safe_intros split: parsed.splits)

lemma a_safe_client_routes [safe_intros]:
  "safe (on_db r) (clients_route L S env q)" "safe (on_db r) (client_create_route url L S env q)"
  "safe (on_db r) (client_update_route url i L S env q)" "safe (on_db r) (client_rotate_route i L S env q)"
  "safe (on_db r) (client_status_route st i L S env q)"
  unfolding clients_route_def client_create_route_def client_update_route_def client_rotate_route_def
    client_status_route_def for_client_def
  by (intro safe_intros)+

lemma a_safe_key_routes [safe_intros]:
  "safe (on_db r) (keys_route L S env q)" "safe (on_db r) (key_rotate_route opts K L S env q)"
  "safe (on_db r) (key_emergency_route opts K L S env q)"
  unfolding keys_route_def key_rotate_route_def rotateManual_def key_emergency_route_def rotateEmergency_def
  by (intro safe_intros)+

lemma a_safe_parse [safe_intros]:
  "safe (on_db r) (parseDate R v s)" "safe (on_db r) (decodeCursor R v)" "safe (on_db r) (uuid_filter Z v)"
  unfolding parseDate_def decodeCursor_def uuid_filter_def by (intro safe_intros)+

lemma a_safe_audit_routes [safe_intros]:
  "safe (on_db r) (audit_logs_route R Z L S env q)" "safe (on_db r) (security_events_route R Z L S env q)"
  "safe (on_db r) (integrity_route R L S env q)" "safe (on_db r) (audit_export_route R L S env q)"
  unfolding audit_logs_route_def security_events_route_def integrity_route_def audit_export_route_def createExport_def
  by (intro safe_intros)+

section \<open>The application\<close>

lemma a_safe_answers [safe_intros]:
  "safe (on_db r) m \<Longrightarrow> safe (on_db r) (answered m)" "safe (on_db r) m' \<Longrightarrow> safe (on_db r) (of_route m')"
  "safe (on_db r) m'' \<Longrightarrow> safe (on_db r) (of_status_route m'')"
  "safe (on_db r) n \<Longrightarrow> safe (on_db r) (rendered f n)"
  unfolding answered_def of_route_def of_status_route_def rendered_def by (intro safe_intros; assumption)+

lemma a_safe_own [safe_intros]:
  "safe (on_db r) (readyz D)" "safe (on_db r) (metrics_route D q)" "safe (on_db r) (discovery_route D q)"
  "safe (on_db r) (jwks_route D q)"
  unfolding readyz_def metrics_route_def discovery_route_def jwks_route_def within_discovery_rate_def
    markDependency_def discovery_unavailable_def getPublicJwks_def
  by (auto intro!: safe_intros split: option.splits)

lemmas module_defs = createAuthRoutes_def createUserRoutes_def createSessionRoutes_def createMfaRoutes_def
  createRbacRoutes_def createGovernanceRoutes_def createConfigRoutes_def createOAuthClientRoutes_def
  createKeyManagementRoutes_def createAuditRoutes_def own_routes_def

lemma a_safe_routes: "list_all (\<lambda>(_, _, handler). \<forall>params q. safe (on_db r) (handler params q)) (app_routes D)"
  unfolding app_routes_def module_defs Let_def
  by (simp add: plain_route_def json_route_def client_route_def safe_intros)

lemma a_safe_dispatch [safe_intros]: "safe (on_db r) (dispatch D q)"
proof -
  have "safe (on_db r) (case app_routes D ! i of (_, _, handler) \<Rightarrow> handler params q)"
    if "i < length (app_routes D)" for i params
    using a_safe_routes [of D] that by (auto simp: list_all_length split: prod.splits)
  then show ?thesis
    unfolding dispatch_def Let_def by (auto intro!: safe_intros split: option.splits)
qed

lemma a_safe_serve: "safe (on_db r) (serve D q)"
  unfolding serve_def traced_def observeHttpRequest_def by (intro safe_intros)

lemma a_safe_interaction: "safe (on_db r) (interaction_middleware L env P q)"
  unfolding interaction_middleware_def login_interaction_def submit_login_def finishConsent_def
  by (intro safe_intros i_safe_login)

lemma a_safe_startup: "safe (on_db r) (startup D)"
  unfolding startup_def scheduled_rotation_def rotateIfDue_def getActivePrivateJwks_def by (intro safe_intros)

lemma a_safe_provider_store:
  "safe (on_db r) (adapter_upsert m i p t)" "safe (on_db r) (adapter_consume m i)" "safe (on_db r) (adapter_destroy m i)"
  "safe (on_db r) (revokeByGrantId g)" "safe (on_db r) deleteExpiredOidcProviderStates"
  unfolding adapter_upsert_def adapter_consume_def adapter_destroy_def revokeByGrantId_def
    deleteExpiredOidcProviderStates_def
  by (intro safe_intros safe_write_db safe_update_rows safe_delete_rows a_oidc)+

end

end
