(* ===== verification/ServerHistory.thy ===== *)
theory ServerHistory
  imports ApiWrites AdminRoutesFacts IdpTokens IdpRecovery OidcInteractionsFacts OidcAdapterFacts
begin

text \<open>
  The running server: its requests, the sign-in pages and the storage of the OIDC provider and restarts
  with their key rotation, in any order and with any time in between. The interface \<open>api_writes\<close> is interpreted on the
  histories of sessions, single-use tokens and recovery codes, on the logs and on the well-formed
  tables, and from that come the properties of the server as a whole.
\<close>

section \<open>Runs\<close>

datatype server_step =
    HttpRequest http_request
  | OidcInteraction oidc_api interaction_request
  | ProviderStore oidc_op
  | Startup
  | Elapse nat

fun run_step :: "deployment \<Rightarrow> server_step \<Rightarrow> world \<Rightarrow> world" where
  "run_step D (HttpRequest r) w = snd (serve D r w)"
| "run_step D (OidcInteraction P r) w =
     snd (interaction_middleware (dp_libs D) (app_env.truncate (dp_env D)) P r w)"
| "run_step D (ProviderStore op) w = snd (run_oidc op w)"
| "run_step D Startup w = snd (startup D w)"
| "run_step D (Elapse n) w = w\<lparr>clock := clock w + int n\<rparr>"

definition run_server :: "deployment \<Rightarrow> server_step list \<Rightarrow> world \<Rightarrow> world" where
  "run_server D steps w = fold (run_step D) steps w"

context api_writes
begin

lemma a_safe_store_op: "safe (on_db r) (run_oidc op)"
  by (cases op) (auto intro!: safe_intros a_safe_provider_store)

lemma a_run_step: "r (db w) (db (run_step D step w))"
  by (cases step)
    (simp_all add: db_refl a_safe_serve [THEN safeD, unfolded on_db_def]
      a_safe_interaction [THEN safeD, unfolded on_db_def] a_safe_startup [THEN safeD, unfolded on_db_def]
      a_safe_store_op [THEN safeD, unfolded on_db_def])

lemma a_run_server: "r (db w) (db (run_server D steps w))"
proof (induction steps arbitrary: w)
  case (Cons step steps)
  from db_trans [OF a_run_step Cons.IH [of "run_step D step w"]]
  show ?case by (simp add: run_server_def)
qed (simp add: run_server_def db_refl)

end

section \<open>Interpretations\<close>

interpretation api_sessions: api_writes session_history
proof unfold_locales
qed (auto intro: session_history_same)

interpretation api_reset_tokens: api_writes "tokens_kept passwordResetTokens"
proof unfold_locales
qed (auto intro: tokens_kept_same)

interpretation api_email_tokens: api_writes "tokens_kept emailVerificationTokens"
proof unfold_locales
qed (auto intro: tokens_kept_same)

interpretation api_logs: api_writes logs_grow
proof unfold_locales
qed (auto simp: logs_grow_def)

interpretation api_codes: api_writes codes_kept
proof unfold_locales
qed (auto intro: codes_kept_same)

text \<open>Well-formed tables.\<close>

lemma user_exists_api [simp]:
  "user_exists (systemConfigs_update f d) = user_exists d" "user_exists (signingKeys_update f1 d) = user_exists d"
  "user_exists (oauthClients_update f2 d) = user_exists d" "user_exists (oauthClientSecrets_update f3 d) = user_exists d"
  "user_exists (oauthClientRedirectUris_update f4 d) = user_exists d"
  "user_exists (oauthClientScopes_update f5 d) = user_exists d"
  "user_exists (oauthClientAuditLogs_update f6 d) = user_exists d"
  "user_exists (oidcProviderStates_update f7 d) = user_exists d"
  by (auto simp: user_exists_def fun_eq_iff)

lemma mark_keeps_id: "u_id (mark_deleted_row t a b u) = u_id u"
  by (simp add: mark_deleted_row_def)

lemma marked_users [simp]:
  "uniq_users (update_where p (mark_deleted_row t a b) us) = uniq_users us"
  "user_exists (users_update (update_where p (mark_deleted_row t a b)) d) = user_exists d"
  "uniq_factors (update_where pk (\<lambda>f. f\<lparr>mf_webauthnData := v\<rparr>) fs) = uniq_factors fs"
  by (simp_all add: uniq_users_def user_exists_def uniq_factors_def mark_keeps_id fun_eq_iff)

interpretation api_wf: api_writes "keeps idp_well_formed"
proof unfold_locales
qed (simp_all add: keeps_def idp_well_formed_def well_formed_def unique_keys_def references_users_def
       owners_kept uniq_delete_identities ball_update_where [where g = pf_userId])

text \<open>Accounts: no user row goes, and one marked as deleted stays so.\<close>

definition user_evolves :: "user_row \<Rightarrow> user_row \<Rightarrow> bool" where
  "user_evolves u u' \<longleftrightarrow> u_id u' = u_id u \<and> (u_status u = ''deleted'' \<longrightarrow> u_status u' = ''deleted'')"

definition users_kept :: "database \<Rightarrow> database \<Rightarrow> bool" where
  "users_kept d d' \<longleftrightarrow> (\<forall>u \<in> set (users d). \<exists>u' \<in> set (users d'). user_evolves u u')"

lemma users_kept_trans: "users_kept a b \<Longrightarrow> users_kept b c \<Longrightarrow> users_kept a c"
  unfolding users_kept_def user_evolves_def by metis

lemma users_kept_same: "set (users d) \<subseteq> set (users d') \<Longrightarrow> users_kept d d'"
  by (auto simp: users_kept_def user_evolves_def)

lemma users_kept_mark: "users_kept d (users_update (update_where p (mark_deleted_row t a b)) d)"
  unfolding users_kept_def
proof
  fix u assume "u \<in> set (users d)"
  from in_update_where [OF this, of p "mark_deleted_row t a b"]
  show "\<exists>u' \<in> set (users (users_update (update_where p (mark_deleted_row t a b)) d)). user_evolves u u'"
    by (intro bexI [where x = "if p u then mark_deleted_row t a b u else u"])
      (simp_all add: user_evolves_def mark_deleted_row_def)
qed

interpretation api_users: api_writes users_kept
proof unfold_locales
qed (auto intro: users_kept_same users_kept_mark elim: users_kept_trans)

section \<open>Endpoints behind authentication\<close>

definition public_endpoints :: "(string \<times> string) list" where
  "public_endpoints = map (Pair ''POST'')
     [''/v1/signup'', ''/v1/login'', ''/v1/login/google'', ''/oauth/token'', ''/v1/token/refresh'',
      ''/oauth/introspection'', ''/oauth/revocation'', ''/v1/email/verify/request'', ''/v1/email/verify/confirm'',
      ''/v1/password/reset/request'', ''/v1/password/reset/confirm'', ''/v1/mfa/webauthn/authenticate/options'',
      ''/v1/mfa/webauthn/authenticate/verify''] @
   map (Pair ''GET'')
     [''/healthz'', ''/readyz'', ''/metrics'', ''/.well-known/openid-configuration'', ''/.well-known/jwks.json'']"

text \<open>
  A request is admitted when it presents a token that authenticates, in its header or, in a cookie,
  with a safe method or the CSRF header of the same site.
\<close>

definition admitted :: "libs \<Rightarrow> web_request \<Rightarrow> world \<Rightarrow> bool" where
  "admitted L r w \<longleftrightarrow> (\<exists>token auth. presents r token \<and> (by_bearer r \<or> isSafeMethod (wr_method r) \<or> same_site r) \<and>
     fst (AuthService_authenticateAccessToken L token w) = Inr auth)"

definition refusal :: "err \<Rightarrow> bool" where
  "refusal e \<longleftrightarrow> (\<exists>status code message. e = ApiError status code message \<and> status \<in> {401, 403})"

definition turned_away :: "world \<Rightarrow> 'a io \<Rightarrow> bool" where
  "turned_away w m \<longleftrightarrow> (\<exists>e. refusal e \<and> m w = (Inl e, w))"

lemma turned_away_bind [simp]: "turned_away w m \<Longrightarrow> turned_away w (bind m f)"
  by (auto simp: turned_away_def bind_def)

lemma refused_authentication:
  assumes "fst (AuthService_authenticateAccessToken L token w) = Inl e"
  shows "refusal e \<and> AuthService_authenticateAccessToken L token w = (Inl e, w)"
  using assms by (auto simp: idp_authenticate_run refusal_def bad_access_def not_active_def split: option.splits if_splits)

lemma refused_endpoint:
  assumes "\<not> admitted L r w"
  shows "turned_away w (authenticated_endpoint schema (AuthService_authenticateAccessToken L) h r)"
proof (cases "getTokenFromRequest (wr_authorization r) (wr_cookie r)")
  case (Inl e)
  then have "refusal e"
    by (auto simp: getTokenFromRequest_def unauthorized_def refusal_def Let_def split: option.splits if_splits)
  with Inl show ?thesis by (simp add: authenticated_endpoint_def turned_away_def throw_run)
next
  case (Inr ts)
  obtain token src where ts: "ts = (token, src)" by (cases ts)
  from Inr ts have t: "presents r token" "src = (if by_bearer r then FromBearer else FromCookie)"
    using getTokenFromRequest_ok by auto
  show ?thesis
  proof (cases "csrf_ok (wr_method r) src (wr_cookie r) (wr_csrf r)")
    case True
    with assms t obtain e where "fst (AuthService_authenticateAccessToken L token w) = Inl e"
      unfolding admitted_def t(2) csrf_ok_iff by (metis sum.exhaust)
    from refused_authentication [OF this] True Inr ts show ?thesis
      by (auto simp: authenticated_endpoint_def turned_away_def bind_run)
  next
    case False
    with Inr ts show ?thesis by (simp add: authenticated_endpoint_def turned_away_def throw_run refusal_def)
  qed
qed

lemma truncated_request [simp]:
  "web_request.truncate (auth_request.truncate r) = web_request.truncate r"
  by (simp add: web_request.defs auth_request.defs)

lemma refused_signed_in: "\<not> admitted L (web_request.truncate r) w \<Longrightarrow> turned_away w (signed_in_endpoint L schema h r)"
  by (simp add: signed_in_endpoint_def refused_endpoint)

lemma refused_admin:
  "\<not> admitted L (web_request.truncate r) w \<Longrightarrow> turned_away w (admin_endpoint L S env resource action schema h r)"
  by (simp add: admin_endpoint_def refused_signed_in)

lemma refused_answers [simp]:
  "turned_away w m \<Longrightarrow> turned_away w (answered m)" "turned_away w m' \<Longrightarrow> turned_away w (of_route m')"
  "turned_away w m'' \<Longrightarrow> turned_away w (of_status_route m'')" "turned_away w n \<Longrightarrow> turned_away w (rendered f n)"
  by (simp_all add: answered_def of_route_def of_status_route_def rendered_def)

lemma refused_account_routes:
  fixes q :: auth_request
  assumes "\<not> admitted L (web_request.truncate q) w"
  shows "turned_away w (logout_route L env q)"
    "turned_away w (me_route L q)" "turned_away w (password_change_route L S' env q)"
    "turned_away w (profile_update_route Z L env q)" "turned_away w (google_link_route L env q)"
    "turned_away w (google_unlink_route L q)" "turned_away w (account_delete_route fuel Z L env q)"
    "turned_away w (sessions_route L q)" "turned_away w (session_revoke_route Z L S' q)"
    "turned_away w (session_revoke_all_route L S' q)" "turned_away w (mfa_enroll_route L q)"
    "turned_away w (mfa_verify_route fuel Z L env q)" "turned_away w (webauthn_register_options_route L P W q)"
    "turned_away w (webauthn_register_route fuel L P W env q)"
    "turned_away w (regenerate_codes_route fuel Z L S' env q)" "turned_away w (authorization_check_route Z L S q)"
    "turned_away w (entitlement_check_route Z L S q)" "turned_away w (my_permissions_route L q)"
  unfolding logout_route_def me_route_def password_change_route_def profile_update_route_def google_link_route_def
    google_unlink_route_def account_delete_route_def sessions_route_def session_revoke_route_def
    session_revoke_all_route_def mfa_enroll_route_def mfa_verify_route_def webauthn_register_options_route_def
    webauthn_register_route_def regenerate_codes_route_def authorization_check_route_def entitlement_check_route_def
    my_permissions_route_def
  using assms by (rule refused_endpoint refused_signed_in)+

lemma refused_admin_routes:
  fixes q :: admin_http
  assumes "\<not> admitted L (web_request.truncate q) w"
  shows "turned_away w (configs_route L S env q)" "turned_away w (social_login_route L S env q)"
    "turned_away w (notifications_route Z L S env q)" "turned_away w (email_template_route L S env q)"
    "turned_away w (keys_route L S env q)" "turned_away w (key_rotate_route opts K L S env q)"
    "turned_away w (key_emergency_route opts K L S env q)" "turned_away w (clients_route L S env q)"
    "turned_away w (client_create_route url L S env q)" "turned_away w (client_update_route url i L S env q)"
    "turned_away w (client_rotate_route i L S env q)" "turned_away w (client_status_route st i L S env q)"
    "turned_away w (access_snapshot_route L S env q)" "turned_away w (audit_logs_route R Z L S env q)"
    "turned_away w (security_events_route R Z L S env q)" "turned_away w (integrity_route R L S env q)"
    "turned_away w (audit_export_route R L S env q)"
  unfolding configs_route_def social_login_route_def notifications_route_def email_template_route_def keys_route_def
    key_rotate_route_def key_emergency_route_def clients_route_def client_create_route_def client_update_route_def
    client_rotate_route_def client_status_route_def access_snapshot_route_def audit_logs_route_def
    security_events_route_def integrity_route_def audit_export_route_def
  using assms by (simp_all add: refused_admin refused_signed_in)

lemma refused_routes:
  assumes "\<not> admitted (dp_libs D) (web_request.truncate q) w"
  shows "list_all (\<lambda>(method, path, handler). (method, path) \<in> set public_endpoints \<or>
    (\<forall>params. turned_away w (handler params q))) (app_routes D)"
  using assms
  by (simp add: app_routes_def createAuthRoutes_def createUserRoutes_def createSessionRoutes_def createMfaRoutes_def
      createRbacRoutes_def createGovernanceRoutes_def createConfigRoutes_def createOAuthClientRoutes_def
      createKeyManagementRoutes_def createAuditRoutes_def own_routes_def public_endpoints_def Let_def
      plain_route_def json_route_def client_route_def refused_account_routes refused_admin_routes)

section \<open>Requests without a session\<close>

definition routed :: "deployment \<Rightarrow> admin_http \<Rightarrow> (string \<times> string) option" where
  "routed D r = (let names = map (\<lambda>(method, path, _). (method, path)) (app_routes D) in
     case dp_match D names (wr_method r) (rq_path r) of
       None \<Rightarrow> None | Some (i, _) \<Rightarrow> if i < length names then Some (names ! i) else None)"

definition protected :: "deployment \<Rightarrow> http_request \<Rightarrow> bool" where
  "protected D r \<longleftrightarrow> (\<exists>e. routed D (admin_http.truncate r) = Some e \<and> e \<notin> set public_endpoints)"

definition closed :: "deployment \<Rightarrow> http_request \<Rightarrow> world \<Rightarrow> bool" where
  "closed D r w \<longleftrightarrow> (\<exists>a traceId w'. serve D r w = (Inr \<lparr>hr_answer = a, hr_traceId = traceId\<rparr>, w') \<and>
     ha_status a \<in> {401, 403} \<and> db w' = db w \<and> redis w' = redis w)"

lemma request_fields [simp]:
  "web_request.truncate (admin_http.truncate r) = web_request.truncate r"
  "wr_method (admin_http.truncate r) = wr_method r" "rq_path (admin_http.truncate r) = rq_path r"
  by (simp_all add: admin_http.defs web_request.defs)

lemma admitted_frame:
  assumes "db w' = db w" and "clock w' = clock w"
  shows "admitted L r w' = admitted L r w"
proof -
  have "fst (AuthService_authenticateAccessToken L token w') = fst (AuthService_authenticateAccessToken L token w)" for token
    using assms by (simp add: idp_authenticate_run split: option.split)
  then show ?thesis by (simp add: admitted_def)
qed

lemma dispatch_turned_away:
  assumes "protected D r" and "\<not> admitted (dp_libs D) (web_request.truncate r) w"
  shows "turned_away w (dispatch D (admin_http.truncate r))"
proof -
  let ?q = "admin_http.truncate r"
  from assms(1) obtain i params where m: "dp_match D (map (\<lambda>(method, path, _). (method, path)) (app_routes D))
      (wr_method r) (rq_path r) = Some (i, params)" "i < length (app_routes D)"
    "(case app_routes D ! i of (method, path, _) \<Rightarrow> (method, path)) \<notin> set public_endpoints"
    by (auto simp: protected_def routed_def Let_def split: option.splits if_splits)
  have "turned_away w ((case app_routes D ! i of (_, _, handler) \<Rightarrow> handler) params ?q)"
    using refused_routes [of D ?q w] assms(2) m(2,3) by (fastforce simp: list_all_length split: prod.splits)
  moreover have "dispatch D ?q = (case app_routes D ! i of (_, _, handler) \<Rightarrow> handler) params ?q"
    using m by (simp add: dispatch_def Let_def split: prod.split)
  ultimately show ?thesis by simp
qed

lemma protected_closed:
  assumes "protected D r" and "\<not> admitted (dp_libs D) (web_request.truncate r) w"
  shows "closed D r w"
proof -
  obtain traceId v where v: "traced r w = (Inr traceId, v)" "db v = db w" "clock v = clock w" "redis v = redis w"
    by (cases "hq_span r") (auto simp: traced_def run_simps)
  have "\<not> admitted (dp_libs D) (web_request.truncate r) v"
    using assms(2) admitted_frame [OF v(2,3)] by simp
  from dispatch_turned_away [OF assms(1) this] obtain e where
    e: "refusal e" "dispatch D (admin_http.truncate r) v = (Inl e, v)"
    by (auto simp: turned_away_def)
  from e(1) have "ha_status (handleError traceId e) \<in> {401, 403}"
    by (auto simp: refusal_def handleError_def json_answer_def)
  with v e(2) show ?thesis
    by (simp add: closed_def serve_def bind_run try_catch_run ret_run observeHttpRequest_def Let_def emit_run)
qed

text \<open>
  C3: Every endpoint that is not one of the eighteen public ones is closed to a caller without a session:
  a request that presents no token that authenticates, or presents it in a cookie without the CSRF
  header of the same site, is answered with 401 or 403, and neither the database nor Redis changes.
\<close>

theorem protected_endpoints_closed:
  assumes "protected D r" and "\<not> admitted (dp_libs D) (web_request.truncate r) w"
  shows "closed D r w"
  using assms by (rule protected_closed)

lemma presents_one: "presents r t \<Longrightarrow> presents r t' \<Longrightarrow> t = t'"
  by (auto simp: presents_def split: option.splits if_splits)

lemma revoked_later:
  assumes "uniq_sessions (userSessions (db w))" and "s \<in> set (userSessions (db w))" and "us_revokedAt s \<noteq> None"
  obtains s' where "uniq_sessions (userSessions (db (run_server D steps w)))"
    "s' \<in> set (userSessions (db (run_server D steps w)))" "us_revokedAt s' \<noteq> None"
    "us_accessTokenHash s' = us_accessTokenHash s" "us_refreshTokenHash s' = us_refreshTokenHash s"
  using api_sessions.a_run_server [of w D steps] assms unfolding session_history_def session_evolves_def by blast

lemma revoked_refused:
  assumes "uniq_sessions (userSessions (db v))" and "s \<in> set (userSessions (db v))" and "us_revokedAt s \<noteq> None"
    and "hashOpaqueToken L access = us_accessTokenHash s" and "hashOpaqueToken L refresh' = us_refreshTokenHash s"
  shows "fst (AuthService_authenticateAccessToken L access v) = Inl bad_access"
    and "fst (AuthService_refresh L env refresh' v) = Inl bad_refresh"
    and "fst (AuthService_introspectToken L access v) = Inr None"
proof -
  have "\<not> live_access (clock v) (hashOpaqueToken L access) q" if "q \<in> set (userSessions (db v))" for q
  proof
    assume "live_access (clock v) (hashOpaqueToken L access) q"
    then have "us_accessTokenHash q = us_accessTokenHash s" "us_revokedAt q = None"
      by (simp_all add: live_access_def assms(4))
    with uniq_session_access [OF assms(1,2) that] assms(3) show False by simp
  qed
  then show "fst (AuthService_authenticateAccessToken L access v) = Inl bad_access" by (rule idp_authenticate_refused)
  have "\<not> live_refresh (clock v) (hashOpaqueToken L refresh') q" if "q \<in> set (userSessions (db v))" for q
  proof
    assume "live_refresh (clock v) (hashOpaqueToken L refresh') q"
    then have "us_refreshTokenHash q = us_refreshTokenHash s" "us_revokedAt q = None"
      by (simp_all add: live_refresh_def assms(5))
    with uniq_session_refresh [OF assms(1,2) that] assms(3) show False by simp
  qed
  then show "fst (AuthService_refresh L env refresh' v) = Inl bad_refresh"
    using idp_refresh_refused [of v L refresh' env] by (metis fst_conv)
  have "us_revokedAt q \<noteq> None" if "q \<in> set (userSessions (db v))" "us_accessTokenHash q = hashOpaqueToken L access" for q
    using uniq_session_access [OF assms(1,2) that(1)] that(2) assms(3,4) by simp
  then show "fst (AuthService_introspectToken L access v) = Inr None"
    using with_status_Some [of "db v" "\<lambda>q. us_accessTokenHash q = hashOpaqueToken L access"]
    by (cases "with_status (db v) (\<lambda>q. us_accessTokenHash q = hashOpaqueToken L access)")
      (fastforce simp: idp_introspect_run)+
qed

text \<open>
  C2: A session that was revoked never comes back, whatever requests, sign-ins through the OIDC provider,
  writes of its storage and restarts follow and however long they take: every request with its access token to an endpoint that is
  not public is answered with 401 or 403 and changes nothing, its refresh token buys no new tokens, and
  its access token introspects as inactive.
\<close>

theorem revoked_session_never_returns:
  assumes "uniq_sessions (userSessions (db w))" and "s \<in> set (userSessions (db w))" and "us_revokedAt s \<noteq> None"
    and "hashOpaqueToken (dp_libs D) access = us_accessTokenHash s"
    and "hashOpaqueToken (dp_libs D) refresh' = us_refreshTokenHash s"
    and "w' = run_server D steps w"
  shows "(\<forall>r. protected D r \<and> presents (web_request.truncate r) access \<longrightarrow> closed D r w') \<and>
    fst (AuthService_refresh (dp_libs D) env refresh' w') = Inl bad_refresh \<and>
    fst (AuthService_introspectToken (dp_libs D) access w') = Inr None"
proof -
  from revoked_later [OF assms(1-3)] assms(6) obtain s' where s': "uniq_sessions (userSessions (db w'))"
    "s' \<in> set (userSessions (db w'))" "us_revokedAt s' \<noteq> None"
    "us_accessTokenHash s' = us_accessTokenHash s" "us_refreshTokenHash s' = us_refreshTokenHash s"
    by blast
  note dead = revoked_refused [OF s'(1-3), of "dp_libs D" access refresh', unfolded s'(4,5), OF assms(4,5)]
  have "\<not> admitted (dp_libs D) (web_request.truncate r) w'" if "presents (web_request.truncate r) access" for r :: http_request
    using dead(1) presents_one [OF that] by (auto simp: admitted_def)
  then show ?thesis using dead(2,3) protected_closed by blast
qed

section \<open>What the server never undoes\<close>

lemma consumed_later:
  assumes "tokens_kept tbl d d'" and "uniq_tokens (tbl d)"
  shows "\<forall>k \<in> set (tbl d). tk_consumedAt k \<noteq> None \<longrightarrow>
    (\<exists>k' \<in> set (tbl d'). tk_tokenHash k' = tk_tokenHash k \<and> tk_consumedAt k' \<noteq> None)"
  using assms unfolding tokens_kept_def token_evolves_def by metis


section \<open>Samples\<close>

text \<open>A router that takes patterns as paths.\<close>

fun position_of :: "'a \<Rightarrow> 'a list \<Rightarrow> nat option" where
  "position_of x [] = None"
| "position_of x (y # ys) = (if y = x then Some 0 else map_option Suc (position_of x ys))"

definition exact_router :: "(string \<times> string) list \<Rightarrow> string \<Rightarrow> string \<Rightarrow> (nat \<times> (string \<Rightarrow> string)) option" where
  "exact_router names method path = map_option (\<lambda>i. (i, \<lambda>_. [])) (position_of (method, path) names)"

definition sample_reader :: text_reader where
  "sample_reader = \<lparr>js_date = (\<lambda>_. None), js_floor = (\<lambda>_. None), datetime_text = (\<lambda>_. False), id_position = (\<lambda>_. 0)\<rparr>"

definition sample_deployment :: deployment where
  "sample_deployment = \<lparr>dp_env = sample_server, dp_libs = sample_libs, dp_zod = sample_zod, dp_turnstile = sample_siteverify,
     dp_passkeys = sample_webauthn, dp_keys = sample_key_libs, dp_reader = sample_reader, dp_url = (\<lambda>_. True),
     dp_date_parse = (\<lambda>_. 0), dp_fetch = (\<lambda>_. None), dp_redis = Some ''PONG'', dp_db = True, dp_render = (\<lambda>_. []),
     dp_match = exact_router, dp_fuel = 100\<rparr>"

definition sample_get :: "string \<Rightarrow> string option \<Rightarrow> http_request" where
  "sample_get path authorization = \<lparr>wr_method = ''GET'', wr_authorization = authorization, wr_cookie = None, wr_csrf = None,
     wr_contentType = None, wr_body = None, wr_form = JNull, rq_forwardedFor = None, rq_userAgent = None, rq_deviceId = None,
     rq_path = path, rq_query = (\<lambda>_. None), hq_span = None\<rparr>"

lemma sample_routed: "routed sample_deployment (admin_http.truncate (sample_get ''/v1/me'' a)) = Some (''GET'', ''/v1/me'')"
  by (simp add: routed_def sample_deployment_def sample_get_def exact_router_def admin_http.defs app_routes_def
      createAuthRoutes_def createUserRoutes_def Let_def)

lemma sample_protected: "protected sample_deployment (sample_get ''/v1/me'' a)"
  by (simp add: protected_def sample_routed public_endpoints_def)

theorem protected_endpoints_closed_witness: "closed sample_deployment (sample_get ''/v1/me'' None) (sample_world sample_db)"
proof (rule protected_endpoints_closed)
  show "protected sample_deployment (sample_get ''/v1/me'' None)" by (rule sample_protected)
  have "\<not> presents (web_request.truncate (sample_get ''/v1/me'' None)) token" for token
    by (simp add: presents_def sample_get_def web_request.defs parseCookieHeader_def)
  then show "\<not> admitted (dp_libs sample_deployment) (web_request.truncate (sample_get ''/v1/me'' None)) (sample_world sample_db)"
    by (simp add: admitted_def)
qed

definition ended_session :: session_row where
  "ended_session = sample_session\<lparr>us_revokedAt := Some 5, us_accessTokenHash := sha256 sample_libs user_token\<rparr>"

definition ended_world :: world where
  "ended_world = sample_world (sample_db\<lparr>userSessions := [ended_session]\<rparr>)"

theorem revoked_session_never_returns_witness:
  "closed sample_deployment (sample_get ''/v1/me'' (Some (''Bearer '' @ user_token)))
     (run_server sample_deployment [HttpRequest (sample_get ''/v1/me'' None), Elapse 5, Startup] ended_world)"
proof -
  have "uniq_sessions (userSessions (db ended_world))" "ended_session \<in> set (userSessions (db ended_world))"
    "us_revokedAt ended_session \<noteq> None" "hashOpaqueToken (dp_libs sample_deployment) user_token = us_accessTokenHash ended_session"
    "hashOpaqueToken (dp_libs sample_deployment) ''b'' = us_refreshTokenHash ended_session"
    by (simp_all add: ended_world_def ended_session_def sample_deployment_def sample_defs uniq_defs hashOpaqueToken_def)
  note gone = revoked_session_never_returns [OF this refl]
  have "presents (web_request.truncate (sample_get ''/v1/me'' (Some (''Bearer '' @ user_token)))) user_token"
    by code_simp
  with gone sample_protected show ?thesis by blast
qed

definition deleted_world :: world where
  "deleted_world = sample_world (empty_database\<lparr>users := [sample_user\<lparr>u_status := ''deleted''\<rparr>]\<rparr>)"

lemma deleted_world_ok: "idp_well_formed (db deleted_world)"
  by (simp add: deleted_world_def idp_well_formed_def well_formed_def unique_keys_def references_users_def uniq_defs
      uniq_profiles_def uniq_recovery_def sample_world_def empty_database_def)


end
