(* ===== verification/Spec2Isabelle.thy ===== *)
theory Spec2Isabelle
  imports AuthCoreAccountFacts AuthCoreAuthorization AuditTrailFacts RateLimiter MfaFacts
    ConfigService RbacServiceFacts DataRetention KeyStore OidcAdapterFacts WebAuthn
    ServerSdkFacts EnvSchema WebRequestsFacts UserServiceFacts ExampleBffFacts
    AuthRoutesFacts OidcInteractionsFacts AdminRoutesFacts AuditRoutesFacts ServerHistory
    AccountDeletionFacts IdpRecovery IdpLogin IdpTokens
begin

text \<open>
  A model of gxp-idProvider, an identity provider in TypeScript, with the properties that make its
  parts correct.

  The program. The package auth-core (packages/auth-core) holds the authentication service, the
  key store, the settings store and passkeys; packages/db the schema; packages/server-sdk the client
  for relying parties. The server apps/idp-server builds an HTTP API on repositories over the same
  tables: sign-in with passwords, Google, TOTP, recovery codes and adaptive risk, sessions and their
  rotation, roles and entitlements with a cache, OAuth clients, storage for the oidc-provider
  package, audit log with a hash chain, account deletion and data retention. Everything meets in
  the database; rate limits, cached decisions and passkey challenges are in Redis.

  The model. A service method is an action \<open>'w \<Rightarrow> (err + 'a) \<times> 'w\<close> (Prelude): it returns a value or an
  error, with the world as it leaves it. The world of the server (Schema) has the tables as lists of
  rows, the clock, the random draws still to come, Redis and the metrics and log lines emitted. A
  transaction restores the database when its body throws; unique indexes and foreign keys are the
  checks of the insertions and updates, which fail with the SQLSTATE PostgreSQL gives. Instants are
  milliseconds, as \<open>Date\<close> has them; where PostgreSQL itself dates a row, the row also has its
  microseconds, which every order by \<open>created_at\<close> sees and no cursor carries. Handlers run
  one after the other: what two requests can do to each other between two statements is not
  modelled, except where a lemma starts from the state in between (first_profile_race).

  The endpoints compose all of this: an endpoint is a function of its libraries, settings and request
  that parses the payload, authenticates, asks the rate limiter and the challenge, runs the services
  and sets cookies. The server SDK talks to the provider from the other side, over HTTP only; the
  example backend composes it with sealed cookies of its own.

  Parameters. What is not under src/ is an argument: SHA-256, HMAC, argon2, TOTP, Google's token
  verifier, the collation of the database and the text of an instant are the record \<open>libs\<close>
  (Platform). The record also has when argon2 rejects a stored text, and the \<open>error.code\<close> the client of
  the database shows for a SQLSTATE: drizzle-orm 0.45.2 wraps the errors of the driver, so it shows none.
  Further arguments are key generation and JSON Web Keys (KeyStore), the WebAuthn package (WebAuthn), HTTP
  answers and signature checks (ServerSdk), what counts as a URL (EnvSchema), the patterns of the zod
  package (RequestSchemas), the verification service of Turnstile (AuthRoutes), the oidc-provider
  package (OidcInteractions), the reading of dates and numbers from query texts (AuditRoutes), the HMAC
  and the URL class (ExampleBff). Theorems that rest on
  their behaviour say so in a hypothesis, such as the absence of a collision. Samples has simple
  instances, used by the witnesses only.

  The parts.
  \<^item> Prelude, Json, JsonText, Bytes, Returns: actions and the frame rule \<open>safe\<close> (a step keeps a
    preorder on worlds; the locales \<open>effect_order\<close> and \<open>db_order\<close> with their interpretations give it for the tables),
    lists of rows, JavaScript values, JSON.stringify and JSON.parse with their round trip, UTF-8,
    base64, and when a step returns (\<open>ok_iffs\<close>).
  \<^item> Schema, Platform: packages/db/src/schema.ts, tokens and passwords, metrics.
  \<^item> AuthCoreBase, AuthCoreSessions, AuthCoreAccounts: packages/auth-core/src/auth-service.ts.
    AuthCoreWrites, AuthCoreInvariants and AuthCoreHistory prove what every sequence of operations
    keeps (keys, append-only logs, the life of sessions and tokens); AuthCoreTokens,
    AuthCoreAccountFacts and AuthCoreAuthorization have the properties.
  \<^item> AuditTrail: modules/audit/audit.repository.ts; AuditTrailFacts: listings are complete, the
    integrity check is exact.
  \<^item> RateLimiter: core/rate-limiter.ts, with the number of requests a window admits.
  \<^item> Mfa, MfaFacts, IdpRecovery: modules/mfa; how recovery codes are drawn, used and replaced.
  \<^item> ConfigService: packages/auth-core/src/config-service.ts; a locale for a slot of settings,
    interpreted for each of them.
  \<^item> IdpEnv, EnvSchema: config/env.ts; loadEnv and what settings that load satisfy.
  \<^item> IdpRepositories, IdpAuth: the repositories and modules/auth/auth.service.ts; IdpWrites,
    IdpTokens and IdpLogin: histories, rotation and replay, sign-in.
  \<^item> Rbac, RbacService, RbacServiceFacts: modules/rbac; agreement with auth-core, and how old a
    cached answer can be.
  \<^item> AccountDeletion, AccountDeletionFacts, DataRetention: modules/users/account-deletion.* and jobs.
  \<^item> KeyStore: packages/auth-core/src/key-store-service.ts.
  \<^item> OAuthClients, OidcAdapter with their Facts: modules/oauth-clients, core/oauth-client-auth.ts,
    core/oidc-provider-adapter.ts; exact client authentication, rotation of secrets, the adapter as
    an abstract expiring store.
  \<^item> WebAuthn: packages/auth-core/src/webauthn-service.ts.
  \<^item> SdkEncoding, ServerSdk, ServerSdkFacts: packages/server-sdk/src/index.ts.
  \<^item> WebRequests, WebRequestsFacts: cookies, CSRF and the adapters of the endpoints.
  \<^item> UserService, UserServiceFacts: modules/users, modules/sessions, the admin guard, the claims of
    an account.
  \<^item> RequestSchemas: packages/shared/src/schemas, as partial functions from JSON.
  \<^item> AuthRoutes, AuthRoutesFacts: modules/auth/auth.routes.ts, core/turnstile.ts and the revocation
    endpoint; what a login needs, that its cookies authenticate, and what is refused before a
    service runs.
  \<^item> AccountRoutes, AccountRoutesFacts: the endpoints of modules/users, modules/mfa, modules/sessions
    and modules/rbac for signed-in users; passkeys, and the proof new recovery codes need.
  \<^item> AdminRoutes, AdminRoutesFacts: modules/config, modules/keys, modules/oauth-clients and the access
    snapshot with the schemas of admin.ts; no endpoint runs without its permission.
  \<^item> AuditRoutes, AuditRoutesFacts: modules/audit/audit.routes.ts and audit-export.service.ts; cursors
    read back, and what an export holds.
  \<^item> OidcInteractions, OidcInteractionsFacts: core/oidc-interactions.ts; escaping of the pages and
    what a login interaction needs.
  \<^item> ExampleBff, ExampleBffFacts: apps/example-bff; sealed cookies and the life of a local session.
  \<^item> ServerApp: app.ts, index.ts and core/security-notifier.ts; the table of every route, the guards
    around it, error answers, metrics, readiness, the provider mounted beside it, and the start of
    the process with its key rotation.
  \<^item> ApiWrites: the locale \<open>api_writes\<close>; what every endpoint, provider sign-in and start keeps of the
    world, from laws on the updates they are made of.
  \<^item> ServerHistory: runs of the whole server, as sequences of requests, interactions, writes of the
    provider's storage, starts and time; \<open>api_writes\<close> interpreted for sessions, tokens, codes, logs,
    users and the keys of the tables.

  Bounds. Strings are lists of 8-bit code units, numbers integers; where a double matters (the
  watermark of IdpAuth) the rounding is written out. The loops that may not end are options
  (DataRetention, the drawing of codes in Mfa), and that they end is proved or characterised. The
  fuel of the JSON parser is the length of its text, which the round trip shows to be enough; the
  64 doublings of \<open>double_of\<close> cover every quotient up to 2^53.

  The export loop ends since every page that has a successor has rows; its bound of 10000 records is a
  multiple of the page size, so it takes the newest 10000 rows exactly, provided that of two rows in
  one millisecond none has microseconds: otherwise a row can fall between two pages
  (page_skips_microseconds).

  Not modelled. A run of ServerHistory has no step for the jobs of data retention and of account
  deletion, which erase rows by design: DataRetention and AccountDeletion say what they erase.
  Durations of requests, logging and tracing, and the contract tests are I/O or data. The router of
  hono, the HTTP client and the registry of metrics are libraries: a route table is a function of
  method and path. The admin UI renders answers of the server; the OIDC client SDK forwards to the
  server SDK; the mobile SDKs are in other languages. The configuration of the oidc-provider package
  is data of that package. The loops over the secrets of an OAuth client take the answer of argon2
  alone: they read hashes which the registry wrote itself, and that argon2 rejects one of them is not
  modelled. The callback for passkey events is not awaited by the code and cannot fail here. JSON texts
  whose numbers have a fraction or an exponent, or whose escapes are above 00FF, are refused where
  JSON.parse accepts them: numbers are integers and strings bytes. Of numbers in requests only whole
  ones are modelled, of UUIDs in answers the canonical text.
\<close>

end
